(* ===== verification/Py_String.thy ===== *)
theory Py_String
  imports Prelude "HOL-Library.Sublist"
begin

text \<open>
  Python strings and the regular expressions the repository uses.

  A Python \<open>str\<close> is represented by its UTF-8 encoding, a list of bytes: \<open>encode("utf-8")\<close>
  is then the identity, \<open>len(s.encode("utf-8"))\<close> is \<open>length\<close>, and the order of code points is
  the lexicographic order of the bytes. The identifier, option and digest patterns are
  ASCII, so on them bytes and characters coincide. White space (\<open>str.isspace\<close>, which is also
  the class \<open>\s\<close> of a text pattern) is listed as UTF-8 sequences, which makes
  \<open>strip\<close> exact for text beyond ASCII. A lone surrogate has no UTF-8 encoding (the interpreter
  raises on \<open>encode\<close>) and is outside the model.
\<close>

section \<open>Characters\<close>

definition ord :: "char \<Rightarrow> int" where
  "ord c = of_char c"

definition is_upper :: "char \<Rightarrow> bool" where
  "is_upper c \<longleftrightarrow> 65 \<le> ord c \<and> ord c \<le> 90"

definition is_lower :: "char \<Rightarrow> bool" where
  "is_lower c \<longleftrightarrow> 97 \<le> ord c \<and> ord c \<le> 122"

definition is_digit :: "char \<Rightarrow> bool" where
  "is_digit c \<longleftrightarrow> 48 \<le> ord c \<and> ord c \<le> 57"

definition is_alnum :: "char \<Rightarrow> bool" where
  "is_alnum c \<longleftrightarrow> is_upper c \<or> is_lower c \<or> is_digit c"

definition is_hex_lower :: "char \<Rightarrow> bool" where
  "is_hex_lower c \<longleftrightarrow> is_digit c \<or> (97 \<le> ord c \<and> ord c \<le> 102)"

lemmas char_class_defs = is_upper_def is_lower_def is_digit_def is_alnum_def is_hex_lower_def ord_def

section \<open>Patterns\<close>

text \<open>
  \<open>fullmatch\<close> of a pattern \<open>[first][rest]{0,n}\<close>: one character of the first class, then at
  most \<open>n\<close> of the second.
\<close>

fun match_ident :: "(char \<Rightarrow> bool) \<Rightarrow> (char \<Rightarrow> bool) \<Rightarrow> nat \<Rightarrow> string \<Rightarrow> bool" where
  "match_ident first rest n [] = False"
| "match_ident first rest n (c # cs) = (first c \<and> length cs \<le> n \<and> list_all rest cs)"

text \<open>The pattern \<open>[0-9a-f]{64}\<close>.\<close>

definition match_sha256 :: "string \<Rightarrow> bool" where
  "match_sha256 s \<longleftrightarrow> length s = 64 \<and> list_all is_hex_lower s"

text \<open>\<open>str.isdecimal\<close> on ASCII text; a header value is latin-1, whose only decimals are these.\<close>

definition is_decimal :: "string \<Rightarrow> bool" where
  "is_decimal s \<longleftrightarrow> s \<noteq> [] \<and> list_all is_digit s"

fun digits_value :: "int \<Rightarrow> string \<Rightarrow> int" where
  "digits_value acc [] = acc"
| "digits_value acc (c # cs) = digits_value (10 * acc + (ord c - 48)) cs"

text \<open>\<open>int(s)\<close> for a string of decimal digits.\<close>

definition int_of_decimal :: "string \<Rightarrow> int" where
  "int_of_decimal s = digits_value 0 s"

lemma match_ident_nonempty: "match_ident f r n s \<Longrightarrow> s \<noteq> []"
  by (cases s) auto

lemma match_ident_length: "match_ident f r n s \<Longrightarrow> length s \<le> Suc n"
  by (cases s) auto

lemma match_ident_chars: "match_ident f r n s \<Longrightarrow> (\<And>c. f c \<Longrightarrow> r c) \<Longrightarrow> list_all r s"
  by (cases s) auto

lemma match_sha256_chars: "match_sha256 s \<Longrightarrow> c \<in> set s \<Longrightarrow> is_hex_lower c"
  by (auto simp: match_sha256_def list_all_iff)

lemma match_sha256_nonempty: "match_sha256 s \<Longrightarrow> s \<noteq> []"
  by (auto simp: match_sha256_def)

section \<open>White space and \<open>strip\<close>\<close>

definition unicode_spaces :: "string list" where
  "unicode_spaces =
     [[CHR 0x09], [CHR 0x0A], [CHR 0x0B], [CHR 0x0C], [CHR 0x0D],
      [CHR 0x1C], [CHR 0x1D], [CHR 0x1E], [CHR 0x1F], [CHR 0x20],
      [CHR 0xC2, CHR 0x85], [CHR 0xC2, CHR 0xA0], [CHR 0xE1, CHR 0x9A, CHR 0x80],
      [CHR 0xE2, CHR 0x80, CHR 0x80], [CHR 0xE2, CHR 0x80, CHR 0x81],
      [CHR 0xE2, CHR 0x80, CHR 0x82], [CHR 0xE2, CHR 0x80, CHR 0x83],
      [CHR 0xE2, CHR 0x80, CHR 0x84], [CHR 0xE2, CHR 0x80, CHR 0x85],
      [CHR 0xE2, CHR 0x80, CHR 0x86], [CHR 0xE2, CHR 0x80, CHR 0x87],
      [CHR 0xE2, CHR 0x80, CHR 0x88], [CHR 0xE2, CHR 0x80, CHR 0x89],
      [CHR 0xE2, CHR 0x80, CHR 0x8A], [CHR 0xE2, CHR 0x80, CHR 0xA8],
      [CHR 0xE2, CHR 0x80, CHR 0xA9], [CHR 0xE2, CHR 0x80, CHR 0xAF],
      [CHR 0xE2, CHR 0x81, CHR 0x9F], [CHR 0xE3, CHR 0x80, CHR 0x80]]"

definition front_space :: "string list \<Rightarrow> string \<Rightarrow> string option" where
  "front_space ws s = find (\<lambda>w. w \<noteq> [] \<and> prefix w s) ws"

lemma front_space_shortens:
  assumes "front_space ws s = Some w"
  shows "length (drop (length w) s) < length s"
proof -
  from assms have "w \<noteq> [] \<and> prefix w s"
    unfolding front_space_def by (auto simp: find_Some_iff)
  then obtain r where "s = w @ r" and "w \<noteq> []" by (auto simp: prefix_def)
  then show ?thesis by simp
qed

function strip_front :: "string list \<Rightarrow> string \<Rightarrow> string" where
  "strip_front ws s =
     (case front_space ws s of None \<Rightarrow> s | Some w \<Rightarrow> strip_front ws (drop (length w) s))"
  by pat_completeness auto
termination
  by (relation "measure (\<lambda>(ws, s). length s)") (use front_space_shortens in auto)

declare strip_front.simps [simp del]

definition lstrip :: "string \<Rightarrow> string" where
  "lstrip s = strip_front unicode_spaces s"

definition rstrip :: "string \<Rightarrow> string" where
  "rstrip s = rev (strip_front (map rev unicode_spaces) (rev s))"

definition strip :: "string \<Rightarrow> string" where
  "strip s = rstrip (lstrip s)"

lemma strip_front_fixed: "front_space ws (strip_front ws s) = None"
proof (induction ws s rule: strip_front.induct)
  case (1 ws s)
  then show ?case
    by (cases "front_space ws s") (auto simp: strip_front.simps [of ws s])
qed

lemma strip_front_None: "front_space ws s = None \<Longrightarrow> strip_front ws s = s"
  by (simp add: strip_front.simps)

lemma strip_front_idem [simp]: "strip_front ws (strip_front ws s) = strip_front ws s"
  by (rule strip_front_None) (rule strip_front_fixed)

lemma strip_front_suffix: "suffix (strip_front ws s) s"
proof (induction ws s rule: strip_front.induct)
  case (1 ws s)
  show ?case
  proof (cases "front_space ws s")
    case None
    then show ?thesis by (simp add: strip_front.simps [of ws s])
  next
    case (Some w)
    with "1" have "suffix (strip_front ws (drop (length w) s)) (drop (length w) s)" by simp
    then have "suffix (strip_front ws (drop (length w) s)) s"
      using suffix_drop suffix_order.trans by blast
    with Some show ?thesis by (simp add: strip_front.simps [of ws s])
  qed
qed

lemma rstrip_prefix: "prefix (rstrip s) s"
  using strip_front_suffix [of "map rev unicode_spaces" "rev s"]
  by (simp add: rstrip_def suffix_to_prefix)

text \<open>Dropping a suffix brings no space to the front, so \<open>strip\<close> is idempotent.\<close>

lemma front_space_prefix_None:
  assumes "front_space ws s = None" and "prefix t s"
  shows "front_space ws t = None"
  using assms unfolding front_space_def find_None_iff
  by (meson prefix_order.trans)

lemma strip_idem [simp]: "strip (strip s) = strip s"
proof -
  have "front_space unicode_spaces (strip s) = None"
    unfolding strip_def lstrip_def
    by (rule front_space_prefix_None [OF strip_front_fixed rstrip_prefix])
  then have "lstrip (strip s) = strip s" by (simp add: lstrip_def strip_front_None)
  then show ?thesis by (simp add: strip_def [of "strip s"]) (simp add: strip_def rstrip_def)
qed

lemma length_strip: "length (strip s) \<le> length s"
  using rstrip_prefix [of "lstrip s"] strip_front_suffix [of unicode_spaces s]
  by (metis lstrip_def strip_def le_trans prefix_length_le suffix_length_le)

text \<open>A string whose first and last characters are visible ASCII is its own \<open>strip\<close>.\<close>

definition visible :: "char \<Rightarrow> bool" where
  "visible c \<longleftrightarrow> 33 \<le> ord c \<and> ord c \<le> 126"

lemma front_space_visible: "visible c \<Longrightarrow> front_space unicode_spaces (c # s) = None"
  unfolding front_space_def find_None_iff
  by (auto simp: unicode_spaces_def visible_def ord_def)

lemma back_space_visible: "visible c \<Longrightarrow> front_space (map rev unicode_spaces) (c # s) = None"
  unfolding front_space_def find_None_iff
  by (auto simp: unicode_spaces_def visible_def ord_def)

lemma strip_visible:
  assumes "s \<noteq> []" and "visible (hd s)" and "visible (last s)"
  shows "strip s = s"
proof -
  have "lstrip s = s"
    using assms front_space_visible [of "hd s" "tl s"] by (simp add: lstrip_def strip_front_None)
  moreover have "rstrip s = s"
  proof -
    from assms(1) have "rev s = last s # rev (butlast s)" by (cases s rule: rev_cases) auto
    with assms(3) have "front_space (map rev unicode_spaces) (rev s) = None"
      using back_space_visible by metis
    then show ?thesis by (simp add: rstrip_def strip_front_None)
  qed
  ultimately show ?thesis by (simp add: strip_def)
qed

lemma strip_all_visible: "list_all visible s \<Longrightarrow> s \<noteq> [] \<Longrightarrow> strip s = s"
  by (intro strip_visible) (auto simp: list_all_iff)

section \<open>Decimal text of integers\<close>

text \<open>
  \<open>str(n)\<close>: the base-ten digits, most significant first, with a minus sign when negative.
  The recursion runs on integers, so that evaluation stays in binary numerals.
\<close>

definition digit_char :: "int \<Rightarrow> char" where
  "digit_char d = char_of (48 + d)"

function digits_str :: "int \<Rightarrow> string" where
  "digits_str n = (if n < 10 then [digit_char n] else digits_str (n div 10) @ [digit_char (n mod 10)])"
  by pat_completeness auto
termination
  by (relation "measure nat") auto

declare digits_str.simps [simp del]

definition int_str :: "int \<Rightarrow> string" where
  "int_str n = (if n < 0 then CHR ''-'' # digits_str (- n) else digits_str n)"

lemma ord_digit_char: "0 \<le> d \<Longrightarrow> d < 10 \<Longrightarrow> ord (digit_char d) = 48 + d"
  by (simp add: ord_def digit_char_def)

lemma digits_str_digits: "0 \<le> n \<Longrightarrow> list_all is_digit (digits_str n)"
proof (induction n rule: digits_str.induct)
  case (1 n)
  then show ?case
    by (cases "n < 10") (auto simp: digits_str.simps [of n] is_digit_def ord_digit_char)
qed

lemma digits_str_nonempty [simp]: "digits_str n \<noteq> []"
  by (subst digits_str.simps) simp

lemma digits_value_append:
  "digits_value acc (xs @ ys) = digits_value (digits_value acc xs) ys"
  by (induction acc xs rule: digits_value.induct) auto

text \<open>Reading back the printed digits gives the number.\<close>

lemma int_of_decimal_digits_str: "0 \<le> n \<Longrightarrow> int_of_decimal (digits_str n) = n"
  unfolding int_of_decimal_def
proof (induction n rule: digits_str.induct)
  case (1 n)
  show ?case
  proof (cases "n < 10")
    case True
    with "1.prems" show ?thesis by (simp add: digits_str.simps [of n] ord_digit_char)
  next
    case False
    with "1" have "digits_value 0 (digits_str (n div 10)) = n div 10" by simp
    with False show ?thesis
      by (simp add: digits_str.simps [of n] digits_value_append ord_digit_char)
  qed
qed

lemma digits_str_inj: "0 \<le> m \<Longrightarrow> 0 \<le> n \<Longrightarrow> digits_str m = digits_str n \<Longrightarrow> m = n"
  by (metis int_of_decimal_digits_str)

lemma is_decimal_digits_str: "0 \<le> n \<Longrightarrow> is_decimal (digits_str n)"
  by (simp add: is_decimal_def digits_str_digits)

lemma hd_digits_str: "0 \<le> n \<Longrightarrow> is_digit (hd (digits_str n))"
  using digits_str_digits [of n] by (cases "digits_str n") auto

lemma hd_digits_str_minus: "0 \<le> n \<Longrightarrow> digits_str n \<noteq> CHR ''-'' # ds"
  using hd_digits_str [of n] by (auto simp: is_digit_def ord_def)

lemma int_str_inj: "int_str m = int_str n \<Longrightarrow> m = n"
  using digits_str_inj [of m n] digits_str_inj [of "- m" "- n"]
    hd_digits_str_minus [of m "digits_str (- n)"] hd_digits_str_minus [of n "digits_str (- m)"]
  by (auto simp: int_str_def split: if_splits)

end
