(* ===== verification/Py_Json.thy ===== *)
theory Py_Json
  imports Py_String Complex_Main
begin

text \<open>
  JSON values as the Python interpreter holds them, and \<open>json.dumps\<close>.

  A \<open>dict\<close> is an association list in insertion order. \<open>dget\<close> is \<open>dict.get\<close>, which answers
  \<open>None\<close> (here \<open>JNull\<close>) for an absent key, so a missing field and an explicit
  \<open>null\<close> look the same to the code that uses it. \<open>py_eq\<close> is \<open>==\<close>: numbers compare by value
  across \<open>bool\<close>, \<open>int\<close> and \<open>float\<close>, dictionaries compare without order. A finite
  double is its sign and its exact magnitude; the infinities and NaN are refused by
  \<open>allow_nan=False\<close> when written and by \<open>parse_constant\<close> when read, and do not occur.

  \<open>dumps\<close> is the compact canonical form (\<open>sort_keys=True\<close>, separators \<open>(",", ":")\<close>,
  \<open>ensure_ascii=False\<close>) the repository hashes; \<open>dumps_indent\<close> is the two-space form it writes
  to files. \<open>dumps_inj\<close> shows that the canonical form determines the value.
\<close>

datatype pyfloat = PyFloat (negative: bool) (magnitude: rat)

datatype json =
    JNull
  | JBool bool
  | JInt int
  | JFloat pyfloat
  | JStr string
  | JArr "json list"
  | JObj "(string \<times> json) list"

type_synonym dict = "(string \<times> json) list"

definition dget :: "dict \<Rightarrow> string \<Rightarrow> json" where
  "dget d k = (case map_of d k of None \<Rightarrow> JNull | Some v \<Rightarrow> v)"

definition keys :: "dict \<Rightarrow> string set" where
  "keys d = fst ` set d"

lemma dget_set [simp]: "dget (dict_set d k v) k' = (if k' = k then v else dget d k')"
  by (simp add: dget_def)

lemma dget_del [simp]: "dget (dict_del d k) k' = (if k' = k then JNull else dget d k')"
  by (simp add: dget_def)

lemma keys_dict_set [simp]: "keys (dict_set d k v) = insert k (keys d)"
  by (simp add: keys_def dict_set_keys)

lemma keys_dict_del [simp]: "keys (dict_del d k) = keys d - {k}"
  by (auto simp: keys_def dict_del_def)

lemma dget_Cons: "dget ((k, v) # d) k' = (if k' = k then v else dget d k')"
  by (simp add: dget_def)

lemma dget_Nil: "dget [] k = JNull"
  by (simp add: dget_def)

lemma keys_Cons [simp]: "keys ((k, v) # d) = insert k (keys d)"
  by (simp add: keys_def)

lemma keys_Nil [simp]: "keys [] = {}"
  by (simp add: keys_def)

section \<open>Equality\<close>

definition float_value :: "pyfloat \<Rightarrow> rat" where
  "float_value f = (if negative f then - magnitude f else magnitude f)"

fun num_value :: "json \<Rightarrow> rat option" where
  "num_value (JBool b) = Some (if b then 1 else 0)"
| "num_value (JInt n) = Some (of_int n)"
| "num_value (JFloat f) = Some (float_value f)"
| "num_value _ = None"

fun scalar_eq :: "json \<Rightarrow> json \<Rightarrow> bool" where
  "scalar_eq JNull JNull = True"
| "scalar_eq (JStr s) (JStr t) = (s = t)"
| "scalar_eq v w = (num_value v \<noteq> None \<and> num_value v = num_value w)"

fun py_eq :: "json \<Rightarrow> json \<Rightarrow> bool"
  and py_eq_list :: "json list \<Rightarrow> json list \<Rightarrow> bool"
  and py_eq_items :: "dict \<Rightarrow> dict \<Rightarrow> bool" where
  "py_eq (JArr xs) w = (case w of JArr ys \<Rightarrow> py_eq_list xs ys | _ \<Rightarrow> False)"
| "py_eq (JObj d) w =
     (case w of JObj e \<Rightarrow> length d = length e \<and> py_eq_items d e | _ \<Rightarrow> False)"
| "py_eq v w = scalar_eq v w"
| "py_eq_list [] ys = (ys = [])"
| "py_eq_list (x # xs) ys = (case ys of [] \<Rightarrow> False | y # ys' \<Rightarrow> py_eq x y \<and> py_eq_list xs ys')"
| "py_eq_items [] e = True"
| "py_eq_items ((k, v) # d) e =
     ((case map_of e k of None \<Rightarrow> False | Some w \<Rightarrow> py_eq v w) \<and> py_eq_items d e)"

lemma py_eq_str [simp]: "py_eq v (JStr s) \<longleftrightarrow> v = JStr s"
  by (cases v) auto

lemma py_eq_str_left [simp]: "py_eq (JStr s) v \<longleftrightarrow> v = JStr s"
  by (cases v) auto

section \<open>Text of a float\<close>

text \<open>
  \<open>repr\<close> of a double is the shortest decimal that rounds back to it. \<open>round_double\<close> is the
  correctly rounded conversion to binary64 (ties to even, subnormals included; magnitudes
  are below the overflow threshold because every float here is finite).
\<close>

definition round_even :: "rat \<Rightarrow> int" where
  "round_even x =
     (let n = \<lfloor>x\<rfloor>; r = x - of_int n
      in if r < 1/2 then n else if r > 1/2 then n + 1 else if even n then n else n + 1)"

function digit_count :: "int \<Rightarrow> int \<Rightarrow> int" where
  "digit_count b n = (if n \<le> 0 \<or> b \<le> 1 then 0 else 1 + digit_count b (n div b))"
  by pat_completeness auto
termination
proof (relation "measure (\<lambda>(b, n). nat n)")
  fix b n :: int
  assume "\<not> (n \<le> 0 \<or> b \<le> 1)"
  then have "n div b < n" by (intro int_div_less_self) auto
  with \<open>\<not> (n \<le> 0 \<or> b \<le> 1)\<close> show "((b, n div b), b, n) \<in> measure (\<lambda>(b, n). nat n)"
    by auto
qed simp

declare digit_count.simps [simp del]

definition pow_rat :: "int \<Rightarrow> int \<Rightarrow> rat" where
  "pow_rat b e = (if e \<ge> 0 then of_int (b ^ nat e) else 1 / of_int (b ^ nat (- e)))"

definition floor_log :: "int \<Rightarrow> rat \<Rightarrow> int" where
  "floor_log b x =
     (let (p, q) = quotient_of x; k = digit_count b p - digit_count b q
      in if pow_rat b k \<le> x then k else k - 1)"

definition round_double :: "rat \<Rightarrow> rat" where
  "round_double x =
     (if x = 0 then 0
      else let e = max (floor_log 2 x - 52) (- 1074)
           in of_int (round_even (x / pow_rat 2 e)) * pow_rat 2 e)"

fun shortest :: "rat \<Rightarrow> int \<Rightarrow> nat \<Rightarrow> nat \<Rightarrow> int \<times> int" where
  "shortest x k p 0 = (round_even (x / pow_rat 10 (k - 16)), k - 16)"
| "shortest x k p (Suc fuel) =
     (let e = k - int p; d = round_even (x / pow_rat 10 e)
      in if round_double (of_int d * pow_rat 10 e) = x then (d, e) else shortest x k (Suc p) fuel)"

definition repr_digits :: "string \<Rightarrow> int \<Rightarrow> string" where
  "repr_digits ds point =
     (if point > 16 \<or> point \<le> -4
      then (let e = point - 1; m = digits_str \<bar>e\<bar>
            in [hd ds] @ (if tl ds = [] then [] else CHR ''.'' # tl ds) @ ''e''
               @ (if e < 0 then ''-'' else ''+'') @ (if length m < 2 then ''0'' else []) @ m)
      else if point \<le> 0 then ''0.'' @ replicate (nat (- point)) CHR ''0'' @ ds
      else if nat point \<ge> length ds
           then ds @ replicate (nat point - length ds) CHR ''0'' @ ''.0''
           else take (nat point) ds @ ''.'' @ drop (nat point) ds)"

definition float_repr :: "pyfloat \<Rightarrow> string" where
  "float_repr f =
     (if negative f then ''-'' else []) @
     (if magnitude f = 0 then ''0.0''
      else let k = floor_log 10 (magnitude f);
               (d, e) = shortest (magnitude f) k 0 16;
               ds = digits_str d
           in repr_digits ds (int (length ds) + e))"

abbreviation float_one :: json where
  "float_one \<equiv> JFloat (PyFloat False 1)"

abbreviation float_zero :: json where
  "float_zero \<equiv> JFloat (PyFloat False 0)"

section \<open>\<open>json.dumps\<close>\<close>

definition hex_digit :: "int \<Rightarrow> char" where
  "hex_digit d = char_of (if d < 10 then 48 + d else 87 + d)"

definition escape_char :: "char \<Rightarrow> string" where
  "escape_char c =
     (if c = CHR 0x22 then [CHR 0x5C, CHR 0x22]
      else if c = CHR 0x5C then [CHR 0x5C, CHR 0x5C]
      else if c = CHR 0x08 then [CHR 0x5C, CHR ''b'']
      else if c = CHR 0x0C then [CHR 0x5C, CHR ''f'']
      else if c = CHR 0x0A then [CHR 0x5C, CHR ''n'']
      else if c = CHR 0x0D then [CHR 0x5C, CHR ''r'']
      else if c = CHR 0x09 then [CHR 0x5C, CHR ''t'']
      else if ord c < 32
           then [CHR 0x5C, CHR ''u'', CHR ''0'', CHR ''0'', hex_digit (ord c div 16), hex_digit (ord c mod 16)]
      else [c])"

definition dumps_str :: "string \<Rightarrow> string" where
  "dumps_str s = CHR 0x22 # concat (map escape_char s) @ [CHR 0x22]"

fun join :: "string \<Rightarrow> string list \<Rightarrow> string" where
  "join sep [] = []"
| "join sep [x] = x"
| "join sep (x # y # xs) = x @ sep @ join sep (y # xs)"

primrec dumps :: "json \<Rightarrow> string" where
  "dumps JNull = ''null''"
| "dumps (JBool b) = (if b then ''true'' else ''false'')"
| "dumps (JInt n) = int_str n"
| "dumps (JFloat f) = float_repr f"
| "dumps (JStr s) = dumps_str s"
| "dumps (JArr xs) = ''['' @ join '','' (map dumps xs) @ '']''"
| "dumps (JObj d) =
     ''{'' @ join '','' (map (\<lambda>(k, t). dumps_str k @ '':'' @ t)
       (sort_key fst (map (map_prod id dumps) d))) @ ''}''"

definition spaces :: "nat \<Rightarrow> string" where
  "spaces level = CHR 0x0A # replicate (2 * level) CHR 0x20"

primrec dumps_indent :: "json \<Rightarrow> nat \<Rightarrow> string" where
  "dumps_indent JNull l = ''null''"
| "dumps_indent (JBool b) l = (if b then ''true'' else ''false'')"
| "dumps_indent (JInt n) l = int_str n"
| "dumps_indent (JFloat f) l = float_repr f"
| "dumps_indent (JStr s) l = dumps_str s"
| "dumps_indent (JArr xs) l =
     (if xs = [] then ''[]''
      else ''['' @ spaces (Suc l) @ join ('','' @ spaces (Suc l)) (map (\<lambda>f. f (Suc l)) (map dumps_indent xs))
        @ spaces l @ '']'')"
| "dumps_indent (JObj d) l =
     (if d = [] then ''{}''
      else ''{'' @ spaces (Suc l) @ join ('','' @ spaces (Suc l))
          (map (\<lambda>(k, f). dumps_str k @ '': '' @ f (Suc l)) (sort_key fst (map (map_prod id dumps_indent) d)))
        @ spaces l @ ''}'')"

text \<open>\<open>repr\<close> of a string whose characters beyond ASCII are printable.\<close>

definition py_repr :: "string \<Rightarrow> string" where
  "py_repr s =
     (let q = (if CHR 0x27 \<in> set s \<and> CHR 0x22 \<notin> set s then CHR 0x22 else CHR 0x27)
      in [q] @ concat (map (\<lambda>c.
           if c = q \<or> c = CHR 0x5C then [CHR 0x5C, c]
           else if c = CHR 0x0A then [CHR 0x5C, CHR ''n'']
           else if c = CHR 0x0D then [CHR 0x5C, CHR ''r'']
           else if c = CHR 0x09 then [CHR 0x5C, CHR ''t'']
           else if ord c < 32 \<or> ord c = 127
                then [CHR 0x5C, CHR ''x'', hex_digit (ord c div 16), hex_digit (ord c mod 16)]
           else [c]) s) @ [q])"

text \<open>
  What \<open>json.loads\<close> reads back from a canonical text: the same value with its dictionaries in
  key order.
\<close>

primrec sort_keys :: "json \<Rightarrow> json" where
  "sort_keys JNull = JNull"
| "sort_keys (JBool b) = JBool b"
| "sort_keys (JInt n) = JInt n"
| "sort_keys (JFloat f) = JFloat f"
| "sort_keys (JStr s) = JStr s"
| "sort_keys (JArr xs) = JArr (map sort_keys xs)"
| "sort_keys (JObj d) = JObj (sort_key fst (map (map_prod id sort_keys) d))"

lemma insort_key_map_prod:
  "insort_key fst (k, f v) (map (map_prod id f) xs) = map (map_prod id f) (insort_key fst (k, v) xs)"
  by (induction xs) auto

lemma sort_key_map_prod:
  "sort_key fst (map (map_prod id f) d) = map (map_prod id f) (sort_key fst d)"
proof (induction d)
  case (Cons p d)
  then show ?case by (cases p) (simp add: insort_key_map_prod [unfolded id_def] id_def)
qed simp

text \<open>The dictionary \<open>json.loads\<close> reads from the canonical text of a dictionary.\<close>

definition loads_dict :: "dict \<Rightarrow> dict" where
  "loads_dict d = sort_key fst (map (map_prod id sort_keys) d)"

lemma map_of_loads:
  assumes "distinct (map fst d)"
  shows "map_of (loads_dict d) k = map_option sort_keys (map_of d k)"
proof -
  have "map_of (sort_key fst e) = map_of e" if "distinct (map fst e)" for e :: dict
  proof (rule map_of_inject_set [THEN iffD2])
    show "distinct (map fst (sort_key fst e))" using that by (simp add: distinct_map)
  qed (use that in auto)
  from this [of "map (map_prod id sort_keys) d"] assms
  have "map_of (loads_dict d) k = map_of (map (map_prod id sort_keys) d) k"
    by (simp add: loads_dict_def comp_def)
  also have "\<dots> = map_option sort_keys (map_of d k)"
    by (induction d) (auto simp: map_prod_def)
  finally show ?thesis .
qed

lemma dget_loads: "distinct (map fst d) \<Longrightarrow> dget (loads_dict d) k = sort_keys (dget d k)"
  by (auto simp: dget_def map_of_loads split: option.splits)

lemma keys_loads: "keys (loads_dict d) = keys d"
  by (auto simp: keys_def loads_dict_def image_iff) (metis fst_conv map_prod_simp id_apply)+

lemma sort_keys_loads: "sort_keys (JObj d) = JObj (loads_dict d)"
  by (simp add: loads_dict_def)

section \<open>The canonical text determines the value\<close>

text \<open>
  The texts of the grammar form a prefix code once what follows a value is a delimiter:
  \<open>dumps v @ r = dumps w @ r'\<close> forces the two values, in key order, to be the same.
  \<open>plain\<close> are the values the repository hashes for identities: no floats, distinct keys.
\<close>

lemma ord_inj: "ord c = ord d \<longleftrightarrow> c = d"
  by (simp add: ord_def)

lemma ord_range: "0 \<le> ord c \<and> ord c < 256"
  by (simp add: ord_def of_char_def)

lemma hex_digit_inj:
  "0 \<le> a \<Longrightarrow> a < 16 \<Longrightarrow> 0 \<le> b \<Longrightarrow> b < 16 \<Longrightarrow> hex_digit a = hex_digit b \<Longrightarrow> a = b"
proof -
  assume a: "0 \<le> a" "a < 16" and b: "0 \<le> b" "b < 16" and "hex_digit a = hex_digit b"
  then have "(of_char (hex_digit a) :: int) = of_char (hex_digit b)" by simp
  with a b show "a = b" by (simp add: hex_digit_def of_char_of split: if_splits)
qed

lemma escape_char_prefix_free:
  assumes "escape_char c @ r = escape_char d @ r'"
  shows "c = d \<and> r = r'"
proof -
  have hex: "ord c = ord d"
    if "hex_digit (ord c div 16) = hex_digit (ord d div 16)"
      and "hex_digit (ord c mod 16) = hex_digit (ord d mod 16)"
  proof -
    from that ord_range [of c] ord_range [of d]
    have "ord c div 16 = ord d div 16" and "ord c mod 16 = ord d mod 16"
      by (auto intro!: hex_digit_inj)
    then show ?thesis by (metis div_mult_mod_eq)
  qed
  from assms hex show ?thesis
    by (auto simp: escape_char_def ord_inj split: if_splits)
qed

lemma escape_char_not_quote: "escape_char c \<noteq> CHR 0x22 # r"
  by (auto simp: escape_char_def)

lemma escape_char_nonempty [simp]: "escape_char c \<noteq> []"
  by (auto simp: escape_char_def)

lemma escape_char_not_quote_append: "escape_char c @ r \<noteq> CHR 0x22 # r'"
  using escape_char_not_quote [of c] by (cases "escape_char c") auto

lemma escaped_prefix_free:
  "concat (map escape_char s) @ CHR 0x22 # r = concat (map escape_char t) @ CHR 0x22 # r'
   \<Longrightarrow> s = t \<and> r = r'"
proof (induction s arbitrary: t)
  case Nil
  then show ?case
    by (cases t) (use escape_char_not_quote_append in \<open>auto dest: sym\<close>)
next
  case (Cons c s)
  show ?case
  proof (cases t)
    case Nil
    with Cons.prems show ?thesis using escape_char_not_quote_append by auto
  next
    case (Cons d t')
    with Cons.prems have "escape_char c @ concat (map escape_char s) @ CHR 0x22 # r
      = escape_char d @ concat (map escape_char t') @ CHR 0x22 # r'" by simp
    then have "c = d" and "concat (map escape_char s) @ CHR 0x22 # r = concat (map escape_char t') @ CHR 0x22 # r'"
      using escape_char_prefix_free by blast+
    with Cons.IH Cons show ?thesis by auto
  qed
qed

lemma dumps_str_prefix_free: "dumps_str s @ r = dumps_str t @ r' \<Longrightarrow> s = t \<and> r = r'"
  using escaped_prefix_free [of s r t r'] by (simp add: dumps_str_def)

definition delimited :: "string \<Rightarrow> bool" where
  "delimited r \<longleftrightarrow> r = [] \<or> hd r \<in> {CHR '','', CHR '']'', CHR 0x7D, CHR 0x0A}"

primrec plain :: "json \<Rightarrow> bool" where
  "plain JNull = True"
| "plain (JBool b) = True"
| "plain (JInt n) = True"
| "plain (JFloat f) = False"
| "plain (JStr s) = True"
| "plain (JArr xs) = list_all id (map plain xs)"
| "plain (JObj d) = (distinct (map fst d) \<and> list_all snd (map (map_prod id plain) d))"

lemma delimited_not_digit: "delimited r \<Longrightarrow> r = [] \<or> \<not> is_digit (hd r)"
  by (auto simp: delimited_def is_digit_def ord_def)

lemma digits_prefix_free:
  assumes "list_all is_digit xs" and "list_all is_digit ys"
    and "delimited r" and "delimited r'" and "xs @ r = ys @ r'"
  shows "xs = ys \<and> r = r'"
proof -
  have *: "takeWhile is_digit (zs @ q) = zs" if "list_all is_digit zs" and "delimited q" for zs q
    using that delimited_not_digit [of q]
    by (cases q) (auto simp: list_all_iff takeWhile_append2)
  from assms * have "xs = ys" by metis
  with assms(5) show ?thesis by simp
qed

definition item_text :: "string \<times> json \<Rightarrow> string" where
  "item_text p = dumps_str (fst p) @ '':'' @ dumps (snd p)"

lemma dumps_obj: "dumps (JObj d) = ''{'' @ join '','' (map item_text (sort_key fst d)) @ ''}''"
proof -
  have "(\<lambda>(k, t). dumps_str k @ '':'' @ t) \<circ> map_prod id dumps = item_text"
    by (auto simp: item_text_def fun_eq_iff)
  then show ?thesis by (simp add: sort_key_map_prod)
qed

lemma sort_keys_obj: "sort_keys (JObj d) = JObj (map (map_prod id sort_keys) (sort_key fst d))"
  by (simp add: sort_key_map_prod)

lemma join_Cons: "join [c] (x # xs) = x @ concat (map ((#) c) xs)"
  by (induction xs arbitrary: x) auto

lemma tail_prefix_free:
  assumes code: "\<And>x y r r'. x \<in> set xs \<Longrightarrow> y \<in> set ys \<Longrightarrow> delimited r \<Longrightarrow> delimited r' \<Longrightarrow>
      f x @ r = f y @ r' \<Longrightarrow> g x = g y \<and> r = r'"
    and close: "close = CHR '']'' \<or> close = CHR 0x7D"
    and eq: "concat (map (\<lambda>x. CHR '','' # f x) xs) @ close # r
      = concat (map (\<lambda>x. CHR '','' # f x) ys) @ close # r'"
  shows "map g xs = map g ys \<and> r = r'"
  using code eq
proof (induction xs arbitrary: ys)
  case Nil
  then show ?case using close by (cases ys) auto
next
  case (Cons x xs)
  show ?case
  proof (cases ys)
    case Nil
    with Cons.prems(2) close show ?thesis by auto
  next
    case (Cons y ys')
    let ?R = "concat (map (\<lambda>x. CHR '','' # f x) xs) @ close # r"
    let ?R' = "concat (map (\<lambda>x. CHR '','' # f x) ys') @ close # r'"
    have "delimited ?R" and "delimited ?R'"
      using close by (cases xs; auto simp: delimited_def)
        (use close in \<open>cases ys'; auto simp: delimited_def\<close>)
    moreover have "f x @ ?R = f y @ ?R'" using Cons.prems(2) Cons by simp
    ultimately have "g x = g y" and "?R = ?R'"
      using Cons.prems(1) [of x y ?R ?R'] Cons by auto
    with Cons.IH [of ys'] Cons.prems(1) Cons show ?thesis by auto
  qed
qed

lemma join_prefix_free:
  assumes code: "\<And>x y r r'. x \<in> set xs \<Longrightarrow> y \<in> set ys \<Longrightarrow> delimited r \<Longrightarrow> delimited r' \<Longrightarrow>
      f x @ r = f y @ r' \<Longrightarrow> g x = g y \<and> r = r'"
    and close: "close = CHR '']'' \<or> close = CHR 0x7D"
    and hd: "\<And>x. x \<in> set xs \<union> set ys \<Longrightarrow> f x \<noteq> [] \<and> hd (f x) \<noteq> close"
    and eq: "join '','' (map f xs) @ close # r = join '','' (map f ys) @ close # r'"
  shows "map g xs = map g ys \<and> r = r'"
proof (cases "xs = [] \<or> ys = []")
  case True
  have "f z @ q \<noteq> close # q'" if "z \<in> set xs \<union> set ys" for z q q'
    using hd [OF that] by (cases "f z") auto
  with True eq show ?thesis
    by (cases xs; cases ys) (auto simp: join_Cons simp del: join.simps(3), metis+)
next
  case False
  then obtain x xs' y ys' where xs: "xs = x # xs'" and ys: "ys = y # ys'"
    by (meson neq_Nil_conv)
  have "concat (map (\<lambda>x. CHR '','' # f x) xs) @ close # r
      = concat (map (\<lambda>x. CHR '','' # f x) ys) @ close # r'"
    using eq xs ys by (simp add: join_Cons comp_def del: join.simps)
  with code close show ?thesis by (rule tail_prefix_free)
qed

fun tag :: "json \<Rightarrow> nat" where
  "tag JNull = 0"
| "tag (JBool b) = 1"
| "tag (JStr s) = 3"
| "tag (JArr xs) = 4"
| "tag (JObj d) = 5"
| "tag v = 2"

definition char_tag :: "char \<Rightarrow> nat" where
  "char_tag c = (if c = CHR ''n'' then 0 else if c = CHR ''t'' \<or> c = CHR ''f'' then 1
     else if c = CHR 0x22 then 3 else if c = CHR ''['' then 4 else if c = CHR 0x7B then 5 else 2)"

lemma char_tag_digit: "is_digit c \<Longrightarrow> char_tag c = 2"
  by (auto simp: is_digit_def ord_def char_tag_def)

lemma dumps_hd:
  assumes "plain v"
  shows "dumps v \<noteq> [] \<and> char_tag (hd (dumps v)) = tag v \<and> hd (dumps v) \<noteq> CHR '']'' \<and> hd (dumps v) \<noteq> CHR 0x7D"
proof (cases v)
  case (JInt n)
  have "is_digit c \<Longrightarrow> c \<noteq> CHR '']'' \<and> c \<noteq> CHR 0x7D" for c
    by (auto simp: is_digit_def ord_def)
  with JInt hd_digits_str [of n] show ?thesis
    by (auto simp: int_str_def char_tag_digit) (simp_all add: char_tag_def)
qed (use assms in \<open>auto simp: char_tag_def dumps_str_def\<close>)

lemma dumps_prefix_free:
  "plain v \<Longrightarrow> plain w \<Longrightarrow> delimited r \<Longrightarrow> delimited r' \<Longrightarrow> dumps v @ r = dumps w @ r' \<Longrightarrow>
   sort_keys v = sort_keys w \<and> r = r'"
proof (induction v arbitrary: w r r')
  case (JNull w r r')
  have "tag w = 0"
    using dumps_hd [of JNull] dumps_hd [of w] JNull.prems by (metis hd_append2 tag.simps(1))
  with JNull show ?case by (cases w) auto
next
  case (JBool b w r r')
  have "tag w = 1"
    using dumps_hd [of "JBool b"] dumps_hd [of w] JBool.prems by (metis hd_append2 tag.simps(2))
  with JBool show ?case by (cases w) (auto split: if_splits)
next
  case (JInt n w r r')
  have t: "tag w = 2"
    using dumps_hd [of "JInt n"] dumps_hd [of w] JInt.prems by (metis hd_append2 tag.simps(6))
  with JInt.prems obtain m where w: "w = JInt m" by (cases w) auto
  have sgn: "n < 0 \<longleftrightarrow> m < 0"
    using JInt.prems(5) w hd_digits_str_minus [of n] hd_digits_str_minus [of m]
    by (auto simp: int_str_def append_eq_Cons_conv Cons_eq_append_conv split: if_splits) metis+
  have "digits_str \<bar>n\<bar> @ r = digits_str \<bar>m\<bar> @ r'"
    using JInt.prems(5) w sgn by (auto simp: int_str_def split: if_splits)
  then have "digits_str \<bar>n\<bar> = digits_str \<bar>m\<bar> \<and> r = r'"
    using JInt.prems by (intro digits_prefix_free digits_str_digits) auto
  then show ?case using w sgn digits_str_inj [of "\<bar>n\<bar>" "\<bar>m\<bar>"] by (auto simp: abs_if split: if_splits)
next
  case (JFloat f)
  then show ?case by simp
next
  case (JStr s w r r')
  have "tag w = 3"
    using dumps_hd [of "JStr s"] dumps_hd [of w] JStr.prems by (metis hd_append2 tag.simps(3))
  then obtain u where "w = JStr u" by (cases w) auto
  then show ?case using JStr dumps_str_prefix_free [of s r u r'] by simp
next
  case (JArr xs w r r')
  have "tag w = 4"
    using dumps_hd [of "JArr xs"] dumps_hd [of w] JArr.prems by (metis hd_append2 tag.simps(4))
  then obtain ys where w: "w = JArr ys" by (cases w) auto
  have "map sort_keys xs = map sort_keys ys \<and> r = r'"
  proof (rule join_prefix_free [where f = dumps and close = "CHR '']''"])
    show "join '','' (map dumps xs) @ CHR '']'' # r = join '','' (map dumps ys) @ CHR '']'' # r'"
      using JArr.prems w by simp
    show "dumps z \<noteq> [] \<and> hd (dumps z) \<noteq> CHR '']''" if "z \<in> set xs \<union> set ys" for z
      using dumps_hd [of z] that JArr.prems w by (auto simp: list_all_iff)
  qed (use JArr w in \<open>auto simp: list_all_iff\<close>)
  then show ?case using w by simp
next
  case (JObj d w r r')
  have "tag w = 5"
    using dumps_hd [of "JObj d"] dumps_hd [of w] JObj.prems by (metis hd_append2 tag.simps(5))
  then obtain e where w: "w = JObj e" by (cases w) auto
  have "map (map_prod id sort_keys) (sort_key fst d) = map (map_prod id sort_keys) (sort_key fst e) \<and> r = r'"
  proof (rule join_prefix_free [where f = item_text and close = "CHR 0x7D"])
    show "join '','' (map item_text (sort_key fst d)) @ CHR 0x7D # r
        = join '','' (map item_text (sort_key fst e)) @ CHR 0x7D # r'"
      using JObj.prems(5) w by (simp add: dumps_obj del: dumps.simps)
    show "item_text z \<noteq> [] \<and> hd (item_text z) \<noteq> CHR 0x7D" for z
      by (simp add: item_text_def dumps_str_def)
    fix x y q q'
    assume x: "x \<in> set (sort_key fst d)" and y: "y \<in> set (sort_key fst e)"
      and q: "delimited q" "delimited q'" and eq: "item_text x @ q = item_text y @ q'"
    from eq have "fst x = fst y" and "dumps (snd x) @ q = dumps (snd y) @ q'"
      using dumps_str_prefix_free [of "fst x" "CHR '':'' # dumps (snd x) @ q" "fst y" "CHR '':'' # dumps (snd y) @ q'"]
      by (auto simp: item_text_def)
    moreover have "plain (snd x)" and "plain (snd y)"
      using x y JObj.prems w by (auto simp: list_all_iff)
    ultimately show "map_prod id sort_keys x = map_prod id sort_keys y \<and> q = q'"
      using JObj.IH [of x "snd x" "snd y" q q'] x q by (cases x; cases y) auto
  qed simp
  then show ?case using w by (simp add: sort_keys_obj del: sort_keys.simps(7))
qed

lemma dumps_inj: "plain v \<Longrightarrow> plain w \<Longrightarrow> dumps v = dumps w \<Longrightarrow> sort_keys v = sort_keys w"
  using dumps_prefix_free [of v w "[]" "[]"] by (simp add: delimited_def)

end
