(* ===== verification/Sha256.thy ===== *)
theory Sha256
  imports Py_Json "HOL-Library.Word"
begin

text \<open>
  The digests of the interpreter's \<open>hashlib\<close> and \<open>hmac\<close>.

  The components take the digest function as an argument, so that their theorems hold
  for every function with the laws they use; those laws are the locale \<open>digest_function\<close>:
  the hexadecimal digest has the form the repository checks with \<open>_SHA256\<close>. Collision freedom is
  never a law (no hash function has it): a theorem that needs it names the two texts
  in its hypothesis.

  \<open>sha256_hex\<close> and \<open>hmac_hex\<close> are SHA-256 and HMAC-SHA-256 on 32-bit words with
  wrap-around addition, and interpret the locales.
\<close>

unbundle bit_operations_syntax

section \<open>The interface\<close>

locale digest_function =
  fixes H :: "bytes \<Rightarrow> string"
  assumes digest_form: "match_sha256 (H x)"
begin

lemma digest_nonempty [simp]: "H x \<noteq> []"
  using match_sha256_nonempty [OF digest_form] .

lemma digest_length [simp]: "length (H x) = 64"
  using digest_form by (simp add: match_sha256_def)

lemma digest_visible: "c \<in> set (H x) \<Longrightarrow> visible c"
  using match_sha256_chars [OF digest_form, of c x] by (auto simp: is_hex_lower_def is_digit_def visible_def)

lemma digest_strip [simp]: "strip (H x) = H x"
  by (rule strip_all_visible) (auto simp: list_all_iff digest_visible)

end

locale keyed_digest_function =
  fixes M :: "bytes \<Rightarrow> bytes \<Rightarrow> string"
  assumes keyed_digest_form: "match_sha256 (M k x)"

sublocale keyed_digest_function \<subseteq> keyed: digest_function "M k" for k
  by unfold_locales (rule keyed_digest_form)

section \<open>SHA-256\<close>

definition sha_k :: "32 word list" where
  "sha_k =
   [1116352408, 1899447441, 3049323471, 3921009573, 961987163, 1508970993, 2453635748, 2870763221,
    3624381080, 310598401, 607225278, 1426881987, 1925078388, 2162078206, 2614888103, 3248222580,
    3835390401, 4022224774, 264347078, 604807628, 770255983, 1249150122, 1555081692, 1996064986,
    2554220882, 2821834349, 2952996808, 3210313671, 3336571891, 3584528711, 113926993, 338241895,
    666307205, 773529912, 1294757372, 1396182291, 1695183700, 1986661051, 2177026350, 2456956037,
    2730485921, 2820302411, 3259730800, 3345764771, 3516065817, 3600352804, 4094571909, 275423344,
    430227734, 506948616, 659060556, 883997877, 958139571, 1322822218, 1537002063, 1747873779,
    1955562222, 2024104815, 2227730452, 2361852424, 2428436474, 2756734187, 3204031479, 3329325298]"

record sha_state =
  sa :: "32 word"
  sb :: "32 word"
  sc :: "32 word"
  sd :: "32 word"
  se :: "32 word"
  sf :: "32 word"
  sg :: "32 word"
  sh :: "32 word"

definition sha_init :: sha_state where
  "sha_init = \<lparr>sa = 1779033703, sb = 3144134277, sc = 1013904242, sd = 2773480762,
     se = 1359893119, sf = 2600822924, sg = 528734635, sh = 1541459225\<rparr>"

definition big_sigma0 :: "32 word \<Rightarrow> 32 word" where
  "big_sigma0 x = word_rotr 2 x XOR word_rotr 13 x XOR word_rotr 22 x"

definition big_sigma1 :: "32 word \<Rightarrow> 32 word" where
  "big_sigma1 x = word_rotr 6 x XOR word_rotr 11 x XOR word_rotr 25 x"

definition small_sigma0 :: "32 word \<Rightarrow> 32 word" where
  "small_sigma0 x = word_rotr 7 x XOR word_rotr 18 x XOR drop_bit 3 x"

definition small_sigma1 :: "32 word \<Rightarrow> 32 word" where
  "small_sigma1 x = word_rotr 17 x XOR word_rotr 19 x XOR drop_bit 10 x"

definition sha_round :: "32 word \<times> 32 word \<Rightarrow> sha_state \<Rightarrow> sha_state" where
  "sha_round kw s =
     (let t1 = sh s + big_sigma1 (se s) + ((se s AND sf s) XOR (NOT (se s) AND sg s)) + fst kw + snd kw;
          t2 = big_sigma0 (sa s) + ((sa s AND sb s) XOR (sa s AND sc s) XOR (sb s AND sc s))
      in \<lparr>sa = t1 + t2, sb = sa s, sc = sb s, sd = sc s, se = sd s + t1, sf = se s, sg = sf s, sh = sg s\<rparr>)"

text \<open>The message schedule, kept newest first while it grows.\<close>

fun sha_extend :: "nat \<Rightarrow> 32 word list \<Rightarrow> 32 word list" where
  "sha_extend 0 w = w"
| "sha_extend (Suc n) w =
     sha_extend n ((small_sigma1 (w ! 1) + w ! 6 + small_sigma0 (w ! 14) + w ! 15) # w)"

definition sha_block :: "sha_state \<Rightarrow> 32 word list \<Rightarrow> sha_state" where
  "sha_block s block =
     (let t = fold sha_round (zip sha_k (rev (sha_extend 48 (rev block)))) s
      in \<lparr>sa = sa s + sa t, sb = sb s + sb t, sc = sc s + sc t, sd = sd s + sd t,
          se = se s + se t, sf = sf s + sf t, sg = sg s + sg t, sh = sh s + sh t\<rparr>)"

fun word_blocks :: "nat \<Rightarrow> 32 word list \<Rightarrow> 32 word list list" where
  "word_blocks 0 ws = []"
| "word_blocks (Suc n) ws = (if ws = [] then [] else take 16 ws # word_blocks n (drop 16 ws))"

definition byte_word :: "char \<Rightarrow> 32 word" where
  "byte_word c = word_of_int (ord c)"

fun be_words :: "bytes \<Rightarrow> 32 word list" where
  "be_words (a # b # c # d # r) =
     (push_bit 24 (byte_word a) OR push_bit 16 (byte_word b) OR push_bit 8 (byte_word c) OR byte_word d) # be_words r"
| "be_words r = []"

definition sha_pad :: "bytes \<Rightarrow> 32 word list" where
  "sha_pad m =
     (let n = length m; z = (if n mod 64 \<le> 55 then 55 - n mod 64 else 119 - n mod 64); bits = 8 * int n
      in be_words (m @ [CHR 0x80] @ replicate z (CHR 0x00))
         @ [word_of_int (bits div 2 ^ 32), word_of_int bits])"

definition sha256_state :: "bytes \<Rightarrow> sha_state" where
  "sha256_state m = (let ws = sha_pad m in fold (\<lambda>b s. sha_block s b) (word_blocks (length ws) ws) sha_init)"

definition word_bytes :: "32 word \<Rightarrow> int list" where
  "word_bytes w = (let n = uint w in [n div 2 ^ 24 mod 256, n div 2 ^ 16 mod 256, n div 2 ^ 8 mod 256, n mod 256])"

definition state_bytes :: "sha_state \<Rightarrow> int list" where
  "state_bytes s = concat (map word_bytes [sa s, sb s, sc s, sd s, se s, sf s, sg s, sh s])"

definition hex_byte :: "int \<Rightarrow> string" where
  "hex_byte n = [hex_digit (n div 16), hex_digit (n mod 16)]"

definition hex_text :: "int list \<Rightarrow> string" where
  "hex_text bs = concat (map hex_byte bs)"

definition sha256_bytes :: "bytes \<Rightarrow> int list" where
  "sha256_bytes m = state_bytes (sha256_state m)"

definition sha256_hex :: "bytes \<Rightarrow> string" where
  "sha256_hex m = hex_text (sha256_bytes m)"

section \<open>HMAC\<close>

definition hmac_pad :: "int \<Rightarrow> bytes \<Rightarrow> bytes" where
  "hmac_pad p key =
     (let k = (if length key > 64 then map char_of (sha256_bytes key) else key)
      in map (\<lambda>c. char_of (ord c XOR p)) (k @ replicate (64 - length k) (CHR 0x00)))"

definition hmac_hex :: "bytes \<Rightarrow> bytes \<Rightarrow> string" where
  "hmac_hex key m = sha256_hex (hmac_pad 0x5c key @ map char_of (sha256_bytes (hmac_pad 0x36 key @ m)))"

section \<open>The interpretations\<close>

lemma hex_digit_hex: "0 \<le> d \<Longrightarrow> d < 16 \<Longrightarrow> is_hex_lower (hex_digit d)"
  by (auto simp: is_hex_lower_def is_digit_def ord_def hex_digit_def of_char_of)

lemma hex_byte_hex: "0 \<le> n \<Longrightarrow> n < 256 \<Longrightarrow> list_all is_hex_lower (hex_byte n)"
  by (auto simp: hex_byte_def intro!: hex_digit_hex)

lemma hex_text_form:
  "list_all (\<lambda>n. 0 \<le> n \<and> n < 256) bs \<Longrightarrow>
   list_all is_hex_lower (hex_text bs) \<and> length (hex_text bs) = 2 * length bs"
proof (induction bs)
  case (Cons b bs)
  then show ?case using hex_byte_hex [of b] by (auto simp: hex_text_def hex_byte_def)
qed (simp add: hex_text_def)

lemma state_bytes_form: "length (state_bytes s) = 32 \<and> list_all (\<lambda>n. 0 \<le> n \<and> n < 256) (state_bytes s)"
  by (simp add: state_bytes_def word_bytes_def Let_def)

lemma sha256_hex_form: "match_sha256 (sha256_hex m)"
  using hex_text_form [of "sha256_bytes m"] state_bytes_form [of "sha256_state m"]
  by (simp add: match_sha256_def sha256_hex_def sha256_bytes_def)

interpretation sha256: digest_function sha256_hex
  by unfold_locales (rule sha256_hex_form)

interpretation hmac: keyed_digest_function hmac_hex
  by unfold_locales (simp add: hmac_hex_def sha256_hex_form)

text \<open>Two different texts of a set with the same digest.\<close>

definition sha256_collision :: "bytes set \<Rightarrow> bool" where
  "sha256_collision A \<longleftrightarrow> (\<exists>x y. x \<in> A \<and> y \<in> A \<and> x \<noteq> y \<and> sha256_hex x = sha256_hex y)"

lemma no_collision_inj: "\<not> sha256_collision A \<longleftrightarrow> inj_on sha256_hex A"
  by (auto simp: sha256_collision_def inj_on_def)

end
