(* ===== verification/Cache_Model.thy ===== *)
theory Cache_Model
  imports Sha256
begin

text \<open>
  The durable artifact cache of the execution nodes N7 and N8
  (\<open>pathfinder/simulator/full_flow_cache.py\<close>).

  \<open>cache\<close> is the mounted volume: the four tables of the SQLite database and the directory
  \<open>objects\<close>, listed in the order \<open>iterdir\<close> presents it. The column \<open>result_json\<close> holds a canonical
  text, represented by the dictionary \<open>json.loads\<close> reads from it. The two \<open>namespaced\<close> flags
  say whether the tables already have the column \<open>cache_namespace\<close>, which volumes of the first
  version lack. Every operation runs under the instance lock, so operations do not interleave;
  a transaction that raises before \<open>COMMIT\<close> is rolled back when its connection is closed.
  \<open>cache_env\<close> is what an operation takes from its surroundings: the clock, the process
  and thread numbers in the name of its temporary file, and the outcome of its disk operations.
\<close>

section \<open>Constants and data\<close>

definition FULL_FLOW_CACHE_SCHEMA_VERSION :: string where
  "FULL_FLOW_CACHE_SCHEMA_VERSION = ''pathfinder.full-flow-artifact-cache/v1alpha1''"

definition FULL_FLOW_CACHE_RESULT_SCHEMA_VERSION :: string where
  "FULL_FLOW_CACHE_RESULT_SCHEMA_VERSION = ''pathfinder.full-flow-artifact-cache-result/v1alpha1''"

definition cache_ident_char :: "char \<Rightarrow> bool" where
  "cache_ident_char c \<longleftrightarrow> is_alnum c \<or> c \<in> {CHR ''.'', CHR ''_'', CHR ''|'', CHR '':'', CHR ''-''}"

definition cache_IDENTIFIER :: "string \<Rightarrow> bool" where
  "cache_IDENTIFIER s = match_ident is_alnum cache_ident_char 255 s"

text \<open>\<open>\.[0-9a-f]{64}\.\d+\.\d+\.tmp\<close>, with ASCII digits: the names \<open>put\<close> makes.\<close>

definition TEMP_OBJECT :: "string \<Rightarrow> bool" where
  "TEMP_OBJECT s =
     (case s of [] \<Rightarrow> False
      | c # r \<Rightarrow>
        (let r1 = drop 64 r; r2 = tl r1; r3 = dropWhile is_digit r2; r4 = tl r3
         in c = CHR ''.'' \<and> match_sha256 (take 64 r)
            \<and> r1 \<noteq> [] \<and> hd r1 = CHR ''.'' \<and> r2 \<noteq> [] \<and> is_digit (hd r2)
            \<and> r3 \<noteq> [] \<and> hd r3 = CHR ''.'' \<and> r4 \<noteq> [] \<and> is_digit (hd r4)
            \<and> dropWhile is_digit r4 = ''.tmp''))"

definition ALLOWED_NODES :: "string list" where
  "ALLOWED_NODES = [''N7'', ''N8'']"

definition LEGACY_CACHE_NAMESPACE :: string where
  "LEGACY_CACHE_NAMESPACE = ''legacy-default''"

datatype cache_error =
    FullFlowCacheError string
  | FullFlowCacheConflict string
  | CacheOSError

record cache_config =
  cfg_node_id :: string
  cfg_cache_id :: string
  cfg_capacity_bytes :: int

record cache_state_row =
  st_schema_version :: string
  st_node_id :: string
  st_cache_id :: string
  st_capacity_bytes :: int
  st_access_sequence :: int

record cache_entry =
  e_cache_key :: string
  e_cache_namespace :: string
  e_object_id :: string
  e_representation_id :: string
  e_content_sha256 :: string
  e_size_bytes :: int
  e_last_access_sequence :: int

record cache_request =
  r_request_id :: string
  r_request_sha256 :: string
  r_result_json :: dict

record cache_event =
  ev_event_id :: int
  ev_event_kind :: string
  ev_cache_key :: string
  ev_cache_namespace :: string
  ev_object_id :: string
  ev_representation_id :: string
  ev_content_sha256 :: "string option"
  ev_size_bytes :: int
  ev_created_monotonic_ns :: int

datatype dir_entry = Regular bytes | Link "bytes option" | Directory

record cache =
  cache_state :: "cache_state_row option"
  cache_entries :: "cache_entry list"
  cache_requests :: "cache_request list"
  cache_events :: "cache_event list"
  event_sequence :: int
  entries_namespaced :: bool
  events_namespaced :: bool
  objects :: "(string \<times> dir_entry) list"

record cached_artifact =
  a_cache_id :: string
  a_node_id :: string
  a_cache_key :: string
  a_object_id :: string
  a_representation_id :: string
  a_content_sha256 :: string
  a_size_bytes :: int
  a_payload :: bytes
  a_event_id :: int
  a_cache_namespace :: string

datatype disk_fault = NoFault | WriteFails | ReadbackDiffers bytes | ReplaceFails | SyncFails | CommitFails | CleanupFails nat

record cache_env =
  env_now :: int
  env_pid :: int
  env_thread :: int
  env_fault :: disk_fault

section \<open>Validation helpers\<close>

definition cache_identifier :: "json \<Rightarrow> string \<Rightarrow> cache_error + string" where
  "cache_identifier v name =
     (case v of
        JStr s \<Rightarrow> require (cache_IDENTIFIER s) (FullFlowCacheError (name @ '' is invalid'')) (Inr s)
      | _ \<Rightarrow> Inl (FullFlowCacheError (name @ '' is invalid'')))"

definition cache_digest :: "json \<Rightarrow> string \<Rightarrow> cache_error + string" where
  "cache_digest v name =
     (case v of
        JStr s \<Rightarrow> require (match_sha256 s)
          (FullFlowCacheError (name @ '' is not a lowercase SHA-256 digest'')) (Inr s)
      | _ \<Rightarrow> Inl (FullFlowCacheError (name @ '' is not a lowercase SHA-256 digest'')))"

definition cache_positive_integer :: "json \<Rightarrow> string \<Rightarrow> cache_error + int" where
  "cache_positive_integer v name =
     (case v of
        JInt n \<Rightarrow> require (0 < n) (FullFlowCacheError (name @ '' must be a positive integer'')) (Inr n)
      | _ \<Rightarrow> Inl (FullFlowCacheError (name @ '' must be a positive integer'')))"

definition canonical_bytes :: "json \<Rightarrow> bytes" where
  "canonical_bytes v = dumps v @ [CHR 0x0A]"

definition cache_identity :: "string \<Rightarrow> string \<Rightarrow> string \<Rightarrow> json" where
  "cache_identity ns oid rid =
     (let identity = [(''object_id'', JStr oid), (''representation_id'', JStr rid)]
      in if ns \<noteq> LEGACY_CACHE_NAMESPACE
         then JObj ((''cache_namespace'', JStr ns) # identity) else JObj identity)"

definition cache_key :: "(bytes \<Rightarrow> string) \<Rightarrow> json \<Rightarrow> json \<Rightarrow> json \<Rightarrow> cache_error + string" where
  "cache_key H object_id representation_id cache_namespace =
     bind_res (cache_identifier cache_namespace ''cache_namespace'') (\<lambda>ns.
     bind_res (cache_identifier object_id ''object_id'') (\<lambda>oid.
     bind_res (cache_identifier representation_id ''representation_id'') (\<lambda>rid.
     Inr (H (canonical_bytes (cache_identity ns oid rid))))))"

definition metadata :: "cached_artifact \<Rightarrow> dict" where
  "metadata a =
     [(''schema_version'', JStr FULL_FLOW_CACHE_RESULT_SCHEMA_VERSION),
      (''status'', JStr ''HIT''),
      (''cache_id'', JStr (a_cache_id a)),
      (''node_id'', JStr (a_node_id a)),
      (''cache_key'', JStr (a_cache_key a)),
      (''cache_namespace'', JStr (a_cache_namespace a)),
      (''object_id'', JStr (a_object_id a)),
      (''representation_id'', JStr (a_representation_id a)),
      (''content_sha256'', JStr (a_content_sha256 a)),
      (''size_bytes'', JInt (a_size_bytes a)),
      (''event_id'', JInt (a_event_id a)),
      (''payload_included'', JBool False),
      (''credentials_recorded'', JBool False)]"

section \<open>The object directory\<close>

fun is_regular :: "dir_entry \<Rightarrow> bool" where
  "is_regular (Regular b) = True"
| "is_regular _ = False"

fun entry_exists :: "dir_entry \<Rightarrow> bool" where
  "entry_exists (Regular b) = True"
| "entry_exists (Link t) = (t \<noteq> None)"
| "entry_exists Directory = True"

fun entry_bytes :: "dir_entry \<Rightarrow> bytes option" where
  "entry_bytes (Regular b) = Some b"
| "entry_bytes (Link t) = t"
| "entry_bytes Directory = None"

definition path_exists :: "(string \<times> dir_entry) list \<Rightarrow> string \<Rightarrow> bool" where
  "path_exists objs name = (case map_of objs name of None \<Rightarrow> False | Some e \<Rightarrow> entry_exists e)"

definition read_bytes :: "(string \<times> dir_entry) list \<Rightarrow> string \<Rightarrow> bytes option" where
  "read_bytes objs name = (case map_of objs name of None \<Rightarrow> None | Some e \<Rightarrow> entry_bytes e)"

text \<open>\<open>write_bytes\<close>: follows a link, raises (\<open>None\<close>) on a directory.\<close>

definition write_bytes ::
  "(string \<times> dir_entry) list \<Rightarrow> string \<Rightarrow> bytes \<Rightarrow> (string \<times> dir_entry) list option" where
  "write_bytes objs name b =
     (case map_of objs name of
        Some Directory \<Rightarrow> None
      | Some (Link t) \<Rightarrow> Some (dict_set objs name (Link (Some b)))
      | _ \<Rightarrow> Some (dict_set objs name (Regular b)))"

fun reconcile_loop ::
  "string set \<Rightarrow> (string \<times> dir_entry) list \<Rightarrow> (string \<times> dir_entry) list \<times> cache_error option" where
  "reconcile_loop referenced [] = ([], None)"
| "reconcile_loop referenced ((name, e) # rest) =
     (if \<not> is_regular e
      then ((name, e) # rest, Some (FullFlowCacheError ''cache object directory contains a non-regular entry''))
      else if TEMP_OBJECT name then reconcile_loop referenced rest
      else if \<not> match_sha256 name
      then ((name, e) # rest, Some (FullFlowCacheError ''cache object directory contains an unexpected file''))
      else if name \<notin> referenced then reconcile_loop referenced rest
      else (let (kept, err) = reconcile_loop referenced rest in ((name, e) # kept, err)))"

definition reconcile_object_directory :: "cache \<Rightarrow> cache \<times> cache_error option" where
  "reconcile_object_directory s =
     (let (objs, err) = reconcile_loop (e_content_sha256 ` set (cache_entries s)) (objects s)
      in (s\<lparr>objects := objs\<rparr>, err))"

section \<open>Verification of a volume\<close>

definition state_bound :: "cache_config \<Rightarrow> cache_state_row \<Rightarrow> bool" where
  "state_bound cfg row \<longleftrightarrow>
     st_schema_version row = FULL_FLOW_CACHE_SCHEMA_VERSION
     \<and> st_node_id row = cfg_node_id cfg
     \<and> st_cache_id row = cfg_cache_id cfg
     \<and> st_capacity_bytes row = cfg_capacity_bytes cfg"

definition verify_entry ::
  "(bytes \<Rightarrow> string) \<Rightarrow> (string \<times> dir_entry) list \<Rightarrow> cache_entry \<Rightarrow> cache_error + int" where
  "verify_entry H objs row =
     bind_res (cache_digest (JStr (e_cache_key row)) ''cache_key'') (\<lambda>key.
     bind_res (cache_identifier (JStr (e_cache_namespace row)) ''cache_namespace'') (\<lambda>namespace.
     bind_res (cache_identifier (JStr (e_object_id row)) ''object_id'') (\<lambda>object_id.
     bind_res (cache_identifier (JStr (e_representation_id row)) ''representation_id'') (\<lambda>representation_id.
     bind_res (cache_key H (JStr object_id) (JStr representation_id) (JStr namespace)) (\<lambda>expected_key.
     require (key = expected_key)
       (FullFlowCacheError ''cache entry key differs from its namespace and identity'') (
     bind_res (cache_digest (JStr (e_content_sha256 row)) ''content_sha256'') (\<lambda>digest.
     bind_res (cache_positive_integer (JInt (e_size_bytes row)) ''size_bytes'') (\<lambda>size.
     case read_bytes objs digest of
       None \<Rightarrow> Inl (FullFlowCacheError ''cached payload is absent'')
     | Some payload \<Rightarrow>
         require (int (length payload) = size) (FullFlowCacheError ''cached payload size changed'') (
         require (H payload = digest) (FullFlowCacheError ''cached payload digest changed'') (
         Inr size))))))))))"

fun verify_rows ::
  "(bytes \<Rightarrow> string) \<Rightarrow> (string \<times> dir_entry) list \<Rightarrow> cache_entry list \<Rightarrow> int \<Rightarrow> cache_error + int" where
  "verify_rows H objs [] used = Inr used"
| "verify_rows H objs (row # rows) used =
     bind_res (verify_entry H objs row) (\<lambda>size. verify_rows H objs rows (used + size))"

definition cache_verify :: "(bytes \<Rightarrow> string) \<Rightarrow> cache_config \<Rightarrow> cache \<Rightarrow> cache_error + dict" where
  "cache_verify H cfg s =
     (case cache_state s of
        None \<Rightarrow> Inl (FullFlowCacheError ''cache state is absent'')
      | Some row \<Rightarrow>
          require (state_bound cfg row) (FullFlowCacheError ''cache state binding changed'') (
          bind_res (verify_rows H (objects s) (sort_key e_cache_key (cache_entries s)) 0) (\<lambda>used.
          require (used \<le> cfg_capacity_bytes cfg) (FullFlowCacheError ''cache exceeds capacity'') (
          Inr [(''schema_version'', JStr FULL_FLOW_CACHE_SCHEMA_VERSION),
               (''status'', JStr ''VERIFIED''),
               (''node_id'', JStr (cfg_node_id cfg)),
               (''cache_id'', JStr (cfg_cache_id cfg)),
               (''capacity_bytes'', JInt (cfg_capacity_bytes cfg)),
               (''used_bytes'', JInt used),
               (''entry_count'', JInt (int (length (cache_entries s)))),
               (''persistent_state'', JBool True),
               (''payload_bytes_are_real'', JBool True),
               (''cache_namespace_isolation'', JBool True),
               (''credentials_recorded'', JBool False)]))))"

section \<open>Opening a volume\<close>

definition cache_configure :: "string \<Rightarrow> json \<Rightarrow> json \<Rightarrow> cache_error + cache_config" where
  "cache_configure node_id cache_id capacity_bytes =
     require (node_id \<in> set ALLOWED_NODES) (FullFlowCacheError ''cache node_id must be N7 or N8'') (
     bind_res (cache_identifier cache_id ''cache_id'') (\<lambda>cid.
     bind_res (cache_positive_integer capacity_bytes ''capacity_bytes'') (\<lambda>capacity.
     Inr \<lparr>cfg_node_id = node_id, cfg_cache_id = cid, cfg_capacity_bytes = capacity\<rparr>)))"

definition empty_volume :: cache where
  "empty_volume = \<lparr>cache_state = None, cache_entries = [], cache_requests = [], cache_events = [],
     event_sequence = 0, entries_namespaced = True, events_namespaced = True, objects = []\<rparr>"

definition migrate :: "cache \<Rightarrow> cache" where
  "migrate s =
     s\<lparr>cache_entries := (if entries_namespaced s then cache_entries s
         else map (\<lambda>e. e\<lparr>e_cache_namespace := LEGACY_CACHE_NAMESPACE\<rparr>) (cache_entries s)),
       cache_events := (if events_namespaced s then cache_events s
         else map (\<lambda>e. e\<lparr>ev_cache_namespace := LEGACY_CACHE_NAMESPACE\<rparr>) (cache_events s)),
       entries_namespaced := True, events_namespaced := True\<rparr>"

definition bind_state :: "cache_config \<Rightarrow> cache \<Rightarrow> cache \<times> (cache_error + unit)" where
  "bind_state cfg s =
     (case cache_state s of
        None \<Rightarrow>
          (s\<lparr>cache_state := Some \<lparr>st_schema_version = FULL_FLOW_CACHE_SCHEMA_VERSION,
               st_node_id = cfg_node_id cfg, st_cache_id = cfg_cache_id cfg,
               st_capacity_bytes = cfg_capacity_bytes cfg, st_access_sequence = 0\<rparr>\<rparr>, Inr ())
      | Some row \<Rightarrow>
          (s, require (state_bound cfg row)
                (FullFlowCacheError ''cache state binding differs from configured cache'') (Inr ())))"

definition cache_initialize ::
  "(bytes \<Rightarrow> string) \<Rightarrow> cache_config \<Rightarrow> cache \<Rightarrow> cache \<times> (cache_error + unit)" where
  "cache_initialize H cfg s0 =
     (let (s, bound) = bind_state cfg (migrate s0)
      in case bound of
           Inl e \<Rightarrow> (s, Inl e)
         | Inr _ \<Rightarrow>
             (case cache_verify H cfg s of
                Inl e \<Rightarrow> (s, Inl e)
              | Inr _ \<Rightarrow>
                  (let (s', err) = reconcile_object_directory s
                   in (s', case err of None \<Rightarrow> Inr () | Some e \<Rightarrow> Inl e))))"

section \<open>Lookup\<close>

definition next_sequence :: "cache \<Rightarrow> cache_error + (int \<times> cache)" where
  "next_sequence s =
     (case cache_state s of
        None \<Rightarrow> Inl (FullFlowCacheError ''cache state is absent'')
      | Some row \<Rightarrow>
          (let sequence = st_access_sequence row + 1
           in Inr (sequence, s\<lparr>cache_state := Some (row\<lparr>st_access_sequence := sequence\<rparr>)\<rparr>)))"

definition insert_event ::
  "int \<Rightarrow> string \<Rightarrow> string \<Rightarrow> string \<Rightarrow> string \<Rightarrow> string \<Rightarrow> string option \<Rightarrow> int \<Rightarrow> cache \<Rightarrow> cache" where
  "insert_event now kind key ns oid rid content sz s =
     s\<lparr>cache_events := cache_events s @
         [\<lparr>ev_event_id = event_sequence s + 1, ev_event_kind = kind, ev_cache_key = key,
           ev_cache_namespace = ns, ev_object_id = oid, ev_representation_id = rid,
           ev_content_sha256 = content, ev_size_bytes = sz, ev_created_monotonic_ns = now\<rparr>],
       event_sequence := event_sequence s + 1\<rparr>"

definition find_entry :: "cache \<Rightarrow> string \<Rightarrow> cache_entry option" where
  "find_entry s key = find (\<lambda>e. e_cache_key e = key) (cache_entries s)"

definition touch_entry :: "string \<Rightarrow> int \<Rightarrow> cache_entry list \<Rightarrow> cache_entry list" where
  "touch_entry key sequence es =
     map (\<lambda>e. if e_cache_key e = key then e\<lparr>e_last_access_sequence := sequence\<rparr> else e) es"

definition read_artifact ::
  "(bytes \<Rightarrow> string) \<Rightarrow> cache_config \<Rightarrow> cache \<Rightarrow> string \<Rightarrow> string \<Rightarrow> string \<Rightarrow> cache_entry
   \<Rightarrow> cache_error + cached_artifact" where
  "read_artifact H cfg s ns oid rid row =
     bind_res (cache_digest (JStr (e_content_sha256 row)) ''content_sha256'') (\<lambda>digest.
     case read_bytes (objects s) digest of
       None \<Rightarrow> Inl (FullFlowCacheError ''cached payload is not readable'')
     | Some payload \<Rightarrow>
         require (int (length payload) = e_size_bytes row) (FullFlowCacheError ''cached payload size changed'') (
         require (H payload = e_content_sha256 row) (FullFlowCacheError ''cached payload digest changed'') (
         Inr \<lparr>a_cache_id = cfg_cache_id cfg, a_node_id = cfg_node_id cfg, a_cache_key = e_cache_key row,
              a_object_id = oid, a_representation_id = rid,
              a_content_sha256 = e_content_sha256 row, a_size_bytes = e_size_bytes row,
              a_payload = payload, a_event_id = event_sequence s, a_cache_namespace = ns\<rparr>)))"

definition lookup_validate ::
  "(bytes \<Rightarrow> string) \<Rightarrow> json \<Rightarrow> json \<Rightarrow> json \<Rightarrow> json
   \<Rightarrow> cache_error + (string \<times> string \<times> string \<times> string option \<times> string)" where
  "lookup_validate H cache_namespace object_id representation_id expected_sha256 =
     bind_res (cache_identifier object_id ''object_id'') (\<lambda>oid.
     bind_res (cache_identifier representation_id ''representation_id'') (\<lambda>rid.
     bind_res (if expected_sha256 = JNull then Inr None
               else bind_res (cache_digest expected_sha256 ''expected_sha256'') (\<lambda>d. Inr (Some d))) (\<lambda>expected.
     bind_res (cache_identifier cache_namespace ''cache_namespace'') (\<lambda>ns.
     bind_res (cache_key H (JStr oid) (JStr rid) (JStr ns)) (\<lambda>key.
     Inr (ns, oid, rid, expected, key))))))"

definition cache_lookup ::
  "(bytes \<Rightarrow> string) \<Rightarrow> cache_config \<Rightarrow> int \<Rightarrow> json \<Rightarrow> json \<Rightarrow> json \<Rightarrow> json \<Rightarrow> cache
   \<Rightarrow> cache \<times> (cache_error + cached_artifact option)" where
  "cache_lookup H cfg now cache_namespace object_id representation_id expected_sha256 s =
     (case lookup_validate H cache_namespace object_id representation_id expected_sha256 of
        Inl e \<Rightarrow> (s, Inl e)
      | Inr (ns, oid, rid, expected, key) \<Rightarrow>
          (case find_entry s key of
             None \<Rightarrow> (insert_event now ''MISS'' key ns oid rid expected 0 s, Inr None)
           | Some row \<Rightarrow>
               if expected \<noteq> None \<and> expected \<noteq> Some (e_content_sha256 row)
               then (insert_event now ''MISS'' key ns oid rid expected 0 s, Inr None)
               else (case next_sequence s of
                       Inl e \<Rightarrow> (s, Inl e)
                     | Inr (sequence, s1) \<Rightarrow>
                         (let s2 = s1\<lparr>cache_entries := touch_entry key sequence (cache_entries s1)\<rparr>;
                              s3 = insert_event now ''HIT'' key ns oid rid
                                     (Some (e_content_sha256 row)) (e_size_bytes row) s2
                          in (s3, map_sum id Some (read_artifact H cfg s3 ns oid rid row))))))"

section \<open>Store\<close>

record put_plan =
  p_request_id :: string
  p_object_id :: string
  p_representation_id :: string
  p_cache_namespace :: string
  p_payload :: bytes
  p_content_sha256 :: string
  p_cache_key :: string
  p_request_sha256 :: string

abbreviation p_size_bytes :: "put_plan \<Rightarrow> int" where
  "p_size_bytes p \<equiv> int (length (p_payload p))"

definition put_identity :: "string \<Rightarrow> string \<Rightarrow> string \<Rightarrow> int \<Rightarrow> json" where
  "put_identity request_id key content sz =
     JObj [(''request_id'', JStr request_id), (''cache_key'', JStr key),
           (''content_sha256'', JStr content), (''size_bytes'', JInt sz)]"

definition put_validate ::
  "(bytes \<Rightarrow> string) \<Rightarrow> cache_config \<Rightarrow> json \<Rightarrow> json \<Rightarrow> json \<Rightarrow> json \<Rightarrow> bytes \<Rightarrow> json \<Rightarrow> cache_error + put_plan" where
  "put_validate H cfg cache_namespace request_id object_id representation_id payload expected_sha256 =
     bind_res (cache_identifier request_id ''request_id'') (\<lambda>rq.
     bind_res (cache_identifier object_id ''object_id'') (\<lambda>oid.
     bind_res (cache_identifier representation_id ''representation_id'') (\<lambda>rid.
     require (payload \<noteq> []) (FullFlowCacheError ''payload is empty'') (
     require (int (length payload) \<le> cfg_capacity_bytes cfg) (FullFlowCacheError ''payload exceeds cache capacity'') (
     bind_res (if expected_sha256 = JNull then Inr ()
               else bind_res (cache_digest expected_sha256 ''expected_sha256'') (\<lambda>d.
                    require (H payload = d) (FullFlowCacheError ''payload digest differs from expected_sha256'') (Inr ())))
       (\<lambda>_.
     bind_res (cache_identifier cache_namespace ''cache_namespace'') (\<lambda>ns.
     bind_res (cache_key H (JStr oid) (JStr rid) (JStr ns)) (\<lambda>key.
     bind_res (cache_digest (JStr (H payload)) ''content_sha256'') (\<lambda>final.
     Inr \<lparr>p_request_id = rq, p_object_id = oid, p_representation_id = rid, p_cache_namespace = ns,
          p_payload = payload, p_content_sha256 = final, p_cache_key = key,
          p_request_sha256 = H (canonical_bytes (put_identity rq key final (int (length payload))))\<rparr>)))))))))"

definition find_request :: "cache \<Rightarrow> string \<Rightarrow> cache_request option" where
  "find_request s rq = find (\<lambda>r. r_request_id r = rq) (cache_requests s)"

definition put_replay :: "put_plan \<Rightarrow> cache_request \<Rightarrow> cache_error + dict" where
  "put_replay p replay =
     (if r_request_sha256 replay \<noteq> p_request_sha256 p
      then Inl (FullFlowCacheConflict ''request_id was reused for different cache content'')
      else bind_res
        (if ''cache_namespace'' \<in> keys (r_result_json replay) then Inr (r_result_json replay)
         else require (p_cache_namespace p = LEGACY_CACHE_NAMESPACE)
                (FullFlowCacheError ''legacy request replay changed cache namespace'')
                (Inr (dict_set (r_result_json replay) ''cache_namespace'' (JStr LEGACY_CACHE_NAMESPACE))))
        (\<lambda>result. Inr (dict_set result ''idempotent_replay'' (JBool True))))"

definition temporary_name :: "cache_env \<Rightarrow> string \<Rightarrow> string" where
  "temporary_name env content =
     ''.'' @ content @ ''.'' @ int_str (env_pid env) @ ''.'' @ int_str (env_thread env) @ ''.tmp''"

definition place_object ::
  "(bytes \<Rightarrow> string) \<Rightarrow> cache_env \<Rightarrow> string \<Rightarrow> (string \<times> dir_entry) list
   \<Rightarrow> (string \<times> dir_entry) list \<times> cache_error option" where
  "place_object H env content objs =
     (let temp = temporary_name env content; cleared = dict_del objs temp
      in if \<not> path_exists objs content
         then if env_fault env = ReplaceFails
              then (cleared, Some (FullFlowCacheError ''cache payload write failed''))
              else (let moved = (case map_of objs temp of None \<Rightarrow> cleared
                                 | Some e \<Rightarrow> dict_set cleared content e)
                    in (moved, if env_fault env = SyncFails
                               then Some (FullFlowCacheError ''cache payload write failed'') else None))
         else (cleared,
               case read_bytes cleared content of
                 None \<Rightarrow> Some (FullFlowCacheError ''cache payload write failed'')
               | Some b \<Rightarrow> if H b = content then None
                           else Some (FullFlowCacheError ''existing content-addressed payload is corrupt'')))"

definition stage_object ::
  "(bytes \<Rightarrow> string) \<Rightarrow> cache_env \<Rightarrow> string \<Rightarrow> bytes \<Rightarrow> (string \<times> dir_entry) list
   \<Rightarrow> (string \<times> dir_entry) list \<times> cache_error option" where
  "stage_object H env content payload objs =
     (let temp = temporary_name env content
      in case write_bytes objs temp payload of
           None \<Rightarrow> (objs, Some CacheOSError)
         | Some written \<Rightarrow>
             if env_fault env = WriteFails
             then (dict_del objs temp, Some (FullFlowCacheError ''cache payload write failed''))
             else (let seen = (case env_fault env of ReadbackDiffers b \<Rightarrow> b | _ \<Rightarrow> payload)
                   in if H seen \<noteq> content
                      then (written, Some (FullFlowCacheError ''temporary cache payload verification failed''))
                      else place_object H env content written))"

definition older :: "cache_entry \<Rightarrow> cache_entry \<Rightarrow> bool" where
  "older a b \<longleftrightarrow> e_last_access_sequence a < e_last_access_sequence b
     \<or> e_last_access_sequence a = e_last_access_sequence b \<and> e_cache_key a \<le> e_cache_key b"

fun least_recent :: "cache_entry list \<Rightarrow> cache_entry option" where
  "least_recent [] = None"
| "least_recent (e # es) =
     (case least_recent es of None \<Rightarrow> Some e | Some m \<Rightarrow> Some (if older e m then e else m))"

definition select_victim :: "string \<Rightarrow> cache_entry list \<Rightarrow> cache_entry option" where
  "select_victim key es = least_recent (filter (\<lambda>e. e_cache_key e \<noteq> key) es)"

definition delete_entry :: "string \<Rightarrow> cache_entry list \<Rightarrow> cache_entry list" where
  "delete_entry key es = filter (\<lambda>e. e_cache_key e \<noteq> key) es"

lemma least_recent_in: "least_recent es = Some m \<Longrightarrow> m \<in> set es"
  by (induction es arbitrary: m) (auto split: option.splits if_splits)

lemma delete_victim_shortens:
  assumes "select_victim key es = Some v"
  shows "length (delete_entry (e_cache_key v) es) < length es"
proof -
  have "v \<in> set es" using assms least_recent_in unfolding select_victim_def by force
  then show ?thesis unfolding delete_entry_def by (intro length_filter_less) auto
qed

function evict ::
  "string \<Rightarrow> int \<Rightarrow> int \<Rightarrow> cache_entry list \<Rightarrow> int \<Rightarrow> cache_entry list
   \<Rightarrow> cache_error + (cache_entry list \<times> cache_entry list)" where
  "evict key capacity sz es used evicted =
     (if used + sz > capacity
      then (case select_victim key es of
              None \<Rightarrow> Inl (FullFlowCacheError ''cache cannot select an eviction'')
            | Some v \<Rightarrow> evict key capacity sz (delete_entry (e_cache_key v) es)
                          (used - e_size_bytes v) (evicted @ [v]))
      else Inr (es, evicted))"
  by pat_completeness auto
termination
  by (relation "measure (\<lambda>(key, capacity, sz, es, used, evicted). length es)")
    (auto simp: delete_victim_shortens)

declare evict.simps [simp del]

definition evicted_record :: "cache_entry \<Rightarrow> json" where
  "evicted_record v =
     JObj [(''cache_key'', JStr (e_cache_key v)),
           (''cache_namespace'', JStr (e_cache_namespace v)),
           (''object_id'', JStr (e_object_id v)),
           (''representation_id'', JStr (e_representation_id v)),
           (''content_sha256'', JStr (e_content_sha256 v)),
           (''size_bytes'', JInt (e_size_bytes v))]"

fun upsert_entry :: "cache_entry \<Rightarrow> cache_entry list \<Rightarrow> cache_entry list" where
  "upsert_entry row [] = [row]"
| "upsert_entry row (e # es) = (if e_cache_key e = e_cache_key row then row # es else e # upsert_entry row es)"

definition used_bytes :: "cache_entry list \<Rightarrow> int" where
  "used_bytes es = sum_list (map e_size_bytes es)"

definition plan_entry :: "put_plan \<Rightarrow> int \<Rightarrow> cache_entry" where
  "plan_entry p sequence =
     \<lparr>e_cache_key = p_cache_key p, e_cache_namespace = p_cache_namespace p,
      e_object_id = p_object_id p, e_representation_id = p_representation_id p,
      e_content_sha256 = p_content_sha256 p, e_size_bytes = p_size_bytes p,
      e_last_access_sequence = sequence\<rparr>"

definition put_result :: "cache_config \<Rightarrow> put_plan \<Rightarrow> int \<Rightarrow> cache_entry list \<Rightarrow> dict" where
  "put_result cfg p event_id evicted =
     [(''schema_version'', JStr FULL_FLOW_CACHE_RESULT_SCHEMA_VERSION),
      (''status'', JStr ''STORED''),
      (''cache_id'', JStr (cfg_cache_id cfg)),
      (''node_id'', JStr (cfg_node_id cfg)),
      (''cache_key'', JStr (p_cache_key p)),
      (''cache_namespace'', JStr (p_cache_namespace p)),
      (''object_id'', JStr (p_object_id p)),
      (''representation_id'', JStr (p_representation_id p)),
      (''content_sha256'', JStr (p_content_sha256 p)),
      (''size_bytes'', JInt (p_size_bytes p)),
      (''event_id'', JInt event_id),
      (''evicted'', JArr (map evicted_record evicted)),
      (''idempotent_replay'', JBool False),
      (''credentials_recorded'', JBool False)]"

definition used_without :: "string \<Rightarrow> cache \<Rightarrow> int" where
  "used_without key s =
     used_bytes (cache_entries s)
       - (case find_entry s key of None \<Rightarrow> 0 | Some e \<Rightarrow> e_size_bytes e)"

definition commit_entry :: "cache_config \<Rightarrow> int \<Rightarrow> put_plan \<Rightarrow> cache \<Rightarrow> cache_error + (cache \<times> dict)" where
  "commit_entry cfg now p s =
     bind_res (evict (p_cache_key p) (cfg_capacity_bytes cfg) (p_size_bytes p)
                 (cache_entries s) (used_without (p_cache_key p) s) []) (\<lambda>(kept, evicted).
     bind_res (next_sequence (s\<lparr>cache_entries := kept\<rparr>)) (\<lambda>(sequence, s1).
       (let s2 = s1\<lparr>cache_entries := upsert_entry (plan_entry p sequence) (cache_entries s1)\<rparr>;
            s3 = insert_event now ''STORE'' (p_cache_key p) (p_cache_namespace p) (p_object_id p)
                   (p_representation_id p) (Some (p_content_sha256 p)) (p_size_bytes p) s2;
            result = put_result cfg p (event_sequence s3) evicted
        in Inr (s3\<lparr>cache_requests := cache_requests s3 @
                     [\<lparr>r_request_id = p_request_id p, r_request_sha256 = p_request_sha256 p,
                       r_result_json = loads_dict result\<rparr>]\<rparr>, result))))"

text \<open>
  The cleanup after the commit; with \<open>CleanupFails n\<close> it raises once the first \<open>n\<close> directory entries
  have been handled.
\<close>

definition remove_orphaned_objects :: "cache_env \<Rightarrow> cache \<Rightarrow> cache \<times> cache_error option" where
  "remove_orphaned_objects env s =
     (case env_fault env of
        CleanupFails n \<Rightarrow>
          (let (objs, err) = reconcile_loop (e_content_sha256 ` set (cache_entries s)) (take n (objects s))
           in (s\<lparr>objects := objs @ drop n (objects s)\<rparr>, Some (case err of None \<Rightarrow> CacheOSError | Some e \<Rightarrow> e)))
      | _ \<Rightarrow> reconcile_object_directory s)"

definition put_fresh ::
  "(bytes \<Rightarrow> string) \<Rightarrow> cache_config \<Rightarrow> cache_env \<Rightarrow> put_plan \<Rightarrow> cache \<Rightarrow> cache \<times> (cache_error + dict)" where
  "put_fresh H cfg env p s =
     (let (objs, staged) = stage_object H env (p_content_sha256 p) (p_payload p) (objects s);
          s1 = s\<lparr>objects := objs\<rparr>
      in case staged of
           Some e \<Rightarrow> (s1, Inl e)
         | None \<Rightarrow>
             (case commit_entry cfg (env_now env) p s1 of
                Inl e \<Rightarrow> (s1, Inl e)
              | Inr (s2, result) \<Rightarrow>
                  if env_fault env = CommitFails then (s1, Inl CacheOSError)
                  else (let (s3, err) = remove_orphaned_objects env s2
                        in (s3, case err of None \<Rightarrow> Inr result | Some e \<Rightarrow> Inl e))))"

definition cache_put ::
  "(bytes \<Rightarrow> string) \<Rightarrow> cache_config \<Rightarrow> cache_env \<Rightarrow> json \<Rightarrow> json \<Rightarrow> json \<Rightarrow> json \<Rightarrow> bytes \<Rightarrow> json \<Rightarrow> cache
   \<Rightarrow> cache \<times> (cache_error + dict)" where
  "cache_put H cfg env cache_namespace request_id object_id representation_id payload expected_sha256 s =
     (case put_validate H cfg cache_namespace request_id object_id representation_id payload expected_sha256 of
        Inl e \<Rightarrow> (s, Inl e)
      | Inr p \<Rightarrow>
          (case find_request s (p_request_id p) of
             Some replay \<Rightarrow> (s, put_replay p replay)
           | None \<Rightarrow> put_fresh H cfg env p s))"

section \<open>Reports\<close>

definition cache_health :: "cache_config \<Rightarrow> cache \<Rightarrow> dict" where
  "cache_health cfg s =
     [(''schema_version'', JStr FULL_FLOW_CACHE_SCHEMA_VERSION),
      (''status'', JStr ''ok''),
      (''node_id'', JStr (cfg_node_id cfg)),
      (''cache_id'', JStr (cfg_cache_id cfg)),
      (''capacity_bytes'', JInt (cfg_capacity_bytes cfg)),
      (''used_bytes'', JInt (used_bytes (cache_entries s))),
      (''entry_count'', JInt (int (length (cache_entries s)))),
      (''persistent_state'', JBool True),
      (''payload_bytes_are_real'', JBool True),
      (''cache_namespace_isolation'', JBool True),
      (''credentials_recorded'', JBool False)]"

definition event_report :: "cache_event \<Rightarrow> dict" where
  "event_report row =
     [(''event_id'', JInt (ev_event_id row)),
      (''event_kind'', JStr (ev_event_kind row)),
      (''cache_key'', JStr (ev_cache_key row)),
      (''cache_namespace'', JStr (ev_cache_namespace row)),
      (''object_id'', JStr (ev_object_id row)),
      (''representation_id'', JStr (ev_representation_id row)),
      (''content_sha256'', case ev_content_sha256 row of None \<Rightarrow> JNull | Some d \<Rightarrow> JStr d),
      (''size_bytes'', JInt (ev_size_bytes row)),
      (''credentials_recorded'', JBool False)]"

definition cache_event_reports :: "cache \<Rightarrow> dict list" where
  "cache_event_reports s = map event_report (sort_key ev_event_id (cache_events s))"

end
