(* ===== verification/Cache_Dir.thy ===== *)
theory Cache_Dir
  imports Cache_Model
begin

text \<open>
  The object directory of the cache: names, reconciliation, and the staging of a payload.

  \<open>dir_ok\<close> is what the directory of a volume satisfies at every moment, also after a crash:
  each entry is a regular file, and is either a temporary file or content addressed. \<open>P\<close> is the
  set of the payloads ever stored; that the digest does not collide on it (\<open>inj_on H P\<close>) is
  a hypothesis of the clients.
\<close>

definition dir_ok :: "(bytes \<Rightarrow> string) \<Rightarrow> bytes set \<Rightarrow> (string \<times> dir_entry) list \<Rightarrow> bool" where
  "dir_ok H P objs \<longleftrightarrow> distinct (map fst objs) \<and>
     (\<forall>(n, e) \<in> set objs. is_regular e \<and>
        (TEMP_OBJECT n \<or> match_sha256 n \<and> (\<exists>b \<in> P. e = Regular b \<and> H b = n)))"

text \<open>The faults of the disk that strike before the payload is in place.\<close>

fun staging_fault :: "disk_fault \<Rightarrow> bool" where
  "staging_fault WriteFails = True"
| "staging_fault (ReadbackDiffers b) = True"
| "staging_fault ReplaceFails = True"
| "staging_fault SyncFails = True"
| "staging_fault _ = False"

lemma is_regular_iff: "is_regular e \<longleftrightarrow> (\<exists>b. e = Regular b)"
  by (cases e) auto

section \<open>Names\<close>

lemma temp_not_sha256: "TEMP_OBJECT n \<Longrightarrow> \<not> match_sha256 n"
  by (auto simp: TEMP_OBJECT_def match_sha256_def is_hex_lower_def is_digit_def ord_def split: list.splits)

lemma dropWhile_digits: "list_all is_digit ds \<Longrightarrow> \<not> is_digit c \<Longrightarrow> dropWhile is_digit (ds @ c # r) = c # r"
  by (induction ds) auto

lemma temporary_name_temp:
  assumes "match_sha256 content" and "0 \<le> env_pid env" and "0 \<le> env_thread env"
  shows "TEMP_OBJECT (temporary_name env content)"
proof -
  obtain p ps where p: "int_str (env_pid env) = p # ps"
    using assms(2) by (cases "int_str (env_pid env)") (auto simp: int_str_def)
  obtain t ts where t: "int_str (env_thread env) = t # ts"
    using assms(3) by (cases "int_str (env_thread env)") (auto simp: int_str_def)
  have pd: "list_all is_digit (p # ps)" and td: "list_all is_digit (t # ts)"
    using assms(2,3) digits_str_digits [of "env_pid env"] digits_str_digits [of "env_thread env"] p t
    by (simp_all add: int_str_def)
  have dot: "\<not> is_digit CHR ''.''" by (simp add: is_digit_def ord_def)
  have "length content = 64" using assms(1) by (simp add: match_sha256_def)
  then show ?thesis
    using assms(1) pd td dot dropWhile_digits [OF pd dot, of "(t # ts) @ ''.tmp''"] dropWhile_digits [OF td dot, of "''tmp''"]
    by (simp add: TEMP_OBJECT_def temporary_name_def p t Let_def)
qed

section \<open>Reconciliation\<close>

lemma reconcile_loop_ok:
  assumes "\<forall>(n, e) \<in> set objs. is_regular e \<and> (TEMP_OBJECT n \<or> match_sha256 n)"
  shows "reconcile_loop refs objs = (filter (\<lambda>p. \<not> TEMP_OBJECT (fst p) \<and> fst p \<in> refs) objs, None)"
  using assms by (induction refs objs rule: reconcile_loop.induct) auto

lemma reconcile_loop_kept:
  "p \<in> set (fst (reconcile_loop refs objs)) \<Longrightarrow> p \<in> set objs"
  by (induction refs objs rule: reconcile_loop.induct) (auto split: if_splits prod.splits)

text \<open>Whatever the directory holds, reconciliation never loses a referenced payload.\<close>

lemma reconcile_loop_keeps_referenced:
  assumes "(n, Regular b) \<in> set objs" and "n \<in> refs" and "match_sha256 n"
  shows "(n, Regular b) \<in> set (fst (reconcile_loop refs objs))"
  using assms
  by (induction refs objs rule: reconcile_loop.induct) (auto split: prod.splits dest: temp_not_sha256, blast+)

lemma dir_ok_regular: "dir_ok H P objs \<Longrightarrow> map_of objs n = Some e \<Longrightarrow> is_regular e"
  by (auto simp: dir_ok_def dest!: map_of_SomeD)

lemma dir_ok_reconcile:
  assumes "dir_ok H P (objects s)"
  shows "reconcile_object_directory s =
    (s\<lparr>objects := filter (\<lambda>p. \<not> TEMP_OBJECT (fst p) \<and> fst p \<in> e_content_sha256 ` set (cache_entries s)) (objects s)\<rparr>, None)"
  using reconcile_loop_ok [of "objects s" "e_content_sha256 ` set (cache_entries s)"] assms
  by (fastforce simp: reconcile_object_directory_def dir_ok_def)

lemma dir_ok_filter: "dir_ok H P objs \<Longrightarrow> dir_ok H P (filter Q objs)"
  by (auto simp: dir_ok_def distinct_map_filter)

lemma dir_ok_take: "dir_ok H P objs \<Longrightarrow> dir_ok H P (take n objs)"
  by (auto simp: dir_ok_def take_map [symmetric] dest: in_set_takeD)

lemma dir_ok_del: "dir_ok H P objs \<Longrightarrow> dir_ok H P (dict_del objs n)"
  by (simp add: dict_del_def dir_ok_filter)

lemma dict_set_memD: "p \<in> set (dict_set d k v) \<Longrightarrow> p = (k, v) \<or> p \<in> set d"
  by (induction d k v rule: dict_set.induct) (auto split: if_splits)

lemma dir_ok_set:
  assumes "dir_ok H P objs" and "TEMP_OBJECT n \<or> match_sha256 n \<and> b \<in> P \<and> H b = n"
  shows "dir_ok H P (dict_set objs n (Regular b))"
  using assms by (auto simp: dir_ok_def dest!: dict_set_memD)

section \<open>Staging\<close>

lemma write_bytes_ok:
  assumes "dir_ok H P objs"
  shows "write_bytes objs n b = Some (dict_set objs n (Regular b))"
  using dir_ok_regular [OF assms, of n]
  by (cases "map_of objs n") (auto simp: write_bytes_def split: dir_entry.splits)

lemma path_exists_ok: "dir_ok H P objs \<Longrightarrow> path_exists objs n \<longleftrightarrow> (\<exists>b. map_of objs n = Some (Regular b))"
  using dir_ok_regular [of H P objs n]
  by (cases "map_of objs n") (auto simp: path_exists_def elim: is_regular.elims)

lemma dir_ok_content:
  assumes "dir_ok H P objs" and "map_of objs n = Some (Regular b)" and "match_sha256 n"
  shows "b \<in> P \<and> H b = n"
  using assms temp_not_sha256 [of n] by (fastforce simp: dir_ok_def dest!: map_of_SomeD)

context digest_function
begin

lemma place_object_ok:
  assumes ok: "dir_ok H P objs" and temp: "TEMP_OBJECT (temporary_name env content)"
    and there: "map_of objs (temporary_name env content) = Some (Regular b)"
    and b: "b \<in> P" "H b = content"
    and res: "place_object H env content objs = (objs', err)"
  shows "dir_ok H P objs'"
    and "err = None \<Longrightarrow> \<exists>b'. map_of objs' content = Some (Regular b') \<and> H b' = content \<and> b' \<in> P"
    and "match_sha256 n \<Longrightarrow> map_of objs n = Some e \<Longrightarrow> map_of objs' n = Some e"
    and "\<not> staging_fault (env_fault env) \<Longrightarrow> err = None"
proof -
  have sha: "match_sha256 content" using b(2) digest_form by blast
  then have neq: "temporary_name env content \<noteq> content" using temp temp_not_sha256 by metis
  have cl: "dir_ok H P (dict_del objs (temporary_name env content))" using ok by (rule dir_ok_del)
  show "dir_ok H P objs'"
    using res there b sha cl dir_ok_set [OF cl, of content b]
    by (auto simp: place_object_def Let_def split: if_splits)
  show "\<exists>b'. map_of objs' content = Some (Regular b') \<and> H b' = content \<and> b' \<in> P" if "err = None"
    using res that there b sha neq path_exists_ok [OF ok, of content] dir_ok_content [OF ok _ sha]
    by (auto simp: place_object_def Let_def split: if_splits option.splits)
  show "map_of objs' n = Some e" if "match_sha256 n" and "map_of objs n = Some e"
    using res that there temp temp_not_sha256 path_exists_ok [OF ok, of content] dir_ok_regular [OF ok, of n e]
    by (auto simp: place_object_def Let_def is_regular_iff split: if_splits)
  show "err = None" if "\<not> staging_fault (env_fault env)"
    using res that neq path_exists_ok [OF ok, of content] dir_ok_content [OF ok _ sha]
    by (auto simp: place_object_def Let_def read_bytes_def split: if_splits option.splits)
qed

lemma stage_object_ok:
  assumes ok: "dir_ok H P objs" and temp: "TEMP_OBJECT (temporary_name env (H payload))"
    and P: "payload \<in> P" and res: "stage_object H env (H payload) payload objs = (objs', err)"
  shows "dir_ok H P objs'"
    and "err = None \<Longrightarrow> \<exists>b. map_of objs' (H payload) = Some (Regular b) \<and> H b = H payload \<and> b \<in> P"
    and "match_sha256 n \<Longrightarrow> map_of objs n = Some e \<Longrightarrow> map_of objs' n = Some e"
    and "\<not> staging_fault (env_fault env) \<Longrightarrow> err = None"
proof -
  let ?t = "temporary_name env (H payload)"
  let ?w = "dict_set objs ?t (Regular payload)"
  have w: "write_bytes objs ?t payload = Some ?w" using ok by (rule write_bytes_ok)
  have okw: "dir_ok H P ?w" using ok temp by (simp add: dir_ok_set)
  have keep: "map_of ?w n = Some e" if "match_sha256 n" "map_of objs n = Some e" for n e
    using that temp temp_not_sha256 by auto
  consider (fail) "env_fault env = WriteFails" "objs' = dict_del objs ?t" "err \<noteq> None"
    | (differs) "objs' = ?w" "err \<noteq> None" "staging_fault (env_fault env)"
    | (placed) "place_object H env (H payload) ?w = (objs', err)"
    using res w by (cases "env_fault env") (auto simp: stage_object_def Let_def split: if_splits)
  note cases = this
  have placed_facts: "map_of ?w ?t = Some (Regular payload)" by simp
  note po = place_object_ok [OF okw temp placed_facts P refl]
  show "dir_ok H P objs'"
    using cases by cases (auto simp: dir_ok_del ok okw po(1))
  show "\<exists>b. map_of objs' (H payload) = Some (Regular b) \<and> H b = H payload \<and> b \<in> P" if "err = None"
    using cases by cases (use that po(2) in auto)
  show "map_of objs' n = Some e" if "match_sha256 n" and "map_of objs n = Some e"
    using cases by cases (use that keep [OF that] temp temp_not_sha256 po(3) [of objs' err n e] in auto)
  show "err = None" if "\<not> staging_fault (env_fault env)"
    using cases by cases (use that po(4) in auto)
qed

end

end
