(* ===== verification/Cache_Evict.thy ===== *)
theory Cache_Evict
  imports Cache_Model "HOL-Library.Multiset"
begin

text \<open>
  The eviction loop of \<open>put\<close>. The loop asks the database for one victim at a time; the
  reference definition \<open>lru_prefix\<close> walks the entries once, in the order of their last access,
  and takes entries until the new payload fits. \<open>evict_lru\<close> shows that the loop computes
  exactly that prefix and never fails.
\<close>

definition lru_order :: "string \<Rightarrow> cache_entry list \<Rightarrow> cache_entry list" where
  "lru_order key es = sort_key e_last_access_sequence (filter (\<lambda>e. e_cache_key e \<noteq> key) es)"

fun lru_prefix :: "int \<Rightarrow> int \<Rightarrow> int \<Rightarrow> cache_entry list \<Rightarrow> cache_entry list" where
  "lru_prefix capacity sz used [] = []"
| "lru_prefix capacity sz used (v # vs) =
     (if used + sz > capacity then v # lru_prefix capacity sz (used - e_size_bytes v) vs else [])"

abbreviation entry_keys :: "cache_entry list \<Rightarrow> string list" where
  "entry_keys es \<equiv> map e_cache_key es"

abbreviation entry_stamps :: "cache_entry list \<Rightarrow> int list" where
  "entry_stamps es \<equiv> map e_last_access_sequence es"

section \<open>The victim is the head of the LRU order\<close>

lemma least_recent_None [simp]: "least_recent es = None \<longleftrightarrow> es = []"
  by (cases es) (auto split: option.splits)

lemma least_recent_le:
  "least_recent es = Some m \<Longrightarrow> e \<in> set es \<Longrightarrow> e_last_access_sequence m \<le> e_last_access_sequence e"
proof (induction es arbitrary: m)
  case (Cons x xs)
  show ?case
  proof (cases "least_recent xs")
    case None
    with Cons.prems show ?thesis by auto
  next
    case (Some y)
    with Cons.IH [OF Some] Cons.prems show ?thesis
      by (auto simp: older_def split: if_splits)
  qed
qed simp

lemma distinct_map_sort_key: "distinct (map f (sort_key g xs)) \<longleftrightarrow> distinct (map f xs)"
  by (simp add: distinct_map)

lemma select_victim_hd:
  assumes "distinct (entry_stamps es)"
  shows "select_victim key es = (case lru_order key es of [] \<Rightarrow> None | v # vs \<Rightarrow> Some v)"
proof (cases "lru_order key es")
  case Nil
  then have "filter (\<lambda>e. e_cache_key e \<noteq> key) es = []"
    unfolding lru_order_def by (metis set_empty set_sort)
  with Nil show ?thesis by (simp add: select_victim_def)
next
  case (Cons v vs)
  let ?F = "filter (\<lambda>e. e_cache_key e \<noteq> key) es"
  have set: "set ?F = insert v (set vs)" using Cons unfolding lru_order_def by (metis list.simps(15) set_sort)
  then have "?F \<noteq> []" by (metis insert_not_empty set_empty)
  then obtain m where m: "least_recent ?F = Some m" by (cases "least_recent ?F") auto
  have "sorted (map e_last_access_sequence (v # vs))"
    using Cons unfolding lru_order_def by (metis sorted_sort_key)
  then have "e_last_access_sequence v \<le> e_last_access_sequence m"
    using least_recent_in [OF m] set by auto
  moreover have "e_last_access_sequence m \<le> e_last_access_sequence v"
    using least_recent_le [OF m, of v] set by blast
  moreover have "v \<in> set es" "m \<in> set es" using set least_recent_in [OF m] by auto
  ultimately have "m = v" using distinct_map_eq_unique [OF assms] by simp
  with m Cons show ?thesis by (simp add: select_victim_def)
qed

lemma lru_order_delete:
  assumes "distinct (entry_keys es)" and "lru_order key es = v # vs"
  shows "lru_order key (delete_entry (e_cache_key v) es) = vs"
proof -
  have "distinct (map e_cache_key (v # vs))"
    using assms unfolding lru_order_def by (metis distinct_map_sort_key distinct_map_filter)
  then have "filter (\<lambda>e. e_cache_key e \<noteq> e_cache_key v) (v # vs) = vs"
    by (simp add: filter_id_conv) (metis image_eqI)
  moreover have "lru_order key (delete_entry (e_cache_key v) es)
      = filter (\<lambda>e. e_cache_key e \<noteq> e_cache_key v) (lru_order key es)"
    by (simp add: lru_order_def delete_entry_def filter_sort filter_filter conj_commute)
  ultimately show ?thesis using assms(2) by simp
qed

lemma set_lru_order: "set (lru_order key es) = {e \<in> set es. e_cache_key e \<noteq> key}"
  by (auto simp: lru_order_def)

section \<open>The loop computes the shortest sufficient prefix\<close>

lemma lru_prefix_subset: "set (lru_prefix capacity sz used vs) \<subseteq> set vs"
  by (induction capacity sz used vs rule: lru_prefix.induct) auto

lemma evict_lru:
  assumes "distinct (entry_keys es)" and "distinct (entry_stamps es)"
    and "used = used_bytes (lru_order key es)" and "sz \<le> capacity"
  shows "evict key capacity sz es used evicted =
    Inr (filter (\<lambda>e. e \<notin> set (lru_prefix capacity sz used (lru_order key es))) es,
         evicted @ lru_prefix capacity sz used (lru_order key es))"
  using assms
proof (induction key capacity sz es used evicted rule: evict.induct)
  case (1 key capacity sz es used evicted)
  show ?case
  proof (cases "used + sz > capacity")
    case False
    then have "lru_prefix capacity sz used (lru_order key es) = []"
      by (cases "lru_order key es") auto
    with False show ?thesis by (simp add: evict.simps [of key capacity sz es])
  next
    case True
    with "1.prems" obtain v vs where lru: "lru_order key es = v # vs"
      by (cases "lru_order key es") (auto simp: used_bytes_def)
    then have victim: "select_victim key es = Some v" using select_victim_hd "1.prems" by simp
    let ?es = "delete_entry (e_cache_key v) es"
    let ?pre = "lru_prefix capacity sz (used - e_size_bytes v) vs"
    have rest: "lru_order key ?es = vs" using lru_order_delete "1.prems" lru by simp
    have "evict key capacity sz ?es (used - e_size_bytes v) (evicted @ [v]) =
        Inr (filter (\<lambda>e. e \<notin> set ?pre) ?es, (evicted @ [v]) @ ?pre)"
      using "1.IH" [OF True victim] "1.prems" rest lru
      by (simp add: delete_entry_def distinct_map_filter used_bytes_def)
    moreover have "v \<in> set es" using lru set_lru_order [of key es] by auto
    then have "filter (\<lambda>e. e \<notin> set ?pre) ?es = filter (\<lambda>e. e \<notin> set (v # ?pre)) es"
      using distinct_map_eq_unique [OF "1.prems"(1)]
      by (auto simp: delete_entry_def filter_filter intro!: filter_cong)
    ultimately show ?thesis
      using True victim lru by (simp add: evict.simps [of key capacity sz es])
  qed
qed

text \<open>The prefix makes room, and no shorter prefix does.\<close>

lemma lru_prefix_room:
  "used = used_bytes vs \<Longrightarrow> sz \<le> capacity \<Longrightarrow>
   used - used_bytes (lru_prefix capacity sz used vs) + sz \<le> capacity"
proof (induction capacity sz used vs rule: lru_prefix.induct)
  case (2 capacity sz used v vs)
  then show ?case by (cases "used + sz > capacity") (auto simp: used_bytes_def)
qed (simp add: used_bytes_def)

lemma lru_prefix_take: "lru_prefix capacity sz used vs = take (length (lru_prefix capacity sz used vs)) vs"
  by (induction capacity sz used vs rule: lru_prefix.induct) auto

lemma lru_prefix_minimal:
  "n < length (lru_prefix capacity sz used vs) \<Longrightarrow> used - used_bytes (take n vs) + sz > capacity"
proof (induction capacity sz used vs arbitrary: n rule: lru_prefix.induct)
  case (2 capacity sz used v vs)
  then show ?case by (cases n) (fastforce simp: used_bytes_def split: if_splits)+
qed simp

lemma used_bytes_split:
  "used_bytes es = used_bytes (filter P es) + used_bytes (filter (\<lambda>e. \<not> P e) es)"
  by (induction es) (auto simp: used_bytes_def)

lemma used_bytes_lru: "used_bytes (lru_order key es) = used_bytes (filter (\<lambda>e. e_cache_key e \<noteq> key) es)"
proof -
  have "sum_list (map f (sort_key g xs)) = sum_list (map f xs)" for f g :: "cache_entry \<Rightarrow> int" and xs
    by (metis mset_map mset_sort sum_mset_sum_list)
  then show ?thesis by (simp add: used_bytes_def lru_order_def)
qed

lemma used_bytes_filter_notin:
  assumes "distinct es" and "set ps \<subseteq> set es" and "distinct ps"
  shows "used_bytes (filter (\<lambda>e. e \<notin> set ps) es) = used_bytes es - used_bytes ps"
proof -
  have "mset (filter (\<lambda>e. e \<in> set ps) es) = mset ps"
    using assms by (intro set_eq_iff_mset_eq_distinct [THEN iffD1]) (auto simp: distinct_filter)
  then have "used_bytes (filter (\<lambda>e. e \<in> set ps) es) = used_bytes ps"
    unfolding used_bytes_def by (metis mset_map sum_mset_sum_list)
  then show ?thesis using used_bytes_split [of es "\<lambda>e. e \<in> set ps"] by simp
qed

end
