(* ===== verification/Cache_Inv.thy ===== *)
theory Cache_Inv
  imports Cache_Dir Cache_Evict
begin

text \<open>
  The invariant of a cache volume and its preservation by every operation, by crashes at any
  point of a store, and by reopening.

  \<open>cache_inv H P cfg s\<close>: the volume is bound to its configuration; keys, access stamps and
  request numbers are unique; every entry is under the digest of its own identity and its
  payload is on disk with the recorded length and digest; the recorded sizes fit the capacity;
  the directory is content addressed; the event log is numbered without gaps.
\<close>

section \<open>The invariant\<close>

definition entry_ok :: "(bytes \<Rightarrow> string) \<Rightarrow> (string \<times> dir_entry) list \<Rightarrow> cache_entry \<Rightarrow> bool" where
  "entry_ok H objs e \<longleftrightarrow>
     cache_IDENTIFIER (e_cache_namespace e) \<and> cache_IDENTIFIER (e_object_id e)
     \<and> cache_IDENTIFIER (e_representation_id e)
     \<and> e_cache_key e = H (canonical_bytes (cache_identity (e_cache_namespace e) (e_object_id e) (e_representation_id e)))
     \<and> 0 < e_size_bytes e
     \<and> (\<exists>b. map_of objs (e_content_sha256 e) = Some (Regular b)
          \<and> H b = e_content_sha256 e \<and> int (length b) = e_size_bytes e)"

definition sequence_of :: "cache \<Rightarrow> int" where
  "sequence_of s = (case cache_state s of None \<Rightarrow> 0 | Some row \<Rightarrow> st_access_sequence row)"

definition entries_inv :: "(bytes \<Rightarrow> string) \<Rightarrow> cache_config \<Rightarrow> cache \<Rightarrow> bool" where
  "entries_inv H cfg s \<longleftrightarrow>
     distinct (entry_keys (cache_entries s)) \<and> distinct (entry_stamps (cache_entries s))
     \<and> (\<forall>e \<in> set (cache_entries s). entry_ok H (objects s) e \<and> e_last_access_sequence e \<le> sequence_of s)
     \<and> used_bytes (cache_entries s) \<le> cfg_capacity_bytes cfg"

definition log_inv :: "cache \<Rightarrow> bool" where
  "log_inv s \<longleftrightarrow>
     distinct (map r_request_id (cache_requests s))
     \<and> map ev_event_id (cache_events s) = map int [1..<Suc (length (cache_events s))]
     \<and> event_sequence s = int (length (cache_events s))"

definition bound_to :: "cache_config \<Rightarrow> cache \<Rightarrow> bool" where
  "bound_to cfg s \<longleftrightarrow> (\<exists>row. cache_state s = Some row \<and> state_bound cfg row)
     \<and> entries_namespaced s \<and> events_namespaced s"

definition cache_inv :: "(bytes \<Rightarrow> string) \<Rightarrow> bytes set \<Rightarrow> cache_config \<Rightarrow> cache \<Rightarrow> bool" where
  "cache_inv H P cfg s \<longleftrightarrow> bound_to cfg s \<and> entries_inv H cfg s \<and> log_inv s \<and> dir_ok H P (objects s)"

text \<open>No file but the payloads of the entries.\<close>

definition no_debris :: "cache \<Rightarrow> bool" where
  "no_debris s \<longleftrightarrow> (\<forall>n \<in> fst ` set (objects s). n \<in> e_content_sha256 ` set (cache_entries s))"

lemmas cache_inv_defs = cache_inv_def bound_to_def entries_inv_def log_inv_def

lemma cache_invD:
  assumes "cache_inv H P cfg s"
  shows "bound_to cfg s" and "distinct (entry_keys (cache_entries s))"
    and "distinct (entry_stamps (cache_entries s))"
    and "used_bytes (cache_entries s) \<le> cfg_capacity_bytes cfg"
    and "log_inv s" and "dir_ok H P (objects s)"
  using assms by (simp_all add: cache_inv_def entries_inv_def)

lemma cache_inv_entry:
  assumes "cache_inv H P cfg s" and "e \<in> set (cache_entries s)"
  shows "entry_ok H (objects s) e" and "e_last_access_sequence e \<le> sequence_of s"
  using assms by (auto simp: cache_inv_def entries_inv_def)

section \<open>Frames\<close>

lemma insert_event_frame [simp]:
  "cache_state (insert_event now k key ns oid rid c sz s) = cache_state s"
  "cache_entries (insert_event now k key ns oid rid c sz s) = cache_entries s"
  "cache_requests (insert_event now k key ns oid rid c sz s) = cache_requests s"
  "objects (insert_event now k key ns oid rid c sz s) = objects s"
  "entries_namespaced (insert_event now k key ns oid rid c sz s) = entries_namespaced s"
  "events_namespaced (insert_event now k key ns oid rid c sz s) = events_namespaced s"
  "event_sequence (insert_event now k key ns oid rid c sz s) = event_sequence s + 1"
  by (simp_all add: insert_event_def)

lemma insert_event_log: "log_inv s \<Longrightarrow> log_inv (insert_event now k key ns oid rid c sz s)"
  by (simp add: log_inv_def insert_event_def)

lemma insert_event_inv: "cache_inv H P cfg s \<Longrightarrow> cache_inv H P cfg (insert_event now k key ns oid rid c sz s)"
  using insert_event_log [of s] by (auto simp: cache_inv_def bound_to_def entries_inv_def sequence_of_def)

lemma entry_ok_mono:
  assumes "entry_ok H objs e"
    and "\<And>b. map_of objs (e_content_sha256 e) = Some (Regular b) \<Longrightarrow> H b = e_content_sha256 e
      \<Longrightarrow> map_of objs' (e_content_sha256 e) = Some (Regular b)"
  shows "entry_ok H objs' e"
  using assms unfolding entry_ok_def by blast

lemma entry_ok_stamp [simp]: "entry_ok H objs (e\<lparr>e_last_access_sequence := q\<rparr>) = entry_ok H objs e"
  by (simp add: entry_ok_def)

lemma entry_ok_size: "entry_ok H objs e \<Longrightarrow> 0 < e_size_bytes e"
  by (simp add: entry_ok_def)

section \<open>Entry lists\<close>

lemma touch_entry_keys [simp]: "entry_keys (touch_entry key q es) = entry_keys es"
  by (simp add: touch_entry_def comp_def)

lemma upsert_keys:
  "distinct (entry_keys es) \<Longrightarrow> distinct (entry_keys (upsert_entry row es))
    \<and> set (entry_keys (upsert_entry row es)) = insert (e_cache_key row) (set (entry_keys es))"
  by (induction row es rule: upsert_entry.induct) auto

lemma set_upsert:
  "distinct (entry_keys es) \<Longrightarrow>
   set (upsert_entry row es) = insert row {e \<in> set es. e_cache_key e \<noteq> e_cache_key row}"
  by (induction row es rule: upsert_entry.induct) (auto simp: image_iff)

lemma used_bytes_upsert:
  "distinct (entry_keys es) \<Longrightarrow>
   used_bytes (upsert_entry row es)
     = used_bytes (filter (\<lambda>e. e_cache_key e \<noteq> e_cache_key row) es) + e_size_bytes row"
proof (induction row es rule: upsert_entry.induct)
  case (2 row e es)
  show ?case
  proof (cases "e_cache_key e = e_cache_key row")
    case True
    with "2.prems" have "filter (\<lambda>x. e_cache_key x \<noteq> e_cache_key row) es = es"
      by (auto simp: filter_id_conv image_iff)
    with True show ?thesis by (simp add: used_bytes_def)
  next
    case False
    with 2 show ?thesis by (simp add: used_bytes_def)
  qed
qed (simp add: used_bytes_def)

lemma upsert_stamps:
  assumes "distinct (entry_keys es)" and "distinct (entry_stamps es)"
    and "e_last_access_sequence row \<notin> set (entry_stamps es)"
  shows "distinct (entry_stamps (upsert_entry row es))"
  using assms
proof (induction row es rule: upsert_entry.induct)
  case (2 row e es)
  then have "e_last_access_sequence e \<noteq> e_last_access_sequence x" if "x \<in> set (upsert_entry row es)" for x
    using that set_upsert [of es row] by (auto simp: image_iff)
  with 2 show ?case by (auto simp: image_iff)
qed simp

lemma find_entry_Some:
  assumes "find_entry s key = Some e"
  shows "e \<in> set (cache_entries s)" and "e_cache_key e = key"
  using find_Some_in [OF assms [unfolded find_entry_def]] by auto

lemma used_without_lru:
  assumes "distinct (entry_keys (cache_entries s))"
  shows "used_without key s = used_bytes (lru_order key (cache_entries s))"
proof -
  let ?es = "cache_entries s"
  have split: "used_bytes ?es = used_bytes (filter (\<lambda>e. e_cache_key e \<noteq> key) ?es)
      + used_bytes (filter (\<lambda>e. e_cache_key e = key) ?es)"
    using used_bytes_split [of ?es "\<lambda>e. e_cache_key e \<noteq> key"] by simp
  have "used_bytes (filter (\<lambda>e. e_cache_key e = key) es)
      = (case find (\<lambda>e. e_cache_key e = key) es of None \<Rightarrow> 0 | Some e \<Rightarrow> e_size_bytes e)"
    if "distinct (entry_keys es)" for es
    using that
  proof (induction es)
    case (Cons x xs)
    show ?case
    proof (cases "e_cache_key x = key")
      case True
      with Cons.prems have "filter (\<lambda>e. e_cache_key e = key) xs = []"
        by (auto simp: filter_empty_conv image_iff)
      with True show ?thesis by (simp add: used_bytes_def)
    qed (use Cons in \<open>simp add: used_bytes_def\<close>)
  qed (simp add: used_bytes_def)
  from split this [OF assms] show ?thesis
    by (simp add: used_without_def find_entry_def used_bytes_lru)
qed

section \<open>Validated requests\<close>

definition plan_ok :: "(bytes \<Rightarrow> string) \<Rightarrow> cache_config \<Rightarrow> put_plan \<Rightarrow> bool" where
  "plan_ok H cfg p \<longleftrightarrow>
     cache_IDENTIFIER (p_cache_namespace p) \<and> cache_IDENTIFIER (p_object_id p)
     \<and> cache_IDENTIFIER (p_representation_id p)
     \<and> p_payload p \<noteq> [] \<and> p_size_bytes p \<le> cfg_capacity_bytes cfg
     \<and> p_content_sha256 p = H (p_payload p)
     \<and> p_cache_key p = H (canonical_bytes (cache_identity (p_cache_namespace p) (p_object_id p) (p_representation_id p)))"

lemma cache_identifier_Inr [result_simps]:
  "cache_identifier v name = Inr s \<longleftrightarrow> v = JStr s \<and> cache_IDENTIFIER s"
  by (cases v) (auto simp: cache_identifier_def require_Inr_iff)

lemma cache_digest_Inr [result_simps]:
  "cache_digest v name = Inr s \<longleftrightarrow> v = JStr s \<and> match_sha256 s"
  by (cases v) (auto simp: cache_digest_def require_Inr_iff)

lemma cache_positive_integer_Inr [result_simps]:
  "cache_positive_integer v name = Inr n \<longleftrightarrow> v = JInt n \<and> 0 < n"
  by (cases v) (auto simp: cache_positive_integer_def require_Inr_iff)

lemma cache_key_Inr [result_simps]:
  "cache_key H oid rid ns = Inr k \<longleftrightarrow>
   (\<exists>n ob r. ns = JStr n \<and> oid = JStr ob \<and> rid = JStr r \<and> cache_IDENTIFIER n \<and> cache_IDENTIFIER ob
     \<and> cache_IDENTIFIER r \<and> k = H (canonical_bytes (cache_identity n ob r)))"
  by (auto simp: cache_key_def result_simps)

lemma put_validate_ok:
  assumes "put_validate H cfg ns rq oid rid payload expected = Inr p"
  shows "plan_ok H cfg p" and "p_payload p = payload" and "rq = JStr (p_request_id p)"
    and "oid = JStr (p_object_id p)" and "rid = JStr (p_representation_id p)" and "ns = JStr (p_cache_namespace p)"
    and "p_request_sha256 p = H (canonical_bytes (put_identity (p_request_id p) (p_cache_key p) (p_content_sha256 p) (p_size_bytes p)))"
  using assms by (auto simp: put_validate_def plan_ok_def result_simps split: if_splits)

section \<open>The transaction of a store\<close>

definition put_evicted :: "cache_config \<Rightarrow> put_plan \<Rightarrow> cache \<Rightarrow> cache_entry list" where
  "put_evicted cfg p s =
     (let vs = lru_order (p_cache_key p) (cache_entries s)
      in lru_prefix (cfg_capacity_bytes cfg) (p_size_bytes p) (used_bytes vs) vs)"

definition put_kept :: "cache_config \<Rightarrow> put_plan \<Rightarrow> cache \<Rightarrow> cache_entry list" where
  "put_kept cfg p s = filter (\<lambda>e. e \<notin> set (put_evicted cfg p s)) (cache_entries s)"

definition committed :: "cache_config \<Rightarrow> int \<Rightarrow> put_plan \<Rightarrow> cache \<Rightarrow> cache" where
  "committed cfg now p s =
     (let q = sequence_of s + 1; n = event_sequence s + 1
      in s\<lparr>cache_state := map_option (\<lambda>row. row\<lparr>st_access_sequence := q\<rparr>) (cache_state s),
           cache_entries := upsert_entry (plan_entry p q) (put_kept cfg p s),
           cache_events := cache_events s @
             [\<lparr>ev_event_id = n, ev_event_kind = ''STORE'', ev_cache_key = p_cache_key p,
               ev_cache_namespace = p_cache_namespace p, ev_object_id = p_object_id p,
               ev_representation_id = p_representation_id p, ev_content_sha256 = Some (p_content_sha256 p),
               ev_size_bytes = p_size_bytes p, ev_created_monotonic_ns = now\<rparr>],
           event_sequence := n,
           cache_requests := cache_requests s @
             [\<lparr>r_request_id = p_request_id p, r_request_sha256 = p_request_sha256 p,
               r_result_json = loads_dict (put_result cfg p n (put_evicted cfg p s))\<rparr>]\<rparr>)"

lemma commit_entry_eq:
  assumes "bound_to cfg s" and "distinct (entry_keys (cache_entries s))"
    and "distinct (entry_stamps (cache_entries s))" and "plan_ok H cfg p"
  shows "commit_entry cfg now p s =
    Inr (committed cfg now p s, put_result cfg p (event_sequence s + 1) (put_evicted cfg p s))"
proof -
  obtain row where row: "cache_state s = Some row" using assms(1) by (auto simp: bound_to_def)
  have "evict (p_cache_key p) (cfg_capacity_bytes cfg) (p_size_bytes p) (cache_entries s)
      (used_without (p_cache_key p) s) [] = Inr (put_kept cfg p s, put_evicted cfg p s)"
    using evict_lru [OF assms(2,3) used_without_lru [OF assms(2)], of "p_size_bytes p" "cfg_capacity_bytes cfg"] assms(4)
    by (simp add: plan_ok_def put_kept_def put_evicted_def used_without_lru [OF assms(2)] Let_def)
  then show ?thesis
    by (simp add: commit_entry_def next_sequence_def row committed_def sequence_of_def insert_event_def Let_def)
qed

lemma put_kept_subset: "set (put_kept cfg p s) \<subseteq> set (cache_entries s)"
  by (auto simp: put_kept_def)

lemma put_kept_distinct:
  assumes "distinct (map f (cache_entries s))"
  shows "distinct (map f (put_kept cfg p s))"
  using assms by (simp add: put_kept_def distinct_map_filter)

lemma put_evicted_others: "e \<in> set (put_evicted cfg p s) \<Longrightarrow> e \<in> set (cache_entries s) \<and> e_cache_key e \<noteq> p_cache_key p"
  using lru_prefix_subset set_lru_order unfolding put_evicted_def Let_def by blast

lemma put_kept_room:
  assumes "distinct (entry_keys (cache_entries s))" and "plan_ok H cfg p"
  shows "used_bytes (filter (\<lambda>e. e_cache_key e \<noteq> p_cache_key p) (put_kept cfg p s)) + p_size_bytes p
    \<le> cfg_capacity_bytes cfg"
proof -
  let ?vs = "lru_order (p_cache_key p) (cache_entries s)"
  let ?ev = "put_evicted cfg p s"
  have dist: "distinct ?vs"
    using assms(1) distinct_map_filter [of e_cache_key "cache_entries s" "\<lambda>e. e_cache_key e \<noteq> p_cache_key p"]
    by (simp add: lru_order_def distinct_map)
  have ev: "?ev = take (length ?ev) ?vs" unfolding put_evicted_def Let_def by (rule lru_prefix_take)
  then have "distinct ?ev" and "set ?ev \<subseteq> set ?vs" by (metis dist distinct_take, metis set_take_subset)
  then have "used_bytes (filter (\<lambda>e. e \<notin> set ?ev) ?vs) = used_bytes ?vs - used_bytes ?ev"
    using used_bytes_filter_notin dist by blast
  moreover have "filter (\<lambda>e. e \<notin> set ?ev) ?vs = lru_order (p_cache_key p) (put_kept cfg p s)"
    by (simp add: put_kept_def lru_order_def filter_sort filter_filter conj_commute)
  moreover have "used_bytes ?vs - used_bytes ?ev + p_size_bytes p \<le> cfg_capacity_bytes cfg"
    unfolding put_evicted_def Let_def using assms(2) by (intro lru_prefix_room) (simp_all add: plan_ok_def)
  ultimately show ?thesis by (simp add: used_bytes_lru)
qed

lemma committed_inv:
  assumes inv: "cache_inv H P cfg s" and plan: "plan_ok H cfg p"
    and payload: "map_of (objects s) (p_content_sha256 p) = Some (Regular (p_payload p))"
    and fresh: "find_request s (p_request_id p) = None"
  shows "cache_inv H P cfg (committed cfg now p s)"
proof -
  obtain row where row: "cache_state s = Some row" and bnd: "state_bound cfg row"
    using inv by (auto simp: cache_inv_defs)
  have dk: "distinct (entry_keys (put_kept cfg p s))" and ds: "distinct (entry_stamps (put_kept cfg p s))"
    using inv put_kept_distinct by (auto simp: cache_inv_defs)
  have kept: "entry_ok H (objects s) e \<and> e_last_access_sequence e \<le> sequence_of s" if "e \<in> set (put_kept cfg p s)" for e
    using that put_kept_subset [of cfg p s] cache_inv_entry [OF inv, of e] by blast
  have row_ok: "entry_ok H (objects s) (plan_entry p q)" for q
    using plan payload by (auto simp: entry_ok_def plan_entry_def plan_ok_def)
  have ent: "entries_inv H cfg (committed cfg now p s)"
    unfolding entries_inv_def
  proof (intro conjI ballI)
    show "distinct (entry_keys (cache_entries (committed cfg now p s)))"
      using upsert_keys [OF dk] by (simp add: committed_def Let_def)
    show "distinct (entry_stamps (cache_entries (committed cfg now p s)))"
      using upsert_stamps [OF dk ds, of "plan_entry p (sequence_of s + 1)"] kept
      by (fastforce simp: committed_def Let_def plan_entry_def)
    show "used_bytes (cache_entries (committed cfg now p s)) \<le> cfg_capacity_bytes cfg"
      using used_bytes_upsert [OF dk] put_kept_room [OF _ plan] inv
      by (simp add: committed_def Let_def plan_entry_def cache_inv_defs)
  next
    fix e
    assume "e \<in> set (cache_entries (committed cfg now p s))"
    then have e: "e = plan_entry p (sequence_of s + 1) \<or> e \<in> set (put_kept cfg p s)"
      using set_upsert [OF dk] by (auto simp: committed_def Let_def)
    then show "entry_ok H (objects (committed cfg now p s)) e" using kept row_ok by (auto simp: committed_def Let_def)
    show "e_last_access_sequence e \<le> sequence_of (committed cfg now p s)"
      using e kept by (fastforce simp: committed_def Let_def plan_entry_def sequence_of_def row)
  qed
  have "p_request_id p \<notin> r_request_id ` set (cache_requests s)"
    using fresh by (auto simp: find_request_def find_None_iff)
  then have "log_inv (committed cfg now p s)" using inv by (simp add: cache_inv_defs committed_def Let_def)
  moreover have "bound_to cfg (committed cfg now p s)"
    using inv row bnd by (auto simp: cache_inv_defs committed_def Let_def state_bound_def)
  moreover have "dir_ok H P (objects (committed cfg now p s))"
    using inv by (simp add: cache_inv_def committed_def Let_def)
  ultimately show ?thesis using ent by (simp add: cache_inv_def)
qed

section \<open>Store, lookup and opening keep the invariant\<close>

definition env_ok :: "cache_env \<Rightarrow> bool" where
  "env_ok env \<longleftrightarrow> 0 \<le> env_pid env \<and> 0 \<le> env_thread env"

text \<open>Staging and reconciliation change the directory only.\<close>

lemma inv_objects:
  assumes "cache_inv H P cfg s" and "dir_ok H P objs"
    and "\<And>e n. e \<in> set (cache_entries s) \<Longrightarrow> n = e_content_sha256 e \<Longrightarrow> match_sha256 n \<Longrightarrow>
      map_of objs n = map_of (objects s) n"
    and form: "\<And>x. match_sha256 (H x)"
  shows "cache_inv H P cfg (s\<lparr>objects := objs\<rparr>)"
proof -
  have "entry_ok H objs e" if "e \<in> set (cache_entries s)" for e
  proof (rule entry_ok_mono)
    show "entry_ok H (objects s) e" using cache_inv_entry(1) assms(1) that by blast
  next
    fix b assume "map_of (objects s) (e_content_sha256 e) = Some (Regular b)" and "H b = e_content_sha256 e"
    then show "map_of objs (e_content_sha256 e) = Some (Regular b)" using assms(3) that form by metis
  qed
  then show ?thesis using assms(1,2) by (simp add: cache_inv_defs sequence_of_def)
qed

context digest_function
begin

lemma reconcile_inv:
  assumes inv: "cache_inv H P cfg s"
  shows "\<exists>s'. reconcile_object_directory s = (s', None) \<and> cache_inv H P cfg s' \<and> no_debris s'
    \<and> s' = s\<lparr>objects := objects s'\<rparr>
    \<and> (\<forall>e \<in> set (cache_entries s). map_of (objects s') (e_content_sha256 e) = map_of (objects s) (e_content_sha256 e))"
proof -
  let ?objs = "filter (\<lambda>p. \<not> TEMP_OBJECT (fst p) \<and> fst p \<in> e_content_sha256 ` set (cache_entries s)) (objects s)"
  have dir: "dir_ok H P (objects s)" using inv by (simp add: cache_inv_def)
  have sha: "match_sha256 (e_content_sha256 e)" if "e \<in> set (cache_entries s)" for e
    using cache_inv_entry(1) [OF inv that] digest_form unfolding entry_ok_def by metis
  have same: "map_of ?objs (e_content_sha256 e) = map_of (objects s) (e_content_sha256 e)"
    if "e \<in> set (cache_entries s)" for e
    using that temp_not_sha256 [of "e_content_sha256 e"] sha [OF that]
    by (subst map_of_filter_fst [of "\<lambda>n. \<not> TEMP_OBJECT n \<and> n \<in> e_content_sha256 ` set (cache_entries s)"]) auto
  have "cache_inv H P cfg (s\<lparr>objects := ?objs\<rparr>)"
    using same by (intro inv_objects [OF inv dir_ok_filter [OF dir]]) (auto simp: digest_form)
  moreover have "no_debris (s\<lparr>objects := ?objs\<rparr>)" by (auto simp: no_debris_def)
  ultimately show ?thesis using dir_ok_reconcile [OF dir] same by auto
qed

lemma stage_inv:
  assumes inv: "cache_inv H P cfg s" and plan: "plan_ok H cfg p" and env: "env_ok env" and P: "p_payload p \<in> P"
    and res: "stage_object H env (p_content_sha256 p) (p_payload p) (objects s) = (objs, err)"
  shows "cache_inv H P cfg (s\<lparr>objects := objs\<rparr>)"
    and "err = None \<Longrightarrow> inj_on H P \<Longrightarrow> map_of objs (p_content_sha256 p) = Some (Regular (p_payload p))"
    and "\<not> staging_fault (env_fault env) \<Longrightarrow> err = None"
proof -
  have c: "p_content_sha256 p = H (p_payload p)" using plan by (simp add: plan_ok_def)
  have dir: "dir_ok H P (objects s)" using inv by (simp add: cache_inv_def)
  have temp: "TEMP_OBJECT (temporary_name env (H (p_payload p)))"
    using env digest_form by (intro temporary_name_temp) (auto simp: env_ok_def)
  note so = stage_object_ok [OF dir temp P res [unfolded c]]
  have "map_of objs n = map_of (objects s) n" if e: "e \<in> set (cache_entries s)" and n: "n = e_content_sha256 e" and "match_sha256 n" for e n
  proof -
    from inv e n obtain x where x: "map_of (objects s) n = Some (Regular x)"
      using cache_inv_entry(1) unfolding entry_ok_def by blast
    with so(3) [OF \<open>match_sha256 n\<close> x] show ?thesis by simp
  qed
  then show "cache_inv H P cfg (s\<lparr>objects := objs\<rparr>)"
    using so(1) by (intro inv_objects [OF inv]) (auto simp: digest_form)
  show "map_of objs (p_content_sha256 p) = Some (Regular (p_payload p))" if "err = None" and "inj_on H P"
    using so(2) [OF that(1)] that(2) P c by (auto dest: inj_onD)
  show "err = None" if "\<not> staging_fault (env_fault env)" using so(4) that by simp
qed

lemma bound_objects [simp]: "bound_to cfg (s\<lparr>objects := objs\<rparr>) = bound_to cfg s"
  by (simp add: bound_to_def)

lemma cleanup_partial:
  assumes inv: "cache_inv H P cfg s" and fault: "env_fault env = CleanupFails n"
  shows "\<exists>objs. remove_orphaned_objects env s = (s\<lparr>objects := objs\<rparr>, Some CacheOSError)
    \<and> cache_inv H P cfg (s\<lparr>objects := objs\<rparr>)"
proof -
  let ?refs = "e_content_sha256 ` set (cache_entries s)" and ?rest = "drop n (objects s)"
  define Q where "Q x \<longleftrightarrow> \<not> TEMP_OBJECT x \<and> x \<in> ?refs \<or> x \<in> fst ` set ?rest" for x
  have dir: "dir_ok H P (objects s)" using inv by (simp add: cache_inv_def)
  have "dir_ok H P (take n (objects s))" using dir dir_ok_take by blast
  then have loop: "reconcile_loop ?refs (take n (objects s))
      = (filter (\<lambda>p. \<not> TEMP_OBJECT (fst p) \<and> fst p \<in> ?refs) (take n (objects s)), None)"
    by (intro reconcile_loop_ok) (fastforce simp: dir_ok_def)
  have "distinct (map fst (take n (objects s) @ ?rest))" using dir by (simp add: dir_ok_def)
  then have "fst ` set (take n (objects s)) \<inter> fst ` set ?rest = {}"
    unfolding map_append distinct_append set_map by blast
  then have disj: "fst p \<notin> fst ` set ?rest" if "p \<in> set (take n (objects s))" for p
    using that by (metis disjoint_iff imageI)
  have "filter (\<lambda>p. Q (fst p)) (take n (objects s) @ ?rest)
      = filter (\<lambda>p. \<not> TEMP_OBJECT (fst p) \<and> fst p \<in> ?refs) (take n (objects s)) @ ?rest"
    unfolding filter_append Q_def using disj by (auto intro!: arg_cong2 [of _ _ _ _ append] filter_cong filter_True)
  then have objs: "filter (\<lambda>p. \<not> TEMP_OBJECT (fst p) \<and> fst p \<in> ?refs) (take n (objects s)) @ ?rest
      = filter (\<lambda>p. Q (fst p)) (objects s)" by simp
  have sha: "match_sha256 (e_content_sha256 e)" if "e \<in> set (cache_entries s)" for e
    using cache_inv_entry(1) [OF inv that] digest_form unfolding entry_ok_def by metis
  have "Q (e_content_sha256 e)" if "e \<in> set (cache_entries s)" for e
    using that sha [OF that] temp_not_sha256 by (auto simp: Q_def)
  then have "cache_inv H P cfg (s\<lparr>objects := filter (\<lambda>p. Q (fst p)) (objects s)\<rparr>)"
    by (intro inv_objects [OF inv dir_ok_filter [OF dir]]) (auto simp: map_of_filter_fst digest_form)
  then show ?thesis using loop objs fault by (auto simp: remove_orphaned_objects_def)
qed

lemma put_fresh_cases:
  assumes inv: "cache_inv H P cfg s" and plan: "plan_ok H cfg p" and env: "env_ok env" and P: "p_payload p \<in> P"
    and inj: "inj_on H P" and fresh: "find_request s (p_request_id p) = None"
  obtains
    (failed) objs e where "put_fresh H cfg env p s = (s\<lparr>objects := objs\<rparr>, Inl e)"
      "cache_inv H P cfg (s\<lparr>objects := objs\<rparr>)" "staging_fault (env_fault env) \<or> env_fault env = CommitFails"
  | (unfinished) n objs e s' where "put_fresh H cfg env p s = (s', Inl e)"
      "s' = (committed cfg (env_now env) p s)\<lparr>objects := objs\<rparr>" "cache_inv H P cfg s'" "env_fault env = CleanupFails n"
  | (stored) objs s' where "put_fresh H cfg env p s =
        (s', Inr (put_result cfg p (event_sequence s + 1) (put_evicted cfg p s)))"
      "cache_inv H P cfg s'" "no_debris s'"
      "s' = (committed cfg (env_now env) p s)\<lparr>objects := objs\<rparr>"
      "map_of objs (p_content_sha256 p) = Some (Regular (p_payload p))" "\<And>n. env_fault env \<noteq> CleanupFails n"
proof -
  obtain objs err where res: "stage_object H env (p_content_sha256 p) (p_payload p) (objects s) = (objs, err)"
    by fastforce
  let ?s1 = "s\<lparr>objects := objs\<rparr>" and ?s2 = "(committed cfg (env_now env) p s)\<lparr>objects := objs\<rparr>"
  note st = stage_inv [OF inv plan env P res]
  show thesis
  proof (cases err)
    case (Some e)
    with res st(1,3) show thesis by (intro failed [of objs e]) (auto simp: put_fresh_def)
  next
    case None
    have eq: "committed cfg (env_now env) p ?s1 = ?s2"
      by (simp add: committed_def Let_def sequence_of_def put_kept_def put_evicted_def)
    have placed: "map_of objs (p_content_sha256 p) = Some (Regular (p_payload p))" using st(2) None inj by simp
    then have inv2: "cache_inv H P cfg ?s2"
      unfolding eq [symmetric] using fresh by (intro committed_inv [OF st(1) plan]) (simp_all add: find_request_def)
    have commit: "commit_entry cfg (env_now env) p ?s1 = Inr (?s2,
        put_result cfg p (event_sequence s + 1) (put_evicted cfg p s))"
      using commit_entry_eq [of cfg ?s1 H p] st(1) plan eq by (simp add: cache_inv_defs put_evicted_def)
    have new: "plan_entry p (sequence_of s + 1) \<in> set (cache_entries ?s2)"
      using set_upsert [OF put_kept_distinct [of e_cache_key s cfg p]] inv
      by (simp add: committed_def Let_def cache_inv_defs)
    consider "env_fault env = CommitFails" | n where "env_fault env = CleanupFails n"
      | "env_fault env \<noteq> CommitFails" "\<And>n. env_fault env \<noteq> CleanupFails n" by blast
    then show thesis
    proof cases
      case 1
      with None res commit st(1) show thesis
        by (intro failed [of objs CacheOSError]) (auto simp: put_fresh_def)
    next
      case (2 n)
      obtain objs' where "remove_orphaned_objects env ?s2 = (?s2\<lparr>objects := objs'\<rparr>, Some CacheOSError)"
        "cache_inv H P cfg (?s2\<lparr>objects := objs'\<rparr>)" using cleanup_partial [OF inv2 2] by blast
      with None res commit 2 show thesis
        by (intro unfinished [of _ CacheOSError objs' n]) (auto simp: put_fresh_def)
    next
      case 3
      then have "remove_orphaned_objects env ?s2 = reconcile_object_directory ?s2"
        by (auto simp: remove_orphaned_objects_def split: disk_fault.splits)
      with reconcile_inv [OF inv2] obtain s3 where s3: "remove_orphaned_objects env ?s2 = (s3, None)"
        "cache_inv H P cfg s3" "no_debris s3" "s3 = ?s2\<lparr>objects := objects s3\<rparr>"
        "\<And>e. e \<in> set (cache_entries ?s2) \<Longrightarrow> map_of (objects s3) (e_content_sha256 e) = map_of objs (e_content_sha256 e)"
        by auto
      have "map_of (objects s3) (p_content_sha256 p) = Some (Regular (p_payload p))"
        using s3(5) [OF new] placed by (simp add: plan_entry_def)
      with None res commit s3 3 show thesis by (intro stored [of s3 "objects s3"]) (auto simp: put_fresh_def)
    qed
  qed
qed

lemma put_inv:
  assumes inv: "cache_inv H P cfg s" and env: "env_ok env" and P: "payload \<in> P" and inj: "inj_on H P"
  shows "cache_inv H P cfg (fst (cache_put H cfg env ns rq oid rid payload expected s))"
proof (cases "put_validate H cfg ns rq oid rid payload expected")
  case (Inl e)
  with inv show ?thesis by (simp add: cache_put_def)
next
  case (Inr p)
  note v = put_validate_ok [OF Inr]
  show ?thesis
  proof (cases "find_request s (p_request_id p)")
    case None
    have "p_payload p \<in> P" using v(2) P by simp
    with Inr None show ?thesis
      by (rule_tac put_fresh_cases [OF inv v(1) env _ inj None]) (auto simp: cache_put_def)
  qed (use Inr inv in \<open>simp add: cache_put_def\<close>)
qed


end

section \<open>Lookup\<close>

lemma touch_entry_stamps:
  assumes "distinct (entry_keys es)" and "distinct (entry_stamps es)" and "q \<notin> set (entry_stamps es)"
  shows "distinct (entry_stamps (touch_entry key q es))"
  using assms
proof (induction es)
  case (Cons e es)
  show ?case
  proof (cases "e_cache_key e = key")
    case True
    with Cons.prems(1) have "touch_entry key q es = es"
      by (auto simp: touch_entry_def image_iff intro!: map_idI)
    with True Cons.prems show ?thesis by (auto simp: touch_entry_def)
  next
    case False
    have "e_last_access_sequence e \<notin> set (entry_stamps (touch_entry key q es))"
      using Cons.prems by (auto simp: touch_entry_def image_iff)
    with False Cons show ?thesis by (auto simp: touch_entry_def)
  qed
qed (simp add: touch_entry_def)

lemma touch_entry_used [simp]: "used_bytes (touch_entry key q es) = used_bytes es"
  by (induction es) (auto simp: used_bytes_def touch_entry_def)

lemma touch_entry_mem:
  "e \<in> set (touch_entry key q es) \<Longrightarrow>
   \<exists>e0 \<in> set es. e = e0 \<or> e = e0\<lparr>e_last_access_sequence := q\<rparr>"
  by (auto simp: touch_entry_def)

definition touched :: "string \<Rightarrow> cache \<Rightarrow> cache" where
  "touched key s =
     s\<lparr>cache_state := map_option (\<lambda>row. row\<lparr>st_access_sequence := sequence_of s + 1\<rparr>) (cache_state s),
       cache_entries := touch_entry key (sequence_of s + 1) (cache_entries s)\<rparr>"

lemma touched_inv:
  assumes inv: "cache_inv H P cfg s"
  shows "cache_inv H P cfg (touched key s)"
proof -
  obtain row where row: "cache_state s = Some row" and bnd: "state_bound cfg row"
    using inv by (auto simp: cache_inv_defs)
  have seq: "sequence_of (touched key s) = sequence_of s + 1"
    by (simp add: touched_def sequence_of_def row)
  have "sequence_of s + 1 \<notin> set (entry_stamps (cache_entries s))"
    using cache_inv_entry(2) [OF inv] by fastforce
  then have "distinct (entry_stamps (cache_entries (touched key s)))"
    using touch_entry_stamps cache_invD(2,3) [OF inv] by (simp add: touched_def)
  moreover have "entry_ok H (objects s) e \<and> e_last_access_sequence e \<le> sequence_of s + 1"
    if "e \<in> set (touch_entry key (sequence_of s + 1) (cache_entries s))" for e
  proof -
    from touch_entry_mem [OF that] obtain e0 where "e0 \<in> set (cache_entries s)"
      and "e = e0 \<or> e = e0\<lparr>e_last_access_sequence := sequence_of s + 1\<rparr>" by blast
    with cache_inv_entry [OF inv, of e0] show ?thesis by auto
  qed
  ultimately have "entries_inv H cfg (touched key s)"
    using cache_invD [OF inv] unfolding entries_inv_def seq by (auto simp: touched_def)
  moreover have "bound_to cfg (touched key s)"
    using cache_invD(1) [OF inv] row bnd by (auto simp: bound_to_def touched_def state_bound_def)
  ultimately show ?thesis using inv by (simp add: cache_inv_def log_inv_def touched_def)
qed

lemma cache_lookup_eq:
  assumes inv: "bound_to cfg s"
    and v: "lookup_validate H ns oid rid expected = Inr (n, ob, r, ex, key)"
  shows "cache_lookup H cfg now ns oid rid expected s =
    (case find_entry s key of
       None \<Rightarrow> (insert_event now ''MISS'' key n ob r ex 0 s, Inr None)
     | Some row \<Rightarrow>
         if ex \<noteq> None \<and> ex \<noteq> Some (e_content_sha256 row)
         then (insert_event now ''MISS'' key n ob r ex 0 s, Inr None)
         else (let s' = insert_event now ''HIT'' key n ob r (Some (e_content_sha256 row)) (e_size_bytes row) (touched key s)
               in (s', map_sum id Some (read_artifact H cfg s' n ob r row))))"
proof -
  obtain row where "cache_state s = Some row" using inv by (auto simp: bound_to_def)
  then have "next_sequence s = Inr (sequence_of s + 1,
      s\<lparr>cache_state := map_option (\<lambda>row. row\<lparr>st_access_sequence := sequence_of s + 1\<rparr>) (cache_state s)\<rparr>)"
    by (simp add: next_sequence_def sequence_of_def Let_def)
  then show ?thesis
    by (simp add: cache_lookup_def v touched_def Let_def split: option.splits)
qed

lemma lookup_inv:
  assumes inv: "cache_inv H P cfg s"
  shows "cache_inv H P cfg (fst (cache_lookup H cfg now ns oid rid expected s))"
proof (cases "lookup_validate H ns oid rid expected")
  case (Inl e)
  with inv show ?thesis by (simp add: cache_lookup_def)
next
  case (Inr t)
  obtain n ob r ex key where t: "t = (n, ob, r, ex, key)" by (cases t)
  show ?thesis
    unfolding cache_lookup_eq [OF cache_invD(1) [OF inv] Inr [unfolded t]]
    using inv touched_inv [OF inv, of key] by (auto simp: Let_def insert_event_inv split: option.splits)
qed

context digest_function
begin

lemma read_artifact_ok:
  assumes "entry_ok H (objects s) row"
  shows "\<exists>b. map_of (objects s) (e_content_sha256 row) = Some (Regular b) \<and> H b = e_content_sha256 row
    \<and> read_artifact H cfg s n ob r row =
      Inr \<lparr>a_cache_id = cfg_cache_id cfg, a_node_id = cfg_node_id cfg, a_cache_key = e_cache_key row,
        a_object_id = ob, a_representation_id = r, a_content_sha256 = e_content_sha256 row,
        a_size_bytes = e_size_bytes row, a_payload = b, a_event_id = event_sequence s, a_cache_namespace = n\<rparr>"
proof -
  obtain b where b: "map_of (objects s) (e_content_sha256 row) = Some (Regular b)" "H b = e_content_sha256 row"
    "int (length b) = e_size_bytes row" using assms by (auto simp: entry_ok_def)
  then have "match_sha256 (e_content_sha256 row)" using digest_form by metis
  then have "cache_digest (JStr (e_content_sha256 row)) name = Inr (e_content_sha256 row)" for name
    by (simp add: cache_digest_def)
  with b show ?thesis by (auto simp: read_artifact_def read_bytes_def)
qed

end

section \<open>Verification and opening\<close>

text \<open>What \<open>verify\<close> checks of one entry, on a directory of any shape.\<close>

definition entry_verified :: "(bytes \<Rightarrow> string) \<Rightarrow> (string \<times> dir_entry) list \<Rightarrow> cache_entry \<Rightarrow> bool" where
  "entry_verified H objs e \<longleftrightarrow>
     match_sha256 (e_cache_key e) \<and> match_sha256 (e_content_sha256 e)
     \<and> cache_IDENTIFIER (e_cache_namespace e) \<and> cache_IDENTIFIER (e_object_id e)
     \<and> cache_IDENTIFIER (e_representation_id e)
     \<and> e_cache_key e = H (canonical_bytes (cache_identity (e_cache_namespace e) (e_object_id e) (e_representation_id e)))
     \<and> 0 < e_size_bytes e
     \<and> (\<exists>b. read_bytes objs (e_content_sha256 e) = Some b
          \<and> H b = e_content_sha256 e \<and> int (length b) = e_size_bytes e)"

lemma verify_entry_Inr: "verify_entry H objs e = Inr n \<longleftrightarrow> entry_verified H objs e \<and> n = e_size_bytes e"
  by (auto simp: verify_entry_def entry_verified_def result_simps split: option.splits)

lemma verify_rows_Inr:
  "verify_rows H objs es used = Inr n \<longleftrightarrow> (\<forall>e \<in> set es. entry_verified H objs e) \<and> n = used + used_bytes es"
  by (induction H objs es used rule: verify_rows.induct) (auto simp: result_simps verify_entry_Inr used_bytes_def)

lemma used_bytes_sort_key: "used_bytes (sort_key f es) = used_bytes es"
  unfolding used_bytes_def by (metis mset_map mset_sort sum_mset_sum_list)

lemma cache_verify_iff:
  "isOK (cache_verify H cfg s) \<longleftrightarrow>
    (\<exists>row. cache_state s = Some row \<and> state_bound cfg row)
    \<and> (\<forall>e \<in> set (cache_entries s). entry_verified H (objects s) e)
    \<and> used_bytes (cache_entries s) \<le> cfg_capacity_bytes cfg"
  by (auto simp: isOK_iff cache_verify_def result_simps verify_rows_Inr used_bytes_sort_key split: option.splits)

context digest_function
begin

lemma entry_ok_verified: "entry_ok H objs e \<Longrightarrow> entry_verified H objs e"
  unfolding entry_ok_def entry_verified_def read_bytes_def using digest_form
  by (metis entry_bytes.simps(1) option.simps(5))

lemma cache_inv_verify: "cache_inv H P cfg s \<Longrightarrow> isOK (cache_verify H cfg s)"
  unfolding cache_verify_iff using cache_invD [of H P cfg s] cache_inv_entry(1) [of H P cfg s]
  by (auto simp: bound_to_def entry_ok_verified)

lemma initialize_inv:
  assumes inv: "cache_inv H P cfg s"
  shows "\<exists>objs. cache_initialize H cfg s = (s\<lparr>objects := objs\<rparr>, Inr ())
    \<and> cache_inv H P cfg (s\<lparr>objects := objs\<rparr>) \<and> no_debris (s\<lparr>objects := objs\<rparr>)"
proof -
  obtain row where row: "cache_state s = Some row" and bnd: "state_bound cfg row"
    and ns: "entries_namespaced s" "events_namespaced s"
    using cache_invD(1) [OF inv] by (auto simp: bound_to_def)
  have "migrate s = s" using ns by (simp add: migrate_def)
  moreover have "bind_state cfg s = (s, Inr ())" by (simp add: bind_state_def row bnd)
  moreover obtain v where "cache_verify H cfg s = Inr v"
    using cache_inv_verify [OF inv] by (auto simp: isOK_iff)
  moreover obtain s' where "reconcile_object_directory s = (s', None)" "cache_inv H P cfg s'"
    "no_debris s'" "s' = s\<lparr>objects := objects s'\<rparr>"
    using reconcile_inv [OF inv] by blast
  ultimately show ?thesis by (auto simp: cache_initialize_def intro!: exI [of _ "objects s'"])
qed

lemma initialize_empty:
  assumes "0 < cfg_capacity_bytes cfg"
  shows "\<exists>s. cache_initialize H cfg empty_volume = (s, Inr ()) \<and> cache_inv H P cfg s \<and> no_debris s
    \<and> cache_entries s = [] \<and> cache_requests s = [] \<and> objects s = []"
  using assms
  by (auto simp: cache_initialize_def empty_volume_def migrate_def bind_state_def cache_verify_def
      state_bound_def reconcile_object_directory_def cache_inv_defs dir_ok_def used_bytes_def no_debris_def)

end

end
