(* ===== verification/Durable.thy ===== *)
theory Durable
  imports Prelude
begin

text \<open>
  The contract of a durable table of answered requests, shared by the request table of the
  artifact cache and the score table of the hidden oracle: a step keeps the invariant of its
  store, and a row once written is found again, unchanged, in every later state.
\<close>

locale durable_table =
  fixes inv :: "'s \<Rightarrow> bool" and step :: "'s \<Rightarrow> 's \<Rightarrow> bool" and row :: "'s \<Rightarrow> 'k \<Rightarrow> 'r option"
  assumes inv_step: "inv s \<Longrightarrow> step s t \<Longrightarrow> inv t"
    and row_step: "inv s \<Longrightarrow> step s t \<Longrightarrow> row s k = Some r \<Longrightarrow> row t k = Some r"
begin

lemma inv_steps: "rtranclp step s t \<Longrightarrow> inv s \<Longrightarrow> inv t"
  by (induction rule: rtranclp_induct) (auto intro: inv_step)

lemma row_steps:
  assumes "rtranclp step s t" and "inv s" and "row s k = Some r"
  shows "row t k = Some r"
  using assms
proof (induction rule: rtranclp_induct)
  case (step t u)
  then show ?case using inv_steps row_step by blast
qed

text \<open>Two states of one run never answer one request differently.\<close>

lemma row_unique:
  assumes "inv s" and "rtranclp step s t" and "rtranclp step t u"
    and "row t k = Some r" and "row u k = Some r'"
  shows "r = r'"
  using row_steps [OF assms(3) inv_steps [OF assms(2,1)] assms(4)] assms(5) by simp

end

end
