(* ===== verification/Cache_Run.thy ===== *)
theory Cache_Run
  imports Cache_Inv Durable
begin

text \<open>
  Runs of a cache volume: stores, lookups, restarts, and crashes of the process at any point of
  a store. \<open>put_crash\<close> lists the volumes a crash can leave: the temporary file partly written, the
  payload placed but nothing committed, the transaction committed but the directory not yet
  reconciled, and the removal of unreferenced files interrupted. A volume after a crash is used
  again only through \<open>cache_initialize\<close>.
\<close>

inductive put_crash ::
  "(bytes \<Rightarrow> string) \<Rightarrow> cache_config \<Rightarrow> cache_env \<Rightarrow> put_plan \<Rightarrow> cache \<Rightarrow> cache \<Rightarrow> bool"
  for H cfg env p s where
  crash_temporary:
    "put_crash H cfg env p s
       (s\<lparr>objects := dict_set (objects s) (temporary_name env (p_content_sha256 p)) (Regular (take n (p_payload p)))\<rparr>)"
| crash_placed:
    "stage_object H env (p_content_sha256 p) (p_payload p) (objects s) = (objs, None) \<Longrightarrow>
     put_crash H cfg env p s (s\<lparr>objects := objs\<rparr>)"
| crash_committed:
    "stage_object H env (p_content_sha256 p) (p_payload p) (objects s) = (objs, None) \<Longrightarrow>
     commit_entry cfg (env_now env) p (s\<lparr>objects := objs\<rparr>) = Inr (s', result) \<Longrightarrow>
     (\<And>e. e \<in> set (cache_entries s') \<Longrightarrow> Q (e_content_sha256 e)) \<Longrightarrow>
     put_crash H cfg env p s (s'\<lparr>objects := filter (\<lambda>x. Q (fst x)) (objects s')\<rparr>)"

inductive cache_step ::
  "(bytes \<Rightarrow> string) \<Rightarrow> bytes set \<Rightarrow> cache_config \<Rightarrow> cache \<Rightarrow> cache \<Rightarrow> bool" for H P cfg where
  step_put: "env_ok env \<Longrightarrow> payload \<in> P \<Longrightarrow>
     cache_step H P cfg s (fst (cache_put H cfg env ns rq oid rid payload expected s))"
| step_lookup: "cache_step H P cfg s (fst (cache_lookup H cfg now ns oid rid expected s))"
| step_open: "cache_step H P cfg s (fst (cache_initialize H cfg s))"
| step_crash: "env_ok env \<Longrightarrow> payload \<in> P \<Longrightarrow>
     put_validate H cfg ns rq oid rid payload expected = Inr p \<Longrightarrow> find_request s (p_request_id p) = None \<Longrightarrow>
     put_crash H cfg env p s s' \<Longrightarrow> cache_step H P cfg s s'"

definition cache_run ::
  "(bytes \<Rightarrow> string) \<Rightarrow> bytes set \<Rightarrow> cache_config \<Rightarrow> cache \<Rightarrow> cache \<Rightarrow> bool" where
  "cache_run H P cfg = rtranclp (cache_step H P cfg)"

definition cache_reachable :: "(bytes \<Rightarrow> string) \<Rightarrow> bytes set \<Rightarrow> cache_config \<Rightarrow> cache \<Rightarrow> bool" where
  "cache_reachable H P cfg s \<longleftrightarrow> cache_run H P cfg (fst (cache_initialize H cfg empty_volume)) s"

inductive_cases put_crashE: "put_crash H cfg env p s t"

context digest_function
begin

lemma put_crash_inv:
  assumes inv: "cache_inv H P cfg s" and plan: "plan_ok H cfg p" and env: "env_ok env" and P: "p_payload p \<in> P"
    and inj: "inj_on H P" and fresh: "find_request s (p_request_id p) = None"
    and crash: "put_crash H cfg env p s t"
  shows "cache_inv H P cfg t"
  using crash
proof cases
  case (crash_temporary n)
  let ?t = "temporary_name env (p_content_sha256 p)"
  have temp: "TEMP_OBJECT ?t"
    using env plan digest_form by (intro temporary_name_temp) (auto simp: env_ok_def plan_ok_def)
  have "cache_inv H P cfg (s\<lparr>objects := dict_set (objects s) ?t (Regular (take n (p_payload p)))\<rparr>)"
    using temp temp_not_sha256 cache_invD(6) [OF inv]
    by (intro inv_objects [OF inv]) (auto simp: dir_ok_set digest_form)
  then show ?thesis using crash_temporary by simp
next
  case (crash_placed objs)
  with stage_inv(1) [OF inv plan env P] show ?thesis by simp
next
  case (crash_committed objs s' result Q)
  let ?s1 = "s\<lparr>objects := objs\<rparr>"
  have inv1: "cache_inv H P cfg ?s1" and pl: "map_of objs (p_content_sha256 p) = Some (Regular (p_payload p))"
    using stage_inv [OF inv plan env P crash_committed(2)] inj by auto
  have s': "s' = committed cfg (env_now env) p ?s1"
    using crash_committed(3) commit_entry_eq [OF cache_invD(1,2,3) [OF inv1] plan] by simp
  have inv2: "cache_inv H P cfg s'"
    unfolding s' using fresh pl by (intro committed_inv [OF inv1 plan]) (simp_all add: find_request_def)
  have "cache_inv H P cfg (s'\<lparr>objects := filter (\<lambda>x. Q (fst x)) (objects s')\<rparr>)"
    using crash_committed(4) cache_invD(6) [OF inv2]
    by (intro inv_objects [OF inv2]) (auto simp: dir_ok_filter map_of_filter_fst digest_form)
  then show ?thesis using crash_committed(1) by simp
qed

lemma step_inv:
  assumes "cache_step H P cfg s t" and "cache_inv H P cfg s" and "inj_on H P"
  shows "cache_inv H P cfg t"
  using assms(1)
proof cases
  case (step_put env payload ns rq oid rid expected)
  with put_inv [OF assms(2) step_put(2,3) assms(3)] show ?thesis by simp
next
  case step_lookup
  with lookup_inv [OF assms(2)] show ?thesis by simp
next
  case step_open
  with initialize_inv [OF assms(2)] show ?thesis by auto
next
  case (step_crash env payload ns rq oid rid expected p)
  note v = put_validate_ok [OF step_crash(3)]
  have "p_payload p \<in> P" using v(2) step_crash(2) by simp
  from put_crash_inv [OF assms(2) v(1) step_crash(1) this assms(3) step_crash(4,5)] show ?thesis .
qed

text \<open>A recorded request stays recorded.\<close>

lemma find_request_append:
  "find_request s rq = Some r \<Longrightarrow> cache_requests t = cache_requests s @ rs \<Longrightarrow> find_request t rq = Some r"
  by (auto simp: find_request_def find_append_Some)

lemma committed_requests: "\<exists>rs. cache_requests (committed cfg now p s) = cache_requests s @ rs"
  by (simp add: committed_def Let_def)

lemma step_requests:
  assumes "cache_step H P cfg s t" and inv: "cache_inv H P cfg s" and inj: "inj_on H P"
  shows "\<exists>rs. cache_requests t = cache_requests s @ rs"
  using assms(1)
proof cases
  case (step_put env payload ns rq oid rid expected)
  show ?thesis
  proof (cases "put_validate H cfg ns rq oid rid payload expected")
    case (Inr p)
    note v = put_validate_ok [OF Inr]
    have P: "p_payload p \<in> P" using v(2) step_put by simp
    show ?thesis
    proof (cases "find_request s (p_request_id p)")
      case None
      show ?thesis
        by (rule put_fresh_cases [OF inv v(1) step_put(2) P inj None])
          (use step_put Inr None in \<open>auto simp: cache_put_def committed_def Let_def\<close>)
    qed (use step_put Inr in \<open>simp add: cache_put_def\<close>)
  qed (use step_put in \<open>simp add: cache_put_def\<close>)
next
  case (step_lookup now ns oid rid expected)
  show ?thesis
  proof (cases "lookup_validate H ns oid rid expected")
    case (Inr t')
    obtain n ob r ex key where "t' = (n, ob, r, ex, key)" by (cases t')
    with step_lookup cache_lookup_eq [OF cache_invD(1) [OF inv]] Inr show ?thesis
      by (auto simp: Let_def touched_def split: option.splits if_splits)
  qed (use step_lookup in \<open>simp add: cache_lookup_def\<close>)
next
  case step_open
  with initialize_inv [OF inv] show ?thesis by auto
next
  case (step_crash env payload ns rq oid rid expected p)
  note v = put_validate_ok [OF step_crash(3)]
  have P: "p_payload p \<in> P" using v(2) step_crash(2) by simp
  from step_crash(5) show ?thesis
  proof cases
    case (crash_committed objs s' result Q)
    have "cache_inv H P cfg (s\<lparr>objects := objs\<rparr>)"
      using stage_inv(1) [OF inv v(1) step_crash(1) P crash_committed(2)] .
    then have "s' = committed cfg (env_now env) p (s\<lparr>objects := objs\<rparr>)"
      using crash_committed(3) commit_entry_eq [OF cache_invD(1,2,3) v(1)] by fastforce
    with crash_committed(1) show ?thesis by (simp add: committed_def Let_def)
  qed auto
qed

lemma request_step:
  assumes "cache_inv H P cfg s" and "inj_on H P" and "cache_step H P cfg s t" and "find_request s rq = Some r"
  shows "find_request t rq = Some r"
  using step_requests [OF assms(3,1,2)] find_request_append [OF assms(4)] by blast

end

sublocale digest_function \<subseteq> requests: durable_table "\<lambda>s. cache_inv H P cfg s \<and> inj_on H P" "cache_step H P cfg" find_request
  for P cfg
  by unfold_locales (auto intro: step_inv request_step)

context digest_function
begin

lemma run_inv: "cache_run H P cfg s t \<Longrightarrow> cache_inv H P cfg s \<Longrightarrow> inj_on H P \<Longrightarrow> cache_inv H P cfg t"
  unfolding cache_run_def using requests.inv_steps by blast

lemma run_request:
  "cache_run H P cfg s t \<Longrightarrow> cache_inv H P cfg s \<Longrightarrow> inj_on H P \<Longrightarrow> find_request s rq = Some r \<Longrightarrow>
   find_request t rq = Some r"
  unfolding cache_run_def using requests.row_steps by blast

lemma reachable_inv:
  assumes "cache_reachable H P cfg s" and "inj_on H P" and "0 < cfg_capacity_bytes cfg"
  shows "cache_inv H P cfg s"
  using assms initialize_empty [OF assms(3), of P] run_inv unfolding cache_reachable_def by fastforce

end

end
