(* ===== verification/Cache_Ops.thy ===== *)
theory Cache_Ops
  imports Cache_Run
begin

text \<open>
  What each operation of the cache does on a volume that satisfies the invariant, for any digest
  function: the outcomes of a store, the artifact a lookup returns, the entries an eviction takes,
  the durability of recorded requests, and what a successful opening of an arbitrary volume
  establishes.
\<close>

section \<open>The outcomes of stores and lookups\<close>

lemma find_entry_unique:
  assumes "distinct (entry_keys (cache_entries s))" and "e \<in> set (cache_entries s)"
  shows "find_entry s (e_cache_key e) = Some e"
proof (cases "find_entry s (e_cache_key e)")
  case None
  with assms(2) show ?thesis by (auto simp: find_entry_def find_None_iff)
next
  case (Some x)
  with find_entry_Some [OF Some] distinct_map_eq_unique [OF assms(1)] assms(2) show ?thesis by metis
qed

lemma put_result_keys:
  shows "distinct (map fst (put_result cfg p n ev))" and "''cache_namespace'' \<in> keys (put_result cfg p n ev)"
  by (simp_all add: put_result_def)

definition put_args_ok :: "cache_config \<Rightarrow> string \<Rightarrow> string \<Rightarrow> string \<Rightarrow> string \<Rightarrow> bytes \<Rightarrow> bool" where
  "put_args_ok cfg ns rq oid rid payload \<longleftrightarrow>
     cache_IDENTIFIER ns \<and> cache_IDENTIFIER rq \<and> cache_IDENTIFIER oid \<and> cache_IDENTIFIER rid
     \<and> payload \<noteq> [] \<and> int (length payload) \<le> cfg_capacity_bytes cfg"

definition plan_of :: "(bytes \<Rightarrow> string) \<Rightarrow> string \<Rightarrow> string \<Rightarrow> string \<Rightarrow> string \<Rightarrow> bytes \<Rightarrow> put_plan" where
  "plan_of H ns rq oid rid payload =
     (let key = H (canonical_bytes (cache_identity ns oid rid))
      in \<lparr>p_request_id = rq, p_object_id = oid, p_representation_id = rid, p_cache_namespace = ns,
          p_payload = payload, p_content_sha256 = H payload, p_cache_key = key,
          p_request_sha256 = H (canonical_bytes (put_identity rq key (H payload) (int (length payload))))\<rparr>)"

lemma put_validate_plan:
  assumes "put_validate H cfg ns rq oid rid payload expected = Inr p"
  shows "\<exists>n q ob r. ns = JStr n \<and> rq = JStr q \<and> oid = JStr ob \<and> rid = JStr r
    \<and> put_args_ok cfg n q ob r payload \<and> p = plan_of H n q ob r payload"
  using assms
  by (auto simp: put_validate_def put_args_ok_def plan_of_def Let_def result_simps split: if_splits)

lemma objects_touched [simp]: "objects (touched key s) = objects s"
  by (simp add: touched_def)

lemma partition_filter:
  "A \<inter> B = {} \<Longrightarrow> A \<union> B = V \<Longrightarrow> V = {e \<in> E. Q e} \<Longrightarrow> {e. (e \<in> E \<and> e \<notin> A) \<and> Q e} = B"
  by auto

context digest_function
begin

lemma put_validate_args:
  assumes "put_args_ok cfg ns rq oid rid payload" and "expected = JNull \<or> expected = JStr (H payload)"
  shows "put_validate H cfg (JStr ns) (JStr rq) (JStr oid) (JStr rid) payload expected
    = Inr (plan_of H ns rq oid rid payload)"
  using assms digest_form
  by (auto simp: put_validate_def put_args_ok_def plan_of_def cache_identifier_def cache_digest_def cache_key_def Let_def)

lemma plan_of_ok: "put_args_ok cfg ns rq oid rid payload \<Longrightarrow> plan_ok H cfg (plan_of H ns rq oid rid payload)"
  by (simp add: put_args_ok_def plan_ok_def plan_of_def Let_def)

lemma put_outcome:
  assumes inv: "cache_inv H P cfg s" and env: "env_ok env" and P: "payload \<in> P" and inj: "inj_on H P"
    and res: "cache_put H cfg env ns rq oid rid payload expected s = (s', r)"
  obtains (rejected) e where "r = Inl e" "s' = s"
  | (faulty) e objs where "r = Inl e" "s' = s\<lparr>objects := objs\<rparr>" "cache_inv H P cfg s'" "staging_fault (env_fault env) \<or> env_fault env = CommitFails"
  | (unfinished) p n objs e where "put_validate H cfg ns rq oid rid payload expected = Inr p" "r = Inl e"
      "find_request s (p_request_id p) = None"
      "s' = (committed cfg (env_now env) p s)\<lparr>objects := objs\<rparr>" "cache_inv H P cfg s'" "env_fault env = CleanupFails n"
  | (replayed) p row where "put_validate H cfg ns rq oid rid payload expected = Inr p"
      "find_request s (p_request_id p) = Some row" "s' = s" "r = put_replay p row"
  | (stored) p objs where "put_validate H cfg ns rq oid rid payload expected = Inr p"
      "find_request s (p_request_id p) = None"
      "r = Inr (put_result cfg p (event_sequence s + 1) (put_evicted cfg p s))"
      "s' = (committed cfg (env_now env) p s)\<lparr>objects := objs\<rparr>"
      "cache_inv H P cfg s'" "no_debris s'"
      "map_of objs (p_content_sha256 p) = Some (Regular (p_payload p))"
proof (cases "put_validate H cfg ns rq oid rid payload expected")
  case (Inl e)
  with res rejected show thesis by (auto simp: cache_put_def)
next
  case (Inr p)
  note v = put_validate_ok [OF Inr]
  have P': "p_payload p \<in> P" using v(2) P by simp
  show thesis
  proof (cases "find_request s (p_request_id p)")
    case (Some row)
    have "s' = s" and "r = put_replay p row" using res Inr Some by (simp_all add: cache_put_def)
    then show thesis by (rule replayed [OF Inr Some])
  next
    case None
    have put: "put_fresh H cfg env p s = (s', r)" using res Inr None by (simp add: cache_put_def)
    show thesis
    proof (rule put_fresh_cases [OF inv v(1) env P' inj None])
      fix objs e
      assume "put_fresh H cfg env p s = (s\<lparr>objects := objs\<rparr>, Inl e)"
        "cache_inv H P cfg (s\<lparr>objects := objs\<rparr>)" "staging_fault (env_fault env) \<or> env_fault env = CommitFails"
      with put show thesis by (intro faulty [of e objs]) auto
    next
      fix n objs e s''
      assume "put_fresh H cfg env p s = (s'', Inl e)" "s'' = (committed cfg (env_now env) p s)\<lparr>objects := objs\<rparr>"
        "cache_inv H P cfg s''" "env_fault env = CleanupFails n"
      with put show thesis by (intro unfinished [OF Inr _ None, of e objs n]) auto
    next
      fix objs s''
      assume "put_fresh H cfg env p s = (s'', Inr (put_result cfg p (event_sequence s + 1) (put_evicted cfg p s)))"
        "cache_inv H P cfg s''" "no_debris s''" "s'' = (committed cfg (env_now env) p s)\<lparr>objects := objs\<rparr>"
        "map_of objs (p_content_sha256 p) = Some (Regular (p_payload p))"
      with put show thesis by (intro stored [OF Inr None, of objs]) auto
    qed
  qed
qed

lemma committed_entry:
  assumes "cache_inv H P cfg s"
  shows "set (cache_entries (committed cfg now p s))
    = insert (plan_entry p (sequence_of s + 1)) {e \<in> set (put_kept cfg p s). e_cache_key e \<noteq> p_cache_key p}"
  using set_upsert [OF put_kept_distinct [OF cache_invD(2) [OF assms], of cfg p], of "plan_entry p (sequence_of s + 1)"]
  by (simp add: committed_def Let_def plan_entry_def)

lemma committed_kept:
  assumes inv: "cache_inv H P cfg s"
  shows "{e \<in> set (put_kept cfg p s). e_cache_key e \<noteq> p_cache_key p}
    = set (drop (length (put_evicted cfg p s)) (lru_order (p_cache_key p) (cache_entries s)))"
proof -
  define vs where "vs = lru_order (p_cache_key p) (cache_entries s)"
  define n where "n = length (put_evicted cfg p s)"
  have take: "put_evicted cfg p s = take n vs"
    unfolding n_def put_evicted_def Let_def vs_def by (rule lru_prefix_take)
  have "distinct vs" using cache_invD(2) [OF inv] unfolding vs_def lru_order_def
    by (auto simp: distinct_map intro!: distinct_filter)
  then have "set (take n vs) \<inter> set (drop n vs) = {}" and "set (take n vs) \<union> set (drop n vs) = set vs"
    by (metis append_take_drop_id distinct_append, metis append_take_drop_id set_append)
  moreover have "set vs = {e \<in> set (cache_entries s). e_cache_key e \<noteq> p_cache_key p}"
    by (simp add: vs_def set_lru_order)
  ultimately have "{e. (e \<in> set (cache_entries s) \<and> e \<notin> set (take n vs)) \<and> e_cache_key e \<noteq> p_cache_key p} = set (drop n vs)"
    by (intro partition_filter)
  then show ?thesis
    unfolding n_def [symmetric] vs_def [symmetric] by (simp add: put_kept_def take)
qed

lemma plan_of_fields [simp]:
  "p_request_id (plan_of H ns rq oid rid payload) = rq"
  "p_payload (plan_of H ns rq oid rid payload) = payload"
  "p_content_sha256 (plan_of H ns rq oid rid payload) = H payload"
  "p_cache_key (plan_of H ns rq oid rid payload) = H (canonical_bytes (cache_identity ns oid rid))"
  "p_cache_namespace (plan_of H ns rq oid rid payload) = ns"
  "p_object_id (plan_of H ns rq oid rid payload) = oid"
  "p_representation_id (plan_of H ns rq oid rid payload) = rid"
  by (simp_all add: plan_of_def Let_def)

lemma put_stored:
  assumes inv: "cache_inv H P cfg s" and env: "env_ok env" and P: "payload \<in> P" and inj: "inj_on H P"
    and args: "put_args_ok cfg ns rq oid rid payload" and fresh: "find_request s rq = None"
    and nofault: "env_fault env = NoFault" and ex: "expected = JNull \<or> expected = JStr (H payload)"
    and p: "p = plan_of H ns rq oid rid payload"
  shows "\<exists>s'. cache_put H cfg env (JStr ns) (JStr rq) (JStr oid) (JStr rid) payload expected s
      = (s', Inr (put_result cfg p (event_sequence s + 1) (put_evicted cfg p s)))
    \<and> s' = (committed cfg (env_now env) p s)\<lparr>objects := objects s'\<rparr> \<and> cache_inv H P cfg s' \<and> no_debris s'
    \<and> find_entry s' (p_cache_key p) = Some (plan_entry p (sequence_of s + 1))
    \<and> map_of (objects s') (H payload) = Some (Regular payload)"
proof -
  have fresh': "find_request s (p_request_id p) = None" and P': "p_payload p \<in> P" using fresh P p by simp_all
  have put: "cache_put H cfg env (JStr ns) (JStr rq) (JStr oid) (JStr rid) payload expected s = put_fresh H cfg env p s"
    using put_validate_args [OF args ex] fresh' p by (simp add: cache_put_def)
  show ?thesis
  proof (rule put_fresh_cases [OF inv plan_of_ok [OF args, folded p] env P' inj fresh'])
    fix objs e assume "staging_fault (env_fault env) \<or> env_fault env = CommitFails" then show ?thesis using nofault by simp
  next
    fix n objs e s' assume "env_fault env = CleanupFails n" then show ?thesis using nofault by simp
  next
    fix objs s'
    assume f: "put_fresh H cfg env p s = (s', Inr (put_result cfg p (event_sequence s + 1) (put_evicted cfg p s)))"
      "cache_inv H P cfg s'" "no_debris s'" "s' = (committed cfg (env_now env) p s)\<lparr>objects := objs\<rparr>"
      "map_of objs (p_content_sha256 p) = Some (Regular (p_payload p))"
    have "plan_entry p (sequence_of s + 1) \<in> set (cache_entries s')" using committed_entry [OF inv] f(4) by simp
    then have "find_entry s' (p_cache_key p) = Some (plan_entry p (sequence_of s + 1))"
      using find_entry_unique [OF cache_invD(2) [OF f(2)]] by (fastforce simp: plan_entry_def)
    with f put p show ?thesis by auto
  qed
qed

lemma put_then_lookup:
  assumes inv: "cache_inv H P cfg s" and env: "env_ok env" and P: "payload \<in> P" and inj: "inj_on H P"
    and args: "put_args_ok cfg ns rq oid rid payload" and fresh: "find_request s rq = None"
    and nofault: "env_fault env = NoFault"
    and ex: "expected = JNull \<or> expected = JStr (H payload)" and ex': "expected' = JNull \<or> expected' = JStr (H payload)"
  shows "\<exists>s' r a. cache_put H cfg env (JStr ns) (JStr rq) (JStr oid) (JStr rid) payload expected s = (s', Inr r)
    \<and> dget r ''status'' = JStr ''STORED''
    \<and> snd (cache_lookup H cfg now (JStr ns) (JStr oid) (JStr rid) expected' s') = Inr (Some a)
    \<and> a_payload a = payload \<and> a_content_sha256 a = H payload"
proof -
  define p where "p = plan_of H ns rq oid rid payload"
  obtain s' where st:
    "cache_put H cfg env (JStr ns) (JStr rq) (JStr oid) (JStr rid) payload expected s
      = (s', Inr (put_result cfg p (event_sequence s + 1) (put_evicted cfg p s)))"
    "cache_inv H P cfg s'" "find_entry s' (p_cache_key p) = Some (plan_entry p (sequence_of s + 1))"
    "map_of (objects s') (H payload) = Some (Regular payload)"
    using put_stored [OF inv env P inj args fresh nofault ex p_def] by blast
  have lv: "lookup_validate H (JStr ns) (JStr oid) (JStr rid) expected'
      = Inr (ns, oid, rid, if expected' = JNull then None else Some (H payload), p_cache_key p)"
    using args ex' digest_form
    by (auto simp: lookup_validate_def put_args_ok_def cache_identifier_def cache_digest_def cache_key_def p_def)
  let ?row = "plan_entry p (sequence_of s + 1)"
  let ?t = "insert_event now ''HIT'' (p_cache_key p) ns oid rid (Some (e_content_sha256 ?row)) (e_size_bytes ?row) (touched (p_cache_key p) s')"
  have obj: "objects ?t = objects s'" and cont: "e_content_sha256 ?row = H payload"
    by (simp_all add: plan_entry_def p_def)
  have "entry_ok H (objects ?t) ?row"
    using cache_inv_entry(1) [OF st(2) find_entry_Some(1) [OF st(3)]] obj by simp
  from read_artifact_ok [OF this, of cfg ns oid rid] obtain a where
    "read_artifact H cfg ?t ns oid rid ?row = Inr a" "a_payload a = payload" "a_content_sha256 a = H payload"
    unfolding obj cont st(4) by (auto simp: st(4))
  then have "snd (cache_lookup H cfg now (JStr ns) (JStr oid) (JStr rid) expected' s') = Inr (Some a)"
    unfolding cache_lookup_eq [OF cache_invD(1) [OF st(2)] lv] st(3) using cont by (simp add: Let_def)
  moreover have "dget (put_result cfg p n ev) ''status'' = JStr ''STORED''" for n ev
    by (simp add: put_result_def dget_def)
  ultimately show ?thesis using st(1) \<open>a_payload a = payload\<close> \<open>a_content_sha256 a = H payload\<close> by blast
qed

lemma put_evicts_lru:
  assumes inv: "cache_inv H P cfg s" and env: "env_ok env" and P: "payload \<in> P" and inj: "inj_on H P"
    and args: "put_args_ok cfg ns rq oid rid payload" and fresh: "find_request s rq = None"
    and nofault: "env_fault env = NoFault" and ex: "expected = JNull \<or> expected = JStr (H payload)"
    and vs: "vs = lru_order (H (canonical_bytes (cache_identity ns oid rid))) (cache_entries s)"
  shows "\<exists>s' r n. cache_put H cfg env (JStr ns) (JStr rq) (JStr oid) (JStr rid) payload expected s = (s', Inr r)
    \<and> dget r ''evicted'' = JArr (map evicted_record (take n vs))
    \<and> used_bytes (drop n vs) + int (length payload) \<le> cfg_capacity_bytes cfg
    \<and> (\<forall>m < n. used_bytes (drop m vs) + int (length payload) > cfg_capacity_bytes cfg)
    \<and> set (cache_entries s') = insert (plan_entry (plan_of H ns rq oid rid payload) (sequence_of s + 1)) (set (drop n vs))"
proof -
  define p where "p = plan_of H ns rq oid rid payload"
  let ?ev = "put_evicted cfg p s"
  have ev: "?ev = lru_prefix (cfg_capacity_bytes cfg) (int (length payload)) (used_bytes vs) vs"
    by (simp add: put_evicted_def vs p_def Let_def)
  define n where "n = length ?ev"
  have take: "?ev = take n vs" unfolding n_def ev by (rule lru_prefix_take)
  have split: "used_bytes vs = used_bytes (take m vs) + used_bytes (drop m vs)" for m
    unfolding used_bytes_def by (metis append_take_drop_id map_append sum_list_append)
  obtain s' where st:
    "cache_put H cfg env (JStr ns) (JStr rq) (JStr oid) (JStr rid) payload expected s
      = (s', Inr (put_result cfg p (event_sequence s + 1) ?ev))"
    "s' = (committed cfg (env_now env) p s)\<lparr>objects := objects s'\<rparr>"
    using put_stored [OF inv env P inj args fresh nofault ex p_def] by blast
  have "used_bytes (drop n vs) + int (length payload) \<le> cfg_capacity_bytes cfg"
    using lru_prefix_room [of "used_bytes vs" vs "int (length payload)" "cfg_capacity_bytes cfg"] args take ev split [of n]
    by (simp add: put_args_ok_def)
  moreover have "\<forall>m < n. used_bytes (drop m vs) + int (length payload) > cfg_capacity_bytes cfg"
    using lru_prefix_minimal [of _ "cfg_capacity_bytes cfg" "int (length payload)" "used_bytes vs" vs] split
    unfolding n_def ev by (metis add_diff_cancel_left')
  moreover have "set (cache_entries s') = insert (plan_entry p (sequence_of s + 1)) (set (drop n vs))"
  proof -
    have "{e \<in> set (put_kept cfg p s). e_cache_key e \<noteq> p_cache_key p} = set (drop n vs)"
      using committed_kept [OF inv, of p] by (simp add: n_def vs p_def)
    moreover have "cache_entries s' = cache_entries (committed cfg (env_now env) p s)" by (subst st(2)) simp
    ultimately show ?thesis using committed_entry [OF inv] by simp
  qed
  moreover have "dget (put_result cfg p k xs) ''evicted'' = JArr (map evicted_record xs)" for k xs
    by (simp add: put_result_def dget_def)
  ultimately show ?thesis using st(1) take p_def by metis
qed

lemma put_failure_atomic:
  assumes inv: "cache_inv H P cfg s" and env: "env_ok env" and P: "payload \<in> P" and inj: "inj_on H P"
    and res: "cache_put H cfg env ns rq oid rid payload expected s = (s', Inl e)"
    and cleanup: "\<And>n. env_fault env \<noteq> CleanupFails n"
  shows "cache_state s' = cache_state s \<and> cache_entries s' = cache_entries s
    \<and> cache_requests s' = cache_requests s \<and> cache_events s' = cache_events s \<and> cache_inv H P cfg s'"
  by (rule put_outcome [OF inv env P inj res]) (use inv cleanup in auto)

lemma put_cleanup_failure:
  assumes inv: "cache_inv H P cfg s" and env: "env_ok env" and P: "payload \<in> P" and inj: "inj_on H P"
    and res: "cache_put H cfg env ns (JStr rq) oid rid payload expected s = (s', Inl e)"
    and changed: "cache_requests s' \<noteq> cache_requests s"
  shows "cache_inv H P cfg s' \<and> (\<exists>r. cache_put H cfg env' ns (JStr rq) oid rid payload expected s' = (s', Inr r)
    \<and> dget r ''status'' = JStr ''STORED'' \<and> dget r ''idempotent_replay'' = JBool True)"
proof (rule put_outcome [OF inv env P inj res])
  fix p n objs e
  assume val: "put_validate H cfg ns (JStr rq) oid rid payload expected = Inr p"
    and none: "find_request s (p_request_id p) = None"
    and s': "s' = (committed cfg (env_now env) p s)\<lparr>objects := objs\<rparr>" and inv': "cache_inv H P cfg s'"
  define d where "d = put_result cfg p (event_sequence s + 1) (put_evicted cfg p s)"
  define row where "row = \<lparr>r_request_id = p_request_id p, r_request_sha256 = p_request_sha256 p, r_result_json = loads_dict d\<rparr>"
  have "find_request s' (p_request_id p) = Some row"
    using none unfolding s' find_request_def by (simp add: committed_def Let_def find_append_None row_def d_def)
  moreover have "put_replay p row = Inr (dict_set (loads_dict d) ''idempotent_replay'' (JBool True))"
    using put_result_keys(2) d_def by (simp add: put_replay_def row_def keys_loads)
  moreover have "dget (loads_dict d) ''status'' = JStr ''STORED''"
    using put_result_keys(1) d_def by (simp add: dget_loads) (simp add: put_result_def dget_def)
  ultimately show ?thesis using val inv' by (simp add: cache_put_def)
qed (use changed in auto)

lemma put_replay_durable:
  assumes inv: "cache_inv H P cfg s" and env: "env_ok env" and P: "payload \<in> P" and inj: "inj_on H P"
    and fresh: "find_request s q = None" and rq: "rq = JStr q"
    and first: "cache_put H cfg env ns rq oid rid payload expected s = (s1, Inr r)"
    and later: "cache_run H P cfg s1 s2"
  shows "\<exists>r'. cache_put H cfg env' ns rq oid rid payload expected s2 = (s2, Inr r')
    \<and> dget r' ''idempotent_replay'' = JBool True
    \<and> (\<forall>k. k \<noteq> ''idempotent_replay'' \<longrightarrow> dget r' k = sort_keys (dget r k))"
proof (rule put_outcome [OF inv env P inj first])
  fix p row
  assume "put_validate H cfg ns rq oid rid payload expected = Inr p" "find_request s (p_request_id p) = Some row"
  then show ?thesis using fresh put_validate_ok(3) rq by fastforce
next
  fix p objs
  assume val: "put_validate H cfg ns rq oid rid payload expected = Inr p"
    and none: "find_request s (p_request_id p) = None"
    and r: "Inr r = Inr (put_result cfg p (event_sequence s + 1) (put_evicted cfg p s))"
    and s1: "s1 = (committed cfg (env_now env) p s)\<lparr>objects := objs\<rparr>" and inv1: "cache_inv H P cfg s1"
  define row where "row = \<lparr>r_request_id = p_request_id p, r_request_sha256 = p_request_sha256 p, r_result_json = loads_dict r\<rparr>"
  have "find_request s1 (p_request_id p) = Some row"
    using none r unfolding s1 find_request_def
    by (simp add: committed_def Let_def find_append_None row_def)
  then have "find_request s2 (p_request_id p) = Some row"
    by (rule run_request [OF later inv1 inj])
  then have put2: "cache_put H cfg env' ns rq oid rid payload expected s2 = (s2, put_replay p row)"
    using val by (simp add: cache_put_def)
  have r': "r = put_result cfg p (event_sequence s + 1) (put_evicted cfg p s)" using r by simp
  have "put_replay p row = Inr (dict_set (loads_dict r) ''idempotent_replay'' (JBool True))"
    using put_result_keys(2) r' by (simp add: put_replay_def row_def keys_loads)
  with put2 show ?thesis using put_result_keys(1) r' by (auto simp: dget_loads)
qed auto

lemma lookup_spec:
  assumes inv: "cache_inv H P cfg s" and ids: "cache_IDENTIFIER ns" "cache_IDENTIFIER oid" "cache_IDENTIFIER rid"
    and ex: "match_sha256 d" and key: "key = H (canonical_bytes (cache_identity ns oid rid))"
  shows "\<exists>s' res. cache_lookup H cfg now (JStr ns) (JStr oid) (JStr rid) (JStr d) s = (s', Inr res)
    \<and> objects s' = objects s \<and> cache_requests s' = cache_requests s
    \<and> length (cache_events s') = Suc (length (cache_events s))
    \<and> (case res of
         None \<Rightarrow> cache_entries s' = cache_entries s
           \<and> \<not> (\<exists>e \<in> set (cache_entries s). e_cache_key e = key \<and> e_content_sha256 e = d)
       | Some a \<Rightarrow> cache_entries s' = touch_entry key (sequence_of s + 1) (cache_entries s)
           \<and> (\<exists>e \<in> set (cache_entries s). e_cache_key e = key \<and> e_content_sha256 e = d)
           \<and> a_cache_key a = key \<and> a_content_sha256 a = d \<and> H (a_payload a) = d
           \<and> int (length (a_payload a)) = a_size_bytes a)"
proof -
  have lv: "lookup_validate H (JStr ns) (JStr oid) (JStr rid) (JStr d) = Inr (ns, oid, rid, Some d, key)"
    using ids ex by (simp add: lookup_validate_def cache_identifier_def cache_digest_def cache_key_def key)
  note eq = cache_lookup_eq [OF cache_invD(1) [OF inv] lv, of now]
  have ev: "length (cache_events (insert_event now k key ns oid rid c sz t)) = Suc (length (cache_events t))" for k c sz t
    by (simp add: insert_event_def)
  show ?thesis
  proof (cases "find_entry s key")
    case None
    then have "\<not> (\<exists>e \<in> set (cache_entries s). e_cache_key e = key)"
      by (auto simp: find_entry_def find_None_iff)
    with None ev show ?thesis unfolding eq by (auto simp: Bex_def)
  next
    case (Some row)
    note row = find_entry_Some [OF Some]
    have uniq: "e = row" if "e \<in> set (cache_entries s)" "e_cache_key e = key" for e
      using distinct_map_eq_unique [OF cache_invD(2) [OF inv] that(1) row(1)] that(2) row(2) by simp
    show ?thesis
    proof (cases "e_content_sha256 row = d")
      case False
      with Some uniq ev show ?thesis unfolding eq by auto
    next
      case True
      let ?t = "insert_event now ''HIT'' key ns oid rid (Some (e_content_sha256 row)) (e_size_bytes row) (touched key s)"
      have "entry_ok H (objects ?t) row" using cache_inv_entry(1) [OF inv row(1)] by simp
      then obtain b where b: "H b = d" "int (length b) = e_size_bytes row" and
        ra: "read_artifact H cfg ?t ns oid rid row =
          Inr \<lparr>a_cache_id = cfg_cache_id cfg, a_node_id = cfg_node_id cfg, a_cache_key = e_cache_key row,
            a_object_id = oid, a_representation_id = rid, a_content_sha256 = e_content_sha256 row,
            a_size_bytes = e_size_bytes row, a_payload = b, a_event_id = event_sequence ?t, a_cache_namespace = ns\<rparr>"
        using read_artifact_ok [of ?t row cfg ns oid rid] True by (fastforce simp: entry_ok_def)
      have frame: "cache_requests (touched key s) = cache_requests s" "cache_events (touched key s) = cache_events s"
        "cache_entries (touched key s) = touch_entry key (sequence_of s + 1) (cache_entries s)"
        by (simp_all add: touched_def)
      have "cache_lookup H cfg now (JStr ns) (JStr oid) (JStr rid) (JStr d) s
          = (?t, map_sum id Some (read_artifact H cfg ?t ns oid rid row))"
        unfolding eq using Some True by (simp add: Let_def)
      with ra row True b ev frame show ?thesis by auto
    qed
  qed
qed

end

section \<open>Identities and their digests\<close>

lemma cache_identity_plain: "plain (cache_identity ns oid rid)"
  by (simp add: cache_identity_def Let_def)

lemma canonical_bytes_inj: "plain v \<Longrightarrow> plain w \<Longrightarrow> canonical_bytes v = canonical_bytes w \<Longrightarrow> sort_keys v = sort_keys w"
  using dumps_inj [of v w] by (simp add: canonical_bytes_def)

lemma cache_identity_inj:
  assumes "canonical_bytes (cache_identity ns oid rid) = canonical_bytes (cache_identity ns' oid' rid')"
  shows "ns = ns' \<and> oid = oid' \<and> rid = rid'"
proof -
  have "sort_keys (cache_identity ns oid rid) = sort_keys (cache_identity ns' oid' rid')"
    using assms by (intro canonical_bytes_inj cache_identity_plain)
  then show ?thesis
    by (auto simp: cache_identity_def Let_def split: if_splits)
qed

lemma put_identity_inj:
  assumes "canonical_bytes (put_identity rq key c n) = canonical_bytes (put_identity rq' key' c' n')"
  shows "rq = rq' \<and> key = key' \<and> c = c' \<and> n = n'"
proof -
  have "sort_keys (put_identity rq key c n) = sort_keys (put_identity rq' key' c' n')"
    using assms by (intro canonical_bytes_inj) (simp_all add: put_identity_def)
  then show ?thesis by (simp add: put_identity_def)
qed

text \<open>The texts a store hashes: the payload, the identity of the entry, and the request.\<close>

definition put_texts :: "(bytes \<Rightarrow> string) \<Rightarrow> string \<Rightarrow> string \<Rightarrow> string \<Rightarrow> string \<Rightarrow> bytes \<Rightarrow> bytes set" where
  "put_texts H ns rq oid rid payload =
     {payload, canonical_bytes (cache_identity ns oid rid),
      canonical_bytes (put_identity rq (H (canonical_bytes (cache_identity ns oid rid))) (H payload) (int (length payload)))}"

context digest_function
begin

lemma plan_of_request_inj:
  assumes inj: "inj_on H (put_texts H ns rq oid rid payload \<union> put_texts H ns' rq' oid' rid' payload')"
    and eq: "p_request_sha256 (plan_of H ns rq oid rid payload) = p_request_sha256 (plan_of H ns' rq' oid' rid' payload')"
  shows "ns = ns' \<and> rq = rq' \<and> oid = oid' \<and> rid = rid' \<and> payload = payload'"
proof -
  let ?k = "H (canonical_bytes (cache_identity ns oid rid))" and ?k' = "H (canonical_bytes (cache_identity ns' oid' rid'))"
  have "canonical_bytes (put_identity rq ?k (H payload) (int (length payload)))
      = canonical_bytes (put_identity rq' ?k' (H payload') (int (length payload')))"
    by (rule inj_onD [OF inj eq [unfolded plan_of_def Let_def put_plan.simps]]) (simp_all add: put_texts_def)
  then have "rq = rq'" and k: "?k = ?k'" and c: "H payload = H payload'" using put_identity_inj by blast+
  have "canonical_bytes (cache_identity ns oid rid) = canonical_bytes (cache_identity ns' oid' rid')"
    by (rule inj_onD [OF inj k]) (simp_all add: put_texts_def)
  moreover have "payload = payload'" by (rule inj_onD [OF inj c]) (simp_all add: put_texts_def)
  ultimately show ?thesis using \<open>rq = rq'\<close> cache_identity_inj by blast
qed

lemma put_conflict:
  assumes inv: "cache_inv H P cfg s" and env: "env_ok env" and P: "payload \<in> P" and inj: "inj_on H P"
    and fresh: "find_request s rq = None"
    and first: "cache_put H cfg env (JStr ns) (JStr rq) (JStr oid) (JStr rid) payload expected s = (s1, Inr r)"
    and later: "cache_run H P cfg s1 s2"
    and args: "put_args_ok cfg ns' rq oid' rid' payload'" and ex: "expected' = JNull \<or> expected' = JStr (H payload')"
    and diff: "(ns', oid', rid', payload') \<noteq> (ns, oid, rid, payload)"
    and texts: "inj_on H (put_texts H ns rq oid rid payload \<union> put_texts H ns' rq oid' rid' payload')"
  shows "cache_put H cfg env' (JStr ns') (JStr rq) (JStr oid') (JStr rid') payload' expected' s2
    = (s2, Inl (FullFlowCacheConflict ''request_id was reused for different cache content''))"
proof (rule put_outcome [OF inv env P inj first])
  fix p row
  assume "put_validate H cfg (JStr ns) (JStr rq) (JStr oid) (JStr rid) payload expected = Inr p"
    and "find_request s (p_request_id p) = Some row"
  then show ?thesis using fresh put_validate_ok(3) by fastforce
next
  fix p objs
  assume val: "put_validate H cfg (JStr ns) (JStr rq) (JStr oid) (JStr rid) payload expected = Inr p"
    and none: "find_request s (p_request_id p) = None"
    and r: "Inr r = Inr (put_result cfg p (event_sequence s + 1) (put_evicted cfg p s))"
    and s1: "s1 = (committed cfg (env_now env) p s)\<lparr>objects := objs\<rparr>" and inv1: "cache_inv H P cfg s1"
  have p: "p = plan_of H ns rq oid rid payload" using put_validate_plan [OF val] by auto
  obtain row where "find_request s1 (p_request_id p) = Some row" and row: "r_request_sha256 row = p_request_sha256 p"
    using none unfolding s1 find_request_def by (simp add: committed_def Let_def find_append_None)
  then have "find_request s2 (p_request_id p) = Some row"
    using run_request [OF later inv1 inj] by blast
  then have "find_request s2 rq = Some row" by (simp add: p)
  moreover have "p_request_sha256 p \<noteq> p_request_sha256 (plan_of H ns' rq oid' rid' payload')"
    using plan_of_request_inj [OF texts] diff p by metis
  ultimately show ?thesis
    using put_validate_args [OF args ex] row by (simp add: cache_put_def put_replay_def)
qed auto

end

section \<open>Opening an arbitrary volume\<close>

lemma reconcile_loop_None:
  "reconcile_loop refs objs = (kept, None) \<Longrightarrow>
   kept = filter (\<lambda>p. \<not> TEMP_OBJECT (fst p) \<and> fst p \<in> refs) objs
   \<and> (\<forall>(n, e) \<in> set objs. is_regular e \<and> (TEMP_OBJECT n \<or> match_sha256 n))"
proof (induction objs arbitrary: kept)
  case (Cons x objs)
  obtain n e where x: "x = (n, e)" by (cases x)
  obtain k err where loop: "reconcile_loop refs objs = (k, err)" by (cases "reconcile_loop refs objs")
  have "is_regular e" and "TEMP_OBJECT n \<or> match_sha256 n" and "err = None"
    and "kept = (if \<not> TEMP_OBJECT n \<and> n \<in> refs then (n, e) # k else k)"
    using Cons.prems unfolding x by (simp_all add: loop split: if_splits)
  with Cons.IH [of k] loop x show ?case by simp
qed simp

lemma initialize_sound:
  assumes "cache_initialize H cfg s = (s', Inr ())"
  shows "(\<exists>row. cache_state s' = Some row \<and> state_bound cfg row)
    \<and> (\<forall>e \<in> set (cache_entries s'). entry_verified H (objects s') e)
    \<and> used_bytes (cache_entries s') \<le> cfg_capacity_bytes cfg
    \<and> no_debris s' \<and> (\<forall>(n, e) \<in> set (objects s'). is_regular e)"
proof -
  obtain t where bind: "bind_state cfg (migrate s) = (t, Inr ())" and ver: "isOK (cache_verify H cfg t)"
    and rec: "reconcile_object_directory t = (s', None)"
    using assms by (auto simp: cache_initialize_def split: prod.splits sum.splits option.splits)
  let ?refs = "e_content_sha256 ` set (cache_entries t)"
  obtain kept where kept: "reconcile_loop ?refs (objects t) = (kept, None)" and s': "s' = t\<lparr>objects := kept\<rparr>"
    using rec by (auto simp: reconcile_object_directory_def split: prod.splits)
  note k = reconcile_loop_None [OF kept]
  have "entry_verified H kept e" if "e \<in> set (cache_entries t)" for e
  proof -
    have v: "entry_verified H (objects t) e" using ver that by (simp add: cache_verify_iff)
    then have "map_of kept (e_content_sha256 e) = map_of (objects t) (e_content_sha256 e)"
      using that k temp_not_sha256 [of "e_content_sha256 e"]
        map_of_filter_fst [of "\<lambda>n. \<not> TEMP_OBJECT n \<and> n \<in> ?refs" "objects t" "e_content_sha256 e"]
      by (auto simp: entry_verified_def)
    then have "read_bytes kept (e_content_sha256 e) = read_bytes (objects t) (e_content_sha256 e)"
      by (simp add: read_bytes_def)
    then show ?thesis using v unfolding entry_verified_def by metis
  qed
  moreover have "no_debris s'" using k by (auto simp: no_debris_def s')
  ultimately show ?thesis using ver k by (auto simp: cache_verify_iff s')
qed

end
