(* ===== verification/Cache_Lru.thy ===== *)
theory Cache_Lru
  imports Cache_Ops
begin

text \<open>
  The abstract specification of the cache: a list of artifacts from the least to the most recently
  used, each with its key, the digest of its payload and its size. Storing removes the artifact of
  the same key, drops artifacts from the front until the new one fits, and appends the new one;
  using an artifact moves it to the end. \<open>lru_view\<close> is the abstraction of a volume, and the
  refinement lemmas show that \<open>put\<close>, \<open>lookup\<close> and a restart implement the specification.
\<close>

type_synonym lru_item = "string \<times> string \<times> int"

definition lru_total :: "lru_item list \<Rightarrow> int" where
  "lru_total xs = sum_list (map (snd \<circ> snd) xs)"

fun lru_shrink :: "int \<Rightarrow> int \<Rightarrow> lru_item list \<Rightarrow> lru_item list" where
  "lru_shrink capacity n [] = []"
| "lru_shrink capacity n (x # xs) =
     (if lru_total (x # xs) + n > capacity then lru_shrink capacity n xs else x # xs)"

definition lru_store :: "int \<Rightarrow> lru_item \<Rightarrow> lru_item list \<Rightarrow> lru_item list" where
  "lru_store capacity x xs =
     lru_shrink capacity (snd (snd x)) (filter (\<lambda>y. fst y \<noteq> fst x) xs) @ [x]"

definition lru_use :: "string \<Rightarrow> lru_item list \<Rightarrow> lru_item list" where
  "lru_use key xs = filter (\<lambda>y. fst y \<noteq> key) xs @ filter (\<lambda>y. fst y = key) xs"

definition lru_item_of :: "cache_entry \<Rightarrow> lru_item" where
  "lru_item_of e = (e_cache_key e, e_content_sha256 e, e_size_bytes e)"

definition lru_view :: "cache \<Rightarrow> lru_item list" where
  "lru_view s = map lru_item_of (sort_key e_last_access_sequence (cache_entries s))"

section \<open>The specification keeps its bounds\<close>

lemma lru_shrink_drop: "\<exists>k. lru_shrink capacity n xs = drop k xs"
  by (induction xs) (auto intro: exI [of _ 0] exI [of _ "Suc _"])

lemma lru_shrink_total: "n \<le> capacity \<Longrightarrow> lru_total (lru_shrink capacity n xs) + n \<le> capacity"
  by (induction xs) (auto simp: lru_total_def)

lemma lru_store_bounds:
  assumes "snd (snd x) \<le> capacity" and "distinct (map fst xs)"
  shows "lru_total (lru_store capacity x xs) \<le> capacity" and "distinct (map fst (lru_store capacity x xs))"
proof -
  let ?xs = "filter (\<lambda>y. fst y \<noteq> fst x) xs"
  obtain k where k: "lru_shrink capacity (snd (snd x)) ?xs = drop k ?xs" using lru_shrink_drop by blast
  have "distinct (map fst ?xs)" using assms(2) by (rule distinct_map_filter)
  then have "distinct (map fst (drop k ?xs))" by (simp add: drop_map [symmetric])
  moreover have "fst x \<notin> fst ` set (drop k ?xs)" by (auto dest: in_set_dropD)
  ultimately show "distinct (map fst (lru_store capacity x xs))" by (simp add: lru_store_def k)
  show "lru_total (lru_store capacity x xs) \<le> capacity"
    using lru_shrink_total [OF assms(1), of ?xs] by (simp add: lru_store_def lru_total_def)
qed

section \<open>The volume implements the specification\<close>

lemma sort_key_unique:
  fixes f :: "'a \<Rightarrow> int"
  assumes "set xs = set ys" and "distinct (map f xs)" and "distinct (map f ys)" and "sorted (map f ys)"
  shows "sort_key f xs = ys"
proof (rule map_sorted_distinct_set_unique [of f])
  show "inj_on f (set (sort_key f xs) \<union> set ys)" using assms by (simp add: distinct_map)
  show "distinct (map f (sort_key f xs))" using assms(2) by (simp add: distinct_map)
qed (use assms in auto)

lemma lru_total_items: "lru_total (map lru_item_of vs) = used_bytes vs"
  by (simp add: lru_total_def used_bytes_def lru_item_of_def comp_def)

lemma lru_shrink_prefix:
  "lru_shrink capacity n (map lru_item_of vs)
    = map lru_item_of (drop (length (lru_prefix capacity n (used_bytes vs) vs)) vs)"
proof (induction vs)
  case (Cons v vs)
  have u: "used_bytes (v # vs) = e_size_bytes v + used_bytes vs" by (simp add: used_bytes_def)
  show ?case
    using Cons lru_total_items [of "v # vs"] by (simp add: u)
qed simp

lemma lru_view_filter: "filter (\<lambda>y. fst y \<noteq> key) (lru_view s) = map lru_item_of (lru_order key (cache_entries s))"
  by (simp add: lru_view_def lru_order_def filter_map comp_def filter_sort lru_item_of_def)

lemma lru_view_append:
  assumes "set (cache_entries s) = insert e (set vs)" and "distinct (entry_stamps (cache_entries s))"
    and "sorted (map e_last_access_sequence vs)" and "distinct (map e_last_access_sequence vs)"
    and "\<And>v. v \<in> set vs \<Longrightarrow> e_last_access_sequence v < e_last_access_sequence e"
  shows "lru_view s = map lru_item_of vs @ [lru_item_of e]"
proof -
  have "sort_key e_last_access_sequence (cache_entries s) = vs @ [e]"
  proof (rule sort_key_unique)
    show "distinct (map e_last_access_sequence (vs @ [e]))"
      using assms(4) by (auto dest: assms(5))
    show "sorted (map e_last_access_sequence (vs @ [e]))"
      using assms(3,5) by (auto simp: sorted_append less_imp_le)
  qed (use assms in auto)
  then show ?thesis by (simp add: lru_view_def)
qed

lemma lru_order_sorted:
  assumes "cache_inv H P cfg s"
  shows "sorted (map e_last_access_sequence (lru_order key (cache_entries s)))"
    and "distinct (map e_last_access_sequence (lru_order key (cache_entries s)))"
  using cache_invD(3) [OF assms] unfolding lru_order_def
  by (auto simp: distinct_map intro: inj_on_subset)

lemma filter_unique_key: "distinct (map f xs) \<Longrightarrow> x \<in> set xs \<Longrightarrow> filter (\<lambda>y. f y = f x) xs = [x]"
proof (induction xs)
  case (Cons y xs)
  show ?case
  proof (cases "x = y")
    case True
    with Cons.prems have "filter (\<lambda>z. f z = f y) xs = []" by (auto simp: filter_empty_conv) (metis image_eqI)
    with True show ?thesis by simp
  next
    case False
    with Cons show ?thesis by auto
  qed
qed simp

lemma set_touch:
  "set (touch_entry key q es) =
   (\<lambda>e. e\<lparr>e_last_access_sequence := q\<rparr>) ` set (filter (\<lambda>e. e_cache_key e = key) es) \<union> {e \<in> set es. e_cache_key e \<noteq> key}"
  by (induction es) (auto simp: touch_entry_def)

lemma lru_view_touched:
  assumes inv: "cache_inv H P cfg s" and row: "find_entry s key = Some row"
  shows "lru_view (touched key s) = lru_use key (lru_view s)"
proof -
  let ?vs = "lru_order key (cache_entries s)" and ?e = "row\<lparr>e_last_access_sequence := sequence_of s + 1\<rparr>"
  note mem = find_entry_Some [OF row]
  have one: "filter (\<lambda>e. e_cache_key e = key) (cache_entries s) = [row]"
    using filter_unique_key [OF cache_invD(2) [OF inv] mem(1)] mem(2) by simp
  have "set (cache_entries (touched key s)) = insert ?e (set ?vs)"
    using set_touch [of key "sequence_of s + 1" "cache_entries s"] one
    by (simp add: touched_def set_lru_order)
  moreover have "e_last_access_sequence v < e_last_access_sequence ?e" if "v \<in> set ?vs" for v
    using that cache_inv_entry(2) [OF inv, of v] by (auto simp: set_lru_order)
  ultimately have "lru_view (touched key s) = map lru_item_of ?vs @ [lru_item_of ?e]"
    using lru_order_sorted [OF inv] cache_invD(3) [OF touched_inv [OF inv, of key]] by (intro lru_view_append) auto
  moreover have "filter (\<lambda>y. fst y = key) (lru_view s) = [lru_item_of row]"
    using one by (simp add: lru_view_def filter_map comp_def filter_sort lru_item_of_def)
  ultimately show ?thesis by (simp add: lru_use_def lru_view_filter lru_item_of_def)
qed

context digest_function
begin

lemma put_refines_store:
  assumes inv: "cache_inv H P cfg s" and env: "env_ok env" and P: "payload \<in> P" and inj: "inj_on H P"
    and args: "put_args_ok cfg ns rq oid rid payload" and fresh: "find_request s rq = None"
    and nofault: "env_fault env = NoFault" and ex: "expected = JNull \<or> expected = JStr (H payload)"
  shows "\<exists>s' r. cache_put H cfg env (JStr ns) (JStr rq) (JStr oid) (JStr rid) payload expected s = (s', Inr r)
    \<and> lru_view s' = lru_store (cfg_capacity_bytes cfg)
        (H (canonical_bytes (cache_identity ns oid rid)), H payload, int (length payload)) (lru_view s)"
proof -
  define p where "p = plan_of H ns rq oid rid payload"
  let ?key = "p_cache_key p" and ?e = "plan_entry p (sequence_of s + 1)"
  let ?vs = "lru_order ?key (cache_entries s)"
  let ?n = "length (put_evicted cfg p s)"
  obtain s' r where st: "cache_put H cfg env (JStr ns) (JStr rq) (JStr oid) (JStr rid) payload expected s = (s', Inr r)"
    "s' = (committed cfg (env_now env) p s)\<lparr>objects := objects s'\<rparr>" "cache_inv H P cfg s'"
    using put_stored [OF inv env P inj args fresh nofault ex p_def] by blast
  have "cache_entries s' = cache_entries (committed cfg (env_now env) p s)" by (subst st(2)) simp
  then have "set (cache_entries s') = insert ?e (set (drop ?n ?vs))"
    using committed_entry [OF inv] committed_kept [OF inv, of p] by (simp add: p_def)
  moreover have "e_last_access_sequence v < e_last_access_sequence ?e" if "v \<in> set (drop ?n ?vs)" for v
    using in_set_dropD [OF that] cache_inv_entry(2) [OF inv, of v] by (auto simp: set_lru_order plan_entry_def)
  ultimately have "lru_view s' = map lru_item_of (drop ?n ?vs) @ [lru_item_of ?e]"
    using lru_order_sorted [OF inv, of ?key] cache_invD(3) [OF st(3)]
    by (intro lru_view_append) (auto simp: drop_map [symmetric] sorted_wrt_drop)
  then show ?thesis
    using st(1) by (simp add: lru_store_def lru_view_filter lru_shrink_prefix lru_item_of_def plan_entry_def put_evicted_def Let_def p_def)
qed

lemma lookup_refines_use:
  assumes inv: "cache_inv H P cfg s" and res: "cache_lookup H cfg now ns oid rid expected s = (s', Inr res)"
  shows "lru_view s' = (case res of None \<Rightarrow> lru_view s | Some a \<Rightarrow> lru_use (a_cache_key a) (lru_view s))"
proof -
  have frame: "lru_view (insert_event now k key n ob r c sz t) = lru_view t" for k key n ob r c sz t
    by (simp add: lru_view_def)
  obtain n ob r ex key where v: "lookup_validate H ns oid rid expected = Inr (n, ob, r, ex, key)"
    using res by (cases "lookup_validate H ns oid rid expected") (auto simp: cache_lookup_def)
  note eq = res [unfolded cache_lookup_eq [OF cache_invD(1) [OF inv] v]]
  show ?thesis
  proof (cases res)
    case None
    with eq frame show ?thesis by (auto simp: Let_def map_sum_Inr_iff split: option.splits if_splits)
  next
    case (Some a)
    let ?t = "\<lambda>row. insert_event now ''HIT'' key n ob r (Some (e_content_sha256 row)) (e_size_bytes row) (touched key s)"
    obtain row where row: "find_entry s key = Some row" and s': "s' = ?t row"
      and ra: "read_artifact H cfg s' n ob r row = Inr a"
      using eq Some by (auto simp: Let_def map_sum_Inr_iff split: option.splits if_splits)
    have "entry_ok H (objects s') row"
      using cache_inv_entry(1) [OF inv find_entry_Some(1) [OF row]] s' by simp
    then have "a_cache_key a = key"
      using read_artifact_ok [of s' row cfg n ob r] ra find_entry_Some(2) [OF row] by fastforce
    then show ?thesis using Some s' frame lru_view_touched [OF inv row] by simp
  qed
qed

end

end
