(* ===== verification/Cache_Props.thy ===== *)
theory Cache_Props
  imports Cache_Lru
begin

text \<open>
  The properties of the artifact cache for SHA-256, about every volume a run of stores, lookups,
  restarts and crashes can reach from an empty one. \<open>P\<close> is the set of payloads of the run, and
  \<open>inj_on sha256_hex P\<close> says that SHA-256 does not collide on them. The witnesses use a cache of ten
  bytes on N7.
\<close>

definition demo_config :: cache_config where
  "demo_config = \<lparr>cfg_node_id = ''N7'', cfg_cache_id = ''cache-n7'', cfg_capacity_bytes = 10\<rparr>"

definition demo_volume :: cache where
  "demo_volume = fst (cache_initialize sha256_hex demo_config empty_volume)"

definition demo_env :: "disk_fault \<Rightarrow> cache_env" where
  "demo_env fault = \<lparr>env_now = 5, env_pid = 41, env_thread = 7, env_fault = fault\<rparr>"

lemma demo_reachable: "cache_reachable sha256_hex P demo_config demo_volume"
  by (simp add: cache_reachable_def cache_run_def demo_volume_def)

lemma demo_capacity: "0 < cfg_capacity_bytes demo_config"
  by (simp add: demo_config_def)

lemma demo_env_ok: "env_ok (demo_env fault)" "env_fault (demo_env fault) = fault"
  by (simp_all add: env_ok_def demo_env_def)

lemma demo_volume_empty: "cache_entries demo_volume = []" "cache_requests demo_volume = []" "objects demo_volume = []"
  using sha256.initialize_empty [OF demo_capacity, of UNIV] by (auto simp: demo_volume_def)

lemma demo_fresh: "find_request demo_volume rq = None"
  by (simp add: find_request_def demo_volume_empty)

lemma demo_args: "put_args_ok demo_config ''run-1'' ''req-1'' ''clip-9'' ''frames'' ''abc''"
  "put_args_ok demo_config ''run-1'' ''req-1'' ''clip-9'' ''frames'' ''abcd''"
  by code_simp+

text \<open>The volume after one store.\<close>

abbreviation demo_put :: "cache \<Rightarrow> cache \<times> (cache_error + dict)" where
  "demo_put \<equiv> cache_put sha256_hex demo_config (demo_env NoFault) (JStr ''run-1'') (JStr ''req-1'') (JStr ''clip-9'')
     (JStr ''frames'') ''abc'' JNull"

abbreviation demo_lookup :: "cache \<Rightarrow> cache \<times> (cache_error + cached_artifact option)" where
  "demo_lookup \<equiv> cache_lookup sha256_hex demo_config 9 (JStr ''run-1'') (JStr ''clip-9'') (JStr ''frames'') JNull"

definition demo_stored :: cache where
  "demo_stored = fst (demo_put demo_volume)"

lemma demo_stored_reachable: "cache_reachable sha256_hex {''abc''} demo_config demo_stored"
  using cache_step.step_put [OF demo_env_ok(1), of "''abc''" "{''abc''}" sha256_hex demo_config demo_volume]
    demo_reachable [of "{''abc''}"]
  by (auto simp: cache_reachable_def cache_run_def demo_stored_def intro: rtranclp.rtrancl_into_rtrancl)

lemma demo_volume_inv: "cache_inv sha256_hex {''abc''} demo_config demo_volume"
  using sha256.reachable_inv [OF demo_reachable _ demo_capacity] by simp

lemma demo_stored_result: "\<exists>r. demo_put demo_volume = (demo_stored, Inr r)"
  using sha256.put_then_lookup [OF demo_volume_inv demo_env_ok(1) _ _ demo_args(1) demo_fresh demo_env_ok(2), of JNull JNull 9]
  by (auto simp: demo_stored_def)

lemma demo_stored_hit: "\<exists>a. demo_lookup demo_stored = (fst (demo_lookup demo_stored), Inr (Some a)) \<and> a_payload a = ''abc''"
proof -
  obtain s' r a where "demo_put demo_volume = (s', Inr r)" "snd (demo_lookup s') = Inr (Some a)" "a_payload a = ''abc''"
    using sha256.put_then_lookup [OF demo_volume_inv demo_env_ok(1) _ _ demo_args(1) demo_fresh demo_env_ok(2), of JNull JNull 9]
    by auto
  then show ?thesis by (intro exI [of _ a]) (simp add: demo_stored_def prod_eq_iff)
qed

lemmas demo = demo_reachable demo_capacity demo_env_ok demo_fresh demo_args

section \<open>Reachable volumes\<close>

text \<open>
  (C1) Every volume a run can reach satisfies the invariant of the cache and passes \<open>verify\<close>: the
  entries fit the capacity, no two share a key or an access stamp, each names a regular
  file whose bytes have the recorded digest and size, and the event log is numbered
  without gaps.
\<close>

theorem cache_reachable_invariant:
  assumes "cache_reachable sha256_hex P cfg s" and "inj_on sha256_hex P" and "0 < cfg_capacity_bytes cfg"
  shows "cache_inv sha256_hex P cfg s \<and> isOK (cache_verify sha256_hex cfg s)"
  using sha256.reachable_inv [OF assms] sha256.cache_inv_verify by blast

theorem cache_reachable_invariant_witness:
  "cache_reachable sha256_hex {''abc''} demo_config demo_volume \<and> cache_inv sha256_hex {''abc''} demo_config demo_volume"
  using cache_reachable_invariant [OF demo_reachable [of "{''abc''}"] _ demo_capacity] demo by simp

text \<open>
  (C3) Whatever the run, a crash in the middle of a store included, opening the volume again
  succeeds, changes no table, and leaves no file but the payloads of the entries.
\<close>

theorem cache_reopen_after_crash:
  assumes "cache_reachable sha256_hex P cfg s" and "inj_on sha256_hex P" and "0 < cfg_capacity_bytes cfg"
  shows "\<exists>objs. cache_initialize sha256_hex cfg s = (s\<lparr>objects := objs\<rparr>, Inr ()) \<and> no_debris (s\<lparr>objects := objs\<rparr>)"
  using sha256.initialize_inv [OF sha256.reachable_inv [OF assms]] by blast

lemma demo_crash_reachable:
  "cache_reachable sha256_hex {''abc''} demo_config (demo_volume\<lparr>objects :=
     [(temporary_name (demo_env NoFault) (sha256_hex ''abc''), Regular ''a'')]\<rparr>)"
proof -
  let ?p = "plan_of sha256_hex ''run-1'' ''req-1'' ''clip-9'' ''frames'' ''abc''"
  have "put_crash sha256_hex demo_config (demo_env NoFault) ?p demo_volume (demo_volume\<lparr>objects :=
     [(temporary_name (demo_env NoFault) (sha256_hex ''abc''), Regular ''a'')]\<rparr>)"
    using put_crash.crash_temporary [of sha256_hex demo_config "demo_env NoFault" ?p demo_volume 1]
    by (simp add: demo_volume_empty)
  then have "cache_step sha256_hex {''abc''} demo_config demo_volume (demo_volume\<lparr>objects :=
     [(temporary_name (demo_env NoFault) (sha256_hex ''abc''), Regular ''a'')]\<rparr>)"
    by (intro cache_step.step_crash [OF demo_env_ok(1) _ sha256.put_validate_args [OF demo_args(1)]]) (auto simp: demo)
  then show ?thesis by (simp add: cache_reachable_def cache_run_def demo_volume_def)
qed

theorem cache_reopen_after_crash_witness:
  "\<exists>objs. cache_initialize sha256_hex demo_config (demo_volume\<lparr>objects :=
     [(temporary_name (demo_env NoFault) (sha256_hex ''abc''), Regular ''a'')]\<rparr>)
     = (demo_volume\<lparr>objects := objs\<rparr>, Inr ()) \<and> no_debris (demo_volume\<lparr>objects := objs\<rparr>)"
  using cache_reopen_after_crash [OF demo_crash_reachable _ demo_capacity] by simp

section \<open>Refinement of the abstract least-recently-used store\<close>

text \<open>
  (C2) A store with valid arguments, a fresh request identifier and a working disk succeeds, and
  its effect is that of the abstract store: the artifact of the same key is removed, artifacts are
  dropped from the least recently used end until the new one fits, and it is appended.
\<close>

theorem put_implements_lru_store:
  assumes "cache_reachable sha256_hex P cfg s" and "inj_on sha256_hex P" and "0 < cfg_capacity_bytes cfg"
    and "env_ok env" and "env_fault env = NoFault" and "payload \<in> P"
    and "put_args_ok cfg ns rq oid rid payload" and "find_request s rq = None"
    and "expected = JNull \<or> expected = JStr (sha256_hex payload)"
  shows "\<exists>s' r. cache_put sha256_hex cfg env (JStr ns) (JStr rq) (JStr oid) (JStr rid) payload expected s = (s', Inr r)
    \<and> lru_view s' = lru_store (cfg_capacity_bytes cfg)
        (sha256_hex (canonical_bytes (cache_identity ns oid rid)), sha256_hex payload, int (length payload)) (lru_view s)"
  using sha256.put_refines_store [OF sha256.reachable_inv [OF assms(1-3)]] assms by blast

theorem put_implements_lru_store_witness:
  "\<exists>s' r. cache_put sha256_hex demo_config (demo_env NoFault) (JStr ''run-1'') (JStr ''req-1'') (JStr ''clip-9'')
       (JStr ''frames'') ''abc'' JNull demo_volume = (s', Inr r)
     \<and> lru_view s' = [(sha256_hex (canonical_bytes (cache_identity ''run-1'' ''clip-9'' ''frames'')), sha256_hex ''abc'', 3)]"
  using put_implements_lru_store [OF demo_reachable [of "{''abc''}"] _ demo_capacity demo_env_ok, of "''abc''"
      "''run-1''" "''req-1''" "''clip-9''" "''frames''" JNull] demo
  by (simp add: lru_view_def demo_volume_empty lru_store_def)

text \<open>
  (C6) A lookup that finds an artifact moves it to the most recently used end of the abstract
  store, and a lookup that finds none leaves the abstract store unchanged.
\<close>

theorem lookup_implements_lru_use:
  assumes "cache_reachable sha256_hex P cfg s" and "inj_on sha256_hex P" and "0 < cfg_capacity_bytes cfg"
    and "cache_lookup sha256_hex cfg now ns oid rid expected s = (s', Inr res)"
  shows "lru_view s' = (case res of None \<Rightarrow> lru_view s | Some a \<Rightarrow> lru_use (a_cache_key a) (lru_view s))"
  using sha256.lookup_refines_use [OF sha256.reachable_inv [OF assms(1-3)] assms(4)] .

theorem lookup_implements_lru_use_witness:
  "\<exists>a. demo_lookup demo_stored = (fst (demo_lookup demo_stored), Inr (Some a))
     \<and> lru_view (fst (demo_lookup demo_stored)) = lru_use (a_cache_key a) (lru_view demo_stored)"
proof -
  obtain a where a: "demo_lookup demo_stored = (fst (demo_lookup demo_stored), Inr (Some a))"
    using demo_stored_hit by blast
  from lookup_implements_lru_use [OF demo_stored_reachable _ demo_capacity this] a show ?thesis by auto
qed

text \<open>
  An artifact stored is found again: the lookup of the same identity that follows the store
  returns the stored bytes with their digest, whether the caller names an expected digest or not.
\<close>

theorem put_then_lookup_round_trip:
  assumes "cache_reachable sha256_hex P cfg s" and "inj_on sha256_hex P" and "0 < cfg_capacity_bytes cfg"
    and "env_ok env" and "env_fault env = NoFault" and "payload \<in> P"
    and "put_args_ok cfg ns rq oid rid payload" and "find_request s rq = None"
    and "expected = JNull \<or> expected = JStr (sha256_hex payload)"
    and "expected' = JNull \<or> expected' = JStr (sha256_hex payload)"
  shows "\<exists>s' r a. cache_put sha256_hex cfg env (JStr ns) (JStr rq) (JStr oid) (JStr rid) payload expected s = (s', Inr r)
    \<and> dget r ''status'' = JStr ''STORED''
    \<and> snd (cache_lookup sha256_hex cfg now (JStr ns) (JStr oid) (JStr rid) expected' s') = Inr (Some a)
    \<and> a_payload a = payload \<and> a_content_sha256 a = sha256_hex payload"
  using sha256.put_then_lookup [OF sha256.reachable_inv [OF assms(1-3)]] assms by blast

theorem put_then_lookup_round_trip_witness:
  "\<exists>s' r a. demo_put demo_volume = (s', Inr r) \<and> snd (demo_lookup s') = Inr (Some a) \<and> a_payload a = ''abc''"
  using put_then_lookup_round_trip [OF demo_reachable [of "{''abc''}"] _ demo_capacity demo_env_ok(1) demo_env_ok(2) _
      demo_args(1) demo_fresh, of JNull JNull 9] by auto

text \<open>
  A store evicts a prefix of the entries other than its own in the order of their last
  access, reports exactly that prefix, keeps the rest, and the prefix is as short as it can be: the
  payload fits after it and does not fit after a shorter one.
\<close>

theorem put_evicts_least_recent:
  assumes "cache_reachable sha256_hex P cfg s" and "inj_on sha256_hex P" and "0 < cfg_capacity_bytes cfg"
    and "env_ok env" and "env_fault env = NoFault" and "payload \<in> P"
    and "put_args_ok cfg ns rq oid rid payload" and "find_request s rq = None"
    and "expected = JNull \<or> expected = JStr (sha256_hex payload)"
    and "vs = lru_order (sha256_hex (canonical_bytes (cache_identity ns oid rid))) (cache_entries s)"
  shows "\<exists>s' r n. cache_put sha256_hex cfg env (JStr ns) (JStr rq) (JStr oid) (JStr rid) payload expected s = (s', Inr r)
    \<and> dget r ''evicted'' = JArr (map evicted_record (take n vs))
    \<and> used_bytes (drop n vs) + int (length payload) \<le> cfg_capacity_bytes cfg
    \<and> (\<forall>m < n. used_bytes (drop m vs) + int (length payload) > cfg_capacity_bytes cfg)
    \<and> set (cache_entries s') =
        insert (plan_entry (plan_of sha256_hex ns rq oid rid payload) (sequence_of s + 1)) (set (drop n vs))"
  using sha256.put_evicts_lru [OF sha256.reachable_inv [OF assms(1-3)]] assms by blast

theorem put_evicts_least_recent_witness:
  "\<exists>s' r. demo_put demo_volume = (s', Inr r) \<and> dget r ''evicted'' = JArr []"
  using put_evicts_least_recent [OF demo_reachable [of "{''abc''}"] _ demo_capacity demo_env_ok(1) demo_env_ok(2) _
      demo_args(1) demo_fresh, of JNull] by (auto simp: demo_volume_empty lru_order_def)

section \<open>Idempotence and atomicity\<close>

text \<open>
  (C4) Once a store has been answered, the same request is answered from the request table for
  ever: after any further stores, lookups, restarts and crashes, repeating it changes nothing and
  returns the recorded answer (as JSON reads it back) marked as a replay, even if the
  artifact has been evicted.
\<close>

theorem put_replay_is_durable:
  assumes "cache_reachable sha256_hex P cfg s" and "inj_on sha256_hex P" and "0 < cfg_capacity_bytes cfg"
    and "env_ok env" and "payload \<in> P" and "find_request s rq = None"
    and "cache_put sha256_hex cfg env ns (JStr rq) oid rid payload expected s = (s1, Inr r)"
    and "cache_run sha256_hex P cfg s1 s2"
  shows "\<exists>r'. cache_put sha256_hex cfg env' ns (JStr rq) oid rid payload expected s2 = (s2, Inr r')
    \<and> dget r' ''idempotent_replay'' = JBool True
    \<and> (\<forall>k. k \<noteq> ''idempotent_replay'' \<longrightarrow> dget r' k = sort_keys (dget r k))"
  using sha256.put_replay_durable [OF sha256.reachable_inv [OF assms(1-3)] assms(4,5,2,6) refl assms(7,8)] .

theorem put_replay_is_durable_witness:
  "\<exists>r'. demo_put (fst (demo_lookup demo_stored)) = (fst (demo_lookup demo_stored), Inr r')
     \<and> dget r' ''idempotent_replay'' = JBool True"
proof -
  obtain r where r: "demo_put demo_volume = (demo_stored, Inr r)" using demo_stored_result by blast
  have "cache_run sha256_hex {''abc''} demo_config demo_stored (fst (demo_lookup demo_stored))"
    by (auto simp: cache_run_def intro: cache_step.step_lookup)
  from put_replay_is_durable [OF demo_reachable _ demo_capacity demo_env_ok(1) _ demo_fresh r this, of "demo_env NoFault"]
  show ?thesis by auto
qed

text \<open>
  A request identifier that has been answered cannot be reused: any valid store under it for
  another namespace, object, representation or payload is refused as a conflict, at any later
  time, and changes nothing; otherwise two of the texts the two stores hash would be a SHA-256
  collision.
\<close>

theorem put_reuse_conflicts:
  assumes "cache_reachable sha256_hex P cfg s" and "inj_on sha256_hex P" and "0 < cfg_capacity_bytes cfg"
    and "env_ok env" and "payload \<in> P" and "find_request s rq = None"
    and "cache_put sha256_hex cfg env (JStr ns) (JStr rq) (JStr oid) (JStr rid) payload expected s = (s1, Inr r)"
    and "cache_run sha256_hex P cfg s1 s2"
    and "put_args_ok cfg ns' rq oid' rid' payload'" and "expected' = JNull \<or> expected' = JStr (sha256_hex payload')"
    and "(ns', oid', rid', payload') \<noteq> (ns, oid, rid, payload)"
  shows "cache_put sha256_hex cfg env' (JStr ns') (JStr rq) (JStr oid') (JStr rid') payload' expected' s2
      = (s2, Inl (FullFlowCacheConflict ''request_id was reused for different cache content''))
    \<or> sha256_collision (put_texts sha256_hex ns rq oid rid payload \<union> put_texts sha256_hex ns' rq oid' rid' payload')"
  using sha256.put_conflict [OF sha256.reachable_inv [OF assms(1-3)] assms(4,5,2,6-11)] no_collision_inj by blast

theorem put_reuse_conflicts_witness:
  "cache_put sha256_hex demo_config (demo_env NoFault) (JStr ''run-1'') (JStr ''req-1'') (JStr ''clip-9'') (JStr ''frames'')
       ''abcd'' JNull demo_stored
     = (demo_stored, Inl (FullFlowCacheConflict ''request_id was reused for different cache content''))
   \<or> sha256_collision (put_texts sha256_hex ''run-1'' ''req-1'' ''clip-9'' ''frames'' ''abc''
       \<union> put_texts sha256_hex ''run-1'' ''req-1'' ''clip-9'' ''frames'' ''abcd'')"
proof -
  obtain r where r: "demo_put demo_volume = (demo_stored, Inr r)" using demo_stored_result by blast
  have "cache_run sha256_hex {''abc''} demo_config demo_stored demo_stored" by (simp add: cache_run_def)
  from put_reuse_conflicts [OF demo_reachable _ demo_capacity demo_env_ok(1) _ demo_fresh r this demo_args(2), of JNull "demo_env NoFault"]
  show ?thesis by simp
qed

text \<open>
  (C5) A store that raises because of a refused argument, a conflict, a failed write, a wrong
  read-back, a failed rename or synchronisation, or a failed commit leaves every table as it was and
  the volume usable. Only the removal of unreferenced files, which follows the commit, is excepted.
\<close>

theorem put_failure_is_atomic:
  assumes "cache_reachable sha256_hex P cfg s" and "inj_on sha256_hex P" and "0 < cfg_capacity_bytes cfg"
    and "env_ok env" and "payload \<in> P"
    and "cache_put sha256_hex cfg env ns rq oid rid payload expected s = (s', Inl e)"
    and "\<And>n. env_fault env \<noteq> CleanupFails n"
  shows "cache_state s' = cache_state s \<and> cache_entries s' = cache_entries s
    \<and> cache_requests s' = cache_requests s \<and> cache_events s' = cache_events s \<and> cache_inv sha256_hex P cfg s'"
  using sha256.put_failure_atomic [OF sha256.reachable_inv [OF assms(1-3)] assms(4,5,2,6,7)] .

theorem put_failure_is_atomic_witness:
  "\<exists>s' e. cache_put sha256_hex demo_config (demo_env WriteFails) (JStr ''run-1'') (JStr ''req-1'') (JStr ''clip-9'')
       (JStr ''frames'') ''abc'' JNull demo_volume = (s', Inl e) \<and> cache_requests s' = []"
proof -
  let ?put = "cache_put sha256_hex demo_config (demo_env WriteFails) (JStr ''run-1'') (JStr ''req-1'') (JStr ''clip-9'')
     (JStr ''frames'') ''abc'' JNull demo_volume"
  have "\<exists>e. ?put = (fst ?put, Inl e)"
    by (simp add: cache_put_def sha256.put_validate_args [OF demo_args(1)] demo_fresh put_fresh_def stage_object_def
        place_object_def demo_volume_empty path_exists_def demo_env_def write_bytes_def)
  then obtain e where e: "?put = (fst ?put, Inl e)" by blast
  from put_failure_is_atomic [OF demo_reachable [of "{''abc''}"] _ demo_capacity demo_env_ok(1) _ e] e demo_env_ok(2) [of WriteFails]
  show ?thesis by (auto simp: demo_volume_empty)
qed

text \<open>
  A store that raises although its transaction was committed (the removal of unreferenced files
  failed) leaves the volume usable, and sending the same request again returns the answer that
  the first call did not deliver, marked as a replay.
\<close>

theorem put_cleanup_failure_is_recoverable:
  assumes "cache_reachable sha256_hex P cfg s" and "inj_on sha256_hex P" and "0 < cfg_capacity_bytes cfg"
    and "env_ok env" and "payload \<in> P"
    and "cache_put sha256_hex cfg env ns (JStr rq) oid rid payload expected s = (s', Inl e)"
    and "cache_requests s' \<noteq> cache_requests s"
  shows "cache_inv sha256_hex P cfg s'
    \<and> (\<exists>r. cache_put sha256_hex cfg env' ns (JStr rq) oid rid payload expected s' = (s', Inr r)
         \<and> dget r ''status'' = JStr ''STORED'' \<and> dget r ''idempotent_replay'' = JBool True)"
  using sha256.put_cleanup_failure [OF sha256.reachable_inv [OF assms(1-3)] assms(4,5,2,6,7)] .

lemma demo_cleanup_failure:
  "\<exists>s' e. put_fresh sha256_hex demo_config (demo_env (CleanupFails 0))
     (plan_of sha256_hex ''run-1'' ''req-1'' ''clip-9'' ''frames'' ''abc'') demo_volume = (s', Inl e)
     \<and> cache_requests s' \<noteq> []"
by (rule sha256.put_fresh_cases [OF demo_volume_inv sha256.plan_of_ok [OF demo_args(1)] demo_env_ok(1)]) (auto simp: demo demo_volume_empty committed_def Let_def)

theorem put_cleanup_failure_is_recoverable_witness:
  "\<exists>s' e r. cache_put sha256_hex demo_config (demo_env (CleanupFails 0)) (JStr ''run-1'') (JStr ''req-1'') (JStr ''clip-9'')
       (JStr ''frames'') ''abc'' JNull demo_volume = (s', Inl e) \<and> demo_put s' = (s', Inr r)"
proof -
  let ?put = "cache_put sha256_hex demo_config (demo_env (CleanupFails 0)) (JStr ''run-1'') (JStr ''req-1'') (JStr ''clip-9'')
     (JStr ''frames'') ''abc'' JNull demo_volume"
  let ?p = "plan_of sha256_hex ''run-1'' ''req-1'' ''clip-9'' ''frames'' ''abc''"
  obtain s' e where e: "?put = (s', Inl e)" and c: "cache_requests s' \<noteq> cache_requests demo_volume"
  proof -
    let ?P = "{''abc''}"
    have "?put = put_fresh sha256_hex demo_config (demo_env (CleanupFails 0)) ?p demo_volume"
      by (simp add: cache_put_def sha256.put_validate_args [OF demo_args(1)] demo_fresh)
    moreover have "\<exists>s' e. put_fresh sha256_hex demo_config (demo_env (CleanupFails 0)) ?p demo_volume = (s', Inl e)
        \<and> cache_requests s' \<noteq> []"
      using demo_cleanup_failure .
    ultimately show thesis using that by (auto simp: demo_volume_empty)
  qed
  from put_cleanup_failure_is_recoverable [OF demo_reachable [of "{''abc''}"] _ demo_capacity demo_env_ok(1) _ e c, of "demo_env NoFault"]
  show ?thesis using e by auto
qed

section \<open>Lookup, verification and opening\<close>

text \<open>
  A lookup that names an expected digest returns an artifact exactly if an entry of that
  identity with that digest exists; the bytes it returns have the digest and the recorded size,
  the entry becomes the most recently used, one event is logged, and nothing else changes.
\<close>

theorem lookup_by_digest:
  assumes "cache_reachable sha256_hex P cfg s" and "inj_on sha256_hex P" and "0 < cfg_capacity_bytes cfg"
    and "cache_IDENTIFIER ns" and "cache_IDENTIFIER oid" and "cache_IDENTIFIER rid" and "match_sha256 d"
    and "key = sha256_hex (canonical_bytes (cache_identity ns oid rid))"
  shows "\<exists>s' res. cache_lookup sha256_hex cfg now (JStr ns) (JStr oid) (JStr rid) (JStr d) s = (s', Inr res)
    \<and> objects s' = objects s \<and> cache_requests s' = cache_requests s
    \<and> length (cache_events s') = Suc (length (cache_events s))
    \<and> (case res of
         None \<Rightarrow> cache_entries s' = cache_entries s
           \<and> \<not> (\<exists>e \<in> set (cache_entries s). e_cache_key e = key \<and> e_content_sha256 e = d)
       | Some a \<Rightarrow> cache_entries s' = touch_entry key (sequence_of s + 1) (cache_entries s)
           \<and> (\<exists>e \<in> set (cache_entries s). e_cache_key e = key \<and> e_content_sha256 e = d)
           \<and> a_cache_key a = key \<and> a_content_sha256 a = d \<and> sha256_hex (a_payload a) = d
           \<and> int (length (a_payload a)) = a_size_bytes a)"
  using sha256.lookup_spec [OF sha256.reachable_inv [OF assms(1-3)] assms(4-8)] .

theorem lookup_by_digest_witness:
  "\<exists>s'. cache_lookup sha256_hex demo_config 9 (JStr ''run-1'') (JStr ''clip-9'') (JStr ''frames'')
      (JStr (sha256_hex ''abc'')) demo_volume = (s', Inr None) \<and> length (cache_events s') = Suc (length (cache_events demo_volume))"
proof -
  have ids: "cache_IDENTIFIER ''run-1''" "cache_IDENTIFIER ''clip-9''" "cache_IDENTIFIER ''frames''" by code_simp+
  from lookup_by_digest [OF demo_reachable [of "{''abc''}"] _ demo_capacity ids sha256.digest_form [of "''abc''"] refl, of 9]
  show ?thesis by (auto simp: demo_volume_empty split: option.splits)
qed

text \<open>
  \<open>verify\<close> accepts a volume exactly if its state row is bound to the configured schema, node,
  cache and capacity, every entry has valid identifiers, the key of its identity, a positive size and a
  payload file with the recorded digest and size, and the entries together fit the capacity.
\<close>

theorem verify_exact:
  "isOK (cache_verify sha256_hex cfg s) \<longleftrightarrow>
    (\<exists>row. cache_state s = Some row \<and> state_bound cfg row)
    \<and> list_all (entry_verified sha256_hex (objects s)) (cache_entries s)
    \<and> used_bytes (cache_entries s) \<le> cfg_capacity_bytes cfg"
  by (simp add: cache_verify_iff list_all_iff)

text \<open>
  Opening any volume, of either table version and whatever its directory holds, either is refused or
  establishes that the state row is bound to the configuration, every entry is verified against its file,
  the entries fit the capacity, and the directory holds regular payload files of entries only.
\<close>

theorem initialize_establishes:
  assumes "cache_initialize sha256_hex cfg s = (s', Inr ())"
  shows "(\<exists>row. cache_state s' = Some row \<and> state_bound cfg row)
    \<and> (\<forall>e \<in> set (cache_entries s'). entry_verified sha256_hex (objects s') e)
    \<and> used_bytes (cache_entries s') \<le> cfg_capacity_bytes cfg
    \<and> no_debris s' \<and> (\<forall>(n, e) \<in> set (objects s'). is_regular e)"
  using initialize_sound [OF assms] .

theorem initialize_establishes_witness:
  "cache_initialize sha256_hex demo_config (empty_volume\<lparr>entries_namespaced := False\<rparr>) = (demo_volume, Inr ())
   \<and> no_debris demo_volume"
proof -
  have eq: "cache_initialize sha256_hex demo_config (empty_volume\<lparr>entries_namespaced := False\<rparr>) = (demo_volume, Inr ())"
    using sha256.initialize_empty [OF demo_capacity, of UNIV]
    by (auto simp: demo_volume_def cache_initialize_def empty_volume_def migrate_def)
  with initialize_establishes [OF eq] show ?thesis by simp
qed

text \<open>
  Two identities that differ in the namespace, the object or the representation have different
  keys, or the two texts hashed collide: artifacts of different runs are never served for each
  other, and the identity of the legacy namespace, which omits the field, is not ambiguous.
\<close>

theorem cache_key_isolates_namespaces:
  assumes "cache_IDENTIFIER ns" and "cache_IDENTIFIER oid" and "cache_IDENTIFIER rid"
    and "cache_IDENTIFIER ns'" and "cache_IDENTIFIER oid'" and "cache_IDENTIFIER rid'"
    and "(ns, oid, rid) \<noteq> (ns', oid', rid')"
  shows "\<exists>k k'. cache_key sha256_hex (JStr oid) (JStr rid) (JStr ns) = Inr k
    \<and> cache_key sha256_hex (JStr oid') (JStr rid') (JStr ns') = Inr k'
    \<and> (distinct [k, k'] \<or>
       sha256_collision {canonical_bytes (cache_identity ns oid rid), canonical_bytes (cache_identity ns' oid' rid')})"
  using assms cache_identity_inj [of ns oid rid ns' oid' rid'] by (auto simp: result_simps sha256_collision_def)

theorem cache_key_isolates_namespaces_witness:
  "\<exists>k k'. cache_key sha256_hex (JStr ''clip-9'') (JStr ''frames'') (JStr ''legacy-default'') = Inr k
    \<and> cache_key sha256_hex (JStr ''clip-9'') (JStr ''frames'') (JStr ''run-1'') = Inr k'
    \<and> (distinct [k, k'] \<or>
       sha256_collision {canonical_bytes (cache_identity ''legacy-default'' ''clip-9'' ''frames''),
         canonical_bytes (cache_identity ''run-1'' ''clip-9'' ''frames'')})"
proof -
  have ids: "cache_IDENTIFIER ''legacy-default''" "cache_IDENTIFIER ''run-1''" "cache_IDENTIFIER ''clip-9''"
    "cache_IDENTIFIER ''frames''" by code_simp+
  from cache_key_isolates_namespaces [OF ids(1,3,4) ids(2,3,4)] show ?thesis by simp
qed

end
