(* ===== verification/Json_Read.thy ===== *)
theory Json_Read
  imports Py_Json
begin

text \<open>
  \<open>json.loads\<close> with the hooks the services install: \<open>object_pairs_hook\<close> refuses a repeated key and
  \<open>parse_constant\<close> refuses \<open>NaN\<close> and the infinities. \<open>loads\<close> reads a text, \<open>loads_bytes\<close> decodes UTF-8
  first, \<open>plain_loads_bytes\<close> is the call without hooks. The recursion of the scanner is bounded by fuel, one unit per nested call; \<open>loads\<close>
  gives twice the length of the text, which \<open>loads_fuel\<close> shows to be enough: more fuel changes nothing.

  Outside the model: an escape that denotes a lone surrogate, which Python reads into a string
  that has no UTF-8 encoding, and a number beyond the range of a double, which it reads as
  an infinity, are refused here at once; Python refuses them when the value is written. Without
  hooks Python reads \<open>NaN\<close> and \<open>Infinity\<close> as floats; here they are refused as well. The limits of the
  interpreter on nesting and on the digits of an integer are not modelled.

  The main result is the round trip \<open>loads_dumps\<close>: a value written by either form of \<open>json.dumps\<close> is
  read back with its dictionaries in key order.
\<close>

datatype json_error = JSONDecodeError | DuplicateKey string | NonFinite string

section \<open>UTF-8\<close>

definition cont_byte :: "char \<Rightarrow> bool" where
  "cont_byte c \<longleftrightarrow> 128 \<le> ord c \<and> ord c \<le> 191"

text \<open>The length of the character a text starts with; 0 if no character starts there.\<close>

definition utf8_len :: "string \<Rightarrow> nat" where
  "utf8_len s =
     (case s of
        [] \<Rightarrow> 0
      | a # r \<Rightarrow>
          if ord a < 128 then 1
          else if 194 \<le> ord a \<and> ord a \<le> 223
          then (case r of b # _ \<Rightarrow> if cont_byte b then 2 else 0 | _ \<Rightarrow> 0)
          else if 224 \<le> ord a \<and> ord a \<le> 239
          then (case r of b # c # _ \<Rightarrow>
                  if cont_byte b \<and> cont_byte c \<and> (ord a = 224 \<longrightarrow> 160 \<le> ord b) \<and> (ord a = 237 \<longrightarrow> ord b \<le> 159) then 3 else 0
                | _ \<Rightarrow> 0)
          else if 240 \<le> ord a \<and> ord a \<le> 244
          then (case r of b # c # d # _ \<Rightarrow>
                  if cont_byte b \<and> cont_byte c \<and> cont_byte d \<and> (ord a = 240 \<longrightarrow> 144 \<le> ord b) \<and> (ord a = 244 \<longrightarrow> ord b \<le> 143)
                  then 4 else 0
                | _ \<Rightarrow> 0)
          else 0)"

function valid_utf8 :: "string \<Rightarrow> bool" where
  "valid_utf8 s = (if s = [] then True else if utf8_len s = 0 then False else valid_utf8 (drop (utf8_len s) s))"
  by pat_completeness auto
termination
  by (relation "measure length") auto

declare valid_utf8.simps [simp del]

lemma utf8_len_front:
  assumes "utf8_len s = k" and "k \<noteq> 0"
  shows "k \<le> length s \<and> utf8_len (take k s @ r) = k \<and> (k = 1 \<and> ord (hd s) < 128 \<or> list_all (\<lambda>c. 128 \<le> ord c) (take k s))"
  using assms
  by (cases s; cases "tl s"; cases "tl (tl s)"; cases "tl (tl (tl s))")
    (auto simp: utf8_len_def cont_byte_def split: if_splits)

definition utf8_encode :: "int \<Rightarrow> string" where
  "utf8_encode u =
     (if u < 128 then [char_of u]
      else if u < 2048 then [char_of (192 + u div 64), char_of (128 + u mod 64)]
      else if u < 65536 then [char_of (224 + u div 4096), char_of (128 + u div 64 mod 64), char_of (128 + u mod 64)]
      else [char_of (240 + u div 262144), char_of (128 + u div 4096 mod 64), char_of (128 + u div 64 mod 64),
            char_of (128 + u mod 64)])"

section \<open>Strings\<close>

definition hex_value :: "char \<Rightarrow> int option" where
  "hex_value c =
     (if is_digit c then Some (ord c - 48)
      else if 97 \<le> ord c \<and> ord c \<le> 102 then Some (ord c - 87)
      else if 65 \<le> ord c \<and> ord c \<le> 70 then Some (ord c - 55) else None)"

definition hex4 :: "string \<Rightarrow> (int \<times> string) option" where
  "hex4 s =
     (case s of
        a # b # c # d # r \<Rightarrow>
          (case (hex_value a, hex_value b, hex_value c, hex_value d) of
             (Some w, Some x, Some y, Some z) \<Rightarrow> Some (((w * 16 + x) * 16 + y) * 16 + z, r)
           | _ \<Rightarrow> None)
      | _ \<Rightarrow> None)"

definition unescape :: "char \<Rightarrow> char option" where
  "unescape c =
     (if c \<in> {CHR 0x22, CHR 0x5C, CHR ''/''} then Some c
      else if c = CHR ''b'' then Some (CHR 0x08)
      else if c = CHR ''f'' then Some (CHR 0x0C)
      else if c = CHR ''n'' then Some (CHR 0x0A)
      else if c = CHR ''r'' then Some (CHR 0x0D)
      else if c = CHR ''t'' then Some (CHR 0x09) else None)"

text \<open>The code point after \<open>\u\<close>: a high surrogate must be followed by an escaped low one.\<close>

definition code_point :: "string \<Rightarrow> (int \<times> string) option" where
  "code_point s =
     (case hex4 s of
        None \<Rightarrow> None
      | Some (u, r) \<Rightarrow>
          if u < 55296 \<or> 57344 \<le> u then Some (u, r)
          else if 56320 \<le> u then None
          else if take 2 r = [CHR 0x5C, CHR ''u'']
          then (case hex4 (drop 2 r) of
                  Some (v, r') \<Rightarrow>
                    if 56320 \<le> v \<and> v < 57344 then Some (65536 + (u - 55296) * 1024 + (v - 56320), r') else None
                | None \<Rightarrow> None)
          else None)"

lemma hex4_shorter: "hex4 s = Some (u, r) \<Longrightarrow> length r < length s"
  by (auto simp: hex4_def split: list.splits option.splits)

lemma code_point_shorter: "code_point s = Some (u, r) \<Longrightarrow> length r < length s"
proof -
  assume cp: "code_point s = Some (u, r)"
  then obtain v t where h: "hex4 s = Some (v, t)" by (auto simp: code_point_def split: option.splits)
  have "length q < length (drop 2 t)" if "hex4 (drop 2 t) = Some (w, q)" for w q
    using hex4_shorter [OF that] .
  then show ?thesis
    using cp h hex4_shorter [OF h] by (fastforce simp: code_point_def split: option.splits if_splits)
qed

function scan_string :: "string \<Rightarrow> (string \<times> string) option" where
  "scan_string s =
     (case s of
        [] \<Rightarrow> None
      | c # r \<Rightarrow>
          if c = CHR 0x22 then Some ([], r)
          else if c = CHR 0x5C
          then (case r of
                  [] \<Rightarrow> None
                | d # r' \<Rightarrow>
                    if d = CHR ''u''
                    then (case code_point r' of
                            None \<Rightarrow> None
                          | Some (u, t) \<Rightarrow> map_option (map_prod ((@) (utf8_encode u)) id) (scan_string t))
                    else (case unescape d of
                            None \<Rightarrow> None
                          | Some e \<Rightarrow> map_option (map_prod ((#) e) id) (scan_string r')))
          else if ord c < 32 then None
          else map_option (map_prod ((#) c) id) (scan_string r))"
  by pat_completeness auto
termination
  by (relation "measure length") (auto dest!: code_point_shorter)

declare scan_string.simps [simp del]

lemmas scan_string_Nil [simp] = scan_string.simps [of "[]", simplified]
lemmas scan_string_Cons [simp] = scan_string.simps [of "c # r" for c r, simplified]

section \<open>Numbers\<close>

definition read_float :: "bool \<Rightarrow> string \<Rightarrow> string \<Rightarrow> int \<Rightarrow> pyfloat option" where
  "read_float neg whole fr ex =
     (let x = round_double (of_int (int_of_decimal (whole @ fr)) * pow_rat 10 (ex - int (length fr)))
      in if x \<ge> pow_rat 2 1024 then None else Some (PyFloat neg x))"

definition scan_exponent :: "string \<Rightarrow> (int \<times> string) option" where
  "scan_exponent s =
     (case s of
        c # r \<Rightarrow>
          if c = CHR ''e'' \<or> c = CHR ''E''
          then (let neg = (r \<noteq> [] \<and> hd r = CHR ''-'');
                    r' = (if r \<noteq> [] \<and> (hd r = CHR ''-'' \<or> hd r = CHR ''+'') then tl r else r);
                    ds = takeWhile is_digit r'
                in if ds = [] then None
                   else Some (if neg then - int_of_decimal ds else int_of_decimal ds, dropWhile is_digit r'))
          else None
      | [] \<Rightarrow> None)"

definition scan_fraction :: "string \<Rightarrow> (string \<times> string) option" where
  "scan_fraction s =
     (case s of
        c # r \<Rightarrow> if c = CHR ''.'' \<and> takeWhile is_digit r \<noteq> [] then Some (takeWhile is_digit r, dropWhile is_digit r) else None
      | [] \<Rightarrow> None)"

definition scan_number :: "string \<Rightarrow> (json \<times> string) option" where
  "scan_number s =
     (let neg = (s \<noteq> [] \<and> hd s = CHR ''-''); s1 = (if neg then tl s else s);
          whole = (if s1 \<noteq> [] \<and> hd s1 = CHR ''0'' then ''0'' else takeWhile is_digit s1);
          s2 = drop (length whole) s1
      in if whole = [] then None
         else (case (scan_fraction s2, scan_exponent (case scan_fraction s2 of None \<Rightarrow> s2 | Some (f, r) \<Rightarrow> r)) of
                 (None, None) \<Rightarrow> Some (JInt (if neg then - int_of_decimal whole else int_of_decimal whole), s2)
               | (fr, ex) \<Rightarrow>
                   map_option (\<lambda>f. (JFloat f, case ex of Some (e, r) \<Rightarrow> r | None \<Rightarrow> (case fr of Some (g, r) \<Rightarrow> r | None \<Rightarrow> s2)))
                     (read_float neg whole (case fr of None \<Rightarrow> [] | Some (g, r) \<Rightarrow> g)
                        (case ex of None \<Rightarrow> 0 | Some (e, r) \<Rightarrow> e))))"

section \<open>Values\<close>

definition is_ws :: "char \<Rightarrow> bool" where
  "is_ws c \<longleftrightarrow> c \<in> {CHR 0x20, CHR 0x09, CHR 0x0A, CHR 0x0D}"

definition skip_ws :: "string \<Rightarrow> string" where
  "skip_ws s = dropWhile is_ws s"

lemma skip_ws_simps [simp]: "skip_ws [] = []" "skip_ws (c # s) = (if is_ws c then skip_ws s else c # s)"
  by (simp_all add: skip_ws_def)

fun repeated_key :: "string list \<Rightarrow> string list \<Rightarrow> string option" where
  "repeated_key seen [] = None"
| "repeated_key seen (k # ks) = (if k \<in> set seen then Some k else repeated_key (k # seen) ks)"

definition unique_keys :: "dict \<Rightarrow> json_error + json" where
  "unique_keys pairs = (case repeated_key [] (map fst pairs) of Some k \<Rightarrow> Inl (DuplicateKey k) | None \<Rightarrow> Inr (JObj pairs))"

text \<open>Without a hook the last of several values of a key wins.\<close>

definition last_wins :: "dict \<Rightarrow> dict" where
  "last_wins pairs = foldl (\<lambda>d p. dict_set d (fst p) (snd p)) [] pairs"

definition object_hook :: "bool \<Rightarrow> dict \<Rightarrow> json_error + json" where
  "object_hook st pairs = (if st then unique_keys pairs else Inr (JObj (last_wins pairs)))"

definition scan_literal :: "string \<Rightarrow> json_error + (json \<times> string)" where
  "scan_literal s =
     (if prefix ''null'' s then Inr (JNull, drop 4 s)
      else if prefix ''true'' s then Inr (JBool True, drop 4 s)
      else if prefix ''false'' s then Inr (JBool False, drop 5 s)
      else case scan_number s of
             Some (v, r) \<Rightarrow> Inr (v, r)
           | None \<Rightarrow>
               if prefix ''NaN'' s then Inl (NonFinite ''NaN'')
               else if prefix ''Infinity'' s then Inl (NonFinite ''Infinity'')
               else if prefix ''-Infinity'' s then Inl (NonFinite ''-Infinity'')
               else Inl JSONDecodeError)"

text \<open>
  \<open>scan_items\<close> reads the elements of an array after \<open>[\<close> or a comma, \<open>scan_pairs\<close> the members of an
  object after \<open>{\<close> or a comma.
\<close>

fun scan_value :: "bool \<Rightarrow> nat \<Rightarrow> string \<Rightarrow> json_error + (json \<times> string)"
  and scan_items :: "bool \<Rightarrow> nat \<Rightarrow> string \<Rightarrow> json_error + (json list \<times> string)"
  and scan_pairs :: "bool \<Rightarrow> nat \<Rightarrow> string \<Rightarrow> json_error + (dict \<times> string)" where
  "scan_value st 0 s = Inl JSONDecodeError"
| "scan_value st (Suc n) s =
     (case s of
        [] \<Rightarrow> Inl JSONDecodeError
      | c # r \<Rightarrow>
          if c = CHR 0x22
          then (case scan_string r of None \<Rightarrow> Inl JSONDecodeError | Some (t, r') \<Rightarrow> Inr (JStr t, r'))
          else if c = CHR ''[''
          then (case skip_ws r of
                  [] \<Rightarrow> Inl JSONDecodeError
                | d # r' \<Rightarrow>
                    if d = CHR '']'' then Inr (JArr [], r')
                    else bind_res (scan_items st n (d # r')) (\<lambda>(xs, t). Inr (JArr xs, t)))
          else if c = CHR 0x7B
          then (case skip_ws r of
                  [] \<Rightarrow> Inl JSONDecodeError
                | d # r' \<Rightarrow>
                    if d = CHR 0x7D then Inr (JObj [], r')
                    else bind_res (scan_pairs st n (d # r')) (\<lambda>(ps, t).
                         bind_res (object_hook st ps) (\<lambda>v. Inr (v, t))))
          else scan_literal s)"
| "scan_items st 0 s = Inl JSONDecodeError"
| "scan_items st (Suc n) s =
     bind_res (scan_value st n s) (\<lambda>(v, r).
       (case skip_ws r of
          [] \<Rightarrow> Inl JSONDecodeError
        | d # r' \<Rightarrow>
            if d = CHR '']'' then Inr ([v], r')
            else if d = CHR '',''
            then bind_res (scan_items st n (skip_ws r')) (\<lambda>(xs, t). Inr (v # xs, t))
            else Inl JSONDecodeError))"
| "scan_pairs st 0 s = Inl JSONDecodeError"
| "scan_pairs st (Suc n) s =
     (case s of
        [] \<Rightarrow> Inl JSONDecodeError
      | c # r \<Rightarrow>
          if c \<noteq> CHR 0x22 then Inl JSONDecodeError
          else (case scan_string r of
                  None \<Rightarrow> Inl JSONDecodeError
                | Some (k, r1) \<Rightarrow>
                    (case skip_ws r1 of
                       [] \<Rightarrow> Inl JSONDecodeError
                     | d # r2 \<Rightarrow>
                         if d \<noteq> CHR '':'' then Inl JSONDecodeError
                         else bind_res (scan_value st n (skip_ws r2)) (\<lambda>(v, r3).
                           (case skip_ws r3 of
                              [] \<Rightarrow> Inl JSONDecodeError
                            | e # r4 \<Rightarrow>
                                if e = CHR 0x7D then Inr ([(k, v)], r4)
                                else if e = CHR '',''
                                then bind_res (scan_pairs st n (skip_ws r4)) (\<lambda>(ps, t). Inr ((k, v) # ps, t))
                                else Inl JSONDecodeError)))))"

definition loads_with :: "bool \<Rightarrow> string \<Rightarrow> json_error + json" where
  "loads_with st s =
     bind_res (scan_value st (Suc (2 * length s)) (skip_ws s)) (\<lambda>(v, r).
       if skip_ws r = [] then Inr v else Inl JSONDecodeError)"

definition loads :: "string \<Rightarrow> json_error + json" where
  "loads s = loads_with True s"

definition loads_bytes :: "bytes \<Rightarrow> json_error + json" where
  "loads_bytes raw = (if valid_utf8 raw then loads raw else Inl JSONDecodeError)"

text \<open>\<open>json.loads(raw.decode("utf-8"))\<close> without the hooks.\<close>

definition plain_loads_bytes :: "bytes \<Rightarrow> json_error + json" where
  "plain_loads_bytes raw = (if valid_utf8 raw then loads_with False raw else Inl JSONDecodeError)"


section \<open>Reading what was written\<close>

text \<open>A string, whatever bytes it holds, is read back from its escaped form.\<close>

lemma hex_value_digit: "0 \<le> d \<Longrightarrow> d < 16 \<Longrightarrow> hex_value (hex_digit d) = Some d"
  by (auto simp: hex_value_def hex_digit_def is_digit_def ord_def of_char_of)

lemma scan_string_escape:
  "scan_string (escape_char c @ r) = map_option (map_prod ((#) c) id) (scan_string r)"
proof (cases "escape_char c = [c]")
  case True
  then have "c \<noteq> CHR 0x22 \<and> c \<noteq> CHR 0x5C \<and> \<not> ord c < 32" by (auto simp: escape_char_def ord_def split: if_splits)
  then show ?thesis using True by simp
next
  case False
  show ?thesis
  proof (cases "c \<in> {CHR 0x22, CHR 0x5C, CHR 0x08, CHR 0x0C, CHR 0x0A, CHR 0x0D, CHR 0x09}")
    case True
    then show ?thesis
      by (auto simp: escape_char_def unescape_def)
  next
    case no: False
    with False have small: "ord c < 32" by (auto simp: escape_char_def split: if_splits)
    let ?h = "ord c div 16" and ?l = "ord c mod 16"
    have "hex_value (hex_digit ?h) = Some ?h" "hex_value (hex_digit ?l) = Some ?l"
      using ord_range [of c] small by (intro hex_value_digit; simp)+
    moreover have "?h * 16 + ?l = ord c" by simp
    moreover have "hex_value (CHR ''0'') = Some 0" by (simp add: hex_value_def is_digit_def ord_def)
    ultimately have "hex4 (CHR ''0'' # CHR ''0'' # hex_digit ?h # hex_digit ?l # r) = Some (ord c, r)"
      by (simp add: hex4_def)
    then have "code_point (CHR ''0'' # CHR ''0'' # hex_digit ?h # hex_digit ?l # r) = Some (ord c, r)"
      using small by (simp add: code_point_def)
    moreover have "utf8_encode (ord c) = [c]" using small by (simp add: utf8_encode_def ord_def)
    moreover have "escape_char c = [CHR 0x5C, CHR ''u'', CHR ''0'', CHR ''0'', hex_digit ?h, hex_digit ?l]"
      using no small by (auto simp: escape_char_def)
    moreover have "(@) [c] = (#) c" by (simp add: fun_eq_iff)
    ultimately show ?thesis by (simp add:)
  qed
qed

lemma scan_string_dumps: "scan_string (concat (map escape_char s) @ CHR 0x22 # r) = Some (s, r)"
  by (induction s) (simp_all add: scan_string_escape)

definition readable_float :: "pyfloat \<Rightarrow> bool" where
  "readable_float f \<longleftrightarrow> scan_number (float_repr f) = Some (JFloat f, [])"

lemma readable_scores: "readable_float (PyFloat False 1)" "readable_float (PyFloat False 0)"
  by code_simp+

lemma takeWhile_delimited: "delimited r \<Longrightarrow> takeWhile is_digit (s @ r) = takeWhile is_digit s"
  "delimited r \<Longrightarrow> dropWhile is_digit (s @ r) = dropWhile is_digit s @ r"
proof -
  assume d: "delimited r"
  have r: "takeWhile is_digit r = [] \<and> dropWhile is_digit r = r"
    using delimited_not_digit [OF d] by (cases r) auto
  show "takeWhile is_digit (s @ r) = takeWhile is_digit s" using r by (induction s) auto
  show "dropWhile is_digit (s @ r) = dropWhile is_digit s @ r" using r by (induction s) auto
qed

lemma delimited_hd: "delimited r \<Longrightarrow> r \<noteq> [] \<Longrightarrow> hd r \<noteq> c" if "is_digit c \<or> c \<in> {CHR ''.'', CHR ''e'', CHR ''E'', CHR ''-'', CHR ''+''}"
  using that by (auto simp: delimited_def is_digit_def ord_def)

lemma scan_fraction_append:
  assumes "delimited r"
  shows "scan_fraction (s @ r) = map_option (\<lambda>(f, t). (f, t @ r)) (scan_fraction s)"
proof (cases s)
  case Nil
  then show ?thesis using delimited_hd [of "CHR ''.''" r] assms by (cases r) (auto simp: scan_fraction_def)
next
  case (Cons c s')
  then show ?thesis using takeWhile_delimited [OF assms, of s'] by (simp add: scan_fraction_def)
qed

lemma scan_exponent_append:
  assumes "delimited r" and "s \<noteq> [] \<Longrightarrow> scan_exponent s \<noteq> None"
  shows "scan_exponent (s @ r) = map_option (\<lambda>(e, t). (e, t @ r)) (scan_exponent s)"
proof (cases s)
  case Nil
  then show ?thesis using delimited_hd [of "CHR ''e''" r] delimited_hd [of "CHR ''E''" r] assms(1)
    by (cases r) (auto simp: scan_exponent_def)
next
  case (Cons c s')
  with assms(2) have "s' \<noteq> []" by (auto simp: scan_exponent_def Let_def split: if_splits)
  with Cons takeWhile_delimited [OF assms(1), of s'] takeWhile_delimited [OF assms(1), of "tl s'"]
  show ?thesis by (simp add: scan_exponent_def Let_def)
qed

lemma scan_number_append:
  assumes num: "scan_number s = Some (v, [])" and r: "delimited r"
  shows "scan_number (s @ r) = Some (v, r)"
proof -
  define neg where "neg = (s \<noteq> [] \<and> hd s = CHR ''-'')"
  define s1 where "s1 = (if neg then tl s else s)"
  define whole where "whole = (if s1 \<noteq> [] \<and> hd s1 = CHR ''0'' then ''0'' else takeWhile is_digit s1)"
  define s2 where "s2 = drop (length whole) s1"
  define t where "t = (case scan_fraction s2 of None \<Rightarrow> s2 | Some (f, q) \<Rightarrow> q)"
  note defs = neg_def s1_def whole_def s2_def t_def
  note num' = num [unfolded scan_number_def Let_def, folded neg_def, folded s1_def, folded whole_def, folded s2_def, folded t_def]
  have w: "whole \<noteq> []" using num' by (auto split: if_splits)
  then have s1: "s1 \<noteq> []" by (auto simp: whole_def)
  then have s: "s \<noteq> []" by (auto simp: s1_def)
  have neg': "(s @ r \<noteq> [] \<and> hd (s @ r) = CHR ''-'') = neg" using s by (simp add: neg_def)
  have s1': "(if neg then tl (s @ r) else s @ r) = s1 @ r" using s by (simp add: s1_def)
  have whole': "(if s1 @ r \<noteq> [] \<and> hd (s1 @ r) = CHR ''0'' then ''0'' else takeWhile is_digit (s1 @ r)) = whole"
    using s1 takeWhile_delimited(1) [OF r, of s1] by (simp add: whole_def)
  have "length whole \<le> length s1" using s1 by (cases s1) (auto simp: whole_def length_takeWhile_le less_Suc_eq_le)
  then have s2': "drop (length whole) (s1 @ r) = s2 @ r" by (simp add: s2_def)
  have t': "(case scan_fraction (s2 @ r) of None \<Rightarrow> s2 @ r | Some (f, q) \<Rightarrow> q) = t @ r"
    using scan_fraction_append [OF r, of s2] by (auto simp: t_def split: option.splits)
  have "t \<noteq> [] \<Longrightarrow> scan_exponent t \<noteq> None"
    using num' w by (auto simp: t_def split: option.splits)
  then have ex: "scan_exponent (t @ r) = map_option (\<lambda>(e, q). (e, q @ r)) (scan_exponent t)"
    by (rule scan_exponent_append [OF r])
  show ?thesis
    unfolding scan_number_def Let_def neg' s1' whole' s2' t' ex
    using num' w scan_fraction_append [OF r, of s2] by (auto split: option.splits)
qed

lemma digits_str_zero: "0 \<le> n \<Longrightarrow> hd (digits_str n) = CHR ''0'' \<Longrightarrow> n = 0"
proof (induction n rule: digits_str.induct)
  case (1 n)
  show ?case
  proof (cases "n < 10")
    case True
    then have "ord (digit_char n) = 48" using "1.prems" by (simp add: digits_str.simps [of n] ord_def)
    then show ?thesis using True "1.prems" by (simp add: ord_digit_char)
  next
    case False
    have "hd (digits_str n) = hd (digits_str (n div 10))" using False by (simp add: digits_str.simps [of n])
    then have "n div 10 = 0" using "1.IH" [OF False] "1.prems" False by simp
    then show ?thesis using False "1.prems" by linarith
  qed
qed

lemma scan_number_int: "scan_number (int_str n) = Some (JInt n, [])"
proof -
  define d where "d = digits_str \<bar>n\<bar>"
  have dig: "list_all is_digit d" and ne: "d \<noteq> []" and val: "int_of_decimal d = \<bar>n\<bar>"
    by (simp_all add: d_def digits_str_digits int_of_decimal_digits_str)
  have tw: "takeWhile is_digit d = d" using dig by (simp add: list_all_iff takeWhile_eq_all_conv)
  have zero: "hd d = CHR ''0'' \<Longrightarrow> d = ''0''"
    using digits_str_zero [of "\<bar>n\<bar>"] by (simp add: d_def digits_str.simps [of 0] digit_char_def)
  have hd: "hd d \<noteq> CHR ''-''" using dig ne by (cases d) (auto simp: is_digit_def ord_def)
  have s: "int_str n = (if n < 0 then CHR ''-'' # d else d)" by (simp add: int_str_def d_def abs_if)
  have whole: "(if d \<noteq> [] \<and> hd d = CHR ''0'' then ''0'' else takeWhile is_digit d) = d"
    using zero tw by auto
  have none: "scan_fraction [] = None" "scan_exponent [] = None" by (simp_all add: scan_fraction_def scan_exponent_def)
  have neg: "(int_str n \<noteq> [] \<and> hd (int_str n) = CHR ''-'') = (n < 0)" using s hd ne by simp
  have s1: "(if n < 0 then tl (int_str n) else int_str n) = d" using s by simp
  show ?thesis
    unfolding scan_number_def Let_def neg s1 whole using ne none val by simp
qed

section \<open>The round trip\<close>

text \<open>
  Both forms of \<open>json.dumps\<close> are instances of one layout: white space after the opening and before
  the closing bracket and after a comma, and white space after the colon.
\<close>

primrec wf_json :: "json \<Rightarrow> bool" where
  "wf_json JNull = True"
| "wf_json (JBool b) = True"
| "wf_json (JInt n) = True"
| "wf_json (JFloat f) = readable_float f"
| "wf_json (JStr s) = True"
| "wf_json (JArr xs) = list_all id (map wf_json xs)"
| "wf_json (JObj d) = (distinct (map fst d) \<and> list_all snd (map (map_prod id wf_json) d))"

primrec render :: "(nat \<Rightarrow> string) \<Rightarrow> string \<Rightarrow> json \<Rightarrow> nat \<Rightarrow> string" where
  "render nl colon JNull l = ''null''"
| "render nl colon (JBool b) l = (if b then ''true'' else ''false'')"
| "render nl colon (JInt n) l = int_str n"
| "render nl colon (JFloat f) l = float_repr f"
| "render nl colon (JStr s) l = dumps_str s"
| "render nl colon (JArr xs) l =
     (if xs = [] then ''[]''
      else ''['' @ nl (Suc l) @ join ('','' @ nl (Suc l)) (map (\<lambda>f. f (Suc l)) (map (render nl colon) xs)) @ nl l @ '']'')"
| "render nl colon (JObj d) l =
     (if d = [] then ''{}''
      else ''{'' @ nl (Suc l) @ join ('','' @ nl (Suc l))
          (map (\<lambda>(k, f). dumps_str k @ colon @ f (Suc l)) (sort_key fst (map (map_prod id (render nl colon)) d)))
        @ nl l @ ''}'')"

lemma dumps_indent_render: "dumps_indent v = render spaces '': '' v"
proof (induction v)
  case (JArr xs)
  then have eq: "map dumps_indent xs = map (render spaces '': '') xs" by simp
  show ?case by (rule ext) (simp only: dumps_indent.simps render.simps eq)
next
  case (JObj d)
  then have eq: "map (map_prod id dumps_indent) d = map (map_prod id (render spaces '': '')) d"
    by (auto simp: map_prod_def)
  show ?case by (rule ext) (simp only: dumps_indent.simps render.simps eq)
qed (simp_all add: fun_eq_iff)

lemma dumps_render: "dumps v = render (\<lambda>l. []) '':'' v l"
proof (induction v arbitrary: l)
  case (JArr xs)
  then have eq: "map dumps xs = map (\<lambda>f. f (Suc l)) (map (render (\<lambda>l. []) '':'') xs)" by simp
  have "join '','' (map dumps xs) = join '','' (map (\<lambda>f. f (Suc l)) (map (render (\<lambda>l. []) '':'') xs))" by (simp only: eq)
  then show ?case by simp
next
  case (JObj d)
  have "dumps (snd x) = render (\<lambda>l. []) '':'' (snd x) (Suc l)" if "x \<in> set d" for x
    using JObj [of x "snd x" "Suc l"] that by (cases x) auto
  then have "map (\<lambda>x. dumps_str (fst x) @ CHR '':'' # dumps (snd x)) (sort_key fst d)
      = map (\<lambda>x. dumps_str (fst x) @ CHR '':'' # render (\<lambda>l. []) '':'' (snd x) (Suc l)) (sort_key fst d)"
    by simp
  then have "join '','' (map (\<lambda>x. dumps_str (fst x) @ CHR '':'' # dumps (snd x)) (sort_key fst d))
      = join '','' (map (\<lambda>x. dumps_str (fst x) @ CHR '':'' # render (\<lambda>l. []) '':'' (snd x) (Suc l)) (sort_key fst d))"
    by (simp only:)
  then show ?case
    by (simp add: sort_key_map_prod comp_def split_def)
qed simp_all

lemma skip_ws_append: "list_all is_ws w \<Longrightarrow> skip_ws (w @ r) = skip_ws r"
  by (induction w) auto

lemma skip_ws_id: "r \<noteq> [] \<Longrightarrow> \<not> is_ws (hd r) \<Longrightarrow> skip_ws r = r"
  by (cases r) auto

lemma scan_number_hd:
  assumes "scan_number (c # t) \<noteq> None"
  shows "c = CHR ''-'' \<or> is_digit c"
proof (rule ccontr)
  assume c: "\<not> ?thesis"
  then have "c \<noteq> CHR ''0''" by (auto simp: is_digit_def ord_def)
  with c assms show False by (simp add: scan_number_def Let_def)
qed

lemma scan_number_text:
  assumes "scan_number s = Some (v, r)" and "length s \<noteq> 0" and "n \<noteq> 0"
  shows "scan_value st n s = Inr (v, r)"
proof -
  obtain k where n: "n = Suc k" using assms(3) by (cases n) auto
  obtain c t where s: "s = c # t" using assms(2) by (cases s) auto
  have c: "c = CHR ''-'' \<or> is_digit c" using scan_number_hd [of c t] assms(1) s by simp
  then have "c \<notin> {CHR 0x22, CHR ''['', CHR 0x7B, CHR ''n'', CHR ''t'', CHR ''f''}" by (auto simp: is_digit_def ord_def)
  then show ?thesis using assms(1) by (auto simp: n s scan_literal_def)
qed

lemma repeated_key_None: "repeated_key seen ks = None \<longleftrightarrow> distinct ks \<and> set ks \<inter> set seen = {}"
  by (induction seen ks rule: repeated_key.induct) auto

lemma unique_keys_distinct: "distinct (map fst d) \<Longrightarrow> unique_keys d = Inr (JObj d)"
  using repeated_key_None [of "[]" "map fst d"] by (simp add: unique_keys_def)

lemma last_wins_distinct: "distinct (map fst d) \<Longrightarrow> last_wins d = d"
proof -
  have new: "k \<notin> fst ` set e \<Longrightarrow> dict_set e k v = e @ [(k, v)]" for e :: dict and k v
    by (induction e k v rule: dict_set.induct) auto
  have "distinct (map fst (e @ d)) \<Longrightarrow> foldl (\<lambda>d p. dict_set d (fst p) (snd p)) e d = e @ d" for e :: dict
  proof (induction d arbitrary: e)
    case (Cons p d)
    then show ?case using new [of "fst p" e "snd p"] Cons.IH [of "e @ [p]"] by (simp add: image_Un)
  qed simp
  from this [of "[]"] show "distinct (map fst d) \<Longrightarrow> last_wins d = d" by (simp add: last_wins_def)
qed

lemma object_hook_distinct: "distinct (map fst d) \<Longrightarrow> object_hook st d = Inr (JObj d)"
  by (simp add: object_hook_def unique_keys_distinct last_wins_distinct)

lemma sort_key_eq_Nil: "sort_key f xs = [] \<longleftrightarrow> xs = []"
  by (metis length_0_conv length_sort)

locale json_layout =
  fixes nl :: "nat \<Rightarrow> string" and colon :: string
  assumes nl_ws: "list_all is_ws (nl l)" and nl_line: "nl l = [] \<or> hd (nl l) = CHR 0x0A"
    and colon_ws: "\<exists>w. colon = CHR '':'' # w \<and> list_all is_ws w"
begin

lemma delimited_close: "c \<in> {CHR '','', CHR '']'', CHR 0x7D} \<Longrightarrow> delimited (nl l @ c # r)"
  using nl_line [of l] by (cases "nl l") (auto simp: delimited_def)

lemma scan_items_text:
  assumes elem: "\<And>x n r. x \<in> set xs \<Longrightarrow> delimited r \<Longrightarrow> length (f x) \<le> n \<Longrightarrow> scan_value st n (f x @ r) = Inr (g x, r)"
    and hd: "\<And>x. x \<in> set xs \<Longrightarrow> f x \<noteq> [] \<and> \<not> is_ws (hd (f x))"
    and "xs \<noteq> []" and "length (join ('','' @ nl m) (map f xs)) < n"
  shows "scan_items st n (join ('','' @ nl m) (map f xs) @ nl l @ CHR '']'' # r) = Inr (map g xs, r)"
  using assms
proof (induction xs arbitrary: n rule: induct_list012)
  case (2 x)
  then obtain k where n: "n = Suc k" by (cases n) auto
  have "scan_value st k (f x @ nl l @ CHR '']'' # r) = Inr (g x, nl l @ CHR '']'' # r)"
    using 2 n delimited_close by auto
  then show ?case by (simp add: n skip_ws_append [OF nl_ws]) (simp add: is_ws_def)
next
  case (3 x y xs)
  then obtain k where n: "n = Suc k" by (cases n) auto
  let ?rest = "join ('','' @ nl m) (map f (y # xs)) @ nl l @ CHR '']'' # r"
  have v: "scan_value st k (f x @ '','' @ nl m @ ?rest) = Inr (g x, '','' @ nl m @ ?rest)"
    using 3 n by (auto simp: delimited_def)
  have hdy: "?rest \<noteq> [] \<and> \<not> is_ws (hd ?rest)" using "3.prems"(2) [of y] by (cases xs) auto
  have rest: "scan_items st k ?rest = Inr (map g (y # xs), r)" using "3.IH"(2) [of k] "3.prems" n by auto
  have comma: "\<not> is_ws (CHR '','')" by (simp add: is_ws_def)
  have "scan_items st n (f x @ '','' @ nl m @ ?rest) = Inr (map g (x # y # xs), r)"
    unfolding n scan_items.simps v using rest skip_ws_id [of ?rest] hdy
    by (simp add: comma skip_ws_append [OF nl_ws] del: join.simps)
  then show ?case by simp
qed simp

lemma scan_pairs_text:
  assumes elem: "\<And>x n r. x \<in> set xs \<Longrightarrow> delimited r \<Longrightarrow> length (f x) \<le> n \<Longrightarrow> scan_value st n (f x @ r) = Inr (g x, r)"
    and hd: "\<And>x. x \<in> set xs \<Longrightarrow> f x \<noteq> [] \<and> \<not> is_ws (hd (f x))"
    and t: "t = (\<lambda>x. dumps_str (fst x) @ colon @ f x)"
    and "xs \<noteq> []" and "length (join ('','' @ nl m) (map t xs)) < n"
  shows "scan_pairs st n (join ('','' @ nl m) (map t xs) @ nl l @ CHR 0x7D # r) = Inr (map (\<lambda>x. (fst x, g x)) xs, r)"
  using assms(1,2,4,5)
proof (induction xs arbitrary: n rule: induct_list012)
  case (2 x)
  then obtain k where n: "n = Suc k" by (cases n) auto
  obtain w where colon: "colon = CHR '':'' # w" and w: "list_all is_ws w" using colon_ws by blast
  let ?rest = "nl l @ CHR 0x7D # r"
  have "scan_value st k (f x @ ?rest) = Inr (g x, ?rest)" using 2 n delimited_close by (auto simp: t)
  moreover have "skip_ws (w @ f x @ ?rest) = f x @ ?rest"
    using "2.prems"(2) [of x] skip_ws_append [OF w, of "f x @ ?rest"] skip_ws_id [of "f x @ ?rest"] by auto
  ultimately show ?case
    by (simp add: n t dumps_str_def scan_string_dumps colon skip_ws_append [OF nl_ws])
      (simp add: is_ws_def)
next
  case (3 x y xs)
  then obtain k where n: "n = Suc k" by (cases n) auto
  obtain w where colon: "colon = CHR '':'' # w" and w: "list_all is_ws w" using colon_ws by blast
  let ?rest = "join ('','' @ nl m) (map t (y # xs)) @ nl l @ CHR 0x7D # r"
  have v: "scan_value st k (f x @ '','' @ nl m @ ?rest) = Inr (g x, '','' @ nl m @ ?rest)"
    using 3 n by (auto simp: delimited_def t)
  have hdy: "?rest \<noteq> [] \<and> \<not> is_ws (hd ?rest)" by (cases xs) (auto simp: t dumps_str_def is_ws_def)
  have rest: "scan_pairs st k ?rest = Inr (map (\<lambda>x. (fst x, g x)) (y # xs), r)" using "3.IH"(2) [of k] "3.prems" n by auto
  have sk: "skip_ws (w @ f x @ '','' @ nl m @ ?rest) = f x @ '','' @ nl m @ ?rest"
    using "3.prems"(2) [of x] skip_ws_append [OF w, of "f x @ '','' @ nl m @ ?rest"] skip_ws_id [of "f x @ '','' @ nl m @ ?rest"] by auto
  have ws: "\<not> is_ws (CHR '':'')" "\<not> is_ws (CHR '','')" by (simp_all add: is_ws_def)
  have "scan_pairs st n (t x @ '','' @ nl m @ ?rest) = Inr (map (\<lambda>x. (fst x, g x)) (x # y # xs), r)"
    using v rest skip_ws_id [of ?rest] hdy sk ws
    by (simp add: n t dumps_str_def scan_string_dumps colon skip_ws_append [OF nl_ws] del: join.simps)
  then show ?case by simp
qed simp

lemma text_hd:
  assumes "wf_json v"
  shows "render nl colon v l \<noteq> [] \<and> hd (render nl colon v l) \<noteq> CHR '']'' \<and> \<not> is_ws (hd (render nl colon v l))"
proof (cases v)
  case (JInt n)
  have "is_digit c \<Longrightarrow> c \<noteq> CHR '']'' \<and> \<not> is_ws c" for c by (auto simp: is_digit_def is_ws_def ord_def)
  with JInt hd_digits_str [of n] show ?thesis by (auto simp: int_str_def is_ws_def)
next
  case (JFloat f)
  with assms have num: "scan_number (float_repr f) \<noteq> None" by (simp add: readable_float_def)
  then have "float_repr f \<noteq> []" by (auto simp: scan_number_def)
  moreover have "hd (float_repr f) \<noteq> CHR '']'' \<and> \<not> is_ws (hd (float_repr f))"
    using num scan_number_hd [of "hd (float_repr f)" "tl (float_repr f)"] \<open>float_repr f \<noteq> []\<close>
    by (auto simp: is_ws_def is_digit_def ord_def)
  ultimately show ?thesis using JFloat by simp
qed (auto simp: dumps_str_def is_ws_def)

lemma join_hd: "xs \<noteq> [] \<Longrightarrow> hd xs \<noteq> [] \<Longrightarrow> join sep xs \<noteq> [] \<and> hd (join sep xs) = hd (hd xs)"
  by (cases xs; cases "tl xs") auto

lemma scan_value_text:
  "wf_json v \<Longrightarrow> delimited r \<Longrightarrow> length (render nl colon v l) \<le> n \<Longrightarrow>
   scan_value st n (render nl colon v l @ r) = Inr (sort_keys v, r)"
proof (induction v arbitrary: l n r)
  case (JInt k)
  moreover have "int_str k \<noteq> []" by (simp add: int_str_def)
  moreover have "n \<noteq> 0" using JInt.prems(3) \<open>int_str k \<noteq> []\<close> by (cases n) auto
  ultimately show ?case using scan_number_text [OF scan_number_append [OF scan_number_int [of k]]] by auto
next
  case (JFloat f)
  moreover have "float_repr f \<noteq> []" using text_hd [of "JFloat f"] JFloat by simp
  moreover have "n \<noteq> 0" using JFloat.prems(3) \<open>float_repr f \<noteq> []\<close> by (cases n) auto
  ultimately show ?case
    using scan_number_text [OF scan_number_append [of "float_repr f"]] by (auto simp: readable_float_def)
next
  case (JStr t)
  then show ?case by (cases n) (auto simp: dumps_str_def scan_string_dumps)
next
  case (JArr xs)
  then obtain k where n: "n = Suc k" by (cases n) (auto split: if_splits)
  show ?case
  proof (cases "xs = []")
    case True
    then show ?thesis using n by (simp add: is_ws_def)
  next
    case False
    let ?f = "\<lambda>x. render nl colon x (Suc l)"
    let ?items = "join ('','' @ nl (Suc l)) (map ?f xs)"
    have f: "map (\<lambda>f. f (Suc l)) (map (render nl colon) xs) = map ?f xs" by simp
    have hd: "?f x \<noteq> [] \<and> hd (?f x) \<noteq> CHR '']'' \<and> \<not> is_ws (hd (?f x))" if "x \<in> set xs" for x
      using text_hd [of x] JArr.prems(1) that by (auto simp: list_all_iff)
    have "scan_items st k (?items @ nl l @ CHR '']'' # r) = Inr (map sort_keys xs, r)"
      using JArr False n hd by (intro scan_items_text) (auto simp: list_all_iff comp_def)
    moreover have "?items \<noteq> [] \<and> hd ?items \<noteq> CHR '']'' \<and> \<not> is_ws (hd ?items)"
      using False hd [of "hd xs"] join_hd [of "map ?f xs"] by (simp add: hd_map)
    then obtain c t where ct: "?items = c # t" "c \<noteq> CHR '']''" "\<not> is_ws c" by (cases ?items) auto
    ultimately show ?thesis
      unfolding render.simps f n using False by (simp add: skip_ws_append [OF nl_ws])
  qed
next
  case (JObj d)
  then obtain k where n: "n = Suc k" by (cases n) (auto split: if_splits)
  show ?case
  proof (cases "d = []")
    case True
    then show ?thesis using n by (simp add: is_ws_def)
  next
    case False
    let ?d = "sort_key fst d"
    let ?f = "\<lambda>x. render nl colon (snd x) (Suc l)" and ?t = "\<lambda>x. dumps_str (fst x) @ colon @ render nl colon (snd x) (Suc l)"
    let ?items = "join ('','' @ nl (Suc l)) (map ?t ?d)"
    have f: "map (\<lambda>(k, f). dumps_str k @ colon @ f (Suc l)) (sort_key fst (map (map_prod id (render nl colon)) d)) = map ?t ?d"
      by (simp add: sort_key_map_prod comp_def split_def)
    have wf: "wf_json (snd x)" if "x \<in> set d" for x using JObj.prems(1) that by (auto simp: list_all_iff)
    have elem: "scan_value st m (?f x @ q) = Inr (sort_keys (snd x), q)" if "x \<in> set ?d" "delimited q" "length (?f x) \<le> m" for x m q
      using JObj.IH [of x "snd x" q "Suc l" m] that wf [of x] by (cases x) auto
    have "scan_pairs st k (?items @ nl l @ CHR 0x7D # r) = Inr (map (\<lambda>x. (fst x, sort_keys (snd x))) ?d, r)"
      using JObj.prems(3) False n elem text_hd wf
      by (intro scan_pairs_text [where f = ?f]) (auto simp: f sort_key_eq_Nil)
    moreover have "?items \<noteq> [] \<and> hd ?items = CHR 0x22"
      using False join_hd [of "map ?t ?d"] by (simp add: hd_map sort_key_eq_Nil dumps_str_def)
    then obtain t where ct: "?items = CHR 0x22 # t" by (cases ?items) auto
    moreover have "object_hook st (map (\<lambda>x. (fst x, sort_keys (snd x))) ?d) = Inr (sort_keys (JObj d))"
      using JObj.prems(1) by (simp add: object_hook_distinct comp_def sort_keys_obj map_prod_def split_def distinct_map del: sort_keys.simps)
    moreover have "\<not> is_ws (CHR 0x22)" by (simp add: is_ws_def)
    ultimately show ?thesis
      unfolding render.simps f n using False by (simp add: skip_ws_append [OF nl_ws] del: sort_keys.simps)
  qed
next
  case JNull
  then show ?case by (cases n) (auto simp: scan_literal_def)
next
  case (JBool b)
  then show ?case by (cases n; cases b) (auto simp: scan_literal_def)
qed

end

interpretation compact: json_layout "\<lambda>l. []" "'':''"
  by unfold_locales auto

interpretation indented: json_layout spaces "'': ''"
  by unfold_locales (auto simp: spaces_def is_ws_def list_all_iff)

text \<open>Both texts are read back as the value with its dictionaries in key order.\<close>

lemma loads_text:
  assumes "json_layout nl colon" and "wf_json v" and "list_all is_ws w" and "w = [] \<or> hd w = CHR 0x0A"
  shows "loads_with st (render nl colon v 0 @ w) = Inr (sort_keys v)"
proof -
  have "delimited w" using assms(4) by (auto simp: delimited_def)
  then have "scan_value st (Suc (2 * length (render nl colon v 0 @ w))) (render nl colon v 0 @ w) = Inr (sort_keys v, w)"
    by (intro json_layout.scan_value_text [OF assms(1,2)]) simp_all
  moreover have "skip_ws (render nl colon v 0 @ w) = render nl colon v 0 @ w"
    using json_layout.text_hd [OF assms(1,2), of 0] by (intro skip_ws_id) auto
  moreover have "skip_ws w = []" using assms(3) by (auto simp: list_all_iff skip_ws_def)
  ultimately show ?thesis by (simp add: loads_with_def)
qed

lemma loads_dumps: "wf_json v \<Longrightarrow> loads (dumps v) = Inr (sort_keys v)"
  using loads_text [OF compact.json_layout_axioms, of v "[]"] by (simp add: loads_def dumps_render [of v 0])

lemma loads_dumps_line: "wf_json v \<Longrightarrow> loads (dumps v @ [CHR 0x0A]) = Inr (sort_keys v)"
  using loads_text [OF compact.json_layout_axioms, of v "[CHR 0x0A]"] by (simp add: loads_def dumps_render [of v 0] is_ws_def)

lemma loads_dumps_indent: "wf_json v \<Longrightarrow> loads (dumps_indent v 0 @ [CHR 0x0A]) = Inr (sort_keys v)"
  using loads_text [OF indented.json_layout_axioms, of v "[CHR 0x0A]"] by (simp add: loads_def dumps_indent_render is_ws_def)

text \<open>The canonical text does not depend on the order in which a dictionary was filled.\<close>

lemma sort_key_idem: "sort_key f (sort_key f xs) = sort_key f xs"
  by (simp add: sort_key_id_if_sorted)

lemma render_sort_keys: "render nl colon (sort_keys v) = render nl colon v"
proof (induction v)
  case (JArr xs)
  then have "map (render nl colon) (map sort_keys xs) = map (render nl colon) xs" by simp
  then show ?case by (simp add: fun_eq_iff del: map_map)
next
  case (JObj d)
  have "map_prod id (render nl colon) (map_prod id sort_keys x) = map_prod id (render nl colon) x" if "x \<in> set d" for x
    using JObj [of x "snd x"] that by (cases x) auto
  then have "map (map_prod id (render nl colon)) (map (map_prod id sort_keys) d) = map (map_prod id (render nl colon)) d"
    by simp
  then have "sort_key fst (map (map_prod id (render nl colon)) (sort_key fst (map (map_prod id sort_keys) d)))
      = sort_key fst (map (map_prod id (render nl colon)) d)"
    by (metis sort_key_idem sort_key_map_prod)
  then show ?case by (simp add: fun_eq_iff sort_key_eq_Nil del: map_map)
qed simp_all

lemma dumps_sort_keys: "dumps (sort_keys v) = dumps v"
  using fun_cong [OF render_sort_keys [of "\<lambda>l. []" "'':''" v], of 0] by (simp add: dumps_render [of _ 0])

lemma dumps_indent_sort_keys: "dumps_indent (sort_keys v) l = dumps_indent v l"
  by (simp add: dumps_indent_render render_sort_keys)

lemma dict_del_loads: "dict_del (loads_dict d) k = loads_dict (dict_del d k)"
  by (simp add: loads_dict_def dict_del_def filter_sort filter_map comp_def)

lemma dumps_loads: "dumps (JObj (loads_dict d)) = dumps (JObj d)"
  using dumps_sort_keys [of "JObj d"] by (simp only: sort_keys_loads)

lemma sorted_dict_eq:
  assumes "distinct (map fst d)" "distinct (map fst e)" "sorted (map fst d)" "sorted (map fst e)" "keys d = keys e"
    and get: "\<And>k. dget d k = dget e k"
  shows "d = (e :: dict)"
proof -
  have self: "map (\<lambda>k. (k, dget x k)) (map fst x) = x" if "distinct (map fst x)" for x :: dict
  proof -
    have "(fst p, dget x (fst p)) = p" if "p \<in> set x" for p
      using map_of_is_SomeI [of x "fst p" "snd p"] that \<open>distinct (map fst x)\<close> by (cases p) (simp add: dget_def)
    then show ?thesis by (simp add: map_idI)
  qed
  have "map fst d = map fst e"
    using assms(1-5) by (intro sorted_distinct_set_unique) (auto simp: keys_def)
  then have "map (\<lambda>k. (k, dget d k)) (map fst d) = map (\<lambda>k. (k, dget e k)) (map fst e)" by (simp add: get del: map_map)
  then show ?thesis using self [OF assms(1)] self [OF assms(2)] by simp
qed

lemma sort_keys_idem: "sort_keys (sort_keys v) = sort_keys v"
proof (induction v)
  case (JArr xs)
  then show ?case by simp
next
  case (JObj d)
  then have "map (map_prod id sort_keys) (map (map_prod id sort_keys) d) = map (map_prod id sort_keys) d"
    by (auto simp: map_prod_def)
  then show ?case by (metis sort_key_idem sort_key_map_prod sort_keys.simps(7))
qed simp_all

section \<open>The fuel is enough\<close>

lemma length_skip_ws: "length (skip_ws s) \<le> length s"
  by (simp add: skip_ws_def length_dropWhile_le)

lemma scan_string_rest: "scan_string s = Some (t, r) \<Longrightarrow> length r < length s"
proof (induction s arbitrary: t rule: measure_induct_rule [of length])
  case (less s)
  then obtain c q where s: "s = c # q" by (cases s) auto
  have IH: "length r < length s" if "length y < length s" "scan_string y = Some (u, r)" for y u
    using less.IH [OF that] that(1) by simp
  show ?case
  proof (cases "c = CHR 0x22 \<or> c \<noteq> CHR 0x5C")
    case True
    with less.prems IH [of q] show ?thesis by (auto simp: s split: if_splits)
  next
    case False
    then obtain d q' where q: "q = d # q'" using less.prems s by (cases q) auto
    show ?thesis
    proof (cases "code_point q'")
      case None
      with less.prems False IH [of q'] show ?thesis by (auto simp: s q split: if_splits option.splits)
    next
      case (Some p)
      then obtain u q2 where cp: "code_point q' = Some (u, q2)" by (cases p) auto
      with less.prems False IH [of q'] IH [of q2] code_point_shorter [OF cp] show ?thesis
        by (auto simp: s q split: if_splits option.splits)
    qed
  qed
qed

lemma scan_fraction_rest: "scan_fraction s = Some (f, r) \<Longrightarrow> length r < length s"
  by (cases s) (auto simp: scan_fraction_def length_dropWhile_le less_Suc_eq_le split: if_splits)

lemma scan_exponent_rest:
  assumes "scan_exponent s = Some (e, r)"
  shows "length r < length s"
proof -
  obtain c q where s: "s = c # q" using assms by (cases s) (auto simp: scan_exponent_def)
  have "length r \<le> length q"
    using assms length_dropWhile_le [of is_digit q] length_dropWhile_le [of is_digit "tl q"]
    by (auto simp: s scan_exponent_def Let_def split: if_splits)
  then show ?thesis by (simp add: s)
qed

lemma scan_number_rest:
  assumes "scan_number s = Some (v, r)"
  shows "length r < length s"
proof -
  define s1 where "s1 = (if s \<noteq> [] \<and> hd s = CHR ''-'' then tl s else s)"
  define whole where "whole = (if s1 \<noteq> [] \<and> hd s1 = CHR ''0'' then ''0'' else takeWhile is_digit s1)"
  define s2 where "s2 = drop (length whole) s1"
  note num = assms [unfolded scan_number_def Let_def, folded s1_def, folded whole_def, folded s2_def]
  have "whole \<noteq> []" using num by (auto split: if_splits)
  then have "s1 \<noteq> []" by (auto simp: whole_def)
  then have "length s2 < length s1" using \<open>whole \<noteq> []\<close> by (simp add: s2_def)
  moreover have "length s1 \<le> length s" by (auto simp: s1_def)
  moreover have "length r \<le> length s2"
    using num \<open>whole \<noteq> []\<close> scan_fraction_rest [of s2] scan_exponent_rest
    by (fastforce split: option.splits prod.splits)
  ultimately show ?thesis by simp
qed

lemma scan_literal_rest:
  assumes "scan_literal s = Inr (v, r)"
  shows "length r < length s"
proof -
  have "length (drop k s) < length s" if "prefix p s" "p \<noteq> []" "0 < k" for p k
    using that by (cases s) auto
  then show ?thesis using assms scan_number_rest [of s] by (auto simp: scan_literal_def split: if_splits option.splits)
qed

lemma bind_res_pair: "bind_res m (\<lambda>(x, y). f x y) = Inr z \<longleftrightarrow> (\<exists>x y. m = Inr (x, y) \<and> f x y = Inr z)"
  by (cases m) auto

lemma skip_ws_Cons: "skip_ws r = d # r' \<Longrightarrow> length r' < length r"
  using length_skip_ws [of r] by simp

lemma scan_value_cases:
  assumes v: "scan_value st (Suc n) (c # q) = Inr (v, r)"
  shows "(\<exists>t. scan_string q = Some (t, r)) \<or> (\<exists>d. skip_ws q = d # r)
    \<or> (\<exists>d r' xs. skip_ws q = d # r' \<and> scan_items st n (d # r') = Inr (xs, r))
    \<or> (\<exists>d r' ps. skip_ws q = d # r' \<and> scan_pairs st n (d # r') = Inr (ps, r)) \<or> scan_literal (c # q) = Inr (v, r)"
proof (cases "c = CHR 0x22")
  case True
  with v show ?thesis by (auto split: option.splits)
next
  case no_string: False
  show ?thesis
  proof (cases "c = CHR ''['' \<or> c = CHR 0x7B")
    case True
    then obtain d r' where d: "skip_ws q = d # r'" using v no_string by (cases "skip_ws q") auto
    with v no_string True show ?thesis
      by (auto simp: bind_res_pair bind_res_Inr_iff simp del: scan_items.simps scan_pairs.simps split: if_splits)
  next
    case False
    with v no_string show ?thesis by simp
  qed
qed

lemma scan_items_cases:
  assumes "scan_items st (Suc n) s = Inr (xs, r)"
  obtains v r1 d r2 where "scan_value st n s = Inr (v, r1)" and "skip_ws r1 = d # r2"
    and "r = r2 \<or> (\<exists>ys. scan_items st n (skip_ws r2) = Inr (ys, r))"
proof -
  obtain v r1 where v: "scan_value st n s = Inr (v, r1)" using assms by (cases "scan_value st n s") auto
  then obtain d r2 where d: "skip_ws r1 = d # r2" using assms by (cases "skip_ws r1") auto
  show thesis using assms that [OF v d] v d by (auto simp: bind_res_pair split: if_splits)
qed

lemma scan_pairs_cases:
  assumes "scan_pairs st (Suc n) s = Inr (ps, r)"
  obtains c q k r1 d r2 v r3 e r4 where "s = c # q" and "scan_string q = Some (k, r1)"
    and "skip_ws r1 = d # r2" and "scan_value st n (skip_ws r2) = Inr (v, r3)" and "skip_ws r3 = e # r4"
    and "r = r4 \<or> (\<exists>ys. scan_pairs st n (skip_ws r4) = Inr (ys, r))"
proof -
  obtain c q where s: "s = c # q" and c: "c = CHR 0x22" using assms by (cases s) (auto split: if_splits)
  obtain k r1 where k: "scan_string q = Some (k, r1)" using assms s c by (cases "scan_string q") auto
  obtain d r2 where d: "skip_ws r1 = d # r2" and colon: "d = CHR '':''"
    using assms s c k by (cases "skip_ws r1") (auto split: if_splits)
  obtain v r3 where v: "scan_value st n (skip_ws r2) = Inr (v, r3)"
    using assms s c k d colon by (cases "scan_value st n (skip_ws r2)") auto
  obtain e r4 where e: "skip_ws r3 = e # r4" using assms s c k d colon v by (cases "skip_ws r3") auto
  show thesis
    using assms that [OF s k d v e] s c k d colon v e by (auto simp: bind_res_pair split: if_splits)
qed

lemma scan_rest:
  "(\<forall>v r. scan_value st n s = Inr (v, r) \<longrightarrow> length r < length s)"
  "(\<forall>xs r. scan_items st n s = Inr (xs, r) \<longrightarrow> length r < length s)"
  "(\<forall>ps r. scan_pairs st n s = Inr (ps, r) \<longrightarrow> length r < length s)"
proof (induction n arbitrary: s)
  case (Suc n)
  { case 1
    show ?case
    proof (intro allI impI)
      fix v r assume v: "scan_value st (Suc n) s = Inr (v, r)"
      then obtain c q where s: "s = c # q" by (cases s) auto
      consider t where "scan_string q = Some (t, r)" | d where "skip_ws q = d # r"
        | d r' xs where "skip_ws q = d # r'" "scan_items st n (d # r') = Inr (xs, r)"
        | d r' ps where "skip_ws q = d # r'" "scan_pairs st n (d # r') = Inr (ps, r)" | "scan_literal s = Inr (v, r)"
        using scan_value_cases [OF v [unfolded s]] s by blast
      then show "length r < length s"
      proof cases
        case 1
        then show ?thesis using scan_string_rest [OF 1] s by simp
      next
        case 2
        then show ?thesis using skip_ws_Cons [OF 2] s by simp
      next
        case (3 d r' xs)
        then have "length r < length (d # r')" using Suc.IH(2) by blast
        then show ?thesis using skip_ws_Cons [OF 3(1)] s by simp
      next
        case (4 d r' ps)
        then have "length r < length (d # r')" using Suc.IH(3) by blast
        then show ?thesis using skip_ws_Cons [OF 4(1)] s by simp
      next
        case 5
        then show ?thesis by (rule scan_literal_rest)
      qed
    qed
  next
    case 2
    show ?case
    proof (intro allI impI)
      fix xs r assume "scan_items st (Suc n) s = Inr (xs, r)"
      then obtain v r1 d r2 where v: "scan_value st n s = Inr (v, r1)" and d: "skip_ws r1 = d # r2"
        and rest: "r = r2 \<or> (\<exists>ys. scan_items st n (skip_ws r2) = Inr (ys, r))"
        by (rule scan_items_cases)
      have "length r1 < length s" using Suc.IH(1) v by blast
      moreover have "length r2 < length r1" using skip_ws_Cons [OF d] .
      moreover have "length r \<le> length r2" using rest Suc.IH(2) [of "skip_ws r2"] length_skip_ws [of r2] by fastforce
      ultimately show "length r < length s" by simp
    qed
  next
    case 3
    show ?case
    proof (intro allI impI)
      fix ps r assume "scan_pairs st (Suc n) s = Inr (ps, r)"
      then obtain c q k r1 d r2 v r3 e r4 where s: "s = c # q" and k: "scan_string q = Some (k, r1)"
        and d: "skip_ws r1 = d # r2" and v: "scan_value st n (skip_ws r2) = Inr (v, r3)" and e: "skip_ws r3 = e # r4"
        and rest: "r = r4 \<or> (\<exists>ys. scan_pairs st n (skip_ws r4) = Inr (ys, r))"
        by (rule scan_pairs_cases)
      have "length r1 < length s" using scan_string_rest [OF k] s by simp
      moreover have "length r2 < length r1" using skip_ws_Cons [OF d] .
      moreover have "length r3 < length r2" using Suc.IH(1) v length_skip_ws [of r2] by fastforce
      moreover have "length r4 < length r3" using skip_ws_Cons [OF e] .
      moreover have "length r \<le> length r4" using rest Suc.IH(3) [of "skip_ws r4"] length_skip_ws [of r4] by fastforce
      ultimately show "length r < length s" by simp
    qed
  }
qed simp_all

lemma bind_res_cong: "m = m' \<Longrightarrow> (\<And>x. m' = Inr x \<Longrightarrow> f x = g x) \<Longrightarrow> bind_res m f = bind_res m' g"
  by (cases m') auto

lemma scan_fuel_step:
  "2 * length s < n \<Longrightarrow> scan_value st (Suc n) s = scan_value st n s"
  "Suc (2 * length s) < n \<Longrightarrow> scan_items st (Suc n) s = scan_items st n s"
  "Suc (2 * length s) < n \<Longrightarrow> scan_pairs st (Suc n) s = scan_pairs st n s"
proof (induction n arbitrary: s)
  case (Suc n)
  { case 1
    show ?case
    proof (cases s)
      case (Cons c r)
      have "scan_items st (Suc n) (d # r') = scan_items st n (d # r') \<and> scan_pairs st (Suc n) (d # r') = scan_pairs st n (d # r')"
        if "skip_ws r = d # r'" for d r'
        using Suc.IH(2,3) [of "d # r'"] length_skip_ws [of r] 1 Cons that by simp
      then show ?thesis
        unfolding scan_value.simps(2) [of st "Suc n" s] scan_value.simps(2) [of st n s]
        by (cases "skip_ws r") (simp_all add: Cons del: scan_value.simps scan_items.simps scan_pairs.simps)
    qed simp
  next
    case 2
    have v: "scan_value st (Suc n) s = scan_value st n s" using Suc.IH(1) [of s] 2 by simp
    have i: "scan_items st (Suc n) (skip_ws r') = scan_items st n (skip_ws r')"
      if "scan_value st n s = Inr (x, r)" "skip_ws r = d # r'" for x r d r'
      using Suc.IH(2) [of "skip_ws r'"] length_skip_ws [of r'] skip_ws_Cons [OF that(2)] scan_rest(1) [of st n s] that(1) 2 by force
    show ?case
      unfolding scan_items.simps(2) [of st "Suc n" s] scan_items.simps(2) [of st n s] v
      by (rule bind_res_cong) (auto simp: i split: list.splits simp del: scan_value.simps scan_items.simps)
  next
    case 3
    have v: "scan_value st (Suc n) (skip_ws r2) = scan_value st n (skip_ws r2)"
      if "s = c # q" "scan_string q = Some (k, r1)" "skip_ws r1 = d # r2" for c q k r1 d r2
      using Suc.IH(1) [of "skip_ws r2"] length_skip_ws [of r2] skip_ws_Cons [OF that(3)] scan_string_rest [OF that(2)] that(1) 3 by simp
    have p: "scan_pairs st (Suc n) (skip_ws r4) = scan_pairs st n (skip_ws r4)"
      if "s = c # q" "scan_string q = Some (k, r1)" "skip_ws r1 = d # r2" "scan_value st n (skip_ws r2) = Inr (x, r3)"
        "skip_ws r3 = e # r4" for c q k r1 d r2 x r3 e r4
      using Suc.IH(3) [of "skip_ws r4"] length_skip_ws [of r4] skip_ws_Cons [OF that(3)] scan_string_rest [OF that(2)] that(1) 3
        length_skip_ws [of r2] scan_rest(1) [of st n "skip_ws r2"] that(4) skip_ws_Cons [OF that(5)] by force
    show ?case
      unfolding scan_pairs.simps(2) [of st "Suc n" s] scan_pairs.simps(2) [of st n s]
      by (auto simp: v p split: list.splits option.splits intro!: bind_res_cong simp del: scan_value.simps scan_pairs.simps)
  }
qed simp_all

lemma scan_fuel: "2 * length s < n \<Longrightarrow> n \<le> m \<Longrightarrow> scan_value st m s = scan_value st n s"
  by (induction m) (auto simp: le_Suc_eq scan_fuel_step simp del: scan_value.simps)

lemma loads_fuel:
  assumes "2 * length s < n"
  shows "loads_with st s = bind_res (scan_value st n (skip_ws s)) (\<lambda>(v, r). if skip_ws r = [] then Inr v else Inl JSONDecodeError)"
proof -
  have "scan_value st (Suc (2 * length s)) (skip_ws s) = scan_value st n (skip_ws s)"
    using scan_fuel [of "skip_ws s" "Suc (2 * length s)" n] assms length_skip_ws [of s] by simp
  then show ?thesis by (simp add: loads_with_def)
qed

section \<open>The text is UTF-8\<close>

lemma valid_utf8_Nil [simp]: "valid_utf8 []"
  by (simp add: valid_utf8.simps)

lemma valid_utf8_char: "utf8_len c = length c \<Longrightarrow> c \<noteq> [] \<Longrightarrow> valid_utf8 (c @ r) \<longleftrightarrow> valid_utf8 r"
  using utf8_len_front [of c "length c" r] by (simp add: valid_utf8.simps [of "c @ r"])

lemma valid_utf8_Cons [simp]: "ord c < 128 \<Longrightarrow> valid_utf8 (c # r) \<longleftrightarrow> valid_utf8 r"
  using valid_utf8_char [of "[c]" r] by (simp add: utf8_len_def)

lemma valid_utf8_induct [consumes 1, case_names empty char]:
  assumes "valid_utf8 s" and "P []"
    and "\<And>c r. utf8_len c = length c \<Longrightarrow> c \<noteq> [] \<Longrightarrow> (length c = 1 \<and> ord (hd c) < 128 \<or> list_all (\<lambda>c. 128 \<le> ord c) c) \<Longrightarrow>
      valid_utf8 r \<Longrightarrow> P r \<Longrightarrow> P (c @ r)"
  shows "P s"
  using assms(1)
proof (induction s rule: measure_induct_rule [of length])
  case (less s)
  show ?case
  proof (cases "s = []")
    case False
    define k where "k = utf8_len s"
    have k: "k \<noteq> 0" and v: "valid_utf8 (drop k s)"
      using less.prems False by (simp_all add: k_def valid_utf8.simps [of s] split: if_splits)
    note f = utf8_len_front [OF k_def [symmetric] k]
    have "P (drop k s)" using less.IH [of "drop k s"] v k False by simp
    then have "P (take k s @ drop k s)" using f [of "[]"] f v k False by (intro assms(3)) (auto simp: hd_take)
    then show ?thesis by simp
  qed (simp add: assms(2))
qed

lemma valid_utf8_append: "valid_utf8 a \<Longrightarrow> valid_utf8 b \<Longrightarrow> valid_utf8 (a @ b)"
  by (induction a rule: valid_utf8_induct) (auto simp: valid_utf8_char)

lemma valid_utf8_ascii: "list_all (\<lambda>c. ord c < 128) s \<Longrightarrow> valid_utf8 s"
  by (induction s) auto

lemma escape_char_high:
  assumes "128 \<le> ord c"
  shows "escape_char c = [c]"
proof -
  have neq: "c \<noteq> d" if "ord d < 128" for d using assms that by auto
  have "ord (CHR 0x22) < 128" "ord (CHR 0x5C) < 128" "ord (CHR 0x08) < 128" "ord (CHR 0x0C) < 128"
    "ord (CHR 0x0A) < 128" "ord (CHR 0x0D) < 128" "ord (CHR 0x09) < 128" by (simp_all add: ord_def)
  from this [THEN neq] assms show ?thesis by (simp add: escape_char_def)
qed

lemma hex_digit_ascii: "0 \<le> d \<Longrightarrow> d < 16 \<Longrightarrow> ord (hex_digit d) < 128"
  by (auto simp: hex_digit_def ord_def of_char_of)

lemma escape_char_ascii:
  assumes "ord c < 128"
  shows "list_all (\<lambda>c. ord c < 128) (escape_char c)"
proof -
  have "ord (hex_digit (ord c div 16)) < 128" "ord (hex_digit (ord c mod 16)) < 128"
    using ord_range [of c] assms by (intro hex_digit_ascii; simp)+
  moreover have "ord (CHR 0x5C) = 92" "ord (CHR ''u'') = 117" "ord (CHR ''0'') = 48" by (simp_all add: ord_def)
  ultimately show ?thesis using assms by (simp add: escape_char_def) (simp add: ord_def)
qed

lemma escape_all_high: "list_all (\<lambda>c. 128 \<le> ord c) s \<Longrightarrow> concat (map escape_char s) = s"
  by (induction s) (auto simp: escape_char_high)

lemma valid_utf8_escaped: "valid_utf8 s \<Longrightarrow> valid_utf8 (concat (map escape_char s))"
proof (induction s rule: valid_utf8_induct)
  case (char c r)
  show ?case
  proof (cases "length c = 1 \<and> ord (hd c) < 128")
    case True
    then obtain a where "c = [a]" and "ord a < 128" by (cases c) auto
    then show ?thesis using char valid_utf8_append [OF valid_utf8_ascii [OF escape_char_ascii]] by simp
  next
    case False
    then show ?thesis using char escape_all_high [of c] valid_utf8_char by auto
  qed
qed simp

lemma valid_utf8_dumps_str: "valid_utf8 s \<Longrightarrow> valid_utf8 (dumps_str s)"
  using valid_utf8_append [OF valid_utf8_escaped [of s], of "[CHR 0x22]"] by (simp add: dumps_str_def ord_def)

primrec utf8_json :: "json \<Rightarrow> bool" where
  "utf8_json JNull = True"
| "utf8_json (JBool b) = True"
| "utf8_json (JInt n) = True"
| "utf8_json (JFloat f) = valid_utf8 (float_repr f)"
| "utf8_json (JStr s) = valid_utf8 s"
| "utf8_json (JArr xs) = list_all id (map utf8_json xs)"
| "utf8_json (JObj d) = (list_all valid_utf8 (map fst d) \<and> list_all snd (map (map_prod id utf8_json) d))"

lemma utf8_scores: "utf8_json float_one" "utf8_json float_zero"
  by code_simp+

lemma valid_utf8_int: "valid_utf8 (int_str n)"
proof -
  have "is_digit c \<Longrightarrow> ord c < 128" for c by (simp add: is_digit_def)
  then have "list_all (\<lambda>c. ord c < 128) (digits_str \<bar>n\<bar>)"
    using digits_str_digits [of "\<bar>n\<bar>"] by (auto simp: list_all_iff)
  then have "valid_utf8 (digits_str \<bar>n\<bar>)" by (rule valid_utf8_ascii)
  then show ?thesis by (auto simp: int_str_def abs_if ord_def split: if_splits)
qed

lemma valid_utf8_join: "valid_utf8 sep \<Longrightarrow> list_all valid_utf8 xs \<Longrightarrow> valid_utf8 (join sep xs)"
  by (induction sep xs rule: join.induct) (auto simp: valid_utf8_append)

lemma is_ws_ascii: "is_ws c \<Longrightarrow> ord c < 128"
  by (auto simp: is_ws_def ord_def)

context json_layout
begin

lemma valid_utf8_ws: "list_all is_ws w \<Longrightarrow> valid_utf8 w"
  using is_ws_ascii by (intro valid_utf8_ascii) (auto simp: list_all_iff)

lemma valid_utf8_text: "utf8_json v \<Longrightarrow> valid_utf8 (render nl colon v l)"
proof (induction v arbitrary: l)
  case (JArr xs)
  have "valid_utf8 (join ('','' @ nl (Suc l)) (map (\<lambda>f. f (Suc l)) (map (render nl colon) xs)))"
    using JArr by (intro valid_utf8_join) (auto simp: list_all_iff ord_def valid_utf8_ws [OF nl_ws])
  then show ?case using valid_utf8_ws [OF nl_ws] by (auto simp: ord_def valid_utf8_append)
next
  case (JObj d)
  obtain w where colon: "colon = CHR '':'' # w" and w: "list_all is_ws w" using colon_ws by blast
  have "valid_utf8 (dumps_str (fst x) @ colon @ render nl colon (snd x) (Suc l))" if "x \<in> set d" for x
    using JObj.IH [of x "snd x" "Suc l"] JObj.prems that colon valid_utf8_ws [OF w]
    by (cases x) (auto simp: list_all_iff ord_def intro!: valid_utf8_append valid_utf8_dumps_str)
  then have "valid_utf8 (join ('','' @ nl (Suc l))
      (map (\<lambda>(k, f). dumps_str k @ colon @ f (Suc l)) (sort_key fst (map (map_prod id (render nl colon)) d))))"
    by (intro valid_utf8_join) (auto simp: list_all_iff ord_def valid_utf8_ws [OF nl_ws] sort_key_map_prod)
  then show ?case using valid_utf8_ws [OF nl_ws] by (auto simp: ord_def valid_utf8_append)
qed (auto simp: valid_utf8_int valid_utf8_dumps_str ord_def)

end

lemma loads_bytes_dumps: "wf_json v \<Longrightarrow> utf8_json v \<Longrightarrow> loads_bytes (dumps v) = Inr (sort_keys v)"
  using compact.valid_utf8_text [of v 0] by (simp add: loads_bytes_def loads_dumps dumps_render [of v 0, symmetric])

lemma loads_bytes_line: "wf_json v \<Longrightarrow> utf8_json v \<Longrightarrow> loads_bytes (dumps v @ [CHR 0x0A]) = Inr (sort_keys v)"
  using compact.valid_utf8_text [of v 0]
  by (simp add: loads_bytes_def loads_dumps_line dumps_render [of v 0, symmetric] valid_utf8_append ord_def)

lemma loads_bytes_indent: "wf_json v \<Longrightarrow> utf8_json v \<Longrightarrow> loads_bytes (dumps_indent v 0 @ [CHR 0x0A]) = Inr (sort_keys v)"
  using indented.valid_utf8_text [of v 0]
  by (simp add: loads_bytes_def loads_dumps_indent dumps_indent_render [symmetric] valid_utf8_append ord_def)

lemma plain_loads_line: "wf_json v \<Longrightarrow> utf8_json v \<Longrightarrow> plain_loads_bytes (dumps v @ [CHR 0x0A]) = Inr (sort_keys v)"
  using compact.valid_utf8_text [of v 0] loads_text [OF compact.json_layout_axioms, of v "[CHR 0x0A]" False]
  by (simp add: plain_loads_bytes_def dumps_render [of v 0, symmetric] valid_utf8_append ord_def is_ws_def)

end
