(* ===== verification/Py_Http.thy ===== *)
theory Py_Http
  imports Json_Read
begin

text \<open>
  The parts of Python's \<open>http\<close> and \<open>urllib\<close> the services use (Python 3.12): header lookup, the media
  type of a message, \<open>urlsplit\<close>, \<open>parse_qs\<close> and \<open>urlencode\<close>, and the exchange between a client and a
  handler.

  Header values are latin-1, so their decimals are ASCII, and no character beyond ASCII
  has a lower case inside the media types compared here. A host name is lowered on its ASCII
  letters only. The checks \<open>urlsplit\<close> makes of a network location (a bracketed host is an IP
  literal, normalisation brings in no delimiter) need the \<open>ipaddress\<close> module and the Unicode
  tables; they are the parameter \<open>netloc_error\<close>, the message of the \<open>ValueError\<close> if there is one.
\<close>

section \<open>Strings\<close>

definition lower_char :: "char \<Rightarrow> char" where
  "lower_char c = (if is_upper c then char_of (ord c + 32) else c)"

definition ascii_lower :: "string \<Rightarrow> string" where
  "ascii_lower s = map lower_char s"

definition is_ascii :: "string \<Rightarrow> bool" where
  "is_ascii s \<longleftrightarrow> list_all (\<lambda>c. ord c < 128) s"

text \<open>\<open>s.partition(c)\<close>: the part before the first \<open>c\<close>, and the part after it if there is one.\<close>

definition partition_at :: "char \<Rightarrow> string \<Rightarrow> string \<times> string option" where
  "partition_at c s =
     (takeWhile (\<lambda>x. x \<noteq> c) s, case dropWhile (\<lambda>x. x \<noteq> c) s of [] \<Rightarrow> None | d # r \<Rightarrow> Some r)"

text \<open>\<open>s.rpartition(c)\<close>: the part before the last \<open>c\<close>, if there is one, and the part after it.\<close>

definition rpartition_at :: "char \<Rightarrow> string \<Rightarrow> string option \<times> string" where
  "rpartition_at c s =
     (let (after, before) = partition_at c (rev s) in (map_option rev before, rev after))"

fun split_on :: "char \<Rightarrow> string \<Rightarrow> string list" where
  "split_on c [] = [[]]"
| "split_on c (x # s) =
     (if x = c then [] # split_on c s
      else case split_on c s of [] \<Rightarrow> [[x]] | w # ws \<Rightarrow> (x # w) # ws)"

definition rstrip_char :: "char \<Rightarrow> string \<Rightarrow> string" where
  "rstrip_char c s = rev (dropWhile (\<lambda>x. x = c) (rev s))"

definition text_or_empty :: "string option \<Rightarrow> string" where
  "text_or_empty r = (case r of None \<Rightarrow> [] | Some t \<Rightarrow> t)"

text \<open>\<open>int(s)\<close> of a decimal string; the interpreter refuses more than 4300 digits.\<close>

definition int_of_text :: "string \<Rightarrow> string + int" where
  "int_of_text s =
     (if 4300 < length s
      then Inl (''Exceeds the limit (4300 digits) for integer string conversion: value has ''
             @ int_str (int (length s)) @ '' digits; use sys.set_int_max_str_digits() to increase the limit'')
      else Inr (int_of_decimal s))"

section \<open>Messages\<close>

type_synonym headers = "(string \<times> string) list"

definition header_get :: "headers \<Rightarrow> string \<Rightarrow> string option" where
  "header_get hs name = map_option snd (find (\<lambda>p. ascii_lower (fst p) = ascii_lower name) hs)"

definition get_content_type :: "headers \<Rightarrow> string" where
  "get_content_type hs =
     (case header_get hs ''Content-Type'' of
        None \<Rightarrow> ''text/plain''
      | Some v \<Rightarrow>
          (let ctype = ascii_lower (strip (fst (partition_at CHR '';'' v)))
           in if length (filter (\<lambda>c. c = CHR ''/'') ctype) = 1 then ctype else ''text/plain''))"

text \<open>What a handler sees of a request: the target, the headers and the bytes it can read.\<close>

record http_request =
  rq_path :: string
  rq_headers :: headers
  rq_body :: bytes

record http_response =
  rs_status :: int
  rs_headers :: headers
  rs_body :: bytes

text \<open>\<open>hmac.compare_digest\<close> of two strings raises a \<open>TypeError\<close> unless both are ASCII.\<close>

definition compare_digest :: "string \<Rightarrow> string \<Rightarrow> bool option" where
  "compare_digest a b = (if is_ascii a \<and> is_ascii b then Some (a = b) else None)"

text \<open>
  A request a client sends, and what the opener of \<open>urllib\<close> and the reading of the response make of it:
  a response of the class 2xx, an \<open>HTTPError\<close>, a redirect handed to \<open>redirect_request\<close>, another \<open>URLError\<close>, an
  \<open>OSError\<close> while the body is read, or any other exception of the library (a malformed reply, a header it
  refuses to send).
\<close>

record out_request =
  out_method :: string
  out_url :: string
  out_headers :: headers
  out_data :: "bytes option"

datatype http_outcome =
    Answered headers bytes
  | StatusError int
  | Redirected int
  | Unreachable
  | TransferFails
  | LibraryRaises

text \<open>
  A request sent to the service at \<open>base\<close>, as its handler sees it (\<open>urllib\<close> adds the length of the
  data), and the response as the client sees it.
\<close>

definition served :: "string \<Rightarrow> out_request \<Rightarrow> http_request" where
  "served base rq =
     \<lparr>rq_path = drop (length base) (out_url rq),
      rq_headers = out_headers rq
        @ (case out_data rq of None \<Rightarrow> [] | Some d \<Rightarrow> [(''Content-Length'', int_str (int (length d)))]),
      rq_body = (case out_data rq of None \<Rightarrow> [] | Some d \<Rightarrow> d)\<rparr>"

definition received :: "http_response \<Rightarrow> http_outcome" where
  "received rs = (if 200 \<le> rs_status rs \<and> rs_status rs < 300 then Answered (rs_headers rs) (rs_body rs) else StatusError (rs_status rs))"

lemma header_get_Nil: "header_get [] n = None"
  by (simp add: header_get_def)

lemma header_get_Cons: "header_get ((k, v) # hs) n = (if ascii_lower k = ascii_lower n then Some v else header_get hs n)"
  by (simp add: header_get_def)

lemma header_names:
  "ascii_lower ''Accept'' = ''accept''" "ascii_lower ''Authorization'' = ''authorization''"
  "ascii_lower ''Content-Type'' = ''content-type''" "ascii_lower ''Content-Length'' = ''content-length''"
  "ascii_lower ''Cache-Control'' = ''cache-control''"
  by code_simp+

lemmas header_simps = header_get_Nil header_get_Cons header_names

lemma digits_str_length: "0 \<le> n \<Longrightarrow> n < 10 ^ Suc k \<Longrightarrow> length (digits_str n) \<le> Suc k"
proof (induction k arbitrary: n)
  case 0
  then show ?case by (simp add: digits_str.simps [of n])
next
  case (Suc k)
  then have "n div 10 < 10 ^ Suc k" "0 \<le> n div 10" by auto
  with Suc.IH [of "n div 10"] show ?case by (simp add: digits_str.simps [of n])
qed

text \<open>A count that fits a 64-bit word is written and read back.\<close>

lemma decimal_count:
  assumes "0 \<le> n" "n < 2 ^ 63"
  shows "is_decimal (int_str n)" and "int_of_text (int_str n) = Inr n"
proof -
  have "n < 10 ^ Suc 19" using assms by simp
  then have "length (digits_str n) \<le> Suc 19" using assms by (intro digits_str_length)
  then show "int_of_text (int_str n) = Inr n"
    using assms by (simp add: int_of_text_def int_str_def int_of_decimal_digits_str)
  show "is_decimal (int_str n)" using assms by (simp add: is_decimal_def int_str_def digits_str_digits)
qed

section \<open>\<open>urlsplit\<close>\<close>

record url_parts =
  u_scheme :: string
  u_netloc :: string
  u_path :: string
  u_query :: string
  u_fragment :: string

definition scheme_char :: "char \<Rightarrow> bool" where
  "scheme_char c \<longleftrightarrow> is_alnum c \<or> c \<in> {CHR ''+'', CHR ''-'', CHR ''.''}"

definition split_scheme :: "string \<Rightarrow> string \<times> string" where
  "split_scheme url =
     (case partition_at CHR '':'' url of
        (pre, Some rest) \<Rightarrow>
          if pre \<noteq> [] \<and> (is_upper (hd pre) \<or> is_lower (hd pre)) \<and> list_all scheme_char pre
          then (ascii_lower pre, rest) else ([], url)
      | (pre, None) \<Rightarrow> ([], url))"

definition netloc_end :: "char \<Rightarrow> bool" where
  "netloc_end c \<longleftrightarrow> c \<in> {CHR ''/'', CHR ''?'', CHR ''#''}"

definition split_netloc :: "string \<Rightarrow> string \<times> string" where
  "split_netloc url =
     (if take 2 url = ''//''
      then (takeWhile (\<lambda>c. \<not> netloc_end c) (drop 2 url), dropWhile (\<lambda>c. \<not> netloc_end c) (drop 2 url))
      else ([], url))"

definition urlsplit :: "(string \<Rightarrow> string option) \<Rightarrow> string \<Rightarrow> string + url_parts" where
  "urlsplit netloc_error raw =
     (let url = filter (\<lambda>c. c \<notin> {CHR 0x09, CHR 0x0A, CHR 0x0D}) (dropWhile (\<lambda>c. ord c \<le> 32) raw);
          (scheme, url1) = split_scheme url;
          (netloc, url2) = split_netloc url1
      in if (CHR ''['' \<in> set netloc) \<noteq> (CHR '']'' \<in> set netloc) then Inl ''Invalid IPv6 URL''
         else (case netloc_error netloc of
                 Some msg \<Rightarrow> Inl msg
               | None \<Rightarrow>
                   (let (url3, fragment) = partition_at CHR ''#'' url2;
                        (path, query) = partition_at CHR ''?'' url3
                    in Inr \<lparr>u_scheme = scheme, u_netloc = netloc, u_path = path, u_query = text_or_empty query,
                            u_fragment = text_or_empty fragment\<rparr>)))"

definition url_hostname :: "url_parts \<Rightarrow> string option" where
  "url_hostname u =
     (let hostinfo = snd (rpartition_at CHR ''@'' (u_netloc u));
          host = (case snd (partition_at CHR ''['' hostinfo) of
                    Some bracketed \<Rightarrow> fst (partition_at CHR '']'' bracketed)
                  | None \<Rightarrow> fst (partition_at CHR '':'' hostinfo));
          zone = partition_at CHR 0x25 host
      in if host = [] then None
         else Some (ascii_lower (fst zone) @ (case snd zone of None \<Rightarrow> [] | Some z \<Rightarrow> CHR 0x25 # z)))"

definition url_username :: "url_parts \<Rightarrow> string option" where
  "url_username u = map_option (\<lambda>info. fst (partition_at CHR '':'' info)) (fst (rpartition_at CHR ''@'' (u_netloc u)))"

definition url_password :: "url_parts \<Rightarrow> string option" where
  "url_password u =
     (case fst (rpartition_at CHR ''@'' (u_netloc u)) of None \<Rightarrow> None | Some info \<Rightarrow> snd (partition_at CHR '':'' info))"

section \<open>Query strings\<close>

text \<open>The bytes at the front of an ill-formed text that one replacement character stands for.\<close>

definition bad_len :: "bytes \<Rightarrow> nat" where
  "bad_len s =
     (case s of
        a # b # r \<Rightarrow>
          (let second = (if 224 \<le> ord a \<and> ord a \<le> 239
                         then cont_byte b \<and> (ord a = 224 \<longrightarrow> 160 \<le> ord b) \<and> (ord a = 237 \<longrightarrow> ord b \<le> 159)
                         else 240 \<le> ord a \<and> ord a \<le> 244 \<and> cont_byte b
                              \<and> (ord a = 240 \<longrightarrow> 144 \<le> ord b) \<and> (ord a = 244 \<longrightarrow> ord b \<le> 143))
           in if \<not> second then 1
              else if 240 \<le> ord a \<and> r \<noteq> [] \<and> cont_byte (hd r) then 3 else 2)
      | _ \<Rightarrow> 1)"

lemma bad_len_pos: "0 < bad_len s"
  by (auto simp: bad_len_def Let_def split: list.splits)

text \<open>\<open>raw.decode("utf-8", "replace")\<close>.\<close>

function decode_replace :: "bytes \<Rightarrow> string" where
  "decode_replace s =
     (if s = [] then []
      else if utf8_len s \<noteq> 0 then take (utf8_len s) s @ decode_replace (drop (utf8_len s) s)
      else [CHR 0xEF, CHR 0xBF, CHR 0xBD] @ decode_replace (drop (bad_len s) s))"
  by pat_completeness auto
termination
  by (relation "measure length") (auto simp: bad_len_pos)

declare decode_replace.simps [simp del]

fun unquote_to_bytes :: "string \<Rightarrow> bytes" where
  "unquote_to_bytes (p # a # b # r) =
     (if p = CHR 0x25
      then (case (hex_value a, hex_value b) of
              (Some x, Some y) \<Rightarrow> char_of (16 * x + y) # unquote_to_bytes r
            | _ \<Rightarrow> p # unquote_to_bytes (a # b # r))
      else p # unquote_to_bytes (a # b # r))"
| "unquote_to_bytes s = s"

text \<open>\<open>unquote\<close>: each maximal run of ASCII characters is unquoted and decoded by itself.\<close>

function unquote :: "string \<Rightarrow> string" where
  "unquote s =
     (case s of
        [] \<Rightarrow> []
      | c # r \<Rightarrow>
          if ord c < 128
          then decode_replace (unquote_to_bytes (takeWhile (\<lambda>c. ord c < 128) s)) @ unquote (dropWhile (\<lambda>c. ord c < 128) s)
          else c # unquote r)"
  by pat_completeness auto
termination
  by (relation "measure length") (auto simp: length_dropWhile_le less_Suc_eq_le)

declare unquote.simps [simp del]

definition unquote_plus :: "string \<Rightarrow> string" where
  "unquote_plus s = unquote (map (\<lambda>c. if c = CHR ''+'' then CHR 0x20 else c) s)"

fun parse_qsl :: "string list \<Rightarrow> string + (string \<times> string) list" where
  "parse_qsl [] = Inr []"
| "parse_qsl (field # others) =
     (case partition_at CHR ''='' field of
        (name, None) \<Rightarrow> Inl (''bad query field: '' @ py_repr field)
      | (name, Some v) \<Rightarrow> bind_res (parse_qsl others) (\<lambda>rest. Inr ((unquote_plus name, unquote_plus v) # rest)))"

fun group_fields :: "(string \<times> string list) list \<Rightarrow> (string \<times> string) list \<Rightarrow> (string \<times> string list) list" where
  "group_fields found [] = found"
| "group_fields found ((name, v) # rest) =
     group_fields (dict_set found name ((case map_of found name of None \<Rightarrow> [] | Some vs \<Rightarrow> vs) @ [v])) rest"

text \<open>\<open>parse_qs(query, keep_blank_values=True, strict_parsing=True)\<close>.\<close>

definition parse_qs :: "string \<Rightarrow> string + (string \<times> string list) list" where
  "parse_qs qs =
     (if qs = [] then Inr [] else bind_res (parse_qsl (split_on CHR ''&'' qs)) (\<lambda>pairs. Inr (group_fields [] pairs)))"

definition always_safe :: "char \<Rightarrow> bool" where
  "always_safe c \<longleftrightarrow> is_alnum c \<or> c \<in> {CHR ''_'', CHR ''.'', CHR ''-'', CHR 0x7E}"

definition hex_upper :: "int \<Rightarrow> char" where
  "hex_upper d = char_of (if d < 10 then 48 + d else 55 + d)"

definition quote_char :: "char \<Rightarrow> string" where
  "quote_char c =
     (if always_safe c then [c] else if c = CHR 0x20 then ''+''
      else [CHR 0x25, hex_upper (ord c div 16), hex_upper (ord c mod 16)])"

definition quote_plus :: "string \<Rightarrow> string" where
  "quote_plus s = concat (map quote_char s)"

definition urlencode :: "(string \<times> string) list \<Rightarrow> string" where
  "urlencode q = join ''&'' (map (\<lambda>(k, v). quote_plus k @ ''='' @ quote_plus v) q)"

section \<open>A query is read back as it was written\<close>

lemma hex_value_upper: "0 \<le> d \<Longrightarrow> d < 16 \<Longrightarrow> hex_value (hex_upper d) = Some d"
  by (auto simp: hex_value_def hex_upper_def is_digit_def ord_def of_char_of)

definition query_char :: "char \<Rightarrow> bool" where
  "query_char c \<longleftrightarrow> always_safe c \<or> c = CHR ''+'' \<or> c = CHR 0x25"

lemma hex_upper_safe: "0 \<le> d \<Longrightarrow> d < 16 \<Longrightarrow> always_safe (hex_upper d)"
  by (auto simp: always_safe_def hex_upper_def char_class_defs of_char_of)

lemma ord_nibbles: "0 \<le> ord c div 16 \<and> ord c div 16 < 16 \<and> 0 \<le> ord c mod 16 \<and> ord c mod 16 < 16"
  using ord_range [of c] by presburger

lemma quote_char_query: "x \<in> set (quote_char c) \<Longrightarrow> query_char x"
  using hex_upper_safe ord_nibbles [of c] by (auto simp: quote_char_def query_char_def split: if_splits)

lemma quote_plus_query: "x \<in> set (quote_plus s) \<Longrightarrow> query_char x"
  using quote_char_query by (auto simp: quote_plus_def)

lemma safe_plain: "always_safe c \<Longrightarrow> c \<noteq> CHR ''+'' \<and> c \<noteq> CHR 0x25 \<and> c \<noteq> CHR ''='' \<and> c \<noteq> CHR ''&'' \<and> c \<noteq> CHR ''#''
    \<and> c \<noteq> CHR ''?'' \<and> c \<noteq> CHR '':'' \<and> c \<noteq> CHR ''/'' \<and> 32 < ord c \<and> ord c < 128"
  by (auto simp: always_safe_def char_class_defs)

lemma query_char_plain: "query_char c \<Longrightarrow> c \<noteq> CHR ''='' \<and> c \<noteq> CHR ''&'' \<and> c \<noteq> CHR ''#'' \<and> c \<noteq> CHR ''?'' \<and> 32 < ord c \<and> ord c < 128"
  using safe_plain by (auto simp: query_char_def ord_def)

lemma unquote_plain: "c \<noteq> CHR 0x25 \<Longrightarrow> unquote_to_bytes (c # r) = c # unquote_to_bytes r"
  by (cases r; cases "tl r") auto

lemma unquote_quoted: "unquote_to_bytes (map (\<lambda>c. if c = CHR ''+'' then CHR 0x20 else c) (quote_char c) @ r) = c # unquote_to_bytes r"
proof -
  have d: "always_safe (hex_upper (ord c div 16))" "always_safe (hex_upper (ord c mod 16))"
    "hex_value (hex_upper (ord c div 16)) = Some (ord c div 16)" "hex_value (hex_upper (ord c mod 16)) = Some (ord c mod 16)"
    using ord_nibbles [of c] by (simp_all add: hex_upper_safe hex_value_upper)
  have "16 * (ord c div 16) + ord c mod 16 = ord c" by simp
  then have "char_of (16 * (ord c div 16) + ord c mod 16) = c" by (simp add: ord_def)
  then show ?thesis
    using d safe_plain [OF d(1)] safe_plain [OF d(2)] safe_plain [of c] unquote_plain [of c r] unquote_plain [of "CHR 0x20" r]
    by (auto simp: quote_char_def simp del: unquote_to_bytes.simps(2-))
qed

lemma unquote_quote_bytes: "unquote_to_bytes (map (\<lambda>c. if c = CHR ''+'' then CHR 0x20 else c) (quote_plus s)) = s"
  using unquote_quoted by (induction s) (simp_all add: quote_plus_def)

lemma decode_replace_valid: "valid_utf8 s \<Longrightarrow> decode_replace s = s"
proof (induction s rule: valid_utf8.induct)
  case (1 s)
  then show ?case
    by (cases "s = []"; cases "utf8_len s = 0") (auto simp: decode_replace.simps [of s] valid_utf8.simps [of s] decode_replace.simps [of "[]"])
qed

lemma unquote_plus_quote: "valid_utf8 s \<Longrightarrow> unquote_plus (quote_plus s) = s"
proof -
  assume v: "valid_utf8 s"
  let ?q = "map (\<lambda>c. if c = CHR ''+'' then CHR 0x20 else c) (quote_plus s)"
  have a: "list_all (\<lambda>c. ord c < 128) ?q"
    using quote_plus_query [of _ s] query_char_plain by (auto simp: list_all_iff ord_def)
  then have "takeWhile (\<lambda>c. ord c < 128) ?q = ?q" "dropWhile (\<lambda>c. ord c < 128) ?q = []"
    by (auto simp: list_all_iff)
  then have "unquote ?q = decode_replace (unquote_to_bytes ?q)"
  proof (cases ?q)
    case Nil
    then show ?thesis by (simp add: unquote.simps [of "[]"] decode_replace.simps)
  next
    case (Cons c r)
    with a have t: "takeWhile (\<lambda>c. ord c < 128) r = r" and d: "dropWhile (\<lambda>c. ord c < 128) r = []" by (auto simp: list_all_iff)
    have "ord c < 128" using a Cons by simp
    then show ?thesis unfolding Cons by (simp add: unquote.simps [of "c # r"] unquote.simps [of "[]"] t d)
  qed
  then show "unquote_plus (quote_plus s) = s"
    using v by (simp add: unquote_plus_def unquote_quote_bytes decode_replace_valid del: map_map)
qed

lemma partition_at_found: "c \<notin> set a \<Longrightarrow> partition_at c (a @ c # b) = (a, Some b)"
  by (induction a) (auto simp: partition_at_def)

lemma partition_at_absent: "c \<notin> set a \<Longrightarrow> partition_at c a = (a, None)"
  by (induction a) (auto simp: partition_at_def split: list.splits)

lemma split_on_plain: "c \<notin> set w \<Longrightarrow> split_on c w = [w]"
  by (induction w) auto

lemma split_on_append: "c \<notin> set w \<Longrightarrow> split_on c (w @ c # s) = w # split_on c s"
  by (induction w) auto

lemma split_on_join: "ws \<noteq> [] \<Longrightarrow> list_all (\<lambda>w. c \<notin> set w) ws \<Longrightarrow> split_on c (join [c] ws) = ws"
proof (induction "[c]" ws rule: join.induct)
  case (3 x y xs)
  then show ?case by (simp add: split_on_append)
qed (simp_all add: split_on_plain)

lemma parse_qsl_encoded:
  "list_all (\<lambda>(k, v). valid_utf8 k \<and> valid_utf8 v) q \<Longrightarrow>
   parse_qsl (map (\<lambda>(k, v). quote_plus k @ ''='' @ quote_plus v) q) = Inr q"
proof (induction q)
  case (Cons p q)
  obtain k v where p: "p = (k, v)" by fastforce
  have "CHR ''='' \<notin> set (quote_plus k)" using quote_plus_query query_char_plain by blast
  then show ?case using Cons p by (simp add: partition_at_found unquote_plus_quote)
qed simp

lemma group_fields_distinct:
  "distinct (map fst (found @ map (\<lambda>(k, v). (k, [v])) q)) \<Longrightarrow> group_fields found q = found @ map (\<lambda>(k, v). (k, [v])) q"
proof (induction found q rule: group_fields.induct)
  case (2 found name v rest)
  then have "name \<notin> fst ` set found" by auto
  then have "map_of found name = None" "dict_set found name [v] = found @ [(name, [v])]"
    by (auto simp: map_of_eq_None_iff) (induction found; auto)
  with 2 show ?case by simp
qed simp

lemma parse_qs_urlencode:
  assumes "q \<noteq> []" and "distinct (map fst q)" and "list_all (\<lambda>(k, v). valid_utf8 k \<and> valid_utf8 v) q"
  shows "parse_qs (urlencode q) = Inr (map (\<lambda>(k, v). (k, [v])) q)"
proof -
  let ?ws = "map (\<lambda>(k, v). quote_plus k @ ''='' @ quote_plus v) q"
  have "CHR ''&'' \<notin> set (quote_plus k @ ''='' @ quote_plus v)" for k v
    using quote_plus_query query_char_plain by fastforce
  then have "split_on CHR ''&'' (urlencode q) = ?ws"
    unfolding urlencode_def using assms(1) by (intro split_on_join) (auto simp: list_all_iff)
  moreover have "urlencode q \<noteq> []"
    using assms(1) by (cases q; cases "tl q") (auto simp: urlencode_def)
  moreover have "distinct (map fst (map (\<lambda>(k, v). (k, [v])) q))" using assms(2) by (simp add: comp_def split_def)
  ultimately show ?thesis
    using parse_qsl_encoded [OF assms(3)] group_fields_distinct [of "[]" q] by (simp add: parse_qs_def)
qed

lemma urlencode_chars: "x \<in> set (urlencode q) \<Longrightarrow> query_char x \<or> x = CHR ''='' \<or> x = CHR ''&''"
proof -
  have join: "x \<in> set (join ''&'' ws) \<Longrightarrow> x = CHR ''&'' \<or> (\<exists>w \<in> set ws. x \<in> set w)" for ws
    by (induction "''&''" ws rule: join.induct) auto
  assume "x \<in> set (urlencode q)"
  with join show ?thesis unfolding urlencode_def using quote_plus_query by fastforce
qed

text \<open>A target \<open>path?query\<close> of the clients is split into its path and its query.\<close>

definition path_char :: "char \<Rightarrow> bool" where
  "path_char c \<longleftrightarrow> is_alnum c \<or> c \<in> {CHR ''_'', CHR ''.'', CHR ''-'', CHR ''/''}"

lemma path_char_plain: "path_char c \<Longrightarrow> c \<noteq> CHR ''#'' \<and> c \<noteq> CHR ''?'' \<and> c \<noteq> CHR '':'' \<and> 32 < ord c"
  by (auto simp: path_char_def char_class_defs)

lemma urlsplit_target:
  assumes "list_all path_char path" and "hd path = CHR ''/''" and "path \<noteq> []" and "take 2 path \<noteq> ''//''"
    and "netloc_error [] = None" and "q = [] \<or> (\<exists>fs. q = CHR ''?'' # urlencode fs)"
  shows "\<exists>u. urlsplit netloc_error (path @ q) = Inr u \<and> u_path u = path \<and> u_query u = tl q"
proof -
  have plain: "x \<noteq> CHR ''#'' \<and> 32 < ord x" if "x \<in> set (path @ q)" for x
    using that assms(1,6) path_char_plain query_char_plain urlencode_chars by (fastforce simp: list_all_iff ord_def)
  have "dropWhile (\<lambda>c. ord c \<le> 32) (path @ q) = path @ q" using plain [of "hd path"] assms(3) by (cases path) auto
  moreover have "filter (\<lambda>c. c \<notin> {CHR 0x09, CHR 0x0A, CHR 0x0D}) (path @ q) = path @ q"
    using plain by (intro filter_True) (fastforce simp: ord_def)
  moreover have "split_scheme (path @ q) = ([], path @ q)"
  proof -
    have "hd (fst (partition_at CHR '':'' (path @ q))) = CHR ''/''" using assms(2,3) by (cases path) (auto simp: partition_at_def)
    then show ?thesis by (auto simp: split_scheme_def char_class_defs split: prod.splits option.splits)
  qed
  moreover have "take 2 (path @ q) \<noteq> ''//''"
    using assms(2-4,6) by (cases path; cases "tl path") auto
  moreover have "partition_at CHR ''#'' (path @ q) = (path @ q, None)" using plain by (intro partition_at_absent) blast
  moreover have "CHR ''?'' \<notin> set path" using assms(1) path_char_plain by (auto simp: list_all_iff)
  then have "partition_at CHR ''?'' (path @ q) = (path, if q = [] then None else Some (tl q))"
    using assms(6) by (auto simp: partition_at_found partition_at_absent)
  ultimately show ?thesis
    using assms(5) by (simp add: urlsplit_def split_netloc_def text_or_empty_def Let_def)
qed

end
