(* ===== verification/Cache_Http.thy ===== *)
theory Cache_Http
  imports Cache_Props Py_Http
begin

text \<open>
  The HTTP surface of the artifact cache (\<open>pathfinder/simulator/full_flow_cache.py\<close>): the request
  handler of the service and its client. A handler takes the volume and a request and returns the
  volume and the response; a client operation first builds a request, then judges what comes back,
  so that the network in between stays arbitrary.
\<close>

section \<open>The service\<close>

definition MAX_JSON_BYTES :: int where
  "MAX_JSON_BYTES = 1024 * 1024"

definition strict_json :: "bytes \<Rightarrow> string \<Rightarrow> cache_error + dict" where
  "strict_json raw name =
     require (int (length raw) \<le> MAX_JSON_BYTES) (FullFlowCacheError (name @ '' exceeds its byte limit'')) (
     (case plain_loads_bytes raw of
        Inl e \<Rightarrow> Inl (FullFlowCacheError (name @ '' is not valid JSON''))
      | Inr (JObj d) \<Rightarrow> Inr d
      | Inr v \<Rightarrow> Inl (FullFlowCacheError (name @ '' is not an object''))))"

record server_settings =
  set_host :: string
  set_port :: int
  set_token :: string
  set_max_artifact_bytes :: int

definition FullFlowCacheServerSettings :: "json \<Rightarrow> json \<Rightarrow> json \<Rightarrow> json \<Rightarrow> cache_error + server_settings" where
  "FullFlowCacheServerSettings host port token max_artifact_bytes =
     (case host of
        JStr h \<Rightarrow>
          require (h \<noteq> []) (FullFlowCacheError ''host is invalid'') (
          (case port of
             JInt p \<Rightarrow>
               require (0 \<le> p \<and> p \<le> 65535) (FullFlowCacheError ''port is invalid'') (
               (case token of
                  JStr t \<Rightarrow>
                    require (16 \<le> length t) (FullFlowCacheError ''cache bearer token must contain at least 16 bytes'') (
                    bind_res (cache_positive_integer max_artifact_bytes ''max_artifact_bytes'') (\<lambda>m.
                    Inr \<lparr>set_host = h, set_port = p, set_token = t, set_max_artifact_bytes = m\<rparr>))
                | _ \<Rightarrow> Inl (FullFlowCacheError ''cache bearer token must contain at least 16 bytes'')))
           | _ \<Rightarrow> Inl (FullFlowCacheError ''port is invalid'')))
      | _ \<Rightarrow> Inl (FullFlowCacheError ''host is invalid''))"

text \<open>\<open>_authorized\<close>: \<open>None\<close> for the \<open>TypeError\<close> of \<open>compare_digest\<close>.\<close>

definition cache_authorized :: "server_settings \<Rightarrow> http_request \<Rightarrow> bool option" where
  "cache_authorized settings rq =
     (case header_get (rq_headers rq) ''Authorization'' of
        None \<Rightarrow> Some False
      | Some supplied \<Rightarrow> compare_digest supplied (''Bearer '' @ set_token settings))"

definition cache_json_response :: "int \<Rightarrow> dict \<Rightarrow> http_response" where
  "cache_json_response status v =
     (let payload = canonical_bytes (JObj v)
      in \<lparr>rs_status = status,
          rs_headers = [(''Content-Type'', ''application/json''), (''Content-Length'', int_str (int (length payload))),
                        (''Cache-Control'', ''no-store'')],
          rs_body = payload\<rparr>)"

definition cache_error_response :: "int \<Rightarrow> string \<Rightarrow> http_response" where
  "cache_error_response status message =
     cache_json_response status
       [(''schema_version'', JStr FULL_FLOW_CACHE_RESULT_SCHEMA_VERSION), (''status'', JStr ''ERROR''),
        (''message'', JStr message), (''credentials_recorded'', JBool False)]"

definition internal_error_response :: http_response where
  "internal_error_response = cache_error_response 500 ''cache service internal error''"

text \<open>The \<open>except\<close> clauses of the handlers.\<close>

fun cache_failure_response :: "cache_error \<Rightarrow> http_response" where
  "cache_failure_response (FullFlowCacheError m) = cache_error_response 400 m"
| "cache_failure_response (FullFlowCacheConflict m) = cache_error_response 400 m"
| "cache_failure_response CacheOSError = internal_error_response"

definition unauthorized_response :: http_response where
  "unauthorized_response = cache_error_response 401 ''missing or invalid cache bearer token''"

definition miss_response :: "cache_config \<Rightarrow> string \<Rightarrow> http_response" where
  "miss_response cfg ns =
     cache_json_response 404
       [(''schema_version'', JStr FULL_FLOW_CACHE_RESULT_SCHEMA_VERSION), (''status'', JStr ''MISS''),
        (''node_id'', JStr (cfg_node_id cfg)), (''cache_id'', JStr (cfg_cache_id cfg)),
        (''cache_namespace'', JStr ns), (''credentials_recorded'', JBool False)]"

definition artifact_response :: "cached_artifact \<Rightarrow> http_response" where
  "artifact_response a =
     \<lparr>rs_status = 200,
      rs_headers =
        [(''Content-Type'', ''application/octet-stream''), (''Content-Length'', int_str (a_size_bytes a)),
         (''Cache-Control'', ''no-store''), (''X-Pathfinder-Cache-Node'', a_node_id a),
         (''X-Pathfinder-Cache-Id'', a_cache_id a), (''X-Pathfinder-Cache-Key'', a_cache_key a),
         (''X-Pathfinder-Cache-Namespace'', a_cache_namespace a),
         (''X-Pathfinder-Content-SHA256'', a_content_sha256 a),
         (''X-Pathfinder-Cache-Event-Id'', int_str (a_event_id a))],
      rs_body = a_payload a\<rparr>"

definition ARTIFACT_QUERIES :: "string list list" where
  "ARTIFACT_QUERIES =
     [[''object_id'', ''representation_id''], [''object_id'', ''representation_id'', ''expected_sha256''],
      [''cache_namespace'', ''object_id'', ''representation_id''],
      [''cache_namespace'', ''object_id'', ''representation_id'', ''expected_sha256'']]"

definition query_value :: "(string \<times> string list) list \<Rightarrow> string \<Rightarrow> string option" where
  "query_value q name = map_option hd (map_of q name)"

definition opt_json :: "string option \<Rightarrow> json" where
  "opt_json v = (case v of None \<Rightarrow> JNull | Some s \<Rightarrow> JStr s)"

definition query_namespace :: "(string \<times> string list) list \<Rightarrow> string" where
  "query_namespace q = (case query_value q ''cache_namespace'' of None \<Rightarrow> LEGACY_CACHE_NAMESPACE | Some ns \<Rightarrow> ns)"

definition artifact_GET ::
  "(bytes \<Rightarrow> string) \<Rightarrow> cache_config \<Rightarrow> int \<Rightarrow> (string \<times> string list) list \<Rightarrow> cache \<Rightarrow> cache \<times> http_response" where
  "artifact_GET H cfg now query s =
     (if list_ex (\<lambda>names. fst ` set query = set names) ARTIFACT_QUERIES \<and> list_all (\<lambda>p. length (snd p) = 1) query
      then (case cache_lookup H cfg now (JStr (query_namespace query)) (opt_json (query_value query ''object_id''))
                   (opt_json (query_value query ''representation_id'')) (opt_json (query_value query ''expected_sha256'')) s of
              (s', Inl e) \<Rightarrow> (s', cache_failure_response e)
            | (s', Inr None) \<Rightarrow> (s', miss_response cfg (query_namespace query))
            | (s', Inr (Some a)) \<Rightarrow> (s', artifact_response a))
      else (s, cache_error_response 400 ''cache artifact query is invalid''))"

definition cache_do_GET ::
  "(bytes \<Rightarrow> string) \<Rightarrow> (string \<Rightarrow> string option) \<Rightarrow> cache_config \<Rightarrow> server_settings \<Rightarrow> int \<Rightarrow> http_request \<Rightarrow> cache
   \<Rightarrow> cache \<times> http_response" where
  "cache_do_GET H netloc_error cfg settings now rq s =
     (case urlsplit netloc_error (rq_path rq) of
        Inl msg \<Rightarrow> (s, cache_error_response 400 msg)
      | Inr u \<Rightarrow>
          if u_path u = ''/healthz'' \<and> u_query u = [] then (s, cache_json_response 200 (cache_health cfg s))
          else if u_path u \<noteq> ''/v1/cache/artifact'' then (s, cache_error_response 400 ''not found'')
          else (case cache_authorized settings rq of
                  None \<Rightarrow> (s, internal_error_response)
                | Some False \<Rightarrow> (s, unauthorized_response)
                | Some True \<Rightarrow>
                    (case parse_qs (u_query u) of
                       Inl msg \<Rightarrow> (s, cache_error_response 400 msg)
                     | Inr query \<Rightarrow> artifact_GET H cfg now query s)))"

definition artifact_PUT ::
  "(bytes \<Rightarrow> string) \<Rightarrow> cache_config \<Rightarrow> server_settings \<Rightarrow> cache_env \<Rightarrow> http_request \<Rightarrow> cache \<Rightarrow> cache \<times> http_response" where
  "artifact_PUT H cfg settings env rq s =
     (let hs = rq_headers rq; header = (\<lambda>name. opt_json (header_get hs name))
      in if get_content_type hs \<noteq> ''application/octet-stream''
         then (s, cache_error_response 400 ''cache artifact content type is invalid'')
         else (case header_get hs ''Content-Length'' of
                 None \<Rightarrow> (s, cache_error_response 400 ''cache artifact Content-Length is invalid'')
               | Some raw_length \<Rightarrow>
                   if \<not> is_decimal raw_length then (s, cache_error_response 400 ''cache artifact Content-Length is invalid'')
                   else (case int_of_text raw_length of
                           Inl msg \<Rightarrow> (s, cache_error_response 400 msg)
                         | Inr n \<Rightarrow>
                             if \<not> (0 < n \<and> n \<le> set_max_artifact_bytes settings)
                             then (s, cache_error_response 400 ''cache artifact length is outside the configured limit'')
                             else let payload = take (nat n) (rq_body rq)
                                  in if int (length payload) \<noteq> n
                                     then (s, cache_error_response 400 ''cache artifact body is truncated'')
                                     else (case cache_put H cfg env
                                                  (JStr (case header_get hs ''X-Pathfinder-Cache-Namespace'' of
                                                           None \<Rightarrow> LEGACY_CACHE_NAMESPACE | Some ns \<Rightarrow> ns))
                                                  (header ''X-Pathfinder-Request-Id'') (header ''X-Pathfinder-Object-Id'')
                                                  (header ''X-Pathfinder-Representation-Id'') payload
                                                  (header ''X-Pathfinder-Content-SHA256'') s of
                                             (s', Inl e) \<Rightarrow> (s', cache_failure_response e)
                                           | (s', Inr result) \<Rightarrow> (s', cache_json_response 200 result)))))"

definition cache_do_PUT ::
  "(bytes \<Rightarrow> string) \<Rightarrow> (string \<Rightarrow> string option) \<Rightarrow> cache_config \<Rightarrow> server_settings \<Rightarrow> cache_env \<Rightarrow> http_request \<Rightarrow> cache
   \<Rightarrow> cache \<times> http_response" where
  "cache_do_PUT H netloc_error cfg settings env rq s =
     (case urlsplit netloc_error (rq_path rq) of
        Inl msg \<Rightarrow> (s, cache_error_response 400 msg)
      | Inr u \<Rightarrow>
          if \<not> (u_path u = ''/v1/cache/artifact'' \<and> u_query u = []) then (s, cache_error_response 400 ''not found'')
          else (case cache_authorized settings rq of
                  None \<Rightarrow> (s, internal_error_response)
                | Some False \<Rightarrow> (s, unauthorized_response)
                | Some True \<Rightarrow> artifact_PUT H cfg settings env rq s))"

end
