(* ===== verification/Cache_Client.thy ===== *)
theory Cache_Client
  imports Cache_Http
begin

text \<open>
  The client of the cache services (\<open>HttpFullFlowArtifactCacheClient\<close> in
  \<open>pathfinder/simulator/full_flow_cache.py\<close>). The network is a parameter \<open>net\<close> of every operation, a
  function on its own state: nothing is assumed of it where the client is shown to be safe, and it is the
  handler of the service where the two are shown to work together.

  A timeout is a finite number; an integer too large for a float makes \<open>float\<close> raise.
\<close>

section \<open>The configuration\<close>

datatype client_error =
    CacheRaises cache_error
  | UrlValueError string
  | OtherException

abbreviation cache_raise :: "string \<Rightarrow> client_error" where
  "cache_raise m \<equiv> CacheRaises (FullFlowCacheError m)"

definition lift_cache :: "cache_error + 'a \<Rightarrow> client_error + 'a" where
  "lift_cache r = map_sum CacheRaises id r"

definition lift_value :: "string + 'a \<Rightarrow> client_error + 'a" where
  "lift_value r = map_sum UrlValueError id r"

definition startswith :: "string \<Rightarrow> string \<Rightarrow> bool" where
  "startswith s pre \<longleftrightarrow> take (length pre) s = pre"

definition cache_origin_ok :: "url_parts \<Rightarrow> bool" where
  "cache_origin_ok parsed \<longleftrightarrow>
     u_scheme parsed \<in> {''http'', ''https''} \<and> url_hostname parsed \<noteq> None \<and> url_username parsed = None
     \<and> url_password parsed = None \<and> u_path parsed \<in> {'''', ''/''} \<and> u_query parsed = [] \<and> u_fragment parsed = []"

definition validated_cache_origin ::
  "(string \<Rightarrow> string option) \<Rightarrow> json \<Rightarrow> json list \<Rightarrow> client_error + string" where
  "validated_cache_origin netloc_error base_url simulator_private_http_hosts =
     (case base_url of
        JStr base \<Rightarrow>
          bind_res (lift_value (urlsplit netloc_error base)) (\<lambda>parsed.
          require (cache_origin_ok parsed) (cache_raise ''cache base_url must be an HTTP(S) origin without credentials'') (
          bind_res (lift_cache (map_res (\<lambda>host. cache_identifier host ''simulator_private_http_host'') simulator_private_http_hosts))
            (\<lambda>private_hosts.
          require (distinct private_hosts) (cache_raise ''simulator private cache hosts contain duplicates'') (
          (let hostname = the (url_hostname parsed);
               loopback = hostname \<in> {''127.0.0.1'', ''localhost'', ''::1''};
               private = hostname \<in> set private_hosts
                 \<and> (startswith hostname ''pathfinder-sim-'' \<or> startswith hostname ''pathfinder-full-flow-'')
           in require (u_scheme parsed = ''https'' \<or> loopback \<or> private)
                (cache_raise ''non-local cache base_url must use HTTPS'') (
              Inr (rstrip_char CHR ''/'' base)))))))
      | _ \<Rightarrow> Inl (cache_raise ''cache base_url is invalid''))"

record cache_client =
  cl_base :: string
  cl_token :: string
  cl_node :: string
  cl_cache :: string
  cl_timeout :: rat
  cl_max_artifact :: int

text \<open>\<open>float(n)\<close> overflows when \<open>n\<close> would round to \<open>2^1024\<close>.\<close>

definition float_overflows :: "int \<Rightarrow> bool" where
  "float_overflows n \<longleftrightarrow> 2 ^ 1024 - 2 ^ 970 \<le> \<bar>n\<bar>"

definition client_timeout :: "json \<Rightarrow> client_error + rat" where
  "client_timeout v =
     (case v of
        JInt n \<Rightarrow> require (\<not> float_overflows n) OtherException (
                   require (0 < n) (cache_raise ''cache timeout_seconds must be positive'') (Inr (round_double (of_int n))))
      | JFloat f \<Rightarrow> require (0 < float_value f) (cache_raise ''cache timeout_seconds must be positive'') (Inr (float_value f))
      | _ \<Rightarrow> Inl (cache_raise ''cache timeout_seconds must be positive''))"

definition HttpFullFlowArtifactCacheClient ::
  "(string \<Rightarrow> string option) \<Rightarrow> json \<Rightarrow> json \<Rightarrow> string \<Rightarrow> json \<Rightarrow> json \<Rightarrow> json \<Rightarrow> json list \<Rightarrow> client_error + cache_client" where
  "HttpFullFlowArtifactCacheClient netloc_error base_url token expected_node_id expected_cache_id timeout_seconds
     max_artifact_bytes simulator_private_http_hosts =
     require (expected_node_id \<in> set ALLOWED_NODES) (cache_raise ''expected cache node must be N7 or N8'') (
     bind_res (validated_cache_origin netloc_error base_url simulator_private_http_hosts) (\<lambda>base.
     (case token of
        JStr t \<Rightarrow>
          require (16 \<le> length t) (cache_raise ''cache bearer token must contain at least 16 bytes'') (
          bind_res (lift_cache (cache_identifier expected_cache_id ''expected_cache_id'')) (\<lambda>cache_id.
          bind_res (client_timeout timeout_seconds) (\<lambda>timeout.
          bind_res (lift_cache (cache_positive_integer max_artifact_bytes ''max_artifact_bytes'')) (\<lambda>m.
          Inr \<lparr>cl_base = base, cl_token = t, cl_node = expected_node_id, cl_cache = cache_id, cl_timeout = timeout,
               cl_max_artifact = m\<rparr>))))
      | _ \<Rightarrow> Inl (cache_raise ''cache bearer token must contain at least 16 bytes''))))"

definition authorization :: "cache_client \<Rightarrow> string" where
  "authorization cl = ''Bearer '' @ cl_token cl"

section \<open>The operations\<close>

text \<open>
  The response of an exchange, with at most \<open>limit\<close> bytes of its body, or the exception: \<open>status\<close> is the
  clause for an \<open>HTTPError\<close>, \<open>message\<close> the text of the clause for the other errors of the transport.
\<close>

definition exchanged ::
  "int \<Rightarrow> (int \<Rightarrow> client_error + 'a) \<Rightarrow> string \<Rightarrow> (headers \<Rightarrow> bytes \<Rightarrow> client_error + 'a) \<Rightarrow> http_outcome \<Rightarrow> client_error + 'a" where
  "exchanged limit status message continue outcome =
     (case outcome of
        Answered hs body \<Rightarrow> continue hs (take (nat limit) body)
      | StatusError code \<Rightarrow> status code
      | Redirected code \<Rightarrow> Inl (cache_raise ''cache service redirect refused'')
      | Unreachable \<Rightarrow> Inl (cache_raise message)
      | TransferFails \<Rightarrow> Inl (cache_raise message)
      | LibraryRaises \<Rightarrow> Inl OtherException)"

definition health_request :: "cache_client \<Rightarrow> out_request" where
  "health_request cl =
     \<lparr>out_method = ''GET'', out_url = cl_base cl @ ''/healthz'', out_headers = [(''Accept'', ''application/json'')], out_data = None\<rparr>"

definition health_result :: "cache_client \<Rightarrow> http_outcome \<Rightarrow> client_error + dict" where
  "health_result cl outcome =
     exchanged (MAX_JSON_BYTES + 1) (\<lambda>code. Inl (cache_raise ''cache health request failed'')) ''cache health request failed''
       (\<lambda>hs raw.
          bind_res (lift_cache (strict_json raw ''cache health response'')) (\<lambda>v.
          require (dget v ''status'' = JStr ''ok'' \<and> dget v ''node_id'' = JStr (cl_node cl)
              \<and> dget v ''cache_id'' = JStr (cl_cache cl) \<and> dget v ''cache_namespace_isolation'' = JBool True
              \<and> dget v ''credentials_recorded'' = JBool False) (cache_raise ''cache health identity is invalid'') (
          Inr v))) outcome"

definition client_health ::
  "(out_request \<Rightarrow> 's \<Rightarrow> 's \<times> http_outcome) \<Rightarrow> cache_client \<Rightarrow> 's \<Rightarrow> 's \<times> (client_error + dict)" where
  "client_health net cl w = (let (w', outcome) = net (health_request cl) w in (w', health_result cl outcome))"

definition get_query :: "json \<Rightarrow> json \<Rightarrow> json \<Rightarrow> json \<Rightarrow> cache_error + (string \<times> string) list" where
  "get_query cache_namespace object_id representation_id expected_sha256 =
     bind_res (cache_identifier cache_namespace ''cache_namespace'') (\<lambda>ns.
     bind_res (cache_identifier object_id ''object_id'') (\<lambda>oid.
     bind_res (cache_identifier representation_id ''representation_id'') (\<lambda>rid.
     bind_res (if expected_sha256 = JNull then Inr []
               else bind_res (cache_digest expected_sha256 ''expected_sha256'') (\<lambda>d. Inr [(''expected_sha256'', d)])) (\<lambda>expected.
     Inr ([(''cache_namespace'', ns), (''object_id'', oid), (''representation_id'', rid)] @ expected)))))"

definition get_request :: "cache_client \<Rightarrow> (string \<times> string) list \<Rightarrow> out_request" where
  "get_request cl query =
     \<lparr>out_method = ''GET'', out_url = cl_base cl @ ''/v1/cache/artifact?'' @ urlencode query,
      out_headers = [(''Accept'', ''application/octet-stream''), (''Authorization'', authorization cl)], out_data = None\<rparr>"

definition decimal_header :: "string option \<Rightarrow> string option" where
  "decimal_header h = (case h of None \<Rightarrow> None | Some v \<Rightarrow> if is_decimal v then Some v else None)"

definition check_artifact ::
  "(bytes \<Rightarrow> string) \<Rightarrow> cache_client \<Rightarrow> json \<Rightarrow> json \<Rightarrow> json \<Rightarrow> json \<Rightarrow> headers \<Rightarrow> bytes \<Rightarrow> client_error + cached_artifact option" where
  "check_artifact H cl cache_namespace object_id representation_id expected_sha256 hs raw =
     (let header = (\<lambda>name. opt_json (header_get hs name))
      in require (int (length raw) \<le> cl_max_artifact cl) (cache_raise ''cache artifact is too large'') (
         bind_res (case decimal_header (header_get hs ''Content-Length'') of
             None \<Rightarrow> Inl (cache_raise ''cache response Content-Length is invalid'')
           | Some l \<Rightarrow> lift_value (int_of_text l)) (\<lambda>n.
         require (n = int (length raw)) (cache_raise ''cache response Content-Length is invalid'') (
         bind_res (lift_cache (cache_digest (header ''X-Pathfinder-Content-SHA256'') ''cache response content digest'')) (\<lambda>content.
         require (H raw = content) (cache_raise ''cache response digest changed'') (
         require (expected_sha256 = JNull \<or> expected_sha256 = JStr content)
           (cache_raise ''cache response differs from expected content'') (
         require (header ''X-Pathfinder-Cache-Node'' = JStr (cl_node cl) \<and> header ''X-Pathfinder-Cache-Id'' = JStr (cl_cache cl)
             \<and> header ''X-Pathfinder-Cache-Namespace'' = cache_namespace) (cache_raise ''cache response identity changed'') (
         (case decimal_header (header_get hs ''X-Pathfinder-Cache-Event-Id'') of
            None \<Rightarrow> Inl (cache_raise ''cache response event ID is invalid'')
          | Some raw_event_id \<Rightarrow>
              bind_res (lift_cache (cache_digest (header ''X-Pathfinder-Cache-Key'') ''cache response key'')) (\<lambda>key.
              bind_res (lift_value (int_of_text raw_event_id)) (\<lambda>event_id.
              bind_res (lift_cache (cache_identifier cache_namespace ''cache_namespace'')) (\<lambda>ns.
              bind_res (lift_cache (cache_identifier object_id ''object_id'')) (\<lambda>oid.
              bind_res (lift_cache (cache_identifier representation_id ''representation_id'')) (\<lambda>rid.
              Inr (Some \<lparr>a_cache_id = cl_cache cl, a_node_id = cl_node cl, a_cache_key = key, a_object_id = oid,
                         a_representation_id = rid, a_content_sha256 = content, a_size_bytes = int (length raw),
                         a_payload = raw, a_event_id = event_id, a_cache_namespace = ns\<rparr>)))))))))))))))"

definition get_result ::
  "(bytes \<Rightarrow> string) \<Rightarrow> cache_client \<Rightarrow> json \<Rightarrow> json \<Rightarrow> json \<Rightarrow> json \<Rightarrow> http_outcome \<Rightarrow> client_error + cached_artifact option" where
  "get_result H cl cache_namespace object_id representation_id expected_sha256 outcome =
     exchanged (cl_max_artifact cl + 1)
       (\<lambda>code. if code = 404 then Inr None
               else Inl (cache_raise (''cache artifact request returned HTTP '' @ int_str code)))
       ''cache artifact request failed''
       (check_artifact H cl cache_namespace object_id representation_id expected_sha256) outcome"

definition client_get ::
  "(out_request \<Rightarrow> 's \<Rightarrow> 's \<times> http_outcome) \<Rightarrow> (bytes \<Rightarrow> string) \<Rightarrow> cache_client \<Rightarrow> json \<Rightarrow> json \<Rightarrow> json \<Rightarrow> json \<Rightarrow> 's
   \<Rightarrow> 's \<times> (client_error + cached_artifact option)" where
  "client_get net H cl cache_namespace object_id representation_id expected_sha256 w =
     (case get_query cache_namespace object_id representation_id expected_sha256 of
        Inl e \<Rightarrow> (w, Inl (CacheRaises e))
      | Inr query \<Rightarrow>
          (let (w', outcome) = net (get_request cl query) w
           in (w', get_result H cl cache_namespace object_id representation_id expected_sha256 outcome)))"

definition put_request ::
  "(bytes \<Rightarrow> string) \<Rightarrow> cache_client \<Rightarrow> json \<Rightarrow> json \<Rightarrow> json \<Rightarrow> json \<Rightarrow> bytes \<Rightarrow> json \<Rightarrow> cache_error + out_request" where
  "put_request H cl cache_namespace request_id object_id representation_id payload expected_sha256 =
     require (0 < length payload \<and> int (length payload) \<le> cl_max_artifact cl)
       (FullFlowCacheError ''cache artifact is outside the configured byte limit'') (
     bind_res (if expected_sha256 = JNull then Inr ()
               else bind_res (cache_digest expected_sha256 ''expected_sha256'') (\<lambda>d.
                    require (H payload = d) (FullFlowCacheError ''cache artifact differs from expected content'') (Inr ()))) (\<lambda>_.
     bind_res (cache_identifier request_id ''request_id'') (\<lambda>rq.
     bind_res (cache_identifier cache_namespace ''cache_namespace'') (\<lambda>ns.
     bind_res (cache_identifier object_id ''object_id'') (\<lambda>oid.
     bind_res (cache_identifier representation_id ''representation_id'') (\<lambda>rid.
     Inr \<lparr>out_method = ''PUT'', out_url = cl_base cl @ ''/v1/cache/artifact'',
          out_headers =
            [(''Accept'', ''application/json''), (''Authorization'', authorization cl),
             (''Content-Type'', ''application/octet-stream''), (''X-Pathfinder-Request-Id'', rq),
             (''X-Pathfinder-Cache-Namespace'', ns), (''X-Pathfinder-Object-Id'', oid),
             (''X-Pathfinder-Representation-Id'', rid), (''X-Pathfinder-Content-SHA256'', H payload)],
          out_data = Some payload\<rparr>))))))"

definition store_result ::
  "(bytes \<Rightarrow> string) \<Rightarrow> cache_client \<Rightarrow> json \<Rightarrow> bytes \<Rightarrow> http_outcome \<Rightarrow> client_error + dict" where
  "store_result H cl cache_namespace payload outcome =
     exchanged (MAX_JSON_BYTES + 1)
       (\<lambda>code. Inl (cache_raise (''cache store request returned HTTP '' @ int_str code))) ''cache store request failed''
       (\<lambda>hs raw.
          bind_res (lift_cache (strict_json raw ''cache store response'')) (\<lambda>r.
          require (dget r ''status'' = JStr ''STORED'' \<and> dget r ''node_id'' = JStr (cl_node cl)
              \<and> dget r ''cache_id'' = JStr (cl_cache cl) \<and> py_eq (dget r ''cache_namespace'') cache_namespace
              \<and> dget r ''content_sha256'' = JStr (H payload) \<and> py_eq (dget r ''size_bytes'') (JInt (int (length payload)))
              \<and> dget r ''credentials_recorded'' = JBool False) (cache_raise ''cache store response is invalid'') (
          Inr r))) outcome"

definition client_put ::
  "(out_request \<Rightarrow> 's \<Rightarrow> 's \<times> http_outcome) \<Rightarrow> (bytes \<Rightarrow> string) \<Rightarrow> cache_client \<Rightarrow> json \<Rightarrow> json \<Rightarrow> json \<Rightarrow> json \<Rightarrow> bytes \<Rightarrow> json
   \<Rightarrow> 's \<Rightarrow> 's \<times> (client_error + dict)" where
  "client_put net H cl cache_namespace request_id object_id representation_id payload expected_sha256 w =
     (case put_request H cl cache_namespace request_id object_id representation_id payload expected_sha256 of
        Inl e \<Rightarrow> (w, Inl (CacheRaises e))
      | Inr rq \<Rightarrow>
          (let (w', outcome) = net rq w in (w', store_result H cl cache_namespace payload outcome)))"

section \<open>The service as the network of a client\<close>

definition cache_network ::
  "(bytes \<Rightarrow> string) \<Rightarrow> (string \<Rightarrow> string option) \<Rightarrow> cache_config \<Rightarrow> server_settings \<Rightarrow> cache_env \<Rightarrow> string \<Rightarrow> out_request \<Rightarrow> cache
   \<Rightarrow> cache \<times> http_outcome" where
  "cache_network H netloc_error cfg settings env base rq s =
     (let (s', rs) = (if out_method rq = ''PUT'' then cache_do_PUT H netloc_error cfg settings env (served base rq) s
                      else cache_do_GET H netloc_error cfg settings (env_now env) (served base rq) s)
      in (s', received rs))"

end
