(* ===== verification/Json_Size.thy ===== *)
theory Json_Size
  imports Json_Read
begin

text \<open>
  The length of a canonical JSON text. A character is written in at most six (an escaped control
  character), so a bound follows from the lengths of the strings in the value, whatever order the keys are
  written in.
\<close>

primrec text_bound :: "json \<Rightarrow> nat" where
  "text_bound JNull = 4"
| "text_bound (JBool b) = 5"
| "text_bound (JInt n) = length (int_str n)"
| "text_bound (JFloat f) = length (float_repr f)"
| "text_bound (JStr s) = 2 + 6 * length s"
| "text_bound (JArr xs) = 2 + sum_list (map Suc (map text_bound xs))"
| "text_bound (JObj d) = 2 + sum_list (map (\<lambda>(k, n). 4 + 6 * length k + n) (map (map_prod id text_bound) d))"

lemma escape_char_length: "length (escape_char c) \<le> 6"
  by (simp add: escape_char_def)

lemma escaped_length: "length (concat (map escape_char s)) \<le> 6 * length s"
proof (induction s)
  case (Cons c s)
  with escape_char_length [of c] show ?case by simp
qed simp

lemma dumps_str_length: "length (dumps_str s) \<le> 2 + 6 * length s"
  using escaped_length [of s] by (simp add: dumps_str_def)

lemma join_length: "length (join [c] xs) \<le> sum_list (map (\<lambda>x. Suc (length x)) xs)"
  by (induction "[c]" xs rule: join.induct) auto

lemma sum_list_sort_key: "sum_list (map f (sort_key g xs)) = (sum_list (map f xs) :: nat)"
proof -
  have "sum_list (map f (insort_key g x ys)) = f x + sum_list (map f ys)" for x ys
    by (induction ys) auto
  then show ?thesis by (induction xs) (simp_all add: sort_key_def)
qed

lemma sum_list_le: "(\<And>x. x \<in> set xs \<Longrightarrow> f x \<le> g x) \<Longrightarrow> sum_list (map f xs) \<le> (sum_list (map g xs) :: nat)"
  by (induction xs) (auto simp: add_mono)

lemma dumps_length: "length (dumps v) \<le> text_bound v"
proof (induction v)
  case (JStr s)
  then show ?case using dumps_str_length by simp
next
  case (JArr xs)
  have "length (join '','' (map dumps xs)) \<le> sum_list (map (\<lambda>x. Suc (length (dumps x))) xs)"
    using join_length [of _ "map dumps xs"] by (simp add: comp_def)
  also have "\<dots> \<le> sum_list (map (\<lambda>x. Suc (text_bound x)) xs)" using JArr by (intro sum_list_le) simp
  finally show ?case by (simp add: comp_def)
next
  case (JObj d)
  have "length (join '','' (map item_text (sort_key fst d))) \<le> sum_list (map (\<lambda>p. Suc (length (item_text p))) (sort_key fst d))"
    using join_length [of _ "map item_text (sort_key fst d)"] by (simp add: comp_def)
  also have "\<dots> = sum_list (map (\<lambda>p. Suc (length (item_text p))) d)" by (rule sum_list_sort_key)
  also have "\<dots> \<le> sum_list (map (\<lambda>p. 4 + 6 * length (fst p) + text_bound (snd p)) d)"
  proof (rule sum_list_le)
    fix p assume "p \<in> set d"
    then have "length (dumps (snd p)) \<le> text_bound (snd p)" using JObj [of p "snd p"] by (auto simp: snds.simps)
    with dumps_str_length [of "fst p"] show "Suc (length (item_text p)) \<le> 4 + 6 * length (fst p) + text_bound (snd p)"
      by (simp add: item_text_def split_def)
  qed
  also have "\<dots> = sum_list (map (\<lambda>(k, n). 4 + 6 * length k + n) (map (map_prod id text_bound) d))"
    by (simp add: comp_def split_def)
  finally show ?case by (simp add: dumps_obj del: dumps.simps)
qed simp_all

lemma text_bound_dict:
  assumes "distinct (map fst d)"
  shows "text_bound (JObj d) = 2 + (\<Sum>k \<in> keys d. 4 + 6 * length k + text_bound (dget d k))"
  using assms
proof (induction d)
  case (Cons p d)
  obtain k v where p: "p = (k, v)" by fastforce
  have k: "k \<notin> keys d" using Cons.prems p by (auto simp: keys_def)
  then have "(\<Sum>j \<in> keys d. 4 + 6 * length j + text_bound (dget (p # d) j)) = (\<Sum>j \<in> keys d. 4 + 6 * length j + text_bound (dget d j))"
    by (intro sum.cong) (auto simp: p dget_Cons)
  moreover have "finite (keys d)" by (simp add: keys_def)
  ultimately show ?case using Cons k by (simp add: p dget_Cons)
qed (simp add: keys_def)

end
