(* ===== verification/Cache_Remote.thy ===== *)
theory Cache_Remote
  imports Cache_Client Json_Size
begin

text \<open>
  The client of a cache service and its handler together: an operation of the client over HTTP is the
  operation of the cache, and against an arbitrary network the client accepts nothing that does not have
  the digest it names.
\<close>

section \<open>Text of the messages\<close>

lemma cache_header_names:
  "ascii_lower ''X-Pathfinder-Request-Id'' = ''x-pathfinder-request-id''"
  "ascii_lower ''X-Pathfinder-Cache-Namespace'' = ''x-pathfinder-cache-namespace''"
  "ascii_lower ''X-Pathfinder-Object-Id'' = ''x-pathfinder-object-id''"
  "ascii_lower ''X-Pathfinder-Representation-Id'' = ''x-pathfinder-representation-id''"
  "ascii_lower ''X-Pathfinder-Content-SHA256'' = ''x-pathfinder-content-sha256''"
  "ascii_lower ''X-Pathfinder-Cache-Node'' = ''x-pathfinder-cache-node''"
  "ascii_lower ''X-Pathfinder-Cache-Id'' = ''x-pathfinder-cache-id''"
  "ascii_lower ''X-Pathfinder-Cache-Key'' = ''x-pathfinder-cache-key''"
  "ascii_lower ''X-Pathfinder-Cache-Event-Id'' = ''x-pathfinder-cache-event-id''"
  by code_simp+

lemmas cache_header_simps = header_simps cache_header_names

lemma match_ident_all: "match_ident f g n s \<Longrightarrow> (\<And>c. f c \<Longrightarrow> g c) \<Longrightarrow> list_all g s"
  by (cases s) auto

lemma cache_IDENTIFIER_ascii: "cache_IDENTIFIER s \<Longrightarrow> list_all (\<lambda>c. ord c < 128) s"
  unfolding cache_IDENTIFIER_def
  by (drule match_ident_all) (auto simp: cache_ident_char_def list_all_iff char_class_defs)

lemma match_sha256_ascii: "match_sha256 s \<Longrightarrow> list_all (\<lambda>c. ord c < 128) s"
  by (auto simp: match_sha256_def list_all_iff char_class_defs)

lemma identifier_text: "cache_IDENTIFIER s \<Longrightarrow> valid_utf8 s" "match_sha256 s \<Longrightarrow> valid_utf8 s"
  by (auto intro: valid_utf8_ascii cache_IDENTIFIER_ascii match_sha256_ascii)

section \<open>A service and its client\<close>

text \<open>
  A client configured for a service: the same token, of visible characters so that it passes a header
  unchanged, the same identity, and limits that fit a machine word.
\<close>

definition linked :: "cache_config \<Rightarrow> server_settings \<Rightarrow> cache_client \<Rightarrow> bool" where
  "linked cfg settings cl \<longleftrightarrow>
     set_token settings = cl_token cl \<and> list_all (\<lambda>c. 33 \<le> ord c \<and> ord c \<le> 126) (cl_token cl)
     \<and> cl_node cl = cfg_node_id cfg \<and> cl_cache cl = cfg_cache_id cfg
     \<and> cfg_node_id cfg \<in> set ALLOWED_NODES \<and> cache_IDENTIFIER (cfg_cache_id cfg)
     \<and> 0 < cl_max_artifact cl \<and> cl_max_artifact cl < 2 ^ 63 \<and> set_max_artifact_bytes settings < 2 ^ 63"

lemma linked_authorized:
  assumes "linked cfg settings cl" and "header_get (rq_headers rq) ''Authorization'' = Some (authorization cl)"
  shows "cache_authorized settings rq = Some True"
  using assms by (auto simp: cache_authorized_def linked_def authorization_def compare_digest_def is_ascii_def list_all_iff ord_def)

definition expected_field :: "string option \<Rightarrow> (string \<times> string) list" where
  "expected_field ex = (case ex of None \<Rightarrow> [] | Some d \<Rightarrow> [(''expected_sha256'', d)])"

definition get_fields :: "string \<Rightarrow> string \<Rightarrow> string \<Rightarrow> string option \<Rightarrow> (string \<times> string) list" where
  "get_fields ns oid rid ex =
     [(''cache_namespace'', ns), (''object_id'', oid), (''representation_id'', rid)] @ expected_field ex"

definition get_args_ok :: "string \<Rightarrow> string \<Rightarrow> string \<Rightarrow> string option \<Rightarrow> bool" where
  "get_args_ok ns oid rid ex \<longleftrightarrow>
     cache_IDENTIFIER ns \<and> cache_IDENTIFIER oid \<and> cache_IDENTIFIER rid \<and> (\<forall>d. ex = Some d \<longrightarrow> match_sha256 d)"

lemma get_query_fields:
  "get_args_ok ns oid rid ex \<Longrightarrow> get_query (JStr ns) (JStr oid) (JStr rid) (opt_json ex) = Inr (get_fields ns oid rid ex)"
  by (cases ex) (auto simp: get_query_def get_args_ok_def cache_identifier_def cache_digest_def opt_json_def get_fields_def expected_field_def)

lemma artifact_GET_fields:
  "artifact_GET H cfg now (map (\<lambda>(k, v). (k, [v])) (get_fields ns oid rid ex)) s =
     (case cache_lookup H cfg now (JStr ns) (JStr oid) (JStr rid) (opt_json ex) s of
        (s', Inl e) \<Rightarrow> (s', cache_failure_response e)
      | (s', Inr None) \<Rightarrow> (s', miss_response cfg ns)
      | (s', Inr (Some a)) \<Rightarrow> (s', artifact_response a))"
  by (cases ex) (simp_all add: artifact_GET_def get_fields_def expected_field_def ARTIFACT_QUERIES_def query_value_def
      query_namespace_def opt_json_def)

lemma network_get:
  assumes c: "linked cfg settings cl" and n: "netloc_error [] = None" and args: "get_args_ok ns oid rid ex"
  shows "cache_network H netloc_error cfg settings env (cl_base cl) (get_request cl (get_fields ns oid rid ex)) s =
    map_prod id (\<lambda>r. case r of Inl e \<Rightarrow> received (cache_failure_response e) | Inr None \<Rightarrow> received (miss_response cfg ns)
                     | Inr (Some a) \<Rightarrow> received (artifact_response a))
      (cache_lookup H cfg (env_now env) (JStr ns) (JStr oid) (JStr rid) (opt_json ex) s)"
proof -
  let ?q = "get_fields ns oid rid ex" let ?rq = "served (cl_base cl) (get_request cl ?q)"
  have path: "rq_path ?rq = ''/v1/cache/artifact'' @ CHR ''?'' # urlencode ?q"
    by (simp add: served_def get_request_def)
  have pc: "list_all path_char ''/v1/cache/artifact''" by code_simp
  from urlsplit_target [OF this, of netloc_error "CHR ''?'' # urlencode ?q"] n obtain u where
    u: "urlsplit netloc_error (rq_path ?rq) = Inr u" "u_path u = ''/v1/cache/artifact''" "u_query u = urlencode ?q"
    unfolding path by auto
  have "parse_qs (urlencode ?q) = Inr (map (\<lambda>(k, v). (k, [v])) ?q)"
    using args by (intro parse_qs_urlencode)
      (auto simp: get_args_ok_def get_fields_def expected_field_def identifier_text ord_def split: option.splits)
  moreover have "cache_authorized settings ?rq = Some True"
    by (rule linked_authorized [OF c]) (simp add: served_def get_request_def cache_header_simps)
  ultimately show ?thesis
    using u by (simp add: cache_network_def cache_do_GET_def get_request_def [of cl] artifact_GET_fields split: prod.splits sum.splits option.splits)
qed

section \<open>A lookup over HTTP\<close>

fun error_status :: "cache_error \<Rightarrow> int" where
  "error_status (FullFlowCacheError m) = 400"
| "error_status (FullFlowCacheConflict m) = 400"
| "error_status CacheOSError = 500"

lemma received_failure: "received (cache_failure_response e) = StatusError (error_status e)"
  by (cases e) (simp_all add: received_def internal_error_response_def cache_error_response_def cache_json_response_def Let_def)

lemma received_miss: "received (miss_response cfg ns) = StatusError 404"
  by (simp add: received_def miss_response_def cache_json_response_def Let_def)

text \<open>What a client makes of the result of a lookup.\<close>

definition lookup_seen :: "cache_client \<Rightarrow> cache_error + cached_artifact option \<Rightarrow> client_error + cached_artifact option" where
  "lookup_seen cl r =
     (case r of
        Inl e \<Rightarrow> Inl (cache_raise (''cache artifact request returned HTTP '' @ int_str (error_status e)))
      | Inr None \<Rightarrow> Inr None
      | Inr (Some a) \<Rightarrow>
          if a_size_bytes a \<le> cl_max_artifact cl then Inr (Some a) else Inl (cache_raise ''cache artifact is too large''))"

context digest_function
begin

lemma lookup_hit:
  assumes "cache_lookup H cfg now (JStr ns) (JStr oid) (JStr rid) (opt_json ex) s = (s', Inr (Some a))"
  shows "a_cache_id a = cfg_cache_id cfg" "a_node_id a = cfg_node_id cfg" "match_sha256 (a_cache_key a)"
    "a_object_id a = oid" "a_representation_id a = rid" "a_cache_namespace a = ns" "H (a_payload a) = a_content_sha256 a"
    "a_size_bytes a = int (length (a_payload a))" "a_event_id a = event_sequence s + 1"
    "ex = None \<or> ex = Some (a_content_sha256 a)"
proof -
  from assms obtain ex' key where v: "lookup_validate H (JStr ns) (JStr oid) (JStr rid) (opt_json ex) = Inr (ns, oid, rid, ex', key)"
    by (auto simp: cache_lookup_def lookup_validate_def result_simps split: sum.splits prod.splits)
  then have k: "match_sha256 key" and e: "ex' = ex"
    using digest_form by (auto simp: lookup_validate_def result_simps opt_json_def split: option.splits if_splits)
  from assms v e obtain row q s1 where row: "find_entry s key = Some row" "next_sequence s = Inr (q, s1)"
    "ex = None \<or> ex = Some (e_content_sha256 row)"
    and a: "read_artifact H cfg (insert_event now ''HIT'' key ns oid rid (Some (e_content_sha256 row)) (e_size_bytes row)
      (s1\<lparr>cache_entries := touch_entry key q (cache_entries s1)\<rparr>)) ns oid rid row = Inr a"
    by (auto simp: cache_lookup_def Let_def map_sum_Inr_iff split: option.splits sum.splits if_splits prod.splits)
  have es: "event_sequence s1 = event_sequence s" using row(2) by (auto simp: next_sequence_def Let_def split: option.splits)
  have "e_cache_key row = key" using find_entry_Some [OF row(1)] by simp
  with a k es row(3) show "a_cache_id a = cfg_cache_id cfg" "a_node_id a = cfg_node_id cfg" "match_sha256 (a_cache_key a)"
    "a_object_id a = oid" "a_representation_id a = rid" "a_cache_namespace a = ns" "H (a_payload a) = a_content_sha256 a"
    "a_size_bytes a = int (length (a_payload a))" "a_event_id a = event_sequence s + 1"
    "ex = None \<or> ex = Some (a_content_sha256 a)"
    by (auto simp: read_artifact_def insert_event_def result_simps split: option.splits)
qed

lemma check_artifact_response:
  assumes c: "linked cfg settings cl" and args: "get_args_ok ns oid rid ex" and seq: "0 \<le> event_sequence s" "event_sequence s < 2 ^ 63 - 1"
    and hit: "cache_lookup H cfg now (JStr ns) (JStr oid) (JStr rid) (opt_json ex) s = (s', Inr (Some a))"
  shows "get_result H cl (JStr ns) (JStr oid) (JStr rid) (opt_json ex) (received (artifact_response a)) = lookup_seen cl (Inr (Some a))"
proof -
  note h = lookup_hit [OF hit]
  have hs: "match_sha256 (a_content_sha256 a)" using digest_form h(7) by metis
  have m: "0 < cl_max_artifact cl" "cl_max_artifact cl < 2 ^ 63" "cl_node cl = cfg_node_id cfg" "cl_cache cl = cfg_cache_id cfg"
    using c by (auto simp: linked_def)
  have rec: "received (artifact_response a) = Answered (rs_headers (artifact_response a)) (a_payload a)"
    by (simp add: received_def artifact_response_def)
  show ?thesis
  proof (cases "a_size_bytes a \<le> cl_max_artifact cl")
    case False
    then have "cl_max_artifact cl < int (length (take (nat (cl_max_artifact cl + 1)) (a_payload a)))" using h(8) m by simp
    with False show ?thesis by (simp add: get_result_def rec exchanged_def check_artifact_def lookup_seen_def)
  next
    case True
    then have t: "take (nat (cl_max_artifact cl + 1)) (a_payload a) = a_payload a" using h(8) m by simp
    have len: "is_decimal (int_str (a_size_bytes a))" "int_of_text (int_str (a_size_bytes a)) = Inr (a_size_bytes a)"
      using h(8) True m by (auto intro!: decimal_count)
    have ev: "is_decimal (int_str (a_event_id a))" "int_of_text (int_str (a_event_id a)) = Inr (a_event_id a)"
      using h(9) seq by (auto intro!: decimal_count)
    have ids: "cache_IDENTIFIER ns" "cache_IDENTIFIER oid" "cache_IDENTIFIER rid" using args by (auto simp: get_args_ok_def)
    have hdr: "header_get (rs_headers (artifact_response a)) ''Content-Length'' = Some (int_str (a_size_bytes a))"
      "header_get (rs_headers (artifact_response a)) ''X-Pathfinder-Content-SHA256'' = Some (a_content_sha256 a)"
      "header_get (rs_headers (artifact_response a)) ''X-Pathfinder-Cache-Node'' = Some (a_node_id a)"
      "header_get (rs_headers (artifact_response a)) ''X-Pathfinder-Cache-Id'' = Some (a_cache_id a)"
      "header_get (rs_headers (artifact_response a)) ''X-Pathfinder-Cache-Key'' = Some (a_cache_key a)"
      "header_get (rs_headers (artifact_response a)) ''X-Pathfinder-Cache-Namespace'' = Some (a_cache_namespace a)"
      "header_get (rs_headers (artifact_response a)) ''X-Pathfinder-Cache-Event-Id'' = Some (int_str (a_event_id a))"
      by (simp_all add: artifact_response_def cache_header_simps)
    have "check_artifact H cl (JStr ns) (JStr oid) (JStr rid) (opt_json ex) (rs_headers (artifact_response a)) (a_payload a) = Inr (Some a)"
      using True h hs ids m ev len unfolding check_artifact_def Let_def hdr
      by (auto simp: decimal_header_def opt_json_def lift_value_def lift_cache_def cache_digest_def cache_identifier_def)
    with True t show ?thesis by (simp add: get_result_def rec exchanged_def lookup_seen_def)
  qed
qed

lemma client_get_lookup:
  assumes c: "linked cfg settings cl" and n: "netloc_error [] = None" and args: "get_args_ok ns oid rid ex"
    and seq: "0 \<le> event_sequence s" "event_sequence s < 2 ^ 63 - 1"
  shows "client_get (cache_network H netloc_error cfg settings env (cl_base cl)) H cl (JStr ns) (JStr oid) (JStr rid) (opt_json ex) s
    = map_prod id (lookup_seen cl) (cache_lookup H cfg (env_now env) (JStr ns) (JStr oid) (JStr rid) (opt_json ex) s)"
proof -
  obtain s' r where l: "cache_lookup H cfg (env_now env) (JStr ns) (JStr oid) (JStr rid) (opt_json ex) s = (s', r)" by fastforce
  have "client_get (cache_network H netloc_error cfg settings env (cl_base cl)) H cl (JStr ns) (JStr oid) (JStr rid) (opt_json ex) s
    = (s', get_result H cl (JStr ns) (JStr oid) (JStr rid) (opt_json ex) (case r of Inl e \<Rightarrow> received (cache_failure_response e)
        | Inr None \<Rightarrow> received (miss_response cfg ns) | Inr (Some a) \<Rightarrow> received (artifact_response a)))"
    by (simp add: client_get_def get_query_fields [OF args] network_get [where netloc_error = netloc_error, OF c n args] l)
  moreover have "get_result H cl (JStr ns) (JStr oid) (JStr rid) (opt_json ex) (case r of Inl e \<Rightarrow> received (cache_failure_response e)
        | Inr None \<Rightarrow> received (miss_response cfg ns) | Inr (Some a) \<Rightarrow> received (artifact_response a)) = lookup_seen cl r"
    using check_artifact_response [OF c args seq] l
    by (auto simp: received_failure received_miss get_result_def exchanged_def lookup_seen_def split: sum.splits option.splits)
      (auto elim: error_status.elims)
  ultimately show ?thesis by (simp add: l)
qed

end

section \<open>A store over HTTP\<close>

text \<open>The request of a store with valid arguments.\<close>

definition put_message :: "(bytes \<Rightarrow> string) \<Rightarrow> cache_client \<Rightarrow> string \<Rightarrow> string \<Rightarrow> string \<Rightarrow> string \<Rightarrow> bytes \<Rightarrow> out_request" where
  "put_message H cl ns rq oid rid payload =
     \<lparr>out_method = ''PUT'', out_url = cl_base cl @ ''/v1/cache/artifact'',
      out_headers =
        [(''Accept'', ''application/json''), (''Authorization'', authorization cl),
         (''Content-Type'', ''application/octet-stream''), (''X-Pathfinder-Request-Id'', rq),
         (''X-Pathfinder-Cache-Namespace'', ns), (''X-Pathfinder-Object-Id'', oid),
         (''X-Pathfinder-Representation-Id'', rid), (''X-Pathfinder-Content-SHA256'', H payload)],
      out_data = Some payload\<rparr>"

lemma content_type_octets: "ascii_lower (strip (fst (partition_at CHR '';'' ''application/octet-stream''))) = ''application/octet-stream''"
  by code_simp

lemma network_put:
  assumes c: "linked cfg settings cl" and n: "netloc_error [] = None"
    and size: "payload \<noteq> []" "int (length payload) \<le> set_max_artifact_bytes settings"
  shows "cache_network H netloc_error cfg settings env (cl_base cl) (put_message H cl ns rq oid rid payload) s =
    map_prod id (\<lambda>r. case r of Inl e \<Rightarrow> received (cache_failure_response e) | Inr d \<Rightarrow> received (cache_json_response 200 d))
      (cache_put H cfg env (JStr ns) (JStr rq) (JStr oid) (JStr rid) payload (JStr (H payload)) s)"
proof -
  let ?rq = "served (cl_base cl) (put_message H cl ns rq oid rid payload)"
  have pc: "list_all path_char ''/v1/cache/artifact''" by code_simp
  have path: "rq_path ?rq = ''/v1/cache/artifact''" and body: "rq_body ?rq = payload" by (simp_all add: served_def put_message_def)
  from urlsplit_target [OF pc, of netloc_error "[]"] n obtain u where
    u: "urlsplit netloc_error (rq_path ?rq) = Inr u" "u_path u = ''/v1/cache/artifact''" "u_query u = []"
    unfolding path by auto
  have auth: "cache_authorized settings ?rq = Some True"
    by (rule linked_authorized [OF c]) (simp add: served_def put_message_def cache_header_simps)
  have len: "is_decimal (int_str (int (length payload)))" "int_of_text (int_str (int (length payload))) = Inr (int (length payload))"
    using size c by (auto simp: linked_def intro!: decimal_count)
  have hdr: "header_get (rq_headers ?rq) ''Content-Length'' = Some (int_str (int (length payload)))"
    "header_get (rq_headers ?rq) ''Content-Type'' = Some ''application/octet-stream''"
    "header_get (rq_headers ?rq) ''X-Pathfinder-Cache-Namespace'' = Some ns"
    "header_get (rq_headers ?rq) ''X-Pathfinder-Request-Id'' = Some rq"
    "header_get (rq_headers ?rq) ''X-Pathfinder-Object-Id'' = Some oid"
    "header_get (rq_headers ?rq) ''X-Pathfinder-Representation-Id'' = Some rid"
    "header_get (rq_headers ?rq) ''X-Pathfinder-Content-SHA256'' = Some (H payload)"
    by (simp_all add: served_def put_message_def cache_header_simps)
  have ct: "get_content_type (rq_headers ?rq) = ''application/octet-stream''"
    by (simp add: get_content_type_def hdr(2) content_type_octets)
  have "artifact_PUT H cfg settings env ?rq s =
     (case cache_put H cfg env (JStr ns) (JStr rq) (JStr oid) (JStr rid) payload (JStr (H payload)) s of
        (s', Inl e) \<Rightarrow> (s', cache_failure_response e) | (s', Inr result) \<Rightarrow> (s', cache_json_response 200 result))"
    using size unfolding artifact_PUT_def Let_def hdr ct body by (simp add: len opt_json_def)
  with u auth show ?thesis
    by (simp add: cache_network_def cache_do_PUT_def put_message_def [of H cl] split: prod.splits sum.splits)
qed

lemma put_request_message:
  assumes "put_args_ok cfg ns rq oid rid payload" "int (length payload) \<le> cl_max_artifact cl"
    and "expected = JNull \<or> expected = JStr (H payload) \<and> match_sha256 (H payload)"
  shows "put_request H cl (JStr ns) (JStr rq) (JStr oid) (JStr rid) payload expected = Inr (put_message H cl ns rq oid rid payload)"
  using assms by (auto simp: put_request_def put_message_def put_args_ok_def cache_identifier_def cache_digest_def)

lemma exchanged_status: "exchanged limit status message continue (StatusError code) = status code"
  by (simp add: exchanged_def)

text \<open>The answer to a fresh store is well-formed JSON.\<close>

lemma entry_ok_text: "entry_ok H objs e \<Longrightarrow> (\<And>m. match_sha256 (H m)) \<Longrightarrow> utf8_json (evicted_record e) \<and> wf_json (evicted_record e)"
  by (auto simp: entry_ok_def evicted_record_def identifier_text ord_def) (metis identifier_text(2))

context digest_function
begin

lemma put_result_text:
  assumes inv: "cache_inv H P cfg s" and c: "linked cfg settings cl" and args: "put_args_ok cfg ns rq oid rid payload"
    and r_def: "r = put_result cfg (plan_of H ns rq oid rid payload) n (put_evicted cfg (plan_of H ns rq oid rid payload) s)"
  shows "wf_json (JObj r)" "utf8_json (JObj r)"
proof -
  have e: "utf8_json (evicted_record e) \<and> wf_json (evicted_record e)" if "e \<in> set (put_evicted cfg (plan_of H ns rq oid rid payload) s)" for e
    using put_evicted_others [OF that] cache_inv_entry(1) [OF inv] digest_form entry_ok_text by blast
  have k: "match_sha256 (p_cache_key (plan_of H ns rq oid rid payload))" using digest_form by simp
  have "cfg_node_id cfg = ''N7'' \<or> cfg_node_id cfg = ''N8''" using c by (auto simp: linked_def ALLOWED_NODES_def)
  then have node: "valid_utf8 (cfg_node_id cfg)" by (auto simp: ord_def)
  have ids: "valid_utf8 ns" "valid_utf8 rq" "valid_utf8 oid" "valid_utf8 rid" "valid_utf8 (cfg_cache_id cfg)"
    "valid_utf8 (H payload)" "valid_utf8 (p_cache_key (plan_of H ns rq oid rid payload))"
    using args c digest_form k by (auto simp: put_args_ok_def linked_def intro: identifier_text)
  show "wf_json (JObj r)" "utf8_json (JObj r)"
    using e ids node unfolding r_def put_result_def
    by (auto simp: list_all_iff ord_def FULL_FLOW_CACHE_RESULT_SCHEMA_VERSION_def)
qed

lemma client_put_store:
  assumes inv: "cache_inv H P cfg s" and inj: "inj_on H P" and c: "linked cfg settings cl" and n: "netloc_error [] = None"
    and env: "env_ok env" "env_fault env = NoFault" and P: "payload \<in> P"
    and args: "put_args_ok cfg ns rq oid rid payload" and fresh: "find_request s rq = None"
    and size: "int (length payload) \<le> cl_max_artifact cl" "int (length payload) \<le> set_max_artifact_bytes settings"
    and ex: "expected = JNull \<or> expected = JStr (H payload)"
    and put: "cache_put H cfg env (JStr ns) (JStr rq) (JStr oid) (JStr rid) payload (JStr (H payload)) s = (s', Inr r)"
    and bound: "int (length (canonical_bytes (JObj r))) \<le> MAX_JSON_BYTES"
  shows "client_put (cache_network H netloc_error cfg settings env (cl_base cl)) H cl (JStr ns) (JStr rq) (JStr oid) (JStr rid)
    payload expected s = (s', Inr (loads_dict r))"
proof -
  define p where "p = plan_of H ns rq oid rid payload"
  have ne: "payload \<noteq> []" using args by (simp add: put_args_ok_def)
  have r: "r = put_result cfg p (event_sequence s + 1) (put_evicted cfg p s)"
    using put_stored [OF inv env(1) P inj args fresh env(2) _ p_def, of "JStr (H payload)"] put by auto
  have ex': "expected = JNull \<or> expected = JStr (H payload) \<and> match_sha256 (H payload)" using ex digest_form by auto
  have loads: "plain_loads_bytes (canonical_bytes (JObj r)) = Inr (JObj (loads_dict r))"
    unfolding canonical_bytes_def sort_keys_loads [symmetric]
    by (rule plain_loads_line) (rule put_result_text [OF inv c args r [unfolded p_def]])+
  have get: "dget (loads_dict r) k = sort_keys (dget r k)" for k
    using put_result_keys(1) by (simp add: dget_loads r)
  have "store_result H cl (JStr ns) payload (received (cache_json_response 200 r)) = Inr (loads_dict r)"
    using bound loads c by (simp add: store_result_def received_def cache_json_response_def Let_def exchanged_def strict_json_def
        lift_cache_def get linked_def MAX_JSON_BYTES_def) (simp add: r put_result_def dget_def p_def)
  then show ?thesis
    by (simp add: client_put_def put_request_message [where H = H, OF args size(1) ex'] network_put [where netloc_error = netloc_error, OF c n ne size(2)] put)
qed

end

section \<open>The properties\<close>

lemma reachable_sequence:
  assumes "cache_reachable sha256_hex P cfg s" and "inj_on sha256_hex P" and "0 < cfg_capacity_bytes cfg"
  shows "0 \<le> event_sequence s"
  using sha256.reachable_inv [OF assms] by (simp add: cache_inv_def log_inv_def)

definition demo_settings :: server_settings where
  "demo_settings = \<lparr>set_host = ''127.0.0.1'', set_port = 8090, set_token = ''0123456789abcdef'', set_max_artifact_bytes = 64\<rparr>"

definition demo_client :: cache_client where
  "demo_client = \<lparr>cl_base = ''http://127.0.0.1:8090'', cl_token = ''0123456789abcdef'', cl_node = ''N7'', cl_cache = ''cache-n7'',
     cl_timeout = 30, cl_max_artifact = 64\<rparr>"

abbreviation demo_net :: "out_request \<Rightarrow> cache \<Rightarrow> cache \<times> http_outcome" where
  "demo_net \<equiv> cache_network sha256_hex (\<lambda>_. None) demo_config demo_settings (demo_env NoFault) (cl_base demo_client)"

lemma demo_linked: "linked demo_config demo_settings demo_client"
  by (simp add: linked_def demo_config_def demo_settings_def demo_client_def ALLOWED_NODES_def) code_simp

lemma demo_get_args: "get_args_ok ''run-1'' ''clip-9'' ''frames'' None"
  by (simp add: get_args_ok_def) code_simp

text \<open>
  (C12) A lookup through the client and the HTTP service is the lookup of the cache: it has the same effect
  on the volume and returns the same artifact, field for field, or the same miss; an exception of the
  service becomes the exception of its HTTP status, and an artifact over the limit of the client is refused.
\<close>

theorem remote_get_is_lookup:
  assumes "linked cfg settings cl" and "netloc_error [] = None" and "get_args_ok ns oid rid ex"
    and "0 \<le> event_sequence s" and "event_sequence s < 2 ^ 63 - 1"
  shows "client_get (cache_network sha256_hex netloc_error cfg settings env (cl_base cl)) sha256_hex cl
      (JStr ns) (JStr oid) (JStr rid) (opt_json ex) s
    = map_prod id (lookup_seen cl) (cache_lookup sha256_hex cfg (env_now env) (JStr ns) (JStr oid) (JStr rid) (opt_json ex) s)"
  using sha256.client_get_lookup [where netloc_error = netloc_error, OF assms] .

lemma demo_sequence: "event_sequence demo_volume = 0"
  by code_simp

theorem remote_get_is_lookup_witness:
  "client_get demo_net sha256_hex demo_client (JStr ''run-1'') (JStr ''clip-9'') (JStr ''frames'') JNull demo_volume
   = map_prod id (lookup_seen demo_client)
       (cache_lookup sha256_hex demo_config 5 (JStr ''run-1'') (JStr ''clip-9'') (JStr ''frames'') JNull demo_volume)"
  using remote_get_is_lookup [where netloc_error = "\<lambda>_. None", OF demo_linked _ demo_get_args, of demo_volume "demo_env NoFault"]
  by (simp add: demo_sequence opt_json_def demo_env_def)

text \<open>
  An artifact stored through the client is read back through the client: the store answers with the
  record of the cache, and the next lookup over HTTP returns the bytes that were sent. The answer of the store must
  fit the one mebibyte the client reads.
\<close>

theorem remote_round_trip:
  assumes "cache_reachable sha256_hex P cfg s" and "inj_on sha256_hex P" and "0 < cfg_capacity_bytes cfg"
    and "linked cfg settings cl" and "netloc_error [] = None" and "env_ok env" and "env_fault env = NoFault" and "payload \<in> P"
    and "put_args_ok cfg ns rq oid rid payload" and "find_request s rq = None"
    and "int (length payload) \<le> cl_max_artifact cl" and "int (length payload) \<le> set_max_artifact_bytes settings"
    and "event_sequence s < 2 ^ 62"
    and "cache_put sha256_hex cfg env (JStr ns) (JStr rq) (JStr oid) (JStr rid) payload (JStr (sha256_hex payload)) s = (s', Inr r)"
    and "int (length (canonical_bytes (JObj r))) \<le> MAX_JSON_BYTES"
  shows "client_put (cache_network sha256_hex netloc_error cfg settings env (cl_base cl)) sha256_hex cl
      (JStr ns) (JStr rq) (JStr oid) (JStr rid) payload JNull s = (s', Inr (loads_dict r))
    \<and> (\<exists>s'' a. client_get (cache_network sha256_hex netloc_error cfg settings env' (cl_base cl)) sha256_hex cl
        (JStr ns) (JStr oid) (JStr rid) JNull s' = (s'', Inr (Some a)) \<and> a_payload a = payload)"
proof -
  note inv = sha256.reachable_inv [OF assms(1-3)]
  have put: "client_put (cache_network sha256_hex netloc_error cfg settings env (cl_base cl)) sha256_hex cl
      (JStr ns) (JStr rq) (JStr oid) (JStr rid) payload JNull s = (s', Inr (loads_dict r))"
    using sha256.client_put_store [where netloc_error = netloc_error, OF inv assms(2,4-12) _ assms(14,15)] by simp
  obtain a where look: "snd (cache_lookup sha256_hex cfg (env_now env') (JStr ns) (JStr oid) (JStr rid) JNull s') = Inr (Some a)"
    and a: "a_payload a = payload"
    using sha256.put_then_lookup [OF inv assms(6,8,2,9,10,7), of "JStr (sha256_hex payload)" JNull "env_now env'"] assms(14) by auto
  have "s' = (committed cfg (env_now env) (plan_of sha256_hex ns rq oid rid payload) s)\<lparr>objects := objects s'\<rparr>"
    and inv': "cache_inv sha256_hex P cfg s'"
    using sha256.put_stored [OF inv assms(6,8,2,9,10,7) _ refl, of "JStr (sha256_hex payload)"] assms(14) by auto
  then have "event_sequence s' = event_sequence (committed cfg (env_now env) (plan_of sha256_hex ns rq oid rid payload) s)"
    by (metis cache.select_convs(5) cache.surjective cache.update_convs(8))
  also have "\<dots> = event_sequence s + 1" by (simp add: committed_def Let_def insert_event_def)
  finally have seq: "event_sequence s' = event_sequence s + 1" .
  have args: "get_args_ok ns oid rid None" using assms(9) by (simp add: get_args_ok_def put_args_ok_def)
  have size: "a_size_bytes a \<le> cl_max_artifact cl"
    using sha256.lookup_hit(8) [of cfg "env_now env'" ns oid rid None s' _ a] look a assms(11) by (auto simp: opt_json_def prod_eq_iff)
  have "client_get (cache_network sha256_hex netloc_error cfg settings env' (cl_base cl)) sha256_hex cl
        (JStr ns) (JStr oid) (JStr rid) JNull s'
      = map_prod id (lookup_seen cl) (cache_lookup sha256_hex cfg (env_now env') (JStr ns) (JStr oid) (JStr rid) JNull s')"
    using sha256.client_get_lookup [where netloc_error = netloc_error, OF assms(4,5) args, of s' env'] seq assms(13) reachable_sequence [OF assms(1-3)]
    by (simp add: opt_json_def)
  then show ?thesis using put look a size by (auto simp: lookup_seen_def prod_eq_iff)
qed

lemma demo_answer_fits:
  assumes "cache_put sha256_hex demo_config (demo_env NoFault) (JStr ''run-1'') (JStr ''req-1'') (JStr ''clip-9'') (JStr ''frames'') ''abc''
      (JStr (sha256_hex ''abc'')) demo_volume = (s', Inr r)"
  shows "int (length (canonical_bytes (JObj r))) \<le> MAX_JSON_BYTES"
proof -
  define p where "p = plan_of sha256_hex ''run-1'' ''req-1'' ''clip-9'' ''frames'' ''abc''"
  have "r = put_result demo_config p (event_sequence demo_volume + 1) (put_evicted demo_config p demo_volume)"
    using sha256.put_stored [OF demo_volume_inv demo_env_ok(1) _ _ demo_args(1) demo_fresh demo_env_ok(2) _ p_def,
        of "JStr (sha256_hex ''abc'')"] assms by auto
  moreover have "put_evicted demo_config p demo_volume = []"
    using put_evicted_others [of _ demo_config p demo_volume] by (cases "put_evicted demo_config p demo_volume") (auto simp: demo_volume_empty)
  moreover have "length (p_cache_key p) = 64" "length (p_content_sha256 p) = 64"
    using sha256.digest_form by (simp_all add: p_def match_sha256_def)
  moreover have "length (int_str 3) = 1" "length (int_str 1) = 1" by code_simp+
  ultimately have "text_bound (JObj r) \<le> 4000"
    by (simp add: put_result_def p_def demo_config_def demo_sequence FULL_FLOW_CACHE_RESULT_SCHEMA_VERSION_def)
  with dumps_length [of "JObj r"] show ?thesis by (simp add: canonical_bytes_def MAX_JSON_BYTES_def del: dumps.simps text_bound.simps)
qed

theorem remote_round_trip_witness:
  "\<exists>s' r s'' a. client_put demo_net sha256_hex demo_client (JStr ''run-1'') (JStr ''req-1'') (JStr ''clip-9'') (JStr ''frames'') ''abc'' JNull
       demo_volume = (s', Inr r)
     \<and> client_get demo_net sha256_hex demo_client (JStr ''run-1'') (JStr ''clip-9'') (JStr ''frames'') JNull s' = (s'', Inr (Some a))
     \<and> a_payload a = ''abc''"
proof -
  obtain s' r where put: "cache_put sha256_hex demo_config (demo_env NoFault) (JStr ''run-1'') (JStr ''req-1'') (JStr ''clip-9'')
      (JStr ''frames'') ''abc'' (JStr (sha256_hex ''abc'')) demo_volume = (s', Inr r)"
    using sha256.put_stored [OF demo_volume_inv demo_env_ok(1) _ _ demo_args(1) demo_fresh demo_env_ok(2) _ refl,
        of "JStr (sha256_hex ''abc'')"] by auto
  from remote_round_trip [where netloc_error = "\<lambda>_. None" and env' = "demo_env NoFault", OF demo_reachable [of "{''abc''}"] _ demo_capacity
      demo_linked _ demo_env_ok(1) demo_env_ok(2) _ demo_args(1) demo_fresh _ _ _ put demo_answer_fits [OF put]]
  show ?thesis by (auto simp: demo_sequence demo_client_def demo_settings_def)
qed

text \<open>
  A request that does not carry exactly the bearer token of the service changes nothing: no store and
  no lookup is performed for it, the volume is untouched, and the answer is an error or the health report.
\<close>

theorem unauthorized_requests_change_nothing:
  assumes "header_get (rq_headers rq) ''Authorization'' \<noteq> Some (''Bearer '' @ set_token settings)"
  shows "fst (cache_do_PUT sha256_hex netloc_error cfg settings env rq s) = s
    \<and> rs_status (snd (cache_do_PUT sha256_hex netloc_error cfg settings env rq s)) \<in> {400, 401, 500}
    \<and> fst (cache_do_GET sha256_hex netloc_error cfg settings now rq s) = s
    \<and> (rs_status (snd (cache_do_GET sha256_hex netloc_error cfg settings now rq s)) \<in> {400, 401, 500}
       \<or> snd (cache_do_GET sha256_hex netloc_error cfg settings now rq s) = cache_json_response 200 (cache_health cfg s))"
proof -
  have "cache_authorized settings rq \<noteq> Some True"
    using assms by (auto simp: cache_authorized_def compare_digest_def split: option.splits if_splits)
  then show ?thesis
    by (auto simp: cache_do_PUT_def cache_do_GET_def cache_error_response_def cache_json_response_def unauthorized_response_def
        internal_error_response_def Let_def split: sum.splits option.splits bool.splits)
qed

theorem unauthorized_requests_change_nothing_witness:
  "fst (cache_do_PUT sha256_hex (\<lambda>_. None) demo_config demo_settings (demo_env NoFault)
     \<lparr>rq_path = ''/v1/cache/artifact'', rq_headers = [(''Authorization'', ''Bearer guess'')], rq_body = ''abc''\<rparr> demo_volume) = demo_volume"
  using unauthorized_requests_change_nothing [of "\<lparr>rq_path = ''/v1/cache/artifact'', rq_headers = [(''Authorization'', ''Bearer guess'')],
      rq_body = ''abc''\<rparr>" demo_settings "\<lambda>_. None" demo_config "demo_env NoFault" demo_volume 0]
  by (simp add: cache_header_simps demo_settings_def)

text \<open>
  (C13) Whatever the network and the server answer, an artifact the client returns has the digest it is
  labelled with, the digest the caller expected if one was given, the identity the caller asked for, and no more
  bytes than the client's limit.
\<close>

theorem client_accepts_only_named_content:
  assumes "client_get net sha256_hex cl ns oid rid expected w = (w', Inr (Some a))"
  shows "sha256_hex (a_payload a) = a_content_sha256 a \<and> (expected = JNull \<or> expected = JStr (sha256_hex (a_payload a)))
    \<and> ns = JStr (a_cache_namespace a) \<and> oid = JStr (a_object_id a) \<and> rid = JStr (a_representation_id a)
    \<and> a_node_id a = cl_node cl \<and> a_cache_id a = cl_cache cl
    \<and> a_size_bytes a = int (length (a_payload a)) \<and> a_size_bytes a \<le> cl_max_artifact cl"
proof -
  from assms obtain outcome where "get_result sha256_hex cl ns oid rid expected outcome = Inr (Some a)"
    by (auto simp: client_get_def Let_def split: sum.splits prod.splits)
  then obtain hs raw where "check_artifact sha256_hex cl ns oid rid expected hs raw = Inr (Some a)"
    by (auto simp: get_result_def exchanged_def split: http_outcome.splits if_splits)
  then show ?thesis
    by (auto simp: check_artifact_def Let_def result_simps lift_cache_def lift_value_def map_sum_Inr_iff decimal_header_def split: option.splits if_splits)
qed

definition demo_reply :: headers where
  "demo_reply =
     [(''content-length'', ''3''), (''X-Pathfinder-Content-SHA256'', sha256_hex ''abc''), (''X-Pathfinder-Cache-Node'', ''N7''),
      (''X-Pathfinder-Cache-Id'', ''cache-n7''), (''X-Pathfinder-Cache-Namespace'', ''run-1''),
      (''X-Pathfinder-Cache-Event-Id'', ''4''), (''X-Pathfinder-Cache-Key'', sha256_hex ''key'')]"

lemma demo_reply_headers:
  "header_get demo_reply ''Content-Length'' = Some ''3''" "header_get demo_reply ''X-Pathfinder-Content-SHA256'' = Some (sha256_hex ''abc'')"
  "header_get demo_reply ''X-Pathfinder-Cache-Node'' = Some ''N7''" "header_get demo_reply ''X-Pathfinder-Cache-Id'' = Some ''cache-n7''"
  "header_get demo_reply ''X-Pathfinder-Cache-Namespace'' = Some ''run-1''" "header_get demo_reply ''X-Pathfinder-Cache-Event-Id'' = Some ''4''"
  "header_get demo_reply ''X-Pathfinder-Cache-Key'' = Some (sha256_hex ''key'')"
  "ascii_lower ''content-length'' = ''content-length''"
proof -
  show l: "ascii_lower ''content-length'' = ''content-length''" by code_simp
  show "header_get demo_reply ''Content-Length'' = Some ''3''" "header_get demo_reply ''X-Pathfinder-Content-SHA256'' = Some (sha256_hex ''abc'')"
    "header_get demo_reply ''X-Pathfinder-Cache-Node'' = Some ''N7''" "header_get demo_reply ''X-Pathfinder-Cache-Id'' = Some ''cache-n7''"
    "header_get demo_reply ''X-Pathfinder-Cache-Namespace'' = Some ''run-1''" "header_get demo_reply ''X-Pathfinder-Cache-Event-Id'' = Some ''4''"
    "header_get demo_reply ''X-Pathfinder-Cache-Key'' = Some (sha256_hex ''key'')"
    by (simp_all add: demo_reply_def cache_header_simps l)
qed

theorem client_accepts_only_named_content_witness:
  "\<exists>w' a. client_get (\<lambda>rq w. (w, Answered demo_reply ''abc'')) sha256_hex demo_client (JStr ''run-1'') (JStr ''clip-9'') (JStr ''frames'') JNull ()
       = (w', Inr (Some a)) \<and> sha256_hex (a_payload a) = a_content_sha256 a"
proof -
  have n: "is_decimal ''3''" "int_of_text ''3'' = Inr 3" "is_decimal ''4''" "int_of_text ''4'' = Inr 4" by code_simp+
  have ids: "cache_IDENTIFIER ''run-1''" "cache_IDENTIFIER ''clip-9''" "cache_IDENTIFIER ''frames''" by code_simp+
  have "\<exists>a. client_get (\<lambda>rq w. (w, Answered demo_reply ''abc'')) sha256_hex demo_client (JStr ''run-1'') (JStr ''clip-9'') (JStr ''frames'') JNull ()
       = ((), Inr (Some a))"
    using sha256.digest_form
    by (simp add: client_get_def get_query_def cache_identifier_def ids get_result_def exchanged_def check_artifact_def Let_def demo_reply_headers
        decimal_header_def n lift_value_def lift_cache_def opt_json_def cache_digest_def demo_client_def)
  then obtain a where "client_get (\<lambda>rq w. (w, Answered demo_reply ''abc'')) sha256_hex demo_client (JStr ''run-1'') (JStr ''clip-9'')
      (JStr ''frames'') JNull () = ((), Inr (Some a))" by blast
  with client_accepts_only_named_content [OF this] show ?thesis by blast
qed

end
