(* ===== verification/Scoring.thy ===== *)
theory Scoring
  imports Py_Json
begin

text \<open>
  The frozen task-scoring contracts (\<open>pathfinder/distributed/scoring.py\<close>): the labels a scoring rule
  needs, their validation, the evaluation of an answer, and the question shown to the Agent.

  A workload is a dictionary of JSON values. \<open>str.casefold\<close> depends on the Unicode tables and is the
  parameter \<open>casefold\<close>.
\<close>

section \<open>Strings\<close>

text \<open>\<open>str.split()\<close>: the maximal runs of characters that are not white space.\<close>

function split_from :: "string \<Rightarrow> string \<Rightarrow> string list" where
  "split_from word s =
     (case front_space unicode_spaces s of
        Some w \<Rightarrow> (if word = [] then [] else [rev word]) @ split_from [] (drop (length w) s)
      | None \<Rightarrow>
          (case s of [] \<Rightarrow> (if word = [] then [] else [rev word])
           | c # r \<Rightarrow> split_from (c # word) r))"
  by pat_completeness auto
termination
  by (relation "measure (\<lambda>(w, s). length s)") (use front_space_shortens in auto)

declare split_from.simps [simp del]

definition split_ws :: "string \<Rightarrow> string list" where
  "split_ws s = split_from [] s"

fun is_infix :: "string \<Rightarrow> string \<Rightarrow> bool" where
  "is_infix x [] = (x = [])"
| "is_infix x (c # s) = (prefix x (c # s) \<or> is_infix x s)"

section \<open>Rules\<close>

definition ACCEPTED_SUBSTRING_SCORING_RULE :: string where
  "ACCEPTED_SUBSTRING_SCORING_RULE = ''accepted-answer-substring-match''"

definition MULTIPLE_CHOICE_EXACT_SCORING_RULE :: string where
  "MULTIPLE_CHOICE_EXACT_SCORING_RULE = ''multiple-choice-option-id-exact-match-v1''"

definition MULTIPLE_CHOICE_CANONICAL_OPTION_SCORING_RULE :: string where
  "MULTIPLE_CHOICE_CANONICAL_OPTION_SCORING_RULE = ''multiple-choice-option-id-canonical-match-v1''"

definition SUCCESS_SCORING_RULES :: "string list" where
  "SUCCESS_SCORING_RULES =
     [ACCEPTED_SUBSTRING_SCORING_RULE, MULTIPLE_CHOICE_EXACT_SCORING_RULE,
      MULTIPLE_CHOICE_CANONICAL_OPTION_SCORING_RULE]"

lemmas scoring_rule_defs = ACCEPTED_SUBSTRING_SCORING_RULE_def MULTIPLE_CHOICE_EXACT_SCORING_RULE_def
  MULTIPLE_CHOICE_CANONICAL_OPTION_SCORING_RULE_def SUCCESS_SCORING_RULES_def

definition option_id_char :: "char \<Rightarrow> bool" where
  "option_id_char c \<longleftrightarrow> is_upper c \<or> is_digit c \<or> c = CHR ''_'' \<or> c = CHR ''-''"

definition OPTION_ID :: "string \<Rightarrow> bool" where
  "OPTION_ID s = match_ident is_upper option_id_char 15 s"

text \<open>
  \<open>(?:(ID)|[\[\(...]\s*(ID)\s*[\]\)...])\Z\<close>: a bare option, or one between an opening and a closing
  bracket, ASCII or full width. An option has no white space at its ends, so the two
  \<open>\s*\<close> take exactly what \<open>strip\<close> removes.
\<close>

definition open_brackets :: "string list" where
  "open_brackets = [''['', ''('', [CHR 0xEF, CHR 0xBC, CHR 0xBB], [CHR 0xEF, CHR 0xBC, CHR 0x88]]"

definition close_brackets :: "string list" where
  "close_brackets = ['']'', '')'', [CHR 0xEF, CHR 0xBC, CHR 0xBD], [CHR 0xEF, CHR 0xBC, CHR 0x89]]"

definition canonical_option :: "string \<Rightarrow> string option" where
  "canonical_option s =
     (if OPTION_ID s then Some s
      else case (find (\<lambda>b. prefix b s) open_brackets, find (\<lambda>b. suffix b s) close_brackets) of
             (Some l, Some r) \<Rightarrow>
               if length l + length r \<le> length s
               then (let inner = strip (take (length s - length l - length r) (drop (length l) s))
                     in if OPTION_ID inner then Some inner else None)
               else None
           | _ \<Rightarrow> None)"

section \<open>Contracts\<close>

datatype scoring_error = WorkloadScoringError string

record answer_option =
  ao_option_id :: string
  ao_text :: string

record scoring_contract =
  sc_rule :: string
  sc_accepted_answer_substrings :: "string list"
  sc_answer_options :: "answer_option list"
  sc_correct_answer_id :: "string option"

definition to_public_dict :: "answer_option \<Rightarrow> json" where
  "to_public_dict o' = JObj [(''option_id'', JStr (ao_option_id o')), (''text'', JStr (ao_text o'))]"

definition record_fields :: "scoring_contract \<Rightarrow> dict" where
  "record_fields c =
     [(''success_scoring_rule'', JStr (sc_rule c))] @
     (if sc_rule c = ACCEPTED_SUBSTRING_SCORING_RULE
      then [(''accepted_answer_substrings'', JArr (map JStr (sc_accepted_answer_substrings c)))]
      else [(''answer_options'', JArr (map to_public_dict (sc_answer_options c))),
            (''correct_answer_id'', case sc_correct_answer_id c of None \<Rightarrow> JNull | Some i \<Rightarrow> JStr i)])"

definition nonempty_string :: "json \<Rightarrow> string \<Rightarrow> scoring_error + string" where
  "nonempty_string v name =
     (case v of
        JStr s \<Rightarrow> require (strip s \<noteq> []) (WorkloadScoringError (name @ '' must be a non-empty string'')) (Inr (strip s))
      | _ \<Rightarrow> Inl (WorkloadScoringError (name @ '' must be a non-empty string'')))"

definition indexed :: "string \<Rightarrow> int \<Rightarrow> string" where
  "indexed name i = name @ ''['' @ int_str i @ '']''"

fun load_answers :: "string \<Rightarrow> int \<Rightarrow> json list \<Rightarrow> scoring_error + string list" where
  "load_answers name i [] = Inr []"
| "load_answers name i (v # vs) =
     bind_res (nonempty_string v (indexed (name @ ''.accepted_answer_substrings'') i)) (\<lambda>a.
     bind_res (load_answers name (i + 1) vs) (\<lambda>as. Inr (a # as)))"

definition load_option :: "string \<Rightarrow> json \<Rightarrow> scoring_error + answer_option" where
  "load_option name raw =
     (case raw of
        JObj d \<Rightarrow>
          bind_res (nonempty_string (dget d ''option_id'') (name @ ''.option_id'')) (\<lambda>oid.
          require (OPTION_ID oid) (WorkloadScoringError (name @ ''.option_id must match [A-Z][A-Z0-9_-]{0,15}'')) (
          bind_res (nonempty_string (dget d ''text'') (name @ ''.text'')) (\<lambda>txt.
          Inr \<lparr>ao_option_id = oid, ao_text = txt\<rparr>)))
      | _ \<Rightarrow> Inl (WorkloadScoringError (name @ '' must be an object'')))"

fun load_options :: "string \<Rightarrow> int \<Rightarrow> json list \<Rightarrow> scoring_error + answer_option list" where
  "load_options name i [] = Inr []"
| "load_options name i (v # vs) =
     bind_res (load_option (indexed (name @ ''.answer_options'') i) v) (\<lambda>a.
     bind_res (load_options name (i + 1) vs) (\<lambda>as. Inr (a # as)))"

definition load_workload_scoring_contract ::
  "dict \<Rightarrow> string \<Rightarrow> string \<Rightarrow> scoring_error + scoring_contract" where
  "load_workload_scoring_contract workload rule name =
     require (rule \<in> set SUCCESS_SCORING_RULES) (WorkloadScoringError (''unsupported success_scoring_rule: '' @ rule)) (
     bind_res (nonempty_string (dget workload ''object_id'') (name @ ''.object_id'')) (\<lambda>_.
     bind_res (nonempty_string (dget workload ''question'') (name @ ''.question'')) (\<lambda>_.
     if rule = ACCEPTED_SUBSTRING_SCORING_RULE
     then (case dget workload ''accepted_answer_substrings'' of
             JArr raw \<Rightarrow>
               bind_res (load_answers name 0 raw) (\<lambda>answers.
               require (distinct answers)
                 (WorkloadScoringError (name @ ''.accepted_answer_substrings contains duplicates''))
                 (Inr \<lparr>sc_rule = rule, sc_accepted_answer_substrings = answers, sc_answer_options = [],
                       sc_correct_answer_id = None\<rparr>))
           | _ \<Rightarrow> Inl (WorkloadScoringError (name @ ''.accepted_answer_substrings must be an array'')))
     else (case dget workload ''answer_options'' of
             JArr raw_options \<Rightarrow>
               require (2 \<le> length raw_options)
                 (WorkloadScoringError (name @ ''.answer_options must contain at least two ordered options'')) (
               bind_res (load_options name 0 raw_options) (\<lambda>options.
               require (distinct (map ao_option_id options))
                 (WorkloadScoringError (name @ ''.answer_options has duplicate IDs'')) (
               bind_res (nonempty_string (dget workload ''correct_answer_id'') (name @ ''.correct_answer_id'')) (\<lambda>correct.
               require (correct \<in> set (map ao_option_id options))
                 (WorkloadScoringError (name @ ''.correct_answer_id does not name a declared option'')) (
               require (dget workload ''accepted_answer_substrings'' \<in> {JNull, JArr []})
                 (WorkloadScoringError (name @ '' mixes exact-match labels with accepted_answer_substrings''))
                 (Inr \<lparr>sc_rule = rule, sc_accepted_answer_substrings = [], sc_answer_options = options,
                       sc_correct_answer_id = Some correct\<rparr>))))))
           | _ \<Rightarrow> Inl (WorkloadScoringError (name @ ''.answer_options must contain at least two ordered options''))))))"

definition manifest_name :: "string \<Rightarrow> string" where
  "manifest_name wid = ''workloads['' @ py_repr wid @ '']''"

text \<open>
  The loop over the planned workloads: \<open>objects\<close> maps the object of each workload seen to its
  identifier, \<open>contracts\<close> is the result so far.
\<close>

fun manifest_loop ::
  "dict \<Rightarrow> string \<Rightarrow> string list \<Rightarrow> (string \<times> string) list \<Rightarrow> (string \<times> scoring_contract) list
   \<Rightarrow> scoring_error + (string \<times> scoring_contract) list" where
  "manifest_loop workloads rule [] objects contracts = Inr contracts"
| "manifest_loop workloads rule (wid # wids) objects contracts =
     (case dget workloads wid of
        JObj workload \<Rightarrow>
          bind_res (load_workload_scoring_contract workload rule (manifest_name wid)) (\<lambda>contract.
            if rule \<in> {MULTIPLE_CHOICE_EXACT_SCORING_RULE, MULTIPLE_CHOICE_CANONICAL_OPTION_SCORING_RULE}
            then (let object_id = (case dget workload ''object_id'' of JStr s \<Rightarrow> strip s | _ \<Rightarrow> [])
                  in case map_of objects object_id of
                       Some previous \<Rightarrow>
                         Inl (WorkloadScoringError (''workloads '' @ py_repr previous @ '' and '' @ py_repr wid @ '' share object_id ''
                           @ py_repr object_id @ ''; independent-unit count would be inflated''))
                     | None \<Rightarrow>
                         manifest_loop workloads rule wids (dict_set objects object_id wid) (dict_set contracts wid contract))
            else manifest_loop workloads rule wids objects (dict_set contracts wid contract))
      | _ \<Rightarrow> Inl (WorkloadScoringError (manifest_name wid @ '' must be an object'')))"

definition validate_workload_manifest ::
  "dict \<Rightarrow> string list \<Rightarrow> string \<Rightarrow> scoring_error + (string \<times> scoring_contract) list" where
  "validate_workload_manifest workloads workload_ids rule =
     (let missing = sort (remdups (filter (\<lambda>w. w \<notin> keys workloads) workload_ids))
      in require (missing = []) (WorkloadScoringError (''no workload definition for: '' @ join '', '' missing))
           (manifest_loop workloads rule workload_ids [] []))"

section \<open>Evaluation\<close>

definition normalize :: "(string \<Rightarrow> string) \<Rightarrow> string \<Rightarrow> string" where
  "normalize casefold s = join '' '' (split_ws (casefold s))"

definition evaluate_workload_answer :: "(string \<Rightarrow> string) \<Rightarrow> string \<Rightarrow> scoring_contract \<Rightarrow> bool option" where
  "evaluate_workload_answer casefold answer c =
     (if sc_rule c = ACCEPTED_SUBSTRING_SCORING_RULE
      then if sc_accepted_answer_substrings c = [] then None
           else Some (list_ex (\<lambda>candidate. is_infix (normalize casefold candidate) (normalize casefold answer))
                        (sc_accepted_answer_substrings c))
      else if sc_rule c = MULTIPLE_CHOICE_EXACT_SCORING_RULE
      then Some (Some (strip answer) = sc_correct_answer_id c)
      else (case canonical_option (strip answer) of
              None \<Rightarrow> Some False
            | Some canonical \<Rightarrow> Some (Some canonical = sc_correct_answer_id c)))"

definition render_workload_question :: "dict \<Rightarrow> scoring_contract \<Rightarrow> string" where
  "render_workload_question workload c =
     (let question = (case dget workload ''question'' of JStr s \<Rightarrow> strip s | _ \<Rightarrow> [])
      in if sc_rule c = ACCEPTED_SUBSTRING_SCORING_RULE then question
         else question @ [CHR 0x0A, CHR 0x0A] @ ''Options:'' @ [CHR 0x0A]
           @ join [CHR 0x0A] (map (\<lambda>p. ''['' @ ao_option_id p @ ''] '' @ ao_text p) (sc_answer_options c))
           @ [CHR 0x0A, CHR 0x0A] @ ''Return exactly one listed option ID and no other text.'')"

end
