(* ===== verification/Oracle_Model.thy ===== *)
theory Oracle_Model
  imports Sha256 Json_Read Scoring "HOL-Library.Product_Lexorder"
begin

text \<open>
  The hidden-label scoring service of node N1 (\<open>pathfinder/simulator/hidden_oracle.py\<close>).

  A JSON value that crosses the boundary is a \<open>json\<close>, validated by the code into the records and
  dictionaries below. \<open>H\<close> is SHA-256 and \<open>M\<close> is HMAC-SHA-256, both in hexadecimal. The frozen
  package is a directory of three files, each \<open>None\<close> if it cannot be read. \<open>score_store\<close> is the SQLite
  database: the state row, the score rows in the order of their insertion, and the columns of
  the score table. \<open>OracleOther\<close> is an exception the code does not raise itself, such as a
  \<open>TypeError\<close>.
\<close>

section \<open>Constants\<close>

definition N1_PUBLIC_TASK_SCHEMA_VERSION :: string where
  "N1_PUBLIC_TASK_SCHEMA_VERSION = ''pathfinder.n1-public-task-binding/v1alpha1''"

definition N1_LABEL_SOURCE_SCHEMA_VERSION :: string where
  "N1_LABEL_SOURCE_SCHEMA_VERSION = ''pathfinder.n1-hidden-label-source/v1alpha1''"

definition N1_ORACLE_PACKAGE_SCHEMA_VERSION :: string where
  "N1_ORACLE_PACKAGE_SCHEMA_VERSION = ''pathfinder.n1-oracle-package/v1alpha1''"

definition N1_SCORE_REQUEST_SCHEMA_VERSION :: string where
  "N1_SCORE_REQUEST_SCHEMA_VERSION = ''pathfinder.n1-score-request/v1alpha2''"

definition N1_SCORE_RESULT_SCHEMA_VERSION :: string where
  "N1_SCORE_RESULT_SCHEMA_VERSION = ''pathfinder.n1-score-result/v1alpha2''"

definition N1_ORACLE_SERVICE_API_VERSION :: string where
  "N1_ORACLE_SERVICE_API_VERSION = ''pathfinder.n1-oracle-service/v1alpha2''"

definition N1_SCORE_STORE_SCHEMA_VERSION :: string where
  "N1_SCORE_STORE_SCHEMA_VERSION = ''pathfinder.n1-oracle-score-store/v1alpha2''"

definition N1_NODE_ID :: string where
  "N1_NODE_ID = ''N1''"

definition LEGACY_SCORE_REQUEST_SCHEMA_VERSION :: string where
  "LEGACY_SCORE_REQUEST_SCHEMA_VERSION = ''pathfinder.n1-score-request/v1alpha1''"

definition LEGACY_SCORE_RESULT_SCHEMA_VERSION :: string where
  "LEGACY_SCORE_RESULT_SCHEMA_VERSION = ''pathfinder.n1-score-result/v1alpha1''"

definition LEGACY_SCORE_STORE_SCHEMA_VERSION :: string where
  "LEGACY_SCORE_STORE_SCHEMA_VERSION = ''pathfinder.n1-score-result/v1alpha1''"

definition SCORING_RULES :: "string list" where
  "SCORING_RULES = [MULTIPLE_CHOICE_EXACT_SCORING_RULE, MULTIPLE_CHOICE_CANONICAL_OPTION_SCORING_RULE]"

definition MAX_REQUEST_BYTES :: int where
  "MAX_REQUEST_BYTES = 128 * 1024"

definition MAX_RESPONSE_BYTES :: int where
  "MAX_RESPONSE_BYTES = 512 * 1024"

definition MAX_QUESTION_BYTES :: int where
  "MAX_QUESTION_BYTES = 64 * 1024"

definition MAX_PREDICTION_BYTES :: int where
  "MAX_PREDICTION_BYTES = 16 * 1024"

definition PUBLIC_TASK_FIELDS :: "string list" where
  "PUBLIC_TASK_FIELDS =
     [''schema_version'', ''workload_id'', ''object_id'', ''task_class_id'', ''question'',
      ''answer_options'', ''success_scoring_rule'', ''credentials_recorded'', ''task_binding_sha256'']"

definition LABEL_SOURCE_FIELDS :: "string list" where
  "LABEL_SOURCE_FIELDS =
     [''schema_version'', ''oracle_id'', ''logical_node_id'', ''labels'', ''credentials_recorded'']"

definition LABEL_FIELDS :: "string list" where
  "LABEL_FIELDS =
     [''object_id'', ''task_binding_sha256'', ''success_scoring_rule'', ''answer_option_ids'',
      ''correct_answer_id'']"

definition SCORE_REQUEST_FIELDS :: "string list" where
  "SCORE_REQUEST_FIELDS =
     [''schema_version'', ''score_request_id'', ''evaluation_unit_id'', ''oracle_id'', ''run_id'',
      ''trial_id'', ''object_id'', ''task_binding_sha256'', ''predicted_answer'', ''credentials_recorded'']"

definition SCORE_RESULT_FIELDS :: "string list" where
  "SCORE_RESULT_FIELDS =
     [''schema_version'', ''status'', ''score_request_id'', ''evaluation_unit_id'', ''oracle_id'',
      ''node_id'', ''run_id'', ''trial_id'', ''object_id'', ''task_binding_sha256'', ''request_sha256'',
      ''prediction_sha256'', ''success_scoring_rule'', ''correct'', ''score'', ''public_task_set_sha256'',
      ''oracle_instance_hmac_sha256'', ''score_evidence_hmac_sha256'', ''result_content_sha256'',
      ''idempotent_replay'', ''hidden_answer_returned'', ''credentials_recorded'',
      ''eligible_for_scientific_claims'']"

definition HIDDEN_FIELD_NAMES :: "string list" where
  "HIDDEN_FIELD_NAMES =
     [''correct_answer_id'', ''accepted_answer_substrings'', ''hidden_labels'', ''labels'',
      ''label_package'', ''label_package_path'']"

definition PACKAGE_FIELDS :: "string list" where
  "PACKAGE_FIELDS =
     [''schema_version'', ''status'', ''logical_node_id'', ''oracle_id'', ''label_count'',
      ''hidden_labels_sha256'', ''public_task_set_sha256'', ''label_values_hidden'',
      ''not_for_flowmesh_plan'', ''endpoint_binding_present'', ''credentials_recorded'',
      ''eligible_for_scientific_claims'']"

definition SCORE_COLUMNS :: "string list" where
  "SCORE_COLUMNS =
     [''score_request_id'', ''evaluation_unit_id'', ''run_id'', ''trial_id'', ''request_sha256'',
      ''request_json'', ''response_json'', ''created_at'']"

section \<open>Helpers\<close>

datatype oracle_error =
    N1OracleError string
  | N1OracleIdempotencyConflict string
  | OracleOther string

type_synonym 'a oracle_result = "oracle_error + 'a"

definition json_value :: "bytes \<Rightarrow> string \<Rightarrow> json oracle_result" where
  "json_value raw name =
     (case loads_bytes raw of
        Inr v \<Rightarrow> Inr v
      | Inl JSONDecodeError \<Rightarrow> Inl (N1OracleError (name @ '' must be valid UTF-8 JSON''))
      | Inl (DuplicateKey k) \<Rightarrow> Inl (N1OracleError (''duplicate JSON key: '' @ k))
      | Inl (NonFinite t) \<Rightarrow> Inl (N1OracleError (''non-finite JSON number: '' @ t)))"

definition read_json :: "string \<Rightarrow> bytes option \<Rightarrow> string \<Rightarrow> (bytes \<times> json) oracle_result" where
  "read_json path content name =
     (case content of
        None \<Rightarrow> Inl (N1OracleError (''cannot read '' @ name @ '': '' @ path))
      | Some raw \<Rightarrow> bind_res (json_value raw name) (\<lambda>v. Inr (raw, v)))"

definition mapping :: "json \<Rightarrow> string \<Rightarrow> dict oracle_result" where
  "mapping v name = (case v of JObj d \<Rightarrow> Inr d | _ \<Rightarrow> Inl (N1OracleError (name @ '' must be an object'')))"

definition array :: "json \<Rightarrow> string \<Rightarrow> json list oracle_result" where
  "array v name = (case v of JArr xs \<Rightarrow> Inr xs | _ \<Rightarrow> Inl (N1OracleError (name @ '' must be an array'')))"

definition exact_fields :: "dict \<Rightarrow> string list \<Rightarrow> string \<Rightarrow> 'a oracle_result \<Rightarrow> 'a oracle_result" where
  "exact_fields d expected name k = require (keys d = set expected) (N1OracleError (name @ '' fields changed'')) k"

definition oracle_text :: "json \<Rightarrow> string \<Rightarrow> int \<Rightarrow> string oracle_result" where
  "oracle_text v name max_bytes =
     (case v of
        JStr s \<Rightarrow>
          require (s = strip s \<and> s \<noteq> []) (N1OracleError (name @ '' is not canonical'')) (
          require (int (length s) \<le> max_bytes) (N1OracleError (name @ '' is too large'')) (Inr s))
      | _ \<Rightarrow> Inl (N1OracleError (name @ '' must be a string'')))"

definition oracle_ident_char :: "char \<Rightarrow> bool" where
  "oracle_ident_char c \<longleftrightarrow> is_alnum c \<or> c \<in> {CHR ''.'', CHR ''_'', CHR ''|'', CHR '':'', CHR ''+'', CHR ''-''}"

definition oracle_IDENTIFIER :: "string \<Rightarrow> bool" where
  "oracle_IDENTIFIER s = match_ident is_alnum oracle_ident_char 255 s"

definition oracle_identifier :: "json \<Rightarrow> string \<Rightarrow> string oracle_result" where
  "oracle_identifier v name =
     bind_res (oracle_text v name 256) (\<lambda>s.
     require (oracle_IDENTIFIER s) (N1OracleError (name @ '' is invalid'')) (Inr s))"

definition oracle_option_id :: "json \<Rightarrow> string \<Rightarrow> string oracle_result" where
  "oracle_option_id v name =
     bind_res (oracle_text v name 16) (\<lambda>s.
     require (OPTION_ID s) (N1OracleError (name @ '' is invalid'')) (Inr s))"

definition oracle_digest :: "json \<Rightarrow> string \<Rightarrow> string oracle_result" where
  "oracle_digest v name =
     bind_res (oracle_text v name 64) (\<lambda>s.
     require (match_sha256 s) (N1OracleError (name @ '' is not SHA-256'')) (Inr s))"

definition file_json_bytes :: "json \<Rightarrow> bytes" where
  "file_json_bytes v = dumps_indent v 0 @ [CHR 0x0A]"

definition value_sha256 :: "(bytes \<Rightarrow> string) \<Rightarrow> json \<Rightarrow> string" where
  "value_sha256 H v = H (dumps v)"

definition value_hmac :: "(bytes \<Rightarrow> bytes \<Rightarrow> string) \<Rightarrow> bytes \<Rightarrow> json \<Rightarrow> string" where
  "value_hmac M secret v = M secret (dumps v)"

text \<open>\<open>value in _SCORING_RULES\<close>: a frozen set of strings; an unhashable value raises.\<close>

definition rule_in_set :: "json \<Rightarrow> string \<Rightarrow> 'a oracle_result \<Rightarrow> 'a oracle_result" where
  "rule_in_set v msg k =
     (case v of
        JArr _ \<Rightarrow> Inl (OracleOther ''TypeError'')
      | JObj _ \<Rightarrow> Inl (OracleOther ''TypeError'')
      | _ \<Rightarrow> require (v \<in> JStr ` set SCORING_RULES) (N1OracleError msg) k)"

section \<open>Public task bindings\<close>

definition validate_option :: "string \<Rightarrow> int \<Rightarrow> string list \<Rightarrow> json \<Rightarrow> (string \<times> string) oracle_result" where
  "validate_option name i seen item =
     bind_res (mapping item (indexed name i)) (\<lambda>opt.
     require (keys opt = set [''option_id'', ''text'']) (N1OracleError (indexed name i @ '' fields changed'')) (
     bind_res (oracle_option_id (dget opt ''option_id'') ''option_id'') (\<lambda>oid.
     require (oid \<notin> set seen) (N1OracleError (name @ '' repeats an option_id'')) (
     bind_res (oracle_text (dget opt ''text'') ''option text'' (16 * 1024)) (\<lambda>txt.
     Inr (oid, txt))))))"

fun validate_option_list :: "string \<Rightarrow> int \<Rightarrow> string list \<Rightarrow> json list \<Rightarrow> (string \<times> string) list oracle_result" where
  "validate_option_list name i seen [] = Inr []"
| "validate_option_list name i seen (item # items) =
     bind_res (validate_option name i seen item) (\<lambda>(oid, txt).
     bind_res (validate_option_list name (i + 1) (oid # seen) items) (\<lambda>rest. Inr ((oid, txt) # rest)))"

definition option_json :: "string \<times> string \<Rightarrow> json" where
  "option_json p = JObj [(''option_id'', JStr (fst p)), (''text'', JStr (snd p))]"

definition validate_options :: "json \<Rightarrow> string \<Rightarrow> (string \<times> string) list oracle_result" where
  "validate_options v name =
     bind_res (array v name) (\<lambda>raw.
     require (2 \<le> length raw \<and> length raw \<le> 32) (N1OracleError (name @ '' must contain 2 to 32 options''))
       (validate_option_list name 0 [] raw))"

definition zero_digest :: string where
  "zero_digest = replicate 64 CHR ''0''"

definition validate_public_task :: "(bytes \<Rightarrow> string) \<Rightarrow> json \<Rightarrow> dict oracle_result" where
  "validate_public_task H v =
     bind_res (mapping v ''public task binding'') (\<lambda>raw.
     exact_fields raw PUBLIC_TASK_FIELDS ''public task binding'' (
     require (dget raw ''schema_version'' = JStr N1_PUBLIC_TASK_SCHEMA_VERSION)
       (N1OracleError ''unsupported public task schema_version'') (
     bind_res (oracle_identifier (dget raw ''workload_id'') ''workload_id'') (\<lambda>_.
     bind_res (oracle_identifier (dget raw ''object_id'') ''object_id'') (\<lambda>_.
     bind_res (oracle_identifier (dget raw ''task_class_id'') ''task_class_id'') (\<lambda>_.
     bind_res (oracle_text (dget raw ''question'') ''question'' MAX_QUESTION_BYTES) (\<lambda>_.
     bind_res (validate_options (dget raw ''answer_options'') ''answer_options'') (\<lambda>options.
     (let task = dict_set raw ''answer_options'' (JArr (map option_json options))
      in rule_in_set (dget task ''success_scoring_rule'') ''unsupported public scoring rule'' (
         require (dget task ''credentials_recorded'' = JBool False) (N1OracleError ''public task records credentials'') (
         bind_res (oracle_digest (dget task ''task_binding_sha256'') ''task_binding_sha256'') (\<lambda>supplied.
         require (supplied = zero_digest \<or> supplied = value_sha256 H (JObj (dict_del task ''task_binding_sha256'')))
           (N1OracleError ''public task binding mismatch'') (Inr task)))))))))))))"

definition build_n1_public_task_binding ::
  "(bytes \<Rightarrow> string) \<Rightarrow> json \<Rightarrow> json \<Rightarrow> json \<Rightarrow> json \<Rightarrow> dict list \<Rightarrow> json \<Rightarrow> dict oracle_result" where
  "build_n1_public_task_binding H workload_id object_id task_class_id question answer_options success_scoring_rule =
     bind_res (validate_public_task H (JObj
       [(''schema_version'', JStr N1_PUBLIC_TASK_SCHEMA_VERSION), (''workload_id'', workload_id),
        (''object_id'', object_id), (''task_class_id'', task_class_id), (''question'', question),
        (''answer_options'', JArr (map JObj answer_options)), (''success_scoring_rule'', success_scoring_rule),
        (''credentials_recorded'', JBool False), (''task_binding_sha256'', JStr zero_digest)])) (\<lambda>validated.
     Inr (dict_set validated ''task_binding_sha256''
       (JStr (value_sha256 H (JObj (dict_del validated ''task_binding_sha256''))))))"

section \<open>Hidden labels\<close>

record label =
  l_object_id :: string
  l_task_binding_sha256 :: string
  l_success_scoring_rule :: string
  l_answer_option_ids :: "string list"
  l_correct_answer_id :: string

fun json_text :: "json \<Rightarrow> string" where
  "json_text (JStr s) = s"
| "json_text _ = []"

text \<open>The fields of a validated task are strings and a list of options, so reading them does not fail.\<close>

definition task_option_ids :: "dict \<Rightarrow> string list" where
  "task_option_ids task =
     (case dget task ''answer_options'' of
        JArr opts \<Rightarrow> map (\<lambda>p. case p of JObj d \<Rightarrow> json_text (dget d ''option_id'') | _ \<Rightarrow> []) opts
      | _ \<Rightarrow> [])"

definition build_n1_hidden_label_record :: "(bytes \<Rightarrow> string) \<Rightarrow> json \<Rightarrow> json \<Rightarrow> label oracle_result" where
  "build_n1_hidden_label_record H public_task_binding correct_answer_id =
     bind_res (validate_public_task H public_task_binding) (\<lambda>task.
     bind_res (oracle_option_id correct_answer_id ''correct_answer_id'') (\<lambda>correct.
     require (correct \<in> set (task_option_ids task)) (N1OracleError ''correct answer is not a declared option'') (
     Inr \<lparr>l_object_id = json_text (dget task ''object_id''),
          l_task_binding_sha256 = json_text (dget task ''task_binding_sha256''),
          l_success_scoring_rule = json_text (dget task ''success_scoring_rule''),
          l_answer_option_ids = task_option_ids task, l_correct_answer_id = correct\<rparr>)))"

fun hidden_walk :: "json \<Rightarrow> string \<Rightarrow> unit oracle_result"
  and hidden_walk_items :: "dict \<Rightarrow> string \<Rightarrow> unit oracle_result"
  and hidden_walk_list :: "json list \<Rightarrow> int \<Rightarrow> string \<Rightarrow> unit oracle_result" where
  "hidden_walk (JObj d) path = hidden_walk_items d path"
| "hidden_walk (JArr xs) path = hidden_walk_list xs 0 path"
| "hidden_walk v path = Inr ()"
| "hidden_walk_items [] path = Inr ()"
| "hidden_walk_items ((k, v) # d) path =
     require (k \<notin> set HIDDEN_FIELD_NAMES)
       (N1OracleError (''hidden oracle field entered public payload at '' @ path @ ''.'' @ k)) (
     bind_res (hidden_walk v (path @ ''.'' @ k)) (\<lambda>_. hidden_walk_items d path))"
| "hidden_walk_list [] i path = Inr ()"
| "hidden_walk_list (x # xs) i path =
     bind_res (hidden_walk x (indexed path i)) (\<lambda>_. hidden_walk_list xs (i + 1) path)"

definition assert_hidden_oracle_fields_absent :: "json \<Rightarrow> unit oracle_result" where
  "assert_hidden_oracle_fields_absent v = hidden_walk v ''$''"

definition label_key :: "label \<Rightarrow> string \<times> string" where
  "label_key l = (l_object_id l, l_task_binding_sha256 l)"

definition validate_label :: "int \<Rightarrow> (string \<times> string) list \<Rightarrow> json \<Rightarrow> label oracle_result" where
  "validate_label i seen item =
     bind_res (mapping item (indexed ''labels'' i)) (\<lambda>d.
     exact_fields d LABEL_FIELDS (indexed ''labels'' i) (
     bind_res (oracle_identifier (dget d ''object_id'') ''label.object_id'') (\<lambda>object_id.
     bind_res (oracle_digest (dget d ''task_binding_sha256'') ''label.task_binding_sha256'') (\<lambda>task_sha.
     require ((object_id, task_sha) \<notin> set seen) (N1OracleError ''duplicate object/task label'') (
     bind_res (oracle_text (dget d ''success_scoring_rule'') ''success_scoring_rule'' (16 * 1024)) (\<lambda>rule.
     require (rule \<in> set SCORING_RULES) (N1OracleError ''unsupported hidden scoring rule'') (
     bind_res (array (dget d ''answer_option_ids'') ''answer_option_ids'') (\<lambda>raw.
     bind_res (map_res (\<lambda>x. oracle_option_id x ''answer_option_id'') raw) (\<lambda>option_ids.
     require (2 \<le> length option_ids \<and> length option_ids \<le> 32) (N1OracleError ''answer_option_ids count is invalid'') (
     require (distinct option_ids) (N1OracleError ''answer_option_ids repeat'') (
     bind_res (oracle_option_id (dget d ''correct_answer_id'') ''correct_answer_id'') (\<lambda>correct.
     require (correct \<in> set option_ids) (N1OracleError ''correct answer is not a declared option'') (
     Inr \<lparr>l_object_id = object_id, l_task_binding_sha256 = task_sha, l_success_scoring_rule = rule,
          l_answer_option_ids = option_ids, l_correct_answer_id = correct\<rparr>)))))))))))))"

fun validate_label_list :: "int \<Rightarrow> (string \<times> string) list \<Rightarrow> json list \<Rightarrow> label list oracle_result" where
  "validate_label_list i seen [] = Inr []"
| "validate_label_list i seen (item # items) =
     bind_res (validate_label i seen item) (\<lambda>l.
     bind_res (validate_label_list (i + 1) (label_key l # seen) items) (\<lambda>ls. Inr (l # ls)))"

definition validate_label_source :: "json \<Rightarrow> (string \<times> label list) oracle_result" where
  "validate_label_source v =
     bind_res (mapping v ''hidden label source'') (\<lambda>root.
     exact_fields root LABEL_SOURCE_FIELDS ''hidden label source'' (
     require (dget root ''schema_version'' = JStr N1_LABEL_SOURCE_SCHEMA_VERSION)
       (N1OracleError ''unsupported hidden label schema_version'') (
     require (dget root ''logical_node_id'' = JStr N1_NODE_ID) (N1OracleError ''oracle node must be N1'') (
     require (dget root ''credentials_recorded'' = JBool False) (N1OracleError ''hidden label source records credentials'') (
     bind_res (oracle_identifier (dget root ''oracle_id'') ''oracle_id'') (\<lambda>oracle_id.
     bind_res (array (dget root ''labels'') ''labels'') (\<lambda>raw.
     bind_res (validate_label_list 0 [] raw) (\<lambda>labels.
     require (labels \<noteq> []) (N1OracleError ''hidden label source contains no labels'') (
     require (labels = sort_key label_key labels) (N1OracleError ''labels must be sorted by object and task binding'')
       (Inr (oracle_id, labels)))))))))))"

section \<open>The frozen package\<close>

definition public_task_json :: "label \<Rightarrow> json" where
  "public_task_json l =
     JObj [(''object_id'', JStr (l_object_id l)), (''task_binding_sha256'', JStr (l_task_binding_sha256 l)),
           (''success_scoring_rule'', JStr (l_success_scoring_rule l)),
           (''answer_option_ids'', JArr (map JStr (l_answer_option_ids l)))]"

definition public_task_set_sha256 :: "(bytes \<Rightarrow> string) \<Rightarrow> label list \<Rightarrow> string" where
  "public_task_set_sha256 H labels = value_sha256 H (JArr (map public_task_json labels))"

definition package_manifest :: "(bytes \<Rightarrow> string) \<Rightarrow> string \<Rightarrow> label list \<Rightarrow> bytes \<Rightarrow> dict" where
  "package_manifest H oracle_id labels hidden_bytes =
     [(''schema_version'', JStr N1_ORACLE_PACKAGE_SCHEMA_VERSION),
      (''status'', JStr ''FROZEN_HIDDEN_ORACLE''),
      (''logical_node_id'', JStr N1_NODE_ID),
      (''oracle_id'', JStr oracle_id),
      (''label_count'', JInt (int (length labels))),
      (''hidden_labels_sha256'', JStr (H hidden_bytes)),
      (''public_task_set_sha256'', JStr (public_task_set_sha256 H labels)),
      (''label_values_hidden'', JBool True),
      (''not_for_flowmesh_plan'', JBool True),
      (''endpoint_binding_present'', JBool False),
      (''credentials_recorded'', JBool False),
      (''eligible_for_scientific_claims'', JBool False)]"

type_synonym package = "(string \<times> bytes option) list"

definition checksum_line :: "string \<Rightarrow> string \<Rightarrow> string" where
  "checksum_line digest name = digest @ ''  '' @ name @ [CHR 0x0A]"

text \<open>\<open>str.splitlines\<close> after the newline translation of \<open>read_text\<close>.\<close>

definition line_breaks :: "string list" where
  "line_breaks = [[CHR 0x0D, CHR 0x0A], [CHR 0x0A], [CHR 0x0D], [CHR 0x0B], [CHR 0x0C], [CHR 0x1C], [CHR 0x1D],
     [CHR 0x1E], [CHR 0xC2, CHR 0x85], [CHR 0xE2, CHR 0x80, CHR 0xA8], [CHR 0xE2, CHR 0x80, CHR 0xA9]]"

function lines_from :: "string \<Rightarrow> string \<Rightarrow> string list" where
  "lines_from line s =
     (case front_space line_breaks s of
        Some w \<Rightarrow> rev line # lines_from [] (drop (length w) s)
      | None \<Rightarrow> (case s of [] \<Rightarrow> (if line = [] then [] else [rev line]) | c # r \<Rightarrow> lines_from (c # line) r))"
  by pat_completeness auto
termination
  by (relation "measure (\<lambda>(l, s). length s)") (use front_space_shortens in auto)

declare lines_from.simps [simp del]

definition splitlines :: "string \<Rightarrow> string list" where
  "splitlines s = lines_from [] s"

text \<open>\<open>line.partition("  ")\<close>: the parts before and after the first pair of spaces.\<close>

fun partition_spaces :: "string \<Rightarrow> (string \<times> string) option" where
  "partition_spaces (a # b # r) =
     (if a = CHR 0x20 \<and> b = CHR 0x20 then Some ([], r)
      else map_option (map_prod ((#) a) id) (partition_spaces (b # r)))"
| "partition_spaces _ = None"

definition checksum_names :: "string list" where
  "checksum_names = [''hidden-labels.json'', ''n1-oracle-package.json'']"

fun checksum_loop :: "string list \<Rightarrow> (string \<times> string) list \<Rightarrow> (string \<times> string) list oracle_result" where
  "checksum_loop [] found = Inr found"
| "checksum_loop (line # rest) found =
     (case partition_spaces line of
        None \<Rightarrow> Inl (N1OracleError ''malformed SHA256SUMS'')
      | Some (digest, name) \<Rightarrow>
          require (name \<in> set checksum_names) (N1OracleError ''malformed SHA256SUMS'') (
          bind_res (oracle_digest (JStr digest) ''checksum'') (\<lambda>_.
          require (name \<notin> fst ` set found) (N1OracleError (''duplicate checksum: '' @ name))
            (checksum_loop rest (found @ [(name, digest)])))))"

definition checksum_entries :: "bytes option \<Rightarrow> (string \<times> string) list oracle_result" where
  "checksum_entries content =
     (case content of
        None \<Rightarrow> Inl (N1OracleError ''cannot read oracle SHA256SUMS'')
      | Some raw \<Rightarrow>
          if \<not> valid_utf8 raw then Inl (OracleOther ''UnicodeDecodeError'')
          else bind_res (checksum_loop (splitlines raw) []) (\<lambda>found.
               require (fst ` set found = set checksum_names) (N1OracleError ''oracle checksums are incomplete'') (Inr found)))"

definition package_file :: "package \<Rightarrow> string \<Rightarrow> bytes option" where
  "package_file p name = (case map_of p name of None \<Rightarrow> None | Some c \<Rightarrow> c)"

definition check_manifest ::
  "(bytes \<Rightarrow> string) \<Rightarrow> string \<Rightarrow> label list \<Rightarrow> bytes \<Rightarrow> dict \<Rightarrow> unit oracle_result" where
  "check_manifest H oracle_id labels hidden_raw m =
     exact_fields m PACKAGE_FIELDS ''oracle package'' (
     require (dget m ''schema_version'' = JStr N1_ORACLE_PACKAGE_SCHEMA_VERSION)
       (N1OracleError ''unsupported oracle package schema_version'') (
     require (dget m ''status'' = JStr ''FROZEN_HIDDEN_ORACLE'') (N1OracleError ''oracle package is not frozen'') (
     require (dget m ''logical_node_id'' = JStr N1_NODE_ID) (N1OracleError ''oracle package node changed'') (
     require (dget m ''oracle_id'' = JStr oracle_id) (N1OracleError ''oracle_id binding mismatch'') (
     require (py_eq (dget m ''label_count'') (JInt (int (length labels)))) (N1OracleError ''label_count mismatch'') (
     require (dget m ''hidden_labels_sha256'' = JStr (H hidden_raw)) (N1OracleError ''hidden label binding mismatch'') (
     require (dget m ''public_task_set_sha256'' = JStr (public_task_set_sha256 H labels))
       (N1OracleError ''public task set binding mismatch'') (
     require (dget m ''label_values_hidden'' = JBool True) (N1OracleError ''label_values_hidden must be true'') (
     require (dget m ''not_for_flowmesh_plan'' = JBool True) (N1OracleError ''not_for_flowmesh_plan must be true'') (
     require (dget m ''endpoint_binding_present'' = JBool False) (N1OracleError ''endpoint_binding_present must be false'') (
     require (dget m ''credentials_recorded'' = JBool False) (N1OracleError ''credentials_recorded must be false'') (
     require (dget m ''eligible_for_scientific_claims'' = JBool False)
       (N1OracleError ''eligible_for_scientific_claims must be false'') (Inr ())))))))))))))"

definition load_verified_package ::
  "(bytes \<Rightarrow> string) \<Rightarrow> string \<Rightarrow> package option \<Rightarrow> (dict \<times> label list) oracle_result" where
  "load_verified_package H pkg_root dir =
     (case dir of
        None \<Rightarrow> Inl (N1OracleError (''oracle package does not exist: '' @ pkg_root))
      | Some files \<Rightarrow>
          require (fst ` set files = set (''SHA256SUMS'' # checksum_names)) (N1OracleError ''oracle package file set changed'') (
          bind_res (checksum_entries (package_file files ''SHA256SUMS'')) (\<lambda>checksums.
          bind_res (read_json (pkg_root @ ''/hidden-labels.json'') (package_file files ''hidden-labels.json'') ''hidden labels'') (\<lambda>(hidden_raw, hidden_value).
          bind_res (read_json (pkg_root @ ''/n1-oracle-package.json'') (package_file files ''n1-oracle-package.json'') ''oracle package manifest'') (\<lambda>(manifest_raw, manifest_value).
          require (hidden_raw = file_json_bytes hidden_value) (N1OracleError ''hidden labels are not canonical'') (
          require (manifest_raw = file_json_bytes manifest_value) (N1OracleError ''oracle manifest is not canonical'') (
          require (map_of checksums ''hidden-labels.json'' = Some (H hidden_raw)) (N1OracleError ''hidden label checksum mismatch'') (
          require (map_of checksums ''n1-oracle-package.json'' = Some (H manifest_raw)) (N1OracleError ''oracle manifest checksum mismatch'') (
          bind_res (validate_label_source hidden_value) (\<lambda>(oracle_id, labels).
          bind_res (mapping manifest_value ''oracle package manifest'') (\<lambda>manifest.
          bind_res (check_manifest H oracle_id labels hidden_raw manifest) (\<lambda>_.
          Inr (manifest, labels)))))))))))))"

definition verify_n1_oracle_package :: "(bytes \<Rightarrow> string) \<Rightarrow> string \<Rightarrow> package option \<Rightarrow> dict oracle_result" where
  "verify_n1_oracle_package H pkg_root dir =
     bind_res (load_verified_package H pkg_root dir) (\<lambda>(manifest, labels).
     Inr [(''status'', JStr ''VERIFIED''), (''logical_node_id'', JStr N1_NODE_ID),
          (''oracle_id'', dget manifest ''oracle_id''), (''label_count'', JInt (int (length labels))),
          (''public_task_set_sha256'', dget manifest ''public_task_set_sha256''),
          (''label_values_returned'', JBool False), (''checked_files'', JInt 3),
          (''eligible_for_scientific_claims'', JBool False)])"

text \<open>
  \<open>appeared\<close> says whether the target came into being while the package was staged. The package is
  returned next to the report; it is the directory the final rename puts in place.
\<close>

definition build_n1_oracle_package ::
  "(bytes \<Rightarrow> string) \<Rightarrow> string \<Rightarrow> bytes option \<Rightarrow> string \<Rightarrow> bool \<Rightarrow> bool \<Rightarrow> (package \<times> dict) oracle_result" where
  "build_n1_oracle_package H source content target exists appeared =
     require (\<not> exists) (N1OracleError (''oracle package already exists: '' @ target)) (
     bind_res (read_json source content ''hidden label source'') (\<lambda>(raw, source_value).
     bind_res (validate_label_source source_value) (\<lambda>(oracle_id, labels).
     (let hidden_bytes = file_json_bytes source_value;
          manifest_bytes = file_json_bytes (JObj (package_manifest H oracle_id labels hidden_bytes));
          checksums = checksum_line (H hidden_bytes) ''hidden-labels.json''
                      @ checksum_line (H manifest_bytes) ''n1-oracle-package.json'';
          stage = [(''hidden-labels.json'', Some hidden_bytes), (''n1-oracle-package.json'', Some manifest_bytes),
                   (''SHA256SUMS'', Some checksums)]
      in bind_res (verify_n1_oracle_package H target (Some stage)) (\<lambda>_.
         require (\<not> appeared) (N1OracleError (''oracle package already exists: '' @ target)) (
         Inr (stage,
           [(''status'', JStr ''FROZEN_HIDDEN_ORACLE''), (''logical_node_id'', JStr N1_NODE_ID),
            (''oracle_id'', JStr oracle_id), (''label_count'', JInt (int (length labels))),
            (''public_task_set_sha256'', JStr (public_task_set_sha256 H labels)),
            (''output_dir'', JStr target), (''label_values_returned'', JBool False),
            (''endpoint_binding_present'', JBool False), (''credentials_recorded'', JBool False),
            (''eligible_for_scientific_claims'', JBool False)])))))))"

section \<open>Score requests\<close>

definition build_n1_evaluation_unit_id ::
  "(bytes \<Rightarrow> string) \<Rightarrow> json \<Rightarrow> json \<Rightarrow> json \<Rightarrow> string oracle_result" where
  "build_n1_evaluation_unit_id H oracle_id run_id trial_id =
     bind_res (oracle_identifier oracle_id ''oracle_id'') (\<lambda>oid.
     bind_res (oracle_text run_id ''run_id'' 256) (\<lambda>rid.
     bind_res (oracle_text trial_id ''trial_id'' 256) (\<lambda>tid.
     Inr (value_sha256 H (JObj
       [(''domain'', JStr ''pathfinder.n1-evaluation-unit/v1''), (''oracle_id'', JStr oid),
        (''run_id'', JStr rid), (''trial_id'', JStr tid)])))))"

definition validate_score_request :: "(bytes \<Rightarrow> string) \<Rightarrow> json \<Rightarrow> dict oracle_result" where
  "validate_score_request H v =
     bind_res (mapping v ''score request'') (\<lambda>r.
     require (dget r ''schema_version'' \<noteq> JStr LEGACY_SCORE_REQUEST_SCHEMA_VERSION)
       (N1OracleError ''legacy score request schema is unsupported; rebuild the request with a frozen run_id and trial_id'') (
     require (dget r ''schema_version'' = JStr N1_SCORE_REQUEST_SCHEMA_VERSION)
       (N1OracleError ''unsupported score request schema_version'') (
     exact_fields r SCORE_REQUEST_FIELDS ''score request'' (
     bind_res (oracle_identifier (dget r ''score_request_id'') ''score_request_id'') (\<lambda>_.
     bind_res (oracle_identifier (dget r ''oracle_id'') ''oracle_id'') (\<lambda>oid.
     bind_res (oracle_text (dget r ''run_id'') ''run_id'' 256) (\<lambda>rid.
     bind_res (oracle_text (dget r ''trial_id'') ''trial_id'' 256) (\<lambda>tid.
     bind_res (build_n1_evaluation_unit_id H (JStr oid) (JStr rid) (JStr tid)) (\<lambda>unit.
     require (dget r ''evaluation_unit_id'' = JStr unit)
       (N1OracleError ''evaluation_unit_id does not match oracle_id, run_id, and trial_id'') (
     bind_res (oracle_identifier (dget r ''object_id'') ''object_id'') (\<lambda>_.
     bind_res (oracle_digest (dget r ''task_binding_sha256'') ''task_binding_sha256'') (\<lambda>_.
     (case dget r ''predicted_answer'' of
        JStr predicted \<Rightarrow>
          require (int (length predicted) \<le> MAX_PREDICTION_BYTES) (N1OracleError ''predicted_answer is too large'') (
          require (dget r ''credentials_recorded'' = JBool False) (N1OracleError ''score request records credentials'')
            (Inr r))
      | _ \<Rightarrow> Inl (N1OracleError ''predicted_answer must be a string''))))))))))))))"

definition build_n1_score_request ::
  "(bytes \<Rightarrow> string) \<Rightarrow> json \<Rightarrow> json \<Rightarrow> json \<Rightarrow> json \<Rightarrow> json \<Rightarrow> json \<Rightarrow> json \<Rightarrow> dict oracle_result" where
  "build_n1_score_request H score_request_id oracle_id run_id trial_id object_id task_binding_sha256 predicted_answer =
     bind_res (build_n1_evaluation_unit_id H oracle_id run_id trial_id) (\<lambda>unit.
     validate_score_request H (JObj
       [(''schema_version'', JStr N1_SCORE_REQUEST_SCHEMA_VERSION), (''score_request_id'', score_request_id),
        (''evaluation_unit_id'', JStr unit), (''oracle_id'', oracle_id), (''run_id'', run_id), (''trial_id'', trial_id),
        (''object_id'', object_id), (''task_binding_sha256'', task_binding_sha256),
        (''predicted_answer'', predicted_answer), (''credentials_recorded'', JBool False)]))"

definition score_answer :: "string \<Rightarrow> string \<Rightarrow> string \<Rightarrow> bool" where
  "score_answer predicted correct rule =
     (if rule = MULTIPLE_CHOICE_EXACT_SCORING_RULE then strip predicted = correct
      else canonical_option (strip predicted) = Some correct)"

section \<open>The score store\<close>

record oracle_state_row =
  os_schema_version :: string
  os_oracle_id :: string
  os_hidden_labels_sha256 :: string
  os_evidence_key_id :: string

record score_row =
  sr_score_request_id :: string
  sr_evaluation_unit_id :: string
  sr_run_id :: string
  sr_trial_id :: string
  sr_request_sha256 :: string
  sr_request_json :: string
  sr_response_json :: string

record score_store =
  oracle_state :: "oracle_state_row option"
  oracle_scores :: "score_row list"
  score_columns :: "string list"

definition empty_store :: score_store where
  "empty_store = \<lparr>oracle_state = None, oracle_scores = [], score_columns = SCORE_COLUMNS\<rparr>"

definition store_initialize ::
  "string \<Rightarrow> string \<Rightarrow> string \<Rightarrow> score_store \<Rightarrow> score_store \<times> unit oracle_result" where
  "store_initialize oid hidden_sha256 key_id db =
     (let row = \<lparr>os_schema_version = N1_SCORE_STORE_SCHEMA_VERSION, os_oracle_id = oid,
                 os_hidden_labels_sha256 = hidden_sha256, os_evidence_key_id = key_id\<rparr>;
          check = require (set (score_columns db) = set SCORE_COLUMNS) (N1OracleError ''oracle score database schema changed'') (Inr ())
      in case oracle_state db of
           None \<Rightarrow> (db\<lparr>oracle_state := Some row\<rparr>, check)
         | Some state \<Rightarrow>
             (db,
              require (os_schema_version state \<notin> {LEGACY_SCORE_STORE_SCHEMA_VERSION, LEGACY_SCORE_RESULT_SCHEMA_VERSION})
                (N1OracleError ''legacy oracle score database is unsupported; start with a new state database'') (
              require (state = row) (N1OracleError ''oracle database binding differs from mounted labels'') check)))"

definition find_score :: "score_store \<Rightarrow> string \<Rightarrow> score_row option" where
  "find_score db rq = find (\<lambda>r. sr_score_request_id r = rq) (oracle_scores db)"

definition find_unit :: "score_store \<Rightarrow> string \<Rightarrow> score_row option" where
  "find_unit db u = find (\<lambda>r. sr_evaluation_unit_id r = u) (oracle_scores db)"

abbreviation req_text :: "dict \<Rightarrow> string \<Rightarrow> string" where
  "req_text r k \<equiv> json_text (dget r k)"

definition stored_response :: "score_row \<Rightarrow> dict oracle_result" where
  "stored_response row =
     bind_res (json_value (sr_response_json row) ''stored score response'') (\<lambda>v. mapping v ''stored score response'')"

definition insert_score :: "(bytes \<Rightarrow> string) \<Rightarrow> dict \<Rightarrow> dict \<Rightarrow> score_store \<Rightarrow> score_store" where
  "insert_score H request response db =
     db\<lparr>oracle_scores := oracle_scores db @
         [\<lparr>sr_score_request_id = req_text request ''score_request_id'',
           sr_evaluation_unit_id = req_text request ''evaluation_unit_id'',
           sr_run_id = req_text request ''run_id'', sr_trial_id = req_text request ''trial_id'',
           sr_request_sha256 = H (dumps (JObj request)), sr_request_json = dumps (JObj request),
           sr_response_json = dumps (JObj response)\<rparr>]\<rparr>"

definition execute_once ::
  "(bytes \<Rightarrow> string) \<Rightarrow> dict \<Rightarrow> dict \<Rightarrow> score_store \<Rightarrow> score_store \<times> (dict \<times> bool) oracle_result" where
  "execute_once H request response db =
     (case find_score db (req_text request ''score_request_id'') of
        Some existing \<Rightarrow>
          (db,
           if sr_request_sha256 existing \<noteq> H (dumps (JObj request))
           then Inl (N1OracleIdempotencyConflict ''score_request_id was reused for a different request'')
           else bind_res (stored_response existing) (\<lambda>stored. Inr (stored, True)))
      | None \<Rightarrow>
          (case find_unit db (req_text request ''evaluation_unit_id'') of
             Some _ \<Rightarrow>
               (db, Inl (N1OracleIdempotencyConflict ''evaluation unit already consumed by another score request''))
           | None \<Rightarrow> (insert_score H request response db, Inr (response, False))))"

definition replay_if_present :: "(bytes \<Rightarrow> string) \<Rightarrow> dict \<Rightarrow> score_store \<Rightarrow> dict option oracle_result" where
  "replay_if_present H request db =
     (case find_score db (req_text request ''score_request_id'') of
        None \<Rightarrow>
          (case find_unit db (req_text request ''evaluation_unit_id'') of
             Some _ \<Rightarrow> Inl (N1OracleIdempotencyConflict ''evaluation unit already consumed by another score request'')
           | None \<Rightarrow> Inr None)
      | Some row \<Rightarrow>
          if sr_request_sha256 row \<noteq> value_sha256 H (JObj request)
          then Inl (N1OracleIdempotencyConflict ''score_request_id was reused for a different request'')
          else bind_res (stored_response row) (\<lambda>stored. Inr (Some stored)))"

definition score_count :: "score_store \<Rightarrow> int" where
  "score_count db = int (length (oracle_scores db))"

section \<open>Public score results\<close>

definition score_value :: "bool \<Rightarrow> json" where
  "score_value correct = (if correct then float_one else float_zero)"

definition check_public_score_result ::
  "(bytes \<Rightarrow> string) \<Rightarrow> dict \<Rightarrow> dict \<Rightarrow> string \<Rightarrow> json \<Rightarrow> dict oracle_result" where
  "check_public_score_result H request result expected_oracle_id expected_task_set =
     require (dget result ''schema_version'' \<noteq> JStr LEGACY_SCORE_RESULT_SCHEMA_VERSION)
       (N1OracleError ''legacy score result schema is unsupported; rescore with an evaluation-unit-bound oracle'') (
     require (dget result ''schema_version'' = JStr N1_SCORE_RESULT_SCHEMA_VERSION)
       (N1OracleError ''unsupported score result schema_version'') (
     exact_fields result SCORE_RESULT_FIELDS ''score result'' (
     require (dget result ''status'' = JStr ''SCORED'') (N1OracleError ''score did not complete'') (
     require (py_eq (dget result ''score_request_id'') (dget request ''score_request_id'')) (N1OracleError ''score_request_id mismatch'') (
     require (py_eq (dget result ''evaluation_unit_id'') (dget request ''evaluation_unit_id'')) (N1OracleError ''evaluation_unit_id mismatch'') (
     require (dget result ''oracle_id'' = JStr expected_oracle_id) (N1OracleError ''oracle_id mismatch'') (
     require (dget result ''node_id'' = JStr N1_NODE_ID) (N1OracleError ''score result did not come from N1'') (
     require (py_eq (dget result ''run_id'') (dget request ''run_id'')) (N1OracleError ''run_id mismatch'') (
     require (py_eq (dget result ''trial_id'') (dget request ''trial_id'')) (N1OracleError ''trial_id mismatch'') (
     require (py_eq (dget result ''object_id'') (dget request ''object_id'')) (N1OracleError ''object_id mismatch'') (
     require (py_eq (dget result ''task_binding_sha256'') (dget request ''task_binding_sha256'')) (N1OracleError ''task binding mismatch'') (
     require (dget result ''request_sha256'' = JStr (value_sha256 H (JObj request))) (N1OracleError ''request digest mismatch'') (
     require (dget result ''prediction_sha256'' = JStr (H (req_text request ''predicted_answer''))) (N1OracleError ''prediction digest mismatch'') (
     rule_in_set (dget result ''success_scoring_rule'') ''scoring rule changed'' (
     (case dget result ''correct'' of
        JBool correct \<Rightarrow>
          require (py_eq (dget result ''score'') (score_value correct)) (N1OracleError ''score and correctness disagree'') (
          bind_res (oracle_digest expected_task_set ''public_task_set_sha256'') (\<lambda>task_set.
          require (dget result ''public_task_set_sha256'' = JStr task_set) (N1OracleError ''public task set digest mismatch'') (
          bind_res (oracle_digest (dget result ''oracle_instance_hmac_sha256'') ''oracle instance HMAC'') (\<lambda>_.
          bind_res (oracle_digest (dget result ''score_evidence_hmac_sha256'') ''score evidence HMAC'') (\<lambda>_.
          require (dget result ''idempotent_replay'' \<in> {JBool True, JBool False}) (N1OracleError ''idempotent_replay is invalid'') (
          require (dget result ''hidden_answer_returned'' = JBool False) (N1OracleError ''hidden answer was returned'') (
          require (dget result ''credentials_recorded'' = JBool False) (N1OracleError ''score result records credentials'') (
          require (dget result ''eligible_for_scientific_claims'' = JBool False)
            (N1OracleError ''score result changes scientific eligibility'') (
          bind_res (oracle_digest (dget result ''result_content_sha256'') ''result content digest'') (\<lambda>content_sha.
          require (content_sha = value_sha256 H (JObj (dict_del result ''result_content_sha256'')))
            (N1OracleError ''result content digest mismatch'') (
          bind_res (assert_hidden_oracle_fields_absent (JObj result)) (\<lambda>_. Inr result))))))))))))
      | _ \<Rightarrow> Inl (N1OracleError ''correct must be a boolean'')))))))))))))))))"

definition validate_public_score_result ::
  "(bytes \<Rightarrow> string) \<Rightarrow> json \<Rightarrow> json \<Rightarrow> string \<Rightarrow> json \<Rightarrow> dict oracle_result" where
  "validate_public_score_result H request_value result_value expected_oracle_id expected_task_set =
     bind_res (validate_score_request H request_value) (\<lambda>request.
     bind_res (mapping result_value ''score result'') (\<lambda>result.
     check_public_score_result H request result expected_oracle_id expected_task_set))"

section \<open>The service\<close>

record oracle_service =
  svc_manifest :: dict
  svc_labels :: "label list"
  svc_secret :: bytes

definition svc_oracle_id :: "oracle_service \<Rightarrow> string" where
  "svc_oracle_id svc = req_text (svc_manifest svc) ''oracle_id''"

definition find_label :: "label list \<Rightarrow> dict \<Rightarrow> label option" where
  "find_label labels request =
     find (\<lambda>l. l_object_id l = req_text request ''object_id''
             \<and> l_task_binding_sha256 l = req_text request ''task_binding_sha256'') labels"

definition evidence_key_id :: "(bytes \<Rightarrow> bytes \<Rightarrow> string) \<Rightarrow> bytes \<Rightarrow> json \<Rightarrow> string" where
  "evidence_key_id M secret oid =
     value_hmac M secret (JObj [(''domain'', JStr ''pathfinder.n1-oracle-evidence-key/v1''), (''oracle_id'', oid)])"

definition open_service ::
  "(bytes \<Rightarrow> string) \<Rightarrow> (bytes \<Rightarrow> bytes \<Rightarrow> string) \<Rightarrow> string \<Rightarrow> package option \<Rightarrow> bytes \<Rightarrow> score_store
   \<Rightarrow> score_store \<times> oracle_service oracle_result" where
  "open_service H M pkg_root dir secret db =
     (case require (32 \<le> length secret) (N1OracleError ''evidence_secret must contain at least 32 bytes'')
             (load_verified_package H pkg_root dir) of
        Inl e \<Rightarrow> (db, Inl e)
      | Inr (manifest, labels) \<Rightarrow>
          (case oracle_digest (JStr (evidence_key_id M secret (dget manifest ''oracle_id''))) ''evidence_key_id'' of
             Inl e \<Rightarrow> (db, Inl e)
           | Inr key_id \<Rightarrow>
               (let (db', r) = store_initialize (req_text manifest ''oracle_id'') (req_text manifest ''hidden_labels_sha256'') key_id db
                in (db', map_sum id (\<lambda>_. \<lparr>svc_manifest = manifest, svc_labels = labels, svc_secret = secret\<rparr>) r))))"

definition oracle_health :: "oracle_service \<Rightarrow> dict" where
  "oracle_health svc =
     [(''schema_version'', JStr N1_ORACLE_SERVICE_API_VERSION), (''status'', JStr ''ok''), (''node_id'', JStr N1_NODE_ID),
      (''oracle_id'', dget (svc_manifest svc) ''oracle_id''),
      (''public_task_set_sha256'', dget (svc_manifest svc) ''public_task_set_sha256''),
      (''label_count'', dget (svc_manifest svc) ''label_count''),
      (''hidden_labels_loaded'', JBool True), (''persistent_state'', JBool True),
      (''hidden_answer_returned'', JBool False), (''credentials_recorded'', JBool False)]"

definition mark_replay :: "(bytes \<Rightarrow> string) \<Rightarrow> dict \<Rightarrow> dict" where
  "mark_replay H stored =
     (let d = dict_set stored ''idempotent_replay'' (JBool True)
      in dict_set d ''result_content_sha256'' (JStr (value_sha256 H (JObj (dict_del d ''result_content_sha256'')))))"

definition oracle_instance_hmac :: "(bytes \<Rightarrow> bytes \<Rightarrow> string) \<Rightarrow> bytes \<Rightarrow> dict \<Rightarrow> string" where
  "oracle_instance_hmac M secret manifest =
     value_hmac M secret (JObj [(''oracle_id'', dget manifest ''oracle_id''),
       (''hidden_labels_sha256'', dget manifest ''hidden_labels_sha256'')])"

definition score_evidence_hmac ::
  "(bytes \<Rightarrow> string) \<Rightarrow> (bytes \<Rightarrow> bytes \<Rightarrow> string) \<Rightarrow> bytes \<Rightarrow> dict \<Rightarrow> label \<Rightarrow> bool \<Rightarrow> string" where
  "score_evidence_hmac H M secret request l correct =
     value_hmac M secret (JObj
       [(''request_sha256'', JStr (value_sha256 H (JObj request))),
        (''evaluation_unit_id'', dget request ''evaluation_unit_id''), (''run_id'', dget request ''run_id''),
        (''trial_id'', dget request ''trial_id''), (''object_id'', JStr (l_object_id l)),
        (''task_binding_sha256'', JStr (l_task_binding_sha256 l)),
        (''success_scoring_rule'', JStr (l_success_scoring_rule l)),
        (''answer_option_ids'', JArr (map JStr (l_answer_option_ids l))),
        (''correct_answer_id'', JStr (l_correct_answer_id l)), (''correct'', JBool correct), (''score'', score_value correct)])"

definition score_response_core ::
  "(bytes \<Rightarrow> string) \<Rightarrow> (bytes \<Rightarrow> bytes \<Rightarrow> string) \<Rightarrow> oracle_service \<Rightarrow> dict \<Rightarrow> label \<Rightarrow> dict" where
  "score_response_core H M svc request l =
     (let correct = score_answer (req_text request ''predicted_answer'') (l_correct_answer_id l) (l_success_scoring_rule l)
      in [(''schema_version'', JStr N1_SCORE_RESULT_SCHEMA_VERSION), (''status'', JStr ''SCORED''),
          (''score_request_id'', dget request ''score_request_id''), (''evaluation_unit_id'', dget request ''evaluation_unit_id''),
          (''oracle_id'', dget (svc_manifest svc) ''oracle_id''), (''node_id'', JStr N1_NODE_ID),
          (''run_id'', dget request ''run_id''), (''trial_id'', dget request ''trial_id''),
          (''object_id'', dget request ''object_id''), (''task_binding_sha256'', dget request ''task_binding_sha256''),
          (''request_sha256'', JStr (value_sha256 H (JObj request))),
          (''prediction_sha256'', JStr (H (req_text request ''predicted_answer''))),
          (''success_scoring_rule'', JStr (l_success_scoring_rule l)),
          (''correct'', JBool correct), (''score'', score_value correct),
          (''public_task_set_sha256'', dget (svc_manifest svc) ''public_task_set_sha256''),
          (''oracle_instance_hmac_sha256'', JStr (oracle_instance_hmac M (svc_secret svc) (svc_manifest svc))),
          (''score_evidence_hmac_sha256'', JStr (score_evidence_hmac H M (svc_secret svc) request l correct)),
          (''idempotent_replay'', JBool False), (''hidden_answer_returned'', JBool False),
          (''credentials_recorded'', JBool False), (''eligible_for_scientific_claims'', JBool False)])"

definition score_response ::
  "(bytes \<Rightarrow> string) \<Rightarrow> (bytes \<Rightarrow> bytes \<Rightarrow> string) \<Rightarrow> oracle_service \<Rightarrow> dict \<Rightarrow> label \<Rightarrow> dict" where
  "score_response H M svc request l =
     (let core = score_response_core H M svc request l
      in dict_set core ''result_content_sha256'' (JStr (value_sha256 H (JObj core))))"

text \<open>
  \<open>score\<close> reads the store in \<open>replay_if_present\<close> and writes it in \<open>execute_once\<close>, each under a
  transaction of its own; requests of other threads may run in between. \<open>score_prepare\<close> is the part
  up to the write: it ends with the answer of a replay or with the response to be written.
  \<open>score_finish\<close> is the rest.
\<close>

datatype prepared = Replayed dict | Computed dict dict

definition check_result ::
  "(bytes \<Rightarrow> string) \<Rightarrow> oracle_service \<Rightarrow> dict \<Rightarrow> dict \<Rightarrow> dict oracle_result" where
  "check_result H svc request result =
     validate_public_score_result H (JObj request) (JObj result) (svc_oracle_id svc)
       (dget (svc_manifest svc) ''public_task_set_sha256'')"

definition score_prepare ::
  "(bytes \<Rightarrow> string) \<Rightarrow> (bytes \<Rightarrow> bytes \<Rightarrow> string) \<Rightarrow> oracle_service \<Rightarrow> json \<Rightarrow> score_store \<Rightarrow> prepared oracle_result" where
  "score_prepare H M svc v db =
     bind_res (validate_score_request H v) (\<lambda>request.
     require (py_eq (dget request ''oracle_id'') (dget (svc_manifest svc) ''oracle_id''))
       (N1OracleError ''score request oracle_id does not match mounted labels'') (
     bind_res (replay_if_present H request db) (\<lambda>durable.
     (case durable of
        Some stored \<Rightarrow> bind_res (check_result H svc request (mark_replay H stored)) (\<lambda>result. Inr (Replayed result))
      | None \<Rightarrow>
          (case find_label (svc_labels svc) request of
             None \<Rightarrow> Inl (N1OracleError ''no hidden label matches object and task binding'')
           | Some l \<Rightarrow> Inr (Computed request (score_response H M svc request l)))))))"

definition score_finish ::
  "(bytes \<Rightarrow> string) \<Rightarrow> oracle_service \<Rightarrow> dict \<Rightarrow> dict \<Rightarrow> score_store \<Rightarrow> score_store \<times> dict oracle_result" where
  "score_finish H svc request response db =
     (let (db', r) = execute_once H request response db
      in (db', bind_res r (\<lambda>(stored, replayed).
            let result = (if replayed then mark_replay H stored else stored)
            in bind_res (check_result H svc request result) (\<lambda>_. Inr result))))"

definition oracle_score ::
  "(bytes \<Rightarrow> string) \<Rightarrow> (bytes \<Rightarrow> bytes \<Rightarrow> string) \<Rightarrow> oracle_service \<Rightarrow> json \<Rightarrow> score_store
   \<Rightarrow> score_store \<times> dict oracle_result" where
  "oracle_score H M svc v db =
     (case score_prepare H M svc v db of
        Inl e \<Rightarrow> (db, Inl e)
      | Inr (Replayed result) \<Rightarrow> (db, Inr result)
      | Inr (Computed request response) \<Rightarrow> score_finish H svc request response db)"

section \<open>Offline verification\<close>

definition verify_n1_score_result ::
  "(bytes \<Rightarrow> string) \<Rightarrow> (bytes \<Rightarrow> bytes \<Rightarrow> string) \<Rightarrow> string \<Rightarrow> package option \<Rightarrow> json \<Rightarrow> json \<Rightarrow> bytes
   \<Rightarrow> dict oracle_result" where
  "verify_n1_score_result H M pkg_root dir request result secret =
     require (32 \<le> length secret) (N1OracleError ''evidence_secret must contain at least 32 bytes'') (
     bind_res (load_verified_package H pkg_root dir) (\<lambda>(manifest, labels).
     bind_res (validate_public_score_result H request result (req_text manifest ''oracle_id'')
                 (dget manifest ''public_task_set_sha256'')) (\<lambda>checked.
     bind_res (validate_score_request H request) (\<lambda>r.
     (case find_label labels r of
        None \<Rightarrow> Inl (N1OracleError ''no hidden label matches object and task binding'')
      | Some l \<Rightarrow>
          (let expected = score_answer (req_text r ''predicted_answer'') (l_correct_answer_id l) (l_success_scoring_rule l)
           in require (dget checked ''correct'' = JBool expected) (N1OracleError ''correctness differs from hidden label'') (
              require (req_text checked ''oracle_instance_hmac_sha256'' = oracle_instance_hmac M secret manifest)
                (N1OracleError ''oracle instance HMAC mismatch'') (
              require (req_text checked ''score_evidence_hmac_sha256'' = score_evidence_hmac H M secret r l expected)
                (N1OracleError ''score evidence HMAC mismatch'') (
              Inr [(''status'', JStr ''VERIFIED''), (''node_id'', JStr N1_NODE_ID), (''oracle_id'', dget manifest ''oracle_id''),
                   (''score_request_id'', dget checked ''score_request_id''),
                   (''evaluation_unit_id'', dget checked ''evaluation_unit_id''), (''run_id'', dget checked ''run_id''),
                   (''trial_id'', dget checked ''trial_id''), (''request_sha256'', dget checked ''request_sha256''),
                   (''prediction_sha256'', dget checked ''prediction_sha256''), (''correct'', dget checked ''correct''),
                   (''score'', dget checked ''score''), (''hidden_answer_returned'', JBool False),
                   (''eligible_for_scientific_claims'', JBool False)])))))))))"

end
