(* ===== verification/Oracle_Valid.thy ===== *)
theory Oracle_Valid
  imports Oracle_Model
begin

text \<open>
  What the validators of the oracle accept: inversion rules of the field checks, the
  predicates \<open>score_request_ok\<close> and \<open>score_result_ok\<close> that characterise the accepted requests
  and results, and the labels a validated source yields.
\<close>

section \<open>Field checks\<close>

lemma mapping_Inr [result_simps]: "mapping v name = Inr d \<longleftrightarrow> v = JObj d"
  by (cases v) (auto simp: mapping_def)

lemma array_Inr [result_simps]: "array v name = Inr xs \<longleftrightarrow> v = JArr xs"
  by (cases v) (auto simp: array_def)

lemma exact_fields_Inr [result_simps]: "exact_fields d fs name k = Inr y \<longleftrightarrow> keys d = set fs \<and> k = Inr y"
  by (simp add: exact_fields_def require_Inr_iff)

definition text_ok :: "int \<Rightarrow> string \<Rightarrow> bool" where
  "text_ok n s \<longleftrightarrow> strip s = s \<and> s \<noteq> [] \<and> int (length s) \<le> n"

lemma oracle_text_Inr [result_simps]: "oracle_text v name n = Inr s \<longleftrightarrow> v = JStr s \<and> text_ok n s"
  by (cases v) (auto simp: oracle_text_def text_ok_def require_Inr_iff)

lemma alnum_visible: "is_alnum c \<Longrightarrow> visible c"
  by (auto simp: char_class_defs visible_def)

lemma ident_visible: "oracle_ident_char c \<Longrightarrow> visible c"
  by (auto simp: oracle_ident_char_def alnum_visible) (simp_all add: visible_def ord_def)

lemma option_visible: "option_id_char c \<Longrightarrow> visible c"
  by (auto simp: option_id_char_def char_class_defs visible_def)

lemma IDENTIFIER_visible: "oracle_IDENTIFIER s \<Longrightarrow> list_all visible s"
  using match_ident_chars [of is_alnum oracle_ident_char 255 s]
  by (auto simp: oracle_IDENTIFIER_def oracle_ident_char_def list_all_iff intro: ident_visible)

lemma IDENTIFIER_text: "oracle_IDENTIFIER s \<Longrightarrow> text_ok 256 s"
  using match_ident_length [of is_alnum oracle_ident_char 255 s] match_ident_nonempty [of is_alnum oracle_ident_char 255 s]
    IDENTIFIER_visible [of s] strip_all_visible [of s]
  by (simp add: oracle_IDENTIFIER_def text_ok_def)

lemma OPTION_ID_visible: "OPTION_ID s \<Longrightarrow> list_all visible s"
  using match_ident_chars [of is_upper option_id_char 15 s]
  by (auto simp: OPTION_ID_def option_id_char_def list_all_iff intro: option_visible)

lemma OPTION_ID_text: "OPTION_ID s \<Longrightarrow> text_ok 16 s"
  using match_ident_length [of is_upper option_id_char 15 s] match_ident_nonempty [of is_upper option_id_char 15 s]
    OPTION_ID_visible [of s] strip_all_visible [of s]
  by (simp add: OPTION_ID_def text_ok_def)

lemma sha256_visible: "match_sha256 s \<Longrightarrow> list_all visible s"
  by (auto simp: match_sha256_def list_all_iff char_class_defs visible_def)

lemma sha256_text: "match_sha256 s \<Longrightarrow> text_ok 64 s"
  using sha256_visible [of s] match_sha256_nonempty [of s] strip_all_visible [of s]
  by (simp add: text_ok_def match_sha256_def)

lemma oracle_identifier_Inr [result_simps]: "oracle_identifier v name = Inr s \<longleftrightarrow> v = JStr s \<and> oracle_IDENTIFIER s"
  using IDENTIFIER_text by (auto simp: oracle_identifier_def result_simps)

lemma oracle_option_id_Inr [result_simps]: "oracle_option_id v name = Inr s \<longleftrightarrow> v = JStr s \<and> OPTION_ID s"
  using OPTION_ID_text by (auto simp: oracle_option_id_def result_simps)

lemma oracle_digest_Inr [result_simps]: "oracle_digest v name = Inr s \<longleftrightarrow> v = JStr s \<and> match_sha256 s"
  using sha256_text by (auto simp: oracle_digest_def result_simps)

lemma rule_in_set_Inr [result_simps]:
  "rule_in_set v msg k = Inr y \<longleftrightarrow> (\<exists>r. v = JStr r \<and> r \<in> set SCORING_RULES) \<and> k = Inr y"
  by (cases v) (auto simp: rule_in_set_def require_Inr_iff)

section \<open>Score requests\<close>

definition unit_json :: "string \<Rightarrow> string \<Rightarrow> string \<Rightarrow> json" where
  "unit_json oid rid tid = JObj
     [(''domain'', JStr ''pathfinder.n1-evaluation-unit/v1''), (''oracle_id'', JStr oid),
      (''run_id'', JStr rid), (''trial_id'', JStr tid)]"

lemma evaluation_unit_Inr [result_simps]:
  "build_n1_evaluation_unit_id H oid rid tid = Inr u \<longleftrightarrow>
   (\<exists>a b c. oid = JStr a \<and> rid = JStr b \<and> tid = JStr c \<and> oracle_IDENTIFIER a \<and> text_ok 256 b \<and> text_ok 256 c
      \<and> u = value_sha256 H (unit_json a b c))"
  by (auto simp: build_n1_evaluation_unit_id_def result_simps unit_json_def)

definition score_request_ok :: "(bytes \<Rightarrow> string) \<Rightarrow> dict \<Rightarrow> bool" where
  "score_request_ok H r \<longleftrightarrow>
     keys r = set SCORE_REQUEST_FIELDS
     \<and> dget r ''schema_version'' = JStr N1_SCORE_REQUEST_SCHEMA_VERSION
     \<and> (\<exists>s. dget r ''score_request_id'' = JStr s \<and> oracle_IDENTIFIER s)
     \<and> (\<exists>a b c. dget r ''oracle_id'' = JStr a \<and> dget r ''run_id'' = JStr b \<and> dget r ''trial_id'' = JStr c
          \<and> oracle_IDENTIFIER a \<and> text_ok 256 b \<and> text_ok 256 c
          \<and> dget r ''evaluation_unit_id'' = JStr (value_sha256 H (unit_json a b c)))
     \<and> (\<exists>s. dget r ''object_id'' = JStr s \<and> oracle_IDENTIFIER s)
     \<and> (\<exists>s. dget r ''task_binding_sha256'' = JStr s \<and> match_sha256 s)
     \<and> (\<exists>s. dget r ''predicted_answer'' = JStr s \<and> int (length s) \<le> MAX_PREDICTION_BYTES)
     \<and> dget r ''credentials_recorded'' = JBool False"

lemma request_schema_distinct: "N1_SCORE_REQUEST_SCHEMA_VERSION \<noteq> LEGACY_SCORE_REQUEST_SCHEMA_VERSION"
  by (simp add: N1_SCORE_REQUEST_SCHEMA_VERSION_def LEGACY_SCORE_REQUEST_SCHEMA_VERSION_def)

lemma case_str_Inr: "(case v of JStr s \<Rightarrow> f s | _ \<Rightarrow> Inl e) = Inr y \<longleftrightarrow> (\<exists>s. v = JStr s \<and> f s = Inr y)"
  by (cases v) auto

lemma case_bool_Inr: "(case v of JBool b \<Rightarrow> f b | _ \<Rightarrow> Inl e) = Inr y \<longleftrightarrow> (\<exists>b. v = JBool b \<and> f b = Inr y)"
  by (cases v) auto

lemma validate_score_request_Inr [result_simps]:
  "validate_score_request H v = Inr r \<longleftrightarrow> v = JObj r \<and> score_request_ok H r"
  using request_schema_distinct
  by (auto simp: validate_score_request_def result_simps case_str_Inr score_request_ok_def)

section \<open>Score results\<close>

definition score_result_ok :: "(bytes \<Rightarrow> string) \<Rightarrow> dict \<Rightarrow> dict \<Rightarrow> string \<Rightarrow> json \<Rightarrow> bool" where
  "score_result_ok H r d oid task_set \<longleftrightarrow>
     keys d = set SCORE_RESULT_FIELDS
     \<and> dget d ''schema_version'' = JStr N1_SCORE_RESULT_SCHEMA_VERSION \<and> dget d ''status'' = JStr ''SCORED''
     \<and> py_eq (dget d ''score_request_id'') (dget r ''score_request_id'')
     \<and> py_eq (dget d ''evaluation_unit_id'') (dget r ''evaluation_unit_id'')
     \<and> dget d ''oracle_id'' = JStr oid \<and> dget d ''node_id'' = JStr N1_NODE_ID
     \<and> py_eq (dget d ''run_id'') (dget r ''run_id'') \<and> py_eq (dget d ''trial_id'') (dget r ''trial_id'')
     \<and> py_eq (dget d ''object_id'') (dget r ''object_id'')
     \<and> py_eq (dget d ''task_binding_sha256'') (dget r ''task_binding_sha256'')
     \<and> dget d ''request_sha256'' = JStr (value_sha256 H (JObj r))
     \<and> dget d ''prediction_sha256'' = JStr (H (req_text r ''predicted_answer''))
     \<and> (\<exists>q \<in> set SCORING_RULES. dget d ''success_scoring_rule'' = JStr q)
     \<and> (\<exists>c. dget d ''correct'' = JBool c \<and> py_eq (dget d ''score'') (score_value c))
     \<and> (\<exists>t. task_set = JStr t \<and> match_sha256 t \<and> dget d ''public_task_set_sha256'' = JStr t)
     \<and> (\<exists>t. dget d ''oracle_instance_hmac_sha256'' = JStr t \<and> match_sha256 t)
     \<and> (\<exists>t. dget d ''score_evidence_hmac_sha256'' = JStr t \<and> match_sha256 t)
     \<and> dget d ''idempotent_replay'' \<in> {JBool True, JBool False}
     \<and> dget d ''hidden_answer_returned'' = JBool False \<and> dget d ''credentials_recorded'' = JBool False
     \<and> dget d ''eligible_for_scientific_claims'' = JBool False
     \<and> (\<exists>t. dget d ''result_content_sha256'' = JStr t \<and> match_sha256 t
          \<and> t = value_sha256 H (JObj (dict_del d ''result_content_sha256'')))
     \<and> assert_hidden_oracle_fields_absent (JObj d) = Inr ()"

lemma result_schema_distinct: "N1_SCORE_RESULT_SCHEMA_VERSION \<noteq> LEGACY_SCORE_RESULT_SCHEMA_VERSION"
  by (simp add: N1_SCORE_RESULT_SCHEMA_VERSION_def LEGACY_SCORE_RESULT_SCHEMA_VERSION_def)

lemma check_public_score_result_Inr [result_simps]:
  "check_public_score_result H r d oid ts = Inr d' \<longleftrightarrow> d' = d \<and> score_result_ok H r d oid ts"
  unfolding check_public_score_result_def score_result_ok_def
  using result_schema_distinct by (auto simp only: result_simps case_bool_Inr) auto

lemma validate_public_score_result_Inr [result_simps]:
  "validate_public_score_result H rv dv oid ts = Inr d \<longleftrightarrow>
   dv = JObj d \<and> (\<exists>r. rv = JObj r \<and> score_request_ok H r \<and> score_result_ok H r d oid ts)"
  by (auto simp: validate_public_score_result_def result_simps)

end
