(* ===== verification/Oracle_Labels.thy ===== *)
theory Oracle_Labels
  imports Oracle_Valid
begin

text \<open>
  Hidden fields and hidden labels: what the walk over a public payload establishes, and what a
  validated label source and a loaded package guarantee of the labels the service holds.
\<close>

section \<open>Fields at every depth\<close>

primrec deep_keys :: "json \<Rightarrow> string set" where
  "deep_keys JNull = {}"
| "deep_keys (JBool b) = {}"
| "deep_keys (JInt n) = {}"
| "deep_keys (JFloat f) = {}"
| "deep_keys (JStr s) = {}"
| "deep_keys (JArr xs) = \<Union> (set (map deep_keys xs))"
| "deep_keys (JObj d) = fst ` set d \<union> \<Union> (snd ` set (map (map_prod id deep_keys) d))"

lemma hidden_walk_iff:
  "hidden_walk v path = Inr () \<longleftrightarrow> deep_keys v \<inter> set HIDDEN_FIELD_NAMES = {}"
  "hidden_walk_items d path = Inr () \<longleftrightarrow> deep_keys (JObj d) \<inter> set HIDDEN_FIELD_NAMES = {}"
  "hidden_walk_list xs i path = Inr () \<longleftrightarrow> deep_keys (JArr xs) \<inter> set HIDDEN_FIELD_NAMES = {}"
  by (induction v path and d path and xs i path rule: hidden_walk_hidden_walk_items_hidden_walk_list.induct)
    (auto simp: require_Inr_iff bind_res_Inr_iff)

lemma hidden_absent_iff:
  "assert_hidden_oracle_fields_absent v = Inr () \<longleftrightarrow> deep_keys v \<inter> set HIDDEN_FIELD_NAMES = {}"
  by (simp add: assert_hidden_oracle_fields_absent_def hidden_walk_iff)

lemma deep_keys_sort_keys: "deep_keys (sort_keys v) = deep_keys v"
proof (induction v)
  case (JArr xs)
  then show ?case by auto
next
  case (JObj d)
  have "deep_keys (snd p) = deep_keys (sort_keys (snd p))" if "p \<in> set d" for p
    using JObj that by (metis prod.collapse snds.intros)
  then show ?case by (fastforce simp: image_iff)
qed simp_all

fun scalar :: "json \<Rightarrow> bool" where
  "scalar (JArr xs) = False"
| "scalar (JObj d) = False"
| "scalar v = True"

lemma deep_keys_scalar: "scalar v \<Longrightarrow> deep_keys v = {}"
  by (cases v) auto

lemma deep_keys_flat: "list_all (scalar \<circ> snd) d \<Longrightarrow> deep_keys (JObj d) = keys d"
  by (induction d) (auto simp: keys_def deep_keys_scalar)

section \<open>Labels\<close>

definition label_ok :: "label \<Rightarrow> bool" where
  "label_ok l \<longleftrightarrow> oracle_IDENTIFIER (l_object_id l) \<and> match_sha256 (l_task_binding_sha256 l)
     \<and> l_success_scoring_rule l \<in> set SCORING_RULES
     \<and> 2 \<le> length (l_answer_option_ids l) \<and> length (l_answer_option_ids l) \<le> 32
     \<and> list_all OPTION_ID (l_answer_option_ids l) \<and> distinct (l_answer_option_ids l)
     \<and> l_correct_answer_id l \<in> set (l_answer_option_ids l)"

definition denotes_label :: "json \<Rightarrow> label \<Rightarrow> bool" where
  "denotes_label v l \<longleftrightarrow> (\<exists>d. v = JObj d \<and> keys d = set LABEL_FIELDS
     \<and> dget d ''object_id'' = JStr (l_object_id l)
     \<and> dget d ''task_binding_sha256'' = JStr (l_task_binding_sha256 l)
     \<and> dget d ''success_scoring_rule'' = JStr (l_success_scoring_rule l)
     \<and> dget d ''answer_option_ids'' = JArr (map JStr (l_answer_option_ids l))
     \<and> dget d ''correct_answer_id'' = JStr (l_correct_answer_id l))"

lemma option_ids_Inr:
  "list_all2 (\<lambda>x y. x = JStr y \<and> OPTION_ID y) raw ids \<longleftrightarrow> raw = map JStr ids \<and> list_all OPTION_ID ids"
  by (induction raw ids rule: list_induct2') auto

lemma rule_text: "rule \<in> set SCORING_RULES \<Longrightarrow> text_ok (16 * 1024) rule"
proof -
  have "list_all (\<lambda>r. list_all visible r \<and> r \<noteq> [] \<and> length r \<le> 100) SCORING_RULES"
    by (simp add: SCORING_RULES_def scoring_rule_defs visible_def ord_def)
  then show "rule \<in> set SCORING_RULES \<Longrightarrow> text_ok (16 * 1024) rule"
    using strip_all_visible by (fastforce simp: list_all_iff text_ok_def)
qed

lemma validate_label_Inr:
  "validate_label i seen v = Inr l \<longleftrightarrow> denotes_label v l \<and> label_ok l \<and> label_key l \<notin> set seen"
proof
  assume "validate_label i seen v = Inr l"
  then show "denotes_label v l \<and> label_ok l \<and> label_key l \<notin> set seen"
    unfolding validate_label_def result_simps option_ids_Inr sum.inject
    by (elim exE conjE, hypsubst, simp add: denotes_label_def label_ok_def label_key_def)
next
  assume a: "denotes_label v l \<and> label_ok l \<and> label_key l \<notin> set seen"
  then have "OPTION_ID (l_correct_answer_id l)" by (auto simp: label_ok_def list_all_iff)
  with a show "validate_label i seen v = Inr l"
    unfolding validate_label_def result_simps option_ids_Inr denotes_label_def label_ok_def label_key_def
    using rule_text by (auto intro!: exI [of _ "l_answer_option_ids l"])
qed

lemma validate_label_list_Inr:
  "validate_label_list i seen vs = Inr ls \<longleftrightarrow>
   list_all2 denotes_label vs ls \<and> list_all label_ok ls \<and> distinct (map label_key ls) \<and> set (map label_key ls) \<inter> set seen = {}"
proof (induction i seen vs arbitrary: ls rule: validate_label_list.induct)
  case (2 i seen v vs)
  show ?case
    by (cases ls) (auto simp: result_simps validate_label_Inr 2)
qed auto

definition label_source_ok :: "json \<Rightarrow> string \<Rightarrow> label list \<Rightarrow> bool" where
  "label_source_ok v oid labels \<longleftrightarrow>
     (\<exists>root raw. v = JObj root \<and> keys root = set LABEL_SOURCE_FIELDS
       \<and> dget root ''schema_version'' = JStr N1_LABEL_SOURCE_SCHEMA_VERSION
       \<and> dget root ''logical_node_id'' = JStr N1_NODE_ID \<and> dget root ''credentials_recorded'' = JBool False
       \<and> dget root ''oracle_id'' = JStr oid \<and> dget root ''labels'' = JArr raw \<and> list_all2 denotes_label raw labels)
     \<and> oracle_IDENTIFIER oid \<and> labels \<noteq> [] \<and> list_all label_ok labels
     \<and> sorted_wrt (<) (map label_key labels)"

lemma sorted_distinct_key:
  "labels = sort_key label_key labels \<and> distinct (map label_key labels) \<longleftrightarrow> sorted_wrt (<) (map label_key labels)"
proof -
  have "labels = sort_key label_key labels \<longleftrightarrow> sorted (map label_key labels)"
    by (metis sort_key_id_if_sorted sorted_sort_key)
  then show ?thesis by (auto simp: strict_sorted_iff)
qed

lemma validate_label_source_Inr [result_simps]:
  "validate_label_source v = Inr r \<longleftrightarrow> label_source_ok v (fst r) (snd r)"
proof -
  have "validate_label_source v = Inr (oid, ls) \<longleftrightarrow> label_source_ok v oid ls" for oid ls
    using sorted_distinct_key [of ls]
    by (auto simp: validate_label_source_def label_source_ok_def result_simps validate_label_list_Inr)
  from this [of "fst r" "snd r"] show ?thesis by simp
qed

lemma find_label_unique:
  assumes "distinct (map label_key ls)" and "l \<in> set ls"
    and "l_object_id l = req_text r ''object_id''" and "l_task_binding_sha256 l = req_text r ''task_binding_sha256''"
  shows "find_label ls r = Some l"
proof -
  obtain l' where l': "find_label ls r = Some l'"
    using assms(2-4) by (cases "find_label ls r") (auto simp: find_label_def find_None_all)
  then have "l' \<in> set ls" "label_key l' = label_key l"
    using find_Some_in [OF l' [unfolded find_label_def]] assms(3,4) by (simp_all add: label_key_def)
  with assms(1,2) have "l' = l" using distinct_map_eq_unique by metis
  with l' show ?thesis by simp
qed

end
