(* ===== verification/Oracle_Score.thy ===== *)
theory Oracle_Score
  imports Oracle_Labels
begin

text \<open>
  The responses of the service: the response computed for a valid request passes the check of
  public results, and so does its replay after it was written to the database and read back.
\<close>

section \<open>The service\<close>

text \<open>What opening a service guarantees of its manifest and labels.\<close>

definition service_ok :: "oracle_service \<Rightarrow> bool" where
  "service_ok svc \<longleftrightarrow>
     (\<exists>o'. dget (svc_manifest svc) ''oracle_id'' = JStr o' \<and> oracle_IDENTIFIER o')
     \<and> (\<exists>t. dget (svc_manifest svc) ''public_task_set_sha256'' = JStr t \<and> match_sha256 t)
     \<and> list_all label_ok (svc_labels svc) \<and> distinct (map label_key (svc_labels svc))"

text \<open>A request the service can score: valid, a Python dictionary, and for the mounted labels.\<close>

definition scorable :: "(bytes \<Rightarrow> string) \<Rightarrow> oracle_service \<Rightarrow> dict \<Rightarrow> bool" where
  "scorable H svc r \<longleftrightarrow> score_request_ok H r \<and> distinct (map fst r) \<and> utf8_json (JObj r)
     \<and> dget r ''oracle_id'' = JStr (svc_oracle_id svc)"

lemma service_oracle_id: "service_ok svc \<Longrightarrow> dget (svc_manifest svc) ''oracle_id'' = JStr (svc_oracle_id svc)"
  by (auto simp: service_ok_def svc_oracle_id_def)

lemma score_request_fields:
  assumes "score_request_ok H r"
  shows "dget r ''score_request_id'' = JStr (req_text r ''score_request_id'')"
    "dget r ''evaluation_unit_id'' = JStr (req_text r ''evaluation_unit_id'')"
    "dget r ''oracle_id'' = JStr (req_text r ''oracle_id'')"
    "dget r ''run_id'' = JStr (req_text r ''run_id'')" "dget r ''trial_id'' = JStr (req_text r ''trial_id'')"
    "dget r ''object_id'' = JStr (req_text r ''object_id'')"
    "dget r ''task_binding_sha256'' = JStr (req_text r ''task_binding_sha256'')"
    "dget r ''predicted_answer'' = JStr (req_text r ''predicted_answer'')"
    "oracle_IDENTIFIER (req_text r ''score_request_id'')" "match_sha256 (req_text r ''task_binding_sha256'')"
  using assms unfolding score_request_ok_def by (auto simp del: json_text.simps simp: json_text.simps(1))

lemma dget_utf8: "utf8_json (JObj d) \<Longrightarrow> utf8_json (dget d k)"
  by (auto simp: dget_def list_all_iff image_iff split: option.splits dest!: map_of_SomeD)

lemma utf8_digest: "match_sha256 s \<Longrightarrow> valid_utf8 s"
  using sha256_visible [of s] by (intro valid_utf8_ascii) (auto simp: list_all_iff visible_def)

lemma rule_utf8: "r \<in> set SCORING_RULES \<Longrightarrow> valid_utf8 r"
proof -
  have "list_all (list_all (\<lambda>c. ord c < 128)) SCORING_RULES"
    by (simp add: SCORING_RULES_def scoring_rule_defs ord_def)
  then show "r \<in> set SCORING_RULES \<Longrightarrow> valid_utf8 r" using valid_utf8_ascii by (simp add: list_all_iff)
qed

lemma IDENTIFIER_utf8: "oracle_IDENTIFIER s \<Longrightarrow> valid_utf8 s"
  using IDENTIFIER_visible [of s] by (intro valid_utf8_ascii) (auto simp: list_all_iff visible_def)

lemma dict_del_set: "dict_del (dict_set d k v) k = dict_del d k"
  by (induction d k v rule: dict_set.induct) (auto simp: dict_del_def)

section \<open>The computed response\<close>

lemma core_fields:
  "map fst (score_response_core H M svc r l) =
   [''schema_version'', ''status'', ''score_request_id'', ''evaluation_unit_id'', ''oracle_id'', ''node_id'', ''run_id'',
    ''trial_id'', ''object_id'', ''task_binding_sha256'', ''request_sha256'', ''prediction_sha256'', ''success_scoring_rule'',
    ''correct'', ''score'', ''public_task_set_sha256'', ''oracle_instance_hmac_sha256'', ''score_evidence_hmac_sha256'',
    ''idempotent_replay'', ''hidden_answer_returned'', ''credentials_recorded'', ''eligible_for_scientific_claims'']"
  by (simp add: score_response_core_def Let_def)

lemma dict_set_new: "k \<notin> fst ` set d \<Longrightarrow> dict_set d k v = d @ [(k, v)]"
  by (induction d k v rule: dict_set.induct) auto

lemma response_append:
  "score_response H M svc r l = score_response_core H M svc r l
     @ [(''result_content_sha256'', JStr (value_sha256 H (JObj (score_response_core H M svc r l))))]"
proof -
  have "''result_content_sha256'' \<notin> set (map fst (score_response_core H M svc r l))" unfolding core_fields by code_simp
  then show ?thesis by (simp add: score_response_def Let_def dict_set_new)
qed

lemma response_distinct: "distinct (map fst (score_response H M svc r l))"
  unfolding response_append map_append core_fields list.map fst_conv by code_simp

lemma response_keys: "keys (score_response H M svc r l) = set SCORE_RESULT_FIELDS"
  unfolding keys_def set_map [symmetric] response_append map_append core_fields list.map fst_conv by code_simp

lemma response_core: "dict_del (score_response H M svc r l) ''result_content_sha256'' = score_response_core H M svc r l"
proof -
  have "''result_content_sha256'' \<notin> set (map fst (score_response_core H M svc r l))" unfolding core_fields by code_simp
  then have "filter (\<lambda>p. fst p \<noteq> ''result_content_sha256'') (score_response_core H M svc r l) = score_response_core H M svc r l"
    by (force simp: filter_id_conv)
  then show ?thesis by (simp add: response_append dict_del_def)
qed

lemma response_get:
  "dget (score_response H M svc r l) k =
   (if k = ''result_content_sha256'' then JStr (value_sha256 H (JObj (score_response_core H M svc r l)))
    else dget (score_response_core H M svc r l) k)"
  by (simp add: score_response_def Let_def)

definition is_correct :: "dict \<Rightarrow> label \<Rightarrow> bool" where
  "is_correct r l = score_answer (req_text r ''predicted_answer'') (l_correct_answer_id l) (l_success_scoring_rule l)"

lemma core_get:
  "dget (score_response_core H M svc r l) ''schema_version'' = JStr N1_SCORE_RESULT_SCHEMA_VERSION"
  "dget (score_response_core H M svc r l) ''status'' = JStr ''SCORED''"
  "dget (score_response_core H M svc r l) ''score_request_id'' = dget r ''score_request_id''"
  "dget (score_response_core H M svc r l) ''evaluation_unit_id'' = dget r ''evaluation_unit_id''"
  "dget (score_response_core H M svc r l) ''oracle_id'' = dget (svc_manifest svc) ''oracle_id''"
  "dget (score_response_core H M svc r l) ''node_id'' = JStr N1_NODE_ID"
  "dget (score_response_core H M svc r l) ''run_id'' = dget r ''run_id''"
  "dget (score_response_core H M svc r l) ''trial_id'' = dget r ''trial_id''"
  "dget (score_response_core H M svc r l) ''object_id'' = dget r ''object_id''"
  "dget (score_response_core H M svc r l) ''task_binding_sha256'' = dget r ''task_binding_sha256''"
  "dget (score_response_core H M svc r l) ''request_sha256'' = JStr (value_sha256 H (JObj r))"
  "dget (score_response_core H M svc r l) ''prediction_sha256'' = JStr (H (req_text r ''predicted_answer''))"
  "dget (score_response_core H M svc r l) ''success_scoring_rule'' = JStr (l_success_scoring_rule l)"
  "dget (score_response_core H M svc r l) ''correct'' = JBool (is_correct r l)"
  "dget (score_response_core H M svc r l) ''score'' = score_value (is_correct r l)"
  "dget (score_response_core H M svc r l) ''public_task_set_sha256'' = dget (svc_manifest svc) ''public_task_set_sha256''"
  "dget (score_response_core H M svc r l) ''oracle_instance_hmac_sha256'' = JStr (oracle_instance_hmac M (svc_secret svc) (svc_manifest svc))"
  "dget (score_response_core H M svc r l) ''score_evidence_hmac_sha256'' = JStr (score_evidence_hmac H M (svc_secret svc) r l (is_correct r l))"
  "dget (score_response_core H M svc r l) ''idempotent_replay'' = JBool False"
  "dget (score_response_core H M svc r l) ''hidden_answer_returned'' = JBool False"
  "dget (score_response_core H M svc r l) ''credentials_recorded'' = JBool False"
  "dget (score_response_core H M svc r l) ''eligible_for_scientific_claims'' = JBool False"
  by (simp_all add: score_response_core_def Let_def dget_Cons is_correct_def)

lemma dget_scalar: "list_all (scalar \<circ> snd) d \<Longrightarrow> scalar (dget d k)"
  by (auto simp: dget_def list_all_iff split: option.splits dest!: map_of_SomeD)

lemma scalar_flat:
  assumes "distinct (map fst d)" and "\<And>k. k \<in> keys d \<Longrightarrow> scalar (dget d k)"
  shows "list_all (scalar \<circ> snd) d"
proof -
  have "scalar v" if "(k, v) \<in> set d" for k v
    using that assms(2) [of k] map_of_is_SomeI [OF assms(1) that] by (force simp: keys_def dget_def)
  then show ?thesis by (auto simp: list_all_iff)
qed

lemma sort_keys_scalar [simp]: "scalar v \<Longrightarrow> sort_keys v = v"
  by (cases v) auto

lemma py_eq_scalar [simp]: "scalar v \<Longrightarrow> py_eq v v"
  by (cases v) auto

lemma score_request_scalars:
  assumes "score_request_ok H r"
  shows "scalar (dget r ''score_request_id'')" "scalar (dget r ''evaluation_unit_id'')" "scalar (dget r ''run_id'')"
    "scalar (dget r ''trial_id'')" "scalar (dget r ''object_id'')" "scalar (dget r ''task_binding_sha256'')"
  by (metis score_request_fields [OF assms] scalar.simps(7))+

lemma score_request_wf:
  assumes "score_request_ok H r"
  shows "wf_json (dget r ''score_request_id'')" "wf_json (dget r ''evaluation_unit_id'')" "wf_json (dget r ''run_id'')"
    "wf_json (dget r ''trial_id'')" "wf_json (dget r ''object_id'')" "wf_json (dget r ''task_binding_sha256'')"
  by (metis score_request_fields [OF assms] wf_json.simps(5))+

lemma distinct_loads: "distinct (map fst d) \<Longrightarrow> distinct (map fst (loads_dict d))"
proof -
  have "distinct (map fst e) \<Longrightarrow> distinct (map fst (sort_key fst e))" for e :: dict by (simp add: distinct_map)
  from this [of "map (map_prod id sort_keys) d"] show "distinct (map fst d) \<Longrightarrow> distinct (map fst (loads_dict d))"
    by (simp add: loads_dict_def comp_def)
qed

lemma core_scalar:
  assumes "service_ok svc" and "score_request_ok H r"
  shows "scalar (dget (score_response_core H M svc r l) k)"
proof (rule dget_scalar)
  obtain a b where "dget (svc_manifest svc) ''oracle_id'' = JStr a" "dget (svc_manifest svc) ''public_task_set_sha256'' = JStr b"
    using assms(1) by (auto simp: service_ok_def)
  with score_request_scalars [OF assms(2)] show "list_all (scalar \<circ> snd) (score_response_core H M svc r l)"
    unfolding score_response_core_def Let_def by (simp add: score_value_def del: json_text.simps)
qed

locale oracle_digests = digest_function H + keyed_digest_function M for H M
begin

lemma value_sha256_form: "match_sha256 (value_sha256 H v)"
  by (simp add: value_sha256_def digest_form)

lemma value_hmac_form: "match_sha256 (value_hmac M k v)"
  by (simp add: value_hmac_def keyed_digest_form)

text \<open>A dictionary with the fields of the computed response passes the check, first answer or replay.\<close>

lemma result_okI:
  assumes svc: "service_ok svc" and r: "scorable H svc r" and l: "label_ok l"
    and d: "distinct (map fst d)" "keys d = set SCORE_RESULT_FIELDS"
    and same: "\<And>k. k \<noteq> ''idempotent_replay'' \<Longrightarrow> k \<noteq> ''result_content_sha256'' \<Longrightarrow> dget d k = dget (score_response_core H M svc r l) k"
    and replay: "dget d ''idempotent_replay'' \<in> {JBool True, JBool False}"
    and content: "dget d ''result_content_sha256'' = JStr (value_sha256 H (JObj (dict_del d ''result_content_sha256'')))"
  shows "score_result_ok H r d (svc_oracle_id svc) (dget (svc_manifest svc) ''public_task_set_sha256'')"
proof -
  have ok: "score_request_ok H r" and oid: "dget r ''oracle_id'' = JStr (svc_oracle_id svc)" using r by (auto simp: scorable_def)
  have "scalar (dget d k)" for k
    using same [of k] core_scalar [OF svc ok, of M l k] replay content
    by (cases "k = ''idempotent_replay''"; cases "k = ''result_content_sha256''") auto
  then have "deep_keys (JObj d) = set SCORE_RESULT_FIELDS"
    using deep_keys_flat [OF scalar_flat [OF d(1)]] d(2) by simp
  moreover have "set SCORE_RESULT_FIELDS \<inter> set HIDDEN_FIELD_NAMES = {}" by code_simp
  ultimately have hidden: "assert_hidden_oracle_fields_absent (JObj d) = Inr ()" by (simp add: hidden_absent_iff)
  obtain t where t: "dget (svc_manifest svc) ''public_task_set_sha256'' = JStr t" "match_sha256 t"
    using svc by (auto simp: service_ok_def)
  show ?thesis
    unfolding score_result_ok_def
    using score_request_scalars [OF ok] l hidden t d(2) replay content service_oracle_id [OF svc]
    by (simp add: same core_get label_ok_def score_value_def digest_form value_sha256_form value_hmac_form
        oracle_instance_hmac_def score_evidence_hmac_def del: json_text.simps)
qed

lemma response_ok:
  assumes "service_ok svc" and "scorable H svc r" and "label_ok l"
  shows "score_result_ok H r (score_response H M svc r l) (svc_oracle_id svc) (dget (svc_manifest svc) ''public_task_set_sha256'')"
  by (rule result_okI [OF assms response_distinct response_keys])
    (simp_all add: response_get core_get response_core)

lemma response_wf:
  assumes "service_ok svc" and "score_request_ok H r"
  shows "wf_json (JObj (score_response H M svc r l))"
proof -
  obtain a b where "dget (svc_manifest svc) ''oracle_id'' = JStr a" "dget (svc_manifest svc) ''public_task_set_sha256'' = JStr b"
    using assms(1) by (auto simp: service_ok_def)
  then have "list_all (wf_json \<circ> snd) (score_response H M svc r l)"
    using score_request_wf [OF assms(2)] unfolding response_append score_response_core_def Let_def
    by (simp add: score_value_def readable_scores del: json_text.simps)
  then show ?thesis using response_distinct by (auto simp: list_all_iff)
qed

lemma response_utf8:
  assumes "service_ok svc" and "scorable H svc r" and "label_ok l"
  shows "utf8_json (JObj (score_response H M svc r l))"
proof -
  have "utf8_json (dget r k)" for k using assms(2) dget_utf8 by (simp add: scorable_def)
  moreover have "utf8_json (dget (svc_manifest svc) ''oracle_id'')" "utf8_json (dget (svc_manifest svc) ''public_task_set_sha256'')"
    using assms(1) by (auto simp: service_ok_def utf8_digest IDENTIFIER_utf8)
  moreover have "valid_utf8 (l_success_scoring_rule l)" using assms(3) rule_utf8 by (simp add: label_ok_def)
  moreover have "valid_utf8 N1_SCORE_RESULT_SCHEMA_VERSION" "valid_utf8 N1_NODE_ID" "valid_utf8 ''SCORED''" by code_simp+
  ultimately have "list_all (utf8_json \<circ> snd) (score_response H M svc r l)"
    unfolding response_append score_response_core_def Let_def
    by (simp add: score_value_def utf8_scores utf8_digest digest_form value_sha256_form value_hmac_form
        oracle_instance_hmac_def score_evidence_hmac_def del: json_text.simps utf8_json.simps(4))
  moreover have "list_all valid_utf8 (map fst (score_response H M svc r l))"
    unfolding response_append map_append core_fields list.map fst_conv by code_simp
  ultimately show ?thesis by (auto simp: list_all_iff)
qed

text \<open>The response read back from the database, marked as a replay.\<close>

definition replay_of :: "oracle_service \<Rightarrow> dict \<Rightarrow> label \<Rightarrow> dict" where
  "replay_of svc r l = mark_replay H (loads_dict (score_response H M svc r l))"

lemma stored_get:
  assumes "service_ok svc" and "score_request_ok H r"
  shows "dget (loads_dict (score_response H M svc r l)) k = dget (score_response H M svc r l) k"
  using core_scalar [OF assms, of M l k] by (simp add: dget_loads [OF response_distinct] response_get)

lemma replay_ok:
  assumes "service_ok svc" and "scorable H svc r" and "label_ok l"
  shows "score_result_ok H r (replay_of svc r l) (svc_oracle_id svc) (dget (svc_manifest svc) ''public_task_set_sha256'')"
proof (rule result_okI [OF assms])
  let ?d = "loads_dict (score_response H M svc r l)"
  have ok: "score_request_ok H r" using assms(2) by (simp add: scorable_def)
  have "distinct (map fst ?d)" by (rule distinct_loads [OF response_distinct])
  then show "distinct (map fst (replay_of svc r l))" by (simp add: replay_of_def mark_replay_def Let_def)
  show "keys (replay_of svc r l) = set SCORE_RESULT_FIELDS"
  proof -
    have "''idempotent_replay'' \<in> set SCORE_RESULT_FIELDS" "''result_content_sha256'' \<in> set SCORE_RESULT_FIELDS" by code_simp+
    then show ?thesis by (auto simp: replay_of_def mark_replay_def Let_def keys_loads response_keys)
  qed
  show "dget (replay_of svc r l) k = dget (score_response_core H M svc r l) k"
    if "k \<noteq> ''idempotent_replay''" "k \<noteq> ''result_content_sha256''" for k
    using that by (simp add: replay_of_def mark_replay_def Let_def stored_get [OF assms(1) ok] response_get)
qed (simp_all add: replay_of_def mark_replay_def Let_def dict_del_set)

end

end
