(* ===== verification/Oracle_Run.thy ===== *)
theory Oracle_Run
  imports Oracle_Score Durable
begin

text \<open>
  Runs of the scoring service. The threads of the server share the database: \<open>score\<close> reads it in
  \<open>replay_if_present\<close> and writes it later in \<open>execute_once\<close>, so a run interleaves the two halves of
  several requests. A state is the database and the responses computed but not yet written; a
  step begins a request, finishes one of those begun, loses one, or restarts the server.
\<close>

section \<open>The invariant\<close>

definition score_row_of ::
  "(bytes \<Rightarrow> string) \<Rightarrow> (bytes \<Rightarrow> bytes \<Rightarrow> string) \<Rightarrow> oracle_service \<Rightarrow> dict \<Rightarrow> label \<Rightarrow> score_row" where
  "score_row_of H M svc r l =
     \<lparr>sr_score_request_id = req_text r ''score_request_id'', sr_evaluation_unit_id = req_text r ''evaluation_unit_id'',
      sr_run_id = req_text r ''run_id'', sr_trial_id = req_text r ''trial_id'',
      sr_request_sha256 = value_sha256 H (JObj r), sr_request_json = dumps (JObj r),
      sr_response_json = dumps (JObj (score_response H M svc r l))\<rparr>"

definition scored :: "(bytes \<Rightarrow> string) \<Rightarrow> oracle_service \<Rightarrow> dict \<Rightarrow> label \<Rightarrow> bool" where
  "scored H svc r l \<longleftrightarrow> scorable H svc r \<and> find_label (svc_labels svc) r = Some l"

definition store_inv ::
  "(bytes \<Rightarrow> string) \<Rightarrow> (bytes \<Rightarrow> bytes \<Rightarrow> string) \<Rightarrow> oracle_service \<Rightarrow> score_store \<Rightarrow> bool" where
  "store_inv H M svc db \<longleftrightarrow>
     (\<forall>row \<in> set (oracle_scores db). \<exists>r l. scored H svc r l \<and> row = score_row_of H M svc r l)
     \<and> distinct (map sr_score_request_id (oracle_scores db)) \<and> distinct (map sr_evaluation_unit_id (oracle_scores db))"

type_synonym oracle_system = "score_store \<times> (dict \<times> dict) list"

definition pending_ok ::
  "(bytes \<Rightarrow> string) \<Rightarrow> (bytes \<Rightarrow> bytes \<Rightarrow> string) \<Rightarrow> oracle_service \<Rightarrow> dict \<times> dict \<Rightarrow> bool" where
  "pending_ok H M svc p \<longleftrightarrow> (\<exists>l. scored H svc (fst p) l \<and> snd p = score_response H M svc (fst p) l)"

definition system_inv ::
  "(bytes \<Rightarrow> string) \<Rightarrow> (bytes \<Rightarrow> bytes \<Rightarrow> string) \<Rightarrow> oracle_service \<Rightarrow> oracle_system \<Rightarrow> bool" where
  "system_inv H M svc s \<longleftrightarrow> store_inv H M svc (fst s) \<and> list_all (pending_ok H M svc) (snd s)"

inductive oracle_step ::
  "(bytes \<Rightarrow> string) \<Rightarrow> (bytes \<Rightarrow> bytes \<Rightarrow> string) \<Rightarrow> oracle_service \<Rightarrow> oracle_system \<Rightarrow> oracle_system \<Rightarrow> bool"
  for H M svc where
  step_begin: "distinct (map fst v) \<Longrightarrow> utf8_json (JObj v) \<Longrightarrow> score_prepare H M svc (JObj v) db = Inr (Computed r resp) \<Longrightarrow>
    oracle_step H M svc (db, todo) (db, todo @ [(r, resp)])"
| step_finish: "score_finish H svc r resp db = (db', result) \<Longrightarrow>
    oracle_step H M svc (db, before @ (r, resp) # after) (db', before @ after)"
| step_lose: "oracle_step H M svc (db, before @ p # after) (db, before @ after)"
| step_restart: "open_service H M pkg_root dir (svc_secret svc) db = (db', Inr svc) \<Longrightarrow>
    oracle_step H M svc (db, todo) (db', [])"

inductive_cases oracle_stepE: "oracle_step H M svc s t"

definition oracle_run ::
  "(bytes \<Rightarrow> string) \<Rightarrow> (bytes \<Rightarrow> bytes \<Rightarrow> string) \<Rightarrow> oracle_service \<Rightarrow> oracle_system \<Rightarrow> oracle_system \<Rightarrow> bool" where
  "oracle_run H M svc = rtranclp (oracle_step H M svc)"

section \<open>Single operations\<close>

lemma service_label: "service_ok svc \<Longrightarrow> find_label (svc_labels svc) r = Some l \<Longrightarrow> label_ok l"
  using find_Some_in by (fastforce simp: service_ok_def find_label_def list_all_iff)

lemma prepare_computed:
  assumes "score_prepare H M svc (JObj v) db = Inr (Computed r resp)" and "distinct (map fst v)" and "utf8_json (JObj v)"
    and "service_ok svc"
  shows "r = v \<and> (\<exists>l. scored H svc r l \<and> resp = score_response H M svc r l)"
proof -
  obtain l where "score_request_ok H v" "r = v" "find_label (svc_labels svc) v = Some l" "resp = score_response H M svc v l"
    "py_eq (dget v ''oracle_id'') (dget (svc_manifest svc) ''oracle_id'')"
    using assms(1) by (auto simp: score_prepare_def result_simps split: option.splits)
  with assms(2-4) show ?thesis by (auto simp: scored_def scorable_def service_oracle_id)
qed

lemma open_service_scores: "open_service H M pkg_root dir secret db = (db', r) \<Longrightarrow> oracle_scores db' = oracle_scores db"
  by (auto simp: open_service_def store_initialize_def Let_def split: sum.splits option.splits prod.splits)

lemma store_inv_scores: "oracle_scores db' = oracle_scores db \<Longrightarrow> store_inv H M svc db' = store_inv H M svc db"
  by (simp add: store_inv_def)

lemma insert_score_row: "oracle_scores (insert_score H r (score_response H M svc r l) db) = oracle_scores db @ [score_row_of H M svc r l]"
  by (simp add: insert_score_def score_row_of_def value_sha256_def)

lemma execute_once_inv:
  assumes inv: "store_inv H M svc db" and r: "scored H svc r l"
    and e: "execute_once H r (score_response H M svc r l) db = (db', res)"
  shows "store_inv H M svc db'"
    and "find_score db k = Some row \<Longrightarrow> find_score db' k = Some row"
    and "find_unit db u = Some row \<Longrightarrow> find_unit db' u = Some row"
proof -
  consider "db' = db"
    | "find_score db (req_text r ''score_request_id'') = None" "find_unit db (req_text r ''evaluation_unit_id'') = None"
      "db' = insert_score H r (score_response H M svc r l) db"
    using e by (auto simp: execute_once_def split: option.splits)
  then have "store_inv H M svc db' \<and> (find_score db k = Some row \<longrightarrow> find_score db' k = Some row)
    \<and> (find_unit db u = Some row \<longrightarrow> find_unit db' u = Some row)"
  proof cases
    case 2
    then have "store_inv H M svc db'"
      using inv r by (auto simp: store_inv_def insert_score_row find_score_def find_unit_def find_None_all score_row_of_def) 
    with 2 show ?thesis by (auto simp: find_score_def find_unit_def insert_score_row find_append_Some)
  qed (use inv in simp)
  then show "store_inv H M svc db'" and "find_score db k = Some row \<Longrightarrow> find_score db' k = Some row"
    and "find_unit db u = Some row \<Longrightarrow> find_unit db' u = Some row" by blast+
qed

lemma score_finish_db: "fst (score_finish H svc r resp db) = fst (execute_once H r resp db)"
  by (simp add: score_finish_def Let_def split: prod.splits)

lemma system_step:
  assumes "service_ok svc" and inv: "system_inv H M svc s" and "oracle_step H M svc s t"
  shows "system_inv H M svc t"
    and "find_score (fst s) k = Some row \<Longrightarrow> find_score (fst t) k = Some row"
    and "find_unit (fst s) u = Some row \<Longrightarrow> find_unit (fst t) u = Some row"
proof -
  have "system_inv H M svc t \<and> (find_score (fst s) k = Some row \<longrightarrow> find_score (fst t) k = Some row)
    \<and> (find_unit (fst s) u = Some row \<longrightarrow> find_unit (fst t) u = Some row)"
    using assms(3)
  proof cases
    case (step_begin v db r resp todo)
    from prepare_computed [OF step_begin(5,3,4) assms(1)] have "pending_ok H M svc (r, resp)"
      by (auto simp: pending_ok_def)
    with step_begin inv show ?thesis by (auto simp: system_inv_def)
  next
    case (step_finish r resp db db' result before after)
    then obtain l where l: "scored H svc r l" "resp = score_response H M svc r l"
      using inv by (auto simp: system_inv_def pending_ok_def)
    have e: "execute_once H r (score_response H M svc r l) db = (db', snd (execute_once H r resp db))"
      using step_finish(3) score_finish_db [of H svc r resp db] l by (metis fst_conv prod.collapse)
    show ?thesis
      using execute_once_inv [OF _ l(1) e] inv step_finish(1,2) by (auto simp: system_inv_def)
  next
    case (step_restart pkg_root dir db db' todo)
    have same: "oracle_scores db' = oracle_scores db" by (rule open_service_scores [OF step_restart(3)])
    show ?thesis
      using inv step_restart(1,2) by (simp add: system_inv_def find_score_def find_unit_def store_inv_scores [OF same] same)
  qed (use inv in \<open>auto simp: system_inv_def\<close>)
  then show "system_inv H M svc t" and "find_score (fst s) k = Some row \<Longrightarrow> find_score (fst t) k = Some row"
    and "find_unit (fst s) u = Some row \<Longrightarrow> find_unit (fst t) u = Some row" by blast+
qed

interpretation score_rows: durable_table "\<lambda>s. service_ok svc \<and> system_inv H M svc s" "oracle_step H M svc"
  "\<lambda>s. find_score (fst s)" for H M svc
  by unfold_locales (auto intro: system_step)

interpretation unit_rows: durable_table "\<lambda>s. service_ok svc \<and> system_inv H M svc s" "oracle_step H M svc"
  "\<lambda>s. find_unit (fst s)" for H M svc
  by unfold_locales (auto intro: system_step)

end
