(* ===== verification/Oracle_Answer.thy ===== *)
theory Oracle_Answer
  imports Oracle_Run
begin

text \<open>
  What \<open>score\<close> answers in a state that satisfies the invariant: a fresh score, a replay or a conflict.
\<close>

lemma check_result_Inr:
  "check_result H svc r d = Inr d' \<longleftrightarrow> d' = d \<and> score_request_ok H r
     \<and> score_result_ok H r d (svc_oracle_id svc) (dget (svc_manifest svc) ''public_task_set_sha256'')"
  by (auto simp: check_result_def result_simps)

lemma replay_fresh:
  "replay_if_present H r db = Inr None \<longleftrightarrow>
   find_score db (req_text r ''score_request_id'') = None \<and> find_unit db (req_text r ''evaluation_unit_id'') = None"
  by (auto simp: replay_if_present_def result_simps split: option.splits if_splits)

lemma replay_stored:
  "replay_if_present H r db = Inr (Some d) \<longleftrightarrow>
   (\<exists>row. find_score db (req_text r ''score_request_id'') = Some row \<and> sr_request_sha256 row = value_sha256 H (JObj r)
     \<and> stored_response row = Inr d)"
  by (auto simp: replay_if_present_def result_simps split: option.splits if_splits)

context oracle_digests
begin

lemma stored_row:
  assumes "service_ok svc" and "scored H svc r l"
  shows "stored_response (score_row_of H M svc r l) = Inr (loads_dict (score_response H M svc r l))"
proof -
  have ok: "scorable H svc r" "label_ok l" using assms service_label by (auto simp: scored_def)
  then have "loads_bytes (dumps (JObj (score_response H M svc r l))) = Inr (JObj (loads_dict (score_response H M svc r l)))"
    using loads_bytes_dumps [OF response_wf response_utf8, of svc r l] assms(1)
    by (simp add: scorable_def sort_keys_loads del: sort_keys.simps)
  then show ?thesis by (simp add: stored_response_def score_row_of_def json_value_def mapping_def)
qed

lemma prepare_fresh:
  assumes "service_ok svc" and "scored H svc r l"
    and "find_score db (req_text r ''score_request_id'') = None" and "find_unit db (req_text r ''evaluation_unit_id'') = None"
  shows "score_prepare H M svc (JObj r) db = Inr (Computed r (score_response H M svc r l))"
proof -
  have "validate_score_request H (JObj r) = Inr r" using assms(2) by (simp add: scored_def scorable_def result_simps)
  moreover have "replay_if_present H r db = Inr None" using assms(3,4) replay_fresh by blast
  ultimately show ?thesis
    using assms(1,2) by (simp add: score_prepare_def scored_def scorable_def service_oracle_id)
qed

lemma finish_fresh:
  assumes "service_ok svc" and "scored H svc r l"
    and "find_score db (req_text r ''score_request_id'') = None" and "find_unit db (req_text r ''evaluation_unit_id'') = None"
  shows "score_finish H svc r (score_response H M svc r l) db
    = (insert_score H r (score_response H M svc r l) db, Inr (score_response H M svc r l))"
proof -
  have "scorable H svc r" "label_ok l" using assms service_label by (auto simp: scored_def)
  then have "check_result H svc r (score_response H M svc r l) = Inr (score_response H M svc r l)"
    using response_ok [OF assms(1)] by (simp add: check_result_Inr scorable_def)
  then show ?thesis using assms(3,4) by (simp add: score_finish_def execute_once_def)
qed

lemma score_fresh:
  assumes "service_ok svc" and "scored H svc r l"
    and "find_score db (req_text r ''score_request_id'') = None" and "find_unit db (req_text r ''evaluation_unit_id'') = None"
  shows "oracle_score H M svc (JObj r) db
    = (insert_score H r (score_response H M svc r l) db, Inr (score_response H M svc r l))"
  by (simp add: oracle_score_def prepare_fresh [OF assms] finish_fresh [OF assms])

lemma score_answered:
  assumes row: "find_score db (req_text r ''score_request_id'') = Some row" "sr_request_sha256 row = value_sha256 H (JObj r)"
    "stored_response row = Inr stored"
    and svc: "service_ok svc" and r: "scorable H svc r"
    and ok: "check_result H svc r (mark_replay H stored) = Inr d"
  shows "oracle_score H M svc (JObj r) db = (db, Inr (mark_replay H stored))"
proof -
  have "validate_score_request H (JObj r) = Inr r" using r by (simp add: scorable_def result_simps)
  moreover have "replay_if_present H r db = Inr (Some stored)" using row replay_stored by blast
  moreover have "d = mark_replay H stored" using ok by (simp add: check_result_Inr)
  ultimately show ?thesis
    using r ok by (simp add: oracle_score_def score_prepare_def scorable_def service_oracle_id [OF svc])
qed

text \<open>Whatever way a request was answered, the database holds a row that answers it again.\<close>

definition answered_by :: "oracle_service \<Rightarrow> dict \<Rightarrow> score_row \<Rightarrow> dict \<Rightarrow> bool" where
  "answered_by svc r row d \<longleftrightarrow> (\<exists>stored. sr_request_sha256 row = value_sha256 H (JObj r) \<and> stored_response row = Inr stored
     \<and> check_result H svc r (mark_replay H stored) = Inr (mark_replay H stored)
     \<and> (\<forall>k. k \<noteq> ''idempotent_replay'' \<longrightarrow> k \<noteq> ''result_content_sha256'' \<longrightarrow> dget d k = dget stored k))"

lemma fresh_answered:
  assumes "service_ok svc" and "scored H svc r l"
  shows "answered_by svc r (score_row_of H M svc r l) (score_response H M svc r l)"
proof -
  have ok: "scorable H svc r" "label_ok l" "score_request_ok H r"
    using assms service_label by (auto simp: scored_def scorable_def)
  have "check_result H svc r (replay_of svc r l) = Inr (replay_of svc r l)"
    using replay_ok [OF assms(1) ok(1,2)] ok(3) by (simp add: check_result_Inr)
  then show ?thesis
    unfolding answered_by_def using stored_row [OF assms] stored_get [OF assms(1) ok(3)]
    by (simp add: replay_of_def score_row_of_def)
qed

lemma execute_answered:
  assumes svc: "service_ok svc" and r: "scored H svc r l"
    and e: "score_finish H svc r (score_response H M svc r l) db = (db', Inr d)"
  shows "\<exists>row. find_score db' (req_text r ''score_request_id'') = Some row \<and> answered_by svc r row d"
proof (cases "find_score db (req_text r ''score_request_id'')")
  case (Some row)
  then obtain stored where "db' = db" "sr_request_sha256 row = value_sha256 H (JObj r)" "stored_response row = Inr stored"
    "d = mark_replay H stored" "check_result H svc r d = Inr d"
    using e by (auto simp: score_finish_def execute_once_def Let_def result_simps value_sha256_def check_result_Inr
        simp del: dumps.simps split: if_splits)
  with Some show ?thesis by (auto simp: answered_by_def mark_replay_def Let_def)
next
  case None
  then have "find_unit db (req_text r ''evaluation_unit_id'') = None"
    using e by (auto simp: score_finish_def execute_once_def split: option.splits)
  from finish_fresh [OF svc r None this] e have "db' = insert_score H r (score_response H M svc r l) db"
    and d: "d = score_response H M svc r l" by auto
  then have "find_score db' (req_text r ''score_request_id'') = Some (score_row_of H M svc r l)"
    using None by (simp add: find_score_def insert_score_row find_append_None) (simp add: score_row_of_def)
  with fresh_answered [OF svc r] d show ?thesis by blast
qed

lemma score_answer_row:
  assumes svc: "service_ok svc" and r: "distinct (map fst r)" "utf8_json (JObj r)"
    and e: "oracle_score H M svc (JObj r) db = (db', Inr d)"
  shows "scorable H svc r \<and> (\<exists>row. find_score db' (req_text r ''score_request_id'') = Some row \<and> answered_by svc r row d)"
proof -
  obtain p where p: "score_prepare H M svc (JObj r) db = Inr p" using e by (auto simp: oracle_score_def split: sum.splits)
  then have s: "scorable H svc r"
    using r service_oracle_id [OF svc] by (auto simp: score_prepare_def scorable_def result_simps)
  show ?thesis
  proof (cases p)
    case (Replayed x)
    then have "db' = db" and "d = x" using p e by (auto simp: oracle_score_def)
    then obtain stored where "replay_if_present H r db = Inr (Some stored)" "d = mark_replay H stored" "check_result H svc r d = Inr d"
      using p Replayed by (auto simp: score_prepare_def result_simps check_result_Inr split: option.splits)
    with \<open>db' = db\<close> s show ?thesis by (auto simp: replay_stored answered_by_def mark_replay_def Let_def)
  next
    case (Computed r' resp)
    with prepare_computed [OF _ r svc] p obtain l where "r' = r" "scored H svc r l" "resp = score_response H M svc r l" by blast
    with execute_answered [OF svc] e p Computed s show ?thesis by (auto simp: oracle_score_def)
  qed
qed

lemma answered_again:
  assumes "find_score db (req_text r ''score_request_id'') = Some row" and "answered_by svc r row d"
    and "service_ok svc" and "scorable H svc r"
  shows "\<exists>again. oracle_score H M svc (JObj r) db = (db, Inr again) \<and> dget again ''idempotent_replay'' = JBool True
    \<and> (\<forall>k. k \<noteq> ''idempotent_replay'' \<longrightarrow> k \<noteq> ''result_content_sha256'' \<longrightarrow> dget again k = dget d k)"
proof -
  obtain stored where st: "sr_request_sha256 row = value_sha256 H (JObj r)" "stored_response row = Inr stored"
    "check_result H svc r (mark_replay H stored) = Inr (mark_replay H stored)"
    "\<forall>k. k \<noteq> ''idempotent_replay'' \<longrightarrow> k \<noteq> ''result_content_sha256'' \<longrightarrow> dget d k = dget stored k"
    using assms(2) by (auto simp: answered_by_def)
  from score_answered [OF assms(1) st(1,2) assms(3,4) st(3)] st(4) show ?thesis
    by (auto simp: mark_replay_def Let_def)
qed

end

end
