(* ===== verification/Oracle_Package.thy ===== *)
theory Oracle_Package
  imports Oracle_Answer
begin

text \<open>
  The frozen package: a valid label source is always frozen, and the package is read back with the
  labels of the source. The first section is the type invariant of the parser that this rests on:
  no object read by \<open>json.loads\<close> repeats a key.
\<close>

section \<open>Values read have distinct keys\<close>

primrec uniq_json :: "json \<Rightarrow> bool" where
  "uniq_json JNull = True"
| "uniq_json (JBool b) = True"
| "uniq_json (JInt n) = True"
| "uniq_json (JFloat f) = True"
| "uniq_json (JStr s) = True"
| "uniq_json (JArr xs) = list_all id (map uniq_json xs)"
| "uniq_json (JObj d) = (distinct (map fst d) \<and> list_all snd (map (map_prod id uniq_json) d))"

lemma uniq_number: "scan_number s = Some (v, r) \<Longrightarrow> uniq_json v"
  by (auto simp: scan_number_def Let_def split: if_splits option.splits prod.splits)

lemma uniq_literal: "scan_literal s = Inr (v, r) \<Longrightarrow> uniq_json v"
  by (auto simp: scan_literal_def uniq_number split: if_splits option.splits)

lemma unique_keys_Inr: "unique_keys d = Inr v \<Longrightarrow> v = JObj d \<and> distinct (map fst d)"
  using repeated_key_None [of "[]" "map fst d"] by (auto simp: unique_keys_def split: option.splits)

lemma last_wins_keys: "distinct (map fst (last_wins d))" and last_wins_values: "set (map snd (last_wins d)) \<subseteq> set (map snd d)"
proof -
  have vals: "set (map snd (dict_set e k v)) \<subseteq> insert v (set (map snd e))" for e :: dict and k v
    by (induction e k v rule: dict_set.induct) auto
  have "distinct (map fst e) \<Longrightarrow> distinct (map fst (foldl (\<lambda>d p. dict_set d (fst p) (snd p)) e d))
    \<and> set (map snd (foldl (\<lambda>d p. dict_set d (fst p) (snd p)) e d)) \<subseteq> set (map snd e) \<union> set (map snd d)" for e
  proof (induction d arbitrary: e)
    case (Cons p d)
    have d: "distinct (map fst (dict_set e (fst p) (snd p)))" using Cons.prems by simp
    have "set (map snd (dict_set e (fst p) (snd p))) \<union> set (map snd d) \<subseteq> set (map snd e) \<union> set (map snd (p # d))"
      using vals [of e "fst p" "snd p"] by auto
    with Cons.IH [OF d] show ?case unfolding foldl_Cons by blast
  qed simp
  from this [of "[]"] show "distinct (map fst (last_wins d))" and "set (map snd (last_wins d)) \<subseteq> set (map snd d)"
    by (auto simp: last_wins_def)
qed

lemma object_hook_uniq:
  assumes "object_hook st d = Inr v" and "\<forall>p \<in> set d. uniq_json (snd p)"
  shows "uniq_json v"
proof -
  obtain e where e: "v = JObj e" "distinct (map fst e)" "set (map snd e) \<subseteq> set (map snd d)"
    using assms(1) last_wins_keys last_wins_values by (auto simp: object_hook_def split: if_splits dest!: unique_keys_Inr)
  have "uniq_json (snd p)" if "p \<in> set e" for p
  proof -
    have "snd p \<in> set (map snd d)" using that e(3) by auto
    then show ?thesis using assms(2) by auto
  qed
  then show ?thesis using e(1,2) by (auto simp: list_all_iff)
qed

lemma scan_uniq:
  "(\<forall>v r. scan_value st n s = Inr (v, r) \<longrightarrow> uniq_json v)"
  "(\<forall>xs r. scan_items st n s = Inr (xs, r) \<longrightarrow> list_all uniq_json xs)"
  "(\<forall>ps r. scan_pairs st n s = Inr (ps, r) \<longrightarrow> list_all (uniq_json \<circ> snd) ps)"
proof (induction st n s and st n s and st n s rule: scan_value_scan_items_scan_pairs.induct)
  case (2 st n s)
  show ?case
  proof (intro allI impI)
    fix v r assume a: "scan_value st (Suc n) s = Inr (v, r)"
    then obtain c q where s: "s = c # q" by (cases s) auto
    show "uniq_json v"
    proof (cases "c = CHR 0x22 \<or> c = CHR ''['' \<or> c = CHR 0x7B")
      case False
      then show ?thesis using a s uniq_literal by auto
    next
      case True
      then show ?thesis using a s 2 [OF s]
        by (auto simp: bind_res_pair bind_res_Inr_iff list_all_iff split: list.splits option.splits if_splits
            intro: object_hook_uniq)
    qed
  qed
next
  case (4 st n s)
  show ?case
  proof (intro allI impI)
    fix xs r assume a: "scan_items st (Suc n) s = Inr (xs, r)"
    then obtain v r1 where v: "scan_value st n s = Inr (v, r1)" by (auto simp: bind_res_pair)
    then obtain d r2 where d: "skip_ws r1 = d # r2" using a by (cases "skip_ws r1") auto
    show "list_all uniq_json xs"
      using a v d 4(1) 4(2) [of r1 d r2] by (auto simp: bind_res_pair split: if_splits)
  qed
next
  case (6 st n s)
  show ?case
  proof (intro allI impI)
    fix ps r assume a: "scan_pairs st (Suc n) s = Inr (ps, r)"
    from scan_pairs_cases [OF this] obtain c q k r1 d r2 v r3 e r4 where eq: "s = c # q" "scan_string q = Some (k, r1)"
      "skip_ws r1 = d # r2" "scan_value st n (skip_ws r2) = Inr (v, r3)" "skip_ws r3 = e # r4" by metis
    then have "c = CHR 0x22" "d = CHR '':''" using a by (auto split: if_splits)
    with a eq 6(1) [OF eq(1) _ eq(2) refl eq(3)] 6(2) [OF eq(1) _ eq(2) refl eq(3) _ eq(5)]
    show "list_all (uniq_json \<circ> snd) ps" by (auto simp: bind_res_pair comp_def split: if_splits)
  qed
qed auto

lemma loads_uniq: "loads s = Inr v \<Longrightarrow> uniq_json v"
proof -
  assume "loads s = Inr v"
  then obtain r where "scan_value True (Suc (2 * length s)) (skip_ws s) = Inr (v, r)"
    by (auto simp: loads_def loads_with_def bind_res_pair split: if_splits simp del: scan_value.simps)
  then show "uniq_json v" using scan_uniq(1) by blast
qed

lemma loads_bytes_uniq: "loads_bytes raw = Inr v \<Longrightarrow> uniq_json v"
  using loads_uniq by (auto simp: loads_bytes_def split: if_splits)

section \<open>Checksum lines\<close>

lemma no_break: "visible c \<or> c = CHR 0x20 \<Longrightarrow> front_space line_breaks (c # s) = None"
  unfolding front_space_def find_None_iff by (auto simp: line_breaks_def visible_def ord_def)

lemma lines_from_text:
  "list_all (\<lambda>c. visible c \<or> c = CHR 0x20) t \<Longrightarrow>
   lines_from acc (t @ CHR 0x0A # s) = (rev acc @ t) # lines_from [] s"
proof (induction t arbitrary: acc)
  case Nil
  have "front_space line_breaks (CHR 0x0A # s) = Some [CHR 0x0A]" by (simp add: front_space_def line_breaks_def)
  then show ?case by (simp add: lines_from.simps [of acc])
next
  case (Cons c t)
  then show ?case using no_break [of c "t @ CHR 0x0A # s"] by (simp add: lines_from.simps [of acc])
qed

lemma lines_from_Nil: "lines_from [] [] = []"
  by (simp add: lines_from.simps front_space_def line_breaks_def)

lemma partition_spaces_text:
  "list_all visible d \<Longrightarrow> partition_spaces (d @ CHR 0x20 # CHR 0x20 # n) = Some (d, n)"
proof (induction d)
  case (Cons c d)
  have "c \<noteq> CHR 0x20" using Cons.prems by (auto simp: visible_def ord_def)
  moreover obtain e t where "d @ CHR 0x20 # CHR 0x20 # n = e # t" by (cases d) auto
  ultimately show ?case using Cons by simp
qed simp

lemma checksum_lines:
  assumes "match_sha256 a" and "match_sha256 b"
  shows "checksum_entries (Some (checksum_line a ''hidden-labels.json'' @ checksum_line b ''n1-oracle-package.json''))
    = Inr [(''hidden-labels.json'', a), (''n1-oracle-package.json'', b)]"
proof -
  let ?t = "checksum_line a ''hidden-labels.json'' @ checksum_line b ''n1-oracle-package.json''"
  have v: "list_all visible a" "list_all visible b" using assms sha256_visible by auto
  then have ok: "list_all (\<lambda>c. visible c \<or> c = CHR 0x20) (x @ ''  '' @ n)"
    if "x = a \<or> x = b" and "n \<in> set checksum_names" for x n
  proof -
    have "list_all (list_all visible) checksum_names" by (simp add: checksum_names_def visible_def ord_def)
    then show ?thesis using that v by (auto simp: list_all_iff)
  qed
  have "splitlines ?t = [a @ ''  '' @ ''hidden-labels.json'', b @ ''  '' @ ''n1-oracle-package.json'']"
    using lines_from_text [OF ok [of a "''hidden-labels.json''"], of "[]" "checksum_line b ''n1-oracle-package.json''"]
      lines_from_text [OF ok [of b "''n1-oracle-package.json''"], of "[]" "[]"]
    by (simp add: splitlines_def checksum_line_def checksum_names_def lines_from_Nil)
  moreover have "valid_utf8 ?t"
    using ok [of a "''hidden-labels.json''"] ok [of b "''n1-oracle-package.json''"]
    by (intro valid_utf8_ascii) (auto simp: checksum_line_def checksum_names_def list_all_iff visible_def ord_def)
  moreover have "checksum_loop [a @ ''  '' @ ''hidden-labels.json'', b @ ''  '' @ ''n1-oracle-package.json''] []
      = Inr [(''hidden-labels.json'', a), (''n1-oracle-package.json'', b)]"
  proof -
    have d: "oracle_digest (JStr a) ''checksum'' = Inr a" "oracle_digest (JStr b) ''checksum'' = Inr b"
      using assms by (simp_all add: result_simps)
    have p: "partition_spaces (x @ ''  '' @ n) = Some (x, n)" if "x = a \<or> x = b" for x n
      using partition_spaces_text [of x n] that v by auto
    show ?thesis unfolding checksum_loop.simps p [OF disjI1 [OF refl]] p [OF disjI2 [OF refl]] option.case prod.case d
      by (simp add: d checksum_names_def)
  qed
  ultimately show ?thesis by (simp add: checksum_entries_def checksum_names_def)
qed

section \<open>Writing and reading the package\<close>

lemma sort_keys_strs: "map sort_keys (map JStr xs) = map JStr xs"
  by (induction xs) auto

lemma denotes_label_sorted:
  assumes "denotes_label v l" and "uniq_json v"
  shows "denotes_label (sort_keys v) l"
proof -
  obtain d where d: "v = JObj d" "distinct (map fst d)" using assms by (auto simp: denotes_label_def)
  with assms(1) show ?thesis
    unfolding denotes_label_def d(1) sort_keys_loads by (auto simp: keys_loads dget_loads [OF d(2)])
qed

lemma label_source_sorted:
  assumes "label_source_ok v oid labels" and "uniq_json v"
  shows "label_source_ok (sort_keys v) oid labels"
proof -
  obtain root raw where r: "v = JObj root" "dget root ''labels'' = JArr raw" "list_all2 denotes_label raw labels"
    using assms(1) by (auto simp: label_source_ok_def)
  have d: "distinct (map fst root)" using assms(2) r(1) by simp
  have "uniq_json (JArr raw)"
    using assms(2) r(1,2) by (auto simp: dget_def list_all_iff split: option.splits dest!: map_of_SomeD)
  then have "list_all2 denotes_label (map sort_keys raw) labels"
    using r(3) denotes_label_sorted by (auto simp: list_all2_conv_all_nth list_all_length)
  with assms(1) r show ?thesis
    unfolding label_source_ok_def r(1) sort_keys_loads by (auto simp: keys_loads dget_loads [OF d])
qed

lemma dict_wf:
  assumes "distinct (map fst d)" and "\<And>k. k \<in> keys d \<Longrightarrow> wf_json (dget d k) \<and> utf8_json (dget d k) \<and> valid_utf8 k"
  shows "wf_json (JObj d) \<and> utf8_json (JObj d)"
proof -
  have "wf_json v \<and> utf8_json v \<and> valid_utf8 k" if "(k, v) \<in> set d" for k v
  proof -
    have "dget d k = v" using map_of_is_SomeI [OF assms(1) that] by (simp add: dget_def)
    moreover have "k \<in> keys d" using that by (force simp: keys_def)
    ultimately show ?thesis using assms(2) [of k] by simp
  qed
  then show ?thesis using assms(1) by (auto simp: list_all_iff)
qed

lemma OPTION_ID_utf8: "OPTION_ID s \<Longrightarrow> valid_utf8 s"
  using OPTION_ID_visible [of s] by (intro valid_utf8_ascii) (auto simp: list_all_iff visible_def)

lemma denotes_label_wf:
  assumes "denotes_label v l" and "uniq_json v" and "label_ok l"
  shows "wf_json v \<and> utf8_json v"
proof -
  obtain d where d: "v = JObj d" "keys d = set LABEL_FIELDS" "dget d ''object_id'' = JStr (l_object_id l)"
    "dget d ''task_binding_sha256'' = JStr (l_task_binding_sha256 l)"
    "dget d ''success_scoring_rule'' = JStr (l_success_scoring_rule l)"
    "dget d ''answer_option_ids'' = JArr (map JStr (l_answer_option_ids l))"
    "dget d ''correct_answer_id'' = JStr (l_correct_answer_id l)"
    using assms(1) by (auto simp: denotes_label_def)
  have dist: "distinct (map fst d)" using assms(2) d(1) by simp
  have utf8: "list_all valid_utf8 LABEL_FIELDS" by code_simp
  have opts: "list_all valid_utf8 (l_answer_option_ids l)" "valid_utf8 (l_correct_answer_id l)"
    using assms(3) OPTION_ID_utf8 by (auto simp: label_ok_def list_all_iff)
  have strs: "valid_utf8 (l_object_id l)" "valid_utf8 (l_task_binding_sha256 l)" "valid_utf8 (l_success_scoring_rule l)"
    using assms(3) IDENTIFIER_utf8 utf8_digest rule_utf8 by (auto simp: label_ok_def)
  have "wf_json (dget d k) \<and> utf8_json (dget d k) \<and> valid_utf8 k" if "k \<in> keys d" for k
  proof -
    have "k \<in> {''object_id'', ''task_binding_sha256'', ''success_scoring_rule'', ''answer_option_ids'', ''correct_answer_id''}"
      using that d(2) by (simp add: LABEL_FIELDS_def)
    moreover have "valid_utf8 k" using that d(2) utf8 by (simp add: list_all_iff)
    ultimately show ?thesis using d(3-7) opts strs by (elim insertE) (simp_all add: list_all_iff)
  qed
  then show ?thesis unfolding d(1) using dict_wf [OF dist] by blast
qed

lemma label_source_wf:
  assumes "label_source_ok v oid labels" and "uniq_json v"
  shows "wf_json v \<and> utf8_json v"
proof -
  obtain root raw where r: "v = JObj root" "keys root = set LABEL_SOURCE_FIELDS" "dget root ''labels'' = JArr raw"
    "list_all2 denotes_label raw labels" "dget root ''oracle_id'' = JStr oid"
    "dget root ''schema_version'' = JStr N1_LABEL_SOURCE_SCHEMA_VERSION" "dget root ''logical_node_id'' = JStr N1_NODE_ID"
    "dget root ''credentials_recorded'' = JBool False"
    using assms(1) by (auto simp: label_source_ok_def)
  have d: "distinct (map fst root)" using assms(2) r(1) by simp
  have "uniq_json (JArr raw)"
    using assms(2) r(1,3) by (auto simp: dget_def list_all_iff split: option.splits dest!: map_of_SomeD)
  then have raw: "wf_json (JArr raw) \<and> utf8_json (JArr raw)"
    using r(4) assms(1) denotes_label_wf by (auto simp: label_source_ok_def list_all2_conv_all_nth list_all_length)
  have lit: "valid_utf8 N1_LABEL_SOURCE_SCHEMA_VERSION" "valid_utf8 N1_NODE_ID" "list_all valid_utf8 LABEL_SOURCE_FIELDS" by code_simp+
  have oid: "valid_utf8 oid" using assms(1) IDENTIFIER_utf8 by (simp add: label_source_ok_def)
  have "wf_json (dget root k) \<and> utf8_json (dget root k) \<and> valid_utf8 k" if "k \<in> keys root" for k
  proof -
    have "k \<in> {''schema_version'', ''oracle_id'', ''logical_node_id'', ''labels'', ''credentials_recorded''}"
      using that r(2) by (simp add: LABEL_SOURCE_FIELDS_def)
    moreover have "valid_utf8 k" using that r(2) lit(3) by (simp add: list_all_iff)
    ultimately show ?thesis using r raw lit oid by (elim insertE) (simp_all del: wf_json.simps(6) utf8_json.simps(6))
  qed
  then show ?thesis unfolding r(1) using dict_wf [OF d] by blast
qed

lemma manifest_get:
  "dget (package_manifest H oid labels hb) ''schema_version'' = JStr N1_ORACLE_PACKAGE_SCHEMA_VERSION"
  "dget (package_manifest H oid labels hb) ''status'' = JStr ''FROZEN_HIDDEN_ORACLE''"
  "dget (package_manifest H oid labels hb) ''logical_node_id'' = JStr N1_NODE_ID"
  "dget (package_manifest H oid labels hb) ''oracle_id'' = JStr oid"
  "dget (package_manifest H oid labels hb) ''label_count'' = JInt (int (length labels))"
  "dget (package_manifest H oid labels hb) ''hidden_labels_sha256'' = JStr (H hb)"
  "dget (package_manifest H oid labels hb) ''public_task_set_sha256'' = JStr (public_task_set_sha256 H labels)"
  "dget (package_manifest H oid labels hb) ''label_values_hidden'' = JBool True"
  "dget (package_manifest H oid labels hb) ''not_for_flowmesh_plan'' = JBool True"
  "dget (package_manifest H oid labels hb) ''endpoint_binding_present'' = JBool False"
  "dget (package_manifest H oid labels hb) ''credentials_recorded'' = JBool False"
  "dget (package_manifest H oid labels hb) ''eligible_for_scientific_claims'' = JBool False"
  by (simp_all add: package_manifest_def dget_Cons)

lemma manifest_fields: "map fst (package_manifest H oid labels hb) = PACKAGE_FIELDS"
  by (simp add: package_manifest_def PACKAGE_FIELDS_def)

lemma manifest_distinct: "distinct (map fst (package_manifest H oid labels hb))"
  unfolding manifest_fields by code_simp

lemma manifest_keys: "keys (package_manifest H oid labels hb) = set PACKAGE_FIELDS"
  unfolding keys_def set_map [symmetric] manifest_fields ..

context oracle_digests
begin

lemma manifest_wf:
  assumes "oracle_IDENTIFIER oid"
  shows "wf_json (JObj (package_manifest H oid labels hb)) \<and> utf8_json (JObj (package_manifest H oid labels hb))"
proof -
  have "valid_utf8 N1_ORACLE_PACKAGE_SCHEMA_VERSION" "valid_utf8 N1_NODE_ID" "valid_utf8 ''FROZEN_HIDDEN_ORACLE''"
    "list_all valid_utf8 PACKAGE_FIELDS" by code_simp+
  then have "list_all (\<lambda>p. wf_json (snd p) \<and> utf8_json (snd p)) (package_manifest H oid labels hb)"
    "list_all valid_utf8 (map fst (package_manifest H oid labels hb))"
    unfolding manifest_fields
    by (simp_all add: package_manifest_def utf8_digest digest_form public_task_set_sha256_def value_sha256_def IDENTIFIER_utf8 assms)
  then show ?thesis using manifest_distinct [of H oid labels hb] by (auto simp: list_all_iff)
qed

lemma check_manifest_frozen:
  "check_manifest H oid labels hb (loads_dict (package_manifest H oid labels hb)) = Inr ()"
  by (simp add: check_manifest_def exact_fields_def keys_loads manifest_keys dget_loads [OF manifest_distinct] manifest_get)

text \<open>The stage directory of a valid source is a package with its labels.\<close>

lemma stage_loads:
  assumes src: "label_source_ok v oid labels" and uniq: "uniq_json v"
  defines "hb \<equiv> file_json_bytes v"
  defines "mb \<equiv> file_json_bytes (JObj (package_manifest H oid labels hb))"
  shows "load_verified_package H target (Some [(''hidden-labels.json'', Some hb), (''n1-oracle-package.json'', Some mb),
      (''SHA256SUMS'', Some (checksum_line (H hb) ''hidden-labels.json'' @ checksum_line (H mb) ''n1-oracle-package.json''))])
    = Inr (loads_dict (package_manifest H oid labels hb), labels)"
proof -
  have "loads_bytes hb = Inr (sort_keys v)" using label_source_wf [OF src uniq] by (simp add: hb_def file_json_bytes_def loads_bytes_indent)
  moreover have "loads_bytes mb = Inr (JObj (loads_dict (package_manifest H oid labels hb)))"
    using loads_bytes_indent [of "JObj (package_manifest H oid labels hb)"] manifest_wf [of oid labels hb] src
    unfolding mb_def file_json_bytes_def sort_keys_loads label_source_ok_def by blast
  moreover have "file_json_bytes (sort_keys v) = hb" by (simp add: hb_def file_json_bytes_def dumps_indent_sort_keys)
  moreover have "file_json_bytes (JObj (loads_dict (package_manifest H oid labels hb))) = mb"
    by (simp add: mb_def file_json_bytes_def sort_keys_loads [symmetric] dumps_indent_sort_keys del: sort_keys.simps dumps_indent.simps)
  moreover have "validate_label_source (sort_keys v) = Inr (oid, labels)"
    using label_source_sorted [OF src uniq] by (simp add: result_simps)
  moreover have "insert ''hidden-labels.json'' {''n1-oracle-package.json'', ''SHA256SUMS''} = set (''SHA256SUMS'' # checksum_names)"
    by (auto simp: checksum_names_def)
  ultimately show ?thesis
    by (simp add: load_verified_package_def package_file_def checksum_lines digest_form read_json_def json_value_def
        mapping_def check_manifest_frozen)
qed

lemma build_package:
  assumes "loads_bytes raw = Inr v" and "label_source_ok v oid labels"
  obtains stage report where "build_n1_oracle_package H source (Some raw) target False False = Inr (stage, report)"
    and "load_verified_package H target (Some stage) = Inr (loads_dict (package_manifest H oid labels (file_json_bytes v)), labels)"
    and "dget report ''label_count'' = JInt (int (length labels))"
proof -
  let ?hb = "file_json_bytes v"
  let ?mb = "file_json_bytes (JObj (package_manifest H oid labels ?hb))"
  let ?stage = "[(''hidden-labels.json'', Some ?hb), (''n1-oracle-package.json'', Some ?mb),
      (''SHA256SUMS'', Some (checksum_line (H ?hb) ''hidden-labels.json'' @ checksum_line (H ?mb) ''n1-oracle-package.json''))]"
  have load: "load_verified_package H target (Some ?stage) = Inr (loads_dict (package_manifest H oid labels ?hb), labels)"
    by (rule stage_loads [OF assms(2) loads_bytes_uniq [OF assms(1)]])
  have "read_json source (Some raw) ''hidden label source'' = Inr (raw, v)" using assms(1) by (simp add: read_json_def json_value_def)
  moreover have "validate_label_source v = Inr (oid, labels)" using assms(2) by (simp add: result_simps)
  ultimately obtain report where "build_n1_oracle_package H source (Some raw) target False False = Inr (?stage, report)"
    and "dget report ''label_count'' = JInt (int (length labels))"
    using load by (simp add: build_n1_oracle_package_def verify_n1_oracle_package_def Let_def dget_Cons del: dumps_indent.simps)
  with load that show ?thesis by blast
qed

end

section \<open>Opening the service\<close>

text \<open>What a package that loads contains.\<close>

definition package_of :: "(bytes \<Rightarrow> string) \<Rightarrow> bytes \<Rightarrow> dict \<Rightarrow> label list \<Rightarrow> bool" where
  "package_of H hb m labels \<longleftrightarrow> (\<exists>v oid. loads_bytes hb = Inr v \<and> label_source_ok v oid labels
     \<and> dget m ''oracle_id'' = JStr oid \<and> dget m ''hidden_labels_sha256'' = JStr (H hb)
     \<and> dget m ''public_task_set_sha256'' = JStr (public_task_set_sha256 H labels))"

lemma check_manifest_Inr:
  "check_manifest H oid labels hb m = Inr () \<Longrightarrow> dget m ''oracle_id'' = JStr oid \<and> dget m ''hidden_labels_sha256'' = JStr (H hb)
     \<and> dget m ''public_task_set_sha256'' = JStr (public_task_set_sha256 H labels)"
  by (simp add: check_manifest_def result_simps)

lemma read_json_Inr: "read_json path c name = Inr (raw, v) \<longleftrightarrow> c = Some raw \<and> loads_bytes raw = Inr v"
  by (auto simp: read_json_def json_value_def result_simps split: option.splits sum.splits json_error.splits)

lemma loaded_package:
  assumes "load_verified_package H pkg_root dir = Inr (m, labels)"
  obtains files hb where "dir = Some files" and "package_file files ''hidden-labels.json'' = Some hb" and "package_of H hb m labels"
  using assms
  by (auto simp: load_verified_package_def result_simps read_json_Inr package_of_def split: option.splits prod.splits
      dest!: check_manifest_Inr)

lemma package_unique: "package_of H hb m labels \<Longrightarrow> package_of H hb m' labels' \<Longrightarrow> labels = labels'"
  by (auto simp: package_of_def) (metis fst_conv snd_conv sum.inject(2) validate_label_source_Inr)

definition bound_row :: "(bytes \<Rightarrow> bytes \<Rightarrow> string) \<Rightarrow> oracle_service \<Rightarrow> oracle_state_row" where
  "bound_row M svc = \<lparr>os_schema_version = N1_SCORE_STORE_SCHEMA_VERSION, os_oracle_id = svc_oracle_id svc,
     os_hidden_labels_sha256 = req_text (svc_manifest svc) ''hidden_labels_sha256'',
     os_evidence_key_id = evidence_key_id M (svc_secret svc) (dget (svc_manifest svc) ''oracle_id'')\<rparr>"

definition bound :: "(bytes \<Rightarrow> bytes \<Rightarrow> string) \<Rightarrow> oracle_service \<Rightarrow> score_store \<Rightarrow> bool" where
  "bound M svc db \<longleftrightarrow> oracle_state db = Some (bound_row M svc) \<and> set (score_columns db) = set SCORE_COLUMNS"

lemma map_sum_Inr: "map_sum id f r = Inr y \<longleftrightarrow> (\<exists>x. r = Inr x \<and> y = f x)"
  by (cases r) auto

lemma store_initialize_Inr:
  assumes "store_initialize oid h key db = (db', Inr x)"
  shows "oracle_state db' = Some \<lparr>os_schema_version = N1_SCORE_STORE_SCHEMA_VERSION, os_oracle_id = oid,
      os_hidden_labels_sha256 = h, os_evidence_key_id = key\<rparr>"
    and "set (score_columns db') = set SCORE_COLUMNS" and "oracle_state db = None \<or> db' = db"
proof -
  show "oracle_state db = None \<or> db' = db" using assms by (cases "oracle_state db") (simp_all add: store_initialize_def Let_def)
  show "oracle_state db' = Some \<lparr>os_schema_version = N1_SCORE_STORE_SCHEMA_VERSION, os_oracle_id = oid,
      os_hidden_labels_sha256 = h, os_evidence_key_id = key\<rparr>" and "set (score_columns db') = set SCORE_COLUMNS"
    using assms by (cases "oracle_state db"; clarsimp simp: store_initialize_def Let_def require_Inr_iff)+
qed

lemma open_service_Inr:
  assumes "open_service H M pkg_root dir secret db = (db', Inr svc)"
  shows "load_verified_package H pkg_root dir = Inr (svc_manifest svc, svc_labels svc)" "svc_secret svc = secret"
    "32 \<le> length secret" "bound M svc db'" "oracle_state db = None \<or> db' = db"
proof -
  obtain m ls where l: "load_verified_package H pkg_root dir = Inr (m, ls)" "32 \<le> length secret"
    using assms by (cases "load_verified_package H pkg_root dir")
      (auto simp: open_service_def require_def split: if_splits)
  let ?key = "evidence_key_id M secret (dget m ''oracle_id'')"
  obtain k where k: "oracle_digest (JStr ?key) ''evidence_key_id'' = Inr k"
    using assms l by (cases "oracle_digest (JStr ?key) ''evidence_key_id''") (auto simp: open_service_def)
  then have "k = ?key" by (simp add: result_simps)
  then obtain r where s: "store_initialize (req_text m ''oracle_id'') (req_text m ''hidden_labels_sha256'') ?key db = (db', r)"
    and r: "map_sum id (\<lambda>_. \<lparr>svc_manifest = m, svc_labels = ls, svc_secret = secret\<rparr>) r = Inr svc"
    using assms l k by (auto simp: open_service_def Let_def split: prod.splits)
  from r obtain x where x: "r = Inr x" and svc: "svc = \<lparr>svc_manifest = m, svc_labels = ls, svc_secret = secret\<rparr>"
    by (auto simp: map_sum_Inr)
  show "load_verified_package H pkg_root dir = Inr (svc_manifest svc, svc_labels svc)" "svc_secret svc = secret"
    "32 \<le> length secret" using l svc by simp_all
  from store_initialize_Inr [OF s [unfolded x]] show "bound M svc db'" "oracle_state db = None \<or> db' = db"
    by (auto simp: bound_def bound_row_def svc svc_oracle_id_def)
qed

context oracle_digests
begin

lemma open_service_ok:
  assumes "open_service H M pkg_root dir secret db = (db', Inr svc)"
  shows "service_ok svc"
proof -
  obtain files hb where "package_of H hb (svc_manifest svc) (svc_labels svc)"
    using loaded_package [OF open_service_Inr(1) [OF assms]] by metis
  then show ?thesis
    unfolding service_ok_def package_of_def label_source_ok_def
    by (auto simp: public_task_set_sha256_def value_sha256_form strict_sorted_iff)
qed

lemma reopen:
  assumes "open_service H M pkg_root dir secret db = (db', Inr svc)" and "bound M svc db2"
  shows "open_service H M pkg_root dir secret db2 = (db2, Inr svc)"
proof -
  note o = open_service_Inr [OF assms(1)]
  have "oracle_digest (JStr (evidence_key_id M secret (dget (svc_manifest svc) ''oracle_id''))) ''evidence_key_id''
      = Inr (evidence_key_id M secret (dget (svc_manifest svc) ''oracle_id''))"
    by (simp add: result_simps evidence_key_id_def value_hmac_form)
  moreover have "N1_SCORE_STORE_SCHEMA_VERSION \<notin> {LEGACY_SCORE_STORE_SCHEMA_VERSION, LEGACY_SCORE_RESULT_SCHEMA_VERSION}" by code_simp
  ultimately show ?thesis
    using assms(2) o(1-3)
    by (cases svc) (auto simp: open_service_def store_initialize_def Let_def bound_def bound_row_def svc_oracle_id_def)
qed

end

end
