(* ===== verification/Oracle_Once.thy ===== *)
theory Oracle_Once
  imports Oracle_Package
begin

text \<open>
  One trial, one score: requests with the same canonical text have the same fields, a row that
  answers a request belongs to its trial, and so a trial once answered is answered for that
  request only, unless two request texts have the same digest.
\<close>

lemma plain_flat:
  assumes "distinct (map fst d)" and "\<And>k. k \<in> keys d \<Longrightarrow> plain (dget d k)"
  shows "plain (JObj d)"
proof -
  have "plain v" if "(k, v) \<in> set d" for k v
    using that assms(2) [of k] map_of_is_SomeI [OF assms(1) that] by (force simp: keys_def dget_def)
  then show ?thesis using assms(1) by (auto simp: list_all_iff)
qed

lemma request_plain:
  assumes "score_request_ok H r" and "distinct (map fst r)"
  shows "plain (JObj r)"
proof (rule plain_flat [OF assms(2)])
  fix k assume "k \<in> keys r"
  then have "k \<in> set SCORE_REQUEST_FIELDS" using assms(1) by (simp add: score_request_ok_def)
  then have "\<exists>v. dget r k = v \<and> ((\<exists>s. v = JStr s) \<or> v = JBool False)"
    using assms(1) unfolding score_request_ok_def SCORE_REQUEST_FIELDS_def by auto
  then show "plain (dget r k)" by auto
qed

lemma same_text_same_fields:
  assumes "score_request_ok H r" "distinct (map fst r)" "score_request_ok H r'" "distinct (map fst r')"
    and "dumps (JObj r) = dumps (JObj r')"
  shows "dget r k = dget r' k"
proof -
  have "loads_dict r = loads_dict r'"
    using dumps_inj [OF request_plain request_plain assms(5)] assms(1-4) sort_keys_loads by (metis json.inject(6))
  then have "sort_keys (dget r k) = sort_keys (dget r' k)" using dget_loads [OF assms(2), of k] dget_loads [OF assms(4), of k] by simp
  moreover have "scalar (dget q k)" if q: "score_request_ok H q" for q
  proof (cases "k \<in> keys q")
    case True
    then have "k \<in> set SCORE_REQUEST_FIELDS" using q by (simp add: score_request_ok_def)
    then have "(\<exists>s. dget q k = JStr s) \<or> dget q k = JBool False"
      using q unfolding score_request_ok_def SCORE_REQUEST_FIELDS_def by auto
    then show ?thesis by auto
  next
    case False
    then have "map_of q k = None" by (simp add: keys_def map_of_eq_None_iff)
    then show ?thesis by (simp add: dget_def)
  qed
  ultimately show ?thesis using assms(1,3) by simp
qed

lemma core_cong:
  assumes "\<And>k. dget r k = dget r' k" and "dumps (JObj r) = dumps (JObj r')"
  shows "score_response_core H M svc r l = score_response_core H M svc r' l"
  using assms by (simp add: score_response_core_def score_evidence_hmac_def value_sha256_def del: dumps.simps)

lemma unit_cong:
  assumes "score_request_ok H r" "score_request_ok H r'" and "dget r ''oracle_id'' = dget r' ''oracle_id''"
    "dget r ''run_id'' = dget r' ''run_id''" "dget r ''trial_id'' = dget r' ''trial_id''"
  shows "dget r ''evaluation_unit_id'' = dget r' ''evaluation_unit_id''"
  using assms unfolding score_request_ok_def by auto

context oracle_digests
begin

lemma answered_row:
  assumes inv: "store_inv H M svc db" and svc: "service_ok svc"
    and row: "find_score db (req_text r ''score_request_id'') = Some row" and ans: "answered_by svc r row d"
  obtains r0 l0 where "row = score_row_of H M svc r0 l0" and "scored H svc r0 l0"
    and "value_sha256 H (JObj r0) = value_sha256 H (JObj r)"
    and "sr_evaluation_unit_id row = req_text r ''evaluation_unit_id''"
    and "\<And>k. k \<noteq> ''idempotent_replay'' \<Longrightarrow> k \<noteq> ''result_content_sha256'' \<Longrightarrow> dget d k = dget (score_response_core H M svc r0 l0) k"
proof -
  have "row \<in> set (oracle_scores db)" using find_Some_in [OF row [unfolded find_score_def]] by simp
  then obtain r0 l0 where r0: "scored H svc r0 l0" "row = score_row_of H M svc r0 l0" using inv by (auto simp: store_inv_def)
  have ok: "score_request_ok H r0" using r0 by (simp add: scored_def scorable_def)
  obtain stored where st: "sr_request_sha256 row = value_sha256 H (JObj r)" "stored_response row = Inr stored"
    "check_result H svc r (mark_replay H stored) = Inr (mark_replay H stored)"
    "\<forall>k. k \<noteq> ''idempotent_replay'' \<longrightarrow> k \<noteq> ''result_content_sha256'' \<longrightarrow> dget d k = dget stored k"
    using ans by (auto simp: answered_by_def)
  have stored: "stored = loads_dict (score_response H M svc r0 l0)" using st(2) stored_row [OF svc r0(1)] r0(2) by simp
  have get: "dget stored k = dget (score_response_core H M svc r0 l0) k" if "k \<noteq> ''result_content_sha256''" for k
    using that by (simp add: stored stored_get [OF svc ok] response_get)
  have r: "score_request_ok H r" and eq: "py_eq (dget stored ''evaluation_unit_id'') (dget r ''evaluation_unit_id'')"
    using st(3) by (auto simp: check_result_Inr score_result_ok_def mark_replay_def Let_def)
  obtain u where "dget r ''evaluation_unit_id'' = JStr u" using score_request_fields(2) [OF r] by blast
  with eq get [of "''evaluation_unit_id''"] have "dget r0 ''evaluation_unit_id'' = dget r ''evaluation_unit_id''"
    by (simp add: core_get)
  then have u: "sr_evaluation_unit_id row = req_text r ''evaluation_unit_id''"
    and h: "value_sha256 H (JObj r0) = value_sha256 H (JObj r)"
    using r0(2) st(1) by (simp_all add: score_row_of_def)
  show ?thesis by (rule that [OF r0(2,1) h u]) (use st(4) get in simp)
qed

lemma unit_row:
  assumes "store_inv H M svc db" and "find_score db k = Some row"
  shows "find_unit db (sr_evaluation_unit_id row) = Some row"
proof -
  have "row \<in> set (oracle_scores db)" using find_Some_in [OF assms(2) [unfolded find_score_def]] by simp
  moreover have "distinct (map sr_evaluation_unit_id (oracle_scores db))" using assms(1) by (simp add: store_inv_def)
  ultimately show ?thesis
    unfolding find_unit_def using find_Some_in distinct_map_eq_unique find_None_all by (smt (verit) option.exhaust)
qed

lemma prepare_answered:
  assumes "oracle_score H M svc (JObj r) db = (db', Inr d)"
    and "find_unit db (req_text r ''evaluation_unit_id'') = Some row"
  shows "find_score db (req_text r ''score_request_id'') \<noteq> None \<and> db' = db"
  using assms
  by (auto simp: oracle_score_def score_prepare_def replay_if_present_def result_simps split: sum.splits prepared.splits option.splits if_splits)

end

end
