(* ===== verification/Oracle_Demo.thy ===== *)
theory Oracle_Demo
  imports Oracle_Once
begin

text \<open>
  The hidden oracle with SHA-256 and HMAC-SHA-256: the states a run of the service can reach from an
  empty database, and a package with one label, a service opened on it and requests for it,
  which the witnesses of the properties use.
\<close>

interpretation n1: oracle_digests sha256_hex hmac_hex
  by unfold_locales

section \<open>Reachable states\<close>

definition oracle_reachable :: "string \<Rightarrow> package option \<Rightarrow> oracle_service \<Rightarrow> oracle_system \<Rightarrow> bool" where
  "oracle_reachable pkg_root dir svc s \<longleftrightarrow>
     (\<exists>db0. open_service sha256_hex hmac_hex pkg_root dir (svc_secret svc) empty_store = (db0, Inr svc)
       \<and> oracle_run sha256_hex hmac_hex svc (db0, []) s)"

lemma step_bound:
  assumes "oracle_step H M svc s t" and "bound M svc (fst s)"
  shows "bound M svc (fst t)"
  using assms
proof cases
  case (step_finish r resp db db' result before after)
  then show ?thesis
    using assms(2) score_finish_db [of H svc r resp db]
    by (auto simp: execute_once_def insert_score_def bound_def split: option.splits)
next
  case (step_restart pkg_root dir db db' todo)
  then show ?thesis using open_service_Inr(4) by fastforce
qed (use assms(2) in auto)

lemma run_bound: "oracle_run H M svc s t \<Longrightarrow> bound M svc (fst s) \<Longrightarrow> bound M svc (fst t)"
  unfolding oracle_run_def by (induction rule: rtranclp_induct) (auto intro: step_bound)

lemma reachable_facts:
  assumes "oracle_reachable pkg_root dir svc s"
  shows "service_ok svc" "system_inv sha256_hex hmac_hex svc s" "bound hmac_hex svc (fst s)"
    "load_verified_package sha256_hex pkg_root dir = Inr (svc_manifest svc, svc_labels svc)" "32 \<le> length (svc_secret svc)"
proof -
  obtain db0 where o: "open_service sha256_hex hmac_hex pkg_root dir (svc_secret svc) empty_store = (db0, Inr svc)"
    and run: "oracle_run sha256_hex hmac_hex svc (db0, []) s" using assms by (auto simp: oracle_reachable_def)
  show svc: "service_ok svc" by (rule n1.open_service_ok [OF o])
  have "system_inv sha256_hex hmac_hex svc (db0, [])"
    using open_service_scores [OF o] by (simp add: system_inv_def store_inv_def empty_store_def)
  then show "system_inv sha256_hex hmac_hex svc s"
    using score_rows.inv_steps [OF run [unfolded oracle_run_def]] svc by blast
  show "bound hmac_hex svc (fst s)" using run_bound [OF run] open_service_Inr(4) [OF o] by simp
  show "load_verified_package sha256_hex pkg_root dir = Inr (svc_manifest svc, svc_labels svc)" "32 \<le> length (svc_secret svc)"
    using open_service_Inr(1,3) [OF o] by auto
qed

lemma run_continues:
  "oracle_reachable pkg_root dir svc s \<Longrightarrow> oracle_run sha256_hex hmac_hex svc s t \<Longrightarrow> oracle_reachable pkg_root dir svc t"
  unfolding oracle_reachable_def oracle_run_def by (meson rtranclp_trans)

lemma score_is_a_run:
  assumes "distinct (map fst r)" and "utf8_json (JObj r)" and "oracle_score sha256_hex hmac_hex svc (JObj r) db = (db', x)"
  shows "oracle_run sha256_hex hmac_hex svc (db, todo) (db', todo)"
proof (cases "score_prepare sha256_hex hmac_hex svc (JObj r) db")
  case (Inr p)
  show ?thesis
  proof (cases p)
    case (Computed q resp)
    have "oracle_step sha256_hex hmac_hex svc (db, todo) (db, todo @ [(q, resp)])"
      using step_begin [OF assms(1,2)] Inr Computed by simp
    moreover have "oracle_step sha256_hex hmac_hex svc (db, todo @ [(q, resp)]) (db', todo)"
      using step_finish [of sha256_hex svc q resp db db' x hmac_hex todo "[]"] assms(3) Inr Computed by (simp add: oracle_score_def)
    ultimately show ?thesis unfolding oracle_run_def by (rule rtranclp.rtrancl_into_rtrancl [OF r_into_rtranclp])
  qed (use assms(3) Inr in \<open>simp add: oracle_score_def oracle_run_def\<close>)
qed (use assms(3) in \<open>simp add: oracle_score_def oracle_run_def\<close>)

section \<open>The demonstration package\<close>

definition n1demo_label :: label where
  "n1demo_label = \<lparr>l_object_id = ''clip-9'', l_task_binding_sha256 = replicate 64 CHR ''a'',
     l_success_scoring_rule = MULTIPLE_CHOICE_EXACT_SCORING_RULE, l_answer_option_ids = [''A'', ''B''], l_correct_answer_id = ''A''\<rparr>"

definition n1demo_source :: json where
  "n1demo_source = JObj [(''schema_version'', JStr N1_LABEL_SOURCE_SCHEMA_VERSION), (''oracle_id'', JStr ''oracle-1''),
     (''logical_node_id'', JStr N1_NODE_ID),
     (''labels'', JArr [JObj [(''object_id'', JStr ''clip-9''), (''task_binding_sha256'', JStr (replicate 64 CHR ''a'')),
        (''success_scoring_rule'', JStr MULTIPLE_CHOICE_EXACT_SCORING_RULE),
        (''answer_option_ids'', JArr [JStr ''A'', JStr ''B'']), (''correct_answer_id'', JStr ''A'')]]),
     (''credentials_recorded'', JBool False)]"

definition n1demo_manifest :: dict where
  "n1demo_manifest = package_manifest sha256_hex ''oracle-1'' [n1demo_label] (file_json_bytes n1demo_source)"

definition n1demo_stage :: package where
  "n1demo_stage =
     (let hb = file_json_bytes n1demo_source; mb = file_json_bytes (JObj n1demo_manifest)
      in [(''hidden-labels.json'', Some hb), (''n1-oracle-package.json'', Some mb),
          (''SHA256SUMS'', Some (checksum_line (sha256_hex hb) ''hidden-labels.json''
             @ checksum_line (sha256_hex mb) ''n1-oracle-package.json''))])"

definition n1demo_svc :: oracle_service where
  "n1demo_svc = \<lparr>svc_manifest = loads_dict n1demo_manifest, svc_labels = [n1demo_label], svc_secret = replicate 32 CHR ''k''\<rparr>"

definition n1demo_db :: score_store where
  "n1demo_db = fst (open_service sha256_hex hmac_hex ''/pkg'' (Some n1demo_stage) (replicate 32 CHR ''k'') empty_store)"

definition n1demo_request :: "string \<Rightarrow> string \<Rightarrow> dict" where
  "n1demo_request rq answer =
     [(''schema_version'', JStr N1_SCORE_REQUEST_SCHEMA_VERSION), (''score_request_id'', JStr rq),
      (''evaluation_unit_id'', JStr (value_sha256 sha256_hex (unit_json ''oracle-1'' ''run-1'' ''trial-1''))),
      (''oracle_id'', JStr ''oracle-1''), (''run_id'', JStr ''run-1''), (''trial_id'', JStr ''trial-1''),
      (''object_id'', JStr ''clip-9''), (''task_binding_sha256'', JStr (replicate 64 CHR ''a'')),
      (''predicted_answer'', JStr answer), (''credentials_recorded'', JBool False)]"

lemma n1demo_label_ok: "label_ok n1demo_label"
  by code_simp

lemma n1demo_source_ok: "label_source_ok n1demo_source ''oracle-1'' [n1demo_label]"
proof -
  have "keys [(''object_id'', v1), (''task_binding_sha256'', v2), (''success_scoring_rule'', v3), (''answer_option_ids'', v4),
     (''correct_answer_id'', v5)] = set LABEL_FIELDS" for v1 v2 v3 v4 v5 by (auto simp: LABEL_FIELDS_def)
  moreover have "keys [(''schema_version'', v1), (''oracle_id'', v2), (''logical_node_id'', v3), (''labels'', v4),
     (''credentials_recorded'', v5)] = set LABEL_SOURCE_FIELDS" for v1 v2 v3 v4 v5 by (auto simp: LABEL_SOURCE_FIELDS_def)
  moreover have "oracle_IDENTIFIER ''oracle-1''" by code_simp
  ultimately show ?thesis
    using n1demo_label_ok by (simp add: label_source_ok_def n1demo_source_def denotes_label_def dget_Cons n1demo_label_def)
qed

lemma n1demo_source_uniq: "uniq_json n1demo_source"
  by (simp add: n1demo_source_def)

lemma n1demo_load: "load_verified_package sha256_hex ''/pkg'' (Some n1demo_stage) = Inr (loads_dict n1demo_manifest, [n1demo_label])"
  using n1.stage_loads [OF n1demo_source_ok n1demo_source_uniq, of "''/pkg''"]
  by (simp only: n1demo_stage_def n1demo_manifest_def Let_def)

lemma n1demo_open: "open_service sha256_hex hmac_hex ''/pkg'' (Some n1demo_stage) (replicate 32 CHR ''k'') empty_store = (n1demo_db, Inr n1demo_svc)"
proof -
  have "oracle_digest (JStr (evidence_key_id hmac_hex s v)) n = Inr (evidence_key_id hmac_hex s v)" for s v n
    by (simp add: result_simps evidence_key_id_def n1.value_hmac_form)
  moreover have "oracle_state empty_store = None" "score_columns empty_store = SCORE_COLUMNS" by (simp_all add: empty_store_def)
  ultimately show ?thesis
    by (simp add: n1demo_db_def open_service_def n1demo_load store_initialize_def Let_def n1demo_svc_def)
qed

lemma n1demo_reachable: "oracle_reachable ''/pkg'' (Some n1demo_stage) n1demo_svc (n1demo_db, [])"
  using n1demo_open by (auto simp: oracle_reachable_def oracle_run_def n1demo_svc_def)

lemma n1demo_svc_get:
  "dget (svc_manifest n1demo_svc) ''oracle_id'' = JStr ''oracle-1''" "svc_oracle_id n1demo_svc = ''oracle-1''"
  using dget_loads [OF manifest_distinct, of sha256_hex "''oracle-1''" "[n1demo_label]" "file_json_bytes n1demo_source" "''oracle_id''"]
  by (simp_all add: n1demo_svc_def n1demo_manifest_def manifest_get svc_oracle_id_def)

lemma n1demo_request_get:
  "dget (n1demo_request rq answer) ''schema_version'' = JStr N1_SCORE_REQUEST_SCHEMA_VERSION"
  "dget (n1demo_request rq answer) ''score_request_id'' = JStr rq"
  "dget (n1demo_request rq answer) ''evaluation_unit_id'' = JStr (value_sha256 sha256_hex (unit_json ''oracle-1'' ''run-1'' ''trial-1''))"
  "dget (n1demo_request rq answer) ''oracle_id'' = JStr ''oracle-1''"
  "dget (n1demo_request rq answer) ''run_id'' = JStr ''run-1''" "dget (n1demo_request rq answer) ''trial_id'' = JStr ''trial-1''"
  "dget (n1demo_request rq answer) ''object_id'' = JStr ''clip-9''"
  "dget (n1demo_request rq answer) ''task_binding_sha256'' = JStr (replicate 64 CHR ''a'')"
  "dget (n1demo_request rq answer) ''predicted_answer'' = JStr answer"
  "dget (n1demo_request rq answer) ''credentials_recorded'' = JBool False"
  by (simp_all add: n1demo_request_def dget_Cons)

lemma n1demo_request_fields: "map fst (n1demo_request rq answer) = SCORE_REQUEST_FIELDS"
  by (simp add: n1demo_request_def SCORE_REQUEST_FIELDS_def)

lemma n1demo_request_distinct: "distinct (map fst (n1demo_request rq answer))"
  unfolding n1demo_request_fields by code_simp

lemma n1demo_request_utf8: "valid_utf8 rq \<Longrightarrow> valid_utf8 answer \<Longrightarrow> utf8_json (JObj (n1demo_request rq answer))"
proof -
  assume "valid_utf8 rq" "valid_utf8 answer"
  moreover have "valid_utf8 N1_SCORE_REQUEST_SCHEMA_VERSION" "valid_utf8 ''oracle-1''" "valid_utf8 ''run-1''" "valid_utf8 ''trial-1''"
    "valid_utf8 ''clip-9''" "valid_utf8 (replicate 64 CHR ''a'')" "list_all valid_utf8 SCORE_REQUEST_FIELDS" by code_simp+
  moreover have "valid_utf8 (value_sha256 sha256_hex v)" for v by (rule utf8_digest [OF n1.value_sha256_form])
  ultimately have "list_all (\<lambda>p. utf8_json (snd p)) (n1demo_request rq answer)"
    "list_all valid_utf8 (map fst (n1demo_request rq answer))"
    unfolding n1demo_request_fields by (simp_all add: n1demo_request_def del: replicate.simps)
  then show ?thesis by (auto simp: list_all_iff)
qed

lemma n1demo_request_ok:
  assumes "oracle_IDENTIFIER rq" and "length answer \<le> 100"
  shows "score_request_ok sha256_hex (n1demo_request rq answer)"
proof -
  have "oracle_IDENTIFIER ''oracle-1''" "oracle_IDENTIFIER ''clip-9''" "match_sha256 (replicate 64 CHR ''a'')" by code_simp+
  moreover have "text_ok 256 ''run-1''" "text_ok 256 ''trial-1''" by code_simp+
  moreover have "keys (n1demo_request rq answer) = set SCORE_REQUEST_FIELDS"
    unfolding keys_def set_map [symmetric] n1demo_request_fields ..
  ultimately show ?thesis
    using assms by (simp add: score_request_ok_def n1demo_request_get MAX_PREDICTION_BYTES_def)
qed

lemma n1demo_scored:
  assumes "oracle_IDENTIFIER rq" and "length answer \<le> 100" and "valid_utf8 answer"
  shows "scored sha256_hex n1demo_svc (n1demo_request rq answer) n1demo_label"
proof -
  have "find_label (svc_labels n1demo_svc) (n1demo_request rq answer) = Some n1demo_label"
    by (simp add: n1demo_svc_def find_label_def n1demo_label_def n1demo_request_get)
  then show ?thesis
    using n1demo_request_ok [OF assms(1,2)] n1demo_request_distinct n1demo_request_utf8 [OF IDENTIFIER_utf8 [OF assms(1)] assms(3)]
    by (simp add: scored_def scorable_def n1demo_request_get n1demo_svc_get)
qed

lemma n1demo_names: "oracle_IDENTIFIER ''req-1''" "oracle_IDENTIFIER ''req-2''" "valid_utf8 ''A''" "valid_utf8 ''B''"
  by code_simp+

lemma n1demo_db_empty: "oracle_scores n1demo_db = []"
  using open_service_scores [OF n1demo_open] by (simp add: empty_store_def)

text \<open>The request of the witnesses, its response and the database after it.\<close>

definition n1demo_response :: dict where
  "n1demo_response = score_response sha256_hex hmac_hex n1demo_svc (n1demo_request ''req-1'' ''A'') n1demo_label"

definition n1demo_scored_db :: score_store where
  "n1demo_scored_db = insert_score sha256_hex (n1demo_request ''req-1'' ''A'') n1demo_response n1demo_db"

lemma n1demo_score:
  "oracle_score sha256_hex hmac_hex n1demo_svc (JObj (n1demo_request ''req-1'' ''A'')) n1demo_db = (n1demo_scored_db, Inr n1demo_response)"
  using n1.score_fresh [OF reachable_facts(1) [OF n1demo_reachable] n1demo_scored [OF n1demo_names(1) _ n1demo_names(3)], of n1demo_db]
  by (simp add: find_score_def find_unit_def n1demo_db_empty n1demo_scored_db_def n1demo_response_def)

lemma n1demo_scored_reachable: "oracle_reachable ''/pkg'' (Some n1demo_stage) n1demo_svc (n1demo_scored_db, [])"
  using run_continues [OF n1demo_reachable score_is_a_run [OF n1demo_request_distinct n1demo_request_utf8 n1demo_score]]
    IDENTIFIER_utf8 [OF n1demo_names(1)] n1demo_names by simp

end
