(* ===== verification/Oracle_Props.thy ===== *)
theory Oracle_Props
  imports Oracle_Demo
begin

text \<open>
  The properties of the scoring service of node N1, about every state a run can reach: requests of
  several threads interleave between the read and the write of the score table, a thread may be
  lost, the server may be restarted on the same package.
\<close>

section \<open>One trial, one score\<close>

text \<open>
  (C7) In every reachable state the score table holds at most one row per score request and at most
  one row per evaluation unit, and each row is exactly the row of a valid request for the mounted
  labels: its response is the one computed from the hidden label of that request.
\<close>

theorem score_table_invariant:
  assumes "oracle_reachable pkg_root dir svc (db, todo)"
  shows "store_inv sha256_hex hmac_hex svc db"
  using reachable_facts(2) [OF assms] by (simp add: system_inv_def)

theorem score_table_invariant_witness:
  "store_inv sha256_hex hmac_hex n1demo_svc n1demo_scored_db \<and> length (oracle_scores n1demo_scored_db) = 1"
  using score_table_invariant [OF n1demo_scored_reachable]
  by (simp add: n1demo_scored_db_def insert_score_def n1demo_db_empty)

lemma later_row:
  assumes "oracle_reachable pkg_root dir svc (db, todo)" and "distinct (map fst r)" and "utf8_json (JObj r)"
    and "oracle_score sha256_hex hmac_hex svc (JObj r) db = (db1, Inr first)"
    and "oracle_run sha256_hex hmac_hex svc (db1, todo) (db2, todo2)"
  obtains row where "service_ok svc" and "scorable sha256_hex svc r" and "store_inv sha256_hex hmac_hex svc db2"
    and "find_score db2 (req_text r ''score_request_id'') = Some row" and "n1.answered_by svc r row first"
    and "find_unit db2 (req_text r ''evaluation_unit_id'') = Some row" and "sr_request_sha256 row = value_sha256 sha256_hex (JObj r)"
proof -
  have svc: "service_ok svc" by (rule reachable_facts(1) [OF assms(1)])
  obtain row where row: "scorable sha256_hex svc r" "find_score db1 (req_text r ''score_request_id'') = Some row"
    "n1.answered_by svc r row first"
    using n1.score_answer_row [OF svc assms(2-4)] by blast
  have r1: "oracle_reachable pkg_root dir svc (db1, todo)" by (rule run_continues [OF assms(1) score_is_a_run [OF assms(2-4)]])
  have inv2: "store_inv sha256_hex hmac_hex svc db2"
    using reachable_facts(2) [OF run_continues [OF r1 assms(5)]] by (simp add: system_inv_def)
  have find2: "find_score db2 (req_text r ''score_request_id'') = Some row"
    using score_rows.row_steps [OF assms(5) [unfolded oracle_run_def], of "req_text r ''score_request_id''" row]
      reachable_facts(1,2) [OF r1] row(2) by simp
  obtain r0 l0 where "sr_evaluation_unit_id row = req_text r ''evaluation_unit_id''"
    using n1.answered_row [OF inv2 svc find2 row(3)] by metis
  with n1.unit_row [OF inv2 find2] have "find_unit db2 (req_text r ''evaluation_unit_id'') = Some row" by simp
  with that svc row inv2 find2 show ?thesis by (auto simp: n1.answered_by_def)
qed

text \<open>
  An answer is durable: when a request has been answered, sending it again in any later state,
  after other requests, lost threads and restarts, returns the same fields marked as a
  replay (the content digest differs with the mark), and writes nothing.
\<close>

theorem score_replay_is_durable:
  assumes "oracle_reachable pkg_root dir svc (db, todo)" and "distinct (map fst r)" and "utf8_json (JObj r)"
    and "oracle_score sha256_hex hmac_hex svc (JObj r) db = (db1, Inr first)"
    and "oracle_run sha256_hex hmac_hex svc (db1, todo) (db2, todo2)"
  shows "\<exists>again. oracle_score sha256_hex hmac_hex svc (JObj r) db2 = (db2, Inr again)
    \<and> dget again ''idempotent_replay'' = JBool True
    \<and> (\<forall>k. k \<noteq> ''idempotent_replay'' \<longrightarrow> k \<noteq> ''result_content_sha256'' \<longrightarrow> dget again k = dget first k)"
proof -
  obtain row where "service_ok svc" "scorable sha256_hex svc r"
    "find_score db2 (req_text r ''score_request_id'') = Some row" "n1.answered_by svc r row first"
    using later_row [OF assms] by metis
  then show ?thesis using n1.answered_again by blast
qed

lemma n1demo_utf8: "utf8_json (JObj (n1demo_request ''req-1'' ''A''))" "utf8_json (JObj (n1demo_request ''req-2'' ''B''))"
  using n1demo_request_utf8 IDENTIFIER_utf8 n1demo_names by blast+

theorem score_replay_is_durable_witness:
  "\<exists>again. oracle_score sha256_hex hmac_hex n1demo_svc (JObj (n1demo_request ''req-1'' ''A'')) n1demo_scored_db = (n1demo_scored_db, Inr again)
    \<and> dget again ''idempotent_replay'' = JBool True \<and> dget again ''correct'' = dget n1demo_response ''correct''"
proof -
  have "oracle_run sha256_hex hmac_hex n1demo_svc (n1demo_scored_db, []) (n1demo_scored_db, [])" by (simp add: oracle_run_def)
  from score_replay_is_durable [OF n1demo_reachable n1demo_request_distinct n1demo_utf8(1) n1demo_score this]
  obtain again where "oracle_score sha256_hex hmac_hex n1demo_svc (JObj (n1demo_request ''req-1'' ''A'')) n1demo_scored_db = (n1demo_scored_db, Inr again)"
    "dget again ''idempotent_replay'' = JBool True" and same: "k \<noteq> ''idempotent_replay'' \<Longrightarrow> k \<noteq> ''result_content_sha256'' \<Longrightarrow>
      dget again k = dget n1demo_response k" for k by blast
  moreover have "dget again ''correct'' = dget n1demo_response ''correct''" by (rule same) simp_all
  ultimately show ?thesis by blast
qed

text \<open>
  A trial cannot be scored twice: once a request of a trial has been answered, every valid
  request for the same oracle, run and trial that differs from it in any field (another request
  identifier, another prediction) is refused as a conflict in every later state and writes nothing,
  unless two of the request texts involved are a SHA-256 collision.
\<close>

theorem trial_rescoring_conflicts:
  assumes "oracle_reachable pkg_root dir svc (db, todo)" and "distinct (map fst r)" and "utf8_json (JObj r)"
    and "oracle_score sha256_hex hmac_hex svc (JObj r) db = (db1, Inr first)"
    and "oracle_run sha256_hex hmac_hex svc (db1, todo) (db2, todo2)"
    and "distinct (map fst r')" and "validate_score_request sha256_hex (JObj r') = Inr r'"
    and "dget r' ''oracle_id'' = dget r ''oracle_id''" and "dget r' ''run_id'' = dget r ''run_id''"
    and "dget r' ''trial_id'' = dget r ''trial_id''" and "dget r' k \<noteq> dget r k"
  shows "(\<exists>msg. oracle_score sha256_hex hmac_hex svc (JObj r') db2 = (db2, Inl (N1OracleIdempotencyConflict msg)))
    \<or> sha256_collision ({dumps (JObj r), dumps (JObj r')} \<union> sr_request_json ` set (oracle_scores db2))"
proof (rule disjCI)
  assume no: "\<not> sha256_collision ({dumps (JObj r), dumps (JObj r')} \<union> sr_request_json ` set (oracle_scores db2))"
  obtain row where row: "service_ok svc" "scorable sha256_hex svc r" "store_inv sha256_hex hmac_hex svc db2"
    "find_unit db2 (req_text r ''evaluation_unit_id'') = Some row" "sr_request_sha256 row = value_sha256 sha256_hex (JObj r)"
    using later_row [OF assms(1-5)] by metis
  have ok: "score_request_ok sha256_hex r" "score_request_ok sha256_hex r'"
    using row(2) assms(7) by (auto simp: scorable_def result_simps)
  have unit: "dget r' ''evaluation_unit_id'' = dget r ''evaluation_unit_id''" using unit_cong [OF ok(2,1)] assms(8-10) by simp
  have "\<exists>msg. replay_if_present sha256_hex r' db2 = Inl (N1OracleIdempotencyConflict msg)"
  proof (cases "find_score db2 (req_text r' ''score_request_id'')")
    case (Some row')
    have "sr_request_sha256 row' \<noteq> value_sha256 sha256_hex (JObj r')"
    proof
      assume eq: "sr_request_sha256 row' = value_sha256 sha256_hex (JObj r')"
      have mem: "row' \<in> set (oracle_scores db2)" using find_Some_in [OF Some [unfolded find_score_def]] by simp
      then obtain r0 l0 where r0: "scored sha256_hex svc r0 l0" "row' = score_row_of sha256_hex hmac_hex svc r0 l0"
        using row(3) by (auto simp: store_inv_def)
      have ok0: "score_request_ok sha256_hex r0" "distinct (map fst r0)" using r0(1) by (auto simp: scored_def scorable_def)
      have "sha256_hex (dumps (JObj r0)) = sha256_hex (dumps (JObj r'))" "dumps (JObj r0) \<in> sr_request_json ` set (oracle_scores db2)"
        using eq r0(2) mem by (force simp: score_row_of_def value_sha256_def simp del: dumps.simps)+
      with no have "dumps (JObj r0) = dumps (JObj r')" unfolding sha256_collision_def by blast
      from same_text_same_fields [OF ok0 ok(2) assms(6) this] have "sr_evaluation_unit_id row' = req_text r ''evaluation_unit_id''"
        using r0(2) unit by (simp add: score_row_of_def)
      with n1.unit_row [OF row(3) Some] row(4) have "row' = row" by simp
      with eq row(5) have "sha256_hex (dumps (JObj r)) = sha256_hex (dumps (JObj r'))" by (simp add: value_sha256_def del: dumps.simps)
      with no have "dumps (JObj r) = dumps (JObj r')" unfolding sha256_collision_def by blast
      from same_text_same_fields [OF ok(1) assms(2) ok(2) assms(6) this] assms(11) show False by simp
    qed
    with Some show ?thesis by (simp add: replay_if_present_def)
  next
    case None
    then show ?thesis using row(4) unit by (simp add: replay_if_present_def)
  qed
  moreover have "dget r' ''oracle_id'' = JStr (svc_oracle_id svc)" using row(2) assms(8) by (simp add: scorable_def)
  ultimately show "\<exists>msg. oracle_score sha256_hex hmac_hex svc (JObj r') db2 = (db2, Inl (N1OracleIdempotencyConflict msg))"
    using assms(7) service_oracle_id [OF row(1)] by (auto simp: oracle_score_def score_prepare_def)
qed

theorem trial_rescoring_conflicts_witness:
  "(\<exists>msg. oracle_score sha256_hex hmac_hex n1demo_svc (JObj (n1demo_request ''req-2'' ''B'')) n1demo_scored_db
       = (n1demo_scored_db, Inl (N1OracleIdempotencyConflict msg)))
   \<or> sha256_collision ({dumps (JObj (n1demo_request ''req-1'' ''A'')), dumps (JObj (n1demo_request ''req-2'' ''B''))}
       \<union> sr_request_json ` set (oracle_scores n1demo_scored_db))"
proof -
  have run: "oracle_run sha256_hex hmac_hex n1demo_svc (n1demo_scored_db, []) (n1demo_scored_db, [])" by (simp add: oracle_run_def)
  have valid: "validate_score_request sha256_hex (JObj (n1demo_request ''req-2'' ''B'')) = Inr (n1demo_request ''req-2'' ''B'')"
    using n1demo_request_ok [OF n1demo_names(2)] by (simp add: result_simps)
  show ?thesis
    by (rule trial_rescoring_conflicts [OF n1demo_reachable n1demo_request_distinct n1demo_utf8(1) n1demo_score run
        n1demo_request_distinct valid, where k = "''predicted_answer''"]) (simp_all add: n1demo_request_get)
qed

text \<open>
  The service is live: in every reachable state a valid request for the mounted labels whose
  identifier and trial are unused is scored. The result says \<open>SCORED\<close>, its \<open>correct\<close> is the
  verdict of the scoring rule on the hidden answer, and the row is in the table afterwards.
\<close>

theorem fresh_request_is_scored:
  assumes "oracle_reachable pkg_root dir svc (db, todo)" and "scorable sha256_hex svc r"
    and "find_label (svc_labels svc) r = Some l"
    and "find_score db (req_text r ''score_request_id'') = None" and "find_unit db (req_text r ''evaluation_unit_id'') = None"
  shows "\<exists>db' result. oracle_score sha256_hex hmac_hex svc (JObj r) db = (db', Inr result)
    \<and> dget result ''status'' = JStr ''SCORED''
    \<and> dget result ''correct'' = JBool (score_answer (req_text r ''predicted_answer'') (l_correct_answer_id l) (l_success_scoring_rule l))
    \<and> oracle_scores db' = oracle_scores db @ [score_row_of sha256_hex hmac_hex svc r l]"
proof -
  have "scored sha256_hex svc r l" using assms(2,3) by (simp add: scored_def)
  from n1.score_fresh [OF reachable_facts(1) [OF assms(1)] this assms(4,5)] show ?thesis
    by (simp add: response_get core_get is_correct_def insert_score_row)
qed

theorem fresh_request_is_scored_witness:
  "\<exists>db' result. oracle_score sha256_hex hmac_hex n1demo_svc (JObj (n1demo_request ''req-2'' ''B'')) n1demo_db = (db', Inr result)
    \<and> dget result ''correct'' = JBool False"
proof -
  have s: "scored sha256_hex n1demo_svc (n1demo_request ''req-2'' ''B'') n1demo_label" by (rule n1demo_scored) (simp_all add: n1demo_names)
  have "\<not> score_answer ''B'' ''A'' MULTIPLE_CHOICE_EXACT_SCORING_RULE" by code_simp
  with fresh_request_is_scored [OF n1demo_reachable, of "n1demo_request ''req-2'' ''B''" n1demo_label] s show ?thesis
    by (auto simp: scored_def n1demo_request_get n1demo_label_def find_score_def find_unit_def n1demo_db_empty)
qed

section \<open>Evidence\<close>

lemma score_result_checked:
  assumes "oracle_score H M svc (JObj r) db = (db', Inr d)"
  shows "score_result_ok H r d (svc_oracle_id svc) (dget (svc_manifest svc) ''public_task_set_sha256'')"
proof -
  obtain p where p: "score_prepare H M svc (JObj r) db = Inr p" using assms by (auto simp: oracle_score_def split: sum.splits)
  show ?thesis
  proof (cases p)
    case (Replayed x)
    then have "\<exists>stored. check_result H svc r (mark_replay H stored) = Inr x"
      using p by (auto simp: score_prepare_def result_simps split: option.splits)
    then show ?thesis using assms p Replayed by (auto simp: oracle_score_def check_result_Inr)
  next
    case (Computed q resp)
    then have "q = r" using p by (auto simp: score_prepare_def result_simps split: option.splits)
    then have "\<exists>x. check_result H svc r d = Inr x"
      using assms p Computed by (auto simp: oracle_score_def score_finish_def Let_def result_simps split: prod.splits)
    then show ?thesis by (auto simp: check_result_Inr)
  qed
qed

text \<open>
  (C9) Every result the service returns is accepted by the offline verifier with the same package and
  secret, which reports the same verdict; otherwise the text of the request collides with that of
  a stored request.
\<close>

theorem served_results_verify:
  assumes "oracle_reachable pkg_root dir svc (db, todo)" and "distinct (map fst r)" and "utf8_json (JObj r)"
    and "oracle_score sha256_hex hmac_hex svc (JObj r) db = (db1, Inr result)"
  shows "(\<exists>report. verify_n1_score_result sha256_hex hmac_hex pkg_root dir (JObj r) (JObj result) (svc_secret svc) = Inr report
      \<and> dget report ''status'' = JStr ''VERIFIED'' \<and> dget report ''correct'' = dget result ''correct'')
    \<or> sha256_collision (insert (dumps (JObj r)) (sr_request_json ` set (oracle_scores db1)))"
proof (rule disjCI)
  assume no: "\<not> sha256_collision (insert (dumps (JObj r)) (sr_request_json ` set (oracle_scores db1)))"
  have run: "oracle_run sha256_hex hmac_hex svc (db1, todo) (db1, todo)" by (simp add: oracle_run_def)
  obtain row where row: "service_ok svc" "scorable sha256_hex svc r" "store_inv sha256_hex hmac_hex svc db1"
    "find_score db1 (req_text r ''score_request_id'') = Some row" "n1.answered_by svc r row result"
    using later_row [OF assms run] by metis
  obtain r0 l0 where r0: "row = score_row_of sha256_hex hmac_hex svc r0 l0" "scored sha256_hex svc r0 l0"
    "value_sha256 sha256_hex (JObj r0) = value_sha256 sha256_hex (JObj r)"
    and get: "\<And>k. k \<noteq> ''idempotent_replay'' \<Longrightarrow> k \<noteq> ''result_content_sha256'' \<Longrightarrow>
      dget result k = dget (score_response_core sha256_hex hmac_hex svc r0 l0) k"
    using n1.answered_row [OF row(3,1,4,5)] by metis
  have ok: "score_request_ok sha256_hex r" "score_request_ok sha256_hex r0" "distinct (map fst r0)"
    using row(2) r0(2) by (auto simp: scored_def scorable_def)
  have "row \<in> set (oracle_scores db1)" using find_Some_in [OF row(4) [unfolded find_score_def]] by simp
  then have "dumps (JObj r0) \<in> sr_request_json ` set (oracle_scores db1)" using r0(1) by (force simp: score_row_of_def simp del: dumps.simps)
  with no r0(3) have eqt: "dumps (JObj r0) = dumps (JObj r)" unfolding sha256_collision_def value_sha256_def by blast
  have same: "dget r0 k = dget r k" for k by (rule same_text_same_fields [OF ok(2,3,1) assms(2) eqt])
  have label: "find_label (svc_labels svc) r = Some l0" using r0(2) by (simp add: scored_def find_label_def same)
  have core: "score_response_core sha256_hex hmac_hex svc r0 l0 = score_response_core sha256_hex hmac_hex svc r l0"
    by (rule core_cong [OF same eqt])
  have res: "score_result_ok sha256_hex r result (svc_oracle_id svc) (dget (svc_manifest svc) ''public_task_set_sha256'')"
    using assms(4) by (rule score_result_checked)
  then have checked: "validate_public_score_result sha256_hex (JObj r) (JObj result) (req_text (svc_manifest svc) ''oracle_id'')
      (dget (svc_manifest svc) ''public_task_set_sha256'') = Inr result" "validate_score_request sha256_hex (JObj r) = Inr r"
    using ok(1) by (simp_all add: result_simps svc_oracle_id_def)
  show "\<exists>report. verify_n1_score_result sha256_hex hmac_hex pkg_root dir (JObj r) (JObj result) (svc_secret svc) = Inr report
      \<and> dget report ''status'' = JStr ''VERIFIED'' \<and> dget report ''correct'' = dget result ''correct''"
    unfolding verify_n1_score_result_def
    using reachable_facts(4,5) [OF assms(1)] checked label ok(1)
    by (simp add: result_simps get core core_get is_correct_def dget_Cons Let_def)
qed

theorem served_results_verify_witness:
  "(\<exists>report. verify_n1_score_result sha256_hex hmac_hex ''/pkg'' (Some n1demo_stage) (JObj (n1demo_request ''req-1'' ''A''))
      (JObj n1demo_response) (svc_secret n1demo_svc) = Inr report
      \<and> dget report ''status'' = JStr ''VERIFIED'' \<and> dget report ''correct'' = dget n1demo_response ''correct'')
   \<or> sha256_collision (insert (dumps (JObj (n1demo_request ''req-1'' ''A''))) (sr_request_json ` set (oracle_scores n1demo_scored_db)))"
  by (rule served_results_verify [OF n1demo_reachable n1demo_request_distinct n1demo_utf8(1) n1demo_score])

text \<open>
  (C10) The offline verifier is sound: whatever request and result it accepts, the package loads and
  has exactly one label for the request, and the verdict of the result is the verdict
  of the scoring rule on that label, with the score that goes with it.
\<close>

theorem verification_is_sound:
  assumes "verify_n1_score_result sha256_hex hmac_hex pkg_root dir (JObj r) (JObj result) secret = Inr report"
  shows "\<exists>manifest labels l. load_verified_package sha256_hex pkg_root dir = Inr (manifest, labels)
    \<and> {x \<in> set labels. label_key x = (req_text r ''object_id'', req_text r ''task_binding_sha256'')} = {l}
    \<and> dget result ''correct'' = JBool (score_answer (req_text r ''predicted_answer'') (l_correct_answer_id l) (l_success_scoring_rule l))
    \<and> py_eq (dget result ''score'') (if dget result ''correct'' = JBool True then float_one else float_zero)
    \<and> dget report ''correct'' = dget result ''correct''"
proof -
  obtain m ls where load: "load_verified_package sha256_hex pkg_root dir = Inr (m, ls)"
    using assms by (auto simp: verify_n1_score_result_def result_simps)
  then obtain l where l: "find_label ls r = Some l"
    "dget result ''correct'' = JBool (score_answer (req_text r ''predicted_answer'') (l_correct_answer_id l) (l_success_scoring_rule l))"
    and res: "score_result_ok sha256_hex r result (req_text m ''oracle_id'') (dget m ''public_task_set_sha256'')"
    and report: "dget report ''correct'' = dget result ''correct''"
    using assms
    by (auto simp: verify_n1_score_result_def result_simps Let_def dget_Cons split: option.splits)
  obtain c where "dget result ''correct'' = JBool c" "py_eq (dget result ''score'') (score_value c)"
    using res by (auto simp: score_result_ok_def)
  then have score: "py_eq (dget result ''score'') (if dget result ''correct'' = JBool True then float_one else float_zero)"
    by (simp add: score_value_def)
  obtain files hb where "package_of sha256_hex hb m ls" using loaded_package [OF load] by metis
  then have "distinct (map label_key ls)" by (auto simp: package_of_def label_source_ok_def strict_sorted_iff)
  moreover have mem: "l \<in> set ls" "label_key l = (req_text r ''object_id'', req_text r ''task_binding_sha256'')"
    using find_Some_in [OF l(1) [unfolded find_label_def]] by (auto simp: label_key_def)
  ultimately have "{x \<in> set ls. label_key x = (req_text r ''object_id'', req_text r ''task_binding_sha256'')} = {l}"
    using distinct_map_eq_unique by fastforce
  with load l(2) score report show ?thesis by blast
qed

lemma n1demo_correct: "dget n1demo_response ''correct'' = JBool True"
proof -
  have "score_answer ''A'' ''A'' MULTIPLE_CHOICE_EXACT_SCORING_RULE" by code_simp
  then show ?thesis by (simp add: n1demo_response_def response_get core_get is_correct_def n1demo_request_get n1demo_label_def)
qed

lemma n1demo_verified:
  "\<exists>report. verify_n1_score_result sha256_hex hmac_hex ''/pkg'' (Some n1demo_stage) (JObj (n1demo_request ''req-1'' ''A''))
      (JObj n1demo_response) (svc_secret n1demo_svc) = Inr report"
proof -
  have s: "scored sha256_hex n1demo_svc (n1demo_request ''req-1'' ''A'') n1demo_label" by (rule n1demo_scored) (simp_all add: n1demo_names)
  have "svc_labels n1demo_svc = [n1demo_label]" "svc_manifest n1demo_svc = loads_dict n1demo_manifest" by (simp_all add: n1demo_svc_def)
  then have checked: "validate_public_score_result sha256_hex (JObj (n1demo_request ''req-1'' ''A'')) (JObj n1demo_response)
      (req_text (loads_dict n1demo_manifest) ''oracle_id'') (dget (loads_dict n1demo_manifest) ''public_task_set_sha256'') = Inr n1demo_response"
    using score_result_checked [OF n1demo_score] s by (simp add: result_simps svc_oracle_id_def scored_def scorable_def)
  show ?thesis
    unfolding verify_n1_score_result_def n1demo_load
    using checked s reachable_facts(5) [OF n1demo_reachable]
    by (simp add: n1demo_response_def response_get core_get is_correct_def Let_def n1demo_svc_def scored_def scorable_def result_simps)
qed

theorem verification_is_sound_witness:
  "\<exists>manifest labels (l :: label). load_verified_package sha256_hex ''/pkg'' (Some n1demo_stage) = Inr (manifest, labels)
    \<and> dget n1demo_response ''correct'' = JBool (score_answer ''A'' (l_correct_answer_id l) (l_success_scoring_rule l))"
proof -
  obtain report where "verify_n1_score_result sha256_hex hmac_hex ''/pkg'' (Some n1demo_stage) (JObj (n1demo_request ''req-1'' ''A''))
      (JObj n1demo_response) (svc_secret n1demo_svc) = Inr report" using n1demo_verified by blast
  from verification_is_sound [OF this] show ?thesis unfolding n1demo_request_get json_text.simps by blast
qed

section \<open>Secrecy of the labels\<close>

text \<open>
  Whatever the service and the database hold, a scoring result has no hidden-label field
  (\<open>correct_answer_id\<close>, \<open>labels\<close>, \<open>hidden_labels\<close>, ...) at any depth: its fields are exactly the
  public ones.
\<close>

theorem results_carry_no_hidden_field:
  assumes "oracle_score sha256_hex hmac_hex svc (JObj r) db = (db', Inr result)"
  shows "deep_keys (JObj result) \<inter> set HIDDEN_FIELD_NAMES = {} \<and> keys result = set SCORE_RESULT_FIELDS"
  using score_result_checked [OF assms] by (simp add: score_result_ok_def hidden_absent_iff del: deep_keys.simps)

theorem results_carry_no_hidden_field_witness:
  "deep_keys (JObj n1demo_response) \<inter> set HIDDEN_FIELD_NAMES = {} \<and> keys n1demo_response = set SCORE_RESULT_FIELDS"
  by (rule results_carry_no_hidden_field [OF n1demo_score])

text \<open>
  The walk over a public payload is exact: it accepts a JSON value if and only if no object in
  it, at any depth, has a field of a hidden name.
\<close>

theorem hidden_walk_exact:
  "assert_hidden_oracle_fields_absent v = Inr () \<longleftrightarrow> deep_keys v \<inter> set HIDDEN_FIELD_NAMES = {}"
  by (rule hidden_absent_iff)

text \<open>
  (C11) A score reveals one bit: let two services share the public part of their manifests and the
  public part of the label of a request (its rule), and differ in the correct answer and
  in the rest of the labels. Then their responses agree in every field except the verdict, the
  score, the two HMACs under the secret and the digest of the whole content.
\<close>

theorem score_reveals_the_verdict_only:
  assumes "dget (svc_manifest svc) ''oracle_id'' = dget (svc_manifest svc') ''oracle_id''"
    and "dget (svc_manifest svc) ''public_task_set_sha256'' = dget (svc_manifest svc') ''public_task_set_sha256''"
    and "l_success_scoring_rule l = l_success_scoring_rule l'"
    and "k \<notin> {''correct'', ''score'', ''oracle_instance_hmac_sha256'', ''score_evidence_hmac_sha256'', ''result_content_sha256''}"
  shows "dget (score_response sha256_hex hmac_hex svc r l) k = dget (score_response sha256_hex hmac_hex svc' r l') k"
proof -
  let ?F = "[''correct'', ''score'', ''oracle_instance_hmac_sha256'', ''score_evidence_hmac_sha256'']"
  have get: "dget (filter (\<lambda>p. fst p \<notin> set ?F) d) k = dget d k" for d :: dict
    using assms(4) map_of_filter_fst [of "\<lambda>x. x \<notin> set ?F" d k] by (simp add: dget_def)
  have "filter (\<lambda>p. fst p \<notin> set ?F) (score_response_core sha256_hex hmac_hex svc r l)
      = filter (\<lambda>p. fst p \<notin> set ?F) (score_response_core sha256_hex hmac_hex svc' r l')"
    using assms(1-3) by (simp add: score_response_core_def Let_def)
  then have "dget (score_response_core sha256_hex hmac_hex svc r l) k = dget (score_response_core sha256_hex hmac_hex svc' r l') k"
    using get [of "score_response_core sha256_hex hmac_hex svc r l"] get [of "score_response_core sha256_hex hmac_hex svc' r l'"] by simp
  then show ?thesis using assms(4) by (simp add: response_get)
qed

theorem score_reveals_the_verdict_only_witness:
  "l_correct_answer_id n1demo_label = ''A'' \<and>
   dget (score_response sha256_hex hmac_hex n1demo_svc (n1demo_request ''req-1'' ''A'') n1demo_label) ''prediction_sha256''
   = dget (score_response sha256_hex hmac_hex n1demo_svc (n1demo_request ''req-1'' ''A'') (n1demo_label\<lparr>l_correct_answer_id := ''B''\<rparr>))
      ''prediction_sha256''"
  using score_reveals_the_verdict_only [of n1demo_svc n1demo_svc n1demo_label "n1demo_label\<lparr>l_correct_answer_id := ''B''\<rparr>"
      "''prediction_sha256''" "n1demo_request ''req-1'' ''A''"]
  by (simp add: n1demo_label_def)

section \<open>Packages and their databases\<close>

text \<open>
  The validation of a label source is exact: it returns an oracle identifier and labels if and
  only if the source has exactly the declared fields, every label is well formed (its correct
  answer among two to thirty-two distinct options) and the labels are strictly
  sorted by object and task, so that no two labels share a key.
\<close>

theorem label_source_validation_exact:
  "validate_label_source v = Inr (oid, labels) \<longleftrightarrow> label_source_ok v oid labels"
  by (simp add: result_simps)

text \<open>
  Freezing loses nothing: every readable label source that validates is frozen (the check of
  the staged package never fails), and the package loads again with exactly its labels, under a
  manifest bound to its oracle and its number of labels.
\<close>

theorem package_round_trip:
  assumes "loads_bytes raw = Inr v" and "validate_label_source v = Inr (oid, labels)"
  shows "\<exists>stage report manifest. build_n1_oracle_package sha256_hex source (Some raw) target False False = Inr (stage, report)
    \<and> load_verified_package sha256_hex target (Some stage) = Inr (manifest, labels)
    \<and> dget manifest ''oracle_id'' = JStr oid \<and> dget manifest ''label_count'' = JInt (int (length labels))"
proof -
  let ?m = "package_manifest sha256_hex oid labels (file_json_bytes v)"
  have src: "label_source_ok v oid labels" using assms(2) by (simp add: result_simps)
  obtain stage report where "build_n1_oracle_package sha256_hex source (Some raw) target False False = Inr (stage, report)"
    "load_verified_package sha256_hex target (Some stage) = Inr (loads_dict ?m, labels)"
    using n1.build_package [OF assms(1) src] by metis
  moreover have "dget (loads_dict ?m) ''oracle_id'' = JStr oid" "dget (loads_dict ?m) ''label_count'' = JInt (int (length labels))"
    by (simp_all add: dget_loads [OF manifest_distinct] manifest_get)
  ultimately show ?thesis by blast
qed

theorem package_round_trip_witness:
  "\<exists>stage report manifest. build_n1_oracle_package sha256_hex ''labels.json'' (Some (file_json_bytes n1demo_source)) ''/pkg'' False False = Inr (stage, report)
    \<and> load_verified_package sha256_hex ''/pkg'' (Some stage) = Inr (manifest, [n1demo_label])"
proof -
  have "loads_bytes (file_json_bytes n1demo_source) = Inr (sort_keys n1demo_source)"
    using label_source_wf [OF n1demo_source_ok n1demo_source_uniq] by (simp add: file_json_bytes_def loads_bytes_indent)
  moreover have "validate_label_source (sort_keys n1demo_source) = Inr (''oracle-1'', [n1demo_label])"
    using label_source_sorted [OF n1demo_source_ok n1demo_source_uniq] by (simp add: result_simps)
  ultimately show ?thesis using package_round_trip by blast
qed

text \<open>
  A score database belongs to its labels: if a service was opened on a database, then after any
  run no other package can be opened on it. A service that opens has the same oracle
  identifier, the same evidence key and the same labels, or the two label files are a SHA-256
  collision.
\<close>

theorem store_binds_its_labels:
  assumes "oracle_reachable pkg_root dir svc (db, todo)"
    and "open_service sha256_hex hmac_hex pkg_root' dir' secret' db = (db', Inr svc')"
  shows "db' = db \<and> svc_oracle_id svc' = svc_oracle_id svc
    \<and> evidence_key_id hmac_hex secret' (dget (svc_manifest svc') ''oracle_id'')
      = evidence_key_id hmac_hex (svc_secret svc) (dget (svc_manifest svc) ''oracle_id'')
    \<and> (svc_labels svc' = svc_labels svc
      \<or> (\<exists>files files' a b. dir = Some files \<and> dir' = Some files' \<and> package_file files ''hidden-labels.json'' = Some a
          \<and> package_file files' ''hidden-labels.json'' = Some b \<and> sha256_collision {a, b}))"
proof -
  note o = open_service_Inr [OF assms(2)]
  have b: "bound hmac_hex svc db" using reachable_facts(3) [OF assms(1)] by simp
  then have "db' = db" using o(5) by (auto simp: bound_def)
  with b o(4) have eq: "bound_row hmac_hex svc' = bound_row hmac_hex svc" by (simp add: bound_def)
  obtain files hb where f: "dir = Some files" "package_file files ''hidden-labels.json'' = Some hb"
    "package_of sha256_hex hb (svc_manifest svc) (svc_labels svc)"
    using loaded_package [OF reachable_facts(4) [OF assms(1)]] by metis
  obtain files' hb' where f': "dir' = Some files'" "package_file files' ''hidden-labels.json'' = Some hb'"
    "package_of sha256_hex hb' (svc_manifest svc') (svc_labels svc')"
    using loaded_package [OF o(1)] by metis
  have "sha256_hex hb' = sha256_hex hb" using eq f(3) f'(3) by (auto simp: package_of_def bound_row_def)
  then have "svc_labels svc' = svc_labels svc \<or> sha256_collision {hb, hb'}"
    using package_unique [of sha256_hex hb] f(3) f'(3) by (cases "hb' = hb") (auto simp: sha256_collision_def)
  with f f' \<open>db' = db\<close> eq o(2) show ?thesis by (auto simp: bound_row_def)
qed

theorem store_binds_its_labels_witness:
  "open_service sha256_hex hmac_hex ''/pkg'' (Some n1demo_stage) (replicate 32 CHR ''k'') n1demo_scored_db = (n1demo_scored_db, Inr n1demo_svc)
   \<and> svc_oracle_id n1demo_svc = svc_oracle_id n1demo_svc"
proof -
  have "open_service sha256_hex hmac_hex ''/pkg'' (Some n1demo_stage) (replicate 32 CHR ''k'') n1demo_scored_db = (n1demo_scored_db, Inr n1demo_svc)"
    using n1.reopen [OF n1demo_open] reachable_facts(3) [OF n1demo_scored_reachable] by simp
  with store_binds_its_labels [OF n1demo_scored_reachable this] show ?thesis by blast
qed

text \<open>
  The service restarts: in every reachable state, whatever threads were lost, opening the same
  package with the same secret on the database succeeds, yields the same service and
  leaves the database as it is.
\<close>

theorem service_restarts:
  assumes "oracle_reachable pkg_root dir svc (db, todo)"
  shows "open_service sha256_hex hmac_hex pkg_root dir (svc_secret svc) db = (db, Inr svc)"
  using assms n1.reopen reachable_facts(3) [OF assms] by (auto simp: oracle_reachable_def)

theorem service_restarts_witness:
  "open_service sha256_hex hmac_hex ''/pkg'' (Some n1demo_stage) (svc_secret n1demo_svc) n1demo_scored_db = (n1demo_scored_db, Inr n1demo_svc)"
  by (rule service_restarts [OF n1demo_scored_reachable])

end
