(* ===== verification/Oracle_Ledger.thy ===== *)
theory Oracle_Ledger
  imports Oracle_Props
begin

text \<open>
  The abstract specification of the score table, a ledger of answered requests, and the proof that
  the service refines it.
\<close>

text \<open>
  The abstract specification: a ledger of the answered requests, each with its identifier, its trial
  and the digest of its text. A submission is recorded, replayed or refused.
\<close>

type_synonym ledger = "(string \<times> string \<times> string) list"

datatype ledger_outcome = Recorded | Repeated | Refused

definition ledger_submit :: "string \<Rightarrow> string \<Rightarrow> string \<Rightarrow> ledger \<Rightarrow> ledger \<times> ledger_outcome" where
  "ledger_submit rq u digest L =
     (case map_of L rq of
        Some (u', digest') \<Rightarrow> (L, if digest' = digest then Repeated else Refused)
      | None \<Rightarrow> if u \<in> fst ` snd ` set L then (L, Refused) else (L @ [(rq, u, digest)], Recorded))"

definition ledger_of :: "score_store \<Rightarrow> ledger" where
  "ledger_of db = map (\<lambda>row. (sr_score_request_id row, sr_evaluation_unit_id row, sr_request_sha256 row)) (oracle_scores db)"

definition outcome_shown :: "ledger_outcome \<Rightarrow> dict oracle_result \<Rightarrow> bool" where
  "outcome_shown out res \<longleftrightarrow>
     (case out of
        Recorded \<Rightarrow> (\<exists>d. res = Inr d \<and> dget d ''idempotent_replay'' = JBool False)
      | Repeated \<Rightarrow> (\<exists>d. res = Inr d \<and> dget d ''idempotent_replay'' = JBool True)
      | Refused \<Rightarrow> (\<exists>msg. res = Inl (N1OracleIdempotencyConflict msg)))"

lemma validate_scorable: "scorable H svc r \<Longrightarrow> validate_score_request H (JObj r) = Inr r"
  by (simp add: scorable_def result_simps)

lemma stored_row_answers:
  assumes svc: "service_ok svc" and inv: "store_inv sha256_hex hmac_hex svc db" and r: "scored sha256_hex svc r l"
    and find: "find_score db (req_text r ''score_request_id'') = Some row" and sha: "sr_request_sha256 row = value_sha256 sha256_hex (JObj r)"
    and no: "\<not> sha256_collision (insert (dumps (JObj r)) (sr_request_json ` set (oracle_scores db)))"
  shows "n1.answered_by svc r row (score_response sha256_hex hmac_hex svc r l)"
proof -
  have mem: "row \<in> set (oracle_scores db)" using find_Some_in [OF find [unfolded find_score_def]] by simp
  then obtain r0 l0 where r0: "scored sha256_hex svc r0 l0" "row = score_row_of sha256_hex hmac_hex svc r0 l0"
    using inv by (auto simp: store_inv_def)
  have ok: "score_request_ok sha256_hex r0" "distinct (map fst r0)" "score_request_ok sha256_hex r" "distinct (map fst r)"
    using r0(1) r by (auto simp: scored_def scorable_def)
  have "sha256_hex (dumps (JObj r0)) = sha256_hex (dumps (JObj r))" "dumps (JObj r0) \<in> sr_request_json ` set (oracle_scores db)"
    using sha r0(2) mem by (force simp: score_row_of_def value_sha256_def simp del: dumps.simps)+
  with no have eqt: "dumps (JObj r0) = dumps (JObj r)" unfolding sha256_collision_def by blast
  have same: "dget r0 k = dget r k" for k by (rule same_text_same_fields [OF ok eqt])
  have "l0 = l" using r0(1) r by (simp add: scored_def find_label_def same)
  then have "score_response sha256_hex hmac_hex svc r0 l0 = score_response sha256_hex hmac_hex svc r l"
    using core_cong [OF same eqt, of sha256_hex hmac_hex svc l] by (simp add: score_response_def)
  then have "row = score_row_of sha256_hex hmac_hex svc r l" using r0(2) eqt same by (simp add: score_row_of_def value_sha256_def del: dumps.simps)
  then show ?thesis using n1.fresh_answered [OF svc r] by simp
qed

lemma ledger_find:
  "map_of (ledger_of db) rq = map_option (\<lambda>row. (sr_evaluation_unit_id row, sr_request_sha256 row)) (find_score db rq)"
proof -
  have "map_of (map (\<lambda>row. (sr_score_request_id row, sr_evaluation_unit_id row, sr_request_sha256 row)) rows) rq
    = map_option (\<lambda>row. (sr_evaluation_unit_id row, sr_request_sha256 row)) (find (\<lambda>r. sr_score_request_id r = rq) rows)" for rows
    by (induction rows) auto
  then show ?thesis by (simp add: ledger_of_def find_score_def)
qed

lemma ledger_unit: "u \<in> fst ` snd ` set (ledger_of db) \<longleftrightarrow> find_unit db u \<noteq> None"
  by (auto simp: ledger_of_def find_unit_def find_None_all image_iff)

text \<open>
  (C8) The service implements the ledger: for a valid request with a label, \<open>score\<close> changes the
  database exactly as the abstract submission changes the ledger, and its answer is a first score, a
  replay or a conflict as the submission is recorded, repeated or refused, provided that the
  text of the request does not collide with a stored one.
\<close>

theorem score_implements_ledger:
  assumes "oracle_reachable pkg_root dir svc (db, todo)" and "scored sha256_hex svc r l"
    and "\<not> sha256_collision (insert (dumps (JObj r)) (sr_request_json ` set (oracle_scores db)))"
    and "ledger_submit (req_text r ''score_request_id'') (req_text r ''evaluation_unit_id'') (value_sha256 sha256_hex (JObj r)) (ledger_of db)
      = (L', out)"
  shows "\<exists>db' res. oracle_score sha256_hex hmac_hex svc (JObj r) db = (db', res) \<and> ledger_of db' = L' \<and> outcome_shown out res"
proof -
  have svc: "service_ok svc" and inv: "store_inv sha256_hex hmac_hex svc db"
    using reachable_facts(1,2) [OF assms(1)] by (auto simp: system_inv_def)
  have r: "scorable sha256_hex svc r" using assms(2) by (simp add: scored_def)
  show ?thesis
  proof (cases "find_score db (req_text r ''score_request_id'')")
    case None
    show ?thesis
    proof (cases "find_unit db (req_text r ''evaluation_unit_id'')")
      case unit: None
      with None assms(4) have "L' = ledger_of db @ [(req_text r ''score_request_id'', req_text r ''evaluation_unit_id'', value_sha256 sha256_hex (JObj r))]"
        and "out = Recorded" by (auto simp: ledger_submit_def ledger_find ledger_unit)
      moreover have "ledger_of (insert_score sha256_hex r (score_response sha256_hex hmac_hex svc r l) db)
        = ledger_of db @ [(req_text r ''score_request_id'', req_text r ''evaluation_unit_id'', value_sha256 sha256_hex (JObj r))]"
        unfolding ledger_of_def insert_score_row by (simp add: score_row_of_def)
      ultimately show ?thesis
        using n1.score_fresh [OF svc assms(2) None unit] by (simp add: outcome_shown_def response_get core_get)
    next
      case (Some row)
      with None assms(4) have "L' = ledger_of db" "out = Refused" by (auto simp: ledger_submit_def ledger_find ledger_unit)
      moreover have "oracle_score sha256_hex hmac_hex svc (JObj r) db
        = (db, Inl (N1OracleIdempotencyConflict ''evaluation unit already consumed by another score request''))"
        using r None Some service_oracle_id [OF svc] validate_scorable [OF r]
        by (simp add: oracle_score_def score_prepare_def replay_if_present_def scorable_def)
      ultimately show ?thesis by (simp add: outcome_shown_def)
    qed
  next
    case (Some row)
    show ?thesis
    proof (cases "sr_request_sha256 row = value_sha256 sha256_hex (JObj r)")
      case True
      with Some assms(4) have "L' = ledger_of db" "out = Repeated" by (auto simp: ledger_submit_def ledger_find)
      moreover have "n1.answered_by svc r row (score_response sha256_hex hmac_hex svc r l)"
        by (rule stored_row_answers [OF svc inv assms(2) Some True assms(3)])
      ultimately show ?thesis using n1.answered_again [OF Some _ svc r] by (fastforce simp: outcome_shown_def)
    next
      case False
      with Some assms(4) have "L' = ledger_of db" "out = Refused" by (auto simp: ledger_submit_def ledger_find)
      moreover have "oracle_score sha256_hex hmac_hex svc (JObj r) db
        = (db, Inl (N1OracleIdempotencyConflict ''score_request_id was reused for a different request''))"
        using r Some False service_oracle_id [OF svc] validate_scorable [OF r]
        by (simp add: oracle_score_def score_prepare_def replay_if_present_def scorable_def)
      ultimately show ?thesis by (simp add: outcome_shown_def)
    qed
  qed
qed

theorem score_implements_ledger_witness:
  "\<exists>db' res. oracle_score sha256_hex hmac_hex n1demo_svc (JObj (n1demo_request ''req-1'' ''A'')) n1demo_db = (db', res)
    \<and> length (ledger_of db') = 1 \<and> outcome_shown Recorded res"
proof -
  have s: "scored sha256_hex n1demo_svc (n1demo_request ''req-1'' ''A'') n1demo_label" by (rule n1demo_scored) (simp_all add: n1demo_names)
  have "ledger_of n1demo_db = []" by (simp add: ledger_of_def n1demo_db_empty)
  moreover have "\<not> sha256_collision (insert (dumps (JObj (n1demo_request ''req-1'' ''A''))) (sr_request_json ` set (oracle_scores n1demo_db)))"
    by (simp add: sha256_collision_def n1demo_db_empty)
  ultimately show ?thesis
    using score_implements_ledger [OF n1demo_reachable s] by (fastforce simp: ledger_submit_def)
qed

end
