(* ===== verification/Oracle_Http.thy ===== *)
theory Oracle_Http
  imports Oracle_Ledger Py_Http
begin

text \<open>
  The HTTP surface of the hidden oracle (\<open>pathfinder/simulator/hidden_oracle.py\<close>): the handler of the
  scoring service on N1 and the client on N7. As for the cache, a handler is a function of the database
  and the request, and the network of a client is a parameter.

  \<open>casefold\<close> is \<open>str.casefold\<close>, and \<open>ip_loopback\<close> says whether a text is a loopback address for the
  \<open>ipaddress\<close> module. The media type is compared with an ASCII text no other character folds into, so
  lowering its ASCII letters is enough.
\<close>

section \<open>The service\<close>

definition oracle_json_response :: "int \<Rightarrow> dict \<Rightarrow> http_response" where
  "oracle_json_response status v =
     (let body = dumps (JObj v) @ [CHR 0x0A]
      in \<lparr>rs_status = status,
          rs_headers = [(''Content-Type'', ''application/json; charset=utf-8''), (''Content-Length'', int_str (int (length body))),
                        (''Cache-Control'', ''no-store'')],
          rs_body = body\<rparr>)"

definition oracle_error_response :: "int \<Rightarrow> string \<Rightarrow> string \<Rightarrow> http_response" where
  "oracle_error_response status code message =
     oracle_json_response status
       [(''schema_version'', JStr N1_ORACLE_SERVICE_API_VERSION), (''status'', JStr ''error''),
        (''error'', JObj [(''code'', JStr code), (''message'', JStr message)]),
        (''hidden_answer_returned'', JBool False), (''credentials_recorded'', JBool False)]"

text \<open>\<open>None\<close>: \<open>urlsplit\<close> raised, and the connection is closed without a response.\<close>

definition oracle_do_GET :: "(string \<Rightarrow> string option) \<Rightarrow> oracle_service \<Rightarrow> http_request \<Rightarrow> http_response option" where
  "oracle_do_GET netloc_error svc rq =
     (case urlsplit netloc_error (rq_path rq) of
        Inl msg \<Rightarrow> None
      | Inr parsed \<Rightarrow>
          Some (if u_path parsed = ''/healthz'' \<and> u_query parsed = [] then oracle_json_response 200 (oracle_health svc)
                else oracle_error_response 404 ''not_found'' ''unknown endpoint''))"

definition oracle_internal_error :: http_response where
  "oracle_internal_error = oracle_error_response 500 ''internal_error'' ''oracle scoring failed''"

fun oracle_failure_response :: "oracle_error \<Rightarrow> http_response" where
  "oracle_failure_response (N1OracleIdempotencyConflict m) = oracle_error_response 409 ''idempotency_conflict'' m"
| "oracle_failure_response (N1OracleError m) = oracle_error_response 400 ''invalid_request'' m"
| "oracle_failure_response (OracleOther m) = oracle_internal_error"

definition oracle_media_type :: "headers \<Rightarrow> string" where
  "oracle_media_type hs = ascii_lower (strip (fst (partition_at CHR '';'' (text_or_empty (header_get hs ''Content-Type'')))))"

text \<open>The body of a score request, from the protocol header to the validated request.\<close>

definition read_score_request :: "(bytes \<Rightarrow> string) \<Rightarrow> http_request \<Rightarrow> dict oracle_result" where
  "read_score_request H rq =
     (let hs = rq_headers rq
      in require (header_get hs ''X-Pathfinder-Oracle-Protocol-Version'' = Some N1_ORACLE_SERVICE_API_VERSION)
           (N1OracleError ''missing or unsupported oracle protocol header'') (
         require (oracle_media_type hs = ''application/json'') (N1OracleError ''Content-Type must be application/json'') (
         (case header_get hs ''Content-Length'' of
            None \<Rightarrow> Inl (N1OracleError ''Content-Length is required'')
          | Some raw_length \<Rightarrow>
              require (is_decimal raw_length) (N1OracleError ''Content-Length is required'') (
              bind_res (map_sum OracleOther id (int_of_text raw_length)) (\<lambda>n.
              require (n \<le> MAX_REQUEST_BYTES) (N1OracleError ''score request is too large'') (
              (let raw = take (nat n) (rq_body rq)
               in require (int (length raw) = n) (N1OracleError ''score request is truncated'') (
                  bind_res (json_value raw ''score request'') (\<lambda>v.
                  bind_res (validate_score_request H v) (\<lambda>request.
                  require (map_option JStr (header_get hs ''Idempotency-Key'') = Some (dget request ''score_request_id''))
                    (N1OracleError ''Idempotency-Key must equal score_request_id'') (
                  Inr request))))))))))))"

definition oracle_authorized :: "string \<Rightarrow> http_request \<Rightarrow> bool option" where
  "oracle_authorized token rq =
     (case header_get (rq_headers rq) ''Authorization'' of
        None \<Rightarrow> Some False
      | Some supplied \<Rightarrow> compare_digest supplied (''Bearer '' @ token))"

definition oracle_do_POST ::
  "(bytes \<Rightarrow> string) \<Rightarrow> (bytes \<Rightarrow> bytes \<Rightarrow> string) \<Rightarrow> oracle_service \<Rightarrow> string \<Rightarrow> http_request \<Rightarrow> score_store
   \<Rightarrow> score_store \<times> http_response" where
  "oracle_do_POST H M svc token rq db =
     (if rq_path rq \<noteq> ''/v1/oracle/score'' then (db, oracle_error_response 404 ''not_found'' ''unknown endpoint'')
      else (case oracle_authorized token rq of
              None \<Rightarrow> (db, oracle_internal_error)
            | Some False \<Rightarrow> (db, oracle_error_response 401 ''unauthorized'' ''invalid bearer token'')
            | Some True \<Rightarrow>
                (case read_score_request H rq of
                   Inl e \<Rightarrow> (db, oracle_failure_response e)
                 | Inr request \<Rightarrow>
                     (case oracle_score H M svc (JObj request) db of
                        (db', Inl e) \<Rightarrow> (db', oracle_failure_response e)
                      | (db', Inr result) \<Rightarrow> (db', oracle_json_response 200 result)))))"

definition create_n1_oracle_http_server ::
  "(bytes \<Rightarrow> string) \<Rightarrow> (bytes \<Rightarrow> bytes \<Rightarrow> string) \<Rightarrow> string \<Rightarrow> package option \<Rightarrow> json \<Rightarrow> bytes \<Rightarrow> score_store
   \<Rightarrow> score_store \<times> (oracle_service \<times> string) oracle_result" where
  "create_n1_oracle_http_server H M pkg_root dir bearer_token secret db =
     (case oracle_text bearer_token ''bearer_token'' 4096 of
        Inl e \<Rightarrow> (db, Inl e)
      | Inr token \<Rightarrow>
          (let (db', r) = open_service H M pkg_root dir secret db in (db', map_sum id (\<lambda>svc. (svc, token)) r)))"

section \<open>The client\<close>

datatype oracle_client_error =
    Rejected oracle_error
  | N1OracleHTTPError string
  | OracleUrlError string
  | ReadFailure
  | LibraryFailure

definition lift_oracle :: "'a oracle_result \<Rightarrow> oracle_client_error + 'a" where
  "lift_oracle r = map_sum Rejected id r"

abbreviation oracle_reject :: "string \<Rightarrow> oracle_client_error" where
  "oracle_reject m \<equiv> Rejected (N1OracleError m)"

definition host_char :: "char \<Rightarrow> bool" where
  "host_char c \<longleftrightarrow> is_lower c \<or> is_digit c \<or> c = CHR ''-''"

definition SIMULATOR_HOST :: "string \<Rightarrow> bool" where
  "SIMULATOR_HOST s \<longleftrightarrow>
     list_ex (\<lambda>pre. take (length pre) s = pre \<and> drop (length pre) s \<noteq> [] \<and> list_all host_char (drop (length pre) s))
       [''pathfinder-sim-'', ''pathfinder-full-flow-'']"

definition oracle_loopback :: "(string \<Rightarrow> string) \<Rightarrow> (string \<Rightarrow> bool) \<Rightarrow> string option \<Rightarrow> bool" where
  "oracle_loopback casefold ip_loopback hostname =
     (case hostname of None \<Rightarrow> False | Some h \<Rightarrow> casefold h = ''localhost'' \<or> ip_loopback h)"

record oracle_client =
  oc_base_url :: string
  oc_oracle_id :: string
  oc_task_set :: string
  oc_token :: string
  oc_hosts :: "string list"

text \<open>A timeout is a finite number.\<close>

definition oracle_timeout_ok :: "json \<Rightarrow> oracle_client_error + unit" where
  "oracle_timeout_ok v =
     (case v of
        JInt n \<Rightarrow> require (\<bar>n\<bar> < 2 ^ 1024 - 2 ^ 970) LibraryFailure (
                   require (0 < n) (oracle_reject ''timeout_seconds must be positive'') (Inr ()))
      | JFloat f \<Rightarrow> require (0 < float_value f) (oracle_reject ''timeout_seconds must be positive'') (Inr ())
      | _ \<Rightarrow> Inl (oracle_reject ''timeout_seconds must be positive''))"

definition N1OracleHTTPClient ::
  "(string \<Rightarrow> string option) \<Rightarrow> (string \<Rightarrow> string) \<Rightarrow> (string \<Rightarrow> bool) \<Rightarrow> string \<Rightarrow> json \<Rightarrow> json \<Rightarrow> json \<Rightarrow> json \<Rightarrow> string list
   \<Rightarrow> oracle_client_error + oracle_client" where
  "N1OracleHTTPClient netloc_error casefold ip_loopback base_url expected_oracle_id expected_task_set bearer_token timeout_seconds
     simulator_private_http_hosts =
     bind_res (map_sum OracleUrlError id (urlsplit netloc_error base_url)) (\<lambda>parsed.
     require (u_scheme parsed \<in> {''http'', ''https''}) (oracle_reject ''oracle base_url scheme is invalid'') (
     require (url_hostname parsed \<noteq> None \<and> u_query parsed = [] \<and> u_fragment parsed = []) (oracle_reject ''oracle base_url is invalid'') (
     require (u_path parsed \<in> {'''', ''/''}) (oracle_reject ''oracle base_url must not contain a path'') (
     (let allowed = sort (remdups simulator_private_http_hosts)
      in require (list_all SIMULATOR_HOST allowed) (oracle_reject ''simulator host is invalid'') (
         require (u_scheme parsed = ''https'' \<or> oracle_loopback casefold ip_loopback (url_hostname parsed)
             \<or> the (url_hostname parsed) \<in> set allowed)
           (oracle_reject ''plain HTTP is allowed only for loopback or an explicit simulator host'') (
         bind_res (lift_oracle (oracle_identifier expected_oracle_id ''expected_oracle_id'')) (\<lambda>oid.
         bind_res (lift_oracle (oracle_digest expected_task_set ''expected_public_task_set_sha256'')) (\<lambda>task_set.
         bind_res (lift_oracle (oracle_text bearer_token ''bearer_token'' 4096)) (\<lambda>token.
         bind_res (oracle_timeout_ok timeout_seconds) (\<lambda>_.
         Inr \<lparr>oc_base_url = rstrip_char CHR ''/'' base_url, oc_oracle_id = oid, oc_task_set = task_set, oc_token = token,
              oc_hosts = allowed\<rparr>)))))))))))"

text \<open>The opener uses no proxy for a loopback or simulator host.\<close>

definition oracle_opener :: "(string \<Rightarrow> string option) \<Rightarrow> (string \<Rightarrow> string) \<Rightarrow> (string \<Rightarrow> bool) \<Rightarrow> oracle_client \<Rightarrow> oracle_client_error + bool" where
  "oracle_opener netloc_error casefold ip_loopback cl =
     bind_res (map_sum OracleUrlError id (urlsplit netloc_error (oc_base_url cl))) (\<lambda>parsed.
     Inr (oracle_loopback casefold ip_loopback (url_hostname parsed)
          \<or> (case url_hostname parsed of None \<Rightarrow> False | Some h \<Rightarrow> h \<in> set (oc_hosts cl))))"

definition oracle_response :: "http_outcome \<Rightarrow> oracle_client_error + dict" where
  "oracle_response outcome =
     (case outcome of
        Answered hs body \<Rightarrow>
          require (get_content_type hs = ''application/json'') (oracle_reject ''oracle response Content-Type is invalid'') (
          (let raw = take (nat (MAX_RESPONSE_BYTES + 1)) body
           in require (int (length raw) \<le> MAX_RESPONSE_BYTES) (oracle_reject ''oracle response is too large'') (
              bind_res (lift_oracle (json_value raw ''oracle HTTP response'')) (\<lambda>v.
              lift_oracle (mapping v ''oracle HTTP response'')))))
      | StatusError code \<Rightarrow> Inl (N1OracleHTTPError (''N1 oracle returned HTTP '' @ int_str code))
      | Redirected code \<Rightarrow> Inl (N1OracleHTTPError (''N1 oracle returned HTTP '' @ int_str code))
      | Unreachable \<Rightarrow> Inl (N1OracleHTTPError ''N1 oracle request failed'')
      | TransferFails \<Rightarrow> Inl ReadFailure
      | LibraryRaises \<Rightarrow> Inl LibraryFailure)"

definition oracle_health_request :: "oracle_client \<Rightarrow> out_request" where
  "oracle_health_request cl = \<lparr>out_method = ''GET'', out_url = oc_base_url cl @ ''/healthz'', out_headers = [], out_data = None\<rparr>"

definition oracle_health_result :: "oracle_client \<Rightarrow> http_outcome \<Rightarrow> oracle_client_error + dict" where
  "oracle_health_result cl outcome =
     bind_res (oracle_response outcome) (\<lambda>health.
     require (dget health ''status'' = JStr ''ok'') (oracle_reject ''N1 oracle health is not ok'') (
     require (dget health ''node_id'' = JStr N1_NODE_ID) (oracle_reject ''oracle endpoint is not N1'') (
     require (dget health ''oracle_id'' = JStr (oc_oracle_id cl)) (oracle_reject ''health oracle_id mismatch'') (
     require (dget health ''public_task_set_sha256'' = JStr (oc_task_set cl)) (oracle_reject ''health public task set mismatch'') (
     require (dget health ''hidden_answer_returned'' = JBool False) (oracle_reject ''health leaks hidden answer'') (
     require (dget health ''credentials_recorded'' = JBool False) (oracle_reject ''unsafe health response'') (
     Inr health)))))))"

definition oracle_client_health ::
  "(out_request \<Rightarrow> 's \<Rightarrow> 's \<times> http_outcome) \<Rightarrow> oracle_client \<Rightarrow> 's \<Rightarrow> 's \<times> (oracle_client_error + dict)" where
  "oracle_client_health net cl w =
     (let (w', outcome) = net (oracle_health_request cl) w in (w', oracle_health_result cl outcome))"

definition oracle_score_request :: "oracle_client \<Rightarrow> dict \<Rightarrow> out_request" where
  "oracle_score_request cl request =
     \<lparr>out_method = ''POST'', out_url = oc_base_url cl @ ''/v1/oracle/score'',
      out_headers =
        [(''Authorization'', ''Bearer '' @ oc_token cl), (''Content-Type'', ''application/json''),
         (''X-Pathfinder-Oracle-Protocol-Version'', N1_ORACLE_SERVICE_API_VERSION),
         (''Idempotency-Key'', req_text request ''score_request_id'')],
      out_data = Some (dumps (JObj request))\<rparr>"

definition oracle_client_score ::
  "(out_request \<Rightarrow> 's \<Rightarrow> 's \<times> http_outcome) \<Rightarrow> (bytes \<Rightarrow> string) \<Rightarrow> oracle_client \<Rightarrow> json \<Rightarrow> 's
   \<Rightarrow> 's \<times> (oracle_client_error + dict)" where
  "oracle_client_score net H cl v w =
     (case validate_score_request H v of
        Inl e \<Rightarrow> (w, Inl (Rejected e))
      | Inr request \<Rightarrow>
          if dget request ''oracle_id'' \<noteq> JStr (oc_oracle_id cl)
          then (w, Inl (oracle_reject ''score oracle_id differs from deployment binding''))
          else (let (w', outcome) = net (oracle_score_request cl request) w
                in (w', bind_res (oracle_response outcome) (\<lambda>result.
                        lift_oracle (validate_public_score_result H (JObj request) (JObj result) (oc_oracle_id cl)
                          (JStr (oc_task_set cl)))))))"

section \<open>The service as the network of a client\<close>

definition oracle_network ::
  "(bytes \<Rightarrow> string) \<Rightarrow> (bytes \<Rightarrow> bytes \<Rightarrow> string) \<Rightarrow> (string \<Rightarrow> string option) \<Rightarrow> oracle_service \<Rightarrow> string \<Rightarrow> string \<Rightarrow> out_request
   \<Rightarrow> score_store \<Rightarrow> score_store \<times> http_outcome" where
  "oracle_network H M netloc_error svc token base rq db =
     (if out_method rq = ''POST''
      then (let (db', rs) = oracle_do_POST H M svc token (served base rq) db in (db', received rs))
      else (db, case oracle_do_GET netloc_error svc (served base rq) of None \<Rightarrow> TransferFails | Some rs \<Rightarrow> received rs))"

end
