(* ===== verification/Oracle_Remote.thy ===== *)
theory Oracle_Remote
  imports Oracle_Http Json_Size
begin

text \<open>
  The client of the hidden oracle and its handler together: scoring over HTTP is scoring at the service,
  every valid request and every result fit the limits of the protocol, and against an arbitrary network
  the client returns only results that carry the identity of its request.
\<close>

section \<open>The size of the messages\<close>

text \<open>The canonical text of a valid score request is within the limit the service reads.\<close>

lemma identifier_length: "oracle_IDENTIFIER s \<Longrightarrow> length s \<le> 256"
  using IDENTIFIER_text [of s] by (simp add: text_ok_def)

lemma sha256_length: "match_sha256 s \<Longrightarrow> length s = 64"
  by (simp add: match_sha256_def)

lemma request_text_bounds:
  assumes "score_request_ok H r" and "\<And>m. match_sha256 (H m)"
  shows "text_bound (dget r ''schema_version'') \<le> 600" "text_bound (dget r ''score_request_id'') \<le> 1538"
    "text_bound (dget r ''oracle_id'') \<le> 1538" "text_bound (dget r ''run_id'') \<le> 1538" "text_bound (dget r ''trial_id'') \<le> 1538"
    "text_bound (dget r ''object_id'') \<le> 1538" "text_bound (dget r ''evaluation_unit_id'') \<le> 386"
    "text_bound (dget r ''task_binding_sha256'') \<le> 386" "text_bound (dget r ''predicted_answer'') \<le> 98306"
    "text_bound (dget r ''credentials_recorded'') \<le> 5"
  using assms identifier_length sha256_length unfolding score_request_ok_def text_ok_def
  by (auto simp: MAX_PREDICTION_BYTES_def N1_SCORE_REQUEST_SCHEMA_VERSION_def value_sha256_def)

lemma score_request_size:
  assumes "score_request_ok H r" and "distinct (map fst r)" and "\<And>m. match_sha256 (H m)"
  shows "int (length (dumps (JObj r))) \<le> MAX_REQUEST_BYTES"
proof -
  have "keys r = set SCORE_REQUEST_FIELDS" using assms(1) by (simp add: score_request_ok_def)
  with request_text_bounds [OF assms(1,3)] text_bound_dict [OF assms(2)] have "text_bound (JObj r) \<le> 120000"
    by (simp add: SCORE_REQUEST_FIELDS_def del: text_bound.simps)
  with dumps_length [of "JObj r"] show ?thesis by (simp add: MAX_REQUEST_BYTES_def del: dumps.simps text_bound.simps)
qed

context oracle_digests
begin

text \<open>Every result of the service is a response computed for some request, first answer or replay.\<close>

lemma score_result_form:
  assumes svc: "service_ok svc" and inv: "store_inv H M svc db" and r: "distinct (map fst r)" "utf8_json (JObj r)"
    and e: "oracle_score H M svc (JObj r) db = (db', Inr d)"
  shows "\<exists>r0 l0. scored H svc r0 l0 \<and> (d = score_response H M svc r0 l0 \<or> d = replay_of svc r0 l0)"
proof -
  have row: "\<exists>r0 l0. scored H svc r0 l0 \<and> stored = loads_dict (score_response H M svc r0 l0)"
    if "find_score db k = Some row" "stored_response row = Inr stored" for k row stored
  proof -
    have "row \<in> set (oracle_scores db)" using find_Some_in [OF that(1) [unfolded find_score_def]] by simp
    then obtain r0 l0 where "scored H svc r0 l0" "row = score_row_of H M svc r0 l0" using inv by (auto simp: store_inv_def)
    with stored_row [OF svc] that(2) show ?thesis by force
  qed
  obtain p where p: "score_prepare H M svc (JObj r) db = Inr p" using e by (auto simp: oracle_score_def split: sum.splits)
  show ?thesis
  proof (cases p)
    case (Replayed x)
    then have "d = x" using p e by (auto simp: oracle_score_def)
    then obtain stored where "replay_if_present H r db = Inr (Some stored)" "d = mark_replay H stored"
      using p Replayed by (auto simp: score_prepare_def result_simps check_result_Inr split: option.splits)
    with row show ?thesis unfolding replay_of_def by (metis replay_stored)
  next
    case (Computed q resp)
    with prepare_computed [OF _ r svc] p obtain l where l: "q = r" "scored H svc r l" "resp = score_response H M svc r l" by blast
    have fin: "score_finish H svc r (score_response H M svc r l) db = (db', Inr d)"
      using e p Computed l by (simp add: oracle_score_def)
    show ?thesis
    proof (cases "find_score db (req_text r ''score_request_id'')")
      case None
      with fin l(2) have "d = score_response H M svc r l"
        by (auto simp: score_finish_def execute_once_def Let_def result_simps split: option.splits)
      with l(2) show ?thesis by blast
    next
      case (Some rw)
      with fin obtain stored where "stored_response rw = Inr stored" "d = mark_replay H stored"
        by (auto simp: score_finish_def execute_once_def Let_def result_simps split: if_splits)
      with row [OF Some] show ?thesis unfolding replay_of_def by metis
    qed
  qed
qed

lemma core_size:
  assumes svc: "service_ok svc" and sc: "scored H svc r l"
  shows "text_bound (dget (score_response_core H M svc r l) k) \<le> 1538"
proof -
  have ok: "score_request_ok H r" using sc by (simp add: scored_def scorable_def)
  have req: "text_bound (dget r ''score_request_id'') \<le> 1538" "text_bound (dget r ''run_id'') \<le> 1538" "text_bound (dget r ''trial_id'') \<le> 1538"
    "text_bound (dget r ''object_id'') \<le> 1538" "text_bound (dget r ''evaluation_unit_id'') \<le> 1538" "text_bound (dget r ''task_binding_sha256'') \<le> 1538"
    using request_text_bounds [OF ok digest_form] by auto
  have man: "text_bound (dget (svc_manifest svc) ''oracle_id'') \<le> 1538" "text_bound (dget (svc_manifest svc) ''public_task_set_sha256'') \<le> 1538"
    using svc identifier_length by (auto simp: service_ok_def dest!: sha256_length)
  have rules: "list_all (\<lambda>q. length q \<le> 100) SCORING_RULES" by (simp add: SCORING_RULES_def scoring_rule_defs)
  have rule: "length (l_success_scoring_rule l) \<le> 100"
    using service_label [OF svc] sc rules by (auto simp: scored_def label_ok_def list_all_iff)
  have score: "text_bound (score_value True) \<le> 10" "text_bound (score_value False) \<le> 10" by code_simp+
  have score': "text_bound (score_value c) \<le> 1538" for c using score by (cases c) auto
  have digests: "length (value_sha256 H v) = 64" "length (value_hmac M a v) = 64" "length (H m) = 64" for v a m
    using value_sha256_form value_hmac_form digest_form sha256_length by auto
  have "list_all (\<lambda>p. text_bound (snd p) \<le> 1538) (score_response_core H M svc r l)"
    unfolding score_response_core_def Let_def
    using req man rule score' by (simp add: digests oracle_instance_hmac_def score_evidence_hmac_def N1_SCORE_RESULT_SCHEMA_VERSION_def
        N1_NODE_ID_def del: json_text.simps)
  then show ?thesis by (auto simp: dget_def list_all_iff split: option.splits dest!: map_of_SomeD)
qed

text \<open>A result of the service: its fields, the well-formedness of its text and its size.\<close>

lemma score_result_text:
  assumes svc: "service_ok svc" and sc: "scored H svc r l" and d: "d = score_response H M svc r l \<or> d = replay_of svc r l"
  shows "distinct (map fst d)" "wf_json (JObj d)" "utf8_json (JObj d)" "\<And>k. scalar (dget d k)"
    "int (length (dumps (JObj d))) < MAX_RESPONSE_BYTES"
proof -
  have ok: "scorable H svc r" "label_ok l" "score_request_ok H r" using sc service_label [OF svc] by (auto simp: scored_def scorable_def)
  show dist: "distinct (map fst d)"
    using d response_distinct distinct_loads [OF response_distinct] by (auto simp: replay_of_def mark_replay_def Let_def)
  have keys: "keys d = set SCORE_RESULT_FIELDS"
    using d response_ok [OF svc ok(1,2)] replay_ok [OF svc ok(1,2)] by (auto simp: score_result_ok_def)
  have get: "dget d k = dget (score_response_core H M svc r l) k"
    if "k \<noteq> ''idempotent_replay''" "k \<noteq> ''result_content_sha256''" for k
    using d that by (auto simp: replay_of_def mark_replay_def Let_def stored_get [OF svc ok(3)] response_get)
  have other: "(\<exists>b. dget d ''idempotent_replay'' = JBool b) \<and> (\<exists>h. dget d ''result_content_sha256'' = JStr h \<and> match_sha256 h)"
    using d value_sha256_form by (auto simp: replay_of_def mark_replay_def Let_def response_get core_get)
  show "scalar (dget d k)" for k
    using get [of k] core_scalar [OF svc ok(3), of M l k] other
    by (cases "k = ''idempotent_replay''"; cases "k = ''result_content_sha256''") auto
  have core: "wf_json (dget (score_response H M svc r l) k) \<and> utf8_json (dget (score_response H M svc r l) k)" for k
    using response_wf [OF svc ok(3), of l] response_utf8 [OF svc ok(1,2)] dget_utf8
    by (auto simp: dget_def list_all_iff image_iff split: option.splits dest!: map_of_SomeD)
  have fields: "list_all (\<lambda>k. valid_utf8 k \<and> length k \<le> 40) SCORE_RESULT_FIELDS" by code_simp
  have field: "wf_json (dget d k) \<and> utf8_json (dget d k) \<and> text_bound (dget d k) \<le> 1538" for k
  proof (cases "k = ''idempotent_replay'' \<or> k = ''result_content_sha256''")
    case True
    then show ?thesis using other utf8_digest sha256_length [of "req_text d ''result_content_sha256''"] by auto
  next
    case False
    then show ?thesis using core [of k] get [of k] core_size [OF svc sc, of k] by (simp add: response_get)
  qed
  have "wf_json (JObj d) \<and> utf8_json (JObj d)"
    using fields field by (intro dict_wf [OF dist]) (auto simp: keys list_all_iff)
  then show "wf_json (JObj d)" "utf8_json (JObj d)" by auto
  have "(\<Sum>k \<in> keys d. 4 + 6 * length k + text_bound (dget d k)) \<le> (\<Sum>k \<in> keys d. 2000)"
  proof (rule sum_mono)
    fix k assume "k \<in> keys d"
    then have "length k \<le> 40" using fields by (simp add: keys list_all_iff)
    with field [of k] show "4 + 6 * length k + text_bound (dget d k) \<le> 2000" by linarith
  qed
  also have "\<dots> \<le> 23 * 2000" unfolding keys using card_length [of SCORE_RESULT_FIELDS] by (simp add: SCORE_RESULT_FIELDS_def)
  finally have "text_bound (JObj d) \<le> 50000" using text_bound_dict [OF dist] by simp
  with dumps_length [of "JObj d"] show "int (length (dumps (JObj d))) < MAX_RESPONSE_BYTES"
    by (simp add: MAX_RESPONSE_BYTES_def del: dumps.simps text_bound.simps)
qed

end

section \<open>A request that was sent\<close>

text \<open>A request read back from its text is the same request for the service.\<close>

lemma request_field:
  assumes "score_request_ok H r" and "k \<in> keys r"
  shows "(\<exists>s. dget r k = JStr s) \<or> dget r k = JBool False"
proof -
  have "k \<in> set SCORE_REQUEST_FIELDS" using assms by (simp add: score_request_ok_def)
  then show ?thesis using assms(1) unfolding score_request_ok_def SCORE_REQUEST_FIELDS_def by auto
qed

lemma request_scalar:
  assumes "score_request_ok H r"
  shows "scalar (dget r k)"
proof (cases "k \<in> keys r")
  case True
  from request_field [OF assms True] show ?thesis by auto
next
  case False
  then have "map_of r k = None" by (simp add: keys_def map_of_eq_None_iff)
  then show ?thesis by (simp add: dget_def)
qed

lemma request_wf:
  assumes "score_request_ok H r" and "distinct (map fst r)"
  shows "wf_json (JObj r)"
proof -
  have "wf_json v" if "(k, v) \<in> set r" for k v
  proof -
    have v: "dget r k = v" using map_of_is_SomeI [OF assms(2) that] by (simp add: dget_def)
    have "k \<in> keys r" using that by (force simp: keys_def)
    from request_field [OF assms(1) this] show ?thesis using v by auto
  qed
  then show ?thesis using assms(2) by (auto simp: list_all_iff)
qed

lemma request_loads:
  assumes "score_request_ok H r" and "distinct (map fst r)"
  shows "dget (loads_dict r) k = dget r k" "score_request_ok H (loads_dict r)" "dumps (JObj (loads_dict r)) = dumps (JObj r)"
proof -
  show get: "dget (loads_dict r) k = dget r k" for k
    using request_scalar [OF assms(1), of k] by (simp add: dget_loads [OF assms(2)])
  show "score_request_ok H (loads_dict r)" using assms(1) unfolding score_request_ok_def by (simp add: get keys_loads)
  show "dumps (JObj (loads_dict r)) = dumps (JObj r)" by (rule dumps_loads)
qed

lemma oracle_score_cong:
  assumes ok: "score_request_ok H r" "score_request_ok H r'" and get: "\<And>k. dget r' k = dget r k" and tx: "dumps (JObj r') = dumps (JObj r)"
  shows "oracle_score H M svc (JObj r') db = oracle_score H M svc (JObj r) db"
proof -
  have sha: "value_sha256 H (JObj r') = value_sha256 H (JObj r)" using tx by (simp add: value_sha256_def del: dumps.simps)
  have v: "validate_score_request H (JObj r) = Inr r" "validate_score_request H (JObj r') = Inr r'" using ok by (simp_all add: result_simps)
  have check: "check_result H svc r' d = check_result H svc r d" for d
    by (simp add: check_result_def validate_public_score_result_def v check_public_score_result_def get sha mapping_def)
  have replay: "replay_if_present H r' db = replay_if_present H r db" by (simp only: replay_if_present_def get sha)
  have label: "find_label (svc_labels svc) r' = find_label (svc_labels svc) r" by (simp add: find_label_def get)
  have resp: "score_response H M svc r' l = score_response H M svc r l" for l
    using core_cong [OF get tx] by (simp add: score_response_def)
  have ins: "insert_score H r' d db = insert_score H r d db" for d by (simp only: insert_score_def get tx)
  have once: "execute_once H r' d db = execute_once H r d db" for d by (simp only: execute_once_def get ins tx)
  have fin: "score_finish H svc r' d db = score_finish H svc r d db" for d by (simp add: score_finish_def once check)
  show ?thesis
    unfolding oracle_score_def score_prepare_def v bind_res_Inr get replay label resp check
    by (auto simp: fin bind_res_def require_def split: sum.splits option.splits)
qed

text \<open>
  A client configured for a service: the same token, of visible characters so that it passes a header
  unchanged, and the identity of the mounted labels.
\<close>

definition oracle_linked :: "oracle_service \<Rightarrow> string \<Rightarrow> oracle_client \<Rightarrow> bool" where
  "oracle_linked svc token cl \<longleftrightarrow>
     oc_token cl = token \<and> list_all (\<lambda>c. 33 \<le> ord c \<and> ord c \<le> 126) token
     \<and> oc_oracle_id cl = svc_oracle_id svc \<and> dget (svc_manifest svc) ''public_task_set_sha256'' = JStr (oc_task_set cl)"

lemma oracle_header_names:
  "ascii_lower ''X-Pathfinder-Oracle-Protocol-Version'' = ''x-pathfinder-oracle-protocol-version''"
  "ascii_lower ''Idempotency-Key'' = ''idempotency-key''"
  by code_simp+

lemma oracle_media_types:
  "ascii_lower (strip (fst (partition_at CHR '';'' ''application/json''))) = ''application/json''"
  "ascii_lower (strip (fst (partition_at CHR '';'' ''application/json; charset=utf-8''))) = ''application/json''"
  by code_simp+

lemma served_score_request:
  assumes ok: "score_request_ok H r" and d: "distinct (map fst r)" and u: "utf8_json (JObj r)" and H: "\<And>m. match_sha256 (H m)"
  shows "read_score_request H (served (oc_base_url cl) (oracle_score_request cl r)) = Inr (loads_dict r)"
proof -
  let ?rq = "served (oc_base_url cl) (oracle_score_request cl r)" let ?n = "int (length (dumps (JObj r)))"
  have hdr: "header_get (rq_headers ?rq) ''X-Pathfinder-Oracle-Protocol-Version'' = Some N1_ORACLE_SERVICE_API_VERSION"
    "header_get (rq_headers ?rq) ''Content-Type'' = Some ''application/json''"
    "header_get (rq_headers ?rq) ''Content-Length'' = Some (int_str ?n)"
    "header_get (rq_headers ?rq) ''Idempotency-Key'' = Some (req_text r ''score_request_id'')"
    by (simp_all add: served_def oracle_score_request_def header_simps oracle_header_names del: dumps.simps json_text.simps)
  have body: "rq_body ?rq = dumps (JObj r)" by (simp add: served_def oracle_score_request_def del: dumps.simps)
  note size = score_request_size [OF ok d H]
  then have len: "is_decimal (int_str ?n)" "int_of_text (int_str ?n) = Inr ?n"
    by (auto simp: MAX_REQUEST_BYTES_def simp del: dumps.simps intro!: decimal_count)
  have loads: "json_value (dumps (JObj r)) ''score request'' = Inr (JObj (loads_dict r))"
    using loads_bytes_dumps [of "JObj r"] request_plain [OF ok d] u
    by (simp add: json_value_def sort_keys_loads request_wf [OF ok d] del: dumps.simps sort_keys.simps wf_json.simps utf8_json.simps)
  have key: "JStr (req_text r ''score_request_id'') = dget (loads_dict r) ''score_request_id''"
    using request_loads(1) [OF ok d] score_request_fields(1) [OF ok] by simp
  show ?thesis
    unfolding read_score_request_def Let_def hdr oracle_media_type_def text_or_empty_def option.case oracle_media_types body
    using size request_loads(2) [OF ok d] key by (simp add: len loads result_simps del: dumps.simps json_text.simps)
qed

section \<open>Scoring over HTTP\<close>

fun oracle_error_status :: "oracle_error \<Rightarrow> int" where
  "oracle_error_status (N1OracleIdempotencyConflict m) = 409"
| "oracle_error_status (N1OracleError m) = 400"
| "oracle_error_status (OracleOther m) = 500"

text \<open>What a client makes of the result of the service.\<close>

definition score_seen :: "dict oracle_result \<Rightarrow> oracle_client_error + dict" where
  "score_seen r =
     (case r of
        Inl e \<Rightarrow> Inl (N1OracleHTTPError (''N1 oracle returned HTTP '' @ int_str (oracle_error_status e)))
      | Inr d \<Rightarrow> Inr (loads_dict d))"

lemma received_oracle_failure: "received (oracle_failure_response e) = StatusError (oracle_error_status e)"
  by (cases e) (simp_all add: received_def oracle_internal_error_def oracle_error_response_def oracle_json_response_def Let_def)

lemma received_oracle_result:
  "received (oracle_json_response 200 d) = Answered (rs_headers (oracle_json_response 200 d)) (dumps (JObj d) @ [CHR 0x0A])"
  by (simp add: received_def oracle_json_response_def Let_def del: dumps.simps)

lemma oracle_result_type: "get_content_type (rs_headers (oracle_json_response 200 d)) = ''application/json''"
  by (simp add: get_content_type_def oracle_json_response_def Let_def header_simps oracle_media_types(2) del: dumps.simps)

context oracle_digests
begin

lemma oracle_network_score:
  assumes link: "oracle_linked svc token cl" and ok: "score_request_ok H r" and d: "distinct (map fst r)" and u: "utf8_json (JObj r)"
  shows "oracle_network H M netloc_error svc token (oc_base_url cl) (oracle_score_request cl r) db =
    map_prod id (\<lambda>x. case x of Inl e \<Rightarrow> received (oracle_failure_response e) | Inr result \<Rightarrow> received (oracle_json_response 200 result))
      (oracle_score H M svc (JObj r) db)"
proof -
  let ?rq = "served (oc_base_url cl) (oracle_score_request cl r)"
  have path: "rq_path ?rq = ''/v1/oracle/score''" by (simp add: served_def oracle_score_request_def)
  have "header_get (rq_headers ?rq) ''Authorization'' = Some (''Bearer '' @ token)"
    using link by (simp add: served_def oracle_score_request_def header_simps oracle_linked_def del: dumps.simps json_text.simps)
  then have auth: "oracle_authorized token ?rq = Some True"
    using link by (auto simp: oracle_authorized_def compare_digest_def is_ascii_def oracle_linked_def list_all_iff ord_def)
  have "out_method (oracle_score_request cl r) = ''POST''" by (simp add: oracle_score_request_def)
  then show ?thesis
    using oracle_score_cong [OF ok request_loads(2) [OF ok d] request_loads(1) [OF ok d] request_loads(3) [OF ok d], of M svc db]
    by (simp add: oracle_network_def oracle_do_POST_def path auth served_score_request [OF ok d u digest_form] split: prod.splits sum.splits)
qed

lemma oracle_response_result:
  assumes "wf_json (JObj d)" "utf8_json (JObj d)" "int (length (dumps (JObj d))) < MAX_RESPONSE_BYTES"
  shows "oracle_response (received (oracle_json_response 200 d)) = Inr (loads_dict d)"
proof -
  have "json_value (dumps (JObj d) @ [CHR 0x0A]) name = Inr (JObj (loads_dict d))" for name
    using loads_bytes_line [OF assms(1,2)] by (simp add: json_value_def sort_keys_loads del: dumps.simps sort_keys.simps)
  moreover have "take (nat (MAX_RESPONSE_BYTES + 1)) (dumps (JObj d) @ [CHR 0x0A]) = dumps (JObj d) @ [CHR 0x0A]"
    using assms(3) by (simp del: dumps.simps)
  ultimately show ?thesis
    using assms(3) unfolding received_oracle_result oracle_response_def http_outcome.case Let_def oracle_result_type
    by (simp add: lift_oracle_def mapping_def del: dumps.simps)
qed

lemma loads_result_ok:
  assumes "score_result_ok H r d oid ts" and "distinct (map fst d)" and "\<And>k. scalar (dget d k)"
  shows "score_result_ok H r (loads_dict d) oid ts"
proof -
  have get: "dget (loads_dict d) k = dget d k" for k using assms(3) by (simp add: dget_loads [OF assms(2)])
  have del: "dumps (JObj (dict_del (loads_dict d) k)) = dumps (JObj (dict_del d k))" for k
    by (simp only: dict_del_loads dumps_loads)
  have "deep_keys (JObj (loads_dict d)) = deep_keys (JObj d)" using deep_keys_sort_keys [of "JObj d"] by (simp only: sort_keys_loads)
  then have "assert_hidden_oracle_fields_absent (JObj (loads_dict d)) = Inr ()"
    using assms(1) by (simp add: score_result_ok_def hidden_absent_iff)
  then show ?thesis using assms(1) unfolding score_result_ok_def
    by (simp add: get keys_loads value_sha256_def del del: dumps.simps json_text.simps)
qed

lemma client_score_remote:
  assumes svc: "service_ok svc" and inv: "store_inv H M svc db" and link: "oracle_linked svc token cl" and r: "scorable H svc r"
  shows "oracle_client_score (oracle_network H M netloc_error svc token (oc_base_url cl)) H cl (JObj r) db
    = map_prod id score_seen (oracle_score H M svc (JObj r) db)"
proof -
  have ok: "score_request_ok H r" "distinct (map fst r)" "utf8_json (JObj r)" using r by (auto simp: scorable_def)
  have oid: "dget r ''oracle_id'' = JStr (oc_oracle_id cl)" using r link by (simp add: scorable_def oracle_linked_def)
  have v: "validate_score_request H (JObj r) = Inr r" using ok(1) by (simp add: result_simps)
  obtain db' x where e: "oracle_score H M svc (JObj r) db = (db', x)" by fastforce
  let ?judge = "\<lambda>outcome. bind_res (oracle_response outcome) (\<lambda>result.
    lift_oracle (validate_public_score_result H (JObj r) (JObj result) (oc_oracle_id cl) (JStr (oc_task_set cl))))"
  have "oracle_client_score (oracle_network H M netloc_error svc token (oc_base_url cl)) H cl (JObj r) db
    = (db', ?judge (case x of Inl e \<Rightarrow> received (oracle_failure_response e) | Inr result \<Rightarrow> received (oracle_json_response 200 result)))"
    by (simp add: oracle_client_score_def v oid oracle_network_score [OF link ok] e)
  moreover have "?judge (received (oracle_failure_response e)) = score_seen (Inl e)" for e
    by (simp add: received_oracle_failure oracle_response_def score_seen_def)
  moreover have "?judge (received (oracle_json_response 200 d)) = score_seen (Inr d)" if xd: "x = Inr d" for d
  proof -
    obtain r0 l0 where f: "scored H svc r0 l0" "d = score_response H M svc r0 l0 \<or> d = replay_of svc r0 l0"
      using score_result_form [OF svc inv ok(2,3)] e xd by blast
    note t = score_result_text [OF svc f]
    have "score_result_ok H r d (svc_oracle_id svc) (dget (svc_manifest svc) ''public_task_set_sha256'')"
      using score_result_checked e xd by blast
    then have "score_result_ok H r (loads_dict d) (oc_oracle_id cl) (JStr (oc_task_set cl))"
      using loads_result_ok [OF _ t(1,4)] link by (simp add: oracle_linked_def)
    then have "validate_public_score_result H (JObj r) (JObj (loads_dict d)) (oc_oracle_id cl) (JStr (oc_task_set cl)) = Inr (loads_dict d)"
      using ok(1) by (simp add: result_simps)
    then show ?thesis by (simp add: oracle_response_result [OF t(2,3,5)] score_seen_def lift_oracle_def)
  qed
  ultimately show ?thesis by (cases x) (simp_all add: e)
qed

end

section \<open>The properties\<close>

definition n1demo_client :: oracle_client where
  "n1demo_client = \<lparr>oc_base_url = ''http://127.0.0.1:8091'', oc_oracle_id = ''oracle-1'',
     oc_task_set = req_text (svc_manifest n1demo_svc) ''public_task_set_sha256'', oc_token = ''0123456789abcdef'', oc_hosts = []\<rparr>"

lemma n1demo_linked: "oracle_linked n1demo_svc ''0123456789abcdef'' n1demo_client"
proof -
  have "service_ok n1demo_svc" by (rule reachable_facts(1) [OF n1demo_reachable])
  then have "dget (svc_manifest n1demo_svc) ''public_task_set_sha256'' = JStr (oc_task_set n1demo_client)"
    by (auto simp: service_ok_def n1demo_client_def)
  moreover have "svc_oracle_id n1demo_svc = ''oracle-1''" using n1demo_svc_get by (simp add: svc_oracle_id_def)
  moreover have "list_all (\<lambda>c. 33 \<le> ord c \<and> ord c \<le> 126) ''0123456789abcdef''" by code_simp
  ultimately show ?thesis by (simp add: oracle_linked_def n1demo_client_def)
qed

text \<open>
  (C14) Scoring through the HTTP client and the handler is scoring at the service: in every reachable state a valid
  request has the same effect on the score table and the client returns the same result, as JSON reads it
  back, or raises the HTTP status of the exception of the service (409 for a conflict, 400 for a refusal).
\<close>

theorem remote_score_is_score:
  assumes "oracle_reachable pkg_root dir svc (db, todo)" and "oracle_linked svc token cl" and "scorable sha256_hex svc r"
  shows "oracle_client_score (oracle_network sha256_hex hmac_hex netloc_error svc token (oc_base_url cl)) sha256_hex cl (JObj r) db
    = map_prod id score_seen (oracle_score sha256_hex hmac_hex svc (JObj r) db)"
  using n1.client_score_remote [OF reachable_facts(1) [OF assms(1)] _ assms(2,3)] reachable_facts(2) [OF assms(1)]
  by (simp add: system_inv_def)

theorem remote_score_is_score_witness:
  "oracle_client_score (oracle_network sha256_hex hmac_hex (\<lambda>_. None) n1demo_svc ''0123456789abcdef'' (oc_base_url n1demo_client)) sha256_hex
     n1demo_client (JObj (n1demo_request ''req-1'' ''A'')) n1demo_db
   = map_prod id score_seen (oracle_score sha256_hex hmac_hex n1demo_svc (JObj (n1demo_request ''req-1'' ''A'')) n1demo_db)"
proof -
  have "scorable sha256_hex n1demo_svc (n1demo_request ''req-1'' ''A'')"
    using n1demo_scored [of "''req-1''" "''A''"] by (simp add: n1demo_names scored_def)
  from remote_score_is_score [OF n1demo_reachable n1demo_linked this] show ?thesis .
qed

text \<open>
  The limits of the protocol are never in the way: the canonical text of every valid score request,
  with each character of its answer escaped if need be, is within the 128 KiB the handler reads, and every
  result of the service is within the 512 KiB the client reads.
\<close>

theorem score_messages_fit_the_limits:
  assumes "oracle_reachable pkg_root dir svc (db, todo)" and "scorable sha256_hex svc r"
  shows "int (length (dumps (JObj r))) \<le> MAX_REQUEST_BYTES
    \<and> (\<forall>db' d. oracle_score sha256_hex hmac_hex svc (JObj r) db = (db', Inr d)
         \<longrightarrow> int (length (rs_body (oracle_json_response 200 d))) \<le> MAX_RESPONSE_BYTES)"
proof (intro conjI allI impI)
  have ok: "score_request_ok sha256_hex r" "distinct (map fst r)" "utf8_json (JObj r)" using assms(2) by (auto simp: scorable_def)
  show "int (length (dumps (JObj r))) \<le> MAX_REQUEST_BYTES" by (rule score_request_size [OF ok(1,2) sha256.digest_form])
  fix db' d assume "oracle_score sha256_hex hmac_hex svc (JObj r) db = (db', Inr d)"
  then obtain r0 l0 where f: "scored sha256_hex svc r0 l0" "d = score_response sha256_hex hmac_hex svc r0 l0 \<or> d = n1.replay_of svc r0 l0"
    using n1.score_result_form [OF reachable_facts(1) [OF assms(1)] _ ok(2,3)] reachable_facts(2) [OF assms(1)]
    by (metis system_inv_def fst_conv)
  from n1.score_result_text(5) [OF reachable_facts(1) [OF assms(1)] this]
  show "int (length (rs_body (oracle_json_response 200 d))) \<le> MAX_RESPONSE_BYTES"
    by (simp add: oracle_json_response_def Let_def del: dumps.simps)
qed

theorem score_messages_fit_the_limits_witness:
  "int (length (dumps (JObj (n1demo_request ''req-1'' ''A'')))) \<le> MAX_REQUEST_BYTES
   \<and> int (length (rs_body (oracle_json_response 200 n1demo_response))) \<le> MAX_RESPONSE_BYTES"
proof -
  have "scorable sha256_hex n1demo_svc (n1demo_request ''req-1'' ''A'')"
    using n1demo_scored [of "''req-1''" "''A''"] by (simp add: n1demo_names scored_def)
  from score_messages_fit_the_limits [OF n1demo_reachable this] n1demo_score show ?thesis by blast
qed

text \<open>
  Whatever the network and the server answer, a result the client returns belongs to the request it
  sent and to the deployment it is bound to: the identifiers, the digests of the request and of the
  prediction, the oracle and the task set agree, its verdict and score agree, its content digest is
  right, and it has no hidden field at any depth.
\<close>

theorem oracle_client_accepts_only_its_result:
  assumes "oracle_client_score net sha256_hex cl v w = (w', Inr d)"
  shows "\<exists>r. v = JObj r \<and> score_request_ok sha256_hex r \<and> keys d = set SCORE_RESULT_FIELDS
    \<and> dget d ''score_request_id'' = dget r ''score_request_id'' \<and> dget d ''evaluation_unit_id'' = dget r ''evaluation_unit_id''
    \<and> dget d ''oracle_id'' = JStr (oc_oracle_id cl) \<and> dget d ''public_task_set_sha256'' = JStr (oc_task_set cl)
    \<and> dget d ''request_sha256'' = JStr (sha256_hex (dumps (JObj r)))
    \<and> dget d ''prediction_sha256'' = JStr (sha256_hex (req_text r ''predicted_answer''))
    \<and> (\<exists>c. dget d ''correct'' = JBool c \<and> py_eq (dget d ''score'') (score_value c))
    \<and> dget d ''result_content_sha256'' = JStr (sha256_hex (dumps (JObj (dict_del d ''result_content_sha256''))))
    \<and> deep_keys (JObj d) \<inter> set HIDDEN_FIELD_NAMES = {}"
proof -
  from assms obtain r result where r: "validate_score_request sha256_hex v = Inr r"
    and "validate_public_score_result sha256_hex (JObj r) (JObj result) (oc_oracle_id cl) (JStr (oc_task_set cl)) = Inr d"
    by (auto simp: oracle_client_score_def Let_def result_simps lift_oracle_def map_sum_Inr_iff split: sum.splits if_splits prod.splits)
  then have v: "v = JObj r" "score_request_ok sha256_hex r" "score_result_ok sha256_hex r d (oc_oracle_id cl) (JStr (oc_task_set cl))"
    by (auto simp: result_simps)
  have "dget d k = dget r k" if "py_eq (dget d k) (dget r k)" "dget r k = JStr (req_text r k)" for k
    using that by (metis py_eq_str)
  with v score_request_fields(1,2) [OF v(2)] show ?thesis
    unfolding score_result_ok_def value_sha256_def hidden_absent_iff by (intro exI [of _ r]) (simp del: dumps.simps json_text.simps deep_keys.simps)
qed

lemma n1demo_remote:
  "oracle_client_score (oracle_network sha256_hex hmac_hex (\<lambda>_. None) n1demo_svc ''0123456789abcdef'' (oc_base_url n1demo_client)) sha256_hex
     n1demo_client (JObj (n1demo_request ''req-1'' ''A'')) n1demo_db = (n1demo_scored_db, Inr (loads_dict n1demo_response))"
proof -
  have "scorable sha256_hex n1demo_svc (n1demo_request ''req-1'' ''A'')"
    using n1demo_scored [of "''req-1''" "''A''"] by (simp add: n1demo_names scored_def)
  from n1.client_score_remote [OF reachable_facts(1) [OF n1demo_reachable] _ n1demo_linked this] reachable_facts(2) [OF n1demo_reachable]
  show ?thesis by (simp add: system_inv_def n1demo_score score_seen_def)
qed

theorem oracle_client_accepts_only_its_result_witness:
  "dget (loads_dict n1demo_response) ''request_sha256'' = JStr (sha256_hex (dumps (JObj (n1demo_request ''req-1'' ''A''))))"
  using oracle_client_accepts_only_its_result [OF n1demo_remote] by (auto simp del: dumps.simps)

end
