(* ===== verification/Commitment.thy ===== *)
theory Commitment
  imports Oracle_Props
begin

text \<open>
  The public pre-selection commitment to a hidden-label package
  (\<open>pathfinder/simulator/hidden_oracle_commitment.py\<close>). A directory is a list of its entries with the
  bytes \<open>read_bytes\<close> returns, \<open>None\<close> where it raises; a missing directory is \<open>None\<close>. A package does not
  change while it is read. \<open>freeze\<close> stages its files under \<open>stage_path\<close> and returns the directory the
  final rename puts in place; \<open>appeared\<close> says whether the output came into being meanwhile.
\<close>

section \<open>The model\<close>

definition COMMITMENT_SCHEMA_VERSION :: string where
  "COMMITMENT_SCHEMA_VERSION = ''pathfinder.n1-oracle-preselection-commitment/v1alpha1''"

definition COMMITMENT_NAME :: string where
  "COMMITMENT_NAME = ''n1-oracle-preselection-commitment.json''"

definition CHECKSUMS_NAME :: string where
  "CHECKSUMS_NAME = ''SHA256SUMS''"

definition COMMITMENT_FIELDS :: "string list" where
  "COMMITMENT_FIELDS =
     [''schema_version'', ''status'', ''commitment_id'', ''logical_node_id'', ''oracle_id'', ''label_count'',
      ''hidden_labels_sha256'', ''public_task_set_sha256'', ''oracle_package_manifest_sha256'', ''commitment_scope'',
      ''label_values_included'', ''independent_timestamp_attested'', ''external_approval_attested'', ''credentials_recorded'',
      ''eligible_for_scientific_claims'', ''commitment_sha256'']"

datatype commitment_error =
    HiddenOracleCommitmentError string
  | PackageError oracle_error
  | CommitmentOther string

definition commitment_read_json :: "string \<Rightarrow> bytes option \<Rightarrow> string \<Rightarrow> commitment_error + (bytes \<times> dict)" where
  "commitment_read_json path content name =
     (case content of
        None \<Rightarrow> Inl (HiddenOracleCommitmentError (''cannot read canonical '' @ name @ '': '' @ path))
      | Some raw \<Rightarrow>
          (case loads_bytes raw of
             Inl JSONDecodeError \<Rightarrow> Inl (HiddenOracleCommitmentError (''cannot read canonical '' @ name @ '': '' @ path))
           | Inl (DuplicateKey k) \<Rightarrow> Inl (HiddenOracleCommitmentError (''duplicate JSON key: '' @ k))
           | Inl (NonFinite t) \<Rightarrow> Inl (HiddenOracleCommitmentError (''non-finite JSON number: '' @ t))
           | Inr v \<Rightarrow>
               (case v of
                  JObj d \<Rightarrow> require (raw = file_json_bytes v) (HiddenOracleCommitmentError (name @ '' is not canonical'')) (Inr (raw, d))
                | _ \<Rightarrow> Inl (HiddenOracleCommitmentError (name @ '' must be an object'')))))"

definition commitment_identifier :: "json \<Rightarrow> string \<Rightarrow> commitment_error + string" where
  "commitment_identifier v name =
     (case v of
        JStr s \<Rightarrow> require (oracle_IDENTIFIER s) (HiddenOracleCommitmentError (name @ '' is invalid'')) (Inr s)
      | _ \<Rightarrow> Inl (HiddenOracleCommitmentError (name @ '' must be a string'')))"

definition commitment_digest :: "json \<Rightarrow> string \<Rightarrow> commitment_error + string" where
  "commitment_digest v name =
     (case v of
        JStr s \<Rightarrow> require (match_sha256 s) (HiddenOracleCommitmentError (name @ '' is not SHA-256'')) (Inr s)
      | _ \<Rightarrow> Inl (HiddenOracleCommitmentError (name @ '' is not SHA-256'')))"

definition oracle_manifest :: "(bytes \<Rightarrow> string) \<Rightarrow> string \<Rightarrow> package option \<Rightarrow> commitment_error + (bytes \<times> dict)" where
  "oracle_manifest H pkg_root dir =
     bind_res (map_sum PackageError id (verify_n1_oracle_package H pkg_root dir)) (\<lambda>verified.
     bind_res (commitment_read_json (pkg_root @ ''/n1-oracle-package.json'')
                 (case dir of None \<Rightarrow> None | Some files \<Rightarrow> package_file files ''n1-oracle-package.json'')
                 ''N1 oracle package manifest'') (\<lambda>(raw, manifest).
     require (py_eq (dget manifest ''oracle_id'') (dget verified ''oracle_id'')
         \<and> py_eq (dget manifest ''label_count'') (dget verified ''label_count'')
         \<and> py_eq (dget manifest ''public_task_set_sha256'') (dget verified ''public_task_set_sha256''))
       (HiddenOracleCommitmentError ''N1 oracle package verification disagrees with its manifest'') (
     Inr (raw, manifest))))"

definition unsigned_document :: "(bytes \<Rightarrow> string) \<Rightarrow> string \<Rightarrow> bytes \<Rightarrow> dict \<Rightarrow> dict" where
  "unsigned_document H commitment_id manifest_raw manifest =
     [(''schema_version'', JStr COMMITMENT_SCHEMA_VERSION), (''status'', JStr ''FROZEN_PRESELECTION_ORACLE_COMMITMENT''),
      (''commitment_id'', JStr commitment_id), (''logical_node_id'', JStr ''N1''), (''oracle_id'', dget manifest ''oracle_id''),
      (''label_count'', dget manifest ''label_count''), (''hidden_labels_sha256'', dget manifest ''hidden_labels_sha256''),
      (''public_task_set_sha256'', dget manifest ''public_task_set_sha256''),
      (''oracle_package_manifest_sha256'', JStr (H manifest_raw)),
      (''commitment_scope'', JStr ''hidden-labels-before-policy-selection''), (''label_values_included'', JBool False),
      (''independent_timestamp_attested'', JBool False), (''external_approval_attested'', JBool False),
      (''credentials_recorded'', JBool False), (''eligible_for_scientific_claims'', JBool False)]"

definition commitment_document :: "(bytes \<Rightarrow> string) \<Rightarrow> string \<Rightarrow> bytes \<Rightarrow> dict \<Rightarrow> dict" where
  "commitment_document H commitment_id manifest_raw manifest =
     (let document = unsigned_document H commitment_id manifest_raw manifest
      in dict_set document ''commitment_sha256'' (JStr (H (dumps (JObj document)))))"

definition commitment_checksum :: "bytes option \<Rightarrow> commitment_error + string" where
  "commitment_checksum content =
     (case content of
        None \<Rightarrow> Inl (HiddenOracleCommitmentError ''cannot read SHA256SUMS'')
      | Some raw \<Rightarrow>
          require (valid_utf8 raw) (CommitmentOther ''UnicodeDecodeError'') (
          (case splitlines raw of
             [line] \<Rightarrow>
               (case partition_spaces line of
                  None \<Rightarrow>
                    bind_res (commitment_digest (JStr line) ''commitment file checksum'') (\<lambda>_.
                    Inl (HiddenOracleCommitmentError ''commitment checksum entry changed''))
                | Some (digest, name) \<Rightarrow>
                    bind_res (commitment_digest (JStr digest) ''commitment file checksum'') (\<lambda>_.
                    require (name = COMMITMENT_NAME) (HiddenOracleCommitmentError ''commitment checksum entry changed'') (
                    Inr digest)))
           | _ \<Rightarrow> Inl (HiddenOracleCommitmentError ''commitment checksum count changed''))))"

fun require_digests :: "dict \<Rightarrow> string list \<Rightarrow> commitment_error + unit" where
  "require_digests document [] = Inr ()"
| "require_digests document (field # rest) =
     bind_res (commitment_digest (dget document field) field) (\<lambda>_. require_digests document rest)"

fun require_false :: "dict \<Rightarrow> string list \<Rightarrow> commitment_error + unit" where
  "require_false document [] = Inr ()"
| "require_false document (field # rest) =
     require (dget document field = JBool False) (HiddenOracleCommitmentError (field @ '' must be false''))
       (require_false document rest)"

definition check_commitment :: "(bytes \<Rightarrow> string) \<Rightarrow> dict \<Rightarrow> commitment_error + unit" where
  "check_commitment H document =
     require (keys document = set COMMITMENT_FIELDS) (HiddenOracleCommitmentError ''commitment fields changed'') (
     require (dget document ''schema_version'' = JStr COMMITMENT_SCHEMA_VERSION
         \<and> dget document ''status'' = JStr ''FROZEN_PRESELECTION_ORACLE_COMMITMENT'')
       (HiddenOracleCommitmentError ''commitment schema or status changed'') (
     bind_res (commitment_identifier (dget document ''commitment_id'') ''commitment_id'') (\<lambda>_.
     bind_res (commitment_identifier (dget document ''oracle_id'') ''oracle_id'') (\<lambda>_.
     require (dget document ''logical_node_id'' = JStr ''N1'') (HiddenOracleCommitmentError ''logical node changed'') (
     require (case dget document ''label_count'' of JInt n \<Rightarrow> 0 < n | _ \<Rightarrow> False)
       (HiddenOracleCommitmentError ''label_count must be positive'') (
     bind_res (require_digests document
         [''hidden_labels_sha256'', ''public_task_set_sha256'', ''oracle_package_manifest_sha256'', ''commitment_sha256'']) (\<lambda>_.
     require (dget document ''commitment_scope'' = JStr ''hidden-labels-before-policy-selection'')
       (HiddenOracleCommitmentError ''commitment scope changed'') (
     bind_res (require_false document
         [''label_values_included'', ''independent_timestamp_attested'', ''external_approval_attested'', ''credentials_recorded'',
          ''eligible_for_scientific_claims'']) (\<lambda>_.
     require (JStr (H (dumps (JObj (dict_del document ''commitment_sha256'')))) = dget document ''commitment_sha256'')
       (HiddenOracleCommitmentError ''commitment content digest mismatch'') (
     Inr ()))))))))))"

definition opens_commitment :: "(bytes \<Rightarrow> string) \<Rightarrow> dict \<Rightarrow> bytes \<Rightarrow> dict \<Rightarrow> bool" where
  "opens_commitment H document manifest_raw manifest \<longleftrightarrow>
     list_all (\<lambda>(field, v). py_eq (dget document field) v)
       [(''logical_node_id'', dget manifest ''logical_node_id''), (''oracle_id'', dget manifest ''oracle_id''),
        (''label_count'', dget manifest ''label_count''), (''hidden_labels_sha256'', dget manifest ''hidden_labels_sha256''),
        (''public_task_set_sha256'', dget manifest ''public_task_set_sha256''),
        (''oracle_package_manifest_sha256'', JStr (H manifest_raw))]"

definition verify_report :: "dict \<Rightarrow> bool \<Rightarrow> dict" where
  "verify_report document private_binding =
     [(''status'', JStr ''VERIFIED''), (''commitment_id'', dget document ''commitment_id''),
      (''oracle_id'', dget document ''oracle_id''), (''label_count'', dget document ''label_count''),
      (''commitment_sha256'', dget document ''commitment_sha256''), (''private_package_binding_verified'', JBool private_binding),
      (''label_values_returned'', JBool False), (''independent_timestamp_attested'', JBool False), (''checked_files'', JInt 2),
      (''credentials_recorded'', JBool False), (''eligible_for_scientific_claims'', JBool False)]"

text \<open>\<open>private\<close> is the private package to open the commitment with, if one is given.\<close>

definition verify_n1_oracle_preselection_commitment ::
  "(bytes \<Rightarrow> string) \<Rightarrow> string \<Rightarrow> package option \<Rightarrow> (string \<times> package option) option \<Rightarrow> commitment_error + dict" where
  "verify_n1_oracle_preselection_commitment H com_root dir private =
     (case dir of
        None \<Rightarrow> Inl (HiddenOracleCommitmentError (''commitment directory does not exist: '' @ com_root))
      | Some files \<Rightarrow>
          require (fst ` set files = {COMMITMENT_NAME, CHECKSUMS_NAME}) (HiddenOracleCommitmentError ''commitment file set changed'') (
          bind_res (commitment_checksum (package_file files CHECKSUMS_NAME)) (\<lambda>digest.
          bind_res (commitment_read_json (com_root @ ''/'' @ COMMITMENT_NAME) (package_file files COMMITMENT_NAME) ''commitment'')
            (\<lambda>(raw, document).
          require (H raw = digest) (HiddenOracleCommitmentError ''commitment checksum mismatch'') (
          bind_res (check_commitment H document) (\<lambda>_.
          (case private of
             None \<Rightarrow> Inr (verify_report document False)
           | Some (pkg_root, pkg) \<Rightarrow>
               bind_res (oracle_manifest H pkg_root pkg) (\<lambda>(manifest_raw, manifest).
               require (opens_commitment H document manifest_raw manifest)
                 (HiddenOracleCommitmentError ''private N1 package does not open this commitment'') (
               Inr (verify_report document True))))))))))"

definition freeze_n1_oracle_preselection_commitment ::
  "(bytes \<Rightarrow> string) \<Rightarrow> string \<Rightarrow> package option \<Rightarrow> json \<Rightarrow> string \<Rightarrow> bool \<Rightarrow> string \<Rightarrow> bool \<Rightarrow> commitment_error + (package \<times> dict)" where
  "freeze_n1_oracle_preselection_commitment H pkg_root pkg commitment_id output exists stage_path appeared =
     bind_res (commitment_identifier commitment_id ''commitment_id'') (\<lambda>cid.
     require (\<not> exists) (HiddenOracleCommitmentError (''commitment directory exists: '' @ output)) (
     bind_res (oracle_manifest H pkg_root pkg) (\<lambda>(manifest_raw, manifest).
     (let document = commitment_document H cid manifest_raw manifest;
          content = file_json_bytes (JObj document);
          stage = [(COMMITMENT_NAME, Some content), (CHECKSUMS_NAME, Some (checksum_line (H content) COMMITMENT_NAME))]
      in bind_res (verify_n1_oracle_preselection_commitment H stage_path (Some stage) (Some (pkg_root, pkg))) (\<lambda>_.
         require (\<not> appeared) (HiddenOracleCommitmentError (''commitment directory exists: '' @ output)) (
         Inr (stage,
           [(''status'', JStr ''FROZEN_PRESELECTION_ORACLE_COMMITMENT''), (''commitment_id'', JStr cid),
            (''oracle_id'', dget manifest ''oracle_id''), (''label_count'', dget manifest ''label_count''),
            (''commitment_sha256'', dget document ''commitment_sha256''), (''label_values_returned'', JBool False),
            (''independent_timestamp_attested'', JBool False), (''output_dir'', JStr output),
            (''credentials_recorded'', JBool False), (''eligible_for_scientific_claims'', JBool False)])))))))"

section \<open>Results\<close>

lemma commitment_read_json_Inr [result_simps]:
  "commitment_read_json path c name = Inr (raw, d) \<longleftrightarrow> c = Some raw \<and> loads_bytes raw = Inr (JObj d) \<and> raw = file_json_bytes (JObj d)"
  by (auto simp: commitment_read_json_def result_simps split: option.splits sum.splits json_error.splits json.splits)

lemma commitment_identifier_Inr [result_simps]: "commitment_identifier v name = Inr s \<longleftrightarrow> v = JStr s \<and> oracle_IDENTIFIER s"
  by (cases v) (auto simp: commitment_identifier_def result_simps)

lemma commitment_digest_Inr [result_simps]: "commitment_digest v name = Inr s \<longleftrightarrow> v = JStr s \<and> match_sha256 s"
  by (cases v) (auto simp: commitment_digest_def result_simps)

lemma require_digests_Inr [result_simps]:
  "require_digests d fs = Inr u \<longleftrightarrow> (\<forall>f \<in> set fs. \<exists>s. dget d f = JStr s \<and> match_sha256 s)"
  by (induction fs) (auto simp: result_simps)

lemma require_false_Inr [result_simps]: "require_false d fs = Inr u \<longleftrightarrow> (\<forall>f \<in> set fs. dget d f = JBool False)"
  by (induction fs) (auto simp: result_simps)

text \<open>The manifest of a package that loads.\<close>

lemma loaded_manifest:
  assumes "load_verified_package H pkg_root dir = Inr (m, labels)"
  shows "\<exists>raw. oracle_manifest H pkg_root dir = Inr (raw, m) \<and> dget m ''logical_node_id'' = JStr ''N1''
    \<and> (\<exists>oid. dget m ''oracle_id'' = JStr oid \<and> oracle_IDENTIFIER oid) \<and> py_eq (dget m ''label_count'') (JInt (int (length labels)))
    \<and> (\<exists>hb files. dir = Some files \<and> package_file files ''hidden-labels.json'' = Some hb \<and> dget m ''hidden_labels_sha256'' = JStr (H hb)
         \<and> package_of H hb m labels)
    \<and> dget m ''public_task_set_sha256'' = JStr (public_task_set_sha256 H labels) \<and> labels \<noteq> []"
proof -
  obtain files hb mb v oid where f: "dir = Some files" "package_file files ''hidden-labels.json'' = Some hb" "loads_bytes hb = Inr v"
    "package_file files ''n1-oracle-package.json'' = Some mb" "loads_bytes mb = Inr (JObj m)" "mb = file_json_bytes (JObj m)"
    "label_source_ok v oid labels" "check_manifest H oid labels hb m = Inr ()"
    using assms by (auto simp: load_verified_package_def result_simps read_json_Inr split: option.splits prod.splits)
  note m = check_manifest_Inr [OF f(8)]
  have m': "dget m ''logical_node_id'' = JStr ''N1''" "py_eq (dget m ''label_count'') (JInt (int (length labels)))"
    using f(8) by (simp_all add: check_manifest_def result_simps N1_NODE_ID_def)
  have "oracle_manifest H pkg_root dir = Inr (mb, m)"
    unfolding oracle_manifest_def verify_n1_oracle_package_def assms
    using f m m' by (simp add: result_simps dget_Cons)
  then show ?thesis using f m m' by (auto simp: label_source_ok_def package_of_def)
qed

lemma unsigned_fields: "map fst (unsigned_document H cid raw m) = butlast COMMITMENT_FIELDS"
  by (simp add: unsigned_document_def COMMITMENT_FIELDS_def)

lemma document_append:
  "commitment_document H cid raw m
   = unsigned_document H cid raw m @ [(''commitment_sha256'', JStr (H (dumps (JObj (unsigned_document H cid raw m)))))]"
proof -
  have "''commitment_sha256'' \<notin> set (map fst (unsigned_document H cid raw m))" unfolding unsigned_fields by code_simp
  then show ?thesis by (simp add: commitment_document_def Let_def dict_set_new del: dumps.simps)
qed

lemma document_fields: "map fst (commitment_document H cid raw m) = COMMITMENT_FIELDS"
  by (simp add: document_append unsigned_fields COMMITMENT_FIELDS_def)

lemma document_unsigned: "dict_del (commitment_document H cid raw m) ''commitment_sha256'' = unsigned_document H cid raw m"
  by (simp add: document_append dict_del_def unsigned_document_def)

lemma document_get:
  "dget (commitment_document H cid raw m) ''schema_version'' = JStr COMMITMENT_SCHEMA_VERSION"
  "dget (commitment_document H cid raw m) ''status'' = JStr ''FROZEN_PRESELECTION_ORACLE_COMMITMENT''"
  "dget (commitment_document H cid raw m) ''commitment_id'' = JStr cid"
  "dget (commitment_document H cid raw m) ''logical_node_id'' = JStr ''N1''"
  "dget (commitment_document H cid raw m) ''oracle_id'' = dget m ''oracle_id''"
  "dget (commitment_document H cid raw m) ''label_count'' = dget m ''label_count''"
  "dget (commitment_document H cid raw m) ''hidden_labels_sha256'' = dget m ''hidden_labels_sha256''"
  "dget (commitment_document H cid raw m) ''public_task_set_sha256'' = dget m ''public_task_set_sha256''"
  "dget (commitment_document H cid raw m) ''oracle_package_manifest_sha256'' = JStr (H raw)"
  "dget (commitment_document H cid raw m) ''commitment_scope'' = JStr ''hidden-labels-before-policy-selection''"
  "dget (commitment_document H cid raw m) ''label_values_included'' = JBool False"
  "dget (commitment_document H cid raw m) ''independent_timestamp_attested'' = JBool False"
  "dget (commitment_document H cid raw m) ''external_approval_attested'' = JBool False"
  "dget (commitment_document H cid raw m) ''credentials_recorded'' = JBool False"
  "dget (commitment_document H cid raw m) ''eligible_for_scientific_claims'' = JBool False"
  "dget (commitment_document H cid raw m) ''commitment_sha256'' = JStr (H (dumps (JObj (unsigned_document H cid raw m))))"
  by (simp_all add: document_append unsigned_document_def dget_Cons del: dumps.simps)

lemma commitment_checksum_line:
  assumes "match_sha256 a"
  shows "commitment_checksum (Some (checksum_line a COMMITMENT_NAME)) = Inr a"
proof -
  have v: "list_all visible a" using assms sha256_visible by auto
  have n: "list_all visible COMMITMENT_NAME" by (simp add: COMMITMENT_NAME_def visible_def ord_def)
  then have ok: "list_all (\<lambda>c. visible c \<or> c = CHR 0x20) (a @ ''  '' @ COMMITMENT_NAME)" using v by (auto simp: list_all_iff)
  have "splitlines (checksum_line a COMMITMENT_NAME) = [a @ ''  '' @ COMMITMENT_NAME]"
    using lines_from_text [OF ok, of "[]" "[]"] by (simp add: splitlines_def checksum_line_def lines_from_Nil)
  moreover have "valid_utf8 (checksum_line a COMMITMENT_NAME)"
    using v n by (intro valid_utf8_ascii) (auto simp: checksum_line_def list_all_iff visible_def ord_def)
  moreover have "partition_spaces (a @ ''  '' @ COMMITMENT_NAME) = Some (a, COMMITMENT_NAME)"
    using partition_spaces_text [OF v, of COMMITMENT_NAME] by simp
  ultimately show ?thesis using assms by (simp add: commitment_checksum_def commitment_digest_def)
qed

context oracle_digests
begin

lemma document_text:
  assumes m: "dget m ''oracle_id'' = JStr oid" "oracle_IDENTIFIER oid" "dget m ''label_count'' = JInt n"
    "dget m ''hidden_labels_sha256'' = JStr (H hb)" "dget m ''public_task_set_sha256'' = JStr (public_task_set_sha256 H labels)"
    and cid: "oracle_IDENTIFIER cid"
  shows "loads_bytes (file_json_bytes (JObj (commitment_document H cid raw m))) = Inr (JObj (loads_dict (commitment_document H cid raw m)))"
proof -
  let ?d = "commitment_document H cid raw m"
  have dist: "distinct (map fst ?d)" unfolding document_fields by code_simp
  have f: "list_all valid_utf8 COMMITMENT_FIELDS" "valid_utf8 COMMITMENT_SCHEMA_VERSION" by code_simp+
  have "list_all (\<lambda>p. wf_json (snd p) \<and> utf8_json (snd p)) ?d"
    unfolding document_append unsigned_document_def
    using m cid by (simp add: f utf8_digest digest_form public_task_set_sha256_def value_sha256_def IDENTIFIER_utf8 ord_def del: dumps.simps)
  moreover have "list_all valid_utf8 (map fst ?d)" using f(1) by (simp add: document_fields)
  ultimately have "wf_json (JObj ?d)" "utf8_json (JObj ?d)" using dist by (auto simp: list_all_iff)
  then show ?thesis unfolding file_json_bytes_def sort_keys_loads [symmetric] by (rule loads_bytes_indent)
qed

lemma check_commitment_document:
  assumes m: "dget m ''oracle_id'' = JStr oid" "oracle_IDENTIFIER oid" "dget m ''label_count'' = JInt n" "0 < n"
    "dget m ''hidden_labels_sha256'' = JStr (H hb)" "dget m ''public_task_set_sha256'' = JStr (public_task_set_sha256 H labels)"
    and cid: "oracle_IDENTIFIER cid"
  shows "check_commitment H (loads_dict (commitment_document H cid raw m)) = Inr ()"
proof -
  let ?d = "commitment_document H cid raw m"
  have dist: "distinct (map fst ?d)" unfolding document_fields by code_simp
  have keys: "keys ?d = set COMMITMENT_FIELDS" using document_fields [of H cid raw m] by (metis keys_def set_map)
  have "dget (loads_dict ?d) k = sort_keys (dget ?d k)" for k by (rule dget_loads [OF dist])
  then show ?thesis
    unfolding check_commitment_def dict_del_loads document_unsigned dumps_loads
    using m cid by (simp add: keys keys_loads document_get result_simps digest_form public_task_set_sha256_def value_sha256_def
        commitment_identifier_def commitment_digest_def del: dumps.simps)
qed

lemma freeze_verifies:
  assumes load: "load_verified_package H pkg_root pkg = Inr (m, labels)" and count: "dget m ''label_count'' = JInt n"
    and cid: "oracle_IDENTIFIER cid"
  shows "\<exists>raw stage report. oracle_manifest H pkg_root pkg = Inr (raw, m)
    \<and> freeze_n1_oracle_preselection_commitment H pkg_root pkg (JStr cid) output False stage_path False = Inr (stage, report)
    \<and> stage = [(COMMITMENT_NAME, Some (file_json_bytes (JObj (commitment_document H cid raw m)))),
        (CHECKSUMS_NAME, Some (checksum_line (H (file_json_bytes (JObj (commitment_document H cid raw m)))) COMMITMENT_NAME))]
    \<and> dget report ''commitment_sha256'' = dget (commitment_document H cid raw m) ''commitment_sha256''
    \<and> (\<forall>priv. priv = None \<or> priv = Some (pkg_root, pkg) \<longrightarrow>
         verify_n1_oracle_preselection_commitment H com_root (Some stage) priv
         = Inr (verify_report (loads_dict (commitment_document H cid raw m)) (priv \<noteq> None)))"
proof -
  obtain raw oid hb where m: "oracle_manifest H pkg_root pkg = Inr (raw, m)" "dget m ''logical_node_id'' = JStr ''N1''"
    "dget m ''oracle_id'' = JStr oid" "oracle_IDENTIFIER oid" "py_eq (dget m ''label_count'') (JInt (int (length labels)))"
    "dget m ''hidden_labels_sha256'' = JStr (H hb)" "dget m ''public_task_set_sha256'' = JStr (public_task_set_sha256 H labels)" "labels \<noteq> []"
    using loaded_manifest [OF load] by blast
  have "(of_int n :: rat) = of_int (int (length labels))" using m(5) count by simp
  then have n: "0 < n" using m(8) by (simp only: of_int_eq_iff) simp
  let ?d = "commitment_document H cid raw m" let ?c = "file_json_bytes (JObj ?d)"
  let ?stage = "[(COMMITMENT_NAME, Some ?c), (CHECKSUMS_NAME, Some (checksum_line (H ?c) COMMITMENT_NAME))]"
  have dist: "distinct (map fst ?d)" unfolding document_fields by code_simp
  have get: "dget (loads_dict ?d) k = sort_keys (dget ?d k)" for k by (rule dget_loads [OF dist])
  have canon: "file_json_bytes (JObj (loads_dict ?d)) = ?c"
    by (simp add: file_json_bytes_def sort_keys_loads [symmetric] dumps_indent_sort_keys del: sort_keys.simps dumps_indent.simps)
  have read: "commitment_read_json p (Some ?c) nm = Inr (?c, loads_dict ?d)" for p nm
    using document_text [OF m(3,4) count m(6,7) cid] canon by (simp add: result_simps)
  have opens: "opens_commitment H (loads_dict ?d) raw m"
    by (simp add: opens_commitment_def get document_get m count)
  have ne: "COMMITMENT_NAME \<noteq> CHECKSUMS_NAME" by (simp add: COMMITMENT_NAME_def CHECKSUMS_NAME_def)
  have verify: "verify_n1_oracle_preselection_commitment H rt (Some ?stage) priv = Inr (verify_report (loads_dict ?d) (priv \<noteq> None))"
    if "priv = None \<or> priv = Some (pkg_root, pkg)" for rt priv
    using that ne unfolding verify_n1_oracle_preselection_commitment_def
    by (auto simp: package_file_def commitment_checksum_line digest_form read check_commitment_document [OF m(3,4) count n m(6,7) cid] m(1) opens)
  have "\<exists>report. freeze_n1_oracle_preselection_commitment H pkg_root pkg (JStr cid) output False stage_path False = Inr (?stage, report)
      \<and> dget report ''commitment_sha256'' = dget ?d ''commitment_sha256''"
    using cid verify [of "Some (pkg_root, pkg)" stage_path]
    by (simp add: freeze_n1_oracle_preselection_commitment_def commitment_identifier_def m(1) Let_def dget_Cons)
  with m(1) verify show ?thesis by blast
qed

end

lemma commitment_verified:
  assumes "verify_n1_oracle_preselection_commitment H com_root dir priv = Inr report"
  obtains files raw d where "dir = Some files" and "package_file files COMMITMENT_NAME = Some raw" and "loads_bytes raw = Inr (JObj d)"
    and "raw = file_json_bytes (JObj d)" and "check_commitment H d = Inr ()" and "report = verify_report d (priv \<noteq> None)"
    and "\<And>pkg_root pkg. priv = Some (pkg_root, pkg) \<Longrightarrow> \<exists>mraw m. oracle_manifest H pkg_root pkg = Inr (mraw, m) \<and> opens_commitment H d mraw m"
proof (cases priv)
  case None
  with assms that show ?thesis unfolding verify_n1_oracle_preselection_commitment_def
    by (auto simp: result_simps split: option.splits prod.splits)
next
  case (Some p)
  obtain pr pk where p: "p = (pr, pk)" by fastforce
  from assms show ?thesis unfolding verify_n1_oracle_preselection_commitment_def Some p
    by (auto simp: result_simps Some p split: option.splits prod.splits intro: that)
qed

text \<open>The fields of a verified document are scalars, so its text determines it.\<close>

lemma check_commitment_field:
  assumes "check_commitment H d = Inr ()" and "k \<in> keys d"
  shows "(\<exists>s. dget d k = JStr s) \<or> (\<exists>n. dget d k = JInt n) \<or> dget d k = JBool False"
proof -
  have "k \<in> set COMMITMENT_FIELDS" using assms by (simp add: check_commitment_def result_simps)
  moreover have "\<exists>n. dget d ''label_count'' = JInt n" using assms(1) by (auto simp: check_commitment_def result_simps split: json.splits)
  ultimately show ?thesis using assms(1) by (auto simp: check_commitment_def result_simps COMMITMENT_FIELDS_def)
qed

lemma check_commitment_sha:
  "check_commitment H d = Inr () \<Longrightarrow> dget d ''commitment_sha256'' = JStr (H (dumps (JObj (dict_del d ''commitment_sha256''))))"
  unfolding check_commitment_def by (auto simp only: require_Inr_iff bind_res_Inr_iff)

lemma check_commitment_plain:
  assumes "check_commitment H d = Inr ()" and "distinct (map fst d)"
  shows "plain (JObj (dict_del d k))"
proof (rule plain_flat)
  show "distinct (map fst (dict_del d k))" using assms(2) by simp
  fix j assume "j \<in> keys (dict_del d k)"
  then have "j \<in> keys d" "j \<noteq> k" by auto
  then show "plain (dget (dict_del d k) j)" using check_commitment_field [OF assms(1), of j] by auto
qed

lemma same_unsigned_same_document:
  assumes c: "check_commitment H d = Inr ()" "check_commitment H e = Inr ()" and dist: "distinct (map fst d)" "distinct (map fst e)"
    and eq: "dumps (JObj (dict_del d ''commitment_sha256'')) = dumps (JObj (dict_del e ''commitment_sha256''))"
  shows "file_json_bytes (JObj d) = file_json_bytes (JObj e)"
proof -
  have s: "sort_keys (JObj (dict_del d ''commitment_sha256'')) = sort_keys (JObj (dict_del e ''commitment_sha256''))"
    by (rule dumps_inj [OF check_commitment_plain [OF c(1) dist(1)] check_commitment_plain [OF c(2) dist(2)] eq])
  have get: "dget (loads_dict d) k = dget (loads_dict e) k" for k
  proof (cases "k = ''commitment_sha256''")
    case True
    have "dget d ''commitment_sha256'' = dget e ''commitment_sha256''" using c [THEN check_commitment_sha] eq by (simp del: dumps.simps)
    then show ?thesis by (simp add: True dget_loads dist)
  next
    case False
    have "loads_dict (dict_del d ''commitment_sha256'') = loads_dict (dict_del e ''commitment_sha256'')"
      using s by (simp only: sort_keys_loads json.inject)
    then have "dget (dict_del (loads_dict d) ''commitment_sha256'') k = dget (dict_del (loads_dict e) ''commitment_sha256'') k"
      by (simp add: dict_del_loads)
    with False show ?thesis by simp
  qed
  have keys: "keys d = keys e" using c by (simp add: check_commitment_def result_simps)
  have srt: "sorted (map fst (loads_dict x))" for x by (simp add: loads_dict_def)
  have "loads_dict d = loads_dict e"
    by (rule sorted_dict_eq [OF distinct_loads [OF dist(1)] distinct_loads [OF dist(2)] srt srt _ get]) (simp add: keys keys_loads)
  then have "sort_keys (JObj d) = sort_keys (JObj e)" by (simp only: sort_keys_loads)
  then show ?thesis unfolding file_json_bytes_def by (metis dumps_indent_sort_keys)
qed

section \<open>The properties\<close>

text \<open>
  (C15) The whole path from a label source to a public commitment works: every valid source is frozen to a
  package, a commitment to the package is frozen, the commitment verifies for anyone, and it is opened by
  the package, with the number of its labels.
\<close>

theorem commitment_round_trip:
  assumes "loads_bytes raw = Inr v" and "label_source_ok v oid labels" and "oracle_IDENTIFIER cid"
  shows "\<exists>pkg report stage creport public opened.
    build_n1_oracle_package sha256_hex source (Some raw) target False False = Inr (pkg, report)
    \<and> freeze_n1_oracle_preselection_commitment sha256_hex target (Some pkg) (JStr cid) output False stage_path False = Inr (stage, creport)
    \<and> verify_n1_oracle_preselection_commitment sha256_hex output (Some stage) None = Inr public
    \<and> verify_n1_oracle_preselection_commitment sha256_hex output (Some stage) (Some (target, Some pkg)) = Inr opened
    \<and> dget public ''commitment_sha256'' = dget creport ''commitment_sha256''
    \<and> dget opened ''private_package_binding_verified'' = JBool True \<and> dget opened ''label_count'' = JInt (int (length labels))"
proof -
  let ?m = "loads_dict (package_manifest sha256_hex oid labels (file_json_bytes v))"
  obtain pkg report where b: "build_n1_oracle_package sha256_hex source (Some raw) target False False = Inr (pkg, report)"
    and load: "load_verified_package sha256_hex target (Some pkg) = Inr (?m, labels)"
    using n1.build_package [OF assms(1,2)] by metis
  have count: "dget ?m ''label_count'' = JInt (int (length labels))" by (simp add: dget_loads [OF manifest_distinct] manifest_get)
  from n1.freeze_verifies [OF load count assms(3), of "output" stage_path "output"] obtain mraw stage creport where
    f: "freeze_n1_oracle_preselection_commitment sha256_hex target (Some pkg) (JStr cid) output False stage_path False = Inr (stage, creport)"
    "dget creport ''commitment_sha256'' = dget (commitment_document sha256_hex cid mraw ?m) ''commitment_sha256''"
    and ver: "\<forall>priv. priv = None \<or> priv = Some (target, Some pkg) \<longrightarrow>
      verify_n1_oracle_preselection_commitment sha256_hex output (Some stage) priv
      = Inr (verify_report (loads_dict (commitment_document sha256_hex cid mraw ?m)) (priv \<noteq> None))"
    by blast
  have dist: "distinct (map fst (commitment_document sha256_hex cid mraw ?m))" unfolding document_fields by code_simp
  show ?thesis
    using b f ver [THEN spec, of None] ver [THEN spec, of "Some (target, Some pkg)"] count
    by (auto simp: verify_report_def dget_Cons dget_loads [OF dist] document_get)
qed

theorem commitment_round_trip_witness:
  "\<exists>pkg report stage creport.
     build_n1_oracle_package sha256_hex ''/labels.json'' (Some (file_json_bytes n1demo_source)) ''/pkg'' False False = Inr (pkg, report)
     \<and> freeze_n1_oracle_preselection_commitment sha256_hex ''/pkg'' (Some pkg) (JStr ''commitment-1'') ''/out'' False ''/tmp/stage'' False
       = Inr (stage, creport)"
proof -
  have "loads_bytes (file_json_bytes n1demo_source) = Inr (sort_keys n1demo_source)"
    using label_source_wf [OF n1demo_source_ok n1demo_source_uniq] by (simp add: file_json_bytes_def loads_bytes_indent)
  moreover have "label_source_ok (sort_keys n1demo_source) ''oracle-1'' [n1demo_label]"
    by (rule label_source_sorted [OF n1demo_source_ok n1demo_source_uniq])
  moreover have "oracle_IDENTIFIER ''commitment-1''" by code_simp
  ultimately show ?thesis using commitment_round_trip by blast
qed

text \<open>
  (C16) A commitment binds the labels: two packages that both open the same published commitment hold the same
  labels, unless their label files are a SHA-256 collision.
\<close>

theorem commitment_binds_labels:
  assumes "verify_n1_oracle_preselection_commitment sha256_hex com_root dir (Some (root1, Some files1)) = Inr report1"
    and "verify_n1_oracle_preselection_commitment sha256_hex com_root dir (Some (root2, Some files2)) = Inr report2"
    and "load_verified_package sha256_hex root1 (Some files1) = Inr (m1, labels1)"
    and "load_verified_package sha256_hex root2 (Some files2) = Inr (m2, labels2)"
  shows "labels1 = labels2
    \<or> sha256_collision {hb. package_file files1 ''hidden-labels.json'' = Some hb \<or> package_file files2 ''hidden-labels.json'' = Some hb}"
proof -
  obtain hb1 where h1: "package_file files1 ''hidden-labels.json'' = Some hb1" "dget m1 ''hidden_labels_sha256'' = JStr (sha256_hex hb1)"
    "package_of sha256_hex hb1 m1 labels1" "\<exists>raw. oracle_manifest sha256_hex root1 (Some files1) = Inr (raw, m1)"
    using loaded_manifest [OF assms(3)] by auto
  obtain hb2 where h2: "package_file files2 ''hidden-labels.json'' = Some hb2" "dget m2 ''hidden_labels_sha256'' = JStr (sha256_hex hb2)"
    "package_of sha256_hex hb2 m2 labels2" "\<exists>raw. oracle_manifest sha256_hex root2 (Some files2) = Inr (raw, m2)"
    using loaded_manifest [OF assms(4)] by auto
  obtain files raw d where d: "dir = Some files" "package_file files COMMITMENT_NAME = Some raw" "loads_bytes raw = Inr (JObj d)"
    "\<exists>mraw m. oracle_manifest sha256_hex root1 (Some files1) = Inr (mraw, m) \<and> opens_commitment sha256_hex d mraw m"
    using commitment_verified [OF assms(1)] by metis
  obtain files' raw' d' where d': "dir = Some files'" "package_file files' COMMITMENT_NAME = Some raw'" "loads_bytes raw' = Inr (JObj d')"
    "\<exists>mraw m. oracle_manifest sha256_hex root2 (Some files2) = Inr (mraw, m) \<and> opens_commitment sha256_hex d' mraw m"
    using commitment_verified [OF assms(2)] by metis
  have "d' = d" using d d' by simp
  with d(4) d'(4) h1(2,4) h2(2,4) have "sha256_hex hb1 = sha256_hex hb2" by (auto simp: opens_commitment_def)
  then show ?thesis
    using h1 h2 package_unique by (cases "hb1 = hb2") (auto simp: sha256_collision_def)
qed

lemma n1demo_commitment:
  "\<exists>stage public opened. verify_n1_oracle_preselection_commitment sha256_hex ''/out'' (Some stage) None = Inr public
    \<and> verify_n1_oracle_preselection_commitment sha256_hex ''/out'' (Some stage) (Some (''/pkg'', Some n1demo_stage)) = Inr opened"
proof -
  have "dget (loads_dict n1demo_manifest) ''label_count'' = JInt 1"
    by (simp add: n1demo_manifest_def dget_loads [OF manifest_distinct] manifest_get)
  moreover have "oracle_IDENTIFIER ''commitment-1''" by code_simp
  ultimately show ?thesis using n1.freeze_verifies [OF n1demo_load, of 1 "''commitment-1''" "''/out''" "''/tmp/stage''" "''/out''"] by blast
qed

theorem commitment_binds_labels_witness:
  "\<exists>stage opened. verify_n1_oracle_preselection_commitment sha256_hex ''/out'' (Some stage) (Some (''/pkg'', Some n1demo_stage)) = Inr opened
    \<and> ([n1demo_label] = [n1demo_label] \<or> sha256_collision {hb. package_file n1demo_stage ''hidden-labels.json'' = Some hb})"
proof -
  obtain stage opened where
    v: "verify_n1_oracle_preselection_commitment sha256_hex ''/out'' (Some stage) (Some (''/pkg'', Some n1demo_stage)) = Inr opened"
    using n1demo_commitment by blast
  from commitment_binds_labels [OF v v n1demo_load n1demo_load] v show ?thesis by auto
qed

text \<open>The canonical text a commitment signs.\<close>

definition signed_text :: "package option \<Rightarrow> bytes set" where
  "signed_text dir = {dumps (JObj (dict_del d ''commitment_sha256'')) |d files raw. dir = Some files
     \<and> package_file files COMMITMENT_NAME = Some raw \<and> loads_bytes raw = Inr (JObj d)}"

text \<open>
  The commitment digest names the commitment: two published directories that verify and report the same
  \<open>commitment_sha256\<close> hold the same document, byte for byte, unless the texts they sign are a SHA-256
  collision.
\<close>

theorem commitment_digest_names_document:
  assumes "verify_n1_oracle_preselection_commitment sha256_hex root1 (Some files1) None = Inr report1"
    and "verify_n1_oracle_preselection_commitment sha256_hex root2 (Some files2) None = Inr report2"
    and "dget report1 ''commitment_sha256'' = dget report2 ''commitment_sha256''"
  shows "package_file files1 COMMITMENT_NAME = package_file files2 COMMITMENT_NAME
    \<or> sha256_collision (signed_text (Some files1) \<union> signed_text (Some files2))"
proof -
  obtain raw1 d1 where d1: "package_file files1 COMMITMENT_NAME = Some raw1" "loads_bytes raw1 = Inr (JObj d1)"
    "raw1 = file_json_bytes (JObj d1)" "check_commitment sha256_hex d1 = Inr ()" "report1 = verify_report d1 False"
    using commitment_verified [OF assms(1)] by (metis option.inject)
  obtain raw2 d2 where d2: "package_file files2 COMMITMENT_NAME = Some raw2" "loads_bytes raw2 = Inr (JObj d2)"
    "raw2 = file_json_bytes (JObj d2)" "check_commitment sha256_hex d2 = Inr ()" "report2 = verify_report d2 False"
    using commitment_verified [OF assms(2)] by (metis option.inject)
  let ?t = "\<lambda>d. dumps (JObj (dict_del d ''commitment_sha256''))"
  have h: "sha256_hex (?t d1) = sha256_hex (?t d2)"
    using assms(3) check_commitment_sha [OF d1(4)] check_commitment_sha [OF d2(4)] d1(5) d2(5)
    by (simp add: verify_report_def dget_Cons del: dumps.simps)
  show ?thesis
  proof (cases "?t d1 = ?t d2")
    case True
    have "distinct (map fst d1)" "distinct (map fst d2)" using loads_bytes_uniq [OF d1(2)] loads_bytes_uniq [OF d2(2)] by auto
    then show ?thesis using same_unsigned_same_document [OF d1(4) d2(4) _ _ True] d1 d2 by simp
  next
    case False
    have "?t d1 \<in> signed_text (Some files1)" "?t d2 \<in> signed_text (Some files2)"
      using d1 d2 unfolding signed_text_def by blast+
    with False h show ?thesis unfolding sha256_collision_def by blast
  qed
qed

theorem commitment_digest_names_document_witness:
  "\<exists>stage report. verify_n1_oracle_preselection_commitment sha256_hex ''/out'' (Some stage) None = Inr report
    \<and> (package_file stage COMMITMENT_NAME = package_file stage COMMITMENT_NAME \<or> sha256_collision (signed_text (Some stage)))"
proof -
  obtain stage report where v: "verify_n1_oracle_preselection_commitment sha256_hex ''/out'' (Some stage) None = Inr report"
    using n1demo_commitment by blast
  from commitment_digest_names_document [OF v v refl] v show ?thesis by auto
qed

end
