(* ===== verification/Admission.thy ===== *)
theory Admission
  imports Json_Read
begin

text \<open>
  The trial-admission contract shared by the simulated and the measured backends
  (\<open>pathfinder/simulator/admission.py\<close>).
\<close>

definition TRIAL_ADMISSION_SCHEMA_VERSION :: string where
  "TRIAL_ADMISSION_SCHEMA_VERSION = ''pathfinder.trial-admission-contract/v1alpha1''"

definition TRIAL_ADMISSION_ALGORITHM :: string where
  "TRIAL_ADMISSION_ALGORITHM = ''fifo-by-arrival-time-then-order-index''"

definition TRIAL_LATENCY_ORIGIN :: string where
  "TRIAL_LATENCY_ORIGIN = ''planned-trial-arrival''"

datatype admission_error = TrialAdmissionError string

definition trial_admission_contract :: "json \<Rightarrow> admission_error + dict" where
  "trial_admission_contract slots =
     (case slots of
        JInt n \<Rightarrow>
          require (0 < n) (TrialAdmissionError ''trial admission slots must be a positive integer'') (
          Inr [(''schema_version'', JStr TRIAL_ADMISSION_SCHEMA_VERSION), (''scope'', JStr ''whole-trial''),
               (''algorithm'', JStr TRIAL_ADMISSION_ALGORITHM), (''slots'', JInt n),
               (''latency_origin'', JStr TRIAL_LATENCY_ORIGIN), (''admission_queue_metric'', JStr ''trial_admission_queue_ms''),
               (''active_execution_metric'', JStr ''active_execution_latency_ms''),
               (''resource_queue_excludes_trial_admission'', JBool True),
               (''slot_released_after_all_trial_operations_complete'', JBool True)])
      | _ \<Rightarrow> Inl (TrialAdmissionError ''trial admission slots must be a positive integer''))"

definition validate_trial_admission_contract :: "json \<Rightarrow> int \<Rightarrow> admission_error + int" where
  "validate_trial_admission_contract v planned_trial_count =
     (case v of
        JObj d \<Rightarrow>
          (case dget d ''slots'' of
             JInt slots \<Rightarrow>
               require (1 \<le> slots \<and> slots \<le> planned_trial_count)
                 (TrialAdmissionError ''trial_admission.slots must be between 1 and planned_trial_count'') (
               bind_res (trial_admission_contract (JInt slots)) (\<lambda>contract.
               require (py_eq (JObj d) (JObj contract)) (TrialAdmissionError ''trial_admission contract is not canonical'') (
               Inr slots)))
           | _ \<Rightarrow> Inl (TrialAdmissionError ''trial_admission.slots must be between 1 and planned_trial_count''))
      | _ \<Rightarrow> Inl (TrialAdmissionError ''trial_admission must be an object''))"

lemma py_eq_items_iff: "py_eq_items d e \<longleftrightarrow> (\<forall>(k, v) \<in> set d. \<exists>w. map_of e k = Some w \<and> py_eq v w)"
  by (induction d) (auto split: option.splits)

lemma contract_Inr:
  "1 \<le> slots \<Longrightarrow> \<exists>c. trial_admission_contract (JInt slots) = Inr c \<and> distinct (map fst c) \<and> wf_json (JObj c)
     \<and> list_all (\<lambda>p. sort_keys (snd p) = snd p \<and> py_eq (snd p) (snd p)) c \<and> dget c ''slots'' = JInt slots"
  by (simp add: trial_admission_contract_def dget_Cons)

text \<open>
  The canonical contract of every slot count between one and the number of planned trials is accepted with that
  slot count, as it is built and as JSON reads it back; and a value the validator accepts agrees with the
  canonical contract of its slot count on every field.
\<close>

theorem admission_contract_round_trip:
  assumes "1 \<le> slots" and "slots \<le> planned"
  shows "\<exists>c. trial_admission_contract (JInt slots) = Inr c \<and> loads (dumps (JObj c)) = Inr (JObj (loads_dict c))
    \<and> validate_trial_admission_contract (JObj (loads_dict c)) planned = Inr slots
    \<and> validate_trial_admission_contract (JObj c) planned = Inr slots
    \<and> (\<forall>v. validate_trial_admission_contract v planned = Inr slots \<longrightarrow> py_eq v (JObj c))"
proof -
  obtain c where c: "trial_admission_contract (JInt slots) = Inr c" "distinct (map fst c)" "wf_json (JObj c)"
    "list_all (\<lambda>p. sort_keys (snd p) = snd p \<and> py_eq (snd p) (snd p)) c" "dget c ''slots'' = JInt slots"
    using contract_Inr [OF assms(1)] by blast
  have refl: "py_eq_items c c" using c(2,4) by (fastforce simp: py_eq_items_iff list_all_iff)
  have "set (loads_dict c) = set c" using c(4) by (force simp: loads_dict_def image_iff list_all_iff)
  then have sorted: "py_eq_items (loads_dict c) c" using refl by (simp add: py_eq_items_iff)
  have len: "length (loads_dict c) = length c" by (simp add: loads_dict_def)
  have "loads (dumps (JObj c)) = Inr (JObj (loads_dict c))" using loads_dumps [OF c(3)] by (simp only: sort_keys_loads)
  moreover have "validate_trial_admission_contract (JObj (loads_dict c)) planned = Inr slots"
    "validate_trial_admission_contract (JObj c) planned = Inr slots"
    using c(1,5) assms sorted refl len by (simp_all add: validate_trial_admission_contract_def dget_loads [OF c(2)])
  moreover have "py_eq v (JObj c)" if "validate_trial_admission_contract v planned = Inr slots" for v
    using that c(1) by (auto simp: validate_trial_admission_contract_def result_simps simp del: py_eq.simps split: json.splits)
  ultimately show ?thesis using c(1) by blast
qed

theorem admission_contract_round_trip_witness:
  "\<exists>c. trial_admission_contract (JInt 4) = Inr c \<and> validate_trial_admission_contract (JObj c) 10 = Inr 4"
  using admission_contract_round_trip [of 4 10] by auto

end
