(* ===== verification/Scoring_Props.thy ===== *)
theory Scoring_Props
  imports Oracle_Package
begin

text \<open>
  Properties of the scoring contracts (\<open>pathfinder/distributed/scoring.py\<close>), of their agreement with the scoring of
  the hidden oracle, and of the JSON reader both rely on.
\<close>

section \<open>Contracts\<close>

lemma load_options_ids: "load_options name i raws = Inr os \<Longrightarrow> list_all (\<lambda>p. OPTION_ID (ao_option_id p)) os"
proof (induction raws arbitrary: i os)
  case (Cons raw raws)
  then show ?case by (auto simp: result_simps load_option_def split: json.splits)
qed (simp add: result_simps)

lemma nonempty_string_Inr [result_simps]: "nonempty_string v name = Inr s \<longleftrightarrow> (\<exists>t. v = JStr t \<and> s = strip t \<and> s \<noteq> [])"
  by (cases v) (auto simp: nonempty_string_def result_simps)

text \<open>A multiple-choice contract that loads names a declared option.\<close>

lemma multiple_choice_contract:
  assumes "load_workload_scoring_contract w rule name = Inr c" and "rule \<noteq> ACCEPTED_SUBSTRING_SCORING_RULE"
  shows "sc_rule c = rule \<and> rule \<in> {MULTIPLE_CHOICE_EXACT_SCORING_RULE, MULTIPLE_CHOICE_CANONICAL_OPTION_SCORING_RULE}
    \<and> 2 \<le> length (sc_answer_options c) \<and> list_all (\<lambda>p. OPTION_ID (ao_option_id p)) (sc_answer_options c)
    \<and> distinct (map ao_option_id (sc_answer_options c))
    \<and> (\<exists>correct. sc_correct_answer_id c = Some correct \<and> correct \<in> ao_option_id ` set (sc_answer_options c))"
proof -
  have len: "load_options name i raws = Inr os \<Longrightarrow> length os = length raws" for i raws os
    by (induction raws arbitrary: i os) (auto simp: result_simps)
  obtain raws os correct where "dget w ''answer_options'' = JArr raws" "2 \<le> length raws" "load_options name 0 raws = Inr os"
      "distinct (map ao_option_id os)" "correct \<in> set (map ao_option_id os)" "rule \<in> set SUCCESS_SCORING_RULES"
      "c = \<lparr>sc_rule = rule, sc_accepted_answer_substrings = [], sc_answer_options = os, sc_correct_answer_id = Some correct\<rparr>"
    using assms unfolding load_workload_scoring_contract_def
    by (cases "dget w ''answer_options''") (simp_all only: result_simps if_False json.case, auto)
  then show ?thesis using assms(2) load_options_ids [of name 0 raws os] len [of 0 raws os]
    by (auto simp: SUCCESS_SCORING_RULES_def)
qed

lemma canonical_bare: "OPTION_ID s \<Longrightarrow> canonical_option (strip s) = Some s"
  using OPTION_ID_text [of s] by (simp add: text_ok_def canonical_option_def)

lemma canonical_marker:
  assumes "OPTION_ID s"
  shows "canonical_option (strip (''['' @ s @ '']'')) = Some s"
proof -
  have v: "list_all visible s" by (rule OPTION_ID_visible [OF assms])
  have "list_all visible (''['' @ s @ '']'')" using v by (simp add: visible_def ord_def)
  then have strip: "strip (''['' @ s @ '']'') = ''['' @ s @ '']''" by (rule strip_all_visible) simp
  have "\<not> OPTION_ID (''['' @ s @ '']'')" by (simp add: OPTION_ID_def is_upper_def ord_def)
  moreover have "find (\<lambda>b. prefix b (''['' @ s @ '']'')) open_brackets = Some ''[''" by (simp add: open_brackets_def)
  moreover have "find (\<lambda>b. suffix b (''['' @ s @ '']'')) close_brackets = Some '']''" by (simp add: close_brackets_def suffix_def)
  moreover have "strip s = s" using OPTION_ID_text [OF assms] by (simp add: text_ok_def)
  ultimately show ?thesis using assms strip by (simp add: canonical_option_def Let_def)
qed

text \<open>
  (C17) The pilot and the hidden oracle score alike: for every multiple-choice workload that loads, the verdict of the
  pilot on any answer is the verdict of the oracle for the declared correct option. The bare identifier of a
  declared option, and under the canonical rule also the marker \<open>[ID]\<close> the question displays, is correct
  exactly if it is the correct option.
\<close>

theorem pilot_and_oracle_score_alike:
  assumes "load_workload_scoring_contract w rule name = Inr c" and "rule \<noteq> ACCEPTED_SUBSTRING_SCORING_RULE"
  shows "\<exists>correct. sc_correct_answer_id c = Some correct \<and> correct \<in> ao_option_id ` set (sc_answer_options c)
    \<and> (\<forall>answer. evaluate_workload_answer casefold answer c = Some (score_answer answer correct rule))
    \<and> (\<forall>p \<in> set (sc_answer_options c). score_answer (ao_option_id p) correct rule = (ao_option_id p = correct)
         \<and> (rule = MULTIPLE_CHOICE_CANONICAL_OPTION_SCORING_RULE \<longrightarrow>
              score_answer (''['' @ ao_option_id p @ '']'') correct rule = (ao_option_id p = correct)))"
proof -
  note c = multiple_choice_contract [OF assms]
  obtain correct where k: "sc_correct_answer_id c = Some correct" "correct \<in> ao_option_id ` set (sc_answer_options c)" using c by blast
  have rules: "MULTIPLE_CHOICE_CANONICAL_OPTION_SCORING_RULE \<noteq> MULTIPLE_CHOICE_EXACT_SCORING_RULE"
    by (simp add: scoring_rule_defs)
  have "evaluate_workload_answer casefold answer c = Some (score_answer answer correct rule)" for answer
    using c k(1) assms(2) by (auto simp: evaluate_workload_answer_def score_answer_def split: option.splits)
  moreover have "score_answer (ao_option_id p) correct rule = (ao_option_id p = correct)
      \<and> (rule = MULTIPLE_CHOICE_CANONICAL_OPTION_SCORING_RULE \<longrightarrow>
           score_answer (''['' @ ao_option_id p @ '']'') correct rule = (ao_option_id p = correct))"
    if "p \<in> set (sc_answer_options c)" for p
  proof -
    have o: "OPTION_ID (ao_option_id p)" using c that by (simp add: list_all_iff)
    then have "strip (ao_option_id p) = ao_option_id p" using OPTION_ID_text by (simp add: text_ok_def)
    then show ?thesis using canonical_bare [OF o] canonical_marker [OF o] rules by (simp add: score_answer_def del: append_Cons)
  qed
  ultimately show ?thesis using k by blast
qed

definition demo_workload :: dict where
  "demo_workload =
     [(''object_id'', JStr ''video-1''), (''question'', JStr ''What is shown?''),
      (''answer_options'', JArr [JObj [(''option_id'', JStr ''A''), (''text'', JStr ''a cat'')], JObj [(''option_id'', JStr ''B''), (''text'', JStr ''a dog'')]]),
      (''correct_answer_id'', JStr ''B'')]"

theorem pilot_and_oracle_score_alike_witness:
  "\<exists>c correct. load_workload_scoring_contract demo_workload MULTIPLE_CHOICE_EXACT_SCORING_RULE ''w'' = Inr c
     \<and> evaluate_workload_answer id '' B'' c = Some (score_answer '' B'' correct MULTIPLE_CHOICE_EXACT_SCORING_RULE)"
proof -
  have "isOK (load_workload_scoring_contract demo_workload MULTIPLE_CHOICE_EXACT_SCORING_RULE ''w'')" by code_simp
  then obtain c where c: "load_workload_scoring_contract demo_workload MULTIPLE_CHOICE_EXACT_SCORING_RULE ''w'' = Inr c"
    by (auto simp: isOK_iff)
  have "MULTIPLE_CHOICE_EXACT_SCORING_RULE \<noteq> ACCEPTED_SUBSTRING_SCORING_RULE" by (simp add: scoring_rule_defs)
  from pilot_and_oracle_score_alike [OF c this, of id] c show ?thesis by blast
qed

section \<open>Manifests\<close>

definition object_of :: "dict \<Rightarrow> string \<Rightarrow> string" where
  "object_of workloads wid =
     (case dget workloads wid of JObj w \<Rightarrow> (case dget w ''object_id'' of JStr s \<Rightarrow> strip s | _ \<Rightarrow> []) | _ \<Rightarrow> [])"

definition contract_of :: "dict \<Rightarrow> string \<Rightarrow> string \<Rightarrow> scoring_contract option" where
  "contract_of workloads rule wid =
     (case dget workloads wid of
        JObj w \<Rightarrow> (case load_workload_scoring_contract w rule (manifest_name wid) of Inr c \<Rightarrow> Some c | Inl _ \<Rightarrow> None)
      | _ \<Rightarrow> None)"

lemma contract_of_Some: "contract_of workloads rule wid = Some c \<longleftrightarrow>
  (\<exists>w. dget workloads wid = JObj w \<and> load_workload_scoring_contract w rule (manifest_name wid) = Inr c)"
  by (auto simp: contract_of_def split: json.splits sum.splits)

text \<open>One round of the loop under a multiple-choice rule.\<close>

lemma manifest_step:
  assumes "rule \<in> {MULTIPLE_CHOICE_EXACT_SCORING_RULE, MULTIPLE_CHOICE_CANONICAL_OPTION_SCORING_RULE}"
  shows "manifest_loop workloads rule (wid # wids) objs cs = Inr result \<longleftrightarrow>
    (\<exists>c. contract_of workloads rule wid = Some c \<and> object_of workloads wid \<notin> fst ` set objs
       \<and> manifest_loop workloads rule wids (dict_set objs (object_of workloads wid) wid) (dict_set cs wid c) = Inr result)"
proof (cases "contract_of workloads rule wid")
  case None
  then show ?thesis by (auto simp: contract_of_def bind_res_Inr split: json.splits sum.splits)
next
  case (Some c)
  then obtain w where w: "dget workloads wid = JObj w" "load_workload_scoring_contract w rule (manifest_name wid) = Inr c"
    by (auto simp: contract_of_Some)
  have ob: "(case dget w ''object_id'' of JStr s \<Rightarrow> strip s | _ \<Rightarrow> []) = object_of workloads wid" by (simp add: object_of_def w)
  show ?thesis
    by (simp only: manifest_loop.simps w json.case bind_res_Inr ob Let_def assms if_True Some)
      (simp add: map_of_eq_None_iff [symmetric] split: option.splits)
qed

lemma manifest_loop_iff:
  assumes "rule \<in> {MULTIPLE_CHOICE_EXACT_SCORING_RULE, MULTIPLE_CHOICE_CANONICAL_OPTION_SCORING_RULE}"
    and "object_of workloads ` fst ` set cs \<subseteq> fst ` set objs"
  shows "manifest_loop workloads rule wids objs cs = Inr result \<longleftrightarrow>
    distinct (map (object_of workloads) wids) \<and> object_of workloads ` set wids \<inter> fst ` set objs = {}
    \<and> (\<exists>new. result = cs @ new \<and> map fst new = wids \<and> map (contract_of workloads rule) wids = map (Some \<circ> snd) new)"
  using assms(2)
proof (induction wids arbitrary: objs cs)
  case Nil
  then show ?case by auto
next
  case (Cons wid wids)
  let ?ob = "object_of workloads"
  show ?case
  proof (cases "(\<exists>c. contract_of workloads rule wid = Some c) \<and> ?ob wid \<notin> fst ` set objs")
    case True
    then obtain c where c: "contract_of workloads rule wid = Some c" and new: "?ob wid \<notin> fst ` set objs" by blast
    then have "wid \<notin> fst ` set cs" using Cons.prems by auto
    then have cs: "dict_set cs wid c = cs @ [(wid, c)]" by (rule dict_set_new)
    have "?ob ` fst ` set (cs @ [(wid, c)]) \<subseteq> fst ` set (dict_set objs (?ob wid) wid)"
      using Cons.prems by (auto simp: dict_set_keys)
    note IH = Cons.IH [OF this]
    have lists: "(\<exists>new. result = cs @ new \<and> map fst new = wid # wids \<and> map (contract_of workloads rule) (wid # wids) = map (Some \<circ> snd) new)
      \<longleftrightarrow> (\<exists>new. result = (cs @ [(wid, c)]) @ new \<and> map fst new = wids \<and> map (contract_of workloads rule) wids = map (Some \<circ> snd) new)"
      (is "(\<exists>new. ?L new) \<longleftrightarrow> (\<exists>new. ?R new)")
    proof
      assume "\<exists>new. ?L new"
      then obtain new where L: "?L new" ..
      then show "\<exists>new. ?R new" using c by (cases new) auto
    next
      assume "\<exists>new. ?R new"
      then obtain new where "?R new" ..
      then have "?L ((wid, c) # new)" using c by simp
      then show "\<exists>new. ?L new" ..
    qed
    have step: "manifest_loop workloads rule (wid # wids) objs cs = Inr result \<longleftrightarrow>
        manifest_loop workloads rule wids (dict_set objs (?ob wid) wid) (cs @ [(wid, c)]) = Inr result"
      using new by (simp add: manifest_step [OF assms(1)] c cs del: manifest_loop.simps)
    have sets: "distinct (map ?ob (wid # wids)) \<and> ?ob ` set (wid # wids) \<inter> fst ` set objs = {} \<longleftrightarrow>
        distinct (map ?ob wids) \<and> ?ob ` set wids \<inter> fst ` set (dict_set objs (?ob wid) wid) = {}"
      using new by (auto simp: dict_set_keys)
    show ?thesis unfolding step IH lists by (simp only: conj_assoc [symmetric] sets)
  next
    case False
    then have "contract_of workloads rule wid = None \<or> ?ob wid \<in> fst ` set objs" by auto
    then show ?thesis by (auto simp: manifest_step [OF assms(1)] simp del: manifest_loop.simps)
  qed
qed

text \<open>
  Under a multiple-choice rule a manifest is accepted exactly if every planned workload is an object whose
  contract loads and no two planned workloads share an object, so that the count of independent units is not
  inflated; the result then lists the contracts of the planned workloads in their order.
\<close>

theorem manifest_accepted_exactly:
  assumes "rule \<in> {MULTIPLE_CHOICE_EXACT_SCORING_RULE, MULTIPLE_CHOICE_CANONICAL_OPTION_SCORING_RULE}"
  shows "validate_workload_manifest workloads wids rule = Inr contracts \<longleftrightarrow>
    distinct (map (object_of workloads) wids) \<and> map fst contracts = wids
    \<and> map (contract_of workloads rule) wids = map (Some \<circ> snd) contracts"
proof -
  let ?missing = "sort (remdups (filter (\<lambda>w. w \<notin> keys workloads) wids))"
  note loop = manifest_loop_iff [OF assms, of workloads "[]" "[]" wids contracts, simplified]
  have "?missing = []" if "map (contract_of workloads rule) wids = map (Some \<circ> snd) contracts"
  proof -
    have "wid \<in> keys workloads" if w: "wid \<in> set wids" for wid
    proof -
      have "contract_of workloads rule wid \<in> set (map (Some \<circ> snd) contracts)"
        using \<open>map _ wids = _\<close> w by (metis image_eqI list.set_map)
      then obtain w where "dget workloads wid = JObj w" by (auto simp: contract_of_Some eq_commute [of "Some _"])
      then show ?thesis by (auto simp: dget_def keys_def dest: map_of_SomeD intro: rev_image_eqI split: option.splits)
    qed
    then have "filter (\<lambda>w. w \<notin> keys workloads) wids = []" by (simp add: filter_empty_conv)
    then show ?thesis by simp
  qed
  then show ?thesis by (auto simp: validate_workload_manifest_def Let_def result_simps loop)
qed

definition demo_workload2 :: dict where
  "demo_workload2 = dict_set demo_workload ''object_id'' (JStr ''video-2'')"

definition demo_workloads :: dict where
  "demo_workloads = [(''w1'', JObj demo_workload), (''w2'', JObj demo_workload2)]"

theorem manifest_accepted_exactly_witness:
  "\<exists>contracts. validate_workload_manifest demo_workloads [''w2'', ''w1''] MULTIPLE_CHOICE_EXACT_SCORING_RULE = Inr contracts
     \<and> map fst contracts = [''w2'', ''w1'']
     \<and> \<not> isOK (validate_workload_manifest demo_workloads [''w1'', ''w1''] MULTIPLE_CHOICE_EXACT_SCORING_RULE)"
proof -
  let ?rule = MULTIPLE_CHOICE_EXACT_SCORING_RULE
  have rule: "?rule \<in> {MULTIPLE_CHOICE_EXACT_SCORING_RULE, MULTIPLE_CHOICE_CANONICAL_OPTION_SCORING_RULE}" by simp
  note exact = manifest_accepted_exactly [OF rule]
  have "isOK (validate_workload_manifest demo_workloads [''w2'', ''w1''] ?rule)" by code_simp
  then obtain cs where cs: "validate_workload_manifest demo_workloads [''w2'', ''w1''] ?rule = Inr cs" by (auto simp: isOK_iff)
  moreover have "map fst cs = [''w2'', ''w1'']" using cs unfolding exact by blast
  moreover have "validate_workload_manifest demo_workloads [''w1'', ''w1''] ?rule \<noteq> Inr ds" for ds unfolding exact by simp
  ultimately show ?thesis by (auto simp: isOK_iff)
qed

section \<open>The JSON reader of the oracle\<close>



text \<open>
  (C19) A document that the oracle reads has no repeated key in any object, at any depth, whatever the bytes are.
\<close>

theorem read_documents_have_unique_keys: "json_value raw name = Inr v \<Longrightarrow> uniq_json v"
  using loads_bytes_uniq [of raw v] by (auto simp: json_value_def split: sum.splits json_error.splits)

theorem read_documents_have_unique_keys_witness:
  "\<exists>v. json_value ''{\"a\":{\"b\":1},\"b\":[]}'' ''x'' = Inr v \<and> uniq_json v
     \<and> json_value ''{\"a\":{\"b\":1,\"b\":2}}'' ''x'' = Inl (N1OracleError ''duplicate JSON key: b'')"
proof -
  have v: "json_value ''{\"a\":{\"b\":1},\"b\":[]}'' ''x'' = Inr (JObj [(''a'', JObj [(''b'', JInt 1)]), (''b'', JArr [])])" by code_simp
  have "json_value ''{\"a\":{\"b\":1,\"b\":2}}'' ''x'' = Inl (N1OracleError ''duplicate JSON key: b'')" by code_simp
  with v read_documents_have_unique_keys [OF v] show ?thesis by blast
qed

text \<open>
  Writing and reading a document is the identity up to the order of the keys: the canonical text of every value the
  service can hold is read back as that value with its keys sorted, which has the same canonical text again, so the
  digest of a document does not change when it is sent, stored or re-read.
\<close>

theorem json_round_trip:
  assumes "wf_json v" and "utf8_json v"
  shows "json_value (dumps v) name = Inr (sort_keys v) \<and> dumps (sort_keys v) = dumps v
    \<and> value_sha256 H (sort_keys v) = value_sha256 H v"
  using loads_bytes_dumps [OF assms] by (simp add: json_value_def dumps_sort_keys value_sha256_def)

theorem json_round_trip_witness:
  "json_value (dumps (JObj [(''b'', JArr [JNull, JInt (- 12)]), (''a'', JStr [CHR 0x22, CHR 0x0A])])) ''x''
     = Inr (JObj [(''a'', JStr [CHR 0x22, CHR 0x0A]), (''b'', JArr [JNull, JInt (- 12)])])"
proof -
  let ?v = "JObj [(''b'', JArr [JNull, JInt (- 12)]), (''a'', JStr [CHR 0x22, CHR 0x0A])]"
  have "wf_json ?v" by code_simp
  moreover have "utf8_json ?v" by code_simp
  moreover have "sort_keys ?v = JObj [(''a'', JStr [CHR 0x22, CHR 0x0A]), (''b'', JArr [JNull, JInt (- 12)])]" by code_simp
  ultimately show ?thesis using json_round_trip [of ?v "''x''"] by simp
qed

end
