(* ===== verification/Transition_Model.thy ===== *)
theory Transition_Model
  imports Py_Json
begin

text \<open>
  The executor that materializes a design on disk (\<open>pathfinder/reduced_oracle/transition.py\<close>).

  The world is the file system. A path is the list of the components of a resolved absolute path; \<open>tw_files\<close>
  maps the paths of the materialization tree and of the sources to files and directories. The state file and the active
  plan of the runtime directory are kept apart, as documents: both are written by \<open>json.dump\<close> and read by
  \<open>json.loads\<close>, and a dictionary comes back with its keys sorted. A temporary file has a random UUID in its
  name, so it is no path of \<open>tw_files\<close>; it is numbered by the UUIDs drawn so far.

  Every call to the operating system takes the next element of \<open>tw_faults\<close> and works, raises \<open>OSError\<close>, or
  is the point where the process is killed (no \<open>finally\<close> block runs then). A copy can also write other bytes than it read,
  and leave a part behind when it fails. When the list is exhausted every call works.

  Parameters: \<open>te_resolve\<close> is \<open>Path.resolve\<close>, which follows the symbolic links of the machine;
  \<open>te_format\<close> is \<open>str.format\<close> on a template with another replacement field than \<open>{object_id}\<close>;
  \<open>te_str\<close> is \<open>str\<close> on a JSON value that is not a string; \<open>te_now\<close> is the clock. The elapsed time and the cost computed from
  it in floating point are not part of the observation here.
\<close>

section \<open>Paths and templates\<close>

type_synonym path = "string list"

definition path_str :: "path \<Rightarrow> string" where
  "path_str p = (if p = [] then ''/'' else concat (map (\<lambda>c. ''/'' @ c) p))"

datatype format_result = Formatted string | FormatKeyError | FormatValueError | FormatIndexError

text \<open>\<open>template.format(object_id=...)\<close> where every replacement field is \<open>{object_id}\<close>.\<close>

function plain_format :: "string \<Rightarrow> string \<Rightarrow> string option" where
  "plain_format oid t =
     (if t = [] then Some []
      else if prefix ''{{'' t then map_option (Cons CHR ''{'') (plain_format oid (drop 2 t))
      else if prefix ''}}'' t then map_option (Cons CHR ''}'') (plain_format oid (drop 2 t))
      else if prefix ''{object_id}'' t then map_option (append oid) (plain_format oid (drop 11 t))
      else if hd t = CHR ''{'' \<or> hd t = CHR ''}'' then None
      else map_option (Cons (hd t)) (plain_format oid (tl t)))"
  by pat_completeness auto
termination
  by (relation "measure (\<lambda>(oid, t). length t)") auto

declare plain_format.simps [simp del]

section \<open>Configuration and state\<close>

definition TRANSITION_STATE_SCHEMA_VERSION :: string where
  "TRANSITION_STATE_SCHEMA_VERSION = ''pathfinder.reduced-oracle-transition-state/v1alpha1''"

definition TRANSITION_OBSERVATION_SCHEMA_VERSION :: string where
  "TRANSITION_OBSERVATION_SCHEMA_VERSION = ''pathfinder.reduced-oracle-transition/v1alpha1''"

record materialization_spec =
  ms_representation_id :: string
  ms_source_template :: string
  ms_target_template :: string

record design_spec =
  ds_materializations :: "materialization_spec list"
  ds_materialization_decision :: string
  ds_placement_decision :: string
  ds_execution_decision :: string

record transition_env =
  te_resolve :: "string \<Rightarrow> path option"
  te_format :: "string \<Rightarrow> string \<Rightarrow> format_result"
  te_str :: "json \<Rightarrow> string"
  te_now :: string

record executor =
  ex_config_parent :: path
  ex_materialization_root :: path
  ex_designs :: "(string \<times> design_spec) list"
  ex_object_ids :: "string list"

datatype transition_error =
  TransitionError string
| TransitionValueError string
| TransitionKeyError string
| TransitionIndexError
| TransitionTypeError
| TransitionAttributeError
| TransitionUnicodeError
| TransitionOSError
| Killed

datatype fs_node = Regular bytes | Directory | Special

definition is_file :: "fs_node \<Rightarrow> bool" where
  "is_file node = (case node of Regular _ \<Rightarrow> True | _ \<Rightarrow> False)"

lemma is_file_iff: "is_file node \<longleftrightarrow> (\<exists>b. node = Regular b)"
  by (simp add: is_file_def split: fs_node.splits)

datatype temporary = Copy_of path bytes | Document_text json

datatype state_file = NoStateFile | NotUtf8 | NotJson | StateDocument json

datatype fault = Works | Garbles bytes | Raises "bytes option" | Dies "bytes option"

record tworld =
  tw_files :: "(path \<times> fs_node) list"
  tw_state :: state_file
  tw_plan :: "json option"
  tw_temps :: "(nat \<times> temporary) list"
  tw_uuids :: nat
  tw_faults :: "fault list"

record observation =
  ob_schema_version :: string
  ob_transition_type :: string
  ob_from_design_id :: "string option"
  ob_to_design_id :: string
  ob_copied_bytes :: nat
  ob_removed_bytes :: nat
  ob_active_materialized_bytes :: nat
  ob_files_created :: nat
  ob_files_reused :: nat
  ob_files_removed :: nat

section \<open>Actions\<close>

text \<open>An action changes the world and returns a value or raises.\<close>

type_synonym 'a act = "tworld \<Rightarrow> tworld \<times> (transition_error + 'a)"

definition return_act :: "'a \<Rightarrow> 'a act" where
  "return_act x w = (w, Inr x)"

definition raise_act :: "transition_error \<Rightarrow> 'a act" where
  "raise_act e w = (w, Inl e)"

definition bind_act :: "'a act \<Rightarrow> ('a \<Rightarrow> 'b act) \<Rightarrow> 'b act" where
  "bind_act m f w = (case m w of (w', Inl e) \<Rightarrow> (w', Inl e) | (w', Inr x) \<Rightarrow> f x w')"

definition lift_act :: "transition_error + 'a \<Rightarrow> 'a act" where
  "lift_act r w = (w, r)"

definition guard_act :: "bool \<Rightarrow> transition_error \<Rightarrow> 'a act \<Rightarrow> 'a act" where
  "guard_act c e m = (if c then m else raise_act e)"

definition get_act :: "(tworld \<Rightarrow> 'a) \<Rightarrow> 'a act" where
  "get_act f w = (w, Inr (f w))"

text \<open>\<open>try: m finally: f\<close>. An exception of the \<open>finally\<close> block replaces the outcome.\<close>

definition finally_act :: "'a act \<Rightarrow> unit act \<Rightarrow> 'a act" where
  "finally_act m f w =
     (case m w of (w', r) \<Rightarrow>
        if r = Inl Killed then (w', r)
        else (case f w' of (w'', Inl e) \<Rightarrow> (w'', Inl e) | (w'', Inr _) \<Rightarrow> (w'', r)))"

definition next_fault :: "tworld \<Rightarrow> fault \<times> tworld" where
  "next_fault w = (case tw_faults w of [] \<Rightarrow> (Works, w) | f # fs \<Rightarrow> (f, w\<lparr>tw_faults := fs\<rparr>))"

text \<open>A call to the operating system: the effect happens as a whole or not at all.\<close>

definition call :: "(tworld \<Rightarrow> tworld) \<Rightarrow> unit act" where
  "call effect w =
     (case next_fault w of (f, w') \<Rightarrow>
        (case f of Raises _ \<Rightarrow> (w', Inl TransitionOSError) | Dies _ \<Rightarrow> (w', Inl Killed) | _ \<Rightarrow> (effect w', Inr ())))"

text \<open>\<open>_sha256_file\<close>: reading can fail too.\<close>

definition file_of :: "path \<Rightarrow> tworld \<Rightarrow> fs_node option" where
  "file_of p w = map_of (tw_files w) p"

definition sha256_file :: "(bytes \<Rightarrow> string) \<Rightarrow> path \<Rightarrow> string act" where
  "sha256_file H p =
     bind_act (call id) (\<lambda>_. bind_act (get_act (file_of p)) (\<lambda>n.
       case n of Some (Regular b) \<Rightarrow> return_act (H b) | _ \<Rightarrow> raise_act TransitionOSError))"

text \<open>The next UUID.\<close>

definition draw_uuid :: "nat act" where
  "draw_uuid w = (w\<lparr>tw_uuids := Suc (tw_uuids w)\<rparr>, Inr (tw_uuids w))"

definition unlink_temporary :: "nat \<Rightarrow> unit act" where
  "unlink_temporary k = call (\<lambda>w. w\<lparr>tw_temps := dict_del (tw_temps w) k\<rparr>)"

text \<open>
  \<open>_write_json\<close>: the temporary file is written and synchronized, then renamed. \<open>publish\<close> puts the document in the place of
  the state file or of the active plan.
\<close>

definition write_json :: "(json \<Rightarrow> tworld \<Rightarrow> tworld) \<Rightarrow> json \<Rightarrow> unit act" where
  "write_json publish payload =
     bind_act (call id) (\<lambda>_. bind_act draw_uuid (\<lambda>k.
       finally_act
         (bind_act (call (\<lambda>w. w\<lparr>tw_temps := dict_set (tw_temps w) k (Document_text (sort_keys payload))\<rparr>)) (\<lambda>_.
          bind_act (call id) (\<lambda>_.
          call (\<lambda>w. publish (sort_keys payload) (w\<lparr>tw_temps := dict_del (tw_temps w) k\<rparr>)))))
         (unlink_temporary k)))"

text \<open>\<open>mkdir(parents=True, exist_ok=True)\<close>.\<close>

definition mkdir_all :: "path \<Rightarrow> unit act" where
  "mkdir_all p =
     bind_act (get_act tw_files) (\<lambda>files.
       guard_act (list_all (\<lambda>q. map_of files q \<in> {None, Some Directory}) (tl (prefixes p))) TransitionOSError (
       call (\<lambda>w. w\<lparr>tw_files := foldr (\<lambda>q fs. dict_set fs q Directory) (tl (prefixes p)) (tw_files w)\<rparr>)))"

text \<open>\<open>shutil.copy2\<close>: a failing copy can leave a part of the file.\<close>

definition copy_file :: "path \<Rightarrow> path \<Rightarrow> nat \<Rightarrow> unit act" where
  "copy_file source target k w =
     (case file_of source w of
        Some (Regular b) \<Rightarrow>
          (let write = (\<lambda>c w. w\<lparr>tw_temps := dict_set (tw_temps w) k (Copy_of target c)\<rparr>);
               part = (\<lambda>c w. case c of None \<Rightarrow> w | Some c \<Rightarrow> write c w);
               (f, w') = next_fault w
           in case f of
                Works \<Rightarrow> (write b w', Inr ())
              | Garbles c \<Rightarrow> (write c w', Inr ())
              | Raises c \<Rightarrow> (part c w', Inl TransitionOSError)
              | Dies c \<Rightarrow> (part c w', Inl Killed))
      | _ \<Rightarrow> (w, Inl TransitionOSError))"

definition sha256_temporary :: "(bytes \<Rightarrow> string) \<Rightarrow> nat \<Rightarrow> string act" where
  "sha256_temporary H k =
     bind_act (call id) (\<lambda>_. bind_act (get_act (\<lambda>w. map_of (tw_temps w) k)) (\<lambda>t.
       case t of Some (Copy_of _ b) \<Rightarrow> return_act (H b) | _ \<Rightarrow> raise_act TransitionOSError))"

text \<open>\<open>os.replace(temporary, target)\<close>.\<close>

definition rename_temporary :: "nat \<Rightarrow> path \<Rightarrow> unit act" where
  "rename_temporary k target =
     call (\<lambda>w. case map_of (tw_temps w) k of
        Some (Copy_of _ b) \<Rightarrow> w\<lparr>tw_files := dict_set (tw_files w) target (Regular b), tw_temps := dict_del (tw_temps w) k\<rparr>
      | _ \<Rightarrow> w)"

definition unlink_file :: "path \<Rightarrow> unit act" where
  "unlink_file p = call (\<lambda>w. w\<lparr>tw_files := dict_del (tw_files w) p\<rparr>)"

section \<open>The executor\<close>

definition executor_init :: "executor \<Rightarrow> unit act" where
  "executor_init ex = mkdir_all (ex_materialization_root ex)"

definition default_state :: dict where
  "default_state = [(''schema_version'', JStr TRANSITION_STATE_SCHEMA_VERSION), (''active_design_id'', JNull), (''owned_files'', JObj [])]"

definition load_state :: "dict act" where
  "load_state w =
     (w, case tw_state w of
           NoStateFile \<Rightarrow> Inr default_state
         | NotUtf8 \<Rightarrow> Inl TransitionUnicodeError
         | NotJson \<Rightarrow> Inl (TransitionError ''transition state is invalid JSON'')
         | StateDocument (JObj state) \<Rightarrow>
             require (dget state ''schema_version'' = JStr TRANSITION_STATE_SCHEMA_VERSION)
               (TransitionError ''transition state has an unsupported schema'') (
             case dget state ''owned_files'' of
               JObj _ \<Rightarrow> Inr state
             | _ \<Rightarrow> Inl (TransitionError ''transition state owned_files must be an object''))
         | StateDocument _ \<Rightarrow> Inl TransitionAttributeError)"

definition persist_state :: "dict \<Rightarrow> unit act" where
  "persist_state state = write_json (\<lambda>v w. w\<lparr>tw_state := StateDocument v\<rparr>) (JObj state)"

definition design_text :: "transition_env \<Rightarrow> json \<Rightarrow> string option" where
  "design_text env v = (case v of JNull \<Rightarrow> None | JStr s \<Rightarrow> Some s | _ \<Rightarrow> Some (te_str env v))"

definition active_design_id :: "transition_env \<Rightarrow> string option act" where
  "active_design_id env = bind_act load_state (\<lambda>state. return_act (design_text env (dget state ''active_design_id'')))"

definition render_path :: "transition_env \<Rightarrow> executor \<Rightarrow> string \<Rightarrow> string \<Rightarrow> transition_error + path" where
  "render_path env ex template object_id =
     (case (case plain_format object_id template of Some s \<Rightarrow> Formatted s | None \<Rightarrow> te_format env template object_id) of
        Formatted rendered \<Rightarrow>
          (case te_resolve env (if prefix ''/'' rendered then rendered else path_str (ex_config_parent ex) @ ''/'' @ rendered) of
             None \<Rightarrow> Inl TransitionOSError
           | Some p \<Rightarrow> Inr p)
      | FormatIndexError \<Rightarrow> Inl TransitionIndexError
      | _ \<Rightarrow> Inl (TransitionError (''invalid materialization path template: '' @ template)))"

definition require_safe_target :: "executor \<Rightarrow> path \<Rightarrow> transition_error + unit" where
  "require_safe_target ex target =
     require (prefix (ex_materialization_root ex) target)
       (TransitionError (''materialization target escapes materialization_root: '' @ path_str target)) (
     require (target \<noteq> ex_materialization_root ex) (TransitionError ''materialization target cannot be the root'') (Inr ()))"

text \<open>The desired files: target, then source, object and representation.\<close>

type_synonym desired = "(path \<times> path \<times> string \<times> string) list"

definition desired_file ::
  "transition_env \<Rightarrow> executor \<Rightarrow> (path \<times> fs_node) list \<Rightarrow> materialization_spec \<Rightarrow> string \<Rightarrow> desired \<Rightarrow> transition_error + desired" where
  "desired_file env ex files ms object_id found =
     bind_res (render_path env ex (ms_source_template ms) object_id) (\<lambda>source.
     bind_res (render_path env ex (ms_target_template ms) object_id) (\<lambda>target.
     bind_res (require_safe_target ex target) (\<lambda>_.
     require (source \<noteq> target) (TransitionError ''materialization source and target cannot be identical'') (
     require (map_of found target = None) (TransitionError (''duplicate materialization target: '' @ path_str target)) (
     case map_of files source of
       Some (Regular _) \<Rightarrow> Inr (dict_set found target (source, object_id, ms_representation_id ms))
     | _ \<Rightarrow> Inl (TransitionError (''materialization source is not a file: '' @ path_str source)))))))"

fun desired_loop ::
  "transition_env \<Rightarrow> executor \<Rightarrow> (path \<times> fs_node) list \<Rightarrow> (materialization_spec \<times> string) list \<Rightarrow> desired \<Rightarrow> transition_error + desired" where
  "desired_loop env ex files [] found = Inr found"
| "desired_loop env ex files ((ms, object_id) # rest) found =
     bind_res (desired_file env ex files ms object_id found) (desired_loop env ex files rest)"

definition desired_files :: "transition_env \<Rightarrow> executor \<Rightarrow> (path \<times> fs_node) list \<Rightarrow> design_spec \<Rightarrow> transition_error + desired" where
  "desired_files env ex files design =
     desired_loop env ex files (List.product (ds_materializations design) (ex_object_ids ex)) []"

section \<open>A transition\<close>

record counts =
  ct_copied :: nat
  ct_removed :: nat
  ct_created :: nat
  ct_reused :: nat
  ct_deleted :: nat

text \<open>\<open>owned\<close> is the dictionary \<open>state["owned_files"]\<close>, which the loops update in place.\<close>

definition with_owned :: "dict \<Rightarrow> dict \<Rightarrow> dict" where
  "with_owned state owned = dict_set state ''owned_files'' (JObj owned)"

definition owned_record :: "string \<Rightarrow> nat \<Rightarrow> path \<Rightarrow> string \<Rightarrow> string \<Rightarrow> string \<Rightarrow> dict" where
  "owned_record digest sz source object_id representation_id status =
     [(''sha256'', JStr digest), (''size_bytes'', JInt (int sz)), (''source'', JStr (path_str source)),
      (''object_id'', JStr object_id), (''representation_id'', JStr representation_id), (''status'', JStr status)]"

definition file_size :: "path \<Rightarrow> tworld \<Rightarrow> nat" where
  "file_size p w = (case file_of p w of Some (Regular b) \<Rightarrow> length b | _ \<Rightarrow> 0)"

text \<open>A target that exists.\<close>

definition reuse_file ::
  "(bytes \<Rightarrow> string) \<Rightarrow> dict \<Rightarrow> path \<Rightarrow> string \<Rightarrow> fs_node \<Rightarrow> dict \<times> counts \<Rightarrow> (dict \<times> counts) act" where
  "reuse_file H state target expected node = (\<lambda>(owned, ct).
     guard_act (is_file node) (TransitionError (''materialization target is not a file: '' @ path_str target)) (
     bind_act (sha256_file H target) (\<lambda>digest.
     guard_act (digest = expected)
       (TransitionError (''refusing to overwrite a mismatched materialization: '' @ path_str target)) (
     case dget owned (path_str target) of
       JNull \<Rightarrow> return_act (owned, ct\<lparr>ct_reused := ct_reused ct + 1\<rparr>)
     | JObj existing \<Rightarrow>
         (let owned' = dict_set owned (path_str target) (JObj (dict_set existing ''status'' (JStr ''ready'')))
          in bind_act (persist_state (with_owned state owned')) (\<lambda>_. return_act (owned', ct)))
     | _ \<Rightarrow> raise_act TransitionTypeError))))"

text \<open>A target that does not exist.\<close>

definition place_file :: "(bytes \<Rightarrow> string) \<Rightarrow> path \<Rightarrow> path \<Rightarrow> string \<Rightarrow> unit act" where
  "place_file H source target expected =
     bind_act draw_uuid (\<lambda>k.
       finally_act
         (bind_act (copy_file source target k) (\<lambda>_.
          bind_act (call id) (\<lambda>_.
          bind_act (sha256_temporary H k) (\<lambda>digest.
          guard_act (digest = expected) (TransitionError (''copied materialization failed digest check: '' @ path_str target)) (
          rename_temporary k target)))))
         (unlink_temporary k))"

definition create_file ::
  "(bytes \<Rightarrow> string) \<Rightarrow> dict \<Rightarrow> path \<Rightarrow> path \<times> string \<times> string \<Rightarrow> string \<Rightarrow> nat \<Rightarrow> dict \<times> counts \<Rightarrow> (dict \<times> counts) act" where
  "create_file H state target = (\<lambda>(source, object_id, representation_id) expected sz (owned, ct).
     bind_act (mkdir_all (butlast target)) (\<lambda>_.
     (let record_with = (\<lambda>status. dict_set owned (path_str target)
                            (JObj (owned_record expected sz source object_id representation_id status)));
          preparing = record_with ''preparing'';
          ready = record_with ''ready''
      in bind_act (persist_state (with_owned state preparing)) (\<lambda>_.
         bind_act (place_file H source target expected) (\<lambda>_.
         bind_act (persist_state (with_owned state ready)) (\<lambda>_.
         return_act (ready, ct\<lparr>ct_copied := ct_copied ct + sz, ct_created := ct_created ct + 1\<rparr>)))))))"

definition materialize_file ::
  "(bytes \<Rightarrow> string) \<Rightarrow> dict \<Rightarrow> path \<times> path \<times> string \<times> string \<Rightarrow> dict \<times> counts \<Rightarrow> (dict \<times> counts) act" where
  "materialize_file H state = (\<lambda>(target, source, names) acc.
     bind_act (sha256_file H source) (\<lambda>expected.
     bind_act (get_act (file_size source)) (\<lambda>sz.
     bind_act (get_act (file_of target)) (\<lambda>n.
     case n of
       Some node \<Rightarrow> reuse_file H state target expected node acc
     | None \<Rightarrow> create_file H state target (source, names) expected sz acc))))"

fun materialize_loop :: "(bytes \<Rightarrow> string) \<Rightarrow> dict \<Rightarrow> desired \<Rightarrow> dict \<times> counts \<Rightarrow> (dict \<times> counts) act" where
  "materialize_loop H state [] acc = return_act acc"
| "materialize_loop H state (d # ds) acc = bind_act (materialize_file H state d acc) (materialize_loop H state ds)"

text \<open>The removal of an owned file that is no longer desired.\<close>

definition remove_file :: "(bytes \<Rightarrow> string) \<Rightarrow> path \<Rightarrow> json \<Rightarrow> counts \<Rightarrow> counts act" where
  "remove_file H target meta ct =
     bind_act (get_act (file_of target)) (\<lambda>n.
     case n of
       None \<Rightarrow> return_act ct
     | Some node \<Rightarrow>
         guard_act (is_file node) (TransitionError (''owned materialization is not a file: '' @ path_str target)) (
         bind_act (sha256_file H target) (\<lambda>digest.
         case meta of
           JObj m \<Rightarrow>
             guard_act (JStr digest = dget m ''sha256'')
               (TransitionError (''refusing to remove a modified materialization: '' @ path_str target)) (
             bind_act (get_act (file_size target)) (\<lambda>sz.
             bind_act (unlink_file target) (\<lambda>_.
             return_act (ct\<lparr>ct_removed := ct_removed ct + sz, ct_deleted := ct_deleted ct + 1\<rparr>))))
         | _ \<Rightarrow> raise_act TransitionAttributeError)))"

definition retire_file ::
  "(bytes \<Rightarrow> string) \<Rightarrow> transition_env \<Rightarrow> executor \<Rightarrow> dict \<Rightarrow> string \<Rightarrow> dict \<times> counts \<Rightarrow> (dict \<times> counts) act" where
  "retire_file H env ex state raw_target = (\<lambda>(owned, ct).
     (case te_resolve env raw_target of
        None \<Rightarrow> raise_act TransitionOSError
      | Some target \<Rightarrow>
          bind_act (lift_act (require_safe_target ex target)) (\<lambda>_.
          bind_act (remove_file H target (dget owned raw_target) ct) (\<lambda>ct'.
          (let owned' = dict_del owned raw_target
           in bind_act (persist_state (with_owned state owned')) (\<lambda>_. return_act (owned', ct')))))))"

fun retire_loop ::
  "(bytes \<Rightarrow> string) \<Rightarrow> transition_env \<Rightarrow> executor \<Rightarrow> dict \<Rightarrow> string list \<Rightarrow> dict \<times> counts \<Rightarrow> (dict \<times> counts) act" where
  "retire_loop H env ex state [] acc = return_act acc"
| "retire_loop H env ex state (t # ts) acc = bind_act (retire_file H env ex state t acc) (retire_loop H env ex state ts)"

definition obsolete :: "desired \<Rightarrow> dict \<Rightarrow> string list" where
  "obsolete desired owned = sort (filter (\<lambda>t. t \<notin> path_str ` fst ` set desired) (map fst owned))"

definition active_plan :: "transition_env \<Rightarrow> string \<Rightarrow> design_spec \<Rightarrow> desired \<Rightarrow> json" where
  "active_plan env to_design_id design desired =
     JObj [(''schema_version'', JStr TRANSITION_STATE_SCHEMA_VERSION), (''active_design_id'', JStr to_design_id),
           (''activated_at'', JStr (te_now env)),
           (''materialization_decision'', JStr (ds_materialization_decision design)),
           (''placement_decision'', JStr (ds_placement_decision design)),
           (''execution_decision'', JStr (ds_execution_decision design)),
           (''materialized_paths'', JArr (map JStr (sort (map (path_str \<circ> fst) desired))))]"

definition transition ::
  "(bytes \<Rightarrow> string) \<Rightarrow> transition_env \<Rightarrow> executor \<Rightarrow> string \<Rightarrow> string \<Rightarrow> observation act" where
  "transition H env ex to_design_id transition_type =
     guard_act (transition_type \<in> {''activate'', ''forward'', ''restore''})
       (TransitionValueError (''unsupported transition_type: '' @ transition_type)) (
     case map_of (ex_designs ex) to_design_id of
       None \<Rightarrow> raise_act (TransitionKeyError to_design_id)
     | Some design \<Rightarrow>
         bind_act load_state (\<lambda>state.
         bind_act (get_act (\<lambda>w. desired_files env ex (tw_files w) design)) (\<lambda>planned.
         bind_act (lift_act planned) (\<lambda>desired.
         bind_act (materialize_loop H state desired
                     (case dget state ''owned_files'' of JObj d \<Rightarrow> d | _ \<Rightarrow> [], counts.make 0 0 0 0 0)) (\<lambda>(owned, ct).
         bind_act (retire_loop H env ex state (obsolete desired owned) (owned, ct)) (\<lambda>(owned, ct).
         bind_act (persist_state (dict_set (with_owned state owned) ''active_design_id'' (JStr to_design_id))) (\<lambda>_.
         bind_act (get_act (\<lambda>w. sum_list (map (\<lambda>d. file_size (fst d) w) desired))) (\<lambda>active_bytes.
         bind_act (write_json (\<lambda>v w. w\<lparr>tw_plan := Some v\<rparr>) (active_plan env to_design_id design desired)) (\<lambda>_.
         return_act \<lparr>ob_schema_version = TRANSITION_OBSERVATION_SCHEMA_VERSION, ob_transition_type = transition_type,
                     ob_from_design_id = design_text env (dget state ''active_design_id''),
                     ob_to_design_id = to_design_id, ob_copied_bytes = ct_copied ct, ob_removed_bytes = ct_removed ct,
                     ob_active_materialized_bytes = active_bytes, ob_files_created = ct_created ct,
                     ob_files_reused = ct_reused ct, ob_files_removed = ct_deleted ct\<rparr>)))))))))"

end
