(* ===== verification/Transition_Steps.thy ===== *)
theory Transition_Steps
  imports Transition_Model
begin

text \<open>
  What each action of the executor can do to the files and to the state file, for every sequence of faults, and what it does
  when no call fails.
\<close>

section \<open>The outcome of an action\<close>

text \<open>
  \<open>outcome sure m w Q E\<close>: the action either returns and \<open>Q\<close> holds of the value and the world, or it raises (or the process is
  killed) and \<open>E\<close> holds of the world. With \<open>sure\<close>, no fault is ahead and the action returns.
\<close>

definition outcome :: "bool \<Rightarrow> 'a act \<Rightarrow> tworld \<Rightarrow> ('a \<Rightarrow> tworld \<Rightarrow> bool) \<Rightarrow> (tworld \<Rightarrow> bool) \<Rightarrow> bool" where
  "outcome sure m w Q E \<longleftrightarrow> (sure \<longrightarrow> tw_faults w = []) \<longrightarrow>
     (case m w of
        (w', Inr x) \<Rightarrow> Q x w' \<and> (sure \<longrightarrow> tw_faults w' = [])
      | (w', Inl e) \<Rightarrow> E w' \<and> \<not> sure)"

lemma outcome_return: "Q x w \<Longrightarrow> outcome sure (return_act x) w Q E"
  by (simp add: outcome_def return_act_def)

lemma outcome_raise: "E w \<Longrightarrow> \<not> sure \<Longrightarrow> outcome sure (raise_act e) w Q E"
  by (simp add: outcome_def raise_act_def)

lemma outcome_bind_get: "outcome sure (f (g w)) w Q E \<Longrightarrow> outcome sure (bind_act (get_act g) f) w Q E"
  by (simp add: outcome_def bind_act_def get_act_def)

lemma outcome_bind_uuid:
  "outcome sure (f (tw_uuids w)) (w\<lparr>tw_uuids := Suc (tw_uuids w)\<rparr>) Q E \<Longrightarrow> outcome sure (bind_act draw_uuid f) w Q E"
  by (simp add: outcome_def bind_act_def draw_uuid_def)

lemma outcome_bind:
  assumes "outcome sure m w Q' E" and "\<And>x w'. Q' x w' \<Longrightarrow> outcome sure (f x) w' Q E"
  shows "outcome sure (bind_act m f) w Q E"
proof (cases "m w")
  case (Pair w' r)
  show ?thesis
  proof (cases r)
    case (Inr x)
    show ?thesis
    proof (cases "sure \<longrightarrow> tw_faults w = []")
      case True
      then have "Q' x w'" "sure \<longrightarrow> tw_faults w' = []" using assms(1) Inr Pair by (simp_all add: outcome_def)
      with assms(2) [of x w'] show ?thesis using Inr Pair by (simp add: outcome_def bind_act_def)
    qed (simp add: outcome_def)
  qed (use assms(1) Pair in \<open>auto simp: outcome_def bind_act_def\<close>)
qed

lemma outcome_guard:
  assumes "c \<Longrightarrow> outcome sure m w Q E" and "\<not> c \<Longrightarrow> E w" and "\<not> c \<Longrightarrow> \<not> sure"
  shows "outcome sure (guard_act c e m) w Q E"
  using assms by (cases c) (simp_all add: guard_act_def outcome_raise)

lemma outcome_lift:
  assumes "\<And>x. r = Inr x \<Longrightarrow> Q x w" and "\<not> isOK r \<Longrightarrow> E w" and "\<not> isOK r \<Longrightarrow> \<not> sure"
  shows "outcome sure (lift_act r) w Q E"
  using assms by (cases r) (simp_all add: outcome_def lift_act_def)

lemma outcome_mono:
  assumes "outcome sure m w Q E" and "\<And>x w'. Q x w' \<Longrightarrow> Q' x w'" and "\<And>w'. E w' \<Longrightarrow> E' w'"
  shows "outcome sure m w Q' E'"
  using assms by (auto simp: outcome_def split: prod.splits sum.splits)

lemma outcome_finally:
  assumes "outcome sure m w Q' E'"
    and "\<And>x w'. Q' x w' \<Longrightarrow> outcome sure f w' (\<lambda>_. Q x) E"
    and "\<And>w'. E' w' \<Longrightarrow> \<not> sure \<Longrightarrow> E w' \<and> outcome sure f w' (\<lambda>_. E) E"
  shows "outcome sure (finally_act m f) w Q E"
proof (cases "sure \<longrightarrow> tw_faults w = []")
  case True
  obtain w' r where m: "m w = (w', r)" by force
  show ?thesis
  proof (cases r)
    case (Inr x)
    then have "Q' x w'" "sure \<longrightarrow> tw_faults w' = []" using True assms(1) m by (simp_all add: outcome_def)
    with assms(2) [of x w'] show ?thesis
      using Inr m by (cases "f w'") (simp add: outcome_def finally_act_def split: sum.splits)
  next
    case (Inl e)
    then have "E' w'" "\<not> sure" using True assms(1) m by (simp_all add: outcome_def)
    with assms(3) [of w'] show ?thesis
      using Inl m by (cases "f w'") (simp add: outcome_def finally_act_def split: sum.splits)
  qed
qed (simp add: outcome_def)

text \<open>A call: the predicates must not look at the faults.\<close>

lemma next_fault_eq: "next_fault w = (f, w') \<Longrightarrow> w' = w\<lparr>tw_faults := tl (tw_faults w)\<rparr> \<and> (tw_faults w = [] \<longrightarrow> f = Works)"
  by (cases w) (auto simp: next_fault_def split: list.splits)

lemma outcome_call:
  assumes "Q () (effect (w\<lparr>tw_faults := tl (tw_faults w)\<rparr>))" and "E (w\<lparr>tw_faults := tl (tw_faults w)\<rparr>)"
    and "\<And>w. tw_faults (effect w) = tw_faults w"
  shows "outcome sure (call effect) w Q E"
proof (cases "next_fault w")
  case (Pair f w')
  show ?thesis using assms next_fault_eq [OF Pair] by (cases f) (auto simp: outcome_def call_def Pair)
qed

text \<open>The files and the state file of a world.\<close>

definition store :: "tworld \<Rightarrow> (path \<times> fs_node) list \<times> state_file" where
  "store w = (tw_files w, tw_state w)"

lemma store_simps [simp]: "store (w\<lparr>tw_faults := fs\<rparr>) = store w" "store (w\<lparr>tw_temps := ts\<rparr>) = store w"
  "store (w\<lparr>tw_uuids := n\<rparr>) = store w" "store (w\<lparr>tw_plan := v\<rparr>) = store w"
  by (simp_all add: store_def)

lemma store_files: "store w' = store w \<Longrightarrow> file_of p w' = file_of p w" and
  store_state: "store w' = store w \<Longrightarrow> tw_state w' = tw_state w"
  by (simp_all add: store_def file_of_def)

section \<open>Single actions\<close>

lemma sha256_file_outcome:
  assumes "\<And>b w'. file_of p w = Some (Regular b) \<Longrightarrow> store w' = store w \<Longrightarrow> Q (H b) w'"
    and "\<And>w'. store w' = store w \<Longrightarrow> E w'" and "sure \<Longrightarrow> \<exists>b. file_of p w = Some (Regular b)"
  shows "outcome sure (sha256_file H p) w Q E"
  unfolding sha256_file_def
proof (rule outcome_bind [where Q' = "\<lambda>_ w'. store w' = store w"])
  show "outcome sure (call id) w (\<lambda>_ w'. store w' = store w) E" using assms(2) by (intro outcome_call) auto
next
  fix w' assume s: "store w' = store w"
  have "outcome sure (case file_of p w of Some (Regular b) \<Rightarrow> return_act (H b) | _ \<Rightarrow> raise_act TransitionOSError) w' Q E"
  proof (cases "\<exists>b. file_of p w = Some (Regular b)")
    case True
    then show ?thesis using assms(1) [OF _ s] by (auto intro: outcome_return)
  next
    case False
    then have "\<not> sure" using assms(3) by blast
    with False show ?thesis using assms(2) [OF s] by (auto intro: outcome_raise split: option.split fs_node.split)
  qed
  then show "outcome sure (bind_act (get_act (file_of p)) (\<lambda>n. case n of Some (Regular b) \<Rightarrow> return_act (H b) | _ \<Rightarrow> raise_act TransitionOSError)) w' Q E"
    by (intro outcome_bind_get) (simp only: store_files [OF s])
qed

text \<open>Writing a document: the old one or the new one is there at every moment, and the new one when the call returns.\<close>

lemma write_json_outcome:
  assumes faults: "\<And>v w. tw_faults (publish v w) = tw_faults w" and pub: "\<And>v w. store (publish v w) = g v (store w)"
    and old: "\<And>w'. store w' = store w \<Longrightarrow> E w'"
    and new: "\<And>w'. store w' = g (sort_keys payload) (store w) \<Longrightarrow> Q () w' \<and> E w'"
  shows "outcome sure (write_json publish payload) w Q E"
proof -
  let ?old = "\<lambda>w'. store w' = store w" and ?new = "\<lambda>w'. store w' = g (sort_keys payload) (store w)"
  have unlink: "outcome sure (unlink_temporary k) w' (\<lambda>_ w''. store w'' = store w') (\<lambda>w''. store w'' = store w')" for k w'
    unfolding unlink_temporary_def by (intro outcome_call) simp_all
  have keep: "outcome sure (call f) w' (\<lambda>_. ?old) ?old" if "?old w'" "\<And>v. store (f v) = store v" "\<And>v. tw_faults (f v) = tw_faults v" for f w'
    using that by (intro outcome_call) simp_all
  show ?thesis
    unfolding write_json_def
    apply (rule outcome_bind [where Q' = "\<lambda>_. ?old"])
     apply (rule outcome_mono [OF keep [of w id]]; simp add: old)
    apply (rule outcome_bind_uuid)
    apply (rule outcome_finally [where Q' = "\<lambda>_. ?new" and E' = ?old])
      apply (rule outcome_bind [where Q' = "\<lambda>_. ?old"], rule keep; simp)
      apply (rule outcome_bind [where Q' = "\<lambda>_. ?old"], rule keep; simp)
      apply (rule outcome_call; simp add: faults pub)
     apply (rule outcome_mono [OF unlink]; use new in auto)
    apply (rule conjI, simp add: old)
    apply (rule outcome_mono [OF unlink]; use old in auto)
    done
qed

lemma persist_outcome:
  assumes old: "\<And>w'. store w' = store w \<Longrightarrow> E w'"
    and new: "\<And>w'. store w' = (tw_files w, StateDocument (sort_keys (JObj state))) \<Longrightarrow> Q () w' \<and> E w'"
  shows "outcome sure (persist_state state) w Q E"
  unfolding persist_state_def
  by (rule write_json_outcome [where g = "\<lambda>v s. (fst s, StateDocument v)"]) (use assms in \<open>auto simp: store_def\<close>)

lemma plan_outcome:
  assumes "\<And>w'. store w' = store w \<Longrightarrow> Q () w' \<and> E w'"
  shows "outcome sure (write_json (\<lambda>v w. w\<lparr>tw_plan := Some v\<rparr>) payload) w Q E"
  by (rule write_json_outcome [where g = "\<lambda>v s. s"]) (use assms in \<open>auto simp: store_def\<close>)

text \<open>Creating the parents of a target.\<close>

definition open_way :: "(path \<Rightarrow> fs_node option) \<Rightarrow> path \<Rightarrow> bool" where
  "open_way F p \<longleftrightarrow> (\<forall>q. strict_prefix q p \<longrightarrow> q \<noteq> [] \<longrightarrow> F q \<in> {None, Some Directory})"

definition with_parents :: "path \<Rightarrow> (path \<Rightarrow> fs_node option) \<Rightarrow> path \<Rightarrow> fs_node option" where
  "with_parents p F q = (if strict_prefix q p \<and> q \<noteq> [] then Some Directory else F q)"

lemma prefixes_tl: "set (tl (prefixes p)) = {q. prefix q p \<and> q \<noteq> []}"
  by (cases p) (auto simp: prefix_Cons)

lemma parents_iff: "p \<noteq> [] \<Longrightarrow> q \<in> set (tl (prefixes (butlast p))) \<longleftrightarrow> strict_prefix q p \<and> q \<noteq> []"
proof -
  assume "p \<noteq> []"
  then obtain ps x where p: "p = ps @ [x]" by (metis append_butlast_last_id)
  show ?thesis by (auto simp: p prefixes_tl strict_prefix_def)
qed

lemma map_of_directories:
  "map_of (foldr (\<lambda>q fs. dict_set fs q Directory) qs files) p = (if p \<in> set qs then Some Directory else map_of files p)"
  by (induction qs) auto

lemma mkdir_outcome:
  assumes "p \<noteq> []"
    and old: "\<And>w'. store w' = store w \<Longrightarrow> E w'"
    and new: "\<And>w'. open_way (\<lambda>q. file_of q w) p \<Longrightarrow> tw_state w' = tw_state w
               \<Longrightarrow> (\<lambda>q. file_of q w') = with_parents p (\<lambda>q. file_of q w) \<Longrightarrow> Q () w'"
    and sure: "sure \<Longrightarrow> open_way (\<lambda>q. file_of q w) p"
  shows "outcome sure (mkdir_all (butlast p)) w Q E"
proof -
  have way: "list_all (\<lambda>q. map_of (tw_files w) q \<in> {None, Some Directory}) (tl (prefixes (butlast p))) \<longleftrightarrow> open_way (\<lambda>q. file_of q w) p"
    by (auto simp: list_all_iff parents_iff [OF assms(1)] open_way_def file_of_def)
  show ?thesis
    unfolding mkdir_all_def
    apply (rule outcome_bind_get)
    apply (rule outcome_guard; (unfold way)?)
      apply (rule outcome_call)
        apply (rule new; (simp add: file_of_def fun_eq_iff with_parents_def map_of_directories parents_iff [OF assms(1)])?)
    using old sure by auto
qed

text \<open>
  Placing a copy: at every moment the target is absent or complete, with the expected digest.
\<close>

lemma copy_outcome:
  assumes "\<And>w' b. store w' = store w \<Longrightarrow> map_of (tw_temps w') k = Some (Copy_of target b) \<Longrightarrow> sure \<longrightarrow> file_of source w = Some (Regular b) \<Longrightarrow> Q () w'"
    and "\<And>w'. store w' = store w \<Longrightarrow> E w'" and "sure \<Longrightarrow> \<exists>b. file_of source w = Some (Regular b)"
  shows "outcome sure (copy_file source target k) w Q E"
proof (cases "\<exists>b. file_of source w = Some (Regular b)")
  case True
  then obtain b where b: "file_of source w = Some (Regular b)" by blast
  obtain f w' where n: "next_fault w = (f, w')" by force
  show ?thesis
    using next_fault_eq [OF n] assms(1,2)
    by (cases f) (auto simp: outcome_def copy_file_def b n Let_def split: option.splits)
next
  case False
  then show ?thesis using assms(2,3) by (auto simp: outcome_def copy_file_def split: option.splits fs_node.splits)
qed

lemma place_outcome:
  assumes old: "\<And>w'. store w' = store w \<Longrightarrow> E w'"
    and new: "\<And>w' b. H b = expected \<Longrightarrow> store w' = (dict_set (tw_files w) target (Regular b), tw_state w) \<Longrightarrow> Q () w' \<and> E w'"
    and sure: "sure \<Longrightarrow> \<exists>b. file_of source w = Some (Regular b) \<and> H b = expected"
  shows "outcome sure (place_file H source target expected) w Q E"
proof -
  let ?old = "\<lambda>w'. store w' = store w"
  let ?new = "\<lambda>w'. \<exists>b. H b = expected \<and> store w' = (dict_set (tw_files w) target (Regular b), tw_state w)"
  have unlink: "outcome sure (unlink_temporary k) w' (\<lambda>_ w''. store w'' = store w') (\<lambda>w''. store w'' = store w')" for k w'
    unfolding unlink_temporary_def by (intro outcome_call) simp_all
  define copied where "copied k w' b \<longleftrightarrow> ?old w' \<and> map_of (tw_temps w') k = Some (Copy_of target b) \<and> (sure \<longrightarrow> H b = expected)" for k w' b
  have rename: "outcome sure (rename_temporary k target) w' (\<lambda>_. ?new) ?old" if "copied k w' b" "H b = expected" for k w' b
    unfolding rename_temporary_def using that
    by (intro outcome_call) (auto simp: copied_def store_def split: option.splits temporary.splits)
  have check: "outcome sure (bind_act (sha256_temporary H k) (\<lambda>digest. guard_act (digest = expected) e (rename_temporary k target))) w' (\<lambda>_. ?new) ?old"
    if c: "copied k w' b" for k w' b e
    unfolding sha256_temporary_def
    apply (rule outcome_bind [where Q' = "\<lambda>d w'. copied k w' b \<and> d = H b"])
     apply (rule outcome_bind [where Q' = "\<lambda>_ w'. copied k w' b"])
      apply (rule outcome_call; use c in \<open>simp add: copied_def\<close>)
     apply (rule outcome_bind_get)
     apply (simp add: copied_def outcome_return)
    apply (rule outcome_guard)
      apply (rule rename [where b = b])
       apply simp_all
    unfolding copied_def
    apply blast+
    done
  show ?thesis
    unfolding place_file_def
    apply (rule outcome_bind_uuid)
    apply (rule outcome_finally [where Q' = "\<lambda>_. ?new" and E' = ?old])
      apply (rule outcome_bind [where Q' = "\<lambda>_ w'. \<exists>b. copied (tw_uuids w) w' b"])
       apply (rule copy_outcome)
         apply (use sure in \<open>force simp: copied_def file_of_def store_def\<close>)
        apply (simp add: store_def)
       apply (use sure in \<open>force simp: file_of_def\<close>)
      apply (rule outcome_bind [where Q' = "\<lambda>_ w'. \<exists>b. copied (tw_uuids w) w' b"])
       apply (rule outcome_call; simp add: copied_def)
      apply (use check in blast)
     apply (rule outcome_mono [OF unlink]; use new in auto)
    apply (rule conjI, simp add: old)
    apply (rule outcome_mono [OF unlink]; use old in auto)
    done
qed

end
