(* ===== verification/Transition_Effect.thy ===== *)
theory Transition_Effect
  imports Transition_Steps Json_Read
begin

text \<open>
  What a transition does, on every run, to the files and to the ownership the state file records: first it only adds (the
  targets of the design and their directories), then it only removes (files it owns that the design does not want).
\<close>

section \<open>Ownership\<close>

text \<open>What the dictionary of owned files says of a path: nothing, an unusable record, or a fingerprint.\<close>

datatype claim = Unclaimed | Broken | Claimed string

definition claim_in :: "dict \<Rightarrow> string \<Rightarrow> claim" where
  "claim_in owned raw =
     (if raw \<notin> keys owned then Unclaimed
      else case dget owned raw of
             JObj m \<Rightarrow> (case dget m ''sha256'' of JStr d \<Rightarrow> Claimed d | _ \<Rightarrow> Broken)
           | _ \<Rightarrow> Broken)"

definition owned_of :: "dict \<Rightarrow> dict" where
  "owned_of state = (case dget state ''owned_files'' of JObj d \<Rightarrow> d | _ \<Rightarrow> [])"

definition loaded :: "tworld \<Rightarrow> transition_error + dict" where
  "loaded w = snd (load_state w)"

definition claims :: "tworld \<Rightarrow> string \<Rightarrow> claim" where
  "claims w = (case loaded w of Inr state \<Rightarrow> claim_in (owned_of state) | Inl _ \<Rightarrow> (\<lambda>_. Unclaimed))"

definition files :: "tworld \<Rightarrow> path \<Rightarrow> fs_node option" where
  "files w p = file_of p w"

lemma store_eq: "store w' = store w \<Longrightarrow> files w' = files w \<and> loaded w' = loaded w \<and> claims w' = claims w"
  by (auto simp: store_def files_def file_of_def fun_eq_iff claims_def loaded_def load_state_def)

lemma map_of_sort: "map_of (sort_key fst d) = map_of (d :: dict)"
proof
  fix k
  have hd: "map_of e k = (case filter (\<lambda>p. fst p = k) e of [] \<Rightarrow> None | p # _ \<Rightarrow> Some (snd p))" for e :: dict
    by (induction e) auto
  show "map_of (sort_key fst d) k = map_of d k" by (simp only: hd sort_key_stable)
qed

lemma dget_sorted: "dget (loads_dict d) k = sort_keys (dget d k)"
proof -
  have "map_of (map (map_prod id sort_keys) d) k = map_option sort_keys (map_of d k)" by (induction d) auto
  then show ?thesis by (simp add: dget_def loads_dict_def map_of_sort split: option.splits)
qed

lemma claim_loads: "claim_in (loads_dict d) = claim_in d"
proof
  fix raw
  have "(case sort_keys v of JObj m \<Rightarrow> (case dget m ''sha256'' of JStr d \<Rightarrow> Claimed d | _ \<Rightarrow> Broken) | _ \<Rightarrow> Broken)
      = (case v of JObj m \<Rightarrow> (case dget m ''sha256'' of JStr d \<Rightarrow> Claimed d | _ \<Rightarrow> Broken) | _ \<Rightarrow> Broken)" for v
  proof (cases v)
    case (JObj m)
    show ?thesis unfolding JObj sort_keys_loads by (cases "dget m ''sha256''") (simp_all add: dget_sorted)
  qed simp_all
  then show "claim_in (loads_dict d) raw = claim_in d raw" by (simp add: claim_in_def keys_loads dget_sorted)
qed

text \<open>A state that was loaded and is written back with other owned files is loaded again.\<close>

definition good_state :: "dict \<Rightarrow> bool" where
  "good_state state \<longleftrightarrow> dget state ''schema_version'' = JStr TRANSITION_STATE_SCHEMA_VERSION"

lemma loaded_good: "loaded w = Inr state \<Longrightarrow> good_state state"
  by (auto simp: loaded_def load_state_def good_state_def default_state_def dget_def result_simps split: state_file.splits json.splits)

lemma claims_loaded: "loaded w = Inr state \<Longrightarrow> claims w = claim_in (owned_of state)"
  by (simp add: claims_def)

lemma persisted:
  assumes "tw_state w = StateDocument (sort_keys (JObj state))" and "good_state state" and "dget state ''owned_files'' = JObj owned"
  shows "loaded w = Inr (loads_dict state)" and "claims w = claim_in owned"
proof -
  have o: "dget (loads_dict state) ''owned_files'' = JObj (loads_dict owned)"
    unfolding dget_sorted assms(3) by (rule sort_keys_loads)
  show "loaded w = Inr (loads_dict state)"
    using assms(1,2) o unfolding sort_keys_loads by (simp add: loaded_def load_state_def good_state_def dget_sorted)
  then show "claims w = claim_in owned" using o by (simp add: claims_def owned_of_def claim_loads)
qed

lemma persist_claims:
  assumes st: "good_state state"
    and old: "\<And>w'. files w' = files w \<Longrightarrow> loaded w' = loaded w \<Longrightarrow> claims w' = claims w \<Longrightarrow> E w'"
    and new: "\<And>w'. files w' = files w \<Longrightarrow> loaded w' = Inr (loads_dict (with_owned state owned)) \<Longrightarrow> claims w' = claim_in owned \<Longrightarrow> Q () w' \<and> E w'"
  shows "outcome sure (persist_state (with_owned state owned)) w Q E"
proof (rule persist_outcome)
  fix w' assume "store w' = store w"
  from store_eq [OF this] show "E w'" using old by simp
next
  fix w' assume "store w' = (tw_files w, StateDocument (sort_keys (JObj (with_owned state owned))))"
  then have f: "files w' = files w" and s: "tw_state w' = StateDocument (sort_keys (JObj (with_owned state owned)))"
    by (simp_all add: store_def files_def file_of_def fun_eq_iff)
  have "good_state (with_owned state owned)" "dget (with_owned state owned) ''owned_files'' = JObj owned"
    using st by (simp_all add: good_state_def with_owned_def)
  from persisted [OF s this] show "Q () w' \<and> E w'" using new f by simp
qed

section \<open>Growing\<close>

text \<open>
  The files and claims after a part of the first loop, against those before the transition: a path is as it was, or it was
  absent and is now a directory above a target, or a target with the digest of its source. A claim is as it was, or it is the fingerprint of
  a target that was absent; a file that is new is claimed.
\<close>

definition placed :: "(bytes \<Rightarrow> string) \<Rightarrow> desired \<Rightarrow> (path \<Rightarrow> fs_node option) \<Rightarrow> path \<Rightarrow> string \<Rightarrow> bool" where
  "placed H D F0 t d \<longleftrightarrow> F0 t = None \<and> (\<exists>s nm c. (t, s, nm) \<in> set D \<and> F0 s = Some (Regular c) \<and> d = H c)"

definition grown ::
  "(bytes \<Rightarrow> string) \<Rightarrow> desired \<Rightarrow> (path \<Rightarrow> fs_node option) \<Rightarrow> (string \<Rightarrow> claim) \<Rightarrow> (path \<Rightarrow> fs_node option) \<Rightarrow> (string \<Rightarrow> claim) \<Rightarrow> bool" where
  "grown H D F0 C0 F C \<longleftrightarrow>
     (\<forall>p. F p = F0 p \<or> F0 p = None \<and> F p = Some Directory \<and> (\<exists>t \<in> fst ` set D. strict_prefix p t)
        \<or> (\<exists>b. F p = Some (Regular b) \<and> placed H D F0 p (H b) \<and> C (path_str p) \<in> Claimed ` UNIV))
     \<and> (\<forall>raw. C raw = C0 raw \<or> (\<exists>t d. raw = path_str t \<and> placed H D F0 t d \<and> C raw = Claimed d))"

lemma grown_refl: "grown H D F C F C"
  by (simp add: grown_def)

lemma grown_regular: "grown H D F0 C0 F C \<Longrightarrow> F0 p = Some n \<Longrightarrow> F p = Some n"
  unfolding grown_def placed_def by (metis option.distinct(1))

lemma grown_None: "grown H D F0 C0 F C \<Longrightarrow> F p = None \<Longrightarrow> F0 p = None"
  unfolding grown_def placed_def by (metis option.distinct(1))

lemma grown_claim:
  assumes "grown H D F0 C0 F C" and "placed H D F0 t d"
  shows "grown H D F0 C0 F (C(path_str t := Claimed d))"
  using assms unfolding grown_def by auto

lemma grown_parents:
  assumes "grown H D F0 C0 F C" and "open_way F t" and "t \<in> fst ` set D"
  shows "grown H D F0 C0 (with_parents t F) C"
proof -
  have "with_parents t F p = F p \<or> F p = None \<and> with_parents t F p = Some Directory \<and> strict_prefix p t" for p
    using assms(2) by (auto simp: with_parents_def open_way_def)
  then show ?thesis using assms(1,3) grown_None [OF assms(1)] unfolding grown_def by metis
qed

lemma grown_file:
  assumes "grown H D F0 C0 F C" and "placed H D F0 t (H b)" and "C (path_str t) = Claimed (H b)"
  shows "grown H D F0 C0 (F(t \<mapsto> Regular b)) C"
  using assms unfolding grown_def by auto

section \<open>Feasible designs\<close>

text \<open>
  A design can be materialized if every target is absent with a free way to it or has the digest of its source already, no target
  lies below another, and the records of the targets are usable.
\<close>

definition feasible :: "(bytes \<Rightarrow> string) \<Rightarrow> desired \<Rightarrow> (path \<Rightarrow> fs_node option) \<Rightarrow> (string \<Rightarrow> claim) \<Rightarrow> bool" where
  "feasible H D F C \<longleftrightarrow>
     (\<forall>t \<in> fst ` set D. \<forall>t' \<in> fst ` set D. \<not> strict_prefix t t')
     \<and> (\<forall>(t, s, nm) \<in> set D. C (path_str t) \<noteq> Broken \<and>
          (case F t of None \<Rightarrow> open_way F t | Some n \<Rightarrow> \<exists>b c. n = Regular b \<and> F s = Some (Regular c) \<and> H b = H c))"

definition sources :: "desired \<Rightarrow> (path \<Rightarrow> fs_node option) \<Rightarrow> bool" where
  "sources D F \<longleftrightarrow> (\<forall>(t, s, nm) \<in> set D. t \<noteq> [] \<and> (\<exists>c. F s = Some (Regular c))) \<and> distinct (map fst D)"

lemma distinct_desired: "sources D F \<Longrightarrow> (t, x) \<in> set D \<Longrightarrow> (t, y) \<in> set D \<Longrightarrow> x = y"
  by (auto simp: sources_def dest: eq_key_imp_eq_value)

lemma placed_digest:
  assumes "sources D F0" and "(t, s, nm) \<in> set D" and "F0 s = Some (Regular c)" and "placed H D F0 t d"
  shows "d = H c"
proof -
  obtain s' nm' c' where "(t, s', nm') \<in> set D" "F0 s' = Some (Regular c')" "d = H c'" using assms(4) by (auto simp: placed_def)
  moreover from distinct_desired [OF assms(1,2) this(1)] have "s' = s" by simp
  ultimately show ?thesis using assms(3) by simp
qed

lemma grown_target:
  assumes "grown H D F0 C0 F C" and "sources D F0" and "(t, s, nm) \<in> set D" and "F0 s = Some (Regular c)"
  shows "F t = F0 t \<or> F0 t = None \<and> F t = Some Directory \<and> (\<exists>t' \<in> fst ` set D. strict_prefix t t')
    \<or> F0 t = None \<and> (\<exists>b. F t = Some (Regular b) \<and> H b = H c)"
  using assms(1) placed_digest [OF assms(2-4)] unfolding grown_def placed_def by metis

lemma grown_feasible:
  assumes g: "grown H D F0 C0 F C" and src: "sources D F0" and f: "feasible H D F0 C0"
  shows "feasible H D F C"
proof -
  have apart: "\<not> strict_prefix t t'" if "t \<in> fst ` set D" "t' \<in> fst ` set D" for t t' using f that unfolding feasible_def by blast
  have "C (path_str t) \<noteq> Broken \<and> (case F t of None \<Rightarrow> open_way F t | Some n \<Rightarrow> \<exists>b c. n = Regular b \<and> F s = Some (Regular c) \<and> H b = H c)"
    if d: "(t, s, nm) \<in> set D" for t s nm
  proof -
    have t: "t \<in> fst ` set D" using d by force
    obtain c where c: "F0 s = Some (Regular c)" using src d by (auto simp: sources_def)
    then have c': "F s = Some (Regular c)" using grown_regular [OF g] by blast
    have f': "C0 (path_str t) \<noteq> Broken" "case F0 t of None \<Rightarrow> open_way F0 t | Some n \<Rightarrow> \<exists>b. n = Regular b \<and> H b = H c"
      using f d c by (auto simp: feasible_def split: option.splits)
    have "C (path_str t) \<noteq> Broken" using g f'(1) unfolding grown_def by (metis claim.distinct(5))
    moreover have "open_way F t" if "F0 t = None"
      unfolding open_way_def
    proof (intro allI impI)
      fix q assume q: "strict_prefix q t" "q \<noteq> []"
      then have "q \<notin> fst ` set D" using apart t by blast
      then have "F q = F0 q \<or> F q = Some Directory" using g unfolding grown_def placed_def by (metis fst_conv image_eqI)
      then show "F q \<in> {None, Some Directory}" using f'(2) that q by (auto simp: open_way_def)
    qed
    moreover have "F t = F0 t \<or> F0 t = None \<and> (\<exists>b. F t = Some (Regular b) \<and> H b = H c)"
      using grown_target [OF g src d c] apart t by blast
    ultimately show ?thesis using f'(2) c' by (auto split: option.splits)
  qed
  then show ?thesis using f by (auto simp: feasible_def)
qed

section \<open>The first loop\<close>

text \<open>A target is settled when it is a file with the digest of its source.\<close>

definition settled :: "(bytes \<Rightarrow> string) \<Rightarrow> (path \<Rightarrow> fs_node option) \<Rightarrow> (path \<Rightarrow> fs_node option) \<Rightarrow> path \<times> path \<times> string \<times> string \<Rightarrow> bool" where
  "settled H F0 F = (\<lambda>(t, s, nm). \<exists>b c. F t = Some (Regular b) \<and> F0 s = Some (Regular c) \<and> H b = H c)"

definition growing ::
  "(bytes \<Rightarrow> string) \<Rightarrow> desired \<Rightarrow> (path \<Rightarrow> fs_node option) \<Rightarrow> (string \<Rightarrow> claim) \<Rightarrow> json \<Rightarrow> tworld \<Rightarrow> bool" where
  "growing H D F0 C0 act w \<longleftrightarrow>
     grown H D F0 C0 (files w) (claims w) \<and> (\<exists>state. loaded w = Inr state \<and> sort_keys (dget state ''active_design_id'') = sort_keys act)"

lemma growing_store: "growing H D F0 C0 act w \<Longrightarrow> store w' = store w \<Longrightarrow> growing H D F0 C0 act w'"
  using store_eq [of w' w] by (simp add: growing_def)

lemma dget_key: "dget d k \<noteq> JNull \<Longrightarrow> k \<in> keys d"
  by (auto simp: dget_def keys_def intro: rev_image_eqI split: option.splits dest!: map_of_SomeD)

lemma claim_broken: "dget owned raw \<noteq> JNull \<Longrightarrow> (\<And>m. dget owned raw \<noteq> JObj m) \<Longrightarrow> claim_in owned raw = Broken"
  using dget_key [of owned raw] by (auto simp: claim_in_def split: json.splits)

text \<open>A persisted claim, seen from the loop.\<close>

lemma persist_growing:
  assumes "good_state state" and act: "dget state ''active_design_id'' = act" and g: "growing H D F0 C0 act w"
    and new: "grown H D F0 C0 (files w) (claim_in owned)"
    and Q: "\<And>w'. growing H D F0 C0 act w' \<Longrightarrow> files w' = files w \<Longrightarrow> claims w' = claim_in owned \<Longrightarrow> Q () w'"
  shows "outcome sure (persist_state (with_owned state owned)) w Q (growing H D F0 C0 act)"
proof (rule persist_claims [OF assms(1)])
  fix w' assume "files w' = files w" "loaded w' = loaded w" "claims w' = claims w"
  then show "growing H D F0 C0 act w'" using g by (simp add: growing_def)
next
  fix w' assume w': "files w' = files w" "loaded w' = Inr (loads_dict (with_owned state owned))" "claims w' = claim_in owned"
  have "dget (loads_dict (with_owned state owned)) ''active_design_id'' = sort_keys act"
    using act by (simp add: dget_sorted with_owned_def)
  then have "growing H D F0 C0 act w'" using new w' by (simp add: growing_def sort_keys_idem)
  then show "Q () w' \<and> growing H D F0 C0 act w'" using Q w' by blast
qed

lemma claim_set: "claim_in (dict_set owned raw (JObj m)) =
  (claim_in owned)(raw := (case dget m ''sha256'' of JStr d \<Rightarrow> Claimed d | _ \<Rightarrow> Broken))"
  by (auto simp: claim_in_def fun_eq_iff)

lemma claim_record: "claim_in (dict_set owned raw (JObj (owned_record d n s x y z))) = (claim_in owned)(raw := Claimed d)"
  by (simp add: claim_set owned_record_def dget_def)

lemma claim_status: "dget owned raw = JObj m \<Longrightarrow> claim_in (dict_set owned raw (JObj (dict_set m ''status'' v))) = claim_in owned"
  using dget_key [of owned raw] by (auto simp: claim_set claim_in_def fun_eq_iff)

lemma reuse_outcome:
  assumes st: "good_state state" "dget state ''active_design_id'' = act" and g: "growing H D F0 C0 act w"
    and C: "claims w = claim_in owned" and n: "files w t = Some n"
    and Q: "\<And>owned' ct' w' b. growing H D F0 C0 act w' \<Longrightarrow> claims w' = claim_in owned' \<Longrightarrow> files w' = files w
              \<Longrightarrow> files w t = Some (Regular b) \<Longrightarrow> H b = expected \<Longrightarrow> Q (owned', ct') w'"
    and sure: "sure \<Longrightarrow> (\<exists>b. n = Regular b \<and> H b = expected) \<and> claim_in owned (path_str t) \<noteq> Broken"
  shows "outcome sure (reuse_file H state t expected n (owned, ct)) w Q (growing H D F0 C0 act)"
proof -
  let ?G = "growing H D F0 C0 act"
  have fo: "file_of t w = Some n" using n by (simp add: files_def)
  show ?thesis
    unfolding reuse_file_def split is_file_iff
  proof (intro outcome_guard, goal_cases)
    case 1
    then obtain b where b: "n = Regular b" by blast
    show ?case
    proof (rule outcome_bind [where Q' = "\<lambda>d w'. d = H b \<and> store w' = store w"], goal_cases)
      case 1
      show ?case using fo b growing_store [OF g] by (intro sha256_file_outcome) auto
    next
      case (2 d w')
      then have w': "store w' = store w" and d: "d = H b" by auto
      note s = store_eq [OF w'] growing_store [OF g w']
      show ?case
      proof (intro outcome_guard, goal_cases)
        case 1
        show ?case
        proof (cases "dget owned (path_str t)")
          case JNull
          then show ?thesis using s C n b d 1 by (auto intro!: outcome_return Q)
        next
          case (JObj m)
          let ?o = "dict_set owned (path_str t) (JObj (dict_set m ''status'' (JStr ''ready'')))"
          have c: "claim_in ?o = claims w'" using claim_status [OF JObj] C s by simp
          have "outcome sure (bind_act (persist_state (with_owned state ?o)) (\<lambda>_. return_act (?o, ct))) w' Q ?G"
          proof (rule outcome_bind [where Q' = "\<lambda>_ w''. ?G w'' \<and> files w'' = files w' \<and> claims w'' = claim_in ?o"])
            show "outcome sure (persist_state (with_owned state ?o)) w' (\<lambda>_ w''. ?G w'' \<and> files w'' = files w' \<and> claims w'' = claim_in ?o) ?G"
              using s by (intro persist_growing [OF st]) (simp_all add: c growing_def)
          next
            fix w'' assume "?G w'' \<and> files w'' = files w' \<and> claims w'' = claim_in ?o"
            then show "outcome sure (return_act (?o, ct)) w'' Q ?G" using s n b d 1 by (auto intro!: outcome_return Q)
          qed
          then show ?thesis by (simp add: JObj Let_def)
        qed (use s sure claim_broken [of owned "path_str t"] in \<open>auto intro!: outcome_raise\<close>)
      qed (use s sure b d in auto)
    qed
  qed (use g sure in auto)
qed

lemma create_outcome:
  assumes st: "good_state state" "dget state ''active_design_id'' = act" and g: "growing H D F0 C0 act w"
    and C: "claims w = claim_in owned" and t: "files w t = None" "t \<noteq> []" and d: "(t, s, nm) \<in> set D"
    and c: "F0 s = Some (Regular c)"
    and Q: "\<And>owned' ct' w' b. growing H D F0 C0 act w' \<Longrightarrow> claims w' = claim_in owned' \<Longrightarrow> files w' t = Some (Regular b)
              \<Longrightarrow> H b = H c \<Longrightarrow> Q (owned', ct') w'"
    and sure: "sure \<Longrightarrow> open_way (files w) t"
  shows "outcome sure (create_file H state t (s, nm) (H c) sz (owned, ct)) w Q (growing H D F0 C0 act)"
proof -
  let ?G = "growing H D F0 C0 act"
  obtain x y where nm: "nm = (x, y)" by force
  define rec where "rec status = dict_set owned (path_str t) (JObj (owned_record (H c) sz s x y status))" for status
  have claim: "claim_in (rec status) = (claim_in owned)(path_str t := Claimed (H c))" for status
    by (simp add: rec_def claim_record)
  have grown: "grown H D F0 C0 (files w) (claims w)" using g by (simp add: growing_def)
  have td: "t \<in> fst ` set D" using d by force
  have pl: "placed H D F0 t (H c)" using grown_None [OF grown t(1)] d c unfolding placed_def by blast
  let ?dir = "\<lambda>w'. ?G w' \<and> claims w' = claim_in owned"
  let ?prep = "\<lambda>w'. ?G w' \<and> claims w' = claim_in (rec ''preparing'')"
  let ?done = "\<lambda>w'. ?G w' \<and> claims w' = claim_in (rec ''preparing'') \<and> (\<exists>b. files w' t = Some (Regular b) \<and> H b = H c)"
  let ?ready = "\<lambda>w'. ?G w' \<and> claims w' = claim_in (rec ''ready'') \<and> (\<exists>b. files w' t = Some (Regular b) \<and> H b = H c)"
  have dir: "outcome sure (mkdir_all (butlast t)) w (\<lambda>_. ?dir) ?G"
  proof (rule mkdir_outcome [OF t(2)])
    fix w' assume o: "open_way (\<lambda>q. file_of q w) t" and w': "tw_state w' = tw_state w" "(\<lambda>q. file_of q w') = with_parents t (\<lambda>q. file_of q w)"
    have "loaded w' = loaded w" using w'(1) by (simp add: loaded_def load_state_def)
    moreover then have "claims w' = claims w" by (simp add: claims_def)
    moreover have "files w' = with_parents t (files w)" using w'(2) by (simp add: files_def fun_eq_iff with_parents_def)
    moreover have "open_way (files w) t" using o by (simp add: open_way_def files_def)
    ultimately show "?dir w'" using g C grown_parents [OF grown _ td] by (auto simp: growing_def)
  qed (use growing_store [OF g] sure in \<open>auto simp: open_way_def files_def\<close>)
  have prep: "outcome sure (persist_state (with_owned state (rec ''preparing''))) w' (\<lambda>_. ?prep) ?G" if "?dir w'" for w'
    using that grown_claim [OF _ pl] by (intro persist_growing [OF st]) (auto simp: growing_def claim)
  have place: "outcome sure (place_file H s t (H c)) w' (\<lambda>_. ?done) ?G" if "?prep w'" for w'
  proof (rule place_outcome)
    fix w'' b assume b: "H b = H c" and w'': "store w'' = (dict_set (tw_files w') t (Regular b), tw_state w')"
    have "loaded w'' = loaded w'" using w'' by (simp add: store_def loaded_def load_state_def)
    moreover then have "claims w'' = claims w'" by (simp add: claims_def)
    moreover have "files w'' = (files w')(t \<mapsto> Regular b)" using w'' by (simp add: store_def files_def file_of_def fun_eq_iff)
    ultimately show "?done w'' \<and> ?G w''" using that b grown_file [of H D F0 C0 "files w'" _ t b] pl
      by (auto simp: growing_def claim)
  next
    have "files w' s = Some (Regular c)" using that c grown_regular by (auto simp: growing_def)
    then show "\<exists>b. file_of s w' = Some (Regular b) \<and> H b = H c" by (simp add: files_def)
  qed (use that growing_store in blast)
  have ready: "outcome sure (persist_state (with_owned state (rec ''ready''))) w' (\<lambda>_. ?ready) ?G" if "?done w'" for w'
    using that by (intro persist_growing [OF st]) (auto simp: growing_def claim)
  show ?thesis
    unfolding create_file_def split nm Let_def rec_def [symmetric]
    by (rule outcome_bind [OF dir], rule outcome_bind [OF prep], assumption, rule outcome_bind [OF place], assumption,
        rule outcome_bind [OF ready], assumption, rule outcome_return) (use Q in blast)
qed

lemma materialize_file_outcome:
  assumes st: "good_state state" "dget state ''active_design_id'' = act" and g: "growing H D F0 C0 act w"
    and C: "claims w = claim_in owned" and src: "sources D F0" and d: "d \<in> set D"
    and sure: "sure \<Longrightarrow> feasible H D F0 C0"
  shows "outcome sure (materialize_file H state d (owned, ct)) w
    (\<lambda>(owned', ct') w'. growing H D F0 C0 act w' \<and> claims w' = claim_in owned' \<and> settled H F0 (files w') d) (growing H D F0 C0 act)"
    (is "outcome sure _ w ?Q ?G")
proof -
  obtain t s nm where t: "d = (t, s, nm)" by (metis prod_cases3)
  obtain c where c: "F0 s = Some (Regular c)" and "t \<noteq> []" using src d t by (auto simp: sources_def)
  have gr: "grown H D F0 C0 (files w) (claims w)" using g by (simp add: growing_def)
  then have s: "files w s = Some (Regular c)" using c grown_regular by blast
  have f: "feasible H D (files w) (claims w)" if sure using grown_feasible [OF gr src] assms(7) that by blast
  have ft: "claim_in owned (path_str t) \<noteq> Broken" "case files w t of None \<Rightarrow> open_way (files w) t | Some n \<Rightarrow> \<exists>b. n = Regular b \<and> H b = H c" if sure
    using f [OF that] d t s C by (auto simp: feasible_def split: option.splits)
  have "outcome sure (case file_of t w' of Some n \<Rightarrow> reuse_file H state t (H c) n (owned, ct)
           | None \<Rightarrow> create_file H state t (s, nm) (H c) (file_size s w') (owned, ct)) w' ?Q ?G" if w': "store w' = store w" for w'
  proof -
    note e = store_eq [OF w'] and g' = growing_store [OF g w']
    show ?thesis
    proof (cases "files w t")
      case None
      then have "outcome sure (create_file H state t (s, nm) (H c) (file_size s w') (owned, ct)) w' ?Q ?G"
        using ft by (intro create_outcome [OF st g']) (use e C d t c \<open>t \<noteq> []\<close> in \<open>auto simp: settled_def\<close>)
      then show ?thesis using None store_files [OF w', of t] by (simp add: files_def)
    next
      case (Some n)
      then have "outcome sure (reuse_file H state t (H c) n (owned, ct)) w' ?Q ?G"
        using ft by (intro reuse_outcome [OF st g']) (use e C d t c in \<open>auto simp: settled_def\<close>)
      then show ?thesis using Some store_files [OF w', of t] by (simp add: files_def)
    qed
  qed
  then have rest: "outcome sure (bind_act (get_act (file_size s)) (\<lambda>sz. bind_act (get_act (file_of t)) (\<lambda>n. case n of
       Some node \<Rightarrow> reuse_file H state t (H c) node (owned, ct) | None \<Rightarrow> create_file H state t (s, nm) (H c) sz (owned, ct)))) w' ?Q ?G"
    if "store w' = store w" for w'
    using that by (intro outcome_bind_get) (simp split: option.splits)
  have fs: "file_of s w = Some (Regular c)" using s by (simp add: files_def)
  show ?thesis
    unfolding materialize_file_def t split
    by (rule outcome_bind [where Q' = "\<lambda>h w'. h = H c \<and> store w' = store w"], rule sha256_file_outcome)
      (use fs growing_store [OF g] rest t in auto)
qed

text \<open>The files after a part of the loop can be taken as the new base; a settled target then stays settled.\<close>

lemma sources_grown: "sources D F0 \<Longrightarrow> grown H D F0 C0 F C \<Longrightarrow> sources D F"
  using grown_regular [of H D F0 C0 F C] unfolding sources_def by fast

lemma growing_base: "growing H D F0 C0 act w \<Longrightarrow> growing H D (files w) (claims w) act w"
  by (simp add: growing_def grown_refl)

lemma settled_grown: "settled H F0 F d \<Longrightarrow> grown H D F C F' C' \<Longrightarrow> settled H F0 F' d"
  using grown_regular [of H D F C F' C'] by (auto simp: settled_def)

lemma outcome_conj:
  "outcome sure m w Q E \<Longrightarrow> outcome sure m w Q' E' \<Longrightarrow> outcome sure m w (\<lambda>x w'. Q x w' \<and> Q' x w') (\<lambda>w'. E w' \<and> E' w')"
  by (auto simp: outcome_def split: prod.splits sum.splits)

lemma materialize_loop_outcome:
  assumes st: "good_state state" "dget state ''active_design_id'' = act" and "sources D F0"
    and "sure \<Longrightarrow> feasible H D F0 C0" and "growing H D F0 C0 act w" and "claims w = claim_in owned" and "set ds \<subseteq> set D"
  shows "outcome sure (materialize_loop H state ds (owned, ct)) w
    (\<lambda>(owned', ct') w'. growing H D F0 C0 act w' \<and> claims w' = claim_in owned' \<and> (\<forall>d \<in> set ds. settled H F0 (files w') d)) (growing H D F0 C0 act)"
  using assms(3-)
proof (induction ds arbitrary: owned ct w F0 C0)
  case Nil
  then show ?case by (simp add: outcome_return)
next
  case (Cons d ds)
  have "outcome sure (materialize_loop H state ds (owned1, ct1)) w1
      (\<lambda>(owned', ct') w'. growing H D F0 C0 act w' \<and> claims w' = claim_in owned' \<and> (\<forall>d' \<in> set (d # ds). settled H F0 (files w') d')) (growing H D F0 C0 act)"
    if w1: "growing H D F0 C0 act w1" "claims w1 = claim_in owned1" "settled H F0 (files w1) d" for owned1 ct1 w1
  proof -
    have gr: "grown H D F0 C0 (files w1) (claims w1)" using w1(1) by (simp add: growing_def)
    note base = Cons.IH [OF sources_grown [OF Cons.prems(1) gr] grown_feasible [OF gr Cons.prems(1,2)] growing_base [OF w1(1)] w1(2)]
      and same = Cons.IH [OF Cons.prems(1,2) w1(1,2)]
    have sub: "set ds \<subseteq> set D" using Cons.prems(5) by simp
    show ?thesis
      by (rule outcome_mono [OF outcome_conj [OF same [OF _ sub] base [OF _ sub]]])
        (auto simp: growing_def intro: settled_grown [OF w1(3)])
  qed
  then show ?case
    unfolding materialize_loop.simps
    by (intro outcome_bind [OF materialize_file_outcome [OF st Cons.prems(3,4,1) _ Cons.prems(2)]])
      (use Cons.prems(5) in auto)
qed

section \<open>Shrinking\<close>

text \<open>
  The second loop, against the files and claims at its start: a path is as it was or is gone; it goes only if it lies below the root and was a
  file with the fingerprint a claim outside the design records for it. A claim is as it was or is given up.
\<close>

definition safe_target :: "executor \<Rightarrow> path \<Rightarrow> bool" where
  "safe_target ex p \<longleftrightarrow> strict_prefix (ex_materialization_root ex) p"

lemma require_safe_target_Inr [result_simps]: "require_safe_target ex p = Inr u \<longleftrightarrow> safe_target ex p"
  by (auto simp: require_safe_target_def safe_target_def strict_prefix_def result_simps)

definition removable :: "(bytes \<Rightarrow> string) \<Rightarrow> transition_env \<Rightarrow> executor \<Rightarrow> string set \<Rightarrow> (path \<Rightarrow> fs_node option) \<Rightarrow> (string \<Rightarrow> claim) \<Rightarrow> path \<Rightarrow> bool" where
  "removable H env ex R F C p \<longleftrightarrow>
     (\<exists>raw b. raw \<in> R \<and> te_resolve env raw = Some p \<and> safe_target ex p \<and> F p = Some (Regular b) \<and> C raw = Claimed (H b))"

definition shrunk ::
  "(bytes \<Rightarrow> string) \<Rightarrow> transition_env \<Rightarrow> executor \<Rightarrow> string set \<Rightarrow> (path \<Rightarrow> fs_node option) \<Rightarrow> (string \<Rightarrow> claim)
   \<Rightarrow> (path \<Rightarrow> fs_node option) \<Rightarrow> (string \<Rightarrow> claim) \<Rightarrow> bool" where
  "shrunk H env ex R F1 C1 F C \<longleftrightarrow>
     (\<forall>p. F p = F1 p \<or> F p = None \<and> removable H env ex R F1 C1 p)
     \<and> (\<forall>raw. C raw = C1 raw \<or> raw \<in> R \<and> C raw = Unclaimed \<and> (\<exists>p. te_resolve env raw = Some p \<and> F p = None))"

lemma shrunk_refl: "shrunk H env ex R F C F C"
  by (simp add: shrunk_def)

definition shrinking ::
  "(bytes \<Rightarrow> string) \<Rightarrow> transition_env \<Rightarrow> executor \<Rightarrow> string set \<Rightarrow> (path \<Rightarrow> fs_node option) \<Rightarrow> (string \<Rightarrow> claim) \<Rightarrow> json \<Rightarrow> tworld \<Rightarrow> bool" where
  "shrinking H env ex R F1 C1 act w \<longleftrightarrow>
     shrunk H env ex R F1 C1 (files w) (claims w) \<and> (\<exists>state. loaded w = Inr state \<and> sort_keys (dget state ''active_design_id'') = sort_keys act)"

lemma shrinking_store: "shrinking H env ex R F1 C1 act w \<Longrightarrow> store w' = store w \<Longrightarrow> shrinking H env ex R F1 C1 act w'"
  using store_eq [of w' w] by (simp add: shrinking_def)

lemma claim_del: "claim_in (dict_del owned raw) = (claim_in owned)(raw := Unclaimed)"
  by (auto simp: claim_in_def fun_eq_iff)

lemma unlink_outcome:
  assumes "\<And>w'. store w' = store w \<Longrightarrow> E w'"
    and "\<And>w'. files w' = (files w)(p := None) \<Longrightarrow> loaded w' = loaded w \<Longrightarrow> claims w' = claims w \<Longrightarrow> Q () w'"
  shows "outcome sure (unlink_file p) w Q E"
  unfolding unlink_file_def
proof (rule outcome_call)
  let ?w = "w\<lparr>tw_faults := tl (tw_faults w)\<rparr>"
  have "loaded (?w\<lparr>tw_files := dict_del (tw_files ?w) p\<rparr>) = loaded w" by (simp add: loaded_def load_state_def)
  moreover then have "claims (?w\<lparr>tw_files := dict_del (tw_files ?w) p\<rparr>) = claims w" by (simp add: claims_def)
  moreover have "files (?w\<lparr>tw_files := dict_del (tw_files ?w) p\<rparr>) = (files w)(p := None)"
    by (simp add: files_def file_of_def fun_eq_iff)
  ultimately show "Q () (?w\<lparr>tw_files := dict_del (tw_files ?w) p\<rparr>)" using assms(2) by simp
qed (use assms(1) in simp_all)

end
