(* ===== verification/Transition_Run.thy ===== *)
theory Transition_Run
  imports Transition_Effect
begin

text \<open>The second loop of a transition and the transition as a whole, on every run.\<close>

section \<open>The second loop\<close>

definition retirable ::
  "(bytes \<Rightarrow> string) \<Rightarrow> transition_env \<Rightarrow> executor \<Rightarrow> (path \<Rightarrow> fs_node option) \<Rightarrow> (string \<Rightarrow> claim) \<Rightarrow> string \<Rightarrow> bool" where
  "retirable H env ex F C raw \<longleftrightarrow>
     (\<exists>p. te_resolve env raw = Some p \<and> safe_target ex p \<and> (F p = None \<or> (\<exists>b. F p = Some (Regular b) \<and> C raw = Claimed (H b))))"

definition retired :: "transition_env \<Rightarrow> (path \<Rightarrow> fs_node option) \<Rightarrow> (string \<Rightarrow> claim) \<Rightarrow> string \<Rightarrow> bool" where
  "retired env F C raw \<longleftrightarrow> C raw = Unclaimed \<and> (\<exists>p. te_resolve env raw = Some p \<and> F p = None)"

lemma retirable_shrunk: "retirable H env ex F1 C1 raw \<Longrightarrow> shrunk H env ex R F1 C1 F C \<Longrightarrow> retirable H env ex F C raw"
  unfolding retirable_def shrunk_def by (metis option.inject)

lemma retired_shrunk: "retired env F1 C1 raw \<Longrightarrow> shrunk H env ex R F1 C1 F C \<Longrightarrow> retired env F C raw"
  unfolding retired_def shrunk_def by metis

lemma shrinking_base: "shrinking H env ex R F1 C1 act w \<Longrightarrow> shrinking H env ex R (files w) (claims w) act w"
  by (simp add: shrinking_def shrunk_refl)

lemma claim_Claimed: "dget owned raw = JObj m \<Longrightarrow> dget m ''sha256'' = JStr d \<Longrightarrow> claim_in owned raw = Claimed d"
  using dget_key [of owned raw] by (simp add: claim_in_def)

lemma claimed_record: "claim_in owned raw = Claimed d \<Longrightarrow> \<exists>m. dget owned raw = JObj m \<and> dget m ''sha256'' = JStr d"
  by (auto simp: claim_in_def split: if_splits json.splits)

lemma shrunk_remove:
  assumes s: "shrunk H env ex R F1 C1 F C" and "raw \<in> R" "te_resolve env raw = Some p" "safe_target ex p"
    and b: "F p = Some (Regular b)" "C raw = Claimed (H b)"
  shows "shrunk H env ex R F1 C1 (F(p := None)) C"
proof -
  have "F1 p = Some (Regular b)" using s b(1) unfolding shrunk_def by (metis option.distinct(1))
  moreover have "C1 raw = Claimed (H b)" using s b(2) unfolding shrunk_def by (metis claim.distinct(3))
  ultimately have "removable H env ex R F1 C1 p" using assms(2-4) by (auto simp: removable_def)
  then show ?thesis using s unfolding shrunk_def by (metis fun_upd_apply)
qed

lemma remove_outcome:
  assumes g: "shrinking H env ex R F1 C1 act w" and C: "claims w = claim_in owned"
    and raw: "raw \<in> R" "te_resolve env raw = Some p" "safe_target ex p"
    and Q: "\<And>ct' w'. shrinking H env ex R F1 C1 act w' \<Longrightarrow> claims w' = claims w \<Longrightarrow> files w' p = None \<Longrightarrow> Q ct' w'"
    and sure: "sure \<Longrightarrow> retirable H env ex (files w) (claims w) raw"
  shows "outcome sure (remove_file H p (dget owned raw) ct) w Q (shrinking H env ex R F1 C1 act)" (is "outcome sure _ w Q ?G")
proof (cases "files w p")
  case None
  then have "outcome sure (return_act ct) w Q ?G" using g by (intro outcome_return Q) auto
  then show ?thesis unfolding remove_file_def using None by (intro outcome_bind_get) (simp add: files_def)
next
  case (Some n)
  have sure': "\<exists>b. n = Regular b \<and> claims w raw = Claimed (H b)" if sure
    using sure [OF that] raw(2) Some by (auto simp: retirable_def)
  have fo: "file_of p w = Some n" using Some by (simp add: files_def)
  have tail: "outcome sure (bind_act (get_act (file_size p)) (\<lambda>sz. bind_act (unlink_file p) (\<lambda>_. return_act (f sz)))) w' Q ?G"
    if w': "store w' = store w" and b: "n = Regular b" "claims w raw = Claimed (H b)" for w' b f
  proof (rule outcome_bind_get, rule outcome_bind)
    note e = store_eq [OF w'] and g' = shrinking_store [OF g w']
    show "outcome sure (unlink_file p) w' (\<lambda>_ w''. ?G w'' \<and> claims w'' = claims w \<and> files w'' p = None) ?G"
    proof (rule unlink_outcome)
      fix w'' assume w'': "files w'' = (files w')(p := None)" "loaded w'' = loaded w'" "claims w'' = claims w'"
      have "shrunk H env ex R F1 C1 ((files w)(p := None)) (claims w)"
        using g Some b by (intro shrunk_remove [OF _ raw]) (auto simp: shrinking_def)
      then show "?G w'' \<and> claims w'' = claims w \<and> files w'' p = None" using w'' e g' by (simp add: shrinking_def)
    qed (use shrinking_store [OF g'] in blast)
  qed (use Q in \<open>auto intro!: outcome_return\<close>)
  have check: "outcome sure (case dget owned raw of
         JObj m \<Rightarrow> guard_act (JStr (H b) = dget m ''sha256'') e
            (bind_act (get_act (file_size p)) (\<lambda>sz. bind_act (unlink_file p) (\<lambda>_. return_act (f sz))))
       | _ \<Rightarrow> raise_act TransitionAttributeError) w' Q ?G"
    if w': "store w' = store w" and b: "n = Regular b" for w' b e f
  proof (cases "claims w raw = Claimed (H b)")
    case True
    then obtain m where "dget owned raw = JObj m" "dget m ''sha256'' = JStr (H b)" using C claimed_record by metis
    then show ?thesis using tail [OF w' b True] by (simp add: guard_act_def)
  next
    case False
    then have "\<not> sure" using sure' b by auto
    moreover have "JStr (H b) \<noteq> dget m ''sha256''" if "dget owned raw = JObj m" for m
      using claim_Claimed [OF that] False C by metis
    ultimately show ?thesis using shrinking_store [OF g w']
      by (auto simp: guard_act_def intro: outcome_raise split: json.splits)
  qed
  show ?thesis
    unfolding remove_file_def is_file_iff
  proof (rule outcome_bind_get, unfold fo option.case, rule outcome_guard)
    assume "\<exists>b. n = Regular b"
    then obtain b where b: "n = Regular b" by blast
    show "outcome sure (bind_act (sha256_file H p) (\<lambda>digest. case dget owned raw of
         JObj m \<Rightarrow> guard_act (JStr digest = dget m ''sha256'') (TransitionError (''refusing to remove a modified materialization: '' @ path_str p))
            (bind_act (get_act (file_size p)) (\<lambda>sz. bind_act (unlink_file p) (\<lambda>_. return_act (ct\<lparr>ct_removed := ct_removed ct + sz, ct_deleted := ct_deleted ct + 1\<rparr>))))
       | _ \<Rightarrow> raise_act TransitionAttributeError)) w Q ?G"
      by (rule outcome_bind [where Q' = "\<lambda>d w'. d = H b \<and> store w' = store w"], rule sha256_file_outcome)
        (use fo b shrinking_store [OF g] check in auto)
  qed (use g sure' in auto)
qed

lemma retire_file_outcome:
  assumes st: "good_state state" "dget state ''active_design_id'' = act" and g: "shrinking H env ex R F1 C1 act w"
    and C: "claims w = claim_in owned" and raw: "raw \<in> R"
    and sure: "sure \<Longrightarrow> retirable H env ex (files w) (claims w) raw"
  shows "outcome sure (retire_file H env ex state raw (owned, ct)) w
    (\<lambda>(owned', ct') w'. shrinking H env ex R F1 C1 act w' \<and> claims w' = claim_in owned' \<and> retired env (files w') (claims w') raw
       \<and> owned' = dict_del owned raw) (shrinking H env ex R F1 C1 act)" (is "outcome sure _ w ?Q ?G")
proof (cases "te_resolve env raw")
  case None
  then have "\<not> sure" using sure by (auto simp: retirable_def)
  then show ?thesis using None g by (simp add: retire_file_def outcome_raise)
next
  case (Some p)
  have safe: "safe_target ex p" if sure using sure [OF that] Some by (auto simp: retirable_def)
  let ?o = "dict_del owned raw"
  have last: "outcome sure (bind_act (persist_state (with_owned state ?o)) (\<lambda>_. return_act (?o, ct'))) w' ?Q ?G"
    if w': "?G w'" "claims w' = claims w" "files w' p = None" for w' ct'
  proof (rule outcome_bind [where Q' = "\<lambda>_ w''. ?Q (?o, ct') w''"])
    have new: "shrunk H env ex R F1 C1 (files w') (claim_in ?o)"
      using w' raw Some C unfolding shrinking_def shrunk_def claim_del by (metis fun_upd_apply)
    show "outcome sure (persist_state (with_owned state ?o)) w' (\<lambda>_ w''. ?Q (?o, ct') w'') ?G"
    proof (rule persist_claims [OF st(1)])
      fix w'' assume w'': "files w'' = files w'" "loaded w'' = Inr (loads_dict (with_owned state ?o))" "claims w'' = claim_in ?o"
      have "dget (loads_dict (with_owned state ?o)) ''active_design_id'' = sort_keys act"
        using st(2) by (simp add: dget_sorted with_owned_def)
      then have "?G w''" using new w'' by (simp add: shrinking_def sort_keys_idem)
      moreover have "retired env (files w'') (claims w'') raw" using w'' w' Some by (simp add: retired_def claim_del)
      ultimately show "?Q (?o, ct') w'' \<and> ?G w''" using w'' by simp
    qed (use w' in \<open>auto simp: shrinking_def\<close>)
  qed (rule outcome_return)
  have body: "outcome sure (bind_act (remove_file H p (dget owned raw) ct) (\<lambda>ct'. bind_act (persist_state (with_owned state ?o)) (\<lambda>_. return_act (?o, ct')))) w' ?Q ?G"
    if "safe_target ex p" "w' = w" for w'
    unfolding that(2)
    by (rule outcome_bind [where Q' = "\<lambda>_ w'. ?G w' \<and> claims w' = claims w \<and> files w' p = None"],
        rule remove_outcome [OF g C raw Some that(1)]) (use sure last in auto)
  show ?thesis
    unfolding retire_file_def split Some option.case Let_def
    by (rule outcome_bind [where Q' = "\<lambda>_ w'. safe_target ex p \<and> w' = w"], rule outcome_lift)
      (use body g safe in \<open>auto simp: isOK_iff result_simps\<close>)
qed

lemma retire_loop_outcome:
  assumes st: "good_state state" "dget state ''active_design_id'' = act" and "shrinking H env ex R F1 C1 act w"
    and "claims w = claim_in owned" and "set ts \<subseteq> R" and "sure \<Longrightarrow> \<forall>raw \<in> set ts. retirable H env ex (files w) (claims w) raw"
  shows "outcome sure (retire_loop H env ex state ts (owned, ct)) w
    (\<lambda>(owned', ct') w'. shrinking H env ex R F1 C1 act w' \<and> claims w' = claim_in owned' \<and> (\<forall>raw \<in> set ts. retired env (files w') (claims w') raw))
    (shrinking H env ex R F1 C1 act)"
  using assms(3-)
proof (induction ts arbitrary: owned ct w F1 C1)
  case Nil
  then show ?case by (simp add: outcome_return)
next
  case (Cons t ts)
  have rest: "outcome sure (retire_loop H env ex state ts (owned1, ct1)) w1
      (\<lambda>(owned', ct') w'. shrinking H env ex R F1 C1 act w' \<and> claims w' = claim_in owned' \<and> (\<forall>raw \<in> set (t # ts). retired env (files w') (claims w') raw))
      (shrinking H env ex R F1 C1 act)"
    if w1: "shrinking H env ex R F1 C1 act w1" "claims w1 = claim_in owned1" "retired env (files w1) (claims w1) t"
      "shrinking H env ex R (files w) (claims w) act w1" for owned1 ct1 w1
  proof -
    have r: "\<forall>raw \<in> set ts. retirable H env ex (files w1) (claims w1) raw" if sure
      using Cons.prems(4) [OF that] w1(4) retirable_shrunk by (auto simp: shrinking_def)
    have sub: "set ts \<subseteq> R" using Cons.prems(3) by simp
    show ?thesis
      by (rule outcome_mono [OF outcome_conj [OF Cons.IH [OF w1(1,2) sub r] Cons.IH [OF shrinking_base [OF w1(1)] w1(2) sub r]]])
        (auto simp: shrinking_def intro: retired_shrunk [OF w1(3)])
  qed
  have head: "outcome sure (retire_file H env ex state t (owned, ct)) w
      (\<lambda>(owned1, ct1) w1. shrinking H env ex R F1 C1 act w1 \<and> claims w1 = claim_in owned1 \<and> retired env (files w1) (claims w1) t
         \<and> shrinking H env ex R (files w) (claims w) act w1) (shrinking H env ex R F1 C1 act)"
    by (rule outcome_mono [OF outcome_conj [OF retire_file_outcome [OF st Cons.prems(1,2)]
          retire_file_outcome [OF st shrinking_base [OF Cons.prems(1)] Cons.prems(2)]]])
      (use Cons.prems(3,4) in auto)
  show ?case
    unfolding retire_loop.simps
  proof (rule outcome_bind [OF head])
    fix x :: "dict \<times> counts" and w1
    assume "(case x of (owned1, ct1) \<Rightarrow> \<lambda>w1. shrinking H env ex R F1 C1 act w1 \<and> claims w1 = claim_in owned1 \<and> retired env (files w1) (claims w1) t
      \<and> shrinking H env ex R (files w) (claims w) act w1) w1"
    then show "outcome sure (retire_loop H env ex state ts x) w1
      (\<lambda>(owned', ct') w'. shrinking H env ex R F1 C1 act w' \<and> claims w' = claim_in owned' \<and> (\<forall>raw \<in> set (t # ts). retired env (files w') (claims w') raw))
      (shrinking H env ex R F1 C1 act)" using rest [of w1 "fst x" "snd x"] by (auto simp: case_prod_unfold)
  qed
qed

section \<open>The desired files\<close>

lemma desired_file_Inr:
  "desired_file env ex fs ms oid found = Inr D \<longleftrightarrow>
     (\<exists>s t c. render_path env ex (ms_source_template ms) oid = Inr s \<and> render_path env ex (ms_target_template ms) oid = Inr t
        \<and> safe_target ex t \<and> s \<noteq> t \<and> t \<notin> fst ` set found \<and> map_of fs s = Some (Regular c) \<and> D = found @ [(t, s, oid, ms_representation_id ms)])"
proof -
  have new: "t \<notin> fst ` set found \<Longrightarrow> dict_set found t x = found @ [(t, x)]" for t x and found :: desired
    by (induction found) auto
  have node: "(case n of Some (Regular _) \<Rightarrow> Inr x | _ \<Rightarrow> Inl e) = Inr y \<longleftrightarrow> (\<exists>c. n = Some (Regular c)) \<and> x = y" for n e and x y :: desired
    by (auto split: option.splits fs_node.splits)
  show ?thesis
    unfolding desired_file_def result_simps node map_of_eq_None_iff using new by metis
qed

lemma desired_loop_files:
  "desired_loop env ex fs xs found = Inr D \<Longrightarrow> \<exists>D'. D = found @ D' \<and>
     (\<forall>(t, s, nm) \<in> set D'. safe_target ex t \<and> s \<noteq> t \<and> (\<exists>c. map_of fs s = Some (Regular c)) \<and> (\<exists>x. te_resolve env x = Some t))
     \<and> (distinct (map fst found) \<longrightarrow> distinct (map fst D))
     \<and> (\<forall>fs'. (\<forall>(t, s, nm) \<in> set D'. \<exists>c. map_of fs' s = Some (Regular c)) \<longrightarrow> desired_loop env ex fs' xs found = Inr D)"
proof (induction env ex fs xs found rule: desired_loop.induct)
  case (2 env ex fs ms oid rest found)
  from "2.prems" obtain s t c where d: "render_path env ex (ms_source_template ms) oid = Inr s" "render_path env ex (ms_target_template ms) oid = Inr t"
      "safe_target ex t" "s \<noteq> t" "t \<notin> fst ` set found" "map_of fs s = Some (Regular c)"
    and loop: "desired_loop env ex fs rest (found @ [(t, s, oid, ms_representation_id ms)]) = Inr D"
    by (auto simp: result_simps desired_file_Inr)
  have res: "\<exists>x. te_resolve env x = Some t"
    using d(2) by (auto simp: render_path_def split: format_result.splits option.splits)
  from "2.IH" [OF loop] obtain D' where D': "D = (found @ [(t, s, oid, ms_representation_id ms)]) @ D'"
     "\<forall>(t, s, nm) \<in> set D'. safe_target ex t \<and> s \<noteq> t \<and> (\<exists>c. map_of fs s = Some (Regular c)) \<and> (\<exists>x. te_resolve env x = Some t)"
     "distinct (map fst (found @ [(t, s, oid, ms_representation_id ms)])) \<longrightarrow> distinct (map fst D)"
     "\<forall>fs'. (\<forall>(t, s, nm) \<in> set D'. \<exists>c. map_of fs' s = Some (Regular c)) \<longrightarrow>
        desired_loop env ex fs' rest (found @ [(t, s, oid, ms_representation_id ms)]) = Inr D"
    by blast
  have "desired_file env ex fs' ms oid found = Inr (found @ [(t, s, oid, ms_representation_id ms)])" if "\<exists>c. map_of fs' s = Some (Regular c)" for fs'
    using that d by (auto simp: desired_file_Inr)
  then show ?case
    using D' d res by (intro exI [of _ "(t, s, oid, ms_representation_id ms) # D'"]) auto
qed simp

lemma desired_files_sound:
  assumes "desired_files env ex fs design = Inr D"
  shows "\<forall>(t, s, nm) \<in> set D. safe_target ex t \<and> s \<noteq> t \<and> (\<exists>c. map_of fs s = Some (Regular c)) \<and> (\<exists>x. te_resolve env x = Some t)"
    and "distinct (map fst D)"
    and "(\<forall>(t, s, nm) \<in> set D. \<exists>c. map_of fs' s = Some (Regular c)) \<Longrightarrow> desired_files env ex fs' design = Inr D"
  using desired_loop_files [OF assms [unfolded desired_files_def]] by (auto simp: desired_files_def)

lemma desired_sources: "desired_files env ex (tw_files w) design = Inr D \<Longrightarrow> sources D (files w)"
  using desired_files_sound(1,2) [of env ex "tw_files w" design D]
  by (fastforce simp: sources_def files_def file_of_def safe_target_def)

section \<open>A transition\<close>

definition unwanted :: "desired \<Rightarrow> string set" where
  "unwanted D = - (path_str ` fst ` set D)"

definition transition_possible ::
  "(bytes \<Rightarrow> string) \<Rightarrow> transition_env \<Rightarrow> executor \<Rightarrow> desired \<Rightarrow> (path \<Rightarrow> fs_node option) \<Rightarrow> (string \<Rightarrow> claim) \<Rightarrow> bool" where
  "transition_possible H env ex D F C \<longleftrightarrow> feasible H D F C
     \<and> (\<forall>raw \<in> unwanted D. C raw \<noteq> Unclaimed \<longrightarrow> retirable H env ex F C raw
          \<and> (\<forall>p. te_resolve env raw = Some p \<longrightarrow> (\<forall>(t, s, nm) \<in> set D. \<not> prefix p t \<and> p \<noteq> s)))"

lemma possible_unwanted:
  assumes "transition_possible H env ex D F C" and "raw \<in> unwanted D" and "C raw \<noteq> Unclaimed"
  shows "retirable H env ex F C raw"
    and "te_resolve env raw = Some p \<Longrightarrow> \<forall>(t, s, nm) \<in> set D. \<not> prefix p t \<and> p \<noteq> s"
  using assms unfolding transition_possible_def by blast+

text \<open>The world between the two loops is hidden: the files grew from the first state and shrank to the last one.\<close>

definition moved ::
  "(bytes \<Rightarrow> string) \<Rightarrow> transition_env \<Rightarrow> executor \<Rightarrow> desired \<Rightarrow> (path \<Rightarrow> fs_node option) \<Rightarrow> (string \<Rightarrow> claim)
   \<Rightarrow> (path \<Rightarrow> fs_node option) \<Rightarrow> (string \<Rightarrow> claim) \<Rightarrow> bool" where
  "moved H env ex D F0 C0 F C \<longleftrightarrow> (\<exists>F1 C1. grown H D F0 C0 F1 C1 \<and> shrunk H env ex (unwanted D) F1 C1 F C)"

definition finished ::
  "(bytes \<Rightarrow> string) \<Rightarrow> transition_env \<Rightarrow> executor \<Rightarrow> desired \<Rightarrow> (path \<Rightarrow> fs_node option) \<Rightarrow> (string \<Rightarrow> claim)
   \<Rightarrow> (path \<Rightarrow> fs_node option) \<Rightarrow> (string \<Rightarrow> claim) \<Rightarrow> bool" where
  "finished H env ex D F0 C0 F C \<longleftrightarrow>
     (\<exists>F1 C1. grown H D F0 C0 F1 C1 \<and> shrunk H env ex (unwanted D) F1 C1 F C \<and> (\<forall>d \<in> set D. settled H F0 F1 d)
        \<and> (\<forall>raw \<in> unwanted D. C0 raw \<noteq> Unclaimed \<longrightarrow> retired env F C raw) \<and> (\<forall>raw \<in> unwanted D. C raw = Unclaimed))"

lemma finished_moved: "finished H env ex D F0 C0 F C \<Longrightarrow> moved H env ex D F0 C0 F C"
  by (auto simp: finished_def moved_def)

lemma unwanted_claim: "grown H D F0 C0 F1 C1 \<Longrightarrow> raw \<in> unwanted D \<Longrightarrow> C1 raw = C0 raw"
  unfolding grown_def unwanted_def placed_def by (metis ComplD fst_conv image_eqI)

lemma retirable_grown:
  assumes "grown H D F0 C0 F1 C1" and "raw \<in> unwanted D" and "retirable H env ex F0 C0 raw"
    and "\<And>p. te_resolve env raw = Some p \<Longrightarrow> \<forall>(t, s, nm) \<in> set D. \<not> prefix p t"
  shows "retirable H env ex F1 C1 raw"
proof -
  obtain p where p: "te_resolve env raw = Some p" "safe_target ex p" "F0 p = None \<or> (\<exists>b. F0 p = Some (Regular b) \<and> C0 raw = Claimed (H b))"
    using assms(3) by (auto simp: retirable_def)
  have "F1 p = F0 p" using assms(1) assms(4) [OF p(1)] unfolding grown_def placed_def strict_prefix_def by fastforce
  then show ?thesis using p unwanted_claim [OF assms(1,2)] by (auto simp: retirable_def)
qed

definition active_design :: "tworld \<Rightarrow> json" where
  "active_design w = (case loaded w of Inr state \<Rightarrow> dget state ''active_design_id'' | Inl _ \<Rightarrow> JNull)"

text \<open>What a run leaves behind when it does not return: nothing happened, or the design was being installed.\<close>

definition interrupted ::
  "(bytes \<Rightarrow> string) \<Rightarrow> transition_env \<Rightarrow> executor \<Rightarrow> desired \<Rightarrow> (path \<Rightarrow> fs_node option) \<Rightarrow> (string \<Rightarrow> claim) \<Rightarrow> tworld \<Rightarrow> bool" where
  "interrupted H env ex D F0 C0 w \<longleftrightarrow> moved H env ex D F0 C0 (files w) (claims w) \<and> isOK (loaded w)"

definition completed ::
  "(bytes \<Rightarrow> string) \<Rightarrow> transition_env \<Rightarrow> executor \<Rightarrow> desired \<Rightarrow> (path \<Rightarrow> fs_node option) \<Rightarrow> (string \<Rightarrow> claim) \<Rightarrow> string \<Rightarrow> tworld \<Rightarrow> bool" where
  "completed H env ex D F0 C0 to w \<longleftrightarrow>
     finished H env ex D F0 C0 (files w) (claims w) \<and> isOK (loaded w) \<and> active_design w = JStr to"

lemma completed_interrupted: "completed H env ex D F0 C0 to w \<Longrightarrow> interrupted H env ex D F0 C0 w"
  by (simp add: completed_def interrupted_def finished_moved)

lemma completed_store: "completed H env ex D F0 C0 to w \<Longrightarrow> store w' = store w \<Longrightarrow> completed H env ex D F0 C0 to w'"
  using store_eq [of w' w] by (simp add: completed_def active_design_def)

text \<open>The last step: the active design is recorded.\<close>

lemma persist_active:
  assumes st: "good_state state" and int: "interrupted H env ex D F0 C0 w"
    and fin: "finished H env ex D F0 C0 (files w) (claim_in owned)"
  shows "outcome sure (persist_state (dict_set (with_owned state owned) ''active_design_id'' (JStr to))) w
    (\<lambda>_. completed H env ex D F0 C0 to) (interrupted H env ex D F0 C0)"
proof (rule persist_outcome)
  fix w' assume "store w' = store w"
  from store_eq [OF this] show "interrupted H env ex D F0 C0 w'" using int by (simp add: interrupted_def)
next
  let ?s = "dict_set (with_owned state owned) ''active_design_id'' (JStr to)"
  fix w' assume w': "store w' = (tw_files w, StateDocument (sort_keys (JObj ?s)))"
  then have f: "files w' = files w" and s: "tw_state w' = StateDocument (sort_keys (JObj ?s))"
    by (simp_all add: store_def files_def file_of_def fun_eq_iff)
  have "good_state ?s" "dget ?s ''owned_files'' = JObj owned" using st by (simp_all add: good_state_def with_owned_def)
  note p = persisted [OF s this]
  then have "completed H env ex D F0 C0 to w'" using fin f by (simp add: completed_def active_design_def dget_sorted)
  then show "completed H env ex D F0 C0 to w' \<and> interrupted H env ex D F0 C0 w'" using completed_interrupted by blast
qed

lemma claim_Unclaimed: "claim_in owned raw = Unclaimed \<longleftrightarrow> raw \<notin> keys owned"
  by (simp add: claim_in_def split: json.split)

lemma obsolete_set: "set (obsolete D owned) = {raw \<in> unwanted D. claim_in owned raw \<noteq> Unclaimed}"
  unfolding claim_Unclaimed by (auto simp: obsolete_def unwanted_def keys_def)

text \<open>The two loops in sequence.\<close>

definition install :: "(bytes \<Rightarrow> string) \<Rightarrow> transition_env \<Rightarrow> executor \<Rightarrow> dict \<Rightarrow> desired \<Rightarrow> dict \<times> counts \<Rightarrow> (dict \<times> counts) act" where
  "install H env ex state D acc =
     bind_act (materialize_loop H state D acc) (\<lambda>(owned, ct). retire_loop H env ex state (obsolete D owned) (owned, ct))"

lemma install_outcome:
  assumes w: "loaded w = Inr state" and src: "sources D (files w)"
    and sure: "sure \<Longrightarrow> transition_possible H env ex D (files w) (claims w)"
  shows "outcome sure (install H env ex state D (owned_of state, ct)) w
    (\<lambda>(owned, ct') w'. interrupted H env ex D (files w) (claims w) w' \<and> finished H env ex D (files w) (claims w) (files w') (claim_in owned))
    (interrupted H env ex D (files w) (claims w))"
proof -
  let ?act = "dget state ''active_design_id''" and ?F0 = "files w" and ?C0 = "claims w"
  let ?G = "growing H D ?F0 ?C0 ?act" and ?I = "interrupted H env ex D ?F0 ?C0"
  have st: "good_state state" by (rule loaded_good [OF w])
  have g: "?G w" using w by (simp add: growing_def grown_refl)
  have gI: "?I w'" if "?G w'" for w'
    using that shrunk_refl unfolding growing_def interrupted_def moved_def isOK_iff by metis
  have first: "outcome sure (materialize_loop H state D (owned_of state, ct)) w
      (\<lambda>(owned', ct') w'. ?G w' \<and> claims w' = claim_in owned' \<and> (\<forall>d \<in> set D. settled H ?F0 (files w') d)) ?I"
    by (rule outcome_mono [OF materialize_loop_outcome [OF st refl src _ g]])
      (use sure gI claims_loaded [OF w] in \<open>auto simp: transition_possible_def\<close>)
  have second: "outcome sure (retire_loop H env ex state (obsolete D owned1) (owned1, ct1)) w1
      (\<lambda>(owned, ct') w'. ?I w' \<and> finished H env ex D ?F0 ?C0 (files w') (claim_in owned)) ?I"
    if w1: "?G w1" "claims w1 = claim_in owned1" "\<forall>d \<in> set D. settled H ?F0 (files w1) d" for owned1 ct1 w1
  proof -
    let ?S = "shrinking H env ex (unwanted D) (files w1) (claims w1) ?act"
    have gr: "grown H D ?F0 ?C0 (files w1) (claims w1)" and l: "isOK (loaded w1)" using w1(1) by (auto simp: growing_def isOK_iff)
    have base: "?S w1" using w1(1) by (simp add: growing_def shrinking_def shrunk_refl)
    have ret: "\<forall>raw \<in> set (obsolete D owned1). retirable H env ex (files w1) (claims w1) raw" if sure
    proof
      fix raw assume "raw \<in> set (obsolete D owned1)"
      then have raw: "raw \<in> unwanted D" "?C0 raw \<noteq> Unclaimed"
        using w1(2) unwanted_claim [OF gr] by (auto simp: obsolete_set)
      then show "retirable H env ex (files w1) (claims w1) raw"
        using possible_unwanted [OF assms(3) [OF that] raw] by (intro retirable_grown [OF gr raw(1)]) fast+
    qed
    have SI: "?I w'" if "?S w'" for w' using that gr by (auto simp: shrinking_def interrupted_def moved_def isOK_iff)
    have fin: "finished H env ex D ?F0 ?C0 (files w') (claims w')"
      if s: "?S w'" and r: "\<forall>raw \<in> set (obsolete D owned1). retired env (files w') (claims w') raw" for w'
    proof -
      have sh: "shrunk H env ex (unwanted D) (files w1) (claims w1) (files w') (claims w')" using s by (simp add: shrinking_def)
      have "claims w' raw = Unclaimed" "?C0 raw \<noteq> Unclaimed \<Longrightarrow> retired env (files w') (claims w') raw" if raw: "raw \<in> unwanted D" for raw
      proof -
        have C: "claims w1 raw = ?C0 raw" by (rule unwanted_claim [OF gr raw])
        show ret: "retired env (files w') (claims w') raw" if "?C0 raw \<noteq> Unclaimed"
          using that r raw C w1(2) by (auto simp: obsolete_set)
        show "claims w' raw = Unclaimed"
        proof (cases "?C0 raw = Unclaimed")
          case True
          then show ?thesis using sh C unfolding shrunk_def by metis
        qed (use ret in \<open>simp add: retired_def\<close>)
      qed
      then show ?thesis using gr sh w1(3) unfolding finished_def by blast
    qed
    have sub: "set (obsolete D owned1) \<subseteq> unwanted D" by (auto simp: obsolete_set)
    show ?thesis
      by (rule outcome_mono [OF retire_loop_outcome [OF st refl base w1(2) sub ret]]) (use SI fin in \<open>auto, metis\<close>)
  qed
  show ?thesis
    unfolding install_def by (rule outcome_bind [OF first]) (use second in auto)
qed

lemma bind_assoc: "bind_act (bind_act m f) g = bind_act m (\<lambda>x. bind_act (f x) g)"
  by (auto simp: bind_act_def fun_eq_iff split: prod.splits sum.splits)

lemma outcome_load:
  assumes "\<And>state. loaded w = Inr state \<Longrightarrow> outcome sure (f state) w Q E" and "\<not> isOK (loaded w) \<Longrightarrow> E w \<and> \<not> sure"
  shows "outcome sure (bind_act load_state f) w Q E"
proof -
  have "load_state w = (w, loaded w)" by (simp add: load_state_def loaded_def)
  then show ?thesis using assms by (cases "loaded w") (auto simp: outcome_def bind_act_def)
qed

text \<open>
  A transition on every run: it starts only for a known design, a state file that loads and a plan that can be drawn up; otherwise the world is
  unchanged.
\<close>

theorem transition_outcome:
  assumes sure: "sure \<Longrightarrow> type \<in> {''activate'', ''forward'', ''restore''} \<and> isOK (loaded w)
      \<and> (\<exists>design D. map_of (ex_designs ex) to = Some design \<and> desired_files env ex (tw_files w) design = Inr D
           \<and> transition_possible H env ex D (files w) (claims w))"
  shows "outcome sure (transition H env ex to type) w
    (\<lambda>ob w'. \<exists>design D. map_of (ex_designs ex) to = Some design \<and> desired_files env ex (tw_files w) design = Inr D
       \<and> completed H env ex D (files w) (claims w) to w')
    (\<lambda>w'. w' = w \<or> (\<exists>design D. map_of (ex_designs ex) to = Some design \<and> desired_files env ex (tw_files w) design = Inr D
       \<and> interrupted H env ex D (files w) (claims w) w'))" (is "outcome sure _ w ?Q ?E")
proof (cases "map_of (ex_designs ex) to")
  case None
  then have "\<not> sure" using sure by auto
  then show ?thesis unfolding transition_def None option.case by (intro outcome_guard outcome_raise) auto
next
  case (Some design)
  have tail: "outcome sure (bind_act (persist_state (dict_set (with_owned state owned) ''active_design_id'' (JStr to))) (\<lambda>_.
         bind_act (get_act g) (\<lambda>active_bytes. bind_act (write_json (\<lambda>v w. w\<lparr>tw_plan := Some v\<rparr>) plan) (\<lambda>_. return_act (ob active_bytes))))) w' ?Q ?E"
    if D: "desired_files env ex (tw_files w) design = Inr D" and st: "good_state state"
      and w': "interrupted H env ex D (files w) (claims w) w'" "finished H env ex D (files w) (claims w) (files w') (claim_in owned)"
    for D state owned w' g plan ob
  proof (rule outcome_bind, rule outcome_mono [OF persist_active [OF st w']])
    fix w'' assume c: "completed H env ex D (files w) (claims w) to w''"
    have "outcome sure (bind_act (write_json (\<lambda>v w. w\<lparr>tw_plan := Some v\<rparr>) plan) (\<lambda>_. return_act (ob n))) w'' ?Q ?E" for n
      by (rule outcome_bind [where Q' = "\<lambda>_. completed H env ex D (files w) (claims w) to"], rule plan_outcome)
        (use completed_store [OF c] completed_interrupted Some D in \<open>blast intro: outcome_return\<close>)+
    then show "outcome sure (bind_act (get_act g) (\<lambda>active_bytes. bind_act (write_json (\<lambda>v w. w\<lparr>tw_plan := Some v\<rparr>) plan) (\<lambda>_. return_act (ob active_bytes)))) w'' ?Q ?E"
      by (rule outcome_bind_get)
  qed (use Some D in blast)
  have body: "outcome sure (bind_act (materialize_loop H state D (owned_of state, acc)) (\<lambda>(owned, ct).
         bind_act (retire_loop H env ex state (obsolete D owned) (owned, ct)) (\<lambda>(owned, ct).
         bind_act (persist_state (dict_set (with_owned state owned) ''active_design_id'' (JStr to))) (\<lambda>_.
         bind_act (get_act g) (\<lambda>active_bytes. bind_act (write_json (\<lambda>v w. w\<lparr>tw_plan := Some v\<rparr>) plan) (\<lambda>_. return_act (ob ct active_bytes))))))) w ?Q ?E"
    if l: "loaded w = Inr state" and D: "desired_files env ex (tw_files w) design = Inr D" for state D acc g plan ob
  proof -
    have possible: "transition_possible H env ex D (files w) (claims w)" if sure using sure [OF that] Some D by auto
    note inst = outcome_mono [OF install_outcome [OF l desired_sources [OF D] possible]]
    have "outcome sure (bind_act (install H env ex state D (owned_of state, acc)) (\<lambda>(owned, ct).
         bind_act (persist_state (dict_set (with_owned state owned) ''active_design_id'' (JStr to))) (\<lambda>_.
         bind_act (get_act g) (\<lambda>active_bytes. bind_act (write_json (\<lambda>v w. w\<lparr>tw_plan := Some v\<rparr>) plan) (\<lambda>_. return_act (ob ct active_bytes)))))) w ?Q ?E"
      by (rule outcome_bind, rule inst) (use Some D tail [OF D loaded_good [OF l]] in \<open>auto split: prod.splits\<close>)
    then show ?thesis by (simp add: install_def bind_assoc case_prod_unfold)
  qed
  show ?thesis
    unfolding transition_def Some option.case
    apply (rule outcome_guard)
      apply (rule outcome_load)
       apply (rule outcome_bind_get)
       apply (rule outcome_bind [where Q' = "\<lambda>D w'. desired_files env ex (tw_files w) design = Inr D \<and> w' = w"])
        apply (rule outcome_lift; use sure Some in \<open>auto simp: isOK_iff\<close>)
       apply (elim conjE, hypsubst)
       apply (rule body [unfolded owned_of_def Some])
        apply assumption+
    using sure Some by auto
qed

end
