(* ===== verification/Transition_Demo.thy ===== *)
theory Transition_Demo
  imports Transition_Run
begin

text \<open>
  A machine without symbolic links, on which \<open>Path.resolve\<close> is computed from the text of the path, and an executor with two
  designs on it: the hypotheses of the properties hold there.
\<close>

section \<open>Paths without links\<close>

fun path_parts :: "string \<Rightarrow> string \<Rightarrow> string list" where
  "path_parts acc [] = [rev acc]"
| "path_parts acc (c # r) = (if c = CHR ''/'' then rev acc # path_parts [] r else path_parts (c # acc) r)"

definition walk_part :: "string \<Rightarrow> path \<Rightarrow> path" where
  "walk_part c p = (if c = [] \<or> c = ''.'' then p else if c = ''..'' then butlast p else p @ [c])"

definition lexical_resolve :: "string \<Rightarrow> path option" where
  "lexical_resolve s = Some (fold walk_part (path_parts [] s) [])"

definition plain_part :: "string \<Rightarrow> bool" where
  "plain_part c \<longleftrightarrow> c \<noteq> [] \<and> c \<noteq> ''.'' \<and> c \<noteq> ''..'' \<and> CHR ''/'' \<notin> set c"

lemma path_parts_no_slash: "CHR ''/'' \<notin> set acc \<Longrightarrow> c \<in> set (path_parts acc s) \<Longrightarrow> CHR ''/'' \<notin> set c"
  by (induction acc s rule: path_parts.induct) (auto split: if_splits)

lemma walk_plain: "\<forall>c \<in> set cs. CHR ''/'' \<notin> set c \<Longrightarrow> list_all plain_part p \<Longrightarrow> list_all plain_part (fold walk_part cs p)"
proof (induction cs arbitrary: p)
  case (Cons c cs)
  have "list_all plain_part (walk_part c p)"
    using Cons.prems by (auto simp: walk_part_def plain_part_def list_all_iff dest: in_set_butlastD)
  then show ?case using Cons by simp
qed simp

lemma path_parts_append: "CHR ''/'' \<notin> set c \<Longrightarrow> path_parts acc (c @ s) = path_parts (rev c @ acc) s"
  by (induction c arbitrary: acc) auto

lemma path_parts_str: "list_all plain_part p \<Longrightarrow> path_parts acc (concat (map (\<lambda>c. ''/'' @ c) p)) = rev acc # p"
  by (induction p arbitrary: acc) (auto simp: plain_part_def path_parts_append)

lemma walk_parts: "list_all plain_part p \<Longrightarrow> fold walk_part p q = q @ p"
  by (induction p arbitrary: q) (auto simp: walk_part_def plain_part_def)

lemma lexical_resolve_idem:
  assumes "lexical_resolve s = Some p"
  shows "lexical_resolve (path_str p) = Some p"
proof -
  have p: "list_all plain_part p"
    using assms walk_plain [of "path_parts [] s" "[]"] path_parts_no_slash [of "[]"] by (auto simp: lexical_resolve_def)
  show ?thesis
  proof (cases "p = []")
    case False
    then have "path_parts [] (path_str p) = [] # p" using path_parts_str [OF p, of "[]"] by (simp only: path_str_def if_False rev.simps)
    then show ?thesis using walk_parts [OF p] by (simp add: lexical_resolve_def walk_part_def)
  qed (simp add: lexical_resolve_def path_str_def walk_part_def)
qed

text \<open>\<open>Path.resolve\<close> is idempotent.\<close>

definition resolves :: "transition_env \<Rightarrow> bool" where
  "resolves env \<longleftrightarrow> (\<forall>x p. te_resolve env x = Some p \<longrightarrow> te_resolve env (path_str p) = Some p)"

section \<open>Two designs\<close>

definition move_env :: transition_env where
  "move_env = \<lparr>te_resolve = lexical_resolve, te_format = (\<lambda>_ _. FormatKeyError), te_str = (\<lambda>_. []), te_now = ''now''\<rparr>"

definition move_design :: "string \<Rightarrow> design_spec" where
  "move_design dir =
     \<lparr>ds_materializations = [\<lparr>ms_representation_id = ''raw'', ms_source_template = ''../src/{object_id}.bin'',
        ms_target_template = ''/m/'' @ dir @ ''/{object_id}.bin''\<rparr>],
      ds_materialization_decision = ''copy'', ds_placement_decision = dir, ds_execution_decision = ''local''\<rparr>"

definition move_ex :: executor where
  "move_ex = \<lparr>ex_config_parent = [''cfg''], ex_materialization_root = [''m''],
     ex_designs = [(''A'', move_design ''a''), (''B'', move_design ''b'')], ex_object_ids = [''x'', ''y'']\<rparr>"

definition move_world :: tworld where
  "move_world = \<lparr>tw_files = [([''src'', ''x.bin''], Regular ''one''), ([''src'', ''y.bin''], Regular ''two''), ([''m''], Directory)],
     tw_state = NoStateFile, tw_plan = None, tw_temps = [], tw_uuids = 0, tw_faults = []\<rparr>"

lemma move_resolves: "resolves move_env"
  using lexical_resolve_idem by (simp add: resolves_def move_env_def)

lemma move_start: "tw_state move_world = NoStateFile"
  by (simp add: move_world_def)

lemma move_run: "isOK (snd (transition id move_env move_ex ''A'' ''activate'' move_world))"
  by code_simp

lemma move_forward:
  "isOK (snd (transition id move_env move_ex ''B'' ''forward'' (fst (transition id move_env move_ex ''A'' ''activate'' move_world))))"
  by code_simp

lemma move_restore:
  "isOK (snd (transition id move_env move_ex ''A'' ''restore'' (fst (transition id move_env move_ex ''B'' ''forward''
     (fst (transition id move_env move_ex ''A'' ''activate'' move_world))))))"
  by code_simp

definition move_desired :: desired where
  "move_desired = [([''m'', ''a'', ''x.bin''], [''src'', ''x.bin''], ''x'', ''raw''), ([''m'', ''a'', ''y.bin''], [''src'', ''y.bin''], ''y'', ''raw'')]"

lemma move_plan: "map_of (ex_designs move_ex) ''A'' = Some (move_design ''a'')"
    "desired_files move_env move_ex (tw_files move_world) (move_design ''a'') = Inr move_desired"
   by code_simp+

lemma move_outside: "\<forall>(t, s, names) \<in> set move_desired. \<not> prefix (ex_materialization_root move_ex) s"
  by (simp add: move_desired_def move_ex_def)

lemma move_loaded: "isOK (loaded move_world)"
  by code_simp

lemma move_possible: "transition_possible id move_env move_ex move_desired (files move_world) (claims move_world)"
proof -
  have C: "claims move_world = (\<lambda>_. Unclaimed)"
    by (simp add: claims_def loaded_def load_state_def move_world_def fun_eq_iff claim_in_def owned_of_def default_state_def dget_def keys_def)
  have "files move_world q \<in> {None, Some Directory}" if "strict_prefix q [''m'', ''a'', x]" for q x
    using that by (auto simp: files_def file_of_def move_world_def prefix_Cons strict_prefix_def)
  then show ?thesis
    unfolding transition_possible_def C
    by (simp add: feasible_def move_desired_def open_way_def files_def file_of_def move_world_def)
qed

end
