(* ===== verification/Transition_Props.thy ===== *)
theory Transition_Props
  imports Transition_Demo
begin

text \<open>
  Properties of the executor: what it may touch, the invariant of its state, what a completed transition establishes, recovery
  after an interruption, and the restoration of a design.
\<close>

section \<open>Runs\<close>

text \<open>Any sequence of transitions, each with any faults, completed or not.\<close>

inductive transition_run :: "(bytes \<Rightarrow> string) \<Rightarrow> transition_env \<Rightarrow> executor \<Rightarrow> tworld \<Rightarrow> tworld \<Rightarrow> bool"
  for H env ex w where
  start: "transition_run H env ex w w"
| step: "transition_run H env ex w w' \<Longrightarrow>
    transition_run H env ex w (fst (transition H env ex to type (w'\<lparr>tw_faults := fs\<rparr>)))"

lemma faults_eq [simp]: "files (w\<lparr>tw_faults := fs\<rparr>) = files w" "claims (w\<lparr>tw_faults := fs\<rparr>) = claims w"
  "loaded (w\<lparr>tw_faults := fs\<rparr>) = loaded w" "tw_files (w\<lparr>tw_faults := fs\<rparr>) = tw_files w"
  using store_eq [of "w\<lparr>tw_faults := fs\<rparr>" w] by simp_all

text \<open>The two ways a transition can end.\<close>

lemma transition_cases:
  obtains (unchanged) "fst (transition H env ex to type w) = w" "\<not> isOK (snd (transition H env ex to type w))"
  | (interrupted) design D where "map_of (ex_designs ex) to = Some design" "desired_files env ex (tw_files w) design = Inr D"
      "interrupted H env ex D (files w) (claims w) (fst (transition H env ex to type w))" "\<not> isOK (snd (transition H env ex to type w))"
  | (completed) design D where "map_of (ex_designs ex) to = Some design" "desired_files env ex (tw_files w) design = Inr D"
      "completed H env ex D (files w) (claims w) to (fst (transition H env ex to type w))" "isOK (snd (transition H env ex to type w))"
proof -
  obtain w' r where run: "transition H env ex to type w = (w', r)" by force
  have "outcome False (transition H env ex to type) w
    (\<lambda>ob w'. \<exists>design D. map_of (ex_designs ex) to = Some design \<and> desired_files env ex (tw_files w) design = Inr D
       \<and> completed H env ex D (files w) (claims w) to w')
    (\<lambda>w'. w' = w \<or> (\<exists>design D. map_of (ex_designs ex) to = Some design \<and> desired_files env ex (tw_files w) design = Inr D
       \<and> interrupted H env ex D (files w) (claims w) w'))"
    by (rule transition_outcome) simp
  then show thesis using that unfolding run by (cases r) (auto simp: outcome_def run)
qed

lemma transition_moved:
  "fst (transition H env ex to type w) = w \<or> (\<exists>design D. desired_files env ex (tw_files w) design = Inr D
     \<and> interrupted H env ex D (files w) (claims w) (fst (transition H env ex to type w)))"
  using transition_cases [of H env ex to type w] completed_interrupted by metis

text \<open>One path through a transition.\<close>

lemma moved_path:
  assumes m: "moved H env ex D F0 C0 F C" and D: "desired_files env ex fs design = Inr D"
  shows "F p = F0 p \<or> F0 p = None \<and> F p = Some Directory \<and> (\<exists>t. safe_target ex t \<and> strict_prefix p t)
    \<or> F0 p = None \<and> (\<exists>b. F p = Some (Regular b)) \<and> safe_target ex p \<and> p \<in> fst ` set D \<and> C (path_str p) \<noteq> Unclaimed
    \<or> F p = None \<and> (\<exists>b raw. F0 p = Some (Regular b) \<and> safe_target ex p \<and> te_resolve env raw = Some p \<and> C0 raw = Claimed (H b))"
proof -
  obtain F1 C1 where g: "grown H D F0 C0 F1 C1" and s: "shrunk H env ex (unwanted D) F1 C1 F C" using m by (auto simp: moved_def)
  have safe: "safe_target ex t" if "t \<in> fst ` set D" for t using desired_files_sound(1) [OF D] that by auto
  consider (same) "F1 p = F0 p" | (dir) "F0 p = None" "F1 p = Some Directory" "\<exists>t \<in> fst ` set D. strict_prefix p t"
    | (made) b where "F1 p = Some (Regular b)" "placed H D F0 p (H b)" "C1 (path_str p) \<in> Claimed ` UNIV"
    using g [unfolded grown_def, THEN conjunct1, rule_format, of p] by metis
  then show ?thesis
  proof cases
    case same
    show ?thesis
    proof (cases "F p = F1 p")
      case False
      then have "F p = None" "removable H env ex (unwanted D) F1 C1 p" using s unfolding shrunk_def by metis+
      then show ?thesis using same unwanted_claim [OF g] by (fastforce simp: removable_def)
    qed (use same in simp)
  next
    case dir
    then have "F p = F1 p" using s unfolding shrunk_def removable_def by fastforce
    then show ?thesis using dir safe by auto
  next
    case made
    then have p: "F0 p = None" "p \<in> fst ` set D" by (force simp: placed_def)+
    then have "path_str p \<notin> unwanted D" by (auto simp: unwanted_def)
    then have "C (path_str p) = C1 (path_str p)" using s unfolding shrunk_def by metis
    moreover have "F p = F1 p \<or> F p = None" using s unfolding shrunk_def by metis
    ultimately show ?thesis using made p safe by auto
  qed
qed

lemma transition_touches_step:
  "files (fst (transition H env ex to type w)) p = files w p
   \<or> files w p = None \<and> files (fst (transition H env ex to type w)) p = Some Directory \<and> (\<exists>t. safe_target ex t \<and> strict_prefix p t)
   \<or> files w p = None \<and> (\<exists>b. files (fst (transition H env ex to type w)) p = Some (Regular b)) \<and> safe_target ex p
       \<and> claims (fst (transition H env ex to type w)) (path_str p) \<noteq> Unclaimed
   \<or> files (fst (transition H env ex to type w)) p = None
       \<and> (\<exists>b raw. files w p = Some (Regular b) \<and> safe_target ex p \<and> te_resolve env raw = Some p \<and> claims w raw = Claimed (H b))"
  using transition_moved [of H env ex to type w]
proof
  assume "\<exists>design D. desired_files env ex (tw_files w) design = Inr D \<and> interrupted H env ex D (files w) (claims w) (fst (transition H env ex to type w))"
  then obtain design D where D: "desired_files env ex (tw_files w) design = Inr D"
    and m: "moved H env ex D (files w) (claims w) (files (fst (transition H env ex to type w))) (claims (fst (transition H env ex to type w)))"
    by (auto simp: interrupted_def)
  from moved_path [OF m D, of p] show ?thesis by blast
qed simp


section \<open>The invariant\<close>

definition executor_invariant :: "transition_env \<Rightarrow> executor \<Rightarrow> tworld \<Rightarrow> tworld \<Rightarrow> bool" where
  "executor_invariant env ex w0 w \<longleftrightarrow> isOK (loaded w)
     \<and> (\<forall>p n. files w0 p = Some n \<longrightarrow> files w p = Some n)
     \<and> (\<forall>raw. claims w raw \<noteq> Unclaimed \<longrightarrow> (\<exists>p d. raw = path_str p \<and> te_resolve env raw = Some p \<and> safe_target ex p
            \<and> files w0 p = None \<and> claims w raw = Claimed d))
     \<and> (\<forall>p b. files w p = Some (Regular b) \<longrightarrow> files w0 p = None \<longrightarrow>
          safe_target ex p \<and> te_resolve env (path_str p) = Some p \<and> claims w (path_str p) \<noteq> Unclaimed)"

lemma moved_claim:
  assumes "moved H env ex D F0 C0 F C" and "C raw \<noteq> Unclaimed"
  shows "C raw = C0 raw \<or> (\<exists>t \<in> fst ` set D. raw = path_str t \<and> F0 t = None \<and> C raw \<in> Claimed ` UNIV)"
proof -
  obtain F1 C1 where g: "grown H D F0 C0 F1 C1" and s: "shrunk H env ex (unwanted D) F1 C1 F C" using assms(1) by (auto simp: moved_def)
  have "C raw = C1 raw" using s assms(2) unfolding shrunk_def by metis
  moreover have "C1 raw = C0 raw \<or> (\<exists>t d. raw = path_str t \<and> placed H D F0 t d \<and> C1 raw = Claimed d)" using g by (auto simp: grown_def)
  ultimately show ?thesis unfolding placed_def by (metis fst_conv image_eqI rangeI)
qed

lemma moved_unclaimed:
  assumes "moved H env ex D F0 C0 F C" and "C0 raw \<noteq> Unclaimed" and "C raw = Unclaimed"
  shows "\<exists>p. te_resolve env raw = Some p \<and> F p = None"
proof -
  obtain F1 C1 where g: "grown H D F0 C0 F1 C1" and s: "shrunk H env ex (unwanted D) F1 C1 F C" using assms(1) by (auto simp: moved_def)
  have "C1 raw \<noteq> Unclaimed" using g assms(2) unfolding grown_def by (metis claim.distinct(3))
  then show ?thesis using s assms(3) unfolding shrunk_def by metis
qed

lemma desired_resolved: "resolves env \<Longrightarrow> desired_files env ex fs design = Inr D \<Longrightarrow> t \<in> fst ` set D \<Longrightarrow> te_resolve env (path_str t) = Some t \<and> safe_target ex t"
  using desired_files_sound(1) [of env ex fs design D] by (auto simp: resolves_def)

lemma moved_invariant:
  assumes inv: "executor_invariant env ex w0 w" and res: "resolves env" and D: "desired_files env ex fs design = Inr D"
    and m: "moved H env ex D (files w) (claims w) (files w') (claims w')" and l: "isOK (loaded w')"
  shows "executor_invariant env ex w0 w'"
  unfolding executor_invariant_def
proof (intro conjI allI impI)
  have old: "files w p = Some n" if "files w0 p = Some n" for p n using inv that by (simp add: executor_invariant_def)
  have owned: "\<exists>p d. raw = path_str p \<and> te_resolve env raw = Some p \<and> safe_target ex p \<and> files w0 p = None \<and> claims w raw = Claimed d"
    if "claims w raw \<noteq> Unclaimed" for raw using inv that by (simp add: executor_invariant_def)
  note path = moved_path [OF m D]
  show "isOK (loaded w')" by (rule l)
  show "files w' p = Some n" if p: "files w0 p = Some n" for p n
  proof -
    have "\<not> (claims w raw = Claimed d \<and> te_resolve env raw = Some p)" for raw d using owned [of raw] p by auto
    then show ?thesis using path [of p] old [OF p] by auto
  qed
  show "\<exists>p d. raw = path_str p \<and> te_resolve env raw = Some p \<and> safe_target ex p \<and> files w0 p = None \<and> claims w' raw = Claimed d"
    if raw: "claims w' raw \<noteq> Unclaimed" for raw
    using moved_claim [OF m raw]
  proof
    assume "claims w' raw = claims w raw"
    then show ?thesis using owned [of raw] raw by simp
  next
    assume "\<exists>t \<in> fst ` set D. raw = path_str t \<and> files w t = None \<and> claims w' raw \<in> Claimed ` UNIV"
    then obtain t d where t: "t \<in> fst ` set D" "raw = path_str t" "files w t = None" "claims w' raw = Claimed d" by blast
    then have "files w0 t = None" using old [of t] by (cases "files w0 t") auto
    then show ?thesis using t desired_resolved [OF res D t(1)] by blast
  qed
  show "safe_target ex p" "te_resolve env (path_str p) = Some p" "claims w' (path_str p) \<noteq> Unclaimed"
    if p: "files w' p = Some (Regular b)" "files w0 p = None" for p b
  proof -
    consider (same) "files w p = Some (Regular b)" | (made) "safe_target ex p" "p \<in> fst ` set D" "claims w' (path_str p) \<noteq> Unclaimed"
      using path [of p] p(1) by auto
    then have "safe_target ex p \<and> te_resolve env (path_str p) = Some p \<and> claims w' (path_str p) \<noteq> Unclaimed"
    proof cases
      case same
      then have "safe_target ex p \<and> te_resolve env (path_str p) = Some p \<and> claims w (path_str p) \<noteq> Unclaimed"
        using inv p(2) by (simp add: executor_invariant_def)
      then show ?thesis using moved_unclaimed [OF m, of "path_str p"] p(1) by fastforce
    next
      case made
      then show ?thesis using desired_resolved [OF res D] by blast
    qed
    then show "safe_target ex p" "te_resolve env (path_str p) = Some p" "claims w' (path_str p) \<noteq> Unclaimed" by auto
  qed
qed

lemma executor_invariant_step:
  assumes "executor_invariant env ex w0 w" and "resolves env"
  shows "executor_invariant env ex w0 (fst (transition H env ex to type (w\<lparr>tw_faults := fs\<rparr>)))"
proof -
  let ?w = "w\<lparr>tw_faults := fs\<rparr>"
  have inv: "executor_invariant env ex w0 ?w" using assms(1) by (simp add: executor_invariant_def)
  from transition_moved [of H env ex to type ?w] show ?thesis
  proof
    assume "\<exists>design D. desired_files env ex (tw_files ?w) design = Inr D \<and> interrupted H env ex D (files ?w) (claims ?w) (fst (transition H env ex to type ?w))"
    then show ?thesis using moved_invariant [OF inv assms(2)] unfolding interrupted_def by blast
  qed (use inv in simp)
qed

lemma transition_run_invariant:
  "transition_run H env ex w w' \<Longrightarrow> resolves env \<Longrightarrow> executor_invariant env ex w0 w \<Longrightarrow> executor_invariant env ex w0 w'"
  by (induction rule: transition_run.induct) (simp_all add: executor_invariant_step)

lemma executor_invariant_start: "tw_state w0 = NoStateFile \<Longrightarrow> executor_invariant env ex w0 w0"
  by (auto simp: executor_invariant_def loaded_def load_state_def claims_def claim_in_def owned_of_def default_state_def dget_def keys_def)

lemma reachable_invariant:
  "transition_run H env ex w0 w \<Longrightarrow> tw_state w0 = NoStateFile \<Longrightarrow> resolves env \<Longrightarrow> executor_invariant env ex w0 w"
  using transition_run_invariant executor_invariant_start by blast



section \<open>Completed transitions\<close>

text \<open>In a world that satisfies the invariant no unwanted claim is on a target.\<close>

lemma completed_targets:
  assumes inv: "executor_invariant env ex w0 w" and res: "resolves env" and D: "desired_files env ex fs design = Inr D"
    and c: "completed H env ex D (files w) (claims w) to w'" and d: "d \<in> set D"
  shows "settled H (files w) (files w') d"
proof -
  obtain F1 C1 where g: "grown H D (files w) (claims w) F1 C1" and s: "shrunk H env ex (unwanted D) F1 C1 (files w') (claims w')"
    and set: "settled H (files w) F1 d"
    using c d by (auto simp: completed_def finished_def)
  obtain t x where t: "d = (t, x)" by (cases d)
  then have td: "t \<in> fst ` set D" using d by force
  have "\<not> removable H env ex (unwanted D) F1 C1 t"
  proof
    assume "removable H env ex (unwanted D) F1 C1 t"
    then obtain raw b where r: "raw \<in> unwanted D" "te_resolve env raw = Some t" "C1 raw = Claimed (H b)" by (auto simp: removable_def)
    then have "claims w raw \<noteq> Unclaimed" using unwanted_claim [OF g r(1)] by simp
    then obtain p where "raw = path_str p" "te_resolve env raw = Some p" using inv unfolding executor_invariant_def by blast
    then show False using r td by (auto simp: unwanted_def)
  qed
  then have "files w' t = F1 t" using s unfolding shrunk_def by metis
  then show ?thesis using set t by (auto simp: settled_def)
qed

lemma returned_completed:
  assumes "transition H env ex to type w = (w', Inr ob)"
  shows "\<exists>design D. map_of (ex_designs ex) to = Some design \<and> desired_files env ex (tw_files w) design = Inr D
    \<and> completed H env ex D (files w) (claims w) to w'"
  using transition_cases [of H env ex to type w] assms by (metis fst_conv isOK.simps(2) snd_conv)

text \<open>
  (C22) A transition that returns has installed its design: in every world the executor can reach, each target is a file with the digest of its source, every
  file the state records belongs to the design, every file it recorded before that the design does not want is gone, and the
  design is recorded as the active one.
\<close>

theorem transition_installs_design:
  assumes "transition_run H env ex w0 w" and "tw_state w0 = NoStateFile" and "resolves env"
    and "transition H env ex to type w = (w', Inr ob)"
  shows "\<exists>design D. map_of (ex_designs ex) to = Some design \<and> desired_files env ex (tw_files w) design = Inr D
    \<and> (\<forall>(t, s, names) \<in> set D. \<exists>b c. files w' t = Some (Regular b) \<and> files w s = Some (Regular c) \<and> H b = H c)
    \<and> (\<forall>raw. claims w' raw \<noteq> Unclaimed \<longrightarrow> raw \<in> path_str ` fst ` set D)
    \<and> (\<forall>p. claims w (path_str p) \<noteq> Unclaimed \<longrightarrow> te_resolve env (path_str p) = Some p \<longrightarrow> p \<notin> fst ` set D \<longrightarrow> files w' p = None)
    \<and> active_design w' = JStr to"
proof -
  note inv = reachable_invariant [OF assms(1-3)]
  obtain design D where D: "map_of (ex_designs ex) to = Some design" "desired_files env ex (tw_files w) design = Inr D"
    and c: "completed H env ex D (files w) (claims w) to w'"
    using returned_completed [OF assms(4)] by blast
  have "\<forall>d \<in> set D. settled H (files w) (files w') d" using completed_targets [OF inv assms(3) D(2) c] by blast
  then have targets: "\<forall>(t, s, names) \<in> set D. \<exists>b c. files w' t = Some (Regular b) \<and> files w s = Some (Regular c) \<and> H b = H c"
    by (simp add: settled_def)
  have fin: "\<And>raw. raw \<in> unwanted D \<Longrightarrow> claims w' raw = Unclaimed" "\<And>raw. raw \<in> unwanted D \<Longrightarrow> claims w raw \<noteq> Unclaimed \<Longrightarrow> retired env (files w') (claims w') raw"
    using c by (auto simp: completed_def finished_def)
  have "files w' p = None" if p: "claims w (path_str p) \<noteq> Unclaimed" "te_resolve env (path_str p) = Some p" "p \<notin> fst ` set D" for p
  proof -
    have "path_str p \<in> unwanted D" using desired_resolved [OF assms(3) D(2)] p(2,3) by (force simp: unwanted_def)
    then show ?thesis using fin(2) [of "path_str p"] p by (auto simp: retired_def)
  qed
  moreover have "raw \<in> path_str ` fst ` set D" if "claims w' raw \<noteq> Unclaimed" for raw
    using fin(1) [of raw] that by (auto simp: unwanted_def)
  moreover have "active_design w' = JStr to" using c by (simp add: completed_def)
  ultimately show ?thesis using D targets by blast
qed

theorem transition_installs_design_witness:
  "\<exists>w' ob. transition id move_env move_ex ''A'' ''activate'' move_world = (w', Inr ob) \<and> active_design w' = JStr ''A''"
proof -
  obtain w' ob where run: "transition id move_env move_ex ''A'' ''activate'' move_world = (w', Inr ob)"
    using move_run by (metis prod.collapse isOK_iff)
  from transition_installs_design [OF transition_run.start move_start move_resolves run] run show ?thesis by blast
qed

section \<open>Restoration\<close>

lemma transition_run_one: "transition H env ex to type w = (w', r) \<Longrightarrow> transition_run H env ex w w'"
  using transition_run.step [OF transition_run.start, of H env ex w to type "tw_faults w"] by simp

lemma transition_run_trans: "transition_run H env ex w w' \<Longrightarrow> transition_run H env ex w' w'' \<Longrightarrow> transition_run H env ex w w''"
  by (rotate_tac, induction rule: transition_run.induct) (auto intro: transition_run.intros)

text \<open>After a completed transition, a file that is no target was there before the executor first ran.\<close>

lemma completed_unowned:
  assumes inv: "executor_invariant env ex w0 w'" and res: "resolves env" and D: "desired_files env ex fs design = Inr D"
    and c: "completed H env ex D F C to w'" and p: "files w' p = Some (Regular b)" "p \<notin> fst ` set D"
  shows "files w0 p = Some (Regular b)"
proof (cases "files w0 p")
  case None
  then have r: "te_resolve env (path_str p) = Some p" "claims w' (path_str p) \<noteq> Unclaimed" using inv p(1) by (auto simp: executor_invariant_def)
  then have "path_str p \<notin> unwanted D" using c by (auto simp: completed_def finished_def)
  then obtain t where "t \<in> fst ` set D" "path_str p = path_str t" by (auto simp: unwanted_def)
  then show ?thesis using desired_resolved [OF res D, of t] r(1) p(2) by auto
next
  case (Some n)
  then have "files w' p = Some n" using inv by (simp add: executor_invariant_def)
  then show ?thesis using Some p(1) by simp
qed

lemma outside_kept:
  assumes "transition_run H env ex w w'" and "\<not> prefix (ex_materialization_root ex) p" and "files w p = Some (Regular c)"
  shows "files w' p = Some (Regular c)"
  using assms(1)
proof (induction rule: transition_run.induct)
  case (step w' to type fs)
  then show ?case
    using transition_touches_step [of H env ex to type "w'\<lparr>tw_faults := fs\<rparr>" p] assms(2)
    by (auto simp: safe_target_def strict_prefix_def)
qed (rule assms(3))

text \<open>
  A design can be restored: after a transition to a design, any sequence of further transitions (to other designs, failed or killed ones
  included) and a transition back that returns, the regular files are the same as after the first transition. Outside the targets of
  the design they have the same content, and each target has content with the same digest. The sources of the design lie outside the materialization root.
\<close>

theorem restore_recovers_files:
  assumes run: "transition_run H env ex w0 w" "tw_state w0 = NoStateFile" "resolves env"
    and first: "transition H env ex to type1 w = (w1, Inr ob1)" and others: "transition_run H env ex w1 w2"
    and again: "transition H env ex to type2 w2 = (w3, Inr ob2)"
    and plan: "map_of (ex_designs ex) to = Some design" "desired_files env ex (tw_files w) design = Inr D"
    and outside: "\<forall>(t, s, names) \<in> set D. \<not> prefix (ex_materialization_root ex) s"
  shows "\<forall>p. ((\<exists>b. files w3 p = Some (Regular b)) \<longleftrightarrow> (\<exists>b. files w1 p = Some (Regular b)))
    \<and> (\<forall>b b'. files w1 p = Some (Regular b) \<and> files w3 p = Some (Regular b') \<longrightarrow> H b' = H b \<and> (p \<notin> fst ` set D \<longrightarrow> b' = b))"
proof
  fix p
  have run1: "transition_run H env ex w w1" by (rule transition_run_one [OF first])
  have run2: "transition_run H env ex w w2" by (rule transition_run_trans [OF run1 others])
  have inv: "executor_invariant env ex w0 v" if "transition_run H env ex w v" for v
    by (rule transition_run_invariant [OF that run(3) reachable_invariant [OF run]])
  have inv3: "executor_invariant env ex w0 w3"
    by (rule transition_run_invariant [OF transition_run_one [OF again] run(3) inv [OF run2]])
  have src: "files w2 s = Some (Regular c)" if "(t, s, nm) \<in> set D" "files w s = Some (Regular c)" for t s nm c
    using outside_kept [OF run2 _ that(2)] outside that(1) by blast
  have c1: "completed H env ex D (files w) (claims w) to w1" using returned_completed [OF first] plan by auto
  have "\<forall>(t, s, nm) \<in> set D. \<exists>c. map_of (tw_files w2) s = Some (Regular c)"
    using src desired_files_sound(1) [OF plan(2)] by (fastforce simp: files_def file_of_def)
  then have D2: "desired_files env ex (tw_files w2) design = Inr D" by (rule desired_files_sound(3) [OF plan(2)])
  then have c3: "completed H env ex D (files w2) (claims w2) to w3" using returned_completed [OF again] plan by auto
  show "((\<exists>b. files w3 p = Some (Regular b)) \<longleftrightarrow> (\<exists>b. files w1 p = Some (Regular b)))
    \<and> (\<forall>b b'. files w1 p = Some (Regular b) \<and> files w3 p = Some (Regular b') \<longrightarrow> H b' = H b \<and> (p \<notin> fst ` set D \<longrightarrow> b' = b))"
  proof (cases "p \<in> fst ` set D")
    case True
    then obtain s nm where d: "(p, s, nm) \<in> set D" by auto
    obtain b c where b: "files w1 p = Some (Regular b)" "files w s = Some (Regular c)" "H b = H c"
      using completed_targets [OF inv [OF start] run(3) plan(2) c1 d] by (auto simp: settled_def)
    obtain b' c' where b': "files w3 p = Some (Regular b')" "files w2 s = Some (Regular c')" "H b' = H c'"
      using completed_targets [OF inv [OF run2] run(3) D2 c3 d] by (auto simp: settled_def)
    show ?thesis using b b' src [OF d b(2)] True by simp
  next
    case False
    note old = completed_unowned [OF inv [OF run1] run(3) plan(2) c1 _ False] completed_unowned [OF inv3 run(3) D2 c3 _ False]
    have keep: "files w1 p = Some n \<and> files w3 p = Some n" if "files w0 p = Some n" for n
      using inv [OF run1] inv3 that by (simp add: executor_invariant_def)
    have "files w3 p = Some (Regular b) \<longleftrightarrow> files w1 p = Some (Regular b)" for b using old [of b] keep [of "Regular b"] by blast
    then show ?thesis by auto
  qed
qed

theorem restore_recovers_files_witness:
  "\<exists>w1 ob1 w2 ob2 w3 ob3. transition id move_env move_ex ''A'' ''activate'' move_world = (w1, Inr ob1)
     \<and> transition id move_env move_ex ''B'' ''forward'' w1 = (w2, Inr ob2)
     \<and> transition id move_env move_ex ''A'' ''restore'' w2 = (w3, Inr ob3)
     \<and> ((\<exists>b. files w3 [''m'', ''b'', ''x.bin''] = Some (Regular b)) \<longleftrightarrow> (\<exists>b. files w1 [''m'', ''b'', ''x.bin''] = Some (Regular b)))"
proof -
  let ?t = "\<lambda>to type. transition id move_env move_ex to type"
  obtain w1 ob1 where first: "?t ''A'' ''activate'' move_world = (w1, Inr ob1)" using move_run by (metis prod.collapse isOK_iff)
  obtain w2 ob2 where second: "?t ''B'' ''forward'' w1 = (w2, Inr ob2)" using move_forward first by (metis prod.collapse isOK_iff fst_conv)
  obtain w3 ob3 where third: "?t ''A'' ''restore'' w2 = (w3, Inr ob3)" using move_restore first second by (metis prod.collapse isOK_iff fst_conv)
  note restored = restore_recovers_files [OF transition_run.start move_start move_resolves first transition_run_one [OF second] third move_plan move_outside]
  show ?thesis using first second third restored by blast
qed

section \<open>Recovery\<close>

text \<open>A transition that is possible stays possible at every point of a run of it.\<close>

lemma feasible_shrunk:
  assumes f: "feasible H D F1 C1" and s: "shrunk H env ex (unwanted D) F1 C1 F C"
    and keep: "\<And>t s nm. (t, s, nm) \<in> set D \<Longrightarrow> F t = F1 t \<and> F s = F1 s"
  shows "feasible H D F C"
proof -
  have C: "C (path_str t) = C1 (path_str t)" if "(t, s', nm) \<in> set D" for t s' nm
  proof -
    have "path_str t \<notin> unwanted D" using that by (force simp: unwanted_def)
    then show ?thesis using s unfolding shrunk_def by metis
  qed
  have way: "open_way F t" if "open_way F1 t" for t
    using that s unfolding open_way_def shrunk_def by (metis insertCI)
  have "C (path_str t) \<noteq> Broken \<and> (case F t of None \<Rightarrow> open_way F t | Some n \<Rightarrow> \<exists>b c. n = Regular b \<and> F s' = Some (Regular c) \<and> H b = H c)"
    if d: "(t, s', nm) \<in> set D" for t s' nm
  proof -
    have "C1 (path_str t) \<noteq> Broken \<and> (case F1 t of None \<Rightarrow> open_way F1 t | Some n \<Rightarrow> \<exists>b c. n = Regular b \<and> F1 s' = Some (Regular c) \<and> H b = H c)"
      using f d unfolding feasible_def by blast
    then show ?thesis using C [OF d] keep [OF d] way by (auto split: option.splits)
  qed
  then show ?thesis using f unfolding feasible_def by blast
qed

lemma possible_kept:
  assumes p: "transition_possible H env ex D F0 C0" and g: "grown H D F0 C0 F1 C1" and sh: "shrunk H env ex (unwanted D) F1 C1 F C"
    and d: "(t, s, nm) \<in> set D"
  shows "F t = F1 t \<and> F s = F1 s"
proof -
  have "\<not> removable H env ex (unwanted D) F1 C1 q" if "q = t \<or> q = s" for q
  proof
    assume "removable H env ex (unwanted D) F1 C1 q"
    then obtain raw b where r: "raw \<in> unwanted D" "te_resolve env raw = Some q" "C1 raw = Claimed (H b)" by (auto simp: removable_def)
    then have "C0 raw \<noteq> Unclaimed" using unwanted_claim [OF g] by simp
    from possible_unwanted(2) [OF p r(1) this r(2)] d have "\<not> prefix q t \<and> q \<noteq> s" by blast
    then show False using that by auto
  qed
  then show ?thesis using sh unfolding shrunk_def by metis
qed

lemma possible_moved:
  assumes p: "transition_possible H env ex D F0 C0" and src: "sources D F0" and m: "moved H env ex D F0 C0 F C"
  shows "transition_possible H env ex D F C" and "(t, s, nm) \<in> set D \<Longrightarrow> F s = F0 s"
proof -
  obtain F1 C1 where g: "grown H D F0 C0 F1 C1" and sh: "shrunk H env ex (unwanted D) F1 C1 F C" using m by (auto simp: moved_def)
  note keep = possible_kept [OF p g sh]
  show "F s = F0 s" if d: "(t, s, nm) \<in> set D" for t s nm
  proof -
    obtain c where "F0 s = Some (Regular c)" using src d by (auto simp: sources_def)
    then show ?thesis using keep [OF d] grown_regular [OF g] by simp
  qed
  have f: "feasible H D F C"
    using p by (intro feasible_shrunk [OF grown_feasible [OF g src] sh keep]) (auto simp: transition_possible_def)
  have "retirable H env ex F C raw \<and> (\<forall>p. te_resolve env raw = Some p \<longrightarrow> (\<forall>(t, s, nm) \<in> set D. \<not> prefix p t \<and> p \<noteq> s))"
    if raw: "raw \<in> unwanted D" "C raw \<noteq> Unclaimed" for raw
  proof -
    have "C0 raw \<noteq> Unclaimed" using sh raw unwanted_claim [OF g raw(1)] unfolding shrunk_def by metis
    note u = possible_unwanted [OF p raw(1) this]
    have "retirable H env ex F1 C1 raw" using u by (intro retirable_grown [OF g raw(1)]) fast+
    then show ?thesis using retirable_shrunk [OF _ sh] u(2) by blast
  qed
  then show "transition_possible H env ex D F C" using f by (simp add: transition_possible_def)
qed

text \<open>
  (C23) An interrupted transition can be repeated: if a design can be installed, then after a run of the transition that fails or is
  killed at any call to the operating system, the same transition, run again without faults, returns, makes the
  design the active one and gives every target the digest of its source.
\<close>

theorem interrupted_transition_recovers:
  assumes "map_of (ex_designs ex) to = Some design" and "desired_files env ex (tw_files w) design = Inr D"
    and "isOK (loaded w)" and "transition_possible H env ex D (files w) (claims w)" and "type \<in> {''activate'', ''forward'', ''restore''}"
  shows "\<exists>ob w'. transition H env ex to type ((fst (transition H env ex to type (w\<lparr>tw_faults := fs\<rparr>)))\<lparr>tw_faults := []\<rparr>) = (w', Inr ob)
    \<and> active_design w' = JStr to
    \<and> (\<forall>(t, s, names) \<in> set D. \<exists>b c. files w' t = Some (Regular b) \<and> files w s = Some (Regular c) \<and> H b = H c)"
proof -
  let ?w1 = "fst (transition H env ex to type (w\<lparr>tw_faults := fs\<rparr>))"
  let ?w = "?w1\<lparr>tw_faults := []\<rparr>"
  have src: "sources D (files w)" by (rule desired_sources [OF assms(2)])
  have w1: "isOK (loaded ?w1) \<and> transition_possible H env ex D (files ?w1) (claims ?w1) \<and> (\<forall>(t, s, nm) \<in> set D. files ?w1 s = files w s)"
    using transition_cases [of H env ex to type "w\<lparr>tw_faults := fs\<rparr>"]
  proof cases
    case unchanged
    then show ?thesis using assms by simp
  next
    case (interrupted design' D')
    then have "moved H env ex D (files w) (claims w) (files ?w1) (claims ?w1)" "isOK (loaded ?w1)"
      using assms(1,2) by (auto simp: interrupted_def)
    then show ?thesis using possible_moved [OF assms(4) src] by blast
  next
    case (completed design' D')
    then have "interrupted H env ex D (files w) (claims w) ?w1" using assms(1,2) completed_interrupted by fastforce
    then show ?thesis using possible_moved [OF assms(4) src] by (auto simp: interrupted_def)
  qed
  have "\<forall>(t, s, nm) \<in> set D. \<exists>c. map_of (tw_files ?w) s = Some (Regular c)"
    using w1 desired_files_sound(1) [OF assms(2)] by (fastforce simp: files_def file_of_def)
  then have D: "desired_files env ex (tw_files ?w) design = Inr D" by (rule desired_files_sound(3) [OF assms(2)])
  have "outcome True (transition H env ex to type) ?w
    (\<lambda>ob w'. \<exists>design D. map_of (ex_designs ex) to = Some design \<and> desired_files env ex (tw_files ?w) design = Inr D
       \<and> completed H env ex D (files ?w) (claims ?w) to w') (\<lambda>_. True)"
    by (rule outcome_mono [OF transition_outcome]) (use assms(1,5) D w1 in auto)
  then obtain w' ob where run: "transition H env ex to type ?w = (w', Inr ob)" and c: "completed H env ex D (files ?w1) (claims ?w1) to w'"
    using assms(1) D by (cases "transition H env ex to type ?w") (auto simp: outcome_def split: sum.splits)
  then obtain F1 C1 where g: "grown H D (files ?w1) (claims ?w1) F1 C1" "shrunk H env ex (unwanted D) F1 C1 (files w') (claims w')"
    and set: "\<forall>d \<in> set D. settled H (files ?w1) F1 d" by (auto simp: completed_def finished_def)
  have "\<exists>b c. files w' t = Some (Regular b) \<and> files w s = Some (Regular c) \<and> H b = H c" if d: "(t, s, nm) \<in> set D" for t s nm
  proof -
    have "files w' t = F1 t" using possible_kept [OF _ g d] w1 by blast
    moreover have "files ?w1 s = files w s" using w1 d by blast
    moreover have "settled H (files ?w1) F1 (t, s, nm)" using set d by blast
    ultimately show ?thesis by (simp add: settled_def)
  qed
  then show ?thesis using run c unfolding completed_def by blast
qed

theorem interrupted_transition_recovers_witness:
  "snd (transition id move_env move_ex ''A'' ''activate'' (move_world\<lparr>tw_faults := replicate 9 Works @ [Dies None]\<rparr>)) = Inl Killed
   \<and> (\<exists>ob w'. transition id move_env move_ex ''A'' ''activate''
       ((fst (transition id move_env move_ex ''A'' ''activate'' (move_world\<lparr>tw_faults := replicate 9 Works @ [Dies None]\<rparr>)))\<lparr>tw_faults := []\<rparr>)
     = (w', Inr ob) \<and> active_design w' = JStr ''A'')"
proof
  show "snd (transition id move_env move_ex ''A'' ''activate'' (move_world\<lparr>tw_faults := replicate 9 Works @ [Dies None]\<rparr>)) = Inl Killed"
    by code_simp
  show "\<exists>ob w'. transition id move_env move_ex ''A'' ''activate''
       ((fst (transition id move_env move_ex ''A'' ''activate'' (move_world\<lparr>tw_faults := replicate 9 Works @ [Dies None]\<rparr>)))\<lparr>tw_faults := []\<rparr>)
     = (w', Inr ob) \<and> active_design w' = JStr ''A''"
    using interrupted_transition_recovers [OF move_plan move_loaded move_possible, of "''activate''" "replicate 9 Works @ [Dies None]"] by fast
qed

end
