(* ===== verification/Registry.thy ===== *)
theory Registry
  imports Py_Http "HOL-Library.Product_Lexorder"
begin

text \<open>
  The registry of Data Agent endpoints and the routing of an access to one of them
  (\<open>pathfinder/distributed/registry.py\<close>, with \<open>sanitize_endpoint\<close> of \<open>pathfinder/integrations/flowmesh/redaction.py\<close>).

  A registry document is a JSON object. The environment is a function from variable names to values. \<open>float(n)\<close> of an integer
  is the nearest double; the interpreter raises \<open>OverflowError\<close> from \<open>2 ^ 1024 - 2 ^ 970\<close> on.
\<close>

section \<open>Reading a document\<close>

datatype registry_error = EndpointRegistryError string | RegistryOverflowError | RegistryTypeError

type_synonym 'a registry_result = "registry_error + 'a"

definition ENDPOINT_REGISTRY_SCHEMA_VERSION :: string where
  "ENDPOINT_REGISTRY_SCHEMA_VERSION = ''pathfinder.data-agent-endpoint-registry/v1alpha1''"

definition DEFAULT_ROUTE_KEY :: string where
  "DEFAULT_ROUTE_KEY = ''*''"

definition NETWORK_TRANSPORTS :: "string list" where
  "NETWORK_TRANSPORTS = [''remote'', ''local'']"

definition dget_or :: "dict \<Rightarrow> string \<Rightarrow> json \<Rightarrow> json" where
  "dget_or d k v = (case map_of d k of None \<Rightarrow> v | Some x \<Rightarrow> x)"

definition registry_mapping :: "json \<Rightarrow> string \<Rightarrow> dict registry_result" where
  "registry_mapping v name = (case v of JObj d \<Rightarrow> Inr d | _ \<Rightarrow> Inl (EndpointRegistryError (name @ '' must be an object'')))"

definition registry_string :: "json \<Rightarrow> string \<Rightarrow> string registry_result" where
  "registry_string v name =
     (case v of
        JStr s \<Rightarrow> require (strip s \<noteq> []) (EndpointRegistryError (name @ '' must be a non-empty string'')) (Inr (strip s))
      | _ \<Rightarrow> Inl (EndpointRegistryError (name @ '' must be a non-empty string'')))"

definition registry_require :: "dict \<Rightarrow> string \<Rightarrow> string \<Rightarrow> json registry_result" where
  "registry_require payload key name =
     require (key \<in> keys payload) (EndpointRegistryError (name @ '' is a required configuration field'')) (Inr (dget payload key))"

definition required_string :: "dict \<Rightarrow> string \<Rightarrow> string \<Rightarrow> string registry_result" where
  "required_string payload key name = bind_res (registry_require payload key name) (\<lambda>v. registry_string v name)"

definition float_of_int :: "int \<Rightarrow> pyfloat registry_result" where
  "float_of_int n =
     require (\<bar>n\<bar> < 2 ^ 1024 - 2 ^ 970) RegistryOverflowError (Inr (PyFloat (n < 0) (round_double (of_int \<bar>n\<bar>))))"

definition registry_positive_number :: "json \<Rightarrow> string \<Rightarrow> pyfloat registry_result" where
  "registry_positive_number v name =
     bind_res (case v of
         JInt n \<Rightarrow> float_of_int n
       | JFloat f \<Rightarrow> Inr f
       | _ \<Rightarrow> Inl (EndpointRegistryError (name @ '' must be a number''))) (\<lambda>result.
     require (float_value result > 0) (EndpointRegistryError (name @ '' must be positive and finite'')) (Inr result))"

definition registry_nonnegative_integer :: "json \<Rightarrow> string \<Rightarrow> int registry_result" where
  "registry_nonnegative_integer v name =
     (case v of
        JInt n \<Rightarrow> require (0 \<le> n) (EndpointRegistryError (name @ '' must be a non-negative integer'')) (Inr n)
      | _ \<Rightarrow> Inl (EndpointRegistryError (name @ '' must be a non-negative integer'')))"

section \<open>Endpoints\<close>

record data_agent_endpoint =
  ep_endpoint_id :: string
  ep_node_id :: string
  ep_location :: string
  ep_description :: string
  ep_base_url_env :: string
  ep_token_env :: "string option"
  ep_timeout_seconds :: pyfloat
  ep_max_retries :: int
  ep_telemetry_capabilities :: "string list"
  ep_network_transport :: string
  ep_network_zero_justification :: "string option"
  ep_health_requires_auth :: bool

definition crosses_network :: "data_agent_endpoint \<Rightarrow> bool" where
  "crosses_network ep \<longleftrightarrow> ep_network_transport ep = ''remote''"

definition in_quotes :: "string \<Rightarrow> string" where
  "in_quotes s = [CHR 0x27] @ s @ [CHR 0x27]"

definition resolve_base_url :: "(string \<Rightarrow> string option) \<Rightarrow> data_agent_endpoint \<Rightarrow> string registry_result" where
  "resolve_base_url env ep =
     (let value = text_or_empty (env (ep_base_url_env ep))
      in require (strip value \<noteq> [])
           (EndpointRegistryError (''endpoint '' @ in_quotes (ep_endpoint_id ep) @ '' requires environment variable ''
              @ ep_base_url_env ep @ '' to hold its base URL; it is unset or empty''))
           (Inr (strip value)))"

definition resolve_token :: "(string \<Rightarrow> string option) \<Rightarrow> data_agent_endpoint \<Rightarrow> string option" where
  "resolve_token env ep =
     (case ep_token_env ep of
        None \<Rightarrow> None
      | Some name \<Rightarrow> (case env name of Some value \<Rightarrow> if value = [] then None else Some value | None \<Rightarrow> None))"

text \<open>\<open>SplitResult.port\<close>: \<open>Inl\<close> where it raises \<open>ValueError\<close>.\<close>

definition url_port :: "url_parts \<Rightarrow> unit + int option" where
  "url_port u =
     (let hostinfo = snd (rpartition_at CHR ''@'' (u_netloc u));
          port = (case snd (partition_at CHR ''['' hostinfo) of
                    Some bracketed \<Rightarrow> text_or_empty (snd (partition_at CHR '':'' (text_or_empty (snd (partition_at CHR '']'' bracketed)))))
                  | None \<Rightarrow> text_or_empty (snd (partition_at CHR '':'' hostinfo)))
      in if port = [] then Inr None
         else if \<not> is_decimal port \<or> length port > 4300 \<or> int_of_decimal port > 65535 then Inl ()
         else Inr (Some (int_of_decimal port)))"

definition sanitize_endpoint :: "(string \<Rightarrow> string option) \<Rightarrow> string \<Rightarrow> string" where
  "sanitize_endpoint netloc_error base_url =
     (case urlsplit netloc_error (strip base_url) of
        Inl _ \<Rightarrow> ''<unparsable-endpoint>''
      | Inr parts \<Rightarrow>
          (case url_hostname parts of
             None \<Rightarrow> ''<unparsable-endpoint>''
           | Some host \<Rightarrow>
               if u_scheme parts = [] then ''<unparsable-endpoint>''
               else (case url_port parts of
                       Inl _ \<Rightarrow> ''<unparsable-endpoint>''
                     | Inr port \<Rightarrow> u_scheme parts @ ''://'' @ host @ (case port of None \<Rightarrow> [] | Some p \<Rightarrow> '':'' @ int_str p))))"

definition endpoint_fingerprint :: "(string \<Rightarrow> string option) \<Rightarrow> (bytes \<Rightarrow> string) \<Rightarrow> string \<Rightarrow> string" where
  "endpoint_fingerprint netloc_error H base_url = H (sanitize_endpoint netloc_error base_url)"

definition optional_string :: "string option \<Rightarrow> json" where
  "optional_string v = (case v of None \<Rightarrow> JNull | Some s \<Rightarrow> JStr s)"

definition endpoint_public_dict ::
  "(string \<Rightarrow> string option) \<Rightarrow> (bytes \<Rightarrow> string) \<Rightarrow> (string \<Rightarrow> string option) \<Rightarrow> data_agent_endpoint \<Rightarrow> dict" where
  "endpoint_public_dict netloc_error H env ep =
     (let url = strip (text_or_empty (env (ep_base_url_env ep))); configured = (url \<noteq> [])
      in [(''endpoint_id'', JStr (ep_endpoint_id ep)), (''node_id'', JStr (ep_node_id ep)), (''location'', JStr (ep_location ep)),
          (''description'', JStr (ep_description ep)), (''base_url_env'', JStr (ep_base_url_env ep)),
          (''base_url_configured'', JBool configured), (''token_env'', optional_string (ep_token_env ep)),
          (''token_configured'', JBool (resolve_token env ep \<noteq> None)), (''credentials_recorded'', JBool False),
          (''timeout_seconds'', JFloat (ep_timeout_seconds ep)), (''max_retries'', JInt (ep_max_retries ep)),
          (''telemetry_capabilities'', JArr (map JStr (ep_telemetry_capabilities ep))),
          (''network_transport'', JStr (ep_network_transport ep)),
          (''network_zero_justification'', optional_string (ep_network_zero_justification ep)),
          (''health_requires_auth'', JBool (ep_health_requires_auth ep))]
         @ (if configured
            then [(''endpoint'', JStr (sanitize_endpoint netloc_error url)),
                  (''endpoint_sha256'', JStr (endpoint_fingerprint netloc_error H url))]
            else []))"

section \<open>Routes\<close>

record access_route =
  rt_endpoint_id :: string
  rt_design_id :: string
  rt_representation_id :: string
  rt_source_node_id :: string
  rt_source_location :: string
  rt_destination_execution_node_id :: string
  rt_rule :: string

definition route_public_dict :: "access_route \<Rightarrow> dict" where
  "route_public_dict r =
     [(''endpoint_id'', JStr (rt_endpoint_id r)), (''design_id'', JStr (rt_design_id r)),
      (''representation_id'', JStr (rt_representation_id r)), (''source_node_id'', JStr (rt_source_node_id r)),
      (''source_location'', JStr (rt_source_location r)),
      (''destination_execution_node_id'', JStr (rt_destination_execution_node_id r)),
      (''routing_rule'', JStr (rt_rule r)), (''credentials_recorded'', JBool False)]"

record endpoint_registry =
  rg_schema_version :: string
  rg_registry_id :: string
  rg_execution_node_id :: string
  rg_endpoints :: "(string \<times> data_agent_endpoint) list"
  rg_placement :: "((string \<times> string) \<times> string) list"
  rg_default_endpoint_id :: "string option"
  rg_source_sha256 :: string

definition endpoint_ids :: "endpoint_registry \<Rightarrow> string list" where
  "endpoint_ids rg = sort (map fst (rg_endpoints rg))"

definition secret_environment_names :: "endpoint_registry \<Rightarrow> string list" where
  "secret_environment_names rg = sort (remdups (filter (\<lambda>n. n \<noteq> []) (List.map_filter (\<lambda>(_, ep). ep_token_env ep) (rg_endpoints rg))))"

definition single_endpoint :: "endpoint_registry \<Rightarrow> bool" where
  "single_endpoint rg \<longleftrightarrow> length (rg_endpoints rg) = 1"

definition registry_endpoint :: "endpoint_registry \<Rightarrow> string \<Rightarrow> data_agent_endpoint registry_result" where
  "registry_endpoint rg endpoint_id =
     (case map_of (rg_endpoints rg) endpoint_id of
        None \<Rightarrow> Inl (EndpointRegistryError (''unknown endpoint_id: '' @ endpoint_id))
      | Some ep \<Rightarrow> Inr ep)"

text \<open>The rule that selects an endpoint.\<close>

definition select_endpoint :: "endpoint_registry \<Rightarrow> string \<Rightarrow> string \<Rightarrow> (string \<times> string) option" where
  "select_endpoint rg design_id representation_id =
     (case map_of (rg_placement rg) (design_id, representation_id) of
        Some e \<Rightarrow> Some (e, ''explicit-design-representation'')
      | None \<Rightarrow>
          (case map_of (rg_placement rg) (design_id, DEFAULT_ROUTE_KEY) of
             Some e \<Rightarrow> Some (e, ''explicit-design-default'')
           | None \<Rightarrow>
               map_option (\<lambda>e. (e, if single_endpoint rg then ''single-endpoint-compatibility'' else ''registry-default-endpoint''))
                 (rg_default_endpoint_id rg)))"

definition registry_route :: "endpoint_registry \<Rightarrow> string \<Rightarrow> string \<Rightarrow> access_route registry_result" where
  "registry_route rg design_id representation_id =
     (case select_endpoint rg design_id representation_id of
        None \<Rightarrow>
          Inl (EndpointRegistryError (''no endpoint is declared for design '' @ in_quotes design_id @ '' representation ''
            @ in_quotes representation_id @ ''; refusing to guess a Data Agent''))
      | Some (endpoint_id, rule) \<Rightarrow>
          bind_res (registry_endpoint rg endpoint_id) (\<lambda>ep.
          Inr \<lparr>rt_endpoint_id = ep_endpoint_id ep, rt_design_id = design_id, rt_representation_id = representation_id,
               rt_source_node_id = ep_node_id ep, rt_source_location = ep_location ep,
               rt_destination_execution_node_id = rg_execution_node_id rg, rt_rule = rule\<rparr>))"

definition registry_public_dict ::
  "(string \<Rightarrow> string option) \<Rightarrow> (bytes \<Rightarrow> string) \<Rightarrow> (string \<Rightarrow> string option) \<Rightarrow> endpoint_registry \<Rightarrow> dict" where
  "registry_public_dict netloc_error H env rg =
     [(''schema_version'', JStr (rg_schema_version rg)), (''registry_id'', JStr (rg_registry_id rg)),
      (''execution_node_id'', JStr (rg_execution_node_id rg)), (''registry_sha256'', JStr (rg_source_sha256 rg)),
      (''single_endpoint_compatibility_mode'', JBool (single_endpoint rg)),
      (''default_endpoint_id'', optional_string (rg_default_endpoint_id rg)), (''credentials_recorded'', JBool False),
      (''endpoints'', JArr (List.map_filter (\<lambda>e. map_option (\<lambda>ep. JObj (endpoint_public_dict netloc_error H env ep)) (map_of (rg_endpoints rg) e))
         (endpoint_ids rg))),
      (''placement'', JArr (map (\<lambda>((d, r), e). JObj [(''design_id'', JStr d), (''representation_id'', JStr r), (''endpoint_id'', JStr e)])
         (sort_key fst (rg_placement rg))))]"

section \<open>Building a registry\<close>

definition forbidden_fields :: "string list" where
  "forbidden_fields = [''base_url'', ''token'', ''api_key'', ''password'']"

definition forbidden_message :: "string \<Rightarrow> string \<Rightarrow> string" where
  "forbidden_message name field = name @ ''.'' @ field @ '' is not allowed; declare base_url_env / token_env and supply the value ''
     @ ''through the environment so the registry never stores a URL or a credential''"

definition indexed_name :: "string \<Rightarrow> int \<Rightarrow> string" where
  "indexed_name name i = name @ ''['' @ int_str i @ '']''"

fun capability_list :: "string \<Rightarrow> int \<Rightarrow> json list \<Rightarrow> string list registry_result" where
  "capability_list name i [] = Inr []"
| "capability_list name i (v # vs) =
     bind_res (registry_string v (indexed_name (name @ ''.telemetry_capabilities'') i)) (\<lambda>c.
     bind_res (capability_list name (i + 1) vs) (\<lambda>cs. Inr (c # cs)))"

definition optional_text :: "json \<Rightarrow> string \<Rightarrow> string option registry_result" where
  "optional_text v name = (if v = JNull then Inr None else map_sum id Some (registry_string v name))"

definition parse_endpoint ::
  "string \<Rightarrow> json \<Rightarrow> (string \<times> data_agent_endpoint) list \<Rightarrow> data_agent_endpoint registry_result" where
  "parse_endpoint name raw found =
     bind_res (registry_mapping raw name) (\<lambda>payload.
     bind_res (required_string payload ''endpoint_id'' (name @ ''.endpoint_id'')) (\<lambda>endpoint_id.
     require (endpoint_id \<notin> fst ` set found) (EndpointRegistryError (''duplicate endpoint_id: '' @ endpoint_id)) (
     case find (\<lambda>f. f \<in> keys payload) forbidden_fields of
       Some forbidden \<Rightarrow> Inl (EndpointRegistryError (forbidden_message name forbidden))
     | None \<Rightarrow>
     (case dget_or payload ''telemetry_capabilities'' (JArr []) of
       JArr capabilities \<Rightarrow>
         bind_res (registry_string (dget_or payload ''network_transport'' (JStr ''remote'')) (name @ ''.network_transport'')) (\<lambda>transport.
         require (transport \<in> set NETWORK_TRANSPORTS)
           (EndpointRegistryError (name @ ''.network_transport must be one of '' @ join '', '' NETWORK_TRANSPORTS)) (
         bind_res (if transport = ''local''
             then map_sum id Some (registry_string (dget payload ''network_zero_justification'') (name @ ''.network_zero_justification''))
             else optional_text (dget payload ''network_zero_justification'') (name @ ''.network_zero_justification'')) (\<lambda>justification.
         bind_res (case dget_or payload ''health_requires_auth'' (JBool False) of
             JBool b \<Rightarrow> Inr b
           | _ \<Rightarrow> Inl (EndpointRegistryError (name @ ''.health_requires_auth must be a boolean''))) (\<lambda>health_auth.
         bind_res (required_string payload ''node_id'' (name @ ''.node_id'')) (\<lambda>node_id.
         bind_res (required_string payload ''location'' (name @ ''.location'')) (\<lambda>location.
         bind_res (registry_string (dget_or payload ''description'' (JStr endpoint_id)) (name @ ''.description'')) (\<lambda>description.
         bind_res (required_string payload ''base_url_env'' (name @ ''.base_url_env'')) (\<lambda>base_url_env.
         bind_res (optional_text (dget payload ''token_env'') (name @ ''.token_env'')) (\<lambda>token_env.
         bind_res (registry_positive_number (dget_or payload ''timeout_seconds'' (JFloat (PyFloat False 30))) (name @ ''.timeout_seconds'')) (\<lambda>timeout.
         bind_res (registry_nonnegative_integer (dget_or payload ''max_retries'' (JInt 1)) (name @ ''.max_retries'')) (\<lambda>retries.
         bind_res (capability_list name 0 capabilities) (\<lambda>caps.
         Inr \<lparr>ep_endpoint_id = endpoint_id, ep_node_id = node_id, ep_location = location, ep_description = description,
              ep_base_url_env = base_url_env, ep_token_env = token_env, ep_timeout_seconds = timeout, ep_max_retries = retries,
              ep_telemetry_capabilities = caps, ep_network_transport = transport,
              ep_network_zero_justification = justification, ep_health_requires_auth = health_auth\<rparr>))))))))))))
     | _ \<Rightarrow> Inl (EndpointRegistryError (name @ ''.telemetry_capabilities must be an array''))))))"

fun endpoint_loop ::
  "int \<Rightarrow> json list \<Rightarrow> (string \<times> data_agent_endpoint) list \<Rightarrow> (string \<times> data_agent_endpoint) list registry_result" where
  "endpoint_loop i [] found = Inr found"
| "endpoint_loop i (raw # raws) found =
     bind_res (parse_endpoint (indexed_name ''endpoints'' i) raw found) (\<lambda>ep.
     endpoint_loop (i + 1) raws (found @ [(ep_endpoint_id ep, ep)]))"

fun placement_loop ::
  "(string \<times> data_agent_endpoint) list \<Rightarrow> int \<Rightarrow> json list \<Rightarrow> ((string \<times> string) \<times> string) list
   \<Rightarrow> ((string \<times> string) \<times> string) list registry_result" where
  "placement_loop eps i [] found = Inr found"
| "placement_loop eps i (raw # raws) found =
     (let name = indexed_name ''placement'' i
      in bind_res (registry_mapping raw name) (\<lambda>payload.
         bind_res (required_string payload ''design_id'' (name @ ''.design_id'')) (\<lambda>design_id.
         bind_res (registry_string (dget_or payload ''representation_id'' (JStr DEFAULT_ROUTE_KEY)) (name @ ''.representation_id'')) (\<lambda>representation_id.
         bind_res (required_string payload ''endpoint_id'' (name @ ''.endpoint_id'')) (\<lambda>endpoint_id.
         require (endpoint_id \<in> fst ` set eps)
           (EndpointRegistryError (name @ ''.endpoint_id references an undeclared endpoint: '' @ endpoint_id)) (
         require ((design_id, representation_id) \<notin> fst ` set found)
           (EndpointRegistryError (''duplicate placement rule for design '' @ in_quotes design_id @ '' representation ''
              @ in_quotes representation_id)) (
         placement_loop eps (i + 1) raws (found @ [((design_id, representation_id), endpoint_id)]))))))))"

text \<open>The rules are iterated over as Python iterates over the value found: a string gives its characters, an object its keys.\<close>

definition iterate :: "json \<Rightarrow> json list registry_result" where
  "iterate v =
     (case v of
        JArr xs \<Rightarrow> Inr xs
      | JStr s \<Rightarrow> Inr (map (\<lambda>c. JStr [c]) s)
      | JObj d \<Rightarrow> Inr (map (\<lambda>p. JStr (fst p)) d)
      | _ \<Rightarrow> Inl RegistryTypeError)"

definition default_endpoint ::
  "dict \<Rightarrow> (string \<times> data_agent_endpoint) list \<Rightarrow> ((string \<times> string) \<times> string) list \<Rightarrow> string option registry_result" where
  "default_endpoint doc eps placement =
     (if dget doc ''default_endpoint_id'' \<noteq> JNull
      then bind_res (registry_string (dget doc ''default_endpoint_id'') ''default_endpoint_id'') (\<lambda>e.
           require (e \<in> fst ` set eps)
             (EndpointRegistryError (''default_endpoint_id references an undeclared endpoint: '' @ e)) (Inr (Some e)))
      else if length eps = 1 \<and> placement = [] then Inr (Some (fst (hd eps)))
      else Inr None)"

definition build_endpoint_registry :: "dict \<Rightarrow> string \<Rightarrow> endpoint_registry registry_result" where
  "build_endpoint_registry doc source_sha256 =
     bind_res (required_string doc ''schema_version'' ''schema_version'') (\<lambda>schema_version.
     require (schema_version = ENDPOINT_REGISTRY_SCHEMA_VERSION)
       (EndpointRegistryError (''unsupported endpoint registry schema_version: '' @ schema_version)) (
     bind_res (registry_require doc ''endpoints'' ''endpoints'') (\<lambda>raw_endpoints.
     bind_res (case raw_endpoints of
         JArr xs \<Rightarrow> require (xs \<noteq> []) (EndpointRegistryError ''endpoints must be a non-empty array'') (Inr xs)
       | _ \<Rightarrow> Inl (EndpointRegistryError ''endpoints must be a non-empty array'')) (\<lambda>raws.
     bind_res (endpoint_loop 0 raws []) (\<lambda>eps.
     bind_res (if ''placement'' \<in> keys doc then iterate (dget doc ''placement'') else Inr []) (\<lambda>rules.
     bind_res (placement_loop eps 0 rules []) (\<lambda>placement.
     bind_res (default_endpoint doc eps placement) (\<lambda>default_id.
     bind_res (required_string doc ''registry_id'' ''registry_id'') (\<lambda>registry_id.
     bind_res (required_string doc ''execution_node_id'' ''execution_node_id'') (\<lambda>execution_node_id.
     Inr \<lparr>rg_schema_version = schema_version, rg_registry_id = registry_id, rg_execution_node_id = execution_node_id,
          rg_endpoints = eps, rg_placement = placement, rg_default_endpoint_id = default_id,
          rg_source_sha256 = source_sha256\<rparr>))))))))))"

section \<open>Artifact handles\<close>

record endpoint_scoped_handle =
  eh_endpoint_id :: string
  eh_handle :: string

definition handle_fingerprint :: "(bytes \<Rightarrow> string) \<Rightarrow> endpoint_scoped_handle \<Rightarrow> string" where
  "handle_fingerprint H h = H (eh_endpoint_id h @ [CHR 0x00] @ eh_handle h)"

definition redeem_at :: "endpoint_scoped_handle \<Rightarrow> string \<Rightarrow> string + string" where
  "redeem_at h endpoint_id =
     require (endpoint_id = eh_endpoint_id h)
       (''artifact handle was issued by endpoint '' @ in_quotes (eh_endpoint_id h) @ '' and cannot be redeemed at '' @ in_quotes endpoint_id)
       (Inr (eh_handle h))"

definition handle_public_dict :: "(bytes \<Rightarrow> string) \<Rightarrow> endpoint_scoped_handle \<Rightarrow> dict" where
  "handle_public_dict H h =
     [(''endpoint_id'', JStr (eh_endpoint_id h)), (''artifact_handle_sha256'', JStr (handle_fingerprint H h)),
      (''handle_recorded'', JBool False)]"

end
