(* ===== verification/Agent_Protocol.thy ===== *)
theory Agent_Protocol
  imports Registry Json_Read
begin

text \<open>
  The messages of the Data Agent protocol (\<open>pathfinder/data_agent_client.py\<close>): the settings of a client, the access request, the
  payload, result and telemetry of an access, with the checks of their constructors, and the parts of \<open>urllib.parse\<close> the client uses.

  A setting is a value of its declared type, so the \<open>isinstance\<close> checks on settings are not repeated here, and floats are finite. The checks
  on a decoded response are on JSON values and are complete. \<open>H\<close> is SHA-256, and \<open>ip6_loopback\<close> tells the loopback
  addresses of IPv6; lower-casing is that of ASCII letters.
\<close>

section \<open>URLs\<close>

definition uses_params :: "string list" where
  "uses_params = ['''', ''ftp'', ''hdl'', ''prospero'', ''http'', ''https'', ''shttp'', ''rtsp'', ''rtsps'', ''rtspu'', ''sip'', ''sips'', ''mms'', ''sftp'', ''tel'']"

text \<open>The path without the parameters of its last segment, and the parameters.\<close>

definition splitparams :: "string \<Rightarrow> string \<times> string" where
  "splitparams path =
     (case rpartition_at CHR ''/'' path of
        (before, after) \<Rightarrow>
          ((case before of None \<Rightarrow> [] | Some b \<Rightarrow> b @ ''/'') @ fst (partition_at CHR '';'' after),
           text_or_empty (snd (partition_at CHR '';'' after))))"

definition urlparse :: "(string \<Rightarrow> string option) \<Rightarrow> string \<Rightarrow> string + url_parts" where
  "urlparse netloc_error url =
     bind_res (urlsplit netloc_error url) (\<lambda>u.
     Inr (if u_scheme u \<in> set uses_params then u\<lparr>u_path := fst (splitparams (u_path u))\<rparr> else u))"

fun resolve_segments :: "string list \<Rightarrow> string list \<Rightarrow> string list" where
  "resolve_segments done [] = done"
| "resolve_segments done (seg # segs) =
     (if seg = ''..'' then resolve_segments (butlast done) segs
      else if seg = ''.'' then resolve_segments done segs
      else resolve_segments (done @ [seg]) segs)"

definition inner_nonempty :: "string list \<Rightarrow> string list" where
  "inner_nonempty segs =
     (if length segs \<le> 1 then segs else hd segs # filter (\<lambda>s. s \<noteq> []) (butlast (tl segs)) @ [last segs])"

definition joined_path :: "string \<Rightarrow> string \<Rightarrow> string" where
  "joined_path bpath path =
     (let parts = split_on CHR ''/'' bpath;
          base = (if last parts \<noteq> [] then butlast parts else parts);
          segs = inner_nonempty (base @ split_on CHR ''/'' path);
          resolved = resolve_segments [] segs @ (if last segs \<in> {''.'', ''..''} then [[]] else []);
          joined = join ''/'' resolved
      in if joined = [] then ''/'' else joined)"

text \<open>\<open>urljoin(base, path)\<close> of an HTTP(S) base and a relative path without scheme, parameters, query and fragment.\<close>

definition urljoin :: "(string \<Rightarrow> string option) \<Rightarrow> string \<Rightarrow> string \<Rightarrow> string + string" where
  "urljoin netloc_error base path =
     bind_res (urlparse netloc_error base) (\<lambda>b.
     let joined = joined_path (u_path b) path
     in Inr (u_scheme b @ ''://'' @ u_netloc b @ (if hd joined = CHR ''/'' then joined else ''/'' @ joined)))"

definition quote_strict :: "string \<Rightarrow> string" where
  "quote_strict s = concat (map (\<lambda>c. if always_safe c then [c] else [CHR 0x25, hex_upper (ord c div 16), hex_upper (ord c mod 16)]) s)"

section \<open>Numbers and texts\<close>

text \<open>\<open>int(s)\<close>: surrounding space, a sign, and digits that single underscores may separate.\<close>

fun digit_groups :: "string \<Rightarrow> bool" where
  "digit_groups [] = False"
| "digit_groups [c] = is_digit c"
| "digit_groups (c # d # s) = (is_digit c \<and> (if d = CHR ''_'' then digit_groups s else digit_groups (d # s)))"

definition int_parse :: "string \<Rightarrow> int option" where
  "int_parse text =
     (let t = strip text;
          (neg, body) = (case t of c # r \<Rightarrow> if c = CHR ''-'' then (True, r) else if c = CHR ''+'' then (False, r) else (False, t) | [] \<Rightarrow> (False, t));
          digits = filter (\<lambda>c. c \<noteq> CHR ''_'') body
      in if digit_groups body \<and> length digits \<le> 4300
         then Some (if neg then - int_of_decimal digits else int_of_decimal digits) else None)"

function str_replace :: "string \<Rightarrow> string \<Rightarrow> string \<Rightarrow> string" where
  "str_replace old new s =
     (if s = [] \<or> old = [] then s
      else if take (length old) s = old then new @ str_replace old new (drop (length old) s)
      else hd s # str_replace old new (tl s))"
  by pat_completeness auto
termination
  by (relation "measure (\<lambda>(old, new, s). length s)") auto

declare str_replace.simps [simp del]

definition base_media_type :: "string \<Rightarrow> string" where
  "base_media_type v = ascii_lower (strip (fst (partition_at CHR '';'' v)))"

definition is_json_media_type :: "string \<Rightarrow> bool" where
  "is_json_media_type t \<longleftrightarrow> t = ''application/json'' \<or> suffix ''+json'' t"

section \<open>Errors\<close>

record access_telemetry =
  tm_access_id :: string
  tm_object_id :: "string option"
  tm_representation_id :: string
  tm_object_catalog_version :: "string option"
  tm_download_request_count :: int
  tm_completed_request_count :: int
  tm_full_download_count :: int
  tm_bytes_sent :: int
  tm_transfer_latency_ms :: pyfloat
  tm_latest_completed_at :: "pyfloat option"
  tm_in_flight_request_count :: "int option"
  tm_server_reported_complete :: "bool option"

datatype agent_error =
  DataAgentUnavailableError string
| DataAgentHTTPError int string
| DataAgentProtocolError string
| DataAgentArtifactSecurityError string
| DataAgentArtifactRedirectError string
| DataAgentArtifactTooLargeError string
| DataAgentArtifactUnsupportedError string
| DataAgentArtifactIntegrityError string
| DataAgentTelemetryQuiescenceError string access_telemetry
| DataAgentTelemetryUnsupportedError string "string list"
| AgentValueError string
| AgentOverflowError
| TransportRaises

definition lift_url :: "string + 'a \<Rightarrow> agent_error + 'a" where
  "lift_url r = map_sum AgentValueError id r"

section \<open>Settings\<close>

record agent_settings =
  as_base_url :: string
  as_token :: "string option"
  as_timeout_seconds :: pyfloat
  as_max_retries :: int
  as_max_response_bytes :: int
  as_max_artifact_bytes :: int
  as_private_hosts :: "string list"

definition lower_alnum :: "char \<Rightarrow> bool" where
  "lower_alnum c \<longleftrightarrow> is_lower c \<or> is_digit c"

definition host_label :: "string \<Rightarrow> bool" where
  "host_label l \<longleftrightarrow> l \<noteq> [] \<and> length l \<le> 63 \<and> lower_alnum (hd l) \<and> lower_alnum (last l) \<and> list_all (\<lambda>c. lower_alnum c \<or> c = CHR ''-'') l"

definition simulator_private_host :: "string \<Rightarrow> bool" where
  "simulator_private_host h \<longleftrightarrow>
     list_ex (\<lambda>pre. prefix pre h \<and> host_label (drop (length pre) h)) [''pathfinder-sim-'', ''pathfinder-full-flow-'']"

definition ipv4_octet :: "string \<Rightarrow> bool" where
  "ipv4_octet s \<longleftrightarrow> is_decimal s \<and> length s \<le> 3 \<and> (length s = 1 \<or> hd s \<noteq> CHR ''0'') \<and> int_of_decimal s \<le> 255"

definition is_loopback_hostname :: "(string \<Rightarrow> string) \<Rightarrow> (string \<Rightarrow> bool) \<Rightarrow> string option \<Rightarrow> bool" where
  "is_loopback_hostname casefold ip6_loopback hostname =
     (case hostname of
        None \<Rightarrow> False
      | Some h \<Rightarrow>
          casefold h = ''localhost''
          \<or> (let octets = split_on CHR ''.'' h in length octets = 4 \<and> list_all ipv4_octet octets \<and> hd octets = ''127'')
          \<or> ip6_loopback h)"

definition DataAgentClientSettings ::
  "(string \<Rightarrow> string option) \<Rightarrow> (string \<Rightarrow> string) \<Rightarrow> (string \<Rightarrow> bool) \<Rightarrow> agent_settings \<Rightarrow> agent_error + agent_settings" where
  "DataAgentClientSettings netloc_error casefold ip6_loopback st =
     require (strip (as_base_url st) \<noteq> []) (AgentValueError ''Data Agent base_url cannot be empty'') (
     bind_res (lift_url (urlparse netloc_error (as_base_url st))) (\<lambda>parsed.
     require (u_scheme parsed \<in> {''http'', ''https''} \<and> u_netloc parsed \<noteq> [])
       (AgentValueError ''Data Agent base_url must be an absolute HTTP(S) URL'') (
     require (url_username parsed = None \<and> url_password parsed = None)
       (AgentValueError ''Data Agent base_url cannot contain credentials; use PATHFINDER_DATA_AGENT_TOKEN'') (
     require (distinct (as_private_hosts st) \<and> list_all simulator_private_host (as_private_hosts st))
       (AgentValueError ''simulator_private_http_hosts must contain unique frozen Pathfinder simulator service names'') (
     require (\<not> (u_scheme parsed = ''http'' \<and> \<not> (is_loopback_hostname casefold ip6_loopback (url_hostname parsed)
                \<or> url_hostname parsed \<in> Some ` set (as_private_hosts st))))
       (AgentValueError ''Data Agent base_url must use HTTPS unless it is loopback or an explicitly bound Pathfinder simulator-private host'') (
     require (0 < float_value (as_timeout_seconds st)) (AgentValueError ''Data Agent timeout_seconds must be positive and finite'') (
     require (0 \<le> as_max_retries st) (AgentValueError ''Data Agent max_retries must be a non-negative integer'') (
     require (0 < as_max_response_bytes st) (AgentValueError ''Data Agent max_response_bytes must be a positive integer'') (
     require (0 < as_max_artifact_bytes st) (AgentValueError ''Data Agent max_artifact_bytes must be a positive integer'') (
     Inr st))))))))))"

definition default_settings :: "string \<Rightarrow> string option \<Rightarrow> pyfloat \<Rightarrow> int \<Rightarrow> agent_settings" where
  "default_settings base_url token timeout retries =
     \<lparr>as_base_url = base_url, as_token = token, as_timeout_seconds = timeout, as_max_retries = retries,
      as_max_response_bytes = 4 * 1024 * 1024, as_max_artifact_bytes = 4 * 1024 * 1024, as_private_hosts = []\<rparr>"

definition nonempty_text :: "string option \<Rightarrow> string option" where
  "nonempty_text v = (case v of Some [] \<Rightarrow> None | _ \<Rightarrow> v)"

definition settings_from_environment ::
  "(string \<Rightarrow> string option) \<Rightarrow> (string \<Rightarrow> string) \<Rightarrow> (string \<Rightarrow> bool) \<Rightarrow> (string \<Rightarrow> string option)
   \<Rightarrow> string option \<Rightarrow> pyfloat option \<Rightarrow> int option \<Rightarrow> agent_error + agent_settings" where
  "settings_from_environment netloc_error casefold ip6_loopback env base_url timeout_seconds max_retries =
     (case (case nonempty_text base_url of Some u \<Rightarrow> Some u | None \<Rightarrow> nonempty_text (env ''PATHFINDER_DATA_AGENT_URL'')) of
        None \<Rightarrow> Inl (AgentValueError ''Data Agent URL is required; pass --data-agent-url or set PATHFINDER_DATA_AGENT_URL'')
      | Some url \<Rightarrow>
          DataAgentClientSettings netloc_error casefold ip6_loopback
            (default_settings url (nonempty_text (env ''PATHFINDER_DATA_AGENT_TOKEN''))
              (case timeout_seconds of Some t \<Rightarrow> t | None \<Rightarrow> PyFloat False 30) (case max_retries of Some n \<Rightarrow> n | None \<Rightarrow> 1)))"

text \<open>\<open>DataAgentEndpoint.client_settings\<close> of the registry.\<close>

definition client_settings ::
  "(string \<Rightarrow> string option) \<Rightarrow> (string \<Rightarrow> string) \<Rightarrow> (string \<Rightarrow> bool) \<Rightarrow> (string \<Rightarrow> string option) \<Rightarrow> data_agent_endpoint
   \<Rightarrow> (registry_error + agent_error) + agent_settings" where
  "client_settings netloc_error casefold ip6_loopback env ep =
     bind_res (map_sum Inl id (resolve_base_url env ep)) (\<lambda>url.
     map_sum Inr id (DataAgentClientSettings netloc_error casefold ip6_loopback
       (default_settings url (resolve_token env ep) (ep_timeout_seconds ep) (ep_max_retries ep))))"

section \<open>Requests\<close>

definition DATA_AGENT_API_VERSION :: string where
  "DATA_AGENT_API_VERSION = ''pathfinder.data-agent/v1alpha1''"

record access_request =
  rq_access_id :: string
  rq_session_id :: string
  rq_trial_id :: string
  rq_plan_id :: string
  rq_plan_epoch :: int
  rq_task_class_id :: string
  rq_representation_id :: string
  rq_event_index :: int
  rq_latency_multiplier :: json
  rq_binding :: dict
  rq_plan_capability :: "dict option"
  rq_object_id :: "string option"

text \<open>A multiplier is an \<open>int\<close> or a \<open>float\<close>; \<open>float\<close> of a large integer raises.\<close>

definition positive_multiplier :: "json \<Rightarrow> agent_error + pyfloat" where
  "positive_multiplier v =
     (let bad = AgentValueError ''Data Agent latency_multiplier must be positive and finite'' in
      case v of
        JInt n \<Rightarrow> bind_res (map_sum (\<lambda>_. AgentOverflowError) id (float_of_int n)) (\<lambda>f. require (0 < n) bad (Inr f))
      | JFloat f \<Rightarrow> require (0 < float_value f) bad (Inr f)
      | _ \<Rightarrow> Inl bad)"

text \<open>The checks of the constructor, in its order.\<close>

definition DataAgentAccessRequest :: "access_request \<Rightarrow> agent_error + access_request" where
  "DataAgentAccessRequest rq =
     (case find (\<lambda>(name, value). strip value = [])
        [(''access_id'', rq_access_id rq), (''session_id'', rq_session_id rq), (''trial_id'', rq_trial_id rq), (''plan_id'', rq_plan_id rq),
         (''task_class_id'', rq_task_class_id rq), (''representation_id'', rq_representation_id rq)] of
        Some (name, _) \<Rightarrow> Inl (AgentValueError (''Data Agent '' @ name @ '' cannot be empty''))
      | None \<Rightarrow>
          require (0 \<le> rq_plan_epoch rq) (AgentValueError ''Data Agent plan_epoch must be a non-negative integer'') (
          require (0 \<le> rq_event_index rq) (AgentValueError ''Data Agent event_index must be a non-negative integer'') (
          bind_res (positive_multiplier (rq_latency_multiplier rq)) (\<lambda>_.
          require (rq_object_id rq = None \<or> strip (text_or_empty (rq_object_id rq)) \<noteq> [])
            (AgentValueError ''Data Agent object_id must be a non-empty string or null'') (Inr rq)))))"

definition request_dict :: "access_request \<Rightarrow> dict" where
  "request_dict rq =
     [(''api_version'', JStr DATA_AGENT_API_VERSION), (''access_id'', JStr (rq_access_id rq)), (''session_id'', JStr (rq_session_id rq)),
      (''trial_id'', JStr (rq_trial_id rq)), (''plan_id'', JStr (rq_plan_id rq)), (''plan_epoch'', JInt (rq_plan_epoch rq)),
      (''task_class_id'', JStr (rq_task_class_id rq)), (''representation_id'', JStr (rq_representation_id rq)),
      (''event_index'', JInt (rq_event_index rq)), (''latency_multiplier'', rq_latency_multiplier rq),
      (''binding'', JObj (rq_binding rq))]
     @ (case rq_plan_capability rq of None \<Rightarrow> [] | Some c \<Rightarrow> [(''plan_capability'', JObj c)])
     @ (case rq_object_id rq of None \<Rightarrow> [] | Some i \<Rightarrow> [(''object_id'', JStr i)])"

text \<open>The text of a request: compact, with its keys in insertion order.\<close>

primrec dumps_plain :: "json \<Rightarrow> string" where
  "dumps_plain JNull = ''null''"
| "dumps_plain (JBool b) = (if b then ''true'' else ''false'')"
| "dumps_plain (JInt n) = int_str n"
| "dumps_plain (JFloat f) = float_repr f"
| "dumps_plain (JStr s) = dumps_str s"
| "dumps_plain (JArr xs) = ''['' @ join '','' (map dumps_plain xs) @ '']''"
| "dumps_plain (JObj d) = ''{'' @ join '','' (map (\<lambda>(k, t). dumps_str k @ '':'' @ t) (map (map_prod id dumps_plain) d)) @ ''}''"

section \<open>Responses\<close>

record agent_payload =
  pl_kind :: string
  pl_media_type :: string
  pl_value :: json
  pl_sha256 :: "string option"

definition protocol_string :: "json \<Rightarrow> string \<Rightarrow> agent_error + string" where
  "protocol_string v message =
     (case v of JStr s \<Rightarrow> require (strip s \<noteq> []) (DataAgentProtocolError message) (Inr s) | _ \<Rightarrow> Inl (DataAgentProtocolError message))"

definition optional_nonempty :: "json \<Rightarrow> string \<Rightarrow> agent_error + string option" where
  "optional_nonempty v message = (if v = JNull then Inr None else map_sum id Some (protocol_string v message))"

definition is_hex :: "char \<Rightarrow> bool" where
  "is_hex c \<longleftrightarrow> hex_value c \<noteq> None"

definition payload_digest :: "json \<Rightarrow> agent_error + string option" where
  "payload_digest v =
     (case v of
        JNull \<Rightarrow> Inr None
      | JStr s \<Rightarrow> require (length s = 64 \<and> list_all is_hex s)
          (DataAgentProtocolError ''Data Agent payload.sha256 must be a 64-character hex digest'') (Inr (Some (ascii_lower s)))
      | _ \<Rightarrow> Inl (DataAgentProtocolError ''Data Agent payload.sha256 must be a 64-character hex digest''))"

fun payload_text :: "json \<Rightarrow> string option" where
  "payload_text (JStr s) = Some s"
| "payload_text _ = None"

definition payload_from_dict :: "(bytes \<Rightarrow> string) \<Rightarrow> dict \<Rightarrow> agent_error + agent_payload" where
  "payload_from_dict H d =
     bind_res (protocol_string (dget d ''kind'') ''Data Agent payload.kind must be a non-empty string'') (\<lambda>kind.
     bind_res (protocol_string (dget d ''media_type'') ''Data Agent payload.media_type must be a non-empty string'') (\<lambda>media_type.
     require (''value'' \<in> keys d) (DataAgentProtocolError ''Data Agent payload.value is required'') (
     let v = dget d ''value'' in
     require (kind = ''inline_text'' \<longrightarrow> payload_text v \<noteq> None) (DataAgentProtocolError ''Data Agent inline_text payload.value must be a string'') (
     require (kind = ''artifact_uri'' \<longrightarrow> payload_text v \<noteq> None) (DataAgentProtocolError ''Data Agent artifact_uri payload.value must be a string'') (
     bind_res (payload_digest (dget d ''sha256'')) (\<lambda>digest.
     require (\<not> (kind = ''inline_text'' \<and> digest \<noteq> None \<and> Some (H (text_or_empty (payload_text v))) \<noteq> digest))
       (DataAgentProtocolError ''Data Agent inline_text payload.sha256 does not match value'') (
     Inr \<lparr>pl_kind = kind, pl_media_type = media_type, pl_value = v, pl_sha256 = digest\<rparr>)))))))"

definition digest_field :: "string option \<Rightarrow> dict" where
  "digest_field v = (case v of None \<Rightarrow> [] | Some d \<Rightarrow> [(''sha256'', JStr d)])"

definition payload_dict :: "agent_payload \<Rightarrow> dict" where
  "payload_dict p =
     [(''kind'', JStr (pl_kind p)), (''media_type'', JStr (pl_media_type p)), (''value'', pl_value p)] @ digest_field (pl_sha256 p)"

record access_result =
  ar_access_id :: string
  ar_payload :: agent_payload
  ar_service_latency_ms :: pyfloat
  ar_realized_cost :: pyfloat
  ar_bytes_read :: int
  ar_location :: string
  ar_cache_hit :: "bool option"
  ar_timings_ms :: "(string \<times> pyfloat) list"
  ar_client_round_trip_ms :: "pyfloat option"
  ar_object_id :: "string option"
  ar_object_catalog_version :: "string option"

definition observed_latency_ms :: "access_result \<Rightarrow> pyfloat" where
  "observed_latency_ms r = (case ar_client_round_trip_ms r of Some ms \<Rightarrow> ms | None \<Rightarrow> ar_service_latency_ms r)"

text \<open>A float that is not finite cannot be read; \<open>float\<close> of a large integer raises.\<close>

definition validated_nonnegative_number :: "json \<Rightarrow> string \<Rightarrow> agent_error + pyfloat" where
  "validated_nonnegative_number v name =
     (let bad = DataAgentProtocolError (''Data Agent telemetry.'' @ name @ '' must be a finite non-negative number'') in
      case v of
        JInt n \<Rightarrow> bind_res (map_sum (\<lambda>_. AgentOverflowError) id (float_of_int n)) (\<lambda>f. require (0 \<le> float_value f) bad (Inr f))
      | JFloat f \<Rightarrow> require (0 \<le> float_value f) bad (Inr f)
      | _ \<Rightarrow> Inl bad)"

definition nonnegative_number :: "dict \<Rightarrow> string \<Rightarrow> agent_error + pyfloat" where
  "nonnegative_number d name =
     require (name \<in> keys d) (DataAgentProtocolError (''Data Agent telemetry.'' @ name @ '' is required''))
       (validated_nonnegative_number (dget d name) name)"

definition nonnegative_int :: "json \<Rightarrow> string \<Rightarrow> agent_error + int" where
  "nonnegative_int v message =
     (case v of JInt n \<Rightarrow> require (0 \<le> n) (DataAgentProtocolError message) (Inr n) | _ \<Rightarrow> Inl (DataAgentProtocolError message))"

definition optional_bool :: "json \<Rightarrow> string \<Rightarrow> agent_error + bool option" where
  "optional_bool v message = (case v of JNull \<Rightarrow> Inr None | JBool b \<Rightarrow> Inr (Some b) | _ \<Rightarrow> Inl (DataAgentProtocolError message))"

definition agent_object :: "json \<Rightarrow> string \<Rightarrow> agent_error + dict" where
  "agent_object v message = (case v of JObj d \<Rightarrow> Inr d | _ \<Rightarrow> Inl (DataAgentProtocolError message))"

definition result_from_dict :: "(bytes \<Rightarrow> string) \<Rightarrow> dict \<Rightarrow> agent_error + access_result" where
  "result_from_dict H d =
     require (dget d ''api_version'' = JStr DATA_AGENT_API_VERSION) (DataAgentProtocolError ''Data Agent response has an unsupported api_version'') (
     require (dget d ''status'' = JStr ''succeeded'')
       (DataAgentProtocolError (''Data Agent successful HTTP response must have status='' @ in_quotes ''succeeded'')) (
     bind_res (protocol_string (dget d ''access_id'') ''Data Agent response access_id is missing'') (\<lambda>access_id.
     bind_res (optional_nonempty (dget d ''object_id'') ''Data Agent response object_id must be a non-empty string or null'') (\<lambda>object_id.
     bind_res (optional_nonempty (dget d ''object_catalog_version'') ''Data Agent response object_catalog_version is invalid'') (\<lambda>version.
     bind_res (agent_object (dget d ''payload'') ''Data Agent response payload must be an object'') (\<lambda>raw_payload.
     bind_res (agent_object (dget d ''telemetry'') ''Data Agent response telemetry must be an object'') (\<lambda>telemetry.
     bind_res (nonnegative_number telemetry ''service_latency_ms'') (\<lambda>latency.
     bind_res (nonnegative_number telemetry ''realized_cost'') (\<lambda>cost.
     bind_res (nonnegative_int (dget telemetry ''bytes_read'') ''Data Agent telemetry.bytes_read must be a non-negative integer'') (\<lambda>bytes_read.
     bind_res (protocol_string (dget telemetry ''location'') ''Data Agent telemetry.location must be a non-empty string'') (\<lambda>location.
     bind_res (optional_bool (dget telemetry ''cache_hit'') ''Data Agent telemetry.cache_hit must be a boolean or null'') (\<lambda>cache_hit.
     bind_res (agent_object (dget_or telemetry ''timings_ms'' (JObj [])) ''Data Agent telemetry.timings_ms must be an object'') (\<lambda>raw_timings.
     bind_res (map_res (\<lambda>(name, v). map_sum id (Pair name) (validated_nonnegative_number v name)) raw_timings) (\<lambda>timings.
     bind_res (payload_from_dict H raw_payload) (\<lambda>payload.
     Inr \<lparr>ar_access_id = access_id, ar_payload = payload, ar_service_latency_ms = latency, ar_realized_cost = cost,
          ar_bytes_read = bytes_read, ar_location = location, ar_cache_hit = cache_hit, ar_timings_ms = timings,
          ar_client_round_trip_ms = None, ar_object_id = object_id, ar_object_catalog_version = version\<rparr>)))))))))))))))"

section \<open>Telemetry\<close>

definition missing_completeness_fields :: "access_telemetry \<Rightarrow> string list" where
  "missing_completeness_fields t =
     (if tm_in_flight_request_count t = None then [''in_flight_request_count''] else [])
     @ (if tm_server_reported_complete t = None then [''telemetry_complete''] else [])"

definition telemetry_supported :: "access_telemetry \<Rightarrow> bool" where
  "telemetry_supported t \<longleftrightarrow> missing_completeness_fields t = []"

definition telemetry_complete :: "access_telemetry \<Rightarrow> bool" where
  "telemetry_complete t \<longleftrightarrow> telemetry_supported t \<and> tm_in_flight_request_count t = Some 0 \<and> tm_server_reported_complete t = Some True"

definition download_count :: "dict \<Rightarrow> string \<Rightarrow> agent_error + int" where
  "download_count d name = nonnegative_int (dget d name) (''Data Agent artifact_download.'' @ name @ '' must be a non-negative integer'')"

definition telemetry_from_dict :: "dict \<Rightarrow> agent_error + access_telemetry" where
  "telemetry_from_dict d =
     require (dget d ''api_version'' = JStr DATA_AGENT_API_VERSION)
       (DataAgentProtocolError ''Data Agent telemetry response has an unsupported api_version'') (
     require (dget d ''status'' = JStr ''succeeded'')
       (DataAgentProtocolError (''Data Agent telemetry response must have status='' @ in_quotes ''succeeded'')) (
     bind_res (protocol_string (dget d ''access_id'') ''Data Agent telemetry response access_id is invalid'') (\<lambda>access_id.
     bind_res (protocol_string (dget d ''representation_id'') ''Data Agent telemetry response representation_id is invalid'') (\<lambda>representation_id.
     bind_res (optional_nonempty (dget d ''object_id'') ''Data Agent telemetry response object_id is invalid'') (\<lambda>object_id.
     bind_res (optional_nonempty (dget d ''object_catalog_version'') ''Data Agent telemetry response object_catalog_version is invalid'') (\<lambda>version.
     bind_res (agent_object (dget d ''artifact_download'') ''Data Agent telemetry response artifact_download must be an object'') (\<lambda>downloads.
     bind_res (download_count downloads ''download_request_count'') (\<lambda>requests.
     bind_res (download_count downloads ''completed_request_count'') (\<lambda>completed.
     bind_res (download_count downloads ''full_download_count'') (\<lambda>full.
     bind_res (download_count downloads ''bytes_sent'') (\<lambda>sent.
     bind_res (let v = dget downloads ''in_flight_request_count'' in
         if v = JNull then Inr None
         else map_sum id Some (nonnegative_int v ''Data Agent artifact_download.in_flight_request_count must be a non-negative integer or absent''))
       (\<lambda>in_flight.
     bind_res (optional_bool (dget downloads ''telemetry_complete'') ''Data Agent artifact_download.telemetry_complete must be a boolean or absent'')
       (\<lambda>complete.
     bind_res (let v = dget downloads ''latest_completed_at'' in
         if v = JNull then Inr None else map_sum id Some (validated_nonnegative_number v ''latest_completed_at'')) (\<lambda>latest.
     bind_res (validated_nonnegative_number (dget downloads ''transfer_latency_ms'') ''transfer_latency_ms'') (\<lambda>latency.
     Inr \<lparr>tm_access_id = access_id, tm_object_id = object_id, tm_representation_id = representation_id, tm_object_catalog_version = version,
          tm_download_request_count = requests, tm_completed_request_count = completed, tm_full_download_count = full, tm_bytes_sent = sent,
          tm_transfer_latency_ms = latency, tm_latest_completed_at = latest, tm_in_flight_request_count = in_flight,
          tm_server_reported_complete = complete\<rparr>)))))))))))))))"

end
