(* ===== verification/Agent_Client.thy ===== *)
theory Agent_Client
  imports Agent_Protocol
begin

text \<open>
  The HTTP client of a Data Agent (\<open>HttpDataAgentClient\<close> in \<open>pathfinder/data_agent_client.py\<close>): accesses with retries, the download of a
  whole artifact or of a byte range behind the client's trust boundary, and the wait for final telemetry.

  What lies outside the client is the record \<open>agent_world\<close> over a state of its own: the two openers, \<open>sleep\<close> and the clocks. The openers refuse
  redirects, so an answer of the class 3xx is an \<open>HTTPError\<close>. The result of an artifact operation names the phases that were reported to
  \<open>on_phase\<close>; the callback itself does not raise. The wait for telemetry runs until the clock reaches its deadline, which nothing in the
  client bounds: it is a partial function, and \<open>None\<close> stands for a wait that never ends.
\<close>

section \<open>The world of a client\<close>

datatype transport =
  Response int headers bytes
| HTTPErrorResponse int bytes string
| ConnectionFails string
| ClientRaises

record 's agent_world =
  aw_open :: "out_request \<Rightarrow> 's \<Rightarrow> 's \<times> transport"
  aw_open_artifact :: "out_request \<Rightarrow> 's \<Rightarrow> 's \<times> transport"
  aw_sleep :: "rat \<Rightarrow> 's \<Rightarrow> 's"
  aw_elapsed_ms :: "'s \<Rightarrow> 's \<Rightarrow> pyfloat"
  aw_monotonic :: "'s \<Rightarrow> rat"

definition with_authorization :: "agent_settings \<Rightarrow> headers \<Rightarrow> headers" where
  "with_authorization st hs =
     hs @ (case nonempty_text (as_token st) of None \<Rightarrow> [] | Some t \<Rightarrow> [(''Authorization'', ''Bearer '' @ t)])"

definition agent_url :: "(string \<Rightarrow> string option) \<Rightarrow> agent_settings \<Rightarrow> string \<Rightarrow> agent_error + string" where
  "agent_url netloc_error st path = lift_url (urljoin netloc_error (rstrip_char CHR ''/'' (as_base_url st) @ ''/'') path)"

section \<open>Sending\<close>

definition safe_message :: "agent_settings \<Rightarrow> bytes \<Rightarrow> string \<Rightarrow> string" where
  "safe_message st body reason =
     (let message = strip (decode_replace (take 4096 body));
          text = (if message = [] then reason else message)
      in case nonempty_text (as_token st) of None \<Rightarrow> text | Some t \<Rightarrow> str_replace t ''[REDACTED]'' text)"

definition send_once :: "'s agent_world \<Rightarrow> agent_settings \<Rightarrow> out_request \<Rightarrow> 's \<Rightarrow> 's \<times> (agent_error + dict)" where
  "send_once w st rq s =
     (case aw_open w rq s of
        (s', Response status hs body) \<Rightarrow>
          (s', let raw = take (nat (as_max_response_bytes st + 1)) body in
               require (int (length raw) \<le> as_max_response_bytes st) (DataAgentProtocolError ''Data Agent response exceeds max_response_bytes'') (
               case plain_loads_bytes raw of
                 Inl _ \<Rightarrow> Inl (DataAgentProtocolError ''Data Agent response is not valid UTF-8 JSON'')
               | Inr v \<Rightarrow> agent_object v ''Data Agent response must be a JSON object''))
      | (s', HTTPErrorResponse code body reason) \<Rightarrow>
          (s', Inl (DataAgentHTTPError code (if 300 \<le> code \<and> code < 400 then ''redirects are not allowed'' else safe_message st body reason)))
      | (s', ConnectionFails cause) \<Rightarrow> (s', Inl (DataAgentUnavailableError (''cannot reach Data Agent at '' @ out_url rq @ '': '' @ cause)))
      | (s', ClientRaises) \<Rightarrow> (s', Inl TransportRaises))"

definition RETRYABLE_HTTP_STATUSES :: "int list" where
  "RETRYABLE_HTTP_STATUSES = [502, 503, 504]"

definition retryable :: "agent_error \<Rightarrow> bool" where
  "retryable e = (case e of DataAgentHTTPError code _ \<Rightarrow> code \<in> set RETRYABLE_HTTP_STATUSES | DataAgentUnavailableError _ \<Rightarrow> True | _ \<Rightarrow> False)"

text \<open>The attempts from \<open>attempt\<close> on, with \<open>left\<close> more allowed. The back-off is the double \<open>0.1 * 2 ** attempt\<close>; from \<open>2 ** 1024\<close> on it overflows.\<close>

definition backoff :: "nat \<Rightarrow> rat" where
  "backoff attempt = round_double (1 / 10) * 2 ^ attempt"

fun send_attempts :: "'s agent_world \<Rightarrow> agent_settings \<Rightarrow> out_request \<Rightarrow> nat \<Rightarrow> nat \<Rightarrow> 's \<Rightarrow> 's \<times> (agent_error + dict)" where
  "send_attempts w st rq attempt 0 s = send_once w st rq s"
| "send_attempts w st rq attempt (Suc left) s =
     (case send_once w st rq s of
        (s', Inr d) \<Rightarrow> (s', Inr d)
      | (s', Inl e) \<Rightarrow>
          if \<not> retryable e then (s', Inl e)
          else if 1024 \<le> attempt then (s', Inl AgentOverflowError)
          else send_attempts w st rq (Suc attempt) left (aw_sleep w (backoff attempt) s'))"

definition send_with_retries :: "'s agent_world \<Rightarrow> agent_settings \<Rightarrow> out_request \<Rightarrow> 's \<Rightarrow> 's \<times> (agent_error + dict)" where
  "send_with_retries w st rq s = send_attempts w st rq 0 (nat (as_max_retries st)) s"

section \<open>Accesses\<close>

definition access_message :: "agent_settings \<Rightarrow> string \<Rightarrow> access_request \<Rightarrow> out_request" where
  "access_message st url rq =
     \<lparr>out_method = ''POST'', out_url = url,
      out_headers = with_authorization st
        [(''Accept'', ''application/json''), (''Content-Type'', ''application/json''), (''Idempotency-Key'', rq_access_id rq),
         (''User-Agent'', ''pathfinder-data-agent-client/0.1''), (''X-Pathfinder-Protocol-Version'', DATA_AGENT_API_VERSION)],
      out_data = Some (dumps_plain (JObj (request_dict rq)))\<rparr>"

definition agent_access ::
  "(bytes \<Rightarrow> string) \<Rightarrow> (string \<Rightarrow> string option) \<Rightarrow> 's agent_world \<Rightarrow> agent_settings \<Rightarrow> access_request \<Rightarrow> 's \<Rightarrow> 's \<times> (agent_error + access_result)" where
  "agent_access H netloc_error w st rq s =
     (case agent_url netloc_error st ''v1/access'' of
        Inl e \<Rightarrow> (s, Inl e)
      | Inr url \<Rightarrow>
          (case send_with_retries w st (access_message st url rq) s of
             (s', r) \<Rightarrow>
               (s', bind_res r (\<lambda>d.
                    bind_res (result_from_dict H d) (\<lambda>result.
                    require (ar_access_id result = rq_access_id rq)
                      (DataAgentProtocolError ''Data Agent response access_id does not match the request'') (
                    Inr (result\<lparr>ar_client_round_trip_ms := Some (aw_elapsed_ms w s s')\<rparr>)))))))"

section \<open>The trust boundary of artifacts\<close>

text \<open>\<open>Inl\<close> where \<open>port\<close> raises.\<close>

definition effective_port :: "url_parts \<Rightarrow> unit + int option" where
  "effective_port u =
     bind_res (url_port u) (\<lambda>port.
     Inr (if port \<noteq> None then port else if u_scheme u = ''http'' then Some 80 else if u_scheme u = ''https'' then Some 443 else None))"

definition same_origin :: "url_parts \<Rightarrow> url_parts \<Rightarrow> unit + bool" where
  "same_origin a b =
     (if u_scheme a = u_scheme b \<and> url_hostname a = url_hostname b
      then bind_res (effective_port a) (\<lambda>p. bind_res (effective_port b) (\<lambda>q. Inr (p = q))) else Inr False)"

definition artifact_path :: "string \<Rightarrow> string" where
  "artifact_path access_id = ''v1/artifacts/'' @ quote_strict access_id"

definition validated_artifact_url :: "(string \<Rightarrow> string option) \<Rightarrow> agent_settings \<Rightarrow> json \<Rightarrow> string \<Rightarrow> agent_error + string" where
  "validated_artifact_url netloc_error st v access_id =
     bind_res (protocol_string v ''Data Agent artifact URL must be a non-empty string'') (\<lambda>url.
     bind_res (lift_url (urlparse netloc_error url)) (\<lambda>candidate.
     bind_res (lift_url (urlparse netloc_error (as_base_url st))) (\<lambda>configured.
     bind_res (map_sum (\<lambda>_. DataAgentArtifactSecurityError ''Data Agent artifact URL has an invalid port'') id (same_origin candidate configured)) (\<lambda>same.
     bind_res (agent_url netloc_error st (artifact_path access_id)) (\<lambda>expected_url.
     bind_res (lift_url (urlparse netloc_error expected_url)) (\<lambda>expected.
     require (u_scheme candidate \<in> {''http'', ''https''} \<and> u_netloc candidate \<noteq> [] \<and> url_username candidate = None \<and> url_password candidate = None
         \<and> u_fragment candidate = [] \<and> same \<and> u_path candidate = u_path expected)
       (DataAgentArtifactSecurityError ''Data Agent artifact URL is outside the configured artifact endpoint'') (
     Inr url)))))))"

definition artifact_message :: "agent_settings \<Rightarrow> string \<Rightarrow> headers \<Rightarrow> out_request" where
  "artifact_message st url hs =
     \<lparr>out_method = ''GET'', out_url = url,
      out_headers = with_authorization st
        (hs @ [(''User-Agent'', ''pathfinder-data-agent-client/0.1''), (''X-Pathfinder-Protocol-Version'', DATA_AGENT_API_VERSION)]),
      out_data = None\<rparr>"

text \<open>The failures an artifact request may have in common.\<close>

definition artifact_failure :: "string \<Rightarrow> transport \<Rightarrow> agent_error" where
  "artifact_failure message outcome =
     (case outcome of
        HTTPErrorResponse code body reason \<Rightarrow>
          if 300 \<le> code \<and> code < 400 then DataAgentArtifactRedirectError ''Data Agent artifact redirects are not allowed''
          else DataAgentHTTPError code message
      | ConnectionFails cause \<Rightarrow> DataAgentUnavailableError ''cannot reach the configured Data Agent artifact endpoint''
      | _ \<Rightarrow> TransportRaises)"

definition check_content_length :: "agent_settings \<Rightarrow> headers \<Rightarrow> agent_error + unit" where
  "check_content_length st hs =
     (case header_get hs ''Content-Length'' of
        None \<Rightarrow> Inr ()
      | Some text \<Rightarrow>
          (case int_parse text of
             None \<Rightarrow> Inl (DataAgentProtocolError ''Data Agent artifact Content-Length is invalid'')
           | Some n \<Rightarrow>
               require (0 \<le> n) (DataAgentProtocolError ''Data Agent artifact Content-Length is invalid'') (
               require (n \<le> as_max_artifact_bytes st) (DataAgentArtifactTooLargeError ''Data Agent artifact exceeds max_artifact_bytes'') (Inr ()))))"

definition download_artifact ::
  "'s agent_world \<Rightarrow> agent_settings \<Rightarrow> string \<Rightarrow> string \<Rightarrow> 's \<Rightarrow> 's \<times> (agent_error + bytes \<times> string)" where
  "download_artifact w st url accept s =
     (case aw_open_artifact w (artifact_message st url [(''Accept'', accept)]) s of
        (s', Response status hs body) \<Rightarrow>
          (s', require (status = 200) (DataAgentProtocolError ''Data Agent artifact response must use HTTP 200'') (
               bind_res (check_content_length st hs) (\<lambda>_.
               let media_type = base_media_type (text_or_empty (header_get hs ''Content-Type''));
                   raw = take (nat (as_max_artifact_bytes st + 1)) body
               in require (int (length raw) \<le> as_max_artifact_bytes st)
                    (DataAgentArtifactTooLargeError ''Data Agent artifact exceeds max_artifact_bytes'') (
                  require (media_type \<noteq> []) (DataAgentProtocolError ''Data Agent artifact Content-Type is required'') (
                  Inr (raw, media_type))))))
      | (s', outcome) \<Rightarrow> (s', Inl (artifact_failure ''artifact request failed'' outcome)))"

text \<open>An operation on an artifact: the state it leaves, the phases it reported, and its result.\<close>

type_synonym ('s, 'a) phased = "'s \<times> string list \<times> (agent_error + 'a)"

record verified_artifact =
  va_refreshed :: access_result
  va_data :: bytes
  va_media_type :: string
  va_sha256 :: string
  va_elapsed_ms :: pyfloat

definition verified_artifact_of ::
  "(bytes \<Rightarrow> string) \<Rightarrow> (string \<Rightarrow> string option) \<Rightarrow> 's agent_world \<Rightarrow> agent_settings \<Rightarrow> access_request \<Rightarrow> string \<Rightarrow> (string \<Rightarrow> agent_error + unit)
   \<Rightarrow> 's \<Rightarrow> ('s, verified_artifact) phased" where
  "verified_artifact_of H netloc_error w st rq accept check s =
     (case agent_access H netloc_error w st rq s of
        (s1, Inl e) \<Rightarrow> (s1, [], Inl e)
      | (s1, Inr refreshed) \<Rightarrow>
          let payload = ar_payload refreshed; declared = base_media_type (pl_media_type payload) in
          (case require (pl_kind payload = ''artifact_uri'')
                  (DataAgentArtifactUnsupportedError (''Data Agent access '' @ rq_access_id rq @ '' does not refer to a downloadable artifact'')) (
                bind_res (check declared) (\<lambda>_. validated_artifact_url netloc_error st (pl_value payload) (rq_access_id rq))) of
             Inl e \<Rightarrow> (s1, [''access_completed''], Inl e)
           | Inr url \<Rightarrow>
               (case download_artifact w st url accept s1 of
                  (s2, Inl e) \<Rightarrow> (s2, [''access_completed'', ''artifact_download_started''], Inl e)
                | (s2, Inr (raw, media_type)) \<Rightarrow>
                    (s2, [''access_completed'', ''artifact_download_started'', ''artifact_download_completed''],
                     require (media_type = declared)
                       (DataAgentProtocolError ''Data Agent artifact Content-Type does not match the access response'') (
                     case pl_sha256 payload of
                       None \<Rightarrow> Inl (DataAgentProtocolError ''Data Agent artifact payload must include sha256'')
                     | Some digest \<Rightarrow>
                         require (H raw = digest)
                           (DataAgentArtifactIntegrityError (''Data Agent artifact for access '' @ rq_access_id rq @ '' failed SHA-256 verification'')) (
                         Inr \<lparr>va_refreshed = refreshed, va_data = raw, va_media_type = media_type, va_sha256 = H raw,
                              va_elapsed_ms = aw_elapsed_ms w s1 s2\<rparr>))))))"

definition AGENT_ARTIFACT_ACCEPT :: string where
  "AGENT_ARTIFACT_ACCEPT = ''application/json, text/*;q=0.9''"

record fetched_artifact =
  fa_access_id :: string
  fa_media_type :: string
  fa_content :: json
  fa_size_bytes :: int
  fa_sha256 :: string

definition readable_content :: "string \<Rightarrow> bytes \<Rightarrow> agent_error + json" where
  "readable_content media_type raw =
     (if is_json_media_type media_type
      then (case plain_loads_bytes raw of
              Inl _ \<Rightarrow> Inl (DataAgentProtocolError ''Data Agent artifact is not valid UTF-8 JSON'')
            | Inr v \<Rightarrow> Inr v)
      else if prefix ''text/'' media_type
      then require (valid_utf8 raw) (DataAgentProtocolError ''Data Agent text artifact is not valid UTF-8'') (Inr (JStr raw))
      else Inl (DataAgentArtifactUnsupportedError (''Data Agent artifact media type is not Agent-readable: '' @ media_type)))"

definition agent_fetch_artifact ::
  "(bytes \<Rightarrow> string) \<Rightarrow> (string \<Rightarrow> string option) \<Rightarrow> 's agent_world \<Rightarrow> agent_settings \<Rightarrow> access_request \<Rightarrow> 's \<Rightarrow> 's \<times> (agent_error + fetched_artifact)" where
  "agent_fetch_artifact H netloc_error w st rq s =
     (case verified_artifact_of H netloc_error w st rq AGENT_ARTIFACT_ACCEPT (\<lambda>_. Inr ()) s of
        (s', _, r) \<Rightarrow>
          (s', bind_res r (\<lambda>a.
               bind_res (readable_content (va_media_type a) (va_data a)) (\<lambda>content.
               Inr \<lparr>fa_access_id = rq_access_id rq, fa_media_type = va_media_type a, fa_content = content,
                    fa_size_bytes = int (length (va_data a)), fa_sha256 = va_sha256 a\<rparr>))))"

section \<open>Binary artifacts\<close>

fun normalized_types :: "string list \<Rightarrow> agent_error + string list" where
  "normalized_types [] = Inr []"
| "normalized_types (item # items) =
     require (strip item \<noteq> []) (AgentValueError ''allowed_media_types entries must be non-empty strings'') (
     let base = base_media_type item in
     require (base \<noteq> [] \<and> CHR ''*'' \<notin> set base) (AgentValueError (''allowed_media_types entry is not an exact media type: '' @ py_repr item)) (
     bind_res (normalized_types items) (\<lambda>bases. Inr (base # bases))))"

definition normalized_media_types :: "string list \<Rightarrow> agent_error + string list" where
  "normalized_media_types items =
     bind_res (normalized_types items) (\<lambda>bases.
     require (bases \<noteq> []) (AgentValueError ''allowed_media_types cannot be empty'') (Inr (sort (remdups bases))))"

record binary_artifact =
  ba_access_id :: string
  ba_media_type :: string
  ba_data :: bytes
  ba_size_bytes :: int
  ba_sha256 :: string
  ba_object_id :: "string option"
  ba_object_catalog_version :: "string option"
  ba_location :: string
  ba_service_latency_ms :: pyfloat
  ba_client_round_trip_ms :: "pyfloat option"
  ba_download_elapsed_ms :: pyfloat

definition binary_metadata :: "binary_artifact \<Rightarrow> dict" where
  "binary_metadata a =
     [(''access_id'', JStr (ba_access_id a)), (''media_type'', JStr (ba_media_type a)), (''size_bytes'', JInt (ba_size_bytes a)),
      (''sha256'', JStr (ba_sha256 a)), (''object_id'', optional_string (ba_object_id a)),
      (''object_catalog_version'', optional_string (ba_object_catalog_version a)), (''location'', JStr (ba_location a))]"

definition agent_fetch_binary ::
  "(bytes \<Rightarrow> string) \<Rightarrow> (string \<Rightarrow> string option) \<Rightarrow> 's agent_world \<Rightarrow> agent_settings \<Rightarrow> access_request \<Rightarrow> string list \<Rightarrow> 's \<Rightarrow> ('s, binary_artifact) phased" where
  "agent_fetch_binary H netloc_error w st rq allowed_media_types s =
     (case normalized_media_types allowed_media_types of
        Inl e \<Rightarrow> (s, [], Inl e)
      | Inr allowed \<Rightarrow>
          (case verified_artifact_of H netloc_error w st rq (join '', '' allowed)
                  (\<lambda>declared. require (declared \<in> set allowed)
                     (DataAgentArtifactUnsupportedError (''Data Agent artifact media type is not permitted for this download: '' @ declared
                        @ '' (allowed: '' @ join '', '' allowed @ '')'')) (Inr ())) s of
             (s', phases, r) \<Rightarrow>
               (s', phases, bind_res r (\<lambda>a.
                  require (va_media_type a \<in> set allowed)
                    (DataAgentArtifactUnsupportedError (''Data Agent artifact media type is not permitted for this download: '' @ va_media_type a)) (
                  Inr \<lparr>ba_access_id = rq_access_id rq, ba_media_type = va_media_type a, ba_data = va_data a,
                       ba_size_bytes = int (length (va_data a)), ba_sha256 = va_sha256 a,
                       ba_object_id = ar_object_id (va_refreshed a), ba_object_catalog_version = ar_object_catalog_version (va_refreshed a),
                       ba_location = ar_location (va_refreshed a), ba_service_latency_ms = ar_service_latency_ms (va_refreshed a),
                       ba_client_round_trip_ms = ar_client_round_trip_ms (va_refreshed a), ba_download_elapsed_ms = va_elapsed_ms a\<rparr>)))))"

section \<open>Byte ranges\<close>

text \<open>The fields of \<open>bytes a-b/n\<close>.\<close>

definition content_range :: "string \<Rightarrow> (string \<times> string \<times> string) option" where
  "content_range text =
     (if prefix ''bytes '' text
      then (case partition_at CHR ''-'' (drop 6 text) of
              (a, Some rest) \<Rightarrow>
                (case partition_at CHR ''/'' rest of
                   (b, Some n) \<Rightarrow>
                     if is_decimal a \<and> is_decimal b \<and> is_decimal n then Some (a, b, n) else None
                 | _ \<Rightarrow> None)
            | _ \<Rightarrow> None)
      else None)"

definition quoted_digest :: "string \<Rightarrow> string option" where
  "quoted_digest etag =
     (if length etag = 66 \<and> hd etag = CHR 0x22 \<and> last etag = CHR 0x22 \<and> match_sha256 (butlast (tl etag)) then Some (butlast (tl etag)) else None)"

definition range_response ::
  "int \<Rightarrow> int \<Rightarrow> int \<Rightarrow> headers \<Rightarrow> bytes \<Rightarrow> agent_error + bytes \<times> string \<times> int \<times> string" where
  "range_response range_start range_end status hs body =
     require (status = 206) (DataAgentProtocolError ''Data Agent range response must use HTTP 206'') (
     case content_range (text_or_empty (header_get hs ''Content-Range'')) of
       None \<Rightarrow> Inl (DataAgentProtocolError ''Data Agent range Content-Range is invalid'')
     | Some (a, b, n) \<Rightarrow>
         bind_res (lift_url (int_of_text a)) (\<lambda>observed_start.
         bind_res (lift_url (int_of_text b)) (\<lambda>observed_end.
         bind_res (lift_url (int_of_text n)) (\<lambda>full_size.
         require (observed_start = range_start \<and> observed_end = range_end \<and> range_end < full_size)
           (DataAgentProtocolError ''Data Agent range Content-Range differs from request'') (
         case int_parse (text_or_empty (header_get hs ''Content-Length'')) of
           None \<Rightarrow> Inl (DataAgentProtocolError ''Data Agent range Content-Length is invalid'')
         | Some n \<Rightarrow>
             require (n = range_end - range_start + 1) (DataAgentProtocolError ''Data Agent range Content-Length differs from request'') (
             case quoted_digest (text_or_empty (header_get hs ''ETag'')) of
               None \<Rightarrow> Inl (DataAgentProtocolError ''Data Agent range ETag must be a full artifact SHA-256'')
             | Some digest \<Rightarrow>
                 let media_type = base_media_type (text_or_empty (header_get hs ''Content-Type''));
                     raw = take (nat (range_end - range_start + 2)) body
                 in require (int (length raw) = range_end - range_start + 1)
                      (DataAgentProtocolError ''Data Agent artifact range body length differs from request'') (
                    require (media_type \<noteq> []) (DataAgentProtocolError ''Data Agent artifact range Content-Type is required'') (
                    Inr (raw, media_type, full_size, digest)))))))))"

definition download_artifact_range ::
  "'s agent_world \<Rightarrow> agent_settings \<Rightarrow> string \<Rightarrow> string \<Rightarrow> int \<Rightarrow> int \<Rightarrow> 's \<Rightarrow> 's \<times> (agent_error + bytes \<times> string \<times> int \<times> string)" where
  "download_artifact_range w st url accept range_start range_end s =
     (case aw_open_artifact w (artifact_message st url
             [(''Accept'', accept), (''Range'', ''bytes='' @ int_str range_start @ ''-'' @ int_str range_end)]) s of
        (s', Response status hs body) \<Rightarrow> (s', range_response range_start range_end status hs body)
      | (s', outcome) \<Rightarrow> (s', Inl (artifact_failure ''artifact range request failed'' outcome)))"

record range_artifact =
  ra_access_id :: string
  ra_media_type :: string
  ra_data :: bytes
  ra_range_start :: int
  ra_range_end :: int
  ra_range_size_bytes :: int
  ra_range_sha256 :: string
  ra_full_artifact_size_bytes :: int
  ra_full_artifact_sha256 :: string
  ra_object_id :: "string option"
  ra_object_catalog_version :: "string option"
  ra_location :: string
  ra_service_latency_ms :: pyfloat
  ra_client_round_trip_ms :: "pyfloat option"
  ra_download_elapsed_ms :: pyfloat

definition range_metadata :: "range_artifact \<Rightarrow> dict" where
  "range_metadata a =
     [(''access_id'', JStr (ra_access_id a)), (''media_type'', JStr (ra_media_type a)), (''range_start'', JInt (ra_range_start a)),
      (''range_end'', JInt (ra_range_end a)), (''range_size_bytes'', JInt (ra_range_size_bytes a)), (''range_sha256'', JStr (ra_range_sha256 a)),
      (''full_artifact_size_bytes'', JInt (ra_full_artifact_size_bytes a)), (''full_artifact_sha256'', JStr (ra_full_artifact_sha256 a)),
      (''object_id'', optional_string (ra_object_id a)), (''object_catalog_version'', optional_string (ra_object_catalog_version a)),
      (''location'', JStr (ra_location a))]"

definition range_arguments :: "agent_settings \<Rightarrow> int \<Rightarrow> int \<Rightarrow> string \<Rightarrow> string list \<Rightarrow> agent_error + string list" where
  "range_arguments st range_start range_end expected_sha256 allowed_media_types =
     require (0 \<le> range_start \<and> range_start \<le> range_end) (AgentValueError ''artifact byte range is invalid'') (
     require (range_end - range_start + 1 \<le> as_max_artifact_bytes st)
       (DataAgentArtifactTooLargeError ''Data Agent artifact range exceeds max_artifact_bytes'') (
     require (match_sha256 expected_sha256) (AgentValueError ''expected_range_sha256 must be lowercase SHA-256'') (
     normalized_media_types allowed_media_types)))"

definition agent_fetch_range ::
  "(bytes \<Rightarrow> string) \<Rightarrow> (string \<Rightarrow> string option) \<Rightarrow> 's agent_world \<Rightarrow> agent_settings \<Rightarrow> access_request \<Rightarrow> int \<Rightarrow> int \<Rightarrow> string \<Rightarrow> string list \<Rightarrow> 's
   \<Rightarrow> ('s, range_artifact) phased" where
  "agent_fetch_range H netloc_error w st rq range_start range_end expected_sha256 allowed_media_types s =
     (case range_arguments st range_start range_end expected_sha256 allowed_media_types of
        Inl e \<Rightarrow> (s, [], Inl e)
      | Inr allowed \<Rightarrow>
     (case agent_access H netloc_error w st rq s of
        (s1, Inl e) \<Rightarrow> (s1, [], Inl e)
      | (s1, Inr refreshed) \<Rightarrow>
          let payload = ar_payload refreshed; declared = base_media_type (pl_media_type payload) in
          (case require (pl_kind payload = ''artifact_uri'')
                  (DataAgentArtifactUnsupportedError (''Data Agent access '' @ rq_access_id rq @ '' does not refer to a downloadable artifact'')) (
                require (declared \<in> set allowed)
                  (DataAgentArtifactUnsupportedError (''Data Agent artifact media type is not permitted for this range download: '' @ declared)) (
                require (pl_sha256 payload \<noteq> None) (DataAgentProtocolError ''Data Agent artifact payload must include sha256'') (
                validated_artifact_url netloc_error st (pl_value payload) (rq_access_id rq)))) of
             Inl e \<Rightarrow> (s1, [''access_completed''], Inl e)
           | Inr url \<Rightarrow>
               (case download_artifact_range w st url (join '', '' allowed) range_start range_end s1 of
                  (s2, Inl e) \<Rightarrow> (s2, [''access_completed'', ''artifact_download_started''], Inl e)
                | (s2, Inr (raw, media_type, full_size, full_digest)) \<Rightarrow>
                    (s2, [''access_completed'', ''artifact_download_started'', ''artifact_download_completed''],
                     require (media_type = declared)
                       (DataAgentProtocolError ''Data Agent range Content-Type does not match access response'') (
                     require (Some full_digest = pl_sha256 payload)
                       (DataAgentArtifactIntegrityError ''Data Agent range ETag does not match full artifact digest'') (
                     require (H raw = expected_sha256)
                       (DataAgentArtifactIntegrityError (''Data Agent artifact range for access '' @ rq_access_id rq @ '' failed SHA-256 verification'')) (
                     Inr \<lparr>ra_access_id = rq_access_id rq, ra_media_type = media_type, ra_data = raw, ra_range_start = range_start,
                          ra_range_end = range_end, ra_range_size_bytes = int (length raw), ra_range_sha256 = H raw,
                          ra_full_artifact_size_bytes = full_size, ra_full_artifact_sha256 = full_digest,
                          ra_object_id = ar_object_id refreshed, ra_object_catalog_version = ar_object_catalog_version refreshed,
                          ra_location = ar_location refreshed, ra_service_latency_ms = ar_service_latency_ms refreshed,
                          ra_client_round_trip_ms = ar_client_round_trip_ms refreshed, ra_download_elapsed_ms = aw_elapsed_ms w s1 s2\<rparr>))))))))"

section \<open>Telemetry\<close>

definition telemetry_message :: "agent_settings \<Rightarrow> string \<Rightarrow> out_request" where
  "telemetry_message st url =
     \<lparr>out_method = ''GET'', out_url = url,
      out_headers = with_authorization st
        [(''Accept'', ''application/json''), (''User-Agent'', ''pathfinder-data-agent-client/0.1''),
         (''X-Pathfinder-Protocol-Version'', DATA_AGENT_API_VERSION)],
      out_data = None\<rparr>"

text \<open>One turn of the loop; \<open>None\<close> is a summary that is not final before the deadline.\<close>

definition telemetry_turn ::
  "'s agent_world \<Rightarrow> agent_settings \<Rightarrow> out_request \<Rightarrow> string \<Rightarrow> bool \<Rightarrow> rat \<Rightarrow> 's \<Rightarrow> 's \<times> (agent_error + access_telemetry) option" where
  "telemetry_turn w st message access_id wait deadline s =
     (case send_with_retries w st message s of
        (s', r) \<Rightarrow>
          (case bind_res r (\<lambda>d.
                bind_res (telemetry_from_dict d) (\<lambda>t.
                require (tm_access_id t = access_id)
                  (DataAgentProtocolError ''Data Agent telemetry access_id does not match the request'') (Inr t))) of
             Inl e \<Rightarrow> (s', Some (Inl e))
           | Inr t \<Rightarrow>
               (s', if \<not> wait then Some (Inr t)
                    else if \<not> telemetry_supported t then Some (Inl (DataAgentTelemetryUnsupportedError access_id (missing_completeness_fields t)))
                    else if telemetry_complete t then Some (Inr t)
                    else if aw_monotonic w s' \<ge> deadline then Some (Inl (DataAgentTelemetryQuiescenceError access_id t))
                    else None)))"

partial_function (option) telemetry_poll ::
  "'s agent_world \<Rightarrow> agent_settings \<Rightarrow> out_request \<Rightarrow> string \<Rightarrow> bool \<Rightarrow> rat \<Rightarrow> rat \<Rightarrow> 's \<Rightarrow> ('s \<times> (agent_error + access_telemetry)) option" where
  "telemetry_poll w st message access_id wait deadline poll s =
     (case telemetry_turn w st message access_id wait deadline s of
        (s', Some r) \<Rightarrow> Some (s', r)
      | (s', None) \<Rightarrow> telemetry_poll w st message access_id wait deadline poll (aw_sleep w poll s'))"

definition validated_timing_seconds :: "pyfloat \<Rightarrow> string \<Rightarrow> bool \<Rightarrow> agent_error + pyfloat" where
  "validated_timing_seconds v name allow_zero =
     (if allow_zero
      then require (0 \<le> float_value v) (AgentValueError (name @ '' cannot be negative'')) (Inr v)
      else require (0 < float_value v) (AgentValueError (name @ '' must be greater than zero'')) (Inr v))"

definition agent_get_telemetry ::
  "(string \<Rightarrow> string option) \<Rightarrow> 's agent_world \<Rightarrow> agent_settings \<Rightarrow> string \<Rightarrow> bool \<Rightarrow> pyfloat \<Rightarrow> pyfloat \<Rightarrow> 's
   \<Rightarrow> ('s \<times> (agent_error + access_telemetry)) option" where
  "agent_get_telemetry netloc_error w st access_id wait timeout poll s =
     (case require (strip access_id \<noteq> []) (AgentValueError ''Data Agent access_id cannot be empty'') (
           bind_res (validated_timing_seconds timeout ''quiescence_timeout_seconds'' True) (\<lambda>t.
           bind_res (validated_timing_seconds poll ''quiescence_poll_seconds'' False) (\<lambda>p.
           bind_res (agent_url netloc_error st (''v1/accesses/'' @ quote_strict access_id @ ''/telemetry'')) (\<lambda>url.
           Inr (t, p, url))))) of
        Inl e \<Rightarrow> Some (s, Inl e)
      | Inr (t, p, url) \<Rightarrow> telemetry_poll w st (telemetry_message st url) access_id wait (round_double (aw_monotonic w s + float_value t)) (float_value p) s)"

section \<open>The client protocol\<close>

text \<open>What a client offers the gateway, each operation on a state of the client's own, and the HTTP client as one.\<close>

record 's agent_client =
  ac_access :: "access_request \<Rightarrow> 's \<Rightarrow> 's \<times> (agent_error + access_result)"
  ac_get_access_telemetry :: "string \<Rightarrow> bool \<Rightarrow> pyfloat \<Rightarrow> 's \<Rightarrow> ('s \<times> (agent_error + access_telemetry)) option"
  ac_fetch_artifact :: "access_request \<Rightarrow> 's \<Rightarrow> 's \<times> (agent_error + fetched_artifact)"

definition HttpDataAgentClient ::
  "(bytes \<Rightarrow> string) \<Rightarrow> (string \<Rightarrow> string option) \<Rightarrow> 's agent_world \<Rightarrow> agent_settings \<Rightarrow> 's agent_client" where
  "HttpDataAgentClient H netloc_error w st =
     \<lparr>ac_access = agent_access H netloc_error w st,
      ac_get_access_telemetry = (\<lambda>access_id wait timeout.
        agent_get_telemetry netloc_error w st access_id wait timeout (PyFloat False (round_double (1 / 50)))),
      ac_fetch_artifact = agent_fetch_artifact H netloc_error w st\<rparr>"

text \<open>The contract of an access: a client answers under the identifier of the request.\<close>

locale answering_client =
  fixes client :: "'s agent_client"
  assumes answers: "ac_access client rq s = (s', Inr a) \<Longrightarrow> ar_access_id a = rq_access_id rq"

lemma agent_access_answers:
  assumes "agent_access H netloc_error w st rq s = (s', Inr a)"
  shows "ar_access_id a = rq_access_id rq"
  using assms by (auto simp: agent_access_def result_simps split: sum.splits prod.splits)

interpretation http: answering_client "HttpDataAgentClient H netloc_error w st" for H netloc_error w st
  by unfold_locales (auto simp: HttpDataAgentClient_def dest: agent_access_answers)

end
