(* ===== verification/Routing.thy ===== *)
theory Routing
  imports Agent_Client
begin

text \<open>
  The backend that routes accesses across endpoints (\<open>pathfinder/distributed/routing.py\<close>) and the backend of one endpoint
  (\<open>pathfinder/integrations/flowmesh/data_agent_backend.py\<close>).

  A Data Agent client is any implementation of \<open>DataAgentClientProtocol\<close>, the record \<open>agent_client\<close>, so a world is a state per
  endpoint, and a call to the client of an endpoint changes the state of that endpoint only. The records of the gateway hold the fields an
  access reads. \<open>uuid5\<close> is the name-based UUID of the interpreter, and a latency multiplier is a finite float. The text of the cause in an
  \<open>EndpointUnreachableError\<close>, which the code redacts, is not part of the error here.
\<close>

section \<open>Requests and results\<close>

record gateway_session =
  gs_session_id :: string
  gs_trial_id :: string
  gs_design_id :: string
  gs_task_class_id :: string
  gs_latency_multiplier :: json
  gs_object_id :: "string option"

record access_event =
  ev_event_index :: int
  ev_representation_id :: string
  ev_data_agent_access_id :: "string option"
  ev_endpoint_id :: "string option"

record backend_result =
  br_content :: string
  br_felt_latency_ms :: pyfloat
  br_realized_cost :: pyfloat
  br_bytes_read :: int
  br_location :: string
  br_service_latency_ms :: pyfloat
  br_service_timings_ms :: "(string \<times> pyfloat) list"
  br_payload :: dict
  br_content_sha256 :: "string option"
  br_data_agent_access_id :: string
  br_object_catalog_version :: "string option"
  br_endpoint_id :: "string option"
  br_source_node_id :: "string option"
  br_source_location :: "string option"
  br_destination_execution_node_id :: "string option"

datatype routing_error =
  EndpointRoutingError string
| CrossEndpointArtifactError string
| EndpointUnreachableError string
| AgentFailure agent_error
| BackendValueError string
| BackendKeyError string

text \<open>The part of \<open>SystemConfig\<close> an access needs: the location of a path of a design and the size of a representation.\<close>

record access_config =
  cf_paths :: "(string \<times> (string \<times> string) list) list"
  cf_sizes :: "(string \<times> int) list"

section \<open>The backend of one endpoint\<close>

definition build_access_request ::
  "(string \<Rightarrow> string) \<Rightarrow> access_config \<Rightarrow> gateway_session \<Rightarrow> string \<Rightarrow> int \<Rightarrow> routing_error + access_request" where
  "build_access_request uuid5 config session representation_id event_index =
     (case map_of (cf_paths config) (gs_design_id session) of
        None \<Rightarrow> Inl (BackendKeyError (gs_design_id session))
      | Some paths \<Rightarrow>
          (case map_of paths representation_id of
             None \<Rightarrow> Inl (BackendKeyError representation_id)
           | Some location \<Rightarrow>
               (case map_of (cf_sizes config) representation_id of
                  None \<Rightarrow> Inl (BackendKeyError representation_id)
                | Some sz \<Rightarrow>
                    map_sum AgentFailure id (DataAgentAccessRequest
                      \<lparr>rq_access_id = uuid5 (''pathfinder-access:'' @ gs_session_id session @ '':'' @ int_str event_index @ '':'' @ representation_id),
                         rq_session_id = gs_session_id session, rq_trial_id = gs_trial_id session, rq_plan_id = gs_design_id session,
                         rq_plan_epoch = 0, rq_task_class_id = gs_task_class_id session, rq_representation_id = representation_id,
                         rq_event_index = event_index, rq_latency_multiplier = gs_latency_multiplier session,
                         rq_binding = [(''location'', JStr location), (''representation_size_bytes'', JInt sz)],
                         rq_plan_capability = None, rq_object_id = gs_object_id session\<rparr>))))"

text \<open>What the Agent may see of a payload: never the signed URL of an artifact.\<close>

definition agent_view :: "agent_payload \<Rightarrow> routing_error + string \<times> dict" where
  "agent_view p =
     (if pl_kind p = ''artifact_uri''
      then Inr (''Artifact access is ready. Call fetch_artifact with the artifact_handle returned by the gateway.'',
                [(''kind'', JStr ''artifact_handle''), (''media_type'', JStr (pl_media_type p))] @ digest_field (pl_sha256 p))
      else if pl_kind p = ''inline_text''
      then Inr (text_or_empty (payload_text (pl_value p)), payload_dict p)
      else Inl (AgentFailure (DataAgentProtocolError
             (''FlowMesh integration does not support Data Agent payload kind: '' @ pl_kind p))))"

definition remote_access ::
  "(string \<Rightarrow> string) \<Rightarrow> 's agent_client \<Rightarrow> access_config \<Rightarrow> gateway_session \<Rightarrow> string \<Rightarrow> int \<Rightarrow> 's \<Rightarrow> 's \<times> (routing_error + backend_result)" where
  "remote_access uuid5 cl config session representation_id event_index s =
     (case build_access_request uuid5 config session representation_id event_index of
        Inl e \<Rightarrow> (s, Inl e)
      | Inr request \<Rightarrow>
          (case ac_access cl request s of
             (s', Inl e) \<Rightarrow> (s', Inl (AgentFailure e))
           | (s', Inr result) \<Rightarrow>
               (s', bind_res (agent_view (ar_payload result)) (\<lambda>(content, payload).
                    Inr \<lparr>br_content = content, br_felt_latency_ms = observed_latency_ms result, br_realized_cost = ar_realized_cost result,
                         br_bytes_read = ar_bytes_read result, br_location = ar_location result,
                         br_service_latency_ms = ar_service_latency_ms result, br_service_timings_ms = ar_timings_ms result,
                         br_payload = payload, br_content_sha256 = pl_sha256 (ar_payload result),
                         br_data_agent_access_id = ar_access_id result, br_object_catalog_version = ar_object_catalog_version result,
                         br_endpoint_id = None, br_source_node_id = None, br_source_location = None,
                         br_destination_execution_node_id = None\<rparr>))))"

definition remote_fetch_artifact ::
  "(string \<Rightarrow> string) \<Rightarrow> 's agent_client \<Rightarrow> access_config \<Rightarrow> gateway_session \<Rightarrow> access_event \<Rightarrow> 's \<Rightarrow> 's \<times> (routing_error + fetched_artifact)" where
  "remote_fetch_artifact uuid5 cl config session event s =
     (case ev_data_agent_access_id event of
        None \<Rightarrow> (s, Inl (BackendValueError ''gateway event has no Data Agent access ID''))
      | Some access_id \<Rightarrow>
          (case build_access_request uuid5 config session (ev_representation_id event) (ev_event_index event) of
             Inl e \<Rightarrow> (s, Inl e)
           | Inr request \<Rightarrow>
               if rq_access_id request \<noteq> access_id
               then (s, Inl (BackendValueError ''gateway event Data Agent access ID does not match its deterministic request''))
               else map_prod id (map_sum AgentFailure id) (ac_fetch_artifact cl request s)))"

definition remote_get_access_telemetry :: "pyfloat \<Rightarrow> 's agent_client \<Rightarrow> string \<Rightarrow> 's \<Rightarrow> ('s \<times> (routing_error + access_telemetry)) option" where
  "remote_get_access_telemetry timeout cl access_id s =
     map_option (map_prod id (map_sum AgentFailure id)) (ac_get_access_telemetry cl access_id True timeout s)"

section \<open>The routed backend\<close>

record 's endpoint_client =
  ec_endpoint_id :: string
  ec_node_id :: string
  ec_location :: string
  ec_client :: "'s agent_client"
  ec_quiescence_timeout :: pyfloat

record 's routed_backend =
  rb_registry :: endpoint_registry
  rb_endpoints :: "(string \<times> 's endpoint_client) list"

type_synonym 'a setup_result = "(registry_error + agent_error) + 'a"

fun bind_clients :: "endpoint_registry \<Rightarrow> pyfloat \<Rightarrow> (string \<times> 's agent_client) list \<Rightarrow> (string \<times> 's endpoint_client) list setup_result" where
  "bind_clients rg timeout [] = Inr []"
| "bind_clients rg timeout ((e, cl) # rest) =
     bind_res (map_sum Inl id (registry_endpoint rg e)) (\<lambda>ep.
     bind_res (map_sum Inr id (validated_timing_seconds timeout ''telemetry_quiescence_timeout_seconds'' True)) (\<lambda>t.
     bind_res (bind_clients rg timeout rest) (\<lambda>bound.
     Inr ((e, \<lparr>ec_endpoint_id = e, ec_node_id = ep_node_id ep, ec_location = ep_location ep, ec_client = cl, ec_quiescence_timeout = t\<rparr>) # bound))))"

definition RoutedDataAgentBackend :: "endpoint_registry \<Rightarrow> (string \<times> 's agent_client) list \<Rightarrow> pyfloat \<Rightarrow> 's routed_backend setup_result" where
  "RoutedDataAgentBackend rg clients timeout =
     (let missing = filter (\<lambda>e. e \<notin> fst ` set clients) (endpoint_ids rg);
          unknown = sort (filter (\<lambda>e. e \<notin> set (endpoint_ids rg)) (map fst clients))
      in require (missing = [])
           (Inl (EndpointRegistryError (''no client was supplied for declared endpoint(s): '' @ join '', '' missing))) (
         require (unknown = [])
           (Inl (EndpointRegistryError (''client supplied for undeclared endpoint(s): '' @ join '', '' unknown))) (
         bind_res (bind_clients rg timeout clients) (\<lambda>bound. Inr \<lparr>rb_registry = rg, rb_endpoints = bound\<rparr>))))"

text \<open>One client per declared endpoint, from the settings of the endpoint.\<close>

fun endpoint_clients ::
  "(data_agent_endpoint \<Rightarrow> agent_settings setup_result) \<Rightarrow> (agent_settings \<Rightarrow> 's agent_client) \<Rightarrow> endpoint_registry \<Rightarrow> string list
   \<Rightarrow> (string \<times> 's agent_client) list setup_result" where
  "endpoint_clients settings client_factory rg [] = Inr []"
| "endpoint_clients settings client_factory rg (e # es) =
     bind_res (map_sum Inl id (registry_endpoint rg e)) (\<lambda>ep.
     bind_res (settings ep) (\<lambda>st.
     bind_res (endpoint_clients settings client_factory rg es) (\<lambda>clients.
     Inr ((e, client_factory st) # clients))))"

definition routed_backend_for ::
  "(data_agent_endpoint \<Rightarrow> agent_settings setup_result) \<Rightarrow> endpoint_registry \<Rightarrow> (agent_settings \<Rightarrow> 's agent_client) \<Rightarrow> pyfloat \<Rightarrow> 's routed_backend setup_result" where
  "routed_backend_for settings rg client_factory timeout =
     bind_res (endpoint_clients settings client_factory rg (endpoint_ids rg)) (\<lambda>clients. RoutedDataAgentBackend rg clients timeout)"

definition endpoint_for :: "'s routed_backend \<Rightarrow> string \<Rightarrow> routing_error + 's endpoint_client" where
  "endpoint_for rb endpoint_id =
     (case map_of (rb_endpoints rb) endpoint_id of
        None \<Rightarrow> Inl (EndpointRoutingError (''no client for endpoint: '' @ endpoint_id))
      | Some ec \<Rightarrow> Inr ec)"

fun registry_message :: "registry_error \<Rightarrow> string" where
  "registry_message (EndpointRegistryError m) = m"
| "registry_message _ = []"

definition resolve_route :: "'s routed_backend \<Rightarrow> string \<Rightarrow> string \<Rightarrow> routing_error + access_route \<times> 's endpoint_client" where
  "resolve_route rb design_id representation_id =
     (case registry_route (rb_registry rb) design_id representation_id of
        Inl e \<Rightarrow> Inl (EndpointRoutingError (registry_message e))
      | Inr route \<Rightarrow> map_sum id (Pair route) (endpoint_for rb (rt_endpoint_id route)))"

text \<open>An unavailable Data Agent is an unreachable endpoint, whatever the operation.\<close>

definition unreachable :: "string \<Rightarrow> routing_error \<Rightarrow> routing_error" where
  "unreachable endpoint_id e = (case e of AgentFailure (DataAgentUnavailableError _) \<Rightarrow> EndpointUnreachableError endpoint_id | _ \<Rightarrow> e)"

text \<open>A call at an endpoint, in a world with a state per endpoint.\<close>

definition at_endpoint :: "'s endpoint_client \<Rightarrow> ('s agent_client \<Rightarrow> 's \<Rightarrow> 's \<times> (routing_error + 'a)) \<Rightarrow> (string \<Rightarrow> 's) \<Rightarrow> (string \<Rightarrow> 's) \<times> (routing_error + 'a)" where
  "at_endpoint ec f w =
     (case f (ec_client ec) (w (ec_endpoint_id ec)) of
        (s, r) \<Rightarrow> (w(ec_endpoint_id ec := s), map_sum (unreachable (ec_endpoint_id ec)) id r))"

definition routed_access ::
  "(string \<Rightarrow> string) \<Rightarrow> 's routed_backend \<Rightarrow> access_config \<Rightarrow> gateway_session \<Rightarrow> string \<Rightarrow> int \<Rightarrow> (string \<Rightarrow> 's)
   \<Rightarrow> (string \<Rightarrow> 's) \<times> (routing_error + backend_result)" where
  "routed_access uuid5 rb config session representation_id event_index w =
     (case resolve_route rb (gs_design_id session) representation_id of
        Inl e \<Rightarrow> (w, Inl e)
      | Inr (route, ec) \<Rightarrow>
          (case at_endpoint ec (\<lambda>cl. remote_access uuid5 cl config session representation_id event_index) w of
             (w', r) \<Rightarrow> (w', map_sum id (\<lambda>result. result\<lparr>br_endpoint_id := Some (rt_endpoint_id route),
                 br_source_node_id := Some (rt_source_node_id route), br_source_location := Some (rt_source_location route),
                 br_destination_execution_node_id := Some (rt_destination_execution_node_id route)\<rparr>) r)))"

definition routed_fetch_artifact ::
  "(string \<Rightarrow> string) \<Rightarrow> 's routed_backend \<Rightarrow> access_config \<Rightarrow> gateway_session \<Rightarrow> access_event \<Rightarrow> (string \<Rightarrow> 's)
   \<Rightarrow> (string \<Rightarrow> 's) \<times> (routing_error + fetched_artifact)" where
  "routed_fetch_artifact uuid5 rb config session event w =
     (case resolve_route rb (gs_design_id session) (ev_representation_id event) of
        Inl e \<Rightarrow> (w, Inl e)
      | Inr (route, ec) \<Rightarrow>
          (case ev_endpoint_id event of
             None \<Rightarrow> (w, Inl (CrossEndpointArtifactError
               ''the access event carries no issuing endpoint, so its artifact handle cannot be redeemed safely''))
           | Some issuing \<Rightarrow>
               if issuing \<noteq> rt_endpoint_id route
               then (w, Inl (CrossEndpointArtifactError (''artifact handle was issued by endpoint '' @ in_quotes issuing
                      @ '' but the current route resolves to '' @ in_quotes (rt_endpoint_id route)
                      @ ''; refusing a cross-endpoint redemption'')))
               else at_endpoint ec (\<lambda>cl. remote_fetch_artifact uuid5 cl config session event) w))"

definition routed_get_access_telemetry ::
  "'s routed_backend \<Rightarrow> string \<Rightarrow> string option \<Rightarrow> (string \<Rightarrow> 's) \<Rightarrow> ((string \<Rightarrow> 's) \<times> (routing_error + access_telemetry)) option" where
  "routed_get_access_telemetry rb access_id endpoint_id w =
     (case bind_res (case endpoint_id of
              Some e \<Rightarrow> Inr e
            | None \<Rightarrow>
                require (length (rb_endpoints rb) = 1)
                  (EndpointRoutingError (''an access event carries no endpoint identity but this registry declares ''
                     @ int_str (int (length (rb_endpoints rb))) @ '' endpoints; refusing to guess which one served it''))
                  (Inr (fst (hd (rb_endpoints rb))))) (endpoint_for rb) of
        Inl e \<Rightarrow> Some (w, Inl e)
      | Inr ec \<Rightarrow>
          map_option (\<lambda>(s, r). (w(ec_endpoint_id ec := s), map_sum (unreachable (ec_endpoint_id ec)) id r))
            (remote_get_access_telemetry (ec_quiescence_timeout ec) (ec_client ec) access_id (w (ec_endpoint_id ec))))"

end
