(* ===== verification/Agent_Props.thy ===== *)
theory Agent_Props
  imports Agent_Client
begin

text \<open>
  Properties of the HTTP client of a Data Agent, against an arbitrary network: what it accepts as an artifact, where its requests go, how
  often it repeats them, and how its wait for telemetry ends.
\<close>

section \<open>Where a URL points\<close>

definition clean_url :: "string \<Rightarrow> string" where
  "clean_url raw = filter (\<lambda>c. c \<notin> {CHR 0x09, CHR 0x0A, CHR 0x0D}) (dropWhile (\<lambda>c. ord c \<le> 32) raw)"

lemma urlsplit_cong: "clean_url raw = clean_url raw' \<Longrightarrow> urlsplit netloc_error raw = urlsplit netloc_error raw'"
  unfolding urlsplit_def clean_url_def by simp

text \<open>A URL with a scheme and a network location.\<close>

definition absolute_url :: "(string \<Rightarrow> string option) \<Rightarrow> string \<Rightarrow> string \<Rightarrow> string \<Rightarrow> bool" where
  "absolute_url netloc_error pre netloc tail \<longleftrightarrow> pre \<noteq> [] \<and> (is_upper (hd pre) \<or> is_lower (hd pre)) \<and> list_all scheme_char pre
     \<and> list_all (\<lambda>c. \<not> netloc_end c) netloc \<and> (tail = [] \<or> netloc_end (hd tail))
     \<and> (CHR ''['' \<in> set netloc \<longleftrightarrow> CHR '']'' \<in> set netloc) \<and> netloc_error netloc = None"

lemma scheme_char_no_colon: "list_all scheme_char pre \<Longrightarrow> CHR '':'' \<notin> set pre"
  by (auto simp: list_all_iff scheme_char_def is_alnum_def char_class_defs)

lemma split_netloc_found:
  assumes "list_all (\<lambda>c. \<not> netloc_end c) netloc" and "tail = [] \<or> netloc_end (hd tail)"
  shows "split_netloc (''//'' @ netloc @ tail) = (netloc, tail)"
  using assms by (cases tail) (auto simp: split_netloc_def takeWhile_append2 dropWhile_append2 list_all_iff)

lemma urlsplit_absolute:
  assumes "absolute_url netloc_error pre netloc tail" and "clean_url raw = pre @ ''://'' @ netloc @ tail"
  shows "\<exists>u. urlsplit netloc_error raw = Inr u \<and> u_scheme u = ascii_lower pre \<and> u_netloc u = netloc"
proof -
  have "split_scheme (pre @ ''://'' @ netloc @ tail) = (ascii_lower pre, ''//'' @ netloc @ tail)"
    using assms(1) partition_at_found [OF scheme_char_no_colon, of pre "''//'' @ netloc @ tail"] by (simp add: split_scheme_def absolute_url_def)
  moreover have "split_netloc (''//'' @ netloc @ tail) = (netloc, tail)"
    using assms(1) unfolding absolute_url_def by (intro split_netloc_found) simp_all
  ultimately show ?thesis using assms(1) unfolding urlsplit_def assms(2) [unfolded clean_url_def] absolute_url_def
    by (simp add: Let_def split: prod.splits)
qed

lemma partition_at_Some: "partition_at c s = (a, Some b) \<Longrightarrow> s = a @ c # b"
proof -
  assume "partition_at c s = (a, Some b)"
  then have a: "a = takeWhile (\<lambda>x. x \<noteq> c) s" and "\<exists>d. dropWhile (\<lambda>x. x \<noteq> c) s = d # b" by (auto simp: partition_at_def split: list.splits)
  then obtain d where d: "dropWhile (\<lambda>x. x \<noteq> c) s = d # b" by blast
  then have "d = c" using hd_dropWhile [of "\<lambda>x. x \<noteq> c" s] by simp
  then show ?thesis using a d takeWhile_dropWhile_id [of "\<lambda>x. x \<noteq> c" s] by simp
qed

lemma urlsplit_shape:
  assumes "urlsplit netloc_error raw = Inr u" and "u_scheme u \<noteq> []" and "u_netloc u \<noteq> []"
  shows "\<exists>pre tail. clean_url raw = pre @ ''://'' @ u_netloc u @ tail \<and> absolute_url netloc_error pre (u_netloc u) tail \<and> u_scheme u = ascii_lower pre"
proof -
  obtain scheme url1 where s1: "split_scheme (clean_url raw) = (scheme, url1)" by fastforce
  obtain netloc tail where s2: "split_netloc url1 = (netloc, tail)" by fastforce
  have ok: "CHR ''['' \<in> set netloc \<longleftrightarrow> CHR '']'' \<in> set netloc" "netloc_error netloc = None" "u_scheme u = scheme" "u_netloc u = netloc"
    using assms(1) s1 s2 unfolding urlsplit_def clean_url_def Let_def by (auto split: if_splits option.splits prod.splits)
  obtain pre where pre: "clean_url raw = pre @ CHR '':'' # url1" "scheme = ascii_lower pre" "pre \<noteq> []" "is_upper (hd pre) \<or> is_lower (hd pre)" "list_all scheme_char pre"
    using s1 ok(3) assms(2) unfolding split_scheme_def by (auto split: prod.splits option.splits if_splits dest: partition_at_Some)
  have "take 2 url1 = ''//''" and n: "netloc = takeWhile (\<lambda>c. \<not> netloc_end c) (drop 2 url1)" "tail = dropWhile (\<lambda>c. \<not> netloc_end c) (drop 2 url1)"
    using s2 ok(4) assms(3) by (auto simp: split_netloc_def split: if_splits)
  then have url1: "url1 = ''//'' @ netloc @ tail" by (metis append_take_drop_id takeWhile_dropWhile_id)
  have "list_all (\<lambda>c. \<not> netloc_end c) netloc" "tail = [] \<or> netloc_end (hd tail)"
    using n hd_dropWhile [of "\<lambda>c. \<not> netloc_end c" "drop 2 url1"] by (auto simp: list_all_iff dest: set_takeWhileD)
  then have "absolute_url netloc_error pre netloc tail" using pre ok by (simp add: absolute_url_def)
  then show ?thesis using pre url1 ok by auto
qed


lemma clean_url_append: "list_ex (\<lambda>c. 32 < ord c) a \<Longrightarrow> clean_url (a @ b) = clean_url a @ filter (\<lambda>c. c \<notin> {CHR 0x09, CHR 0x0A, CHR 0x0D}) b"
proof -
  assume "list_ex (\<lambda>c. 32 < ord c) a"
  then obtain x where "x \<in> set a" "\<not> ord x \<le> 32" unfolding list_ex_iff by force
  then have "dropWhile (\<lambda>c. ord c \<le> 32) (a @ b) = dropWhile (\<lambda>c. ord c \<le> 32) a @ b" by (rule dropWhile_append1)
  then show ?thesis by (simp add: clean_url_def)
qed

lemma clean_url_keeps: "c \<in> set (clean_url raw) \<Longrightarrow> c \<notin> {CHR 0x09, CHR 0x0A, CHR 0x0D}"
  by (simp add: clean_url_def)

text \<open>The base of a client with its trailing slashes replaced by one.\<close>

lemma base_with_slash:
  assumes "urlsplit netloc_error raw = Inr u" and "u_scheme u \<noteq> []" and "u_netloc u \<noteq> []"
  shows "\<exists>v. urlsplit netloc_error (rstrip_char CHR ''/'' raw @ ''/'') = Inr v \<and> u_scheme v = u_scheme u \<and> u_netloc v = u_netloc u"
proof -
  obtain pre tail where shape: "clean_url raw = pre @ ''://'' @ u_netloc u @ tail" and abs: "absolute_url netloc_error pre (u_netloc u) tail"
    and scheme: "u_scheme u = ascii_lower pre" using urlsplit_shape [OF assms] by blast
  define r0 where "r0 = rstrip_char CHR ''/'' raw"
  define slashes where "slashes = rev (takeWhile (\<lambda>x. x = CHR ''/'') (rev raw))"
  have raw: "raw = r0 @ slashes" unfolding r0_def slashes_def rstrip_char_def by (simp flip: rev_append)
  have sl: "c = CHR ''/''" if "c \<in> set slashes" for c using that set_takeWhileD unfolding slashes_def by fastforce
  have fs: "filter (\<lambda>c. c \<notin> {CHR 0x09, CHR 0x0A, CHR 0x0D}) slashes = slashes" using sl by (auto intro!: filter_True)
  have "list_ex (\<lambda>c. 32 < ord c) r0"
  proof (rule ccontr)
    assume "\<not> list_ex (\<lambda>c. 32 < ord c) r0"
    then have "\<forall>c \<in> set r0. ord c \<le> 32" by (auto simp: list_ex_iff)
    then have "dropWhile (\<lambda>c. ord c \<le> 32) raw = dropWhile (\<lambda>c. ord c \<le> 32) slashes" using raw by (simp add: dropWhile_append2)
    then have "set (dropWhile (\<lambda>c. ord c \<le> 32) raw) \<subseteq> set slashes" using set_dropWhileD by fastforce
    then have "set (clean_url raw) \<subseteq> {CHR ''/''}" using sl by (auto simp: clean_url_def)
    moreover have "CHR '':'' \<in> set (clean_url raw)" using shape by simp
    ultimately show False by auto
  qed
  note app = clean_url_append [OF this]
  have "clean_url r0 @ slashes = (pre @ ''://'' @ u_netloc u) @ tail" using shape app [of slashes] raw fs by simp
  then obtain tail0 where t0: "clean_url r0 = (pre @ ''://'' @ u_netloc u) @ tail0" "tail0 @ slashes = tail"
  proof (rule append_eq_append_conv2 [THEN iffD1, THEN exE])
    fix us
    assume us: "clean_url r0 = (pre @ ''://'' @ u_netloc u) @ us \<and> us @ slashes = tail \<or> clean_url r0 @ us = pre @ ''://'' @ u_netloc u \<and> slashes = us @ tail"
    then show thesis
    proof
      assume r: "clean_url r0 @ us = pre @ ''://'' @ u_netloc u \<and> slashes = us @ tail"
      have "us = []"
      proof (rule ccontr)
        assume "us \<noteq> []"
        then have "last us = last (u_netloc u)" using r assms(3) by (metis append_is_Nil_conv last_appendR)
        moreover have "last us = CHR ''/''" using r \<open>us \<noteq> []\<close> by (intro sl) simp
        moreover have "\<not> netloc_end (last (u_netloc u))" using abs assms(3) by (simp add: absolute_url_def list_all_iff)
        ultimately show False by (simp add: netloc_end_def)
      qed
      then show thesis using r that [of "[]"] by simp
    qed (use that in blast)
  qed
  have "clean_url (r0 @ ''/'') = pre @ ''://'' @ u_netloc u @ tail0 @ ''/''" using app [of "''/''"] t0(1) by simp
  moreover have "absolute_url netloc_error pre (u_netloc u) (tail0 @ ''/'')"
    using abs t0(2) by (cases tail0) (auto simp: absolute_url_def netloc_end_def)
  ultimately show ?thesis using urlsplit_absolute [of netloc_error pre "u_netloc u" "tail0 @ ''/''" "r0 @ ''/''"] scheme by (simp add: r0_def)
qed

lemma urlparse_parts:
  "urlparse netloc_error raw = Inr u \<Longrightarrow> \<exists>v. urlsplit netloc_error raw = Inr v \<and> u_scheme v = u_scheme u \<and> u_netloc v = u_netloc u"
  "urlsplit netloc_error raw = Inr v \<Longrightarrow> \<exists>u. urlparse netloc_error raw = Inr u \<and> u_scheme u = u_scheme v \<and> u_netloc u = u_netloc v"
  by (auto simp: urlparse_def result_simps split: if_splits)


section \<open>Where requests go\<close>

text \<open>The origin of a URL, and the requests to the origin a client is configured for.\<close>

definition at_origin :: "(string \<Rightarrow> string option) \<Rightarrow> agent_settings \<Rightarrow> out_request \<Rightarrow> bool" where
  "at_origin netloc_error st rq \<longleftrightarrow>
     (\<exists>u b. urlparse netloc_error (out_url rq) = Inr u \<and> urlparse netloc_error (as_base_url st) = Inr b
        \<and> u_scheme u = u_scheme b \<and> url_hostname u = url_hostname b \<and> effective_port u = effective_port b
        \<and> url_username u = None \<and> url_password u = None)"

definition valid_settings :: "(string \<Rightarrow> string option) \<Rightarrow> agent_settings \<Rightarrow> bool" where
  "valid_settings netloc_error st \<longleftrightarrow>
     (\<exists>b. urlparse netloc_error (as_base_url st) = Inr b \<and> u_scheme b \<in> {''http'', ''https''} \<and> u_netloc b \<noteq> []
        \<and> url_username b = None \<and> url_password b = None) \<and> 0 \<le> as_max_retries st"

lemma settings_valid: "DataAgentClientSettings netloc_error casefold ip6_loopback st0 = Inr st \<Longrightarrow> valid_settings netloc_error st"
  unfolding DataAgentClientSettings_def valid_settings_def result_simps by (auto simp: lift_url_def map_sum_Inr_iff)

lemma http_scheme:
  assumes "scheme \<in> {''http'', ''https''}"
  shows "filter (\<lambda>c. c \<notin> {CHR 0x09, CHR 0x0A, CHR 0x0D}) (scheme @ ''://'') = scheme @ ''://'' \<and> list_ex (\<lambda>c. 32 < ord c) (scheme @ ''://'')
    \<and> dropWhile (\<lambda>c. ord c \<le> 32) (scheme @ ''://'') = scheme @ ''://'' \<and> ascii_lower scheme = scheme \<and> is_lower (hd scheme) \<and> list_all scheme_char scheme"
proof -
  have "list_all (\<lambda>scheme. filter (\<lambda>c. c \<notin> {CHR 0x09, CHR 0x0A, CHR 0x0D}) (scheme @ ''://'') = scheme @ ''://'' \<and> list_ex (\<lambda>c. 32 < ord c) (scheme @ ''://'')
    \<and> dropWhile (\<lambda>c. ord c \<le> 32) (scheme @ ''://'') = scheme @ ''://'' \<and> ascii_lower scheme = scheme \<and> is_lower (hd scheme) \<and> list_all scheme_char scheme)
    [''http'', ''https'']" by code_simp
  then show ?thesis using assms unfolding list_all_iff set_simps by blast
qed

lemma joined_url_origin:
  assumes "valid_settings netloc_error st" and "agent_url netloc_error st path = Inr url"
  shows "at_origin netloc_error st (rq\<lparr>out_url := url\<rparr>)"
proof -
  obtain b where b: "urlparse netloc_error (as_base_url st) = Inr b" "u_scheme b \<in> {''http'', ''https''}" "u_netloc b \<noteq> []"
    "url_username b = None" "url_password b = None" using assms(1) by (auto simp: valid_settings_def)
  obtain b0 where b0: "urlsplit netloc_error (as_base_url st) = Inr b0" "u_scheme b0 = u_scheme b" "u_netloc b0 = u_netloc b"
    using urlparse_parts(1) [OF b(1)] by blast
  have ne: "u_scheme b0 \<noteq> []" "u_netloc b0 \<noteq> []" using b b0 by auto
  obtain pre tail where shape: "clean_url (as_base_url st) = pre @ ''://'' @ u_netloc b0 @ tail" "absolute_url netloc_error pre (u_netloc b0) tail"
    using urlsplit_shape [OF b0(1) ne] by blast
  obtain c where c: "urlparse netloc_error (rstrip_char CHR ''/'' (as_base_url st) @ ''/'') = Inr c" "u_scheme c = u_scheme b" "u_netloc c = u_netloc b"
    using base_with_slash [OF b0(1) ne] urlparse_parts(2) b0(2,3) by metis
  obtain p where p: "url = u_scheme b @ ''://'' @ u_netloc b @ ''/'' @ p"
  proof -
    obtain j where j: "url = u_scheme b @ ''://'' @ u_netloc b @ (if hd j = CHR ''/'' then j else ''/'' @ j)" "j \<noteq> []"
      using assms(2) c by (auto simp: agent_url_def lift_url_def urljoin_def joined_path_def Let_def result_simps map_sum_Inr_iff)
    then show ?thesis using that [of "if hd j = CHR ''/'' then tl j else j"] by (cases j) auto
  qed
  let ?keep = "\<lambda>c. c \<notin> {CHR 0x09, CHR 0x0A, CHR 0x0D}"
  have keep: "filter ?keep (u_netloc b) = u_netloc b"
  proof (rule filter_True, rule ballI)
    fix x
    assume "x \<in> set (u_netloc b)"
    then have "x \<in> set (clean_url (as_base_url st))" using shape(1) b0(3) by simp
    then show "x \<notin> {CHR 0x09, CHR 0x0A, CHR 0x0D}" by (rule clean_url_keeps)
  qed
  have scheme: "filter ?keep (u_scheme b @ ''://'') = u_scheme b @ ''://''" "list_ex (\<lambda>c. 32 < ord c) (u_scheme b @ ''://'')" "dropWhile (\<lambda>c. ord c \<le> 32) (u_scheme b @ ''://'') = u_scheme b @ ''://''"
    "ascii_lower (u_scheme b) = u_scheme b" "is_lower (hd (u_scheme b))" "list_all scheme_char (u_scheme b)"
    using http_scheme [OF b(2)] by blast+
  have "clean_url url = u_scheme b @ ''://'' @ u_netloc b @ ''/'' @ filter ?keep p"
    using clean_url_append [OF scheme(2), of "u_netloc b @ ''/'' @ p"] keep scheme(1,3) by (simp add: p clean_url_def)
  moreover have "absolute_url netloc_error (u_scheme b) (u_netloc b) (''/'' @ filter ?keep p)"
    using shape(2) b0(3) scheme(5,6) ne b0(2) by (auto simp: absolute_url_def netloc_end_def)
  ultimately obtain u where "urlsplit netloc_error url = Inr u" "u_scheme u = u_scheme b" "u_netloc u = u_netloc b"
    using urlsplit_absolute [of netloc_error "u_scheme b" "u_netloc b" "''/'' @ filter ?keep p" url] scheme(4) by auto
  then obtain u where u: "urlparse netloc_error url = Inr u" "u_scheme u = u_scheme b" "u_netloc u = u_netloc b" using urlparse_parts(2) by metis
  then show ?thesis using b
    by (auto simp: at_origin_def url_hostname_def url_username_def url_password_def effective_port_def url_port_def intro!: exI [of _ u])
qed


text \<open>A property of the world that requests to the origin, and sleeping, keep.\<close>

definition origin_invariant :: "(string \<Rightarrow> string option) \<Rightarrow> agent_settings \<Rightarrow> 's agent_world \<Rightarrow> ('s \<Rightarrow> bool) \<Rightarrow> bool" where
  "origin_invariant netloc_error st w P \<longleftrightarrow>
     (\<forall>rq s. at_origin netloc_error st rq \<and> P s \<longrightarrow> P (fst (aw_open w rq s)) \<and> P (fst (aw_open_artifact w rq s)))
     \<and> (\<forall>t s. P s \<longrightarrow> P (aw_sleep w t s))"

lemma send_once_state: "fst (send_once w st rq s) = fst (aw_open w rq s)"
  by (simp add: send_once_def split: prod.splits transport.splits)

lemma send_attempts_keeps:
  assumes "origin_invariant netloc_error st w P" and "at_origin netloc_error st rq" and "P s"
  shows "P (fst (send_attempts w st rq attempt left s))"
  using assms(3)
proof (induction left arbitrary: attempt s)
  case 0
  then show ?case using assms(1,2) by (simp add: send_once_state origin_invariant_def)
next
  case (Suc left)
  obtain s' r where send: "send_once w st rq s = (s', r)" by fastforce
  have "P s'" using send_once_state [of w st rq s] send assms(1,2) Suc.prems by (simp add: origin_invariant_def)
  then show ?case using Suc.IH assms(1) send by (auto simp: origin_invariant_def split: sum.splits)
qed

lemma send_with_retries_keeps:
  "origin_invariant netloc_error st w P \<Longrightarrow> at_origin netloc_error st rq \<Longrightarrow> P s \<Longrightarrow> P (fst (send_with_retries w st rq s))"
  unfolding send_with_retries_def by (rule send_attempts_keeps)

lemma agent_access_keeps:
  assumes "valid_settings netloc_error st" and "origin_invariant netloc_error st w P" and "P s"
  shows "P (fst (agent_access H netloc_error w st rq s))"
proof (cases "agent_url netloc_error st ''v1/access''")
  case (Inr url)
  have "at_origin netloc_error st (access_message st url rq)"
    using joined_url_origin [OF assms(1) Inr, of "access_message st url rq"] by (simp add: access_message_def)
  from send_with_retries_keeps [OF assms(2) this assms(3)] Inr show ?thesis by (simp add: agent_access_def case_prod_beta)
qed (use assms(3) in \<open>simp add: agent_access_def\<close>)

lemma artifact_url_origin:
  assumes "validated_artifact_url netloc_error st v access_id = Inr url"
  shows "at_origin netloc_error st (artifact_message st url hs)"
proof -
  obtain u b where "urlparse netloc_error url = Inr u" "urlparse netloc_error (as_base_url st) = Inr b" "same_origin u b = Inr True"
    "url_username u = None" "url_password u = None"
    using assms unfolding validated_artifact_url_def result_simps lift_url_def map_sum_Inr_iff by auto
  then show ?thesis by (auto simp: at_origin_def artifact_message_def same_origin_def result_simps split: if_splits)
qed

lemma download_keeps:
  assumes "origin_invariant netloc_error st w P" and "validated_artifact_url netloc_error st v access_id = Inr url" and "P s"
  shows "P (fst (download_artifact w st url accept s))" and "P (fst (download_artifact_range w st url accept a b s))"
proof -
  have "P (fst (aw_open_artifact w (artifact_message st url hs) s))" for hs
    using assms(1,3) artifact_url_origin [OF assms(2)] by (simp add: origin_invariant_def)
  then show "P (fst (download_artifact w st url accept s))" and "P (fst (download_artifact_range w st url accept a b s))"
    by (auto simp: download_artifact_def download_artifact_range_def split: prod.splits transport.splits) (metis fst_conv)+
qed

lemma verified_artifact_keeps:
  assumes "valid_settings netloc_error st" and "origin_invariant netloc_error st w P" and "P s"
  shows "P (fst (verified_artifact_of H netloc_error w st rq accept check s))"
proof -
  obtain s1 r where acc: "agent_access H netloc_error w st rq s = (s1, r)" by fastforce
  then have P1: "P s1" using agent_access_keeps [OF assms, of H rq] by simp
  have "P (fst (download_artifact w st url accept s1))" if "validated_artifact_url netloc_error st v access_id = Inr url" for v access_id url
    by (rule download_keeps(1) [OF assms(2) that P1])
  then show ?thesis using P1 acc
    by (auto simp: verified_artifact_of_def Let_def result_simps split: sum.splits prod.splits) (metis fst_conv)+
qed


lemma fetch_range_keeps:
  assumes "valid_settings netloc_error st" and "origin_invariant netloc_error st w P" and "P s"
  shows "P (fst (agent_fetch_range H netloc_error w st rq a b digest allowed s))"
proof -
  obtain s1 r where acc: "agent_access H netloc_error w st rq s = (s1, r)" by fastforce
  then have P1: "P s1" using agent_access_keeps [OF assms, of H rq] by simp
  have "P (fst (download_artifact_range w st url accept a b s1))" if "validated_artifact_url netloc_error st v access_id = Inr url"
    for v access_id url accept by (rule download_keeps(2) [OF assms(2) that P1])
  then show ?thesis using P1 acc assms(3)
    by (auto simp: agent_fetch_range_def Let_def result_simps split: sum.splits prod.splits) (metis fst_conv)+
qed

lemma telemetry_turn_keeps:
  assumes "origin_invariant netloc_error st w P" and "at_origin netloc_error st message" and "P s"
  shows "P (fst (telemetry_turn w st message access_id wait deadline s))"
  using send_with_retries_keeps [OF assms] by (auto simp: telemetry_turn_def case_prod_beta split: sum.splits)

text \<open>Induction over the turns of a wait that returns.\<close>

lemma telemetry_poll_induct:
  assumes "telemetry_poll w st message access_id wait deadline poll s = Some y"
    and step: "\<And>s s' r. telemetry_turn w st message access_id wait deadline s = (s', Some r) \<Longrightarrow> Q s (s', r)"
      "\<And>s s' y. telemetry_turn w st message access_id wait deadline s = (s', None) \<Longrightarrow> Q (aw_sleep w poll s') y \<Longrightarrow> Q s y"
  shows "Q s y"
proof -
  have "w' = w \<and> st' = st \<and> m' = message \<and> i' = access_id \<and> wait' = wait \<and> d' = deadline \<and> p' = poll \<longrightarrow> Q s y"
    if "telemetry_poll w' st' m' i' wait' d' p' s = Some y" for w' st' m' i' wait' d' p' s y
    using that
  proof (rule telemetry_poll.raw_induct [rotated])
    fix rec w' st' m' i' wait' d' p' s y
    assume IH: "\<And>w' st' m' i' wait' d' p' s y. rec w' st' m' i' wait' d' p' s = Some y \<Longrightarrow>
        w' = w \<and> st' = st \<and> m' = message \<and> i' = access_id \<and> wait' = wait \<and> d' = deadline \<and> p' = poll \<longrightarrow> Q s y"
      and body: "(case telemetry_turn w' st' m' i' wait' d' s of (s', None) \<Rightarrow> rec w' st' m' i' wait' d' p' (aw_sleep w' p' s') | (s', Some r) \<Rightarrow> Some (s', r)) = Some y"
    show "w' = w \<and> st' = st \<and> m' = message \<and> i' = access_id \<and> wait' = wait \<and> d' = deadline \<and> p' = poll \<longrightarrow> Q s y"
    proof
      assume eq: "w' = w \<and> st' = st \<and> m' = message \<and> i' = access_id \<and> wait' = wait \<and> d' = deadline \<and> p' = poll"
      obtain s1 turn where t: "telemetry_turn w st message access_id wait deadline s = (s1, turn)" by fastforce
      show "Q s y"
      proof (cases turn)
        case None
        then have "rec w st message access_id wait deadline poll (aw_sleep w poll s1) = Some y" using body eq t by simp
        then show ?thesis using step(2) [of s s1 y] t None IH by blast
      next
        case (Some r)
        then show ?thesis using body eq t step(1) [of s s1 r] by auto
      qed
    qed
  qed
  then show ?thesis using assms(1) by blast
qed

lemma telemetry_poll_keeps:
  assumes "origin_invariant netloc_error st w P" and "at_origin netloc_error st message"
    and "telemetry_poll w st message access_id wait deadline poll s = Some y" and "P s"
  shows "P (fst y)"
proof -
  have "P s \<longrightarrow> P (fst y)"
    using assms(3)
  proof (rule telemetry_poll_induct)
    fix s s' r
    assume "telemetry_turn w st message access_id wait deadline s = (s', Some r)"
    then show "P s \<longrightarrow> P (fst (s', r))" using telemetry_turn_keeps [OF assms(1,2), of s access_id wait deadline] by simp
  next
    fix s s' y
    assume "telemetry_turn w st message access_id wait deadline s = (s', None)" and "P (aw_sleep w poll s') \<longrightarrow> P (fst y)"
    then show "P s \<longrightarrow> P (fst y)" using telemetry_turn_keeps [OF assms(1,2), of s access_id wait deadline] assms(1) by (simp add: origin_invariant_def)
  qed
  then show ?thesis using assms(4) by blast
qed

lemma get_telemetry_form:
  "(\<exists>e. agent_get_telemetry netloc_error w st access_id wait timeout poll s = Some (s, Inl e))
   \<or> (\<exists>url. agent_url netloc_error st (''v1/accesses/'' @ quote_strict access_id @ ''/telemetry'') = Inr url \<and> 0 < float_value poll
        \<and> agent_get_telemetry netloc_error w st access_id wait timeout poll s
          = telemetry_poll w st (telemetry_message st url) access_id wait (round_double (aw_monotonic w s + float_value timeout)) (float_value poll) s)"
proof (cases "require (strip access_id \<noteq> []) (AgentValueError ''Data Agent access_id cannot be empty'') (
           bind_res (validated_timing_seconds timeout ''quiescence_timeout_seconds'' True) (\<lambda>t.
           bind_res (validated_timing_seconds poll ''quiescence_poll_seconds'' False) (\<lambda>p.
           bind_res (agent_url netloc_error st (''v1/accesses/'' @ quote_strict access_id @ ''/telemetry'')) (\<lambda>url.
           Inr (t, p, url)))))")
  case (Inl e)
  then show ?thesis unfolding agent_get_telemetry_def by simp
next
  case (Inr q)
  then obtain url where "q = (timeout, poll, url)" "0 < float_value poll"
      "agent_url netloc_error st (''v1/accesses/'' @ quote_strict access_id @ ''/telemetry'') = Inr url"
    unfolding result_simps validated_timing_seconds_def if_True if_False require_Inr_iff by (elim exE conjE) (simp only: sum.inject, blast)
  then show ?thesis unfolding agent_get_telemetry_def Inr by simp
qed

lemma get_telemetry_keeps:
  assumes "valid_settings netloc_error st" and "origin_invariant netloc_error st w P" and "P s"
    and "agent_get_telemetry netloc_error w st access_id wait timeout poll s = Some y"
  shows "P (fst y)"
  using get_telemetry_form [of netloc_error w st access_id wait timeout poll s]
proof
  assume "\<exists>url. agent_url netloc_error st (''v1/accesses/'' @ quote_strict access_id @ ''/telemetry'') = Inr url \<and> 0 < float_value poll
        \<and> agent_get_telemetry netloc_error w st access_id wait timeout poll s
          = telemetry_poll w st (telemetry_message st url) access_id wait (round_double (aw_monotonic w s + float_value timeout)) (float_value poll) s"
  then obtain url where polled: "agent_url netloc_error st (''v1/accesses/'' @ quote_strict access_id @ ''/telemetry'') = Inr url"
    "telemetry_poll w st (telemetry_message st url) access_id wait (round_double (aw_monotonic w s + float_value timeout)) (float_value poll) s = Some y"
    using assms(4) by auto
  have "at_origin netloc_error st (telemetry_message st url)"
    using joined_url_origin [OF assms(1) polled(1), of "telemetry_message st url"] by (simp add: telemetry_message_def)
  then show ?thesis by (rule telemetry_poll_keeps [OF assms(2) _ polled(2) assms(3)])
qed (use assms(3,4) in auto)

text \<open>
  (C26) Every request of a client goes to the origin it is configured for. Take any network and any property of its state that a request keeps if
  it goes, without user info, to the scheme, host and port of the base URL: no operation of a client with accepted settings breaks it,
  whatever the Data Agent answers, the URL of an artifact included. So the bearer token is sent nowhere else.
\<close>

theorem requests_stay_at_origin:
  assumes "DataAgentClientSettings netloc_error casefold ip6_loopback st0 = Inr st"
    and "origin_invariant netloc_error st w P" and "P s"
  shows "P (fst (agent_access H netloc_error w st rq s)) \<and> P (fst (agent_fetch_artifact H netloc_error w st rq s))
    \<and> P (fst (agent_fetch_binary H netloc_error w st rq allowed s)) \<and> P (fst (agent_fetch_range H netloc_error w st rq a b digest allowed s))
    \<and> (\<forall>y. agent_get_telemetry netloc_error w st access_id wait timeout poll s = Some y \<longrightarrow> P (fst y))"
proof (intro conjI allI impI)
  note v = settings_valid [OF assms(1)]
  note keeps = verified_artifact_keeps [OF v assms(2,3)]
  show "P (fst (agent_access H netloc_error w st rq s))" by (rule agent_access_keeps [OF v assms(2,3)])
  show "P (fst (agent_fetch_artifact H netloc_error w st rq s))" using keeps by (simp add: agent_fetch_artifact_def case_prod_beta)
  show "P (fst (agent_fetch_binary H netloc_error w st rq allowed s))"
    using keeps assms(3) by (simp add: agent_fetch_binary_def case_prod_beta split: sum.splits)
  show "P (fst (agent_fetch_range H netloc_error w st rq a b digest allowed s))" by (rule fetch_range_keeps [OF v assms(2,3)])
  show "P (fst y)" if "agent_get_telemetry netloc_error w st access_id wait timeout poll s = Some y" for y
    by (rule get_telemetry_keeps [OF v assms(2,3) that])
qed


section \<open>What is accepted\<close>

lemma download_artifact_Inr:
  assumes "download_artifact w st url accept s = (s', Inr (raw, media_type))"
  shows "int (length raw) \<le> as_max_artifact_bytes st \<and> media_type \<noteq> []"
  using assms by (auto simp: download_artifact_def result_simps Let_def split: prod.splits transport.splits)

lemma verified_artifact_Inr:
  assumes "verified_artifact_of H netloc_error w st rq accept check s = (s', phases, Inr a)"
  shows "\<exists>s1 url. agent_access H netloc_error w st rq s = (s1, Inr (va_refreshed a)) \<and> check (va_media_type a) = Inr ()
    \<and> pl_kind (ar_payload (va_refreshed a)) = ''artifact_uri'' \<and> pl_sha256 (ar_payload (va_refreshed a)) = Some (H (va_data a)) \<and> va_sha256 a = H (va_data a)
    \<and> va_media_type a = base_media_type (pl_media_type (ar_payload (va_refreshed a)))
    \<and> validated_artifact_url netloc_error st (pl_value (ar_payload (va_refreshed a))) (rq_access_id rq) = Inr url
    \<and> download_artifact w st url accept s1 = (s', Inr (va_data a, va_media_type a))
    \<and> phases = [''access_completed'', ''artifact_download_started'', ''artifact_download_completed'']"
proof -
  obtain s1 refreshed where acc: "agent_access H netloc_error w st rq s = (s1, Inr refreshed)"
    using assms by (auto simp: verified_artifact_of_def split: prod.splits sum.splits)
  then show ?thesis using assms
    by (auto simp: verified_artifact_of_def Let_def result_simps split: prod.splits sum.splits option.splits)
qed

lemma normalized_types_set: "normalized_types items = Inr bases \<Longrightarrow> set bases = base_media_type ` set items \<and> list_all (\<lambda>b. b \<noteq> [] \<and> CHR ''*'' \<notin> set b) bases"
  by (induction items arbitrary: bases) (auto simp: result_simps Let_def)

lemma normalized_media_types_set:
  assumes "normalized_media_types items = Inr allowed"
  shows "set allowed = base_media_type ` set items \<and> list_all (\<lambda>b. b \<noteq> [] \<and> CHR ''*'' \<notin> set b) allowed"
proof -
  obtain bases where b: "normalized_types items = Inr bases" "allowed = sort (remdups bases)"
    using assms by (auto simp: normalized_media_types_def result_simps)
  then have "set allowed = set bases" by simp
  then show ?thesis using normalized_types_set [OF b(1)] by (simp add: list_all_iff)
qed

text \<open>
  (C27) Whatever the network answers, a binary artifact that is returned is the one the access names: its bytes have the digest of the access
  response and the digest it is returned with, are at most the configured number, and have one of the exact media types the caller allowed,
  the same in the access response and in the download; the download was of the validated artifact URL of that access, and the caller was told of
  every phase.
\<close>

theorem binary_artifacts_are_verified:
  assumes "agent_fetch_binary H netloc_error w st rq allowed s = (s', phases, Inr a)"
  shows "\<exists>s1 refreshed url. agent_access H netloc_error w st rq s = (s1, Inr refreshed) \<and> ar_access_id refreshed = rq_access_id rq
    \<and> pl_kind (ar_payload refreshed) = ''artifact_uri'' \<and> pl_sha256 (ar_payload refreshed) = Some (H (ba_data a)) \<and> ba_sha256 a = H (ba_data a)
    \<and> ba_size_bytes a = int (length (ba_data a)) \<and> ba_size_bytes a \<le> as_max_artifact_bytes st
    \<and> ba_media_type a \<in> base_media_type ` set allowed \<and> ba_media_type a = base_media_type (pl_media_type (ar_payload refreshed))
    \<and> validated_artifact_url netloc_error st (pl_value (ar_payload refreshed)) (rq_access_id rq) = Inr url
    \<and> phases = [''access_completed'', ''artifact_download_started'', ''artifact_download_completed'']"
proof -
  obtain types accept check v where types: "normalized_media_types allowed = Inr types"
    and v: "verified_artifact_of H netloc_error w st rq accept check s = (s', phases, Inr v)"
    and a: "va_media_type v \<in> set types" "ba_media_type a = va_media_type v" "ba_data a = va_data v" "ba_sha256 a = va_sha256 v"
      "ba_size_bytes a = int (length (va_data v))"
    using assms by (auto simp: agent_fetch_binary_def result_simps split: sum.splits prod.splits)
  obtain s1 url where d: "agent_access H netloc_error w st rq s = (s1, Inr (va_refreshed v))" "pl_kind (ar_payload (va_refreshed v)) = ''artifact_uri''"
    "pl_sha256 (ar_payload (va_refreshed v)) = Some (H (va_data v))" "va_sha256 v = H (va_data v)"
    "va_media_type v = base_media_type (pl_media_type (ar_payload (va_refreshed v)))"
    "validated_artifact_url netloc_error st (pl_value (ar_payload (va_refreshed v))) (rq_access_id rq) = Inr url"
    "download_artifact w st url accept s1 = (s', Inr (va_data v, va_media_type v))"
    "phases = [''access_completed'', ''artifact_download_started'', ''artifact_download_completed'']"
    using verified_artifact_Inr [OF v] by blast
  show ?thesis using a d agent_access_answers [OF d(1)] download_artifact_Inr [OF d(7)] normalized_media_types_set [OF types]
    by (intro exI [of _ s1] exI [of _ "va_refreshed v"] exI [of _ url]) simp
qed





section \<open>Retries\<close>

text \<open>The state in which the \<open>k\<close>th attempt is made.\<close>

fun attempt_state :: "'s agent_world \<Rightarrow> agent_settings \<Rightarrow> out_request \<Rightarrow> nat \<Rightarrow> nat \<Rightarrow> 's \<Rightarrow> 's" where
  "attempt_state w st rq first 0 s = s"
| "attempt_state w st rq first (Suc k) s = attempt_state w st rq (Suc first) k (aw_sleep w (backoff first) (fst (send_once w st rq s)))"

definition retried :: "'s agent_world \<Rightarrow> agent_settings \<Rightarrow> out_request \<Rightarrow> 's \<Rightarrow> bool" where
  "retried w st rq s = (case snd (send_once w st rq s) of Inl e \<Rightarrow> retryable e | Inr _ \<Rightarrow> False)"

lemma send_attempts_exact:
  assumes "attempt + left \<le> 1024"
  shows "\<exists>k \<le> left. send_attempts w st rq attempt left s = send_once w st rq (attempt_state w st rq attempt k s)
    \<and> (\<forall>j < k. retried w st rq (attempt_state w st rq attempt j s)) \<and> (k = left \<or> \<not> retried w st rq (attempt_state w st rq attempt k s))"
  using assms
proof (induction left arbitrary: attempt s)
  case (Suc left)
  obtain s' r where send: "send_once w st rq s = (s', r)" by fastforce
  show ?case
  proof (cases "retried w st rq s")
    case True
    then obtain e where e: "r = Inl e" "retryable e" using send by (auto simp: retried_def split: sum.splits)
    obtain k where k: "k \<le> left" "send_attempts w st rq (Suc attempt) left (aw_sleep w (backoff attempt) s')
        = send_once w st rq (attempt_state w st rq (Suc attempt) k (aw_sleep w (backoff attempt) s'))"
      "\<forall>j < k. retried w st rq (attempt_state w st rq (Suc attempt) j (aw_sleep w (backoff attempt) s'))"
      "k = left \<or> \<not> retried w st rq (attempt_state w st rq (Suc attempt) k (aw_sleep w (backoff attempt) s'))"
      using Suc.IH [of "Suc attempt" "aw_sleep w (backoff attempt) s'"] Suc.prems by auto
    have "send_attempts w st rq attempt (Suc left) s = send_once w st rq (attempt_state w st rq attempt (Suc k) s)" using send e k(2) Suc.prems by simp
    moreover have "retried w st rq (attempt_state w st rq attempt j s)" if "j < Suc k" for j using that True k(3) send by (cases j) auto
    ultimately show ?thesis using k send by (intro exI [of _ "Suc k"]) auto
  next
    case False
    then have "send_attempts w st rq attempt (Suc left) s = send_once w st rq s" using send by (auto simp: retried_def split: sum.splits)
    then show ?thesis using False by (intro exI [of _ 0]) simp
  qed
qed simp

text \<open>
  A request is repeated exactly while it may be. With at most 1024 retries configured, a request is sent \<open>k + 1\<close> times for some \<open>k\<close> up to
  the configured number of retries; every attempt before the last one failed with status 502, 503 or 504 or without an answer; and the last one,
  whose result is returned, either did not fail so or was the last one allowed.
\<close>

theorem retries_are_bounded_and_exact:
  assumes "DataAgentClientSettings netloc_error casefold ip6_loopback st0 = Inr st" and "as_max_retries st \<le> 1024"
  shows "\<exists>k. int k \<le> as_max_retries st \<and> send_with_retries w st rq s = send_once w st rq (attempt_state w st rq 0 k s)
    \<and> (\<forall>j < k. retried w st rq (attempt_state w st rq 0 j s)) \<and> (int k = as_max_retries st \<or> \<not> retried w st rq (attempt_state w st rq 0 k s))"
proof -
  have n: "0 \<le> as_max_retries st" using settings_valid [OF assms(1)] by (simp add: valid_settings_def)
  then have "0 + nat (as_max_retries st) \<le> 1024" using assms(2) by simp
  from send_attempts_exact [OF this, of w st rq s] n show ?thesis unfolding send_with_retries_def by (metis int_nat_eq nat_int of_nat_le_iff)
qed

section \<open>Telemetry\<close>

lemma telemetry_turn_Inr:
  "telemetry_turn w st message access_id True deadline s = (s', Some (Inr t)) \<Longrightarrow> telemetry_complete t \<and> tm_access_id t = access_id"
  by (auto simp: telemetry_turn_def result_simps split: prod.splits sum.splits if_splits)


text \<open>
  (C29) The wait for telemetry fails closed: a summary that is returned after waiting is of the access asked for and final, by both signals of the
  Data Agent. A provisional summary, or one of a Data Agent that cannot tell, is never returned.
\<close>

theorem telemetry_wait_fails_closed:
  assumes "agent_get_telemetry netloc_error w st access_id True timeout poll s = Some (s', Inr t)"
  shows "tm_access_id t = access_id \<and> telemetry_complete t \<and> tm_in_flight_request_count t = Some 0 \<and> tm_server_reported_complete t = Some True"
proof -
  have "snd y = Inr t \<longrightarrow> telemetry_complete t \<and> tm_access_id t = access_id"
    if "telemetry_poll w st message access_id True deadline p s = Some y" for message deadline p s y
    using that
  proof (rule telemetry_poll_induct)
    fix s s' r
    assume "telemetry_turn w st message access_id True deadline s = (s', Some r)"
    then show "snd (s', r) = Inr t \<longrightarrow> telemetry_complete t \<and> tm_access_id t = access_id" using telemetry_turn_Inr by fastforce
  qed
  moreover obtain message deadline p where "telemetry_poll w st message access_id True deadline p s = Some (s', Inr t)"
    using get_telemetry_form [of netloc_error w st access_id True timeout poll s] assms by fastforce
  ultimately have "telemetry_complete t \<and> tm_access_id t = access_id" by fastforce
  then show ?thesis by (simp add: telemetry_complete_def)
qed

definition clock_advances :: "'s agent_world \<Rightarrow> bool" where
  "clock_advances w \<longleftrightarrow> (\<forall>rq s. aw_monotonic w s \<le> aw_monotonic w (fst (aw_open w rq s)))
     \<and> (\<forall>t s. 0 \<le> t \<longrightarrow> aw_monotonic w s + t \<le> aw_monotonic w (aw_sleep w t s))"

lemma send_attempts_clock:
  assumes "clock_advances w"
  shows "aw_monotonic w s \<le> aw_monotonic w (fst (send_attempts w st rq attempt left s))"
proof (induction left arbitrary: attempt s)
  case 0
  then show ?case using assms by (simp add: send_once_state clock_advances_def)
next
  case (Suc left)
  obtain s' r where send: "send_once w st rq s = (s', r)" by fastforce
  have "0 \<le> round_double (1 / 10)" by code_simp
  then have "0 \<le> backoff attempt" by (simp add: backoff_def)
  then have "aw_monotonic w s' + backoff attempt \<le> aw_monotonic w (aw_sleep w (backoff attempt) s')" "0 \<le> backoff attempt"
    using assms by (auto simp: clock_advances_def)
  moreover have "aw_monotonic w s \<le> aw_monotonic w s'" using send_once_state [of w st rq s] send assms by (simp add: clock_advances_def)
  moreover note Suc.IH [of "aw_sleep w (backoff attempt) s'" "Suc attempt"]
  ultimately show ?case using send by (auto split: sum.splits)
qed

lemma telemetry_poll_ends:
  assumes "clock_advances w" and "0 < poll"
  shows "deadline - aw_monotonic w s \<le> of_nat n * poll \<Longrightarrow> \<exists>y. telemetry_poll w st message access_id wait deadline poll s = Some y"
proof (induction n arbitrary: s)
  case (Suc n)
  obtain s' turn where t: "telemetry_turn w st message access_id wait deadline s = (s', turn)" by fastforce
  have "s' = fst (send_with_retries w st message s)" using t by (auto simp: telemetry_turn_def split: prod.splits sum.splits)
  then have "aw_monotonic w s \<le> aw_monotonic w s'" using send_attempts_clock [OF assms(1)] by (simp add: send_with_retries_def)
  moreover have "aw_monotonic w s' + poll \<le> aw_monotonic w (aw_sleep w poll s')" using assms by (simp add: clock_advances_def)
  ultimately have "deadline - aw_monotonic w (aw_sleep w poll s') \<le> of_nat n * poll" using Suc.prems by (simp add: algebra_simps)
  then show ?case using Suc.IH t by (cases turn) (auto simp: telemetry_poll.simps [of w st message access_id wait deadline poll s])
next
  case 0
  obtain s' turn where t: "telemetry_turn w st message access_id wait deadline s = (s', turn)" by fastforce
  have "s' = fst (send_with_retries w st message s)" using t by (auto simp: telemetry_turn_def split: prod.splits sum.splits)
  then have "deadline \<le> aw_monotonic w s'" using send_attempts_clock [OF assms(1), of s st message 0] 0
    by (simp add: send_with_retries_def) (meson order_trans)
  then have "turn \<noteq> None" using t by (auto simp: telemetry_turn_def split: prod.splits sum.splits if_splits)
  then show ?case using t by (auto simp: telemetry_poll.simps [of w st message access_id wait deadline poll s])
qed

text \<open>
  (C30) The wait for telemetry ends: if the clock does not run backwards and a sleep takes at least its time, the wait returns or raises, whatever the
  Data Agent answers and whatever the arguments are.
\<close>

theorem telemetry_wait_ends:
  assumes "clock_advances w"
  shows "\<exists>s' r. agent_get_telemetry netloc_error w st access_id wait timeout poll s = Some (s', r)"
proof -
  have "\<exists>y. telemetry_poll w st message access_id wait deadline p s = Some y" if "0 < p" for message deadline p s
  proof -
    obtain n where "(deadline - aw_monotonic w s) / p < of_nat n" using reals_Archimedean2 by blast
    then have "(deadline - aw_monotonic w s) / p \<le> of_nat n" by simp
    then have "deadline - aw_monotonic w s \<le> of_nat n * p" using that by (simp add: pos_divide_le_eq)
    then show ?thesis by (rule telemetry_poll_ends [OF assms that])
  qed
  then show ?thesis using get_telemetry_form [of netloc_error w st access_id wait timeout poll s] by (metis prod.exhaust)
qed


section \<open>A deployment\<close>

lemma send_once_dumped:
  assumes "aw_open w rq s = (s', Response status hs (dumps (JObj d) @ [CHR 0x0A]))" and "wf_json (JObj d)" and "utf8_json (JObj d)"
    and "sort_keys (JObj d) = JObj d" and "int (length (dumps (JObj d))) < as_max_response_bytes st"
  shows "send_with_retries w st rq s = (s', Inr d)"
proof -
  have "send_once w st rq s = (s', Inr d)" using assms plain_loads_line [OF assms(2,3)] by (simp add: send_once_def Let_def agent_object_def del: dumps.simps sort_keys.simps)
  then show ?thesis by (cases "nat (as_max_retries st)") (simp_all add: send_with_retries_def)
qed

definition agent_demo_digest :: "bytes \<Rightarrow> string" where
  "agent_demo_digest raw = replicate 64 CHR ''a''"

definition agent_demo_settings :: agent_settings where
  "agent_demo_settings = default_settings ''https://agent/p/'' (Some ''secret-token-01'') (PyFloat False 30) 1"

definition agent_demo_answer :: dict where
  "agent_demo_answer =
     [(''access_id'', JStr ''a1''), (''api_version'', JStr DATA_AGENT_API_VERSION),
      (''payload'', JObj [(''kind'', JStr ''artifact_uri''), (''media_type'', JStr ''video/mp4''),
         (''sha256'', JStr (replicate 64 CHR ''a'')), (''value'', JStr ''https://agent:443/p/v1/artifacts/a1?sig=x'')]),
      (''status'', JStr ''succeeded''),
      (''telemetry'', JObj [(''bytes_read'', JInt 4), (''location'', JStr ''local''), (''realized_cost'', JInt 1), (''service_latency_ms'', JInt 3)])]"

definition agent_demo_telemetry :: dict where
  "agent_demo_telemetry =
     [(''access_id'', JStr ''a1''), (''api_version'', JStr DATA_AGENT_API_VERSION),
      (''artifact_download'', JObj [(''bytes_sent'', JInt 4), (''completed_request_count'', JInt 1), (''download_request_count'', JInt 1),
         (''full_download_count'', JInt 1), (''in_flight_request_count'', JInt 0), (''telemetry_complete'', JBool True), (''transfer_latency_ms'', JInt 2)]),
      (''representation_id'', JStr ''raw''), (''status'', JStr ''succeeded'')]"

text \<open>A Data Agent that keeps a log of the requests it gets.\<close>

definition agent_demo_world :: "out_request list agent_world" where
  "agent_demo_world =
     \<lparr>aw_open = (\<lambda>rq sent. (rq # sent, Response 200 [] (dumps (JObj (if out_method rq = ''GET'' then agent_demo_telemetry else agent_demo_answer)) @ [CHR 0x0A]))),
      aw_open_artifact = (\<lambda>rq sent. (rq # sent,
         if header_get (out_headers rq) ''Range'' = None then Response 200 [(''Content-Type'', ''video/mp4'')] ''data''
         else Response 206 [(''Content-Type'', ''video/mp4''), (''Content-Range'', ''bytes 1-2/4''), (''Content-Length'', ''2''),
                (''ETag'', CHR 0x22 # replicate 64 CHR ''a'' @ [CHR 0x22])] ''at'')),
      aw_sleep = (\<lambda>_ sent. sent), aw_elapsed_ms = (\<lambda>_ _. PyFloat False 1), aw_monotonic = (\<lambda>_. 0)\<rparr>"

definition agent_demo_request :: access_request where
  "agent_demo_request = \<lparr>rq_access_id = ''a1'', rq_session_id = ''s'', rq_trial_id = ''t'', rq_plan_id = ''d1'', rq_plan_epoch = 0, rq_task_class_id = ''c'',
     rq_representation_id = ''raw'', rq_event_index = 0, rq_latency_multiplier = JFloat (PyFloat False 1), rq_binding = [], rq_plan_capability = None, rq_object_id = None\<rparr>"

lemma agent_demo_settings_ok: "DataAgentClientSettings (\<lambda>_. None) id (\<lambda>_. False) agent_demo_settings = Inr agent_demo_settings"
  by code_simp

lemma agent_demo_sends:
  assumes "d = (if out_method rq = ''GET'' then agent_demo_telemetry else agent_demo_answer)"
  shows "send_with_retries agent_demo_world agent_demo_settings rq sent = (rq # sent, Inr d)"
proof (rule send_once_dumped)
  show "aw_open agent_demo_world rq sent = (rq # sent, Response 200 [] (dumps (JObj d) @ [CHR 0x0A]))" by (simp add: agent_demo_world_def assms)
  have "list_all (\<lambda>d. wf_json (JObj d) \<and> utf8_json (JObj d) \<and> sort_keys (JObj d) = JObj d
      \<and> int (length (dumps (JObj d))) < as_max_response_bytes agent_demo_settings) [agent_demo_telemetry, agent_demo_answer]" by code_simp
  then show "wf_json (JObj d)" "utf8_json (JObj d)" "sort_keys (JObj d) = JObj d" "int (length (dumps (JObj d))) < as_max_response_bytes agent_demo_settings"
    unfolding assms by (auto simp del: dumps.simps wf_json.simps utf8_json.simps sort_keys.simps)
qed


definition agent_demo_result :: access_result where
  "agent_demo_result = (case result_from_dict agent_demo_digest agent_demo_answer of Inr r \<Rightarrow> r\<lparr>ar_client_round_trip_ms := Some (PyFloat False 1)\<rparr> | Inl _ \<Rightarrow> undefined)"

lemma agent_demo_access:
  "\<exists>sent'. agent_access agent_demo_digest (\<lambda>_. None) agent_demo_world agent_demo_settings agent_demo_request sent = (sent', Inr agent_demo_result)"
proof -
  have "isOK (agent_url (\<lambda>_. None) agent_demo_settings ''v1/access'')" by code_simp
  then obtain url where "agent_url (\<lambda>_. None) agent_demo_settings ''v1/access'' = Inr url" by (auto simp: isOK_iff)
  moreover have "case result_from_dict agent_demo_digest agent_demo_answer of Inr r \<Rightarrow> ar_access_id r = rq_access_id agent_demo_request | Inl _ \<Rightarrow> False" by code_simp
  moreover have "aw_elapsed_ms agent_demo_world a b = PyFloat False 1" for a b by (simp add: agent_demo_world_def)
  ultimately show ?thesis
    by (cases "result_from_dict agent_demo_digest agent_demo_answer")
      (simp_all add: agent_access_def agent_demo_sends [OF refl] access_message_def agent_demo_result_def)
qed

lemma agent_demo_url: "validated_artifact_url (\<lambda>_. None) agent_demo_settings (pl_value (ar_payload agent_demo_result)) (rq_access_id agent_demo_request)
    = Inr ''https://agent:443/p/v1/artifacts/a1?sig=x''"
  by code_simp

lemma agent_demo_payload:
  "pl_kind (ar_payload agent_demo_result) = ''artifact_uri''" "base_media_type (pl_media_type (ar_payload agent_demo_result)) = ''video/mp4''"
  "pl_sha256 (ar_payload agent_demo_result) = Some (replicate 64 CHR ''a'')" "agent_demo_digest raw = replicate 64 CHR ''a''"
  "normalized_media_types [''Video/MP4; codecs=x''] = Inr [''video/mp4'']"
  by code_simp+

lemma agent_demo_headers:
  "header_get (out_headers (artifact_message agent_demo_settings url ((''Accept'', accept) # hs))) ''Range''
    = (case hs of [] \<Rightarrow> None | (n, v) # _ \<Rightarrow> if ascii_lower n = ascii_lower ''Range'' then Some v else header_get (out_headers (artifact_message agent_demo_settings url hs)) ''Range'')"
proof -
  have n: "ascii_lower ''Accept'' \<noteq> ascii_lower ''Range''" "ascii_lower ''User-Agent'' \<noteq> ascii_lower ''Range''"
    "ascii_lower ''X-Pathfinder-Protocol-Version'' \<noteq> ascii_lower ''Range''" "ascii_lower ''Authorization'' \<noteq> ascii_lower ''Range''" by code_simp+
  then show ?thesis
    by (auto simp: header_get_def artifact_message_def with_authorization_def agent_demo_settings_def default_settings_def nonempty_text_def split: list.splits option.splits)
qed

theorem requests_stay_at_origin_witness:
  "list_all (at_origin (\<lambda>_. None) agent_demo_settings)
     (fst (agent_fetch_binary agent_demo_digest (\<lambda>_. None) agent_demo_world agent_demo_settings agent_demo_request [''video/mp4''] []))"
proof -
  have "origin_invariant (\<lambda>_. None) agent_demo_settings agent_demo_world (list_all (at_origin (\<lambda>_. None) agent_demo_settings))"
    by (simp add: origin_invariant_def agent_demo_world_def)
  from requests_stay_at_origin [OF agent_demo_settings_ok this, of "[]"] show ?thesis by simp
qed

theorem binary_artifacts_are_verified_witness:
  "\<exists>s' phases a. agent_fetch_binary agent_demo_digest (\<lambda>_. None) agent_demo_world agent_demo_settings agent_demo_request [''Video/MP4; codecs=x''] [] = (s', phases, Inr a)
    \<and> ba_sha256 a = agent_demo_digest (ba_data a) \<and> ba_size_bytes a \<le> as_max_artifact_bytes agent_demo_settings"
proof -
  obtain sent where acc: "agent_access agent_demo_digest (\<lambda>_. None) agent_demo_world agent_demo_settings agent_demo_request [] = (sent, Inr agent_demo_result)"
    using agent_demo_access by blast
  have "download_artifact agent_demo_world agent_demo_settings url accept sent
      = (artifact_message agent_demo_settings url [(''Accept'', accept)] # sent, Inr (''data'', ''video/mp4''))" for url accept
  proof -
    have h: "header_get (out_headers (artifact_message agent_demo_settings url [(''Accept'', accept)])) ''Range'' = None"
      by (simp add: agent_demo_headers)
    have "check_content_length agent_demo_settings [(''Content-Type'', ''video/mp4'')] = Inr ()"
      "base_media_type (text_or_empty (header_get [(''Content-Type'', ''video/mp4'')] ''Content-Type'')) = ''video/mp4''"
      by code_simp+
    moreover have "take (nat (as_max_artifact_bytes agent_demo_settings + 1)) ''data'' = ''data''" "4 \<le> as_max_artifact_bytes agent_demo_settings"
      by (simp_all add: agent_demo_settings_def default_settings_def)
    ultimately show ?thesis using h by (simp add: download_artifact_def agent_demo_world_def Let_def)
  qed
  then obtain s' phases a where r: "agent_fetch_binary agent_demo_digest (\<lambda>_. None) agent_demo_world agent_demo_settings agent_demo_request [''Video/MP4; codecs=x''] [] = (s', phases, Inr a)"
    by (simp add: agent_fetch_binary_def verified_artifact_of_def acc Let_def agent_demo_payload agent_demo_url)
  from binary_artifacts_are_verified [OF r] r show ?thesis by blast
qed


definition busy_world :: "nat agent_world" where
  "busy_world = \<lparr>aw_open = (\<lambda>rq n. (Suc n, HTTPErrorResponse 503 [] ''busy'')), aw_open_artifact = (\<lambda>rq n. (Suc n, ConnectionFails [])),
     aw_sleep = (\<lambda>_ n. n), aw_elapsed_ms = (\<lambda>_ _. PyFloat False 1), aw_monotonic = of_nat\<rparr>"

definition demo_ping :: out_request where
  "demo_ping = \<lparr>out_method = ''GET'', out_url = ''https://agent'', out_headers = [], out_data = None\<rparr>"

theorem retries_are_bounded_and_exact_witness:
  "\<exists>k. int k \<le> 1 \<and> send_with_retries busy_world agent_demo_settings demo_ping 0
      = send_once busy_world agent_demo_settings demo_ping (attempt_state busy_world agent_demo_settings demo_ping 0 k 0)"
proof -
  have "as_max_retries agent_demo_settings = 1" by (simp add: agent_demo_settings_def default_settings_def)
  then show ?thesis using retries_are_bounded_and_exact [OF agent_demo_settings_ok, of busy_world demo_ping 0] by auto
qed

theorem telemetry_wait_fails_closed_witness:
  "\<exists>s' t. agent_get_telemetry (\<lambda>_. None) agent_demo_world agent_demo_settings ''a1'' True (PyFloat False 5) (PyFloat False 1) [] = Some (s', Inr t) \<and> telemetry_complete t"
proof -
  have "case telemetry_from_dict agent_demo_telemetry of Inr t \<Rightarrow> tm_access_id t = ''a1'' \<and> telemetry_supported t \<and> telemetry_complete t | Inl _ \<Rightarrow> False" by code_simp
  then obtain t where t: "telemetry_from_dict agent_demo_telemetry = Inr t" "tm_access_id t = ''a1''" "telemetry_supported t" "telemetry_complete t"
    by (auto split: sum.splits)
  have "\<exists>s'. telemetry_poll agent_demo_world agent_demo_settings (telemetry_message agent_demo_settings url) ''a1'' True deadline p [] = Some (s', Inr t)" for url deadline p
    using t by (subst telemetry_poll.simps) (simp add: telemetry_turn_def agent_demo_sends [OF refl] telemetry_message_def)
  moreover have "isOK (agent_url (\<lambda>_. None) agent_demo_settings (''v1/accesses/'' @ quote_strict ''a1'' @ ''/telemetry''))" "strip ''a1'' = ''a1''" by code_simp+
  moreover from this(1) obtain url where "agent_url (\<lambda>_. None) agent_demo_settings (''v1/accesses/'' @ quote_strict ''a1'' @ ''/telemetry'') = Inr url"
    unfolding isOK_iff by blast
  moreover obtain s' where "telemetry_poll agent_demo_world agent_demo_settings (telemetry_message agent_demo_settings url) ''a1'' True
      (round_double (aw_monotonic agent_demo_world [] + 5)) 1 [] = Some (s', Inr t)" using calculation(1) by blast
  ultimately obtain s' where r: "agent_get_telemetry (\<lambda>_. None) agent_demo_world agent_demo_settings ''a1'' True (PyFloat False 5) (PyFloat False 1) [] = Some (s', Inr t)"
    by (simp add: agent_get_telemetry_def validated_timing_seconds_def float_value_def)
  from telemetry_wait_fails_closed [OF r] r show ?thesis by blast
qed

text \<open>A Data Agent that never answers, in a world whose state is the time.\<close>

definition silent_world :: "rat agent_world" where
  "silent_world = \<lparr>aw_open = (\<lambda>rq now. (now + 1, ConnectionFails ''timed out'')), aw_open_artifact = (\<lambda>rq now. (now + 1, ConnectionFails ''timed out'')),
     aw_sleep = (\<lambda>t now. now + t), aw_elapsed_ms = (\<lambda>_ _. PyFloat False 1), aw_monotonic = id\<rparr>"

theorem telemetry_wait_ends_witness:
  "\<exists>s' r. agent_get_telemetry (\<lambda>_. None) silent_world agent_demo_settings ''a1'' True (PyFloat False 5) (PyFloat False 1) 0 = Some (s', r)"
proof -
  have "clock_advances silent_world" by (simp add: clock_advances_def silent_world_def)
  then show ?thesis by (rule telemetry_wait_ends)
qed

end
