(* ===== verification/Routing_Props.thy ===== *)
theory Routing_Props
  imports Routing Agent_Props
begin

text \<open>
  Properties of the endpoint registry and of the routed backend: a registry that is built routes every access to exactly one declared
  endpoint, an access and the redemption of its artifact reach that endpoint and no other, and what is published of a registry or an access
  holds no credential.
\<close>

section \<open>Registries\<close>

definition endpoint_ok :: "data_agent_endpoint \<Rightarrow> bool" where
  "endpoint_ok ep \<longleftrightarrow> ep_network_transport ep \<in> {''remote'', ''local''} \<and> float_value (ep_timeout_seconds ep) > 0 \<and> 0 \<le> ep_max_retries ep
     \<and> (ep_network_transport ep = ''local'' \<longrightarrow> ep_network_zero_justification ep \<noteq> None)"

definition registry_ok :: "endpoint_registry \<Rightarrow> bool" where
  "registry_ok rg \<longleftrightarrow> rg_endpoints rg \<noteq> [] \<and> distinct (map fst (rg_endpoints rg))
     \<and> list_all (\<lambda>(e, ep). ep_endpoint_id ep = e \<and> endpoint_ok ep) (rg_endpoints rg)
     \<and> distinct (map fst (rg_placement rg)) \<and> snd ` set (rg_placement rg) \<subseteq> fst ` set (rg_endpoints rg)
     \<and> set_option (rg_default_endpoint_id rg) \<subseteq> fst ` set (rg_endpoints rg)"

lemma positive_number_pos: "registry_positive_number v n = Inr f \<Longrightarrow> float_value f > 0"
  by (auto simp: registry_positive_number_def result_simps)

lemma nonnegative_integer_nonneg: "registry_nonnegative_integer v n = Inr i \<Longrightarrow> 0 \<le> i"
  by (auto simp: registry_nonnegative_integer_def result_simps split: json.splits)

lemma map_sum_Some: "map_sum id Some r = Inr j \<Longrightarrow> j \<noteq> None"
  by (cases r) auto

lemma parse_endpoint_ok:
  assumes "parse_endpoint name raw found = Inr ep"
  shows "ep_endpoint_id ep \<notin> fst ` set found \<and> endpoint_ok ep"
proof -
  obtain payload where payload: "registry_mapping raw name = Inr payload"
    using assms unfolding parse_endpoint_def bind_res_Inr_iff by blast
  obtain capabilities where caps: "dget_or payload ''telemetry_capabilities'' (JArr []) = JArr capabilities"
    and find: "find (\<lambda>f. f \<in> keys payload) forbidden_fields = None"
    using assms unfolding parse_endpoint_def payload bind_res_Inr
    by (cases "dget_or payload ''telemetry_capabilities'' (JArr [])"; cases "find (\<lambda>f. f \<in> keys payload) forbidden_fields")
      (simp_all only: result_simps json.case option.case, auto)
  obtain endpoint_id transport justification timeout retries where
      "endpoint_id \<notin> fst ` set found" "transport \<in> set NETWORK_TRANSPORTS"
      and just: "transport = ''local'' \<Longrightarrow> justification \<noteq> None"
      and "registry_positive_number (dget_or payload ''timeout_seconds'' (JFloat (PyFloat False 30))) (name @ ''.timeout_seconds'') = Inr timeout"
      "registry_nonnegative_integer (dget_or payload ''max_retries'' (JInt 1)) (name @ ''.max_retries'') = Inr retries"
      "ep_endpoint_id ep = endpoint_id" "ep_network_transport ep = transport" "ep_network_zero_justification ep = justification"
      "ep_timeout_seconds ep = timeout" "ep_max_retries ep = retries"
    using assms unfolding parse_endpoint_def payload caps find bind_res_Inr json.case option.case result_simps
    by (elim exE conjE) (simp only: sum.inject, metis data_agent_endpoint.select_convs map_sum_Some)
  then show ?thesis using positive_number_pos nonnegative_integer_nonneg
    by (auto simp: endpoint_ok_def NETWORK_TRANSPORTS_def)
qed


lemma endpoint_loop_ok:
  assumes "endpoint_loop i raws found = Inr eps" and "distinct (map fst found)"
    and "list_all (\<lambda>(e, ep). ep_endpoint_id ep = e \<and> endpoint_ok ep) found"
  shows "distinct (map fst eps) \<and> list_all (\<lambda>(e, ep). ep_endpoint_id ep = e \<and> endpoint_ok ep) eps
    \<and> length eps = length found + length raws"
  using assms
proof (induction i raws found rule: endpoint_loop.induct)
  case (2 i raw raws found)
  then obtain ep where ep: "parse_endpoint (indexed_name ''endpoints'' i) raw found = Inr ep"
    and rest: "endpoint_loop (i + 1) raws (found @ [(ep_endpoint_id ep, ep)]) = Inr eps"
    by (auto simp: bind_res_Inr_iff)
  show ?case using 2(1) [OF rest] parse_endpoint_ok [OF ep] 2(3,4) by auto
qed simp

lemma placement_loop_ok:
  assumes "placement_loop eps i raws found = Inr rules" and "distinct (map fst found)" and "snd ` set found \<subseteq> fst ` set eps"
  shows "distinct (map fst rules) \<and> snd ` set rules \<subseteq> fst ` set eps"
  using assms
proof (induction eps i raws found rule: placement_loop.induct)
  case (2 eps i raw raws found)
  from 2(2) obtain payload design_id representation_id endpoint_id where
      m: "registry_mapping raw (indexed_name ''placement'' i) = Inr payload"
        "required_string payload ''design_id'' (indexed_name ''placement'' i @ ''.design_id'') = Inr design_id"
        "registry_string (dget_or payload ''representation_id'' (JStr DEFAULT_ROUTE_KEY)) (indexed_name ''placement'' i @ ''.representation_id'') = Inr representation_id"
        "required_string payload ''endpoint_id'' (indexed_name ''placement'' i @ ''.endpoint_id'') = Inr endpoint_id"
      and ok: "endpoint_id \<in> fst ` set eps" "(design_id, representation_id) \<notin> fst ` set found"
      and rest: "placement_loop eps (i + 1) raws (found @ [((design_id, representation_id), endpoint_id)]) = Inr rules"
    by (simp only: placement_loop.simps Let_def result_simps) blast
  show ?case by (rule 2(1) [OF refl rest]) (use ok 2(3,4) in auto)
qed simp

lemma build_endpoint_registry_ok:
  assumes "build_endpoint_registry doc digest = Inr rg"
  shows "registry_ok rg"
proof -
  obtain raws eps rules where "raws \<noteq> []" and eps: "endpoint_loop 0 raws [] = Inr eps"
      and rules: "placement_loop eps 0 rules [] = Inr (rg_placement rg)"
      and default: "default_endpoint doc eps (rg_placement rg) = Inr (rg_default_endpoint_id rg)" and rg: "rg_endpoints rg = eps"
    using assms unfolding build_endpoint_registry_def result_simps
    by (elim exE conjE) (auto simp: result_simps split: json.splits)
  moreover have "set_option (rg_default_endpoint_id rg) \<subseteq> fst ` set eps" if "eps \<noteq> []"
    using default that by (force simp: default_endpoint_def result_simps split: if_splits)
  ultimately show ?thesis using endpoint_loop_ok [OF eps] placement_loop_ok [OF rules] by (force simp: registry_ok_def)
qed


lemma registry_ok_lookup:
  assumes "registry_ok rg" and "e \<in> fst ` set (rg_endpoints rg)"
  obtains ep where "map_of (rg_endpoints rg) e = Some ep" "ep_endpoint_id ep = e" "endpoint_ok ep"
  using assms by (auto simp: registry_ok_def list_all_iff)

lemma selected:
  "select_endpoint rg d r \<noteq> None \<longleftrightarrow>
    (d, r) \<in> fst ` set (rg_placement rg) \<or> (d, DEFAULT_ROUTE_KEY) \<in> fst ` set (rg_placement rg) \<or> rg_default_endpoint_id rg \<noteq> None"
proof -
  have "k \<in> fst ` set (rg_placement rg) \<longleftrightarrow> map_of (rg_placement rg) k \<noteq> None" for k unfolding map_of_eq_None_iff by blast
  then show ?thesis
    by (cases "map_of (rg_placement rg) (d, r)"; cases "map_of (rg_placement rg) (d, DEFAULT_ROUTE_KEY)"; cases "rg_default_endpoint_id rg")
      (simp_all add: select_endpoint_def)
qed

lemma select_endpoint_declared:
  assumes "registry_ok rg" and "select_endpoint rg d r = Some (e, rule)"
  shows "e \<in> fst ` set (rg_endpoints rg)"
proof -
  have "k \<in> set (rg_placement rg) \<Longrightarrow> snd k \<in> fst ` set (rg_endpoints rg)" for k using assms(1) unfolding registry_ok_def by blast
  then have "map_of (rg_placement rg) k = Some x \<Longrightarrow> x \<in> fst ` set (rg_endpoints rg)" for k x by (metis map_of_SomeD snd_conv)
  moreover have "rg_default_endpoint_id rg = Some x \<Longrightarrow> x \<in> fst ` set (rg_endpoints rg)" for x using assms(1) by (simp add: registry_ok_def)
  ultimately show ?thesis using assms(2)
    by (cases "map_of (rg_placement rg) (d, r)"; cases "map_of (rg_placement rg) (d, DEFAULT_ROUTE_KEY)") (auto simp: select_endpoint_def)
qed

text \<open>
  A registry that is built names every endpoint once, and every rule and default names a declared endpoint. Routing an
  access succeeds exactly if a rule of its design or the default selects an endpoint; the route then names that endpoint, which
  is declared, with its node and location, and the rule that selected it. An explicit rule for the representation is preferred
  over the rule for the design, and that over the default.
\<close>

theorem built_registry_routes:
  assumes "build_endpoint_registry doc digest = Inr rg"
  shows "registry_ok rg
    \<and> (registry_route rg d r = Inr route \<longleftrightarrow>
        (\<exists>e rule ep. select_endpoint rg d r = Some (e, rule) \<and> map_of (rg_endpoints rg) e = Some ep \<and> ep_endpoint_id ep = e
          \<and> route = \<lparr>rt_endpoint_id = e, rt_design_id = d, rt_representation_id = r, rt_source_node_id = ep_node_id ep,
                     rt_source_location = ep_location ep, rt_destination_execution_node_id = rg_execution_node_id rg, rt_rule = rule\<rparr>))
    \<and> (isOK (registry_route rg d r) \<longleftrightarrow>
        (d, r) \<in> fst ` set (rg_placement rg) \<or> (d, DEFAULT_ROUTE_KEY) \<in> fst ` set (rg_placement rg) \<or> rg_default_endpoint_id rg \<noteq> None)
    \<and> (((d, r), e) \<in> set (rg_placement rg) \<longrightarrow> select_endpoint rg d r = Some (e, ''explicit-design-representation''))"
proof (intro conjI impI)
  show ok: "registry_ok rg" by (rule build_endpoint_registry_ok [OF assms])
  have found: "\<exists>ep. map_of (rg_endpoints rg) e = Some ep \<and> ep_endpoint_id ep = e" if "select_endpoint rg d r = Some (e, rule)" for e rule
    using registry_ok_lookup [OF ok select_endpoint_declared [OF ok that]] by metis
  then show "registry_route rg d r = Inr route \<longleftrightarrow>
      (\<exists>e rule ep. select_endpoint rg d r = Some (e, rule) \<and> map_of (rg_endpoints rg) e = Some ep \<and> ep_endpoint_id ep = e
        \<and> route = \<lparr>rt_endpoint_id = e, rt_design_id = d, rt_representation_id = r, rt_source_node_id = ep_node_id ep,
                   rt_source_location = ep_location ep, rt_destination_execution_node_id = rg_execution_node_id rg, rt_rule = rule\<rparr>)"
    by (fastforce simp: registry_route_def registry_endpoint_def split: option.splits)
  have "isOK (registry_route rg d r) \<longleftrightarrow> select_endpoint rg d r \<noteq> None"
    using found by (fastforce simp: registry_route_def registry_endpoint_def split: option.splits)
  then show "isOK (registry_route rg d r) \<longleftrightarrow>
      (d, r) \<in> fst ` set (rg_placement rg) \<or> (d, DEFAULT_ROUTE_KEY) \<in> fst ` set (rg_placement rg) \<or> rg_default_endpoint_id rg \<noteq> None"
    by (simp only: selected)
  show "select_endpoint rg d r = Some (e, ''explicit-design-representation'')" if "((d, r), e) \<in> set (rg_placement rg)"
    using ok that by (simp add: registry_ok_def select_endpoint_def)
qed

section \<open>Routed accesses\<close>

lemma bind_clients_keys: "bind_clients rg timeout clients = Inr bound \<Longrightarrow> map fst bound = map fst clients \<and> list_all (\<lambda>(e, ec). ec_endpoint_id ec = e) bound"
  by (induction rg timeout clients arbitrary: bound rule: bind_clients.induct) (auto simp: result_simps)

lemma routed_backend_keys:
  assumes "RoutedDataAgentBackend rg clients timeout = Inr rb"
  shows "rb_registry rb = rg \<and> fst ` set (rb_endpoints rb) = fst ` set (rg_endpoints rg)
    \<and> list_all (\<lambda>(e, ec). ec_endpoint_id ec = e) (rb_endpoints rb)"
proof -
  obtain bound where b: "bind_clients rg timeout clients = Inr bound" "rb = \<lparr>rb_registry = rg, rb_endpoints = bound\<rparr>"
    and "filter (\<lambda>e. e \<notin> fst ` set clients) (endpoint_ids rg) = []" "sort (filter (\<lambda>e. e \<notin> set (endpoint_ids rg)) (map fst clients)) = []"
    using assms unfolding RoutedDataAgentBackend_def Let_def result_simps by auto
  then have "filter (\<lambda>e. e \<notin> set (endpoint_ids rg)) (map fst clients) = []" by (metis list.set_cases set_sort sort_key_simps(1) set_empty)
  then have "set (endpoint_ids rg) = fst ` set clients" using \<open>filter (\<lambda>e. e \<notin> fst ` set clients) (endpoint_ids rg) = []\<close>
    unfolding filter_empty_conv set_map by blast
  moreover have "set (endpoint_ids rg) = fst ` set (rg_endpoints rg)" by (simp add: endpoint_ids_def)
  moreover have "fst ` set bound = fst ` set clients" using bind_clients_keys [OF b(1)] by (metis list.set_map)
  ultimately show ?thesis using bind_clients_keys [OF b(1)] b(2) by simp
qed

lemma endpoint_for_declared:
  assumes "RoutedDataAgentBackend rg clients timeout = Inr rb"
  shows "isOK (endpoint_for rb e) \<longleftrightarrow> e \<in> fst ` set (rg_endpoints rg)"
    and "endpoint_for rb e = Inr ec \<Longrightarrow> ec_endpoint_id ec = e"
proof -
  note k = routed_backend_keys [OF assms]
  have "isOK (endpoint_for rb e) \<longleftrightarrow> map_of (rb_endpoints rb) e \<noteq> None" by (simp add: endpoint_for_def split: option.splits)
  then show "isOK (endpoint_for rb e) \<longleftrightarrow> e \<in> fst ` set (rg_endpoints rg)" using k by (simp only: map_of_eq_None_iff) simp
  show "endpoint_for rb e = Inr ec \<Longrightarrow> ec_endpoint_id ec = e"
    using k by (auto simp: endpoint_for_def list_all_iff dest!: map_of_SomeD split: option.splits)
qed


lemma resolve_route_cases:
  assumes "build_endpoint_registry doc digest = Inr rg" and "RoutedDataAgentBackend rg clients timeout = Inr rb"
  obtains (unrouted) m where "select_endpoint rg d r = None" "resolve_route rb d r = Inl (EndpointRoutingError m)"
  | (routed) e rule ep ec route where "select_endpoint rg d r = Some (e, rule)" "map_of (rg_endpoints rg) e = Some ep"
      "map_of (rb_endpoints rb) e = Some ec" "ec_endpoint_id ec = e" "resolve_route rb d r = Inr (route, ec)"
      "route = \<lparr>rt_endpoint_id = e, rt_design_id = d, rt_representation_id = r, rt_source_node_id = ep_node_id ep,
               rt_source_location = ep_location ep, rt_destination_execution_node_id = rg_execution_node_id rg, rt_rule = rule\<rparr>"
proof (cases "select_endpoint rg d r")
  case None
  then show ?thesis using unrouted routed_backend_keys [OF assms(2)] by (simp add: resolve_route_def registry_route_def)
next
  case (Some p)
  obtain e rule where p: "p = (e, rule)" by (cases p)
  note ok = build_endpoint_registry_ok [OF assms(1)]
  have declared: "e \<in> fst ` set (rg_endpoints rg)" using select_endpoint_declared [OF ok] Some p by blast
  obtain ep where ep: "map_of (rg_endpoints rg) e = Some ep" "ep_endpoint_id ep = e" by (rule registry_ok_lookup [OF ok declared])
  obtain ec where ec: "endpoint_for rb e = Inr ec" using endpoint_for_declared(1) [OF assms(2)] declared by (auto simp: isOK_iff)
  have "rb_registry rb = rg" using routed_backend_keys [OF assms(2)] by simp
  then show ?thesis using routed [of e rule ep ec] Some p ep ec endpoint_for_declared(2) [OF assms(2) ec]
    by (simp add: resolve_route_def registry_route_def registry_endpoint_def endpoint_for_def split: option.splits)
qed

text \<open>
  (C24) An access reaches the endpoint its route names and no other. Without a route nothing is contacted and the access fails as a routing
  error; otherwise one declared endpoint serves it, the state of every other endpoint is unchanged, the result is the one the backend of that
  endpoint gives, tagged with the endpoint, its node and location and the node of execution, and where the Data Agent does not answer the
  access fails as that endpoint being unreachable: there is no fallback.
\<close>

theorem routed_access_reaches_one_endpoint:
  assumes "build_endpoint_registry doc digest = Inr rg" and "RoutedDataAgentBackend rg clients timeout = Inr rb"
    and "routed_access uuid5 rb config session r i w = (w', result)"
  shows "case select_endpoint rg (gs_design_id session) r of
      None \<Rightarrow> w' = w \<and> (\<exists>m. result = Inl (EndpointRoutingError m))
    | Some (e, rule) \<Rightarrow>
        (\<exists>ep ec. map_of (rg_endpoints rg) e = Some ep \<and> map_of (rb_endpoints rb) e = Some ec \<and> (\<forall>e'. e' \<noteq> e \<longrightarrow> w' e' = w e')
          \<and> (case remote_access uuid5 (ec_client ec) config session r i (w e) of
               (s, Inl (AgentFailure (DataAgentUnavailableError _))) \<Rightarrow> w' e = s \<and> result = Inl (EndpointUnreachableError e)
             | (s, Inl other) \<Rightarrow> w' e = s \<and> result = Inl other
             | (s, Inr reply) \<Rightarrow> w' e = s \<and> result = Inr (reply\<lparr>br_endpoint_id := Some e, br_source_node_id := Some (ep_node_id ep),
                  br_source_location := Some (ep_location ep), br_destination_execution_node_id := Some (rg_execution_node_id rg)\<rparr>)))"
proof (rule resolve_route_cases [OF assms(1,2), of "gs_design_id session" r])
  fix e rule ep ec route
  assume "select_endpoint rg (gs_design_id session) r = Some (e, rule)" "map_of (rg_endpoints rg) e = Some ep"
    "map_of (rb_endpoints rb) e = Some ec" "ec_endpoint_id ec = e" "resolve_route rb (gs_design_id session) r = Inr (route, ec)"
    "route = \<lparr>rt_endpoint_id = e, rt_design_id = gs_design_id session, rt_representation_id = r, rt_source_node_id = ep_node_id ep,
             rt_source_location = ep_location ep, rt_destination_execution_node_id = rg_execution_node_id rg, rt_rule = rule\<rparr>"
  then show ?thesis using assms(3)
    by (auto simp: routed_access_def at_endpoint_def unreachable_def split: prod.splits sum.splits routing_error.splits agent_error.splits)
qed (use assms(3) in \<open>auto simp: routed_access_def\<close>)


section \<open>Artifacts\<close>

text \<open>
  (C25) An artifact is redeemed only where its handle was issued. Redeeming the artifact of an access event contacts no endpoint but the one the
  event names, returns bytes only if that is the endpoint the session's design routes to now, and fails as a cross-endpoint redemption, with
  nothing contacted, when the route leads elsewhere or the event names no endpoint.
\<close>

theorem artifact_redeemed_where_issued:
  assumes "build_endpoint_registry doc digest = Inr rg" and "RoutedDataAgentBackend rg clients timeout = Inr rb"
    and "routed_fetch_artifact uuid5 rb config session event w = (w', result)"
  shows "(ev_endpoint_id event \<noteq> Some e \<longrightarrow> w' e = w e)
    \<and> (isOK result \<longrightarrow> (\<exists>e rule. ev_endpoint_id event = Some e \<and> select_endpoint rg (gs_design_id session) (ev_representation_id event) = Some (e, rule)))
    \<and> (select_endpoint rg (gs_design_id session) (ev_representation_id event) = Some (e, rule) \<and> ev_endpoint_id event \<noteq> Some e
        \<longrightarrow> w' = w \<and> (\<exists>m. result = Inl (CrossEndpointArtifactError m)))"
proof (rule resolve_route_cases [OF assms(1,2), of "gs_design_id session" "ev_representation_id event"])
  fix e' rule' ep ec route
  assume "select_endpoint rg (gs_design_id session) (ev_representation_id event) = Some (e', rule')" "ec_endpoint_id ec = e'"
    "resolve_route rb (gs_design_id session) (ev_representation_id event) = Inr (route, ec)"
    "route = \<lparr>rt_endpoint_id = e', rt_design_id = gs_design_id session, rt_representation_id = ev_representation_id event,
       rt_source_node_id = ep_node_id ep, rt_source_location = ep_location ep,
       rt_destination_execution_node_id = rg_execution_node_id rg, rt_rule = rule'\<rparr>"
  then show ?thesis using assms(3)
    by (cases "ev_endpoint_id event")
      (auto simp: routed_fetch_artifact_def at_endpoint_def split: prod.splits if_splits)
qed (use assms(3) in \<open>auto simp: routed_fetch_artifact_def\<close>)

lemma remote_access_Inr:
  assumes "remote_access uuid5 cl config session r i s = (s', Inr reply)"
  obtains rq a where "build_access_request uuid5 config session r i = Inr rq" "ac_access cl rq s = (s', Inr a)"
    "br_data_agent_access_id reply = ar_access_id a"
  using assms by (auto simp: remote_access_def result_simps split: sum.splits prod.splits)

context answering_client
begin

text \<open>An access that is served, and the redemption of its artifact, carry the same request.\<close>

lemma redeems_its_access:
  assumes "remote_access uuid5 client config session r i s = (s', Inr reply)"
    and "ev_data_agent_access_id event = Some (br_data_agent_access_id reply)" "ev_representation_id event = r" "ev_event_index event = i"
  shows "\<exists>rq. build_access_request uuid5 config session r i = Inr rq
    \<and> remote_fetch_artifact uuid5 client config session event = (\<lambda>t. map_prod id (map_sum AgentFailure id) (ac_fetch_artifact client rq t))"
proof -
  obtain rq a where rq: "build_access_request uuid5 config session r i = Inr rq" "ac_access client rq s = (s', Inr a)"
    "br_data_agent_access_id reply = ar_access_id a" by (rule remote_access_Inr [OF assms(1)])
  then have "br_data_agent_access_id reply = rq_access_id rq" using answers [OF rq(2)] by simp
  then show ?thesis using assms(2-4) rq(1) by (auto simp: remote_fetch_artifact_def)
qed

end

lemma bind_clients_clients: "bind_clients rg timeout clients = Inr bound \<Longrightarrow> map (\<lambda>p. ec_client (snd p)) bound = map snd clients"
  by (induction rg timeout clients arbitrary: bound rule: bind_clients.induct) (auto simp: result_simps)

lemma endpoint_clients_made: "endpoint_clients settings factory rg es = Inr clients \<Longrightarrow> snd ` set clients \<subseteq> factory ` {st. \<exists>ep. settings ep = Inr st}"
  by (induction settings factory rg es arbitrary: clients rule: endpoint_clients.induct) (fastforce simp: result_simps)+

lemma routed_backend_for_made:
  assumes "routed_backend_for settings rg factory timeout = Inr rb"
  shows "\<exists>clients. RoutedDataAgentBackend rg clients timeout = Inr rb
    \<and> (\<forall>e ec. (e, ec) \<in> set (rb_endpoints rb) \<longrightarrow> (\<exists>ep st. settings ep = Inr st \<and> ec_client ec = factory st))"
proof -
  obtain clients where c: "endpoint_clients settings factory rg (endpoint_ids rg) = Inr clients" "RoutedDataAgentBackend rg clients timeout = Inr rb"
    using assms by (auto simp: routed_backend_for_def result_simps)
  then obtain bound where "bind_clients rg timeout clients = Inr bound" "rb_endpoints rb = bound"
    unfolding RoutedDataAgentBackend_def Let_def result_simps by auto
  then have same: "(\<lambda>p. ec_client (snd p)) ` set (rb_endpoints rb) = snd ` set clients" using bind_clients_clients by (metis list.set_map)
  have "\<exists>ep st. settings ep = Inr st \<and> ec_client ec = factory st" if "(e, ec) \<in> set (rb_endpoints rb)" for e ec
  proof -
    have "ec_client ec \<in> (\<lambda>p. ec_client (snd p)) ` set (rb_endpoints rb)" using that by (rule rev_image_eqI) simp
    then have "ec_client ec \<in> factory ` {st. \<exists>ep. settings ep = Inr st}" using same endpoint_clients_made [OF c(1)] by blast
    then show ?thesis by blast
  qed
  then show ?thesis using c(2) by blast
qed

text \<open>
  The artifact of a served access can be redeemed: in a backend built over the HTTP clients of the declared endpoints, whatever their
  networks do, the event recorded for a served access is redeemed at any later time at the endpoint that served it, with the very request of
  the access.
\<close>

theorem served_access_is_redeemable:
  assumes "build_endpoint_registry doc digest = Inr rg"
    and "routed_backend_for settings rg (\<lambda>st. HttpDataAgentClient H netloc_error (world st) st) timeout = Inr rb"
    and "routed_access uuid5 rb config session r i w = (w1, Inr result)"
  shows "\<exists>e ec rq. br_endpoint_id result = Some e \<and> map_of (rb_endpoints rb) e = Some ec \<and> build_access_request uuid5 config session r i = Inr rq
    \<and> (\<forall>w2. routed_fetch_artifact uuid5 rb config session
          \<lparr>ev_event_index = i, ev_representation_id = r, ev_data_agent_access_id = Some (br_data_agent_access_id result),
           ev_endpoint_id = br_endpoint_id result\<rparr> w2
        = at_endpoint ec (\<lambda>cl s. map_prod id (map_sum AgentFailure id) (ac_fetch_artifact cl rq s)) w2)"
proof -
  obtain clients where rb: "RoutedDataAgentBackend rg clients timeout = Inr rb"
    and http: "\<forall>e ec. (e, ec) \<in> set (rb_endpoints rb) \<longrightarrow> (\<exists>ep st. settings ep = Inr st \<and> ec_client ec = HttpDataAgentClient H netloc_error (world st) st)"
    using routed_backend_for_made [OF assms(2)] by blast
  show ?thesis
  proof (rule resolve_route_cases [OF assms(1) rb, of "gs_design_id session" r])
    fix e rule ep ec route
    assume sel: "map_of (rb_endpoints rb) e = Some ec" "ec_endpoint_id ec = e"
      "resolve_route rb (gs_design_id session) r = Inr (route, ec)"
      "route = \<lparr>rt_endpoint_id = e, rt_design_id = gs_design_id session, rt_representation_id = r, rt_source_node_id = ep_node_id ep,
               rt_source_location = ep_location ep, rt_destination_execution_node_id = rg_execution_node_id rg, rt_rule = rule\<rparr>"
    then obtain s' reply where reply: "remote_access uuid5 (ec_client ec) config session r i (w e) = (s', Inr reply)"
      and result: "br_endpoint_id result = Some e" "br_data_agent_access_id result = br_data_agent_access_id reply"
      using assms(3) by (auto simp: routed_access_def at_endpoint_def map_sum_Inr_iff split: prod.splits)
    obtain st where st: "ec_client ec = HttpDataAgentClient H netloc_error (world st) st" using http map_of_SomeD [OF sel(1)] by blast
    let ?event = "\<lparr>ev_event_index = i, ev_representation_id = r, ev_data_agent_access_id = Some (br_data_agent_access_id result), ev_endpoint_id = Some e\<rparr>"
    obtain rq where "build_access_request uuid5 config session r i = Inr rq"
      "remote_fetch_artifact uuid5 (ec_client ec) config session ?event = (\<lambda>t. map_prod id (map_sum AgentFailure id) (ac_fetch_artifact (ec_client ec) rq t))"
      using http.redeems_its_access [OF reply [unfolded st], of ?event] result(2) st by auto
    then show ?thesis using sel result(1) by (auto simp: routed_fetch_artifact_def at_endpoint_def)
  qed (use assms(3) in \<open>simp add: routed_access_def\<close>)
qed

text \<open>
  The signed URL of an artifact stays inside the backend: two Data Agents that answer the request of an access alike but for the URL of the
  artifact give the Agent the same result.
\<close>

theorem signed_urls_stay_inside:
  assumes "build_access_request uuid5 config session r i = Inr rq" and "ac_access cl rq s = (s', Inr a)"
    and "pl_kind (ar_payload a) = ''artifact_uri''" and "ac_access cl' rq s = (s', Inr (a\<lparr>ar_payload := (ar_payload a)\<lparr>pl_value := JStr url\<rparr>\<rparr>))"
  shows "remote_access uuid5 cl config session r i s = remote_access uuid5 cl' config session r i s \<and> isOK (snd (remote_access uuid5 cl config session r i s))"
  using assms by (cases "ar_client_round_trip_ms a") (simp_all add: remote_access_def agent_view_def observed_latency_ms_def)


section \<open>Publication\<close>

lemma urlsplit_https:
  assumes "list_all visible (netloc @ tail)" and "list_all (\<lambda>c. \<not> netloc_end c \<and> c \<notin> {CHR ''['', CHR '']''}) netloc"
    and "tail = [] \<or> netloc_end (hd tail)" and "netloc_error netloc = None"
  shows "\<exists>u. urlsplit netloc_error (''https://'' @ netloc @ tail) = Inr u \<and> u_scheme u = ''https'' \<and> u_netloc u = netloc"
proof -
  note https = http_scheme [of "''https''", simplified]
  have "filter (\<lambda>c. c \<notin> {CHR 0x09, CHR 0x0A, CHR 0x0D}) (netloc @ tail) = netloc @ tail"
  proof (rule filter_True, rule ballI)
    fix c
    assume "c \<in> set (netloc @ tail)"
    then have "33 \<le> ord c" using assms(1) unfolding list_all_iff visible_def by blast
    then show "c \<notin> {CHR 0x09, CHR 0x0A, CHR 0x0D}" by (auto simp: ord_def)
  qed
  then have "clean_url (''https://'' @ netloc @ tail) = ''https'' @ ''://'' @ netloc @ tail" by (simp add: clean_url_def ord_def)
  moreover have "absolute_url netloc_error ''https'' netloc tail" using assms(2-4) https by (auto simp: absolute_url_def list_all_iff)
  ultimately show ?thesis using urlsplit_absolute [of netloc_error "''https''" netloc tail] https by simp
qed

lemma rpartition_credentials: "user = [] \<or> last user = c \<Longrightarrow> snd (rpartition_at c (user @ host)) = snd (rpartition_at c host)"
proof (cases user rule: rev_cases)
  case (snoc xs x)
  have "takeWhile (\<lambda>y. y \<noteq> c) (zs @ c # ys) = takeWhile (\<lambda>y. y \<noteq> c) zs" for zs ys by (induction zs) auto
  moreover assume "user = [] \<or> last user = c"
  ultimately show ?thesis using snoc by (simp add: rpartition_at_def partition_at_def)
qed simp

text \<open>What a URL may add to \<open>https://host\<close>: user info that ends in \<open>@\<close>, and a path, query or fragment.\<close>

definition url_secrets :: "(string \<Rightarrow> string option) \<Rightarrow> string \<Rightarrow> string \<Rightarrow> string \<Rightarrow> bool" where
  "url_secrets netloc_error user host tail \<longleftrightarrow> (user = [] \<or> last user = CHR ''@'') \<and> (tail = [] \<or> netloc_end (hd tail))
     \<and> list_all visible (user @ host @ tail) \<and> list_all (\<lambda>c. \<not> netloc_end c \<and> c \<notin> {CHR ''['', CHR '']''}) (user @ host)
     \<and> netloc_error (user @ host) = None \<and> netloc_error host = None"

lemma strip_https: "list_all visible s \<Longrightarrow> strip (''https://'' @ s) = ''https://'' @ s"
  by (rule strip_all_visible) (simp_all add: visible_def ord_def)

lemma strip_secrets:
  assumes "url_secrets netloc_error user host tail"
  shows "strip (''https://'' @ user @ host @ tail) = ''https://'' @ user @ host @ tail" and "strip (''https://'' @ host) = ''https://'' @ host"
  using strip_https [of "user @ host @ tail"] strip_https [of host] assms unfolding url_secrets_def list_all_append by blast+

lemma sanitize_endpoint_secrets:
  assumes "url_secrets netloc_error user host tail"
  shows "sanitize_endpoint netloc_error (''https://'' @ user @ host @ tail) = sanitize_endpoint netloc_error (''https://'' @ host)"
proof -
  obtain u where u: "urlsplit netloc_error (''https://'' @ (user @ host) @ tail) = Inr u" "u_scheme u = ''https''" "u_netloc u = user @ host"
    using urlsplit_https [of "user @ host" tail netloc_error] assms unfolding url_secrets_def by auto
  obtain v where v: "urlsplit netloc_error (''https://'' @ host @ []) = Inr v" "u_scheme v = ''https''" "u_netloc v = host"
    using urlsplit_https [of host "[]" netloc_error] assms unfolding url_secrets_def by auto
  have "snd (rpartition_at CHR ''@'' (user @ host)) = snd (rpartition_at CHR ''@'' host)"
    using assms unfolding url_secrets_def by (intro rpartition_credentials) simp
  then have "url_hostname u = url_hostname v" "url_port u = url_port v" using u(3) v(3) by (simp_all add: url_hostname_def url_port_def)
  then show ?thesis using u(2) v(2) unfolding sanitize_endpoint_def strip_secrets [OF assms] u(1) [unfolded append_assoc] v(1) [unfolded append_Nil2] sum.case
    by (simp only:)
qed

text \<open>
  What is published of a registry tells nothing of a credential. Take an environment in which the URL of every endpoint carries user
  info, a path, a query or a fragment, and another in which it is the bare \<open>https://host\<close>, and let the tokens of the two be any, as long
  as the same endpoints have one: the published registries are equal.
\<close>

theorem published_registry_hides_credentials:
  assumes "\<forall>(e, ep) \<in> set (rg_endpoints rg). \<exists>user host tail. url_secrets netloc_error user host tail
      \<and> env (ep_base_url_env ep) = Some (''https://'' @ user @ host @ tail) \<and> env' (ep_base_url_env ep) = Some (''https://'' @ host)
      \<and> (resolve_token env ep = None \<longleftrightarrow> resolve_token env' ep = None)"
  shows "registry_public_dict netloc_error H env rg = registry_public_dict netloc_error H env' rg"
proof -
  have "endpoint_public_dict netloc_error H env ep = endpoint_public_dict netloc_error H env' ep" if e: "(e, ep) \<in> set (rg_endpoints rg)" for e ep
  proof -
    obtain user host tail where s: "url_secrets netloc_error user host tail"
      and env: "env (ep_base_url_env ep) = Some (''https://'' @ user @ host @ tail)" "env' (ep_base_url_env ep) = Some (''https://'' @ host)"
      and token: "resolve_token env ep = None \<longleftrightarrow> resolve_token env' ep = None"
      using assms e by fastforce
    show ?thesis unfolding token endpoint_public_dict_def endpoint_fingerprint_def env text_or_empty_def option.case strip_secrets [OF s] Let_def
        sanitize_endpoint_secrets [OF s] by simp
  qed
  then have same: "map_option (\<lambda>ep. JObj (endpoint_public_dict netloc_error H env ep)) (map_of (rg_endpoints rg) e)
      = map_option (\<lambda>ep. JObj (endpoint_public_dict netloc_error H env' ep)) (map_of (rg_endpoints rg) e)" for e
    by (cases "map_of (rg_endpoints rg) e") (auto dest: map_of_SomeD)
  show ?thesis unfolding registry_public_dict_def same ..
qed


section \<open>A deployment\<close>

definition demo_endpoint_doc :: "string \<Rightarrow> string \<Rightarrow> dict \<Rightarrow> json" where
  "demo_endpoint_doc e env rest = JObj ([(''endpoint_id'', JStr e), (''node_id'', JStr (''node-'' @ e)), (''location'', JStr e), (''base_url_env'', JStr env)] @ rest)"

definition demo_registry_doc :: dict where
  "demo_registry_doc =
     [(''schema_version'', JStr ENDPOINT_REGISTRY_SCHEMA_VERSION), (''registry_id'', JStr ''r''), (''execution_node_id'', JStr ''n7''),
      (''endpoints'', JArr [demo_endpoint_doc ''origin'' ''ORIGIN_URL'' [(''token_env'', JStr ''ORIGIN_TOKEN''), (''timeout_seconds'', JInt 5)],
         demo_endpoint_doc ''local'' ''LOCAL_URL'' [(''network_transport'', JStr ''local''), (''network_zero_justification'', JStr ''same host'')]]),
      (''placement'', JArr [JObj [(''design_id'', JStr ''d1''), (''endpoint_id'', JStr ''origin'')],
         JObj [(''design_id'', JStr ''d1''), (''representation_id'', JStr ''raw''), (''endpoint_id'', JStr ''local'')]])]"

definition demo_registry :: endpoint_registry where
  "demo_registry = (case build_endpoint_registry demo_registry_doc ''abc'' of Inr rg \<Rightarrow> rg | Inl _ \<Rightarrow> undefined)"

text \<open>A Data Agent that counts its calls and answers every access with an artifact.\<close>

definition demo_agent :: "string \<Rightarrow> nat agent_client" where
  "demo_agent url =
     \<lparr>ac_access = (\<lambda>rq n. (Suc n, Inr \<lparr>ar_access_id = rq_access_id rq,
         ar_payload = \<lparr>pl_kind = ''artifact_uri'', pl_media_type = ''video/mp4'', pl_value = JStr url, pl_sha256 = None\<rparr>,
         ar_service_latency_ms = PyFloat False 3, ar_realized_cost = PyFloat False 1, ar_bytes_read = 4, ar_location = ''x'', ar_cache_hit = None,
         ar_timings_ms = [], ar_client_round_trip_ms = None, ar_object_id = None, ar_object_catalog_version = None\<rparr>)),
      ac_get_access_telemetry = (\<lambda>a wait timeout n. None),
      ac_fetch_artifact = (\<lambda>rq n. (Suc n, Inr \<lparr>fa_access_id = rq_access_id rq, fa_media_type = ''text/plain'', fa_content = JStr ''data'',
         fa_size_bytes = 4, fa_sha256 = ''abc''\<rparr>))\<rparr>"

definition demo_clients :: "(string \<times> nat agent_client) list" where
  "demo_clients = [(''origin'', demo_agent ''https://o/?sig=1''), (''local'', demo_agent ''https://l/?sig=2'')]"

definition demo_backend :: "nat routed_backend" where
  "demo_backend = (case RoutedDataAgentBackend demo_registry demo_clients (PyFloat False 5) of Inr rb \<Rightarrow> rb | Inl _ \<Rightarrow> undefined)"

definition demo_session :: gateway_session where
  "demo_session = \<lparr>gs_session_id = ''s'', gs_trial_id = ''t'', gs_design_id = ''d1'', gs_task_class_id = ''c'',
     gs_latency_multiplier = JFloat (PyFloat False 1), gs_object_id = None\<rparr>"

definition demo_access_config :: access_config where
  "demo_access_config = \<lparr>cf_paths = [(''d1'', [(''raw'', ''local''), (''low'', ''origin'')])], cf_sizes = [(''raw'', 4), (''low'', 2)]\<rparr>"

lemma demo_registry_built: "build_endpoint_registry demo_registry_doc ''abc'' = Inr demo_registry"
proof -
  have "isOK (build_endpoint_registry demo_registry_doc ''abc'')" by code_simp
  then show ?thesis unfolding demo_registry_def by (auto simp: isOK_iff)
qed

lemma demo_backend_built: "RoutedDataAgentBackend demo_registry demo_clients (PyFloat False 5) = Inr demo_backend"
proof -
  have "isOK (RoutedDataAgentBackend demo_registry demo_clients (PyFloat False 5))" by code_simp
  then show ?thesis unfolding demo_backend_def by (auto simp: isOK_iff)
qed


lemma demo_routes:
  "select_endpoint demo_registry ''d1'' ''raw'' = Some (''local'', ''explicit-design-representation'')"
  "select_endpoint demo_registry ''d1'' ''low'' = Some (''origin'', ''explicit-design-default'')"
  by code_simp+

theorem built_registry_routes_witness:
  "registry_ok demo_registry \<and> isOK (registry_route demo_registry ''d1'' ''low'') \<and> \<not> isOK (registry_route demo_registry ''d2'' ''raw'')"
proof -
  have "(''d1'', DEFAULT_ROUTE_KEY) \<in> fst ` set (rg_placement demo_registry)" "(''d2'', ''raw'') \<notin> fst ` set (rg_placement demo_registry)"
    "(''d2'', DEFAULT_ROUTE_KEY) \<notin> fst ` set (rg_placement demo_registry)" "rg_default_endpoint_id demo_registry = None" by code_simp+
  then show ?thesis
    using built_registry_routes [OF demo_registry_built, of "''d1''" "''low''"] built_registry_routes [OF demo_registry_built, of "''d2''" "''raw''"] by blast
qed

theorem routed_access_reaches_one_endpoint_witness:
  "fst (routed_access id demo_backend demo_access_config demo_session ''raw'' 0 (\<lambda>_. 0)) ''origin'' = 0
    \<and> fst (routed_access id demo_backend demo_access_config demo_session ''raw'' 0 (\<lambda>_. 0)) ''local'' = 1"
proof -
  obtain w' result where r: "routed_access id demo_backend demo_access_config demo_session ''raw'' 0 (\<lambda>_. 0) = (w', result)" by fastforce
  have "gs_design_id demo_session = ''d1''" by (simp add: demo_session_def)
  then have "w' ''origin'' = 0" using routed_access_reaches_one_endpoint [OF demo_registry_built demo_backend_built r]
    by (simp add: demo_routes, elim exE conjE, simp)
  moreover have "fst (routed_access id demo_backend demo_access_config demo_session ''raw'' 0 (\<lambda>_. 0)) ''local'' = 1" by code_simp
  ultimately show ?thesis using r by simp
qed

definition demo_event :: "string option \<Rightarrow> access_event" where
  "demo_event e = \<lparr>ev_event_index = 0, ev_representation_id = ''raw'', ev_data_agent_access_id = Some ''pathfinder-access:s:0:raw'', ev_endpoint_id = e\<rparr>"

theorem artifact_redeemed_where_issued_witness:
  "\<not> isOK (snd (routed_fetch_artifact id demo_backend demo_access_config demo_session (demo_event (Some ''origin'')) (\<lambda>_. 0)))
    \<and> fst (routed_fetch_artifact id demo_backend demo_access_config demo_session (demo_event (Some ''origin'')) (\<lambda>_. 0)) = (\<lambda>_. 0)
    \<and> isOK (snd (routed_fetch_artifact id demo_backend demo_access_config demo_session (demo_event (Some ''local'')) (\<lambda>_. 0)))"
proof -
  obtain w' result where r: "routed_fetch_artifact id demo_backend demo_access_config demo_session (demo_event (Some ''origin'')) (\<lambda>_. 0) = (w', result)"
    by fastforce
  have "gs_design_id demo_session = ''d1''" "ev_representation_id (demo_event e) = ''raw''" "ev_endpoint_id (demo_event e) = e" for e
    by (simp_all add: demo_session_def demo_event_def)
  then have "w' = (\<lambda>_. 0) \<and> \<not> isOK result"
    using artifact_redeemed_where_issued [OF demo_registry_built demo_backend_built r, of "''local''"] by (auto simp: demo_routes)
  moreover have "isOK (snd (routed_fetch_artifact id demo_backend demo_access_config demo_session (demo_event (Some ''local'')) (\<lambda>_. 0)))" by code_simp
  ultimately show ?thesis using r by simp
qed

text \<open>The same deployment over the HTTP client, with a Data Agent that answers every request with \<open>demo_answer\<close>.\<close>

definition demo_document :: dict where
  "demo_document =
     [(''access_id'', JStr ''pathfinder-access:s:0:raw''), (''api_version'', JStr DATA_AGENT_API_VERSION),
      (''payload'', JObj [(''kind'', JStr ''artifact_uri''), (''media_type'', JStr ''text/plain''),
         (''value'', JStr ''https://agent/v1/artifacts/pathfinder-access%3As%3A0%3Araw'')]),
      (''status'', JStr ''succeeded''),
      (''telemetry'', JObj [(''bytes_read'', JInt 4), (''location'', JStr ''local''), (''realized_cost'', JInt 1), (''service_latency_ms'', JInt 3)])]"

definition demo_answer :: bytes where
  "demo_answer = dumps (JObj demo_document) @ [CHR 0x0A]"

definition demo_world :: "nat agent_world" where
  "demo_world = \<lparr>aw_open = (\<lambda>rq n. (Suc n, Response 200 [] demo_answer)), aw_open_artifact = (\<lambda>rq n. (Suc n, ConnectionFails ''refused'')),
     aw_sleep = (\<lambda>_ n. n), aw_elapsed_ms = (\<lambda>_ _. PyFloat False 1), aw_monotonic = of_nat\<rparr>"

definition demo_endpoint_settings :: "data_agent_endpoint \<Rightarrow> agent_settings setup_result" where
  "demo_endpoint_settings ep = Inr (default_settings ''https://agent'' None (ep_timeout_seconds ep) (ep_max_retries ep))"

definition demo_http_backend :: "nat routed_backend" where
  "demo_http_backend =
     (case routed_backend_for demo_endpoint_settings demo_registry (\<lambda>st. HttpDataAgentClient id (\<lambda>_. None) demo_world st) (PyFloat False 5) of
        Inr rb \<Rightarrow> rb | Inl _ \<Rightarrow> undefined)"

lemma demo_http_backend_built:
  "routed_backend_for demo_endpoint_settings demo_registry (\<lambda>st. HttpDataAgentClient id (\<lambda>_. None) demo_world st) (PyFloat False 5) = Inr demo_http_backend"
proof -
  have "isOK (routed_backend_for demo_endpoint_settings demo_registry (\<lambda>st. HttpDataAgentClient id (\<lambda>_. None) demo_world st) (PyFloat False 5))" by code_simp
  then show ?thesis unfolding demo_http_backend_def by (auto simp: isOK_iff)
qed

lemma demo_answer_read: "plain_loads_bytes demo_answer = Inr (JObj demo_document)"
proof -
  have "wf_json (JObj demo_document)" "utf8_json (JObj demo_document)" "sort_keys (JObj demo_document) = JObj demo_document" by code_simp+
  then show ?thesis unfolding demo_answer_def by (metis plain_loads_line)
qed

lemma demo_access_served:
  assumes "demo_endpoint_settings ep = Inr st" and "rq_access_id rq = ''pathfinder-access:s:0:raw''"
  shows "\<exists>s' a. agent_access id (\<lambda>_. None) demo_world st rq s = (s', Inr a) \<and> pl_kind (ar_payload a) = ''artifact_uri''"
proof -
  have "length demo_answer \<le> 1000" by code_simp
  then have send: "send_once demo_world st message n = (Suc n, Inr demo_document)" for message n
    using assms(1) by (auto simp: send_once_def demo_world_def demo_endpoint_settings_def default_settings_def demo_answer_read agent_object_def)
  have "send_attempts demo_world st message k l n = (Suc n, Inr demo_document)" for message k l n by (cases l) (simp_all add: send)
  then have sent: "send_with_retries demo_world st message n = (Suc n, Inr demo_document)" for message n by (simp add: send_with_retries_def)
  have "case result_from_dict id demo_document of Inr a \<Rightarrow> ar_access_id a = ''pathfinder-access:s:0:raw'' \<and> pl_kind (ar_payload a) = ''artifact_uri'' | Inl _ \<Rightarrow> False"
    by code_simp
  moreover obtain url where "agent_url (\<lambda>_. None) st ''v1/access'' = Inr url"
  proof -
    have "isOK (urljoin (\<lambda>_. None) ''https://agent/'' ''v1/access'')" "rstrip_char CHR ''/'' ''https://agent'' = ''https://agent''" by code_simp+
    then show ?thesis using that assms(1) by (auto simp: agent_url_def demo_endpoint_settings_def default_settings_def lift_url_def isOK_iff)
  qed
  ultimately show ?thesis using assms sent
    by (cases "result_from_dict id demo_document") (simp_all add: agent_access_def)
qed

theorem served_access_is_redeemable_witness:
  "\<exists>w1 result. routed_access id demo_http_backend demo_access_config demo_session ''raw'' 0 (\<lambda>_. 0) = (w1, Inr result)
    \<and> (\<exists>e ec. br_endpoint_id result = Some e \<and> map_of (rb_endpoints demo_http_backend) e = Some ec)"
proof -
  let ?http = "\<lambda>st. HttpDataAgentClient id (\<lambda>_. None) demo_world st"
  obtain clients where rb: "RoutedDataAgentBackend demo_registry clients (PyFloat False 5) = Inr demo_http_backend"
    and http: "\<forall>e ec. (e, ec) \<in> set (rb_endpoints demo_http_backend) \<longrightarrow> (\<exists>ep st. demo_endpoint_settings ep = Inr st \<and> ec_client ec = ?http st)"
    using routed_backend_for_made [OF demo_http_backend_built] by blast
  obtain route ec where route: "resolve_route demo_http_backend ''d1'' ''raw'' = Inr (route, ec)" and ec: "(''local'', ec) \<in> set (rb_endpoints demo_http_backend)"
    by (rule resolve_route_cases [OF demo_registry_built rb, of "''d1''" "''raw''"]) (auto simp: demo_routes dest: map_of_SomeD)
  obtain ep st where st: "demo_endpoint_settings ep = Inr st" "ec_client ec = ?http st" using http ec by blast
  have "case build_access_request id demo_access_config demo_session ''raw'' 0 of Inr rq \<Rightarrow> rq_access_id rq = ''pathfinder-access:s:0:raw'' | Inl _ \<Rightarrow> False"
    by code_simp
  then obtain rq where rq: "build_access_request id demo_access_config demo_session ''raw'' 0 = Inr rq" "rq_access_id rq = ''pathfinder-access:s:0:raw''"
    by (auto split: sum.splits)
  obtain s' a where a: "agent_access id (\<lambda>_. None) demo_world st rq 0 = (s', Inr a)" "pl_kind (ar_payload a) = ''artifact_uri''"
    using demo_access_served [OF st(1) rq(2)] by blast
  then obtain w1 result where r: "routed_access id demo_http_backend demo_access_config demo_session ''raw'' 0 (\<lambda>_. 0) = (w1, Inr result)"
    using route rq(1) st(2)
    by (auto simp: routed_access_def at_endpoint_def remote_access_def HttpDataAgentClient_def agent_view_def demo_session_def)
  from served_access_is_redeemable [OF demo_registry_built demo_http_backend_built r] r show ?thesis by blast
qed

theorem signed_urls_stay_inside_witness:
  "remote_access id (demo_agent ''https://o/?sig=1'') demo_access_config demo_session ''raw'' 0 0
    = remote_access id (demo_agent ''https://o/?sig=2'') demo_access_config demo_session ''raw'' 0 0"
proof -
  have "isOK (build_access_request id demo_access_config demo_session ''raw'' 0)" by code_simp
  then obtain rq where "build_access_request id demo_access_config demo_session ''raw'' 0 = Inr rq" by (auto simp: isOK_iff)
  from signed_urls_stay_inside [OF this, of "demo_agent ''https://o/?sig=1''" 0 _ _ "demo_agent ''https://o/?sig=2''" "''https://o/?sig=2''"]
  show ?thesis by (simp add: demo_agent_def)
qed

definition demo_environment :: "string \<Rightarrow> string \<Rightarrow> string \<Rightarrow> string \<Rightarrow> string option" where
  "demo_environment user tail token name =
     (if name \<in> {''ORIGIN_URL'', ''LOCAL_URL''} then Some (''https://'' @ user @ ''agent:8443'' @ tail)
      else if name = ''ORIGIN_TOKEN'' then Some token else None)"

theorem published_registry_hides_credentials_witness:
  "registry_public_dict (\<lambda>_. None) id (demo_environment ''u:pw@'' ''/p?sig=1'' ''secret'') demo_registry
    = registry_public_dict (\<lambda>_. None) id (demo_environment [] [] ''other'') demo_registry"
proof (rule published_registry_hides_credentials, intro ballI, clarify)
  fix e ep
  assume ep: "(e, ep) \<in> set (rg_endpoints demo_registry)"
  have "list_all (\<lambda>(e, ep). ep_base_url_env ep \<in> {''ORIGIN_URL'', ''LOCAL_URL''} \<and> ep_token_env ep \<in> {None, Some ''ORIGIN_TOKEN''}) (rg_endpoints demo_registry)"
    by code_simp
  then have "ep_base_url_env ep \<in> {''ORIGIN_URL'', ''LOCAL_URL''}" "ep_token_env ep \<in> {None, Some ''ORIGIN_TOKEN''}" using ep by (auto simp: list_all_iff)
  moreover have "url_secrets (\<lambda>_. None) ''u:pw@'' ''agent:8443'' ''/p?sig=1''" by code_simp
  ultimately show "\<exists>user host tail. url_secrets (\<lambda>_. None) user host tail
      \<and> demo_environment ''u:pw@'' ''/p?sig=1'' ''secret'' (ep_base_url_env ep) = Some (''https://'' @ user @ host @ tail)
      \<and> demo_environment [] [] ''other'' (ep_base_url_env ep) = Some (''https://'' @ host)
      \<and> (resolve_token (demo_environment ''u:pw@'' ''/p?sig=1'' ''secret'') ep = None \<longleftrightarrow> resolve_token (demo_environment [] [] ''other'') ep = None)"
    by (intro exI [of _ "''u:pw@''"] exI [of _ "''agent:8443''"] exI [of _ "''/p?sig=1''"])
      (auto simp: demo_environment_def resolve_token_def)
qed

end
