(* ===== verification/Agent_Locks.thy ===== *)
theory Agent_Locks
  imports Prelude "HOL-Library.Multiset"
begin

text \<open>
  The lock pool of the Data Agent server (\<open>_AccessLockPool\<close> in \<open>pathfinder/data_agent_server.py\<close>), which serialises the accesses of one
  identifier and creates and drops its locks on the way. \<open>lp_entries\<close> is the dictionary from identifiers to entries; an entry is an
  object, named by a number, with its count of references in \<open>lp_references\<close> and its lock, which is held if it is in \<open>lp_held\<close>. A thread
  registers with an entry under the guard of the pool, waits for its lock, runs its body, releases the lock and deregisters under
  the guard. Each of these is one step of the relation \<open>pool_step\<close>; the steps of different threads interleave freely.
\<close>

record lock_pool =
  lp_entries :: "(string \<times> nat) list"
  lp_references :: "nat \<Rightarrow> int"
  lp_held :: "nat set"
  lp_next :: nat

definition AccessLockPool :: lock_pool where
  "AccessLockPool = \<lparr>lp_entries = [], lp_references = (\<lambda>_. 0), lp_held = {}, lp_next = 0\<rparr>"

text \<open>The first critical section of \<open>acquire\<close>, with the entry it finds or makes.\<close>

definition pool_register :: "string \<Rightarrow> lock_pool \<Rightarrow> lock_pool \<times> nat" where
  "pool_register access_id p =
     (case map_of (lp_entries p) access_id of
        Some e \<Rightarrow> (p\<lparr>lp_references := (lp_references p)(e := lp_references p e + 1)\<rparr>, e)
      | None \<Rightarrow>
          (p\<lparr>lp_entries := dict_set (lp_entries p) access_id (lp_next p),
             lp_references := (lp_references p)(lp_next p := 0 + 1), lp_next := Suc (lp_next p)\<rparr>, lp_next p))"

definition pool_lock :: "nat \<Rightarrow> lock_pool \<Rightarrow> lock_pool option" where
  "pool_lock e p = (if e \<in> lp_held p then None else Some (p\<lparr>lp_held := insert e (lp_held p)\<rparr>))"

definition pool_unlock :: "nat \<Rightarrow> lock_pool \<Rightarrow> lock_pool" where
  "pool_unlock e p = p\<lparr>lp_held := lp_held p - {e}\<rparr>"

definition pool_deregister :: "string \<Rightarrow> nat \<Rightarrow> lock_pool \<Rightarrow> lock_pool" where
  "pool_deregister access_id e p =
     (let references = lp_references p e - 1
      in p\<lparr>lp_references := (lp_references p)(e := references),
           lp_entries := (if references = 0 then dict_del (lp_entries p) access_id else lp_entries p)\<rparr>)"

section \<open>Threads\<close>

datatype lock_thread = Waiting string nat | Inside string nat | Leaving string nat

primrec thread_entry :: "lock_thread \<Rightarrow> string \<times> nat" where
  "thread_entry (Waiting a e) = (a, e)"
| "thread_entry (Inside a e) = (a, e)"
| "thread_entry (Leaving a e) = (a, e)"

fun is_inside :: "lock_thread \<Rightarrow> bool" where
  "is_inside (Inside a e) = True"
| "is_inside _ = False"

inductive pool_step :: "lock_pool \<times> lock_thread multiset \<Rightarrow> lock_pool \<times> lock_thread multiset \<Rightarrow> bool" where
  register: "pool_register a p = (p', e) \<Longrightarrow> pool_step (p, T) (p', add_mset (Waiting a e) T)"
| lock: "pool_lock e p = Some p' \<Longrightarrow> pool_step (p, add_mset (Waiting a e) T) (p', add_mset (Inside a e) T)"
| unlock: "pool_step (p, add_mset (Inside a e) T) (pool_unlock e p, add_mset (Leaving a e) T)"
| deregister: "pool_step (p, add_mset (Leaving a e) T) (pool_deregister a e p, T)"

inductive_cases pool_stepE: "pool_step s s'"

definition pool_reachable :: "lock_pool \<times> lock_thread multiset \<Rightarrow> bool" where
  "pool_reachable s \<longleftrightarrow> pool_step\<^sup>*\<^sup>* (AccessLockPool, {#}) s"

section \<open>The invariant\<close>

definition referring :: "nat \<Rightarrow> lock_thread multiset \<Rightarrow> nat" where
  "referring e T = size (filter_mset (\<lambda>t. snd (thread_entry t) = e) T)"

definition holding :: "nat \<Rightarrow> lock_thread multiset \<Rightarrow> nat" where
  "holding e T = size (filter_mset (\<lambda>t. is_inside t \<and> snd (thread_entry t) = e) T)"

lemma referring_simps [simp]:
  "referring e {#} = 0" "referring e (add_mset t T) = (if snd (thread_entry t) = e then Suc (referring e T) else referring e T)"
  by (simp_all add: referring_def)

lemma holding_simps [simp]:
  "holding e {#} = 0"
  "holding e (add_mset t T) = (if is_inside t \<and> snd (thread_entry t) = e then Suc (holding e T) else holding e T)"
  by (simp_all add: holding_def)

text \<open>
  Every thread refers to the entry the dictionary has for its identifier, entries are not shared between identifiers, an entry counts
  the threads that refer to it, of which there is one at least, and its lock is held by the threads inside, of which there is one at most.
\<close>

definition pool_inv :: "lock_pool \<Rightarrow> lock_thread multiset \<Rightarrow> bool" where
  "pool_inv p T \<longleftrightarrow>
     (\<forall>t \<in># T. map_of (lp_entries p) (fst (thread_entry t)) = Some (snd (thread_entry t)))
     \<and> (\<forall>a b e. map_of (lp_entries p) a = Some e \<longrightarrow> map_of (lp_entries p) b = Some e \<longrightarrow> a = b)
     \<and> (\<forall>a e. map_of (lp_entries p) a = Some e \<longrightarrow> e < lp_next p \<and> 0 < referring e T \<and> lp_references p e = int (referring e T))
     \<and> (\<forall>e. holding e T = (if e \<in> lp_held p then 1 else 0))"

lemma pool_invD:
  assumes "pool_inv p T"
  shows pool_inv_entry: "t \<in># T \<Longrightarrow> map_of (lp_entries p) (fst (thread_entry t)) = Some (snd (thread_entry t))"
    and pool_inv_own: "map_of (lp_entries p) a = Some e \<Longrightarrow> map_of (lp_entries p) b = Some e \<Longrightarrow> a = b"
    and pool_inv_count: "map_of (lp_entries p) a = Some e \<Longrightarrow> e < lp_next p \<and> 0 < referring e T \<and> lp_references p e = int (referring e T)"
    and pool_inv_held: "holding e T = (if e \<in> lp_held p then 1 else 0)"
  using assms by (auto simp: pool_inv_def)

lemma entry_owner:
  assumes inv: "pool_inv p T" and here: "map_of (lp_entries p) a = Some e" and "t \<in># T"
  shows "fst (thread_entry t) = a \<longleftrightarrow> snd (thread_entry t) = e"
proof
  note there = pool_inv_entry [OF inv assms(3)]
  show "snd (thread_entry t) = e" if "fst (thread_entry t) = a" using there here that by simp
  show "fst (thread_entry t) = a" if "snd (thread_entry t) = e" using there pool_inv_own [OF inv _ here] that by simp
qed

lemma referring_zero: "(\<And>t. t \<in># T \<Longrightarrow> snd (thread_entry t) \<noteq> e) \<Longrightarrow> referring e T = 0"
  by (auto simp: referring_def)

lemma register_inv:
  assumes inv: "pool_inv p T" and r: "pool_register a p = (p', e)"
  shows "pool_inv p' (add_mset (Waiting a e) T)"
proof (cases "map_of (lp_entries p) a")
  case None
  then have p': "e = lp_next p" "lp_entries p' = dict_set (lp_entries p) a e" "lp_references p' = (lp_references p)(e := 1)"
      "lp_next p' = Suc (lp_next p)" "lp_held p' = lp_held p"
    using r by (auto simp: pool_register_def)
  have fresh: "map_of (lp_entries p) b \<noteq> Some e" for b using pool_inv_count [OF inv, of b e] p'(1) by auto
  then have "referring e T = 0" using pool_inv_entry [OF inv] by (intro referring_zero) metis
  moreover have "fst (thread_entry t) \<noteq> a" if "t \<in># T" for t using pool_inv_entry [OF inv that] None by auto
  ultimately show ?thesis
    using inv fresh unfolding pool_inv_def p' by (auto simp: less_Suc_eq)
next
  case (Some e')
  then have p': "e' = e" "lp_entries p' = lp_entries p" "lp_references p' = (lp_references p)(e := lp_references p e + 1)"
      "lp_next p' = lp_next p" "lp_held p' = lp_held p"
    using r by (auto simp: pool_register_def)
  then show ?thesis using inv Some unfolding pool_inv_def by auto
qed

lemma moved_inv:
  assumes inv: "pool_inv p (add_mset t T)" and same: "thread_entry t' = thread_entry t"
    and held: "\<And>e. holding e (add_mset t' T) = (if e \<in> h then 1 else 0)"
  shows "pool_inv (p\<lparr>lp_held := h\<rparr>) (add_mset t' T)"
proof -
  have "referring e (add_mset t' T) = referring e (add_mset t T)" for e by (simp add: same)
  then show ?thesis using inv same held by (simp add: pool_inv_def)
qed

lemma lock_inv:
  assumes "pool_inv p (add_mset (Waiting a e) T)" and "pool_lock e p = Some p'"
  shows "pool_inv p' (add_mset (Inside a e) T)"
proof -
  have "holding f (add_mset (Inside a e) T) = (if f \<in> insert e (lp_held p) then 1 else 0)" for f
    using pool_inv_held [OF assms(1), of f] assms(2) by (auto simp: pool_lock_def split: if_splits)
  then show ?thesis
    using moved_inv [OF assms(1), of "Inside a e" "insert e (lp_held p)"] assms(2) by (auto simp: pool_lock_def split: if_splits)
qed

lemma unlock_inv:
  assumes "pool_inv p (add_mset (Inside a e) T)"
  shows "pool_inv (pool_unlock e p) (add_mset (Leaving a e) T)"
proof -
  have "holding f (add_mset (Leaving a e) T) = (if f \<in> lp_held p - {e} then 1 else 0)" for f
    using pool_inv_held [OF assms, of f] by (auto split: if_splits)
  then show ?thesis using moved_inv [OF assms, of "Leaving a e" "lp_held p - {e}"] by (simp add: pool_unlock_def)
qed

lemma deregister_inv:
  assumes inv: "pool_inv p (add_mset (Leaving a e) T)"
  shows "pool_inv (pool_deregister a e p) T"
proof -
  have here: "map_of (lp_entries p) a = Some e" using pool_inv_entry [OF inv, of "Leaving a e"] by simp
  then have count: "lp_references p e = int (Suc (referring e T))" using pool_inv_count [OF inv here] by simp
  have mine: "fst (thread_entry t) = a \<longleftrightarrow> snd (thread_entry t) = e" if "t \<in># T" for t
    using entry_owner [OF inv here, of t] that by simp
  have other: "b \<noteq> a \<Longrightarrow> map_of (lp_entries p) b = Some f \<Longrightarrow> f \<noteq> e" for b f using pool_inv_own [OF inv here] by auto
  show ?thesis
  proof (cases "referring e T = 0")
    case True
    then have gone: "snd (thread_entry t) \<noteq> e" if "t \<in># T" for t using that by (auto simp: referring_def)
    have p': "pool_deregister a e p = p\<lparr>lp_references := (lp_references p)(e := 0), lp_entries := dict_del (lp_entries p) a\<rparr>"
      using count True by (simp add: pool_deregister_def)
    show ?thesis
      unfolding pool_inv_def p' using inv gone mine other
      by (auto simp: pool_inv_def split: if_splits)
  next
    case False
    have p': "pool_deregister a e p = p\<lparr>lp_references := (lp_references p)(e := int (referring e T))\<rparr>"
      using count False by (simp add: pool_deregister_def)
    show ?thesis
      unfolding pool_inv_def p' using inv False other by (auto simp: pool_inv_def split: if_splits)
  qed
qed

lemma pool_step_inv: "pool_step s s' \<Longrightarrow> pool_inv (fst s) (snd s) \<Longrightarrow> pool_inv (fst s') (snd s')"
  by (erule pool_stepE) (simp_all add: register_inv lock_inv unlock_inv deregister_inv)

lemma pool_reachable_inv: "pool_reachable (p, T) \<Longrightarrow> pool_inv p T"
proof -
  have start: "pool_inv (fst (AccessLockPool, {#})) (snd (AccessLockPool, {#}))" by (simp add: pool_inv_def AccessLockPool_def)
  assume "pool_reachable (p, T)"
  then have "pool_step\<^sup>*\<^sup>* (AccessLockPool, {#}) (p, T)" by (simp add: pool_reachable_def)
  then have "pool_inv (fst (p, T)) (snd (p, T))" by (induction rule: rtranclp_induct) (use start pool_step_inv in blast)+
  then show ?thesis by simp
qed

lemma pool_reachable_step: "pool_reachable s \<Longrightarrow> pool_step s s' \<Longrightarrow> pool_reachable s'"
  by (simp add: pool_reachable_def rtranclp.rtrancl_into_rtrancl)

section \<open>An example\<close>

text \<open>Two threads of one access: one is inside, the other waits for the same lock.\<close>

definition demo_pool :: lock_pool where
  "demo_pool = \<lparr>lp_entries = [(''a'', 0)], lp_references = (\<lambda>_. 0)(0 := 2), lp_held = {0}, lp_next = 1\<rparr>"

lemma demo_pool_reachable: "pool_reachable (demo_pool, {#Inside ''a'' 0, Waiting ''a'' 0#})"
proof -
  let ?p = "\<lambda>n h. \<lparr>lp_entries = [(''a'', 0)], lp_references = (\<lambda>_. 0)(0 := n), lp_held = h, lp_next = 1\<rparr>"
  have "pool_reachable (AccessLockPool, {#})" by (simp add: pool_reachable_def)
  moreover have "pool_step (AccessLockPool, {#}) (?p 1 {}, {#Waiting ''a'' 0#})"
    by (rule pool_step.register) (simp add: pool_register_def AccessLockPool_def)
  moreover have "pool_step (?p 1 {}, {#Waiting ''a'' 0#}) (?p 2 {}, {#Waiting ''a'' 0, Waiting ''a'' 0#})"
    by (rule pool_step.register) (simp add: pool_register_def)
  moreover have "pool_step (?p 2 {}, {#Waiting ''a'' 0, Waiting ''a'' 0#}) (demo_pool, {#Inside ''a'' 0, Waiting ''a'' 0#})"
    by (rule pool_step.lock) (simp add: pool_lock_def demo_pool_def)
  ultimately show ?thesis by (meson pool_reachable_step)
qed

section \<open>The result\<close>

text \<open>
  (C38) At no time do two threads run under one access identifier, however the threads register, wait and leave; and when no
  thread is left the pool has dropped every lock it made.
\<close>

theorem access_lock_excludes:
  assumes "pool_reachable (p, T)"
  shows "size (filter_mset (\<lambda>t. is_inside t \<and> fst (thread_entry t) = a) T) \<le> 1 \<and> (T = {#} \<longrightarrow> lp_entries p = [])"
proof (intro conjI impI)
  note inv = pool_reachable_inv [OF assms]
  have "filter_mset (\<lambda>t. is_inside t \<and> fst (thread_entry t) = a) T = filter_mset (\<lambda>t. is_inside t \<and> snd (thread_entry t) = e) T"
    if "map_of (lp_entries p) a = Some e" for e
    using entry_owner [OF inv that] by (intro filter_mset_cong) auto
  then have "size (filter_mset (\<lambda>t. is_inside t \<and> fst (thread_entry t) = a) T) = holding e T" if "map_of (lp_entries p) a = Some e" for e
    using that by (simp add: holding_def)
  moreover have "size (filter_mset (\<lambda>t. is_inside t \<and> fst (thread_entry t) = a) T) = 0" if "map_of (lp_entries p) a = None"
    using pool_inv_entry [OF inv] that by force
  moreover have "holding e T \<le> 1" for e using pool_inv_held [OF inv, of e] by simp
  ultimately show "size (filter_mset (\<lambda>t. is_inside t \<and> fst (thread_entry t) = a) T) \<le> 1"
    by (metis option.exhaust zero_le)
  show "lp_entries p = []" if none: "T = {#}"
  proof (rule ccontr)
    assume "lp_entries p \<noteq> []"
    then obtain b e rest where "lp_entries p = (b, e) # rest" by (cases "lp_entries p") auto
    then have "map_of (lp_entries p) b = Some e" by simp
    then show False using pool_inv_count [OF inv, of b e] none by simp
  qed
qed

lemma access_lock_excludes_witness: "size (filter_mset (\<lambda>t. is_inside t \<and> fst (thread_entry t) = ''a'') {#Inside ''a'' 0, Waiting ''a'' 0#}) \<le> 1"
  using access_lock_excludes [OF demo_pool_reachable, of "''a''"] by blast

end
