(* ===== verification/Agent_Manifest.thy ===== *)
theory Agent_Manifest
  imports Agent_Protocol
begin

text \<open>
  The manifest of a Data Agent (\<open>pathfinder/data_agent_manifest.py\<close>): which representations a node serves, from which file, under
  which plan and at which location; the catalog of objects it may refer to; and the resolution of an access.

  A path is the text of a resolved absolute path. The machine is the record \<open>manifest_reader\<close>: \<open>mr_resolve\<close> is \<open>Path.resolve\<close>, which
  follows the links of the machine (\<open>None\<close> where it raises), and \<open>mr_read\<close> reads a file or gives the text of the \<open>OSError\<close>. The
  text of a \<open>JSONDecodeError\<close> is left out of the message that quotes it.
\<close>

definition DATA_AGENT_MANIFEST_VERSION :: string where
  "DATA_AGENT_MANIFEST_VERSION = ''pathfinder.data-agent-manifest/v1alpha1''"

definition DATA_OBJECT_CATALOG_VERSION :: string where
  "DATA_OBJECT_CATALOG_VERSION = ''pathfinder.data-object-catalog/v1alpha1''"

datatype manifest_error =
  DataAgentManifestError string
| ManifestUnicodeError
| ManifestPathError
| ManifestOverflowError

datatype lookup_error =
  DataAgentManifestLookupError string
| DataAgentBindingMismatchError string

record manifest_reader =
  mr_resolve :: "string \<Rightarrow> string option"
  mr_read :: "string \<Rightarrow> string + bytes"

record binding_spec =
  bs_location :: "string option"
  bs_minimum_latency_ms :: pyfloat
  bs_realized_cost :: pyfloat
  bs_cache_hit :: "bool option"
  bs_path :: "string option"

record representation_spec =
  rp_representation_id :: string
  rp_kind :: string
  rp_media_type :: string
  rp_path :: "string option"
  rp_default_binding :: binding_spec
  rp_plan_bindings :: "(string \<times> binding_spec) list"

record object_representation =
  or_path :: string
  or_plan_paths :: "(string \<times> string) list"

record object_catalog =
  oc_source_path :: string
  oc_catalog_version :: string
  oc_objects :: "(string \<times> (string \<times> object_representation) list) list"

record data_agent_manifest =
  dm_source_path :: string
  dm_node_id :: string
  dm_require_plan_binding :: bool
  dm_representations :: "(string \<times> representation_spec) list"
  dm_object_catalog :: "object_catalog option"

record resolved_access =
  rv_object_id :: "string option"
  rv_representation_id :: string
  rv_kind :: string
  rv_media_type :: string
  rv_path :: string
  rv_location :: string
  rv_minimum_latency_ms :: pyfloat
  rv_realized_cost :: pyfloat
  rv_cache_hit :: "bool option"

section \<open>Resolution\<close>

definition catalog_resolve_path :: "object_catalog \<Rightarrow> string \<Rightarrow> string \<Rightarrow> string \<Rightarrow> lookup_error + string" where
  "catalog_resolve_path c object_id representation_id plan_id =
     (case map_of (oc_objects c) object_id of
        None \<Rightarrow> Inl (DataAgentManifestLookupError (''object is not configured: '' @ object_id))
      | Some representations \<Rightarrow>
          (case map_of representations representation_id of
             None \<Rightarrow> Inl (DataAgentManifestLookupError (''object representation is not configured: '' @ object_id @ ''/'' @ representation_id))
           | Some r \<Rightarrow> Inr (case map_of (or_plan_paths r) plan_id of None \<Rightarrow> or_path r | Some p \<Rightarrow> p)))"

definition plan_binding :: "data_agent_manifest \<Rightarrow> representation_spec \<Rightarrow> string \<Rightarrow> string \<Rightarrow> lookup_error + binding_spec" where
  "plan_binding m r plan_id representation_id =
     (case map_of (rp_plan_bindings r) plan_id of
        Some b \<Rightarrow> Inr b
      | None \<Rightarrow>
          if dm_require_plan_binding m
          then Inl (DataAgentManifestLookupError (''plan binding is not configured: '' @ plan_id @ ''/'' @ representation_id))
          else Inr (rp_default_binding r))"

definition manifest_resolve ::
  "data_agent_manifest \<Rightarrow> string \<Rightarrow> string option \<Rightarrow> string \<Rightarrow> string \<Rightarrow> lookup_error + resolved_access" where
  "manifest_resolve m plan_id object_id representation_id requested_location =
     (case map_of (dm_representations m) representation_id of
        None \<Rightarrow> Inl (DataAgentManifestLookupError (''representation is not configured: '' @ representation_id))
      | Some r \<Rightarrow>
          bind_res (plan_binding m r plan_id representation_id) (\<lambda>b.
          require (bs_location b = None \<or> bs_location b = Some requested_location)
            (DataAgentBindingMismatchError (''requested location does not match the Data Agent manifest: requested='' @ requested_location
              @ '', configured='' @ text_or_empty (bs_location b))) (
          bind_res (case dm_object_catalog m of
              Some c \<Rightarrow>
                (case object_id of
                   None \<Rightarrow> Inl (DataAgentManifestLookupError ''object_id is required when an object catalog is configured'')
                 | Some oid \<Rightarrow> map_sum id Some (catalog_resolve_path c oid representation_id plan_id))
            | None \<Rightarrow> Inr (if bs_path b \<noteq> None then bs_path b else rp_path r)) (\<lambda>path.
          case path of
            None \<Rightarrow> Inl (DataAgentManifestLookupError (''representation has no file path: '' @ representation_id))
          | Some p \<Rightarrow>
              Inr \<lparr>rv_object_id = object_id, rv_representation_id = representation_id, rv_kind = rp_kind r, rv_media_type = rp_media_type r,
                   rv_path = p, rv_location = (if text_or_empty (bs_location b) = [] then requested_location else text_or_empty (bs_location b)),
                   rv_minimum_latency_ms = bs_minimum_latency_ms b, rv_realized_cost = bs_realized_cost b, rv_cache_hit = bs_cache_hit b\<rparr>))))"

section \<open>Loading\<close>

definition manifest_string :: "dict \<Rightarrow> string \<Rightarrow> manifest_error + string" where
  "manifest_string d name =
     (let bad = DataAgentManifestError (''Data Agent manifest '' @ name @ '' must be a non-empty string'') in
      case dget d name of JStr s \<Rightarrow> require (strip s \<noteq> []) bad (Inr s) | _ \<Rightarrow> Inl bad)"

definition manifest_number :: "json \<Rightarrow> string \<Rightarrow> manifest_error + pyfloat" where
  "manifest_number v name =
     (let bad = DataAgentManifestError (name @ '' must be a finite non-negative number'') in
      case v of
        JInt n \<Rightarrow> bind_res (map_sum (\<lambda>_. ManifestOverflowError) id (float_of_int n)) (\<lambda>f. require (0 \<le> float_value f) bad (Inr f))
      | JFloat f \<Rightarrow> require (0 \<le> float_value f) bad (Inr f)
      | _ \<Rightarrow> Inl bad)"

definition manifest_mapping :: "json \<Rightarrow> string \<Rightarrow> manifest_error + dict" where
  "manifest_mapping v message = (case v of JObj d \<Rightarrow> Inr d | _ \<Rightarrow> Inl (DataAgentManifestError message))"

text \<open>\<open>directory / path\<close>, which is \<open>path\<close> if that is absolute.\<close>

definition path_join :: "string \<Rightarrow> string \<Rightarrow> string" where
  "path_join directory path =
     (if prefix ''/'' path then path else directory @ (if suffix ''/'' directory then [] else ''/'') @ path)"

definition path_parent :: "string \<Rightarrow> string" where
  "path_parent path = (case fst (rpartition_at CHR ''/'' path) of None \<Rightarrow> ''/'' | Some [] \<Rightarrow> ''/'' | Some d \<Rightarrow> d)"

definition resolve_path :: "manifest_reader \<Rightarrow> string \<Rightarrow> manifest_error + string" where
  "resolve_path mr path = (case mr_resolve mr path of None \<Rightarrow> Inl ManifestPathError | Some p \<Rightarrow> Inr p)"

definition optional_path :: "manifest_reader \<Rightarrow> string \<Rightarrow> json \<Rightarrow> manifest_error + string option" where
  "optional_path mr directory raw =
     (let bad = DataAgentManifestError ''Data Agent representation path must be a non-empty string'' in
      case raw of
        JNull \<Rightarrow> Inr None
      | JStr s \<Rightarrow> require (strip s \<noteq> []) bad (map_sum id Some (resolve_path mr (path_join directory s)))
      | _ \<Rightarrow> Inl bad)"

definition parse_binding :: "manifest_reader \<Rightarrow> string \<Rightarrow> string \<Rightarrow> string \<Rightarrow> dict \<Rightarrow> manifest_error + binding_spec" where
  "parse_binding mr directory representation_id binding_id d =
     (let name = ''binding '' @ representation_id @ ''/'' @ binding_id;
          bad_location = DataAgentManifestError (name @ '' location must be a non-empty string or null'')
      in
      bind_res (case dget d ''location'' of
          JNull \<Rightarrow> Inr None
        | JStr s \<Rightarrow> require (strip s \<noteq> []) bad_location (Inr (Some s))
        | _ \<Rightarrow> Inl bad_location) (\<lambda>location.
      bind_res (manifest_number (dget_or d ''minimum_latency_ms'' float_zero) (name @ '' minimum_latency_ms'')) (\<lambda>minimum_latency_ms.
      bind_res (manifest_number (dget_or d ''realized_cost'' float_zero) (name @ '' realized_cost'')) (\<lambda>realized_cost.
      bind_res (case dget d ''cache_hit'' of
          JNull \<Rightarrow> Inr None
        | JBool b \<Rightarrow> Inr (Some b)
        | _ \<Rightarrow> Inl (DataAgentManifestError (name @ '' cache_hit must be a boolean or null''))) (\<lambda>cache_hit.
      bind_res (optional_path mr directory (dget d ''path'')) (\<lambda>path.
      Inr \<lparr>bs_location = location, bs_minimum_latency_ms = minimum_latency_ms, bs_realized_cost = realized_cost,
           bs_cache_hit = cache_hit, bs_path = path\<rparr>))))))"

definition parse_plan_binding ::
  "manifest_reader \<Rightarrow> string \<Rightarrow> string \<Rightarrow> string \<times> json \<Rightarrow> manifest_error + string \<times> binding_spec" where
  "parse_plan_binding mr directory representation_id p =
     require (fst p \<noteq> []) (DataAgentManifestError (''representation '' @ representation_id @ '' has an invalid plan ID'')) (
     bind_res (manifest_mapping (snd p) (''binding '' @ representation_id @ ''/'' @ fst p @ '' must be an object'')) (\<lambda>d.
     map_sum id (Pair (fst p)) (parse_binding mr directory representation_id (fst p) d)))"

definition parse_representation ::
  "manifest_reader \<Rightarrow> string \<Rightarrow> string \<Rightarrow> dict \<Rightarrow> bool \<Rightarrow> manifest_error + representation_spec" where
  "parse_representation mr directory representation_id d require_path =
     bind_res (manifest_string d ''kind'') (\<lambda>kind.
     require (kind \<in> {''inline_text'', ''artifact_uri''})
       (DataAgentManifestError (''representation '' @ representation_id @ '' has unsupported kind '' @ kind)) (
     bind_res (manifest_string d ''media_type'') (\<lambda>media_type.
     bind_res (optional_path mr directory (dget d ''path'')) (\<lambda>path.
     bind_res (manifest_mapping (dget_or d ''default_binding'' (JObj []))
         (''representation '' @ representation_id @ '' default_binding must be an object'')) (\<lambda>raw_default.
     bind_res (parse_binding mr directory representation_id ''default_binding'' raw_default) (\<lambda>default_binding.
     bind_res (manifest_mapping (dget_or d ''plan_bindings'' (JObj []))
         (''representation '' @ representation_id @ '' plan_bindings must be an object'')) (\<lambda>raw_plan_bindings.
     bind_res (map_res (parse_plan_binding mr directory representation_id) raw_plan_bindings) (\<lambda>plan_bindings.
     require (\<not> (require_path \<and> path = None \<and> bs_path default_binding = None \<and> \<not> list_ex (\<lambda>(_, b). bs_path b \<noteq> None) plan_bindings))
       (DataAgentManifestError (''representation '' @ representation_id @ '' has no configured path'')) (
     Inr \<lparr>rp_representation_id = representation_id, rp_kind = kind, rp_media_type = media_type, rp_path = path,
          rp_default_binding = default_binding, rp_plan_bindings = plan_bindings\<rparr>)))))))))"

text \<open>The document at a path, which has to be an object with the schema version \<open>version\<close>; \<open>title\<close> names it in messages.\<close>

definition load_document :: "manifest_reader \<Rightarrow> string \<Rightarrow> string \<Rightarrow> string \<Rightarrow> manifest_error + dict" where
  "load_document mr title version source_path =
     (case mr_read mr source_path of
        Inl exc \<Rightarrow> Inl (DataAgentManifestError (''cannot read '' @ title @ '' '' @ source_path @ '': '' @ exc))
      | Inr raw \<Rightarrow>
          require (valid_utf8 raw) ManifestUnicodeError (
          bind_res (map_sum (\<lambda>_. DataAgentManifestError (title @ '' is not valid JSON'')) id (plain_loads_bytes raw)) (\<lambda>v.
          bind_res (manifest_mapping v (title @ '' root must be an object'')) (\<lambda>d.
          require (dget d ''schema_version'' = JStr version) (DataAgentManifestError (title @ '' has an unsupported schema_version'')) (
          Inr d)))))"

definition nonempty_mapping :: "json \<Rightarrow> string \<Rightarrow> manifest_error + dict" where
  "nonempty_mapping v message =
     bind_res (manifest_mapping v message) (\<lambda>d. require (d \<noteq> []) (DataAgentManifestError message) (Inr d))"

definition parse_plan_path :: "manifest_reader \<Rightarrow> string \<Rightarrow> string \<Rightarrow> string \<times> json \<Rightarrow> manifest_error + string \<times> string" where
  "parse_plan_path mr directory name p =
     require (fst p \<noteq> []) (DataAgentManifestError (''object representation '' @ name @ '' has an invalid plan ID'')) (
     bind_res (optional_path mr directory (snd p)) (\<lambda>path.
     case path of
       None \<Rightarrow> Inl (DataAgentManifestError (''object representation '' @ name @ '' plan '' @ fst p @ '' path is missing''))
     | Some q \<Rightarrow> Inr (fst p, q)))"

definition parse_object_representation ::
  "manifest_reader \<Rightarrow> string \<Rightarrow> string \<Rightarrow> string \<times> json \<Rightarrow> manifest_error + string \<times> object_representation" where
  "parse_object_representation mr directory object_id p =
     (let name = object_id @ ''/'' @ fst p in
      require (fst p \<noteq> []) (DataAgentManifestError (''object '' @ object_id @ '' has an invalid representation ID'')) (
      bind_res (manifest_mapping (snd p) (''object representation '' @ name @ '' must be an object'')) (\<lambda>d.
      bind_res (optional_path mr directory (dget d ''path'')) (\<lambda>path.
      case path of
        None \<Rightarrow> Inl (DataAgentManifestError (''object representation '' @ name @ '' must declare path''))
      | Some q \<Rightarrow>
          bind_res (manifest_mapping (dget_or d ''plan_paths'' (JObj [])) (''object representation '' @ name @ '' plan_paths must be an object'')) (\<lambda>raw.
          bind_res (map_res (parse_plan_path mr directory name) raw) (\<lambda>plan_paths.
          Inr (fst p, \<lparr>or_path = q, or_plan_paths = plan_paths\<rparr>)))))))"

definition parse_object ::
  "manifest_reader \<Rightarrow> string \<Rightarrow> string \<times> json \<Rightarrow> manifest_error + string \<times> (string \<times> object_representation) list" where
  "parse_object mr directory p =
     require (strip (fst p) \<noteq> []) (DataAgentManifestError ''Data Agent object IDs must be non-empty strings'') (
     bind_res (manifest_mapping (snd p) (''object '' @ fst p @ '' must be an object'')) (\<lambda>d.
     bind_res (nonempty_mapping (dget d ''representations'') (''object '' @ fst p @ '' representations must be a non-empty object'')) (\<lambda>raw.
     map_sum id (Pair (fst p)) (map_res (parse_object_representation mr directory (fst p)) raw))))"

definition load_data_object_catalog :: "manifest_reader \<Rightarrow> string \<Rightarrow> manifest_error + object_catalog" where
  "load_data_object_catalog mr path =
     bind_res (resolve_path mr path) (\<lambda>source_path.
     bind_res (load_document mr ''Data Agent object catalog'' DATA_OBJECT_CATALOG_VERSION source_path) (\<lambda>raw.
     bind_res (manifest_string raw ''catalog_version'') (\<lambda>catalog_version.
     bind_res (nonempty_mapping (dget raw ''objects'') ''Data Agent object catalog objects must be a non-empty object'') (\<lambda>raw_objects.
     bind_res (map_res (parse_object mr (path_parent source_path)) raw_objects) (\<lambda>objects.
     Inr \<lparr>oc_source_path = source_path, oc_catalog_version = catalog_version, oc_objects = objects\<rparr>)))))"

definition unknown_representations :: "object_catalog \<Rightarrow> (string \<times> representation_spec) list \<Rightarrow> string list" where
  "unknown_representations c representations =
     sort (remdups (filter (\<lambda>r. r \<notin> fst ` set representations) (concat (map (\<lambda>(_, rs). map fst rs) (oc_objects c)))))"

definition load_catalog_for ::
  "manifest_reader \<Rightarrow> string \<Rightarrow> json \<Rightarrow> (string \<times> representation_spec) list \<Rightarrow> manifest_error + object_catalog option" where
  "load_catalog_for mr directory raw_path representations =
     bind_res (optional_path mr directory raw_path) (\<lambda>path.
     case path of
       None \<Rightarrow> Inr None
     | Some p \<Rightarrow>
         bind_res (load_data_object_catalog mr p) (\<lambda>catalog.
         require (unknown_representations catalog representations = [])
           (DataAgentManifestError (''object catalog references representations absent from the Data Agent manifest: ''
             @ join '', '' (unknown_representations catalog representations))) (
         Inr (Some catalog))))"

definition load_representation ::
  "manifest_reader \<Rightarrow> string \<Rightarrow> bool \<Rightarrow> string \<times> json \<Rightarrow> manifest_error + string \<times> representation_spec" where
  "load_representation mr directory require_path p =
     require (fst p \<noteq> []) (DataAgentManifestError ''Data Agent representation IDs must be non-empty strings'') (
     bind_res (manifest_mapping (snd p) (''representation '' @ fst p @ '' must be an object'')) (\<lambda>d.
     map_sum id (Pair (fst p)) (parse_representation mr directory (fst p) d require_path)))"

definition load_data_agent_manifest :: "manifest_reader \<Rightarrow> string \<Rightarrow> manifest_error + data_agent_manifest" where
  "load_data_agent_manifest mr path =
     bind_res (resolve_path mr path) (\<lambda>source_path.
     bind_res (load_document mr ''Data Agent manifest'' DATA_AGENT_MANIFEST_VERSION source_path) (\<lambda>raw.
     bind_res (manifest_string raw ''node_id'') (\<lambda>node_id.
     bind_res (case dget_or raw ''require_plan_binding'' (JBool True) of
         JBool b \<Rightarrow> Inr b
       | _ \<Rightarrow> Inl (DataAgentManifestError ''Data Agent manifest require_plan_binding must be a boolean'')) (\<lambda>require_plan_binding.
     bind_res (nonempty_mapping (dget raw ''representations'') ''Data Agent manifest representations must be a non-empty object'') (\<lambda>raw_representations.
     let object_catalog_path = dget raw ''object_catalog_path''; directory = path_parent source_path in
     bind_res (map_res (load_representation mr directory (object_catalog_path = JNull)) raw_representations) (\<lambda>representations.
     bind_res (load_catalog_for mr directory object_catalog_path representations) (\<lambda>catalog.
     Inr \<lparr>dm_source_path = source_path, dm_node_id = node_id, dm_require_plan_binding = require_plan_binding,
          dm_representations = representations, dm_object_catalog = catalog\<rparr>)))))))"

end
