(* ===== verification/Agent_Server.thy ===== *)
theory Agent_Server
  imports Agent_Manifest Py_Http
begin

text \<open>
  The Data Agent server (\<open>pathfinder/data_agent_server.py\<close>) and the reading of an access request
  (\<open>DataAgentAccessRequest.from_dict\<close> in \<open>pathfinder/data_agent_client.py\<close>): settings, the table of operations, the service with its
  idempotent accesses, signed artifact URLs and counters of transfers, and the request handler.

  \<open>H\<close> is SHA-256 and \<open>M\<close> HMAC-SHA-256. What one call finds of its machine is the record \<open>agent_machine\<close>: \<open>am_open\<close> and \<open>am_stat\<close> the files,
  \<open>am_time\<close> and \<open>am_perf\<close> the readings of the two clocks in the order of the source (\<open>am_perf\<close> after the sleeps it is given), \<open>am_header_breaks\<close>,
  \<open>am_chunk_breaks\<close> and \<open>am_flush_breaks\<close> the writes to the connection that raise, \<open>am_commit_fails\<close> whether SQLite refuses the row of a
  transfer, \<open>am_sum\<close> its sum of a column of doubles, \<open>am_decode_error\<close> the text of a \<open>UnicodeDecodeError\<close>. SQLite works in all other calls.
  A setting is a value of its declared type. The digits \<open>int\<close> accepts are ASCII, and no product or difference of doubles leaves their range
  but the target latency, where it is checked.

  A handler writes responses, more than one if it fails after it has started one, or ends in an exception it does not catch.
\<close>

section \<open>Errors\<close>

datatype agent_server_error =
  DataAgentServerError string
| DataAgentAuthenticationError string
| DataAgentIdempotencyConflict string
| DataAgentInlinePayloadTooLarge string
| DataAgentArtifactAuthorizationError string
| DataAgentRangeNotSatisfiable
| RequestProtocolError string
| ManifestLookupFails string
| BindingMismatches string
| FileIsMissing string
| FileAccessFails string
| InlineTextUndecodable string
| ServerRaises

fun lookup_failure :: "lookup_error \<Rightarrow> agent_server_error" where
  "lookup_failure (DataAgentManifestLookupError m) = ManifestLookupFails m"
| "lookup_failure (DataAgentBindingMismatchError m) = BindingMismatches m"

fun request_failure :: "agent_error \<Rightarrow> agent_server_error" where
  "request_failure (DataAgentProtocolError m) = RequestProtocolError m"
| "request_failure _ = ServerRaises"

section \<open>Settings\<close>

record agent_server_settings =
  ss_host :: string
  ss_port :: int
  ss_public_base_url :: "string option"
  ss_token :: "string option"
  ss_artifact_secret :: "string option"
  ss_artifact_url_ttl_seconds :: int
  ss_max_request_bytes :: int
  ss_max_inline_bytes :: int

definition DataAgentServerSettings ::
  "(string \<Rightarrow> string option) \<Rightarrow> agent_server_settings \<Rightarrow> agent_error + agent_server_settings" where
  "DataAgentServerSettings netloc_error st =
     require (strip (ss_host st) \<noteq> []) (AgentValueError ''Data Agent host cannot be empty'') (
     require (0 \<le> ss_port st \<and> ss_port st \<le> 65535) (AgentValueError ''Data Agent port must be between 0 and 65535'') (
     bind_res (case ss_public_base_url st of
         None \<Rightarrow> Inr ()
       | Some url \<Rightarrow>
           bind_res (lift_url (urlparse netloc_error url)) (\<lambda>parsed.
           require (u_scheme parsed \<in> {''http'', ''https''} \<and> u_netloc parsed \<noteq> [] \<and> url_username parsed = None \<and> url_password parsed = None)
             (AgentValueError ''Data Agent public_base_url must be an absolute HTTP(S) URL without credentials'') (Inr ()))) (\<lambda>_.
     (case find (\<lambda>(name, value). value \<le> 0)
        [(''artifact_url_ttl_seconds'', ss_artifact_url_ttl_seconds st), (''max_request_bytes'', ss_max_request_bytes st),
         (''max_inline_bytes'', ss_max_inline_bytes st)] of
        Some (name, _) \<Rightarrow> Inl (AgentValueError (''Data Agent '' @ name @ '' must be a positive integer''))
      | None \<Rightarrow> Inr st))))"

definition server_settings_from_environment ::
  "(string \<Rightarrow> string option) \<Rightarrow> (string \<Rightarrow> string option) \<Rightarrow> string \<Rightarrow> int \<Rightarrow> string option \<Rightarrow> int \<Rightarrow> int \<Rightarrow> int \<Rightarrow> agent_error + agent_server_settings" where
  "server_settings_from_environment netloc_error env host port public_base_url ttl max_request max_inline =
     DataAgentServerSettings netloc_error
       \<lparr>ss_host = host, ss_port = port,
        ss_public_base_url =
          (case nonempty_text public_base_url of
             Some u \<Rightarrow> Some u | None \<Rightarrow> nonempty_text (env ''PATHFINDER_DATA_AGENT_PUBLIC_BASE_URL'')),
        ss_token = nonempty_text (env ''PATHFINDER_DATA_AGENT_TOKEN''),
        ss_artifact_secret = nonempty_text (env ''PATHFINDER_DATA_AGENT_ARTIFACT_SECRET''),
        ss_artifact_url_ttl_seconds = ttl, ss_max_request_bytes = max_request, ss_max_inline_bytes = max_inline\<rparr>"

section \<open>Reading a request\<close>

definition REQUEST_FIELDS :: "string list" where
  "REQUEST_FIELDS =
     [''access_id'', ''session_id'', ''trial_id'', ''plan_id'', ''plan_epoch'', ''task_class_id'', ''representation_id'', ''event_index'',
      ''latency_multiplier'']"

definition request_string :: "dict \<Rightarrow> string \<Rightarrow> agent_error + string" where
  "request_string d name =
     (let bad = AgentValueError (''Data Agent '' @ name @ '' cannot be empty'') in
      case dget d name of JStr s \<Rightarrow> require (strip s \<noteq> []) bad (Inr s) | _ \<Rightarrow> Inl bad)"

definition request_count :: "dict \<Rightarrow> string \<Rightarrow> agent_error + int" where
  "request_count d name =
     (let bad = AgentValueError (''Data Agent '' @ name @ '' must be a non-negative integer'') in
      case dget d name of JInt n \<Rightarrow> require (0 \<le> n) bad (Inr n) | _ \<Rightarrow> Inl bad)"

text \<open>The constructor on the values of a document.\<close>

definition construct_request :: "dict \<Rightarrow> dict \<Rightarrow> dict option \<Rightarrow> agent_error + access_request" where
  "construct_request d binding plan_capability =
     bind_res (request_string d ''access_id'') (\<lambda>access_id.
     bind_res (request_string d ''session_id'') (\<lambda>session_id.
     bind_res (request_string d ''trial_id'') (\<lambda>trial_id.
     bind_res (request_string d ''plan_id'') (\<lambda>plan_id.
     bind_res (request_string d ''task_class_id'') (\<lambda>task_class_id.
     bind_res (request_string d ''representation_id'') (\<lambda>representation_id.
     bind_res (request_count d ''plan_epoch'') (\<lambda>plan_epoch.
     bind_res (request_count d ''event_index'') (\<lambda>event_index.
     bind_res (positive_multiplier (dget d ''latency_multiplier'')) (\<lambda>_.
     bind_res (let bad = AgentValueError ''Data Agent object_id must be a non-empty string or null'' in
         case dget d ''object_id'' of
           JNull \<Rightarrow> Inr None
         | JStr s \<Rightarrow> require (strip s \<noteq> []) bad (Inr (Some s))
         | _ \<Rightarrow> Inl bad) (\<lambda>object_id.
     Inr \<lparr>rq_access_id = access_id, rq_session_id = session_id, rq_trial_id = trial_id, rq_plan_id = plan_id, rq_plan_epoch = plan_epoch,
          rq_task_class_id = task_class_id, rq_representation_id = representation_id, rq_event_index = event_index,
          rq_latency_multiplier = dget d ''latency_multiplier'', rq_binding = binding, rq_plan_capability = plan_capability,
          rq_object_id = object_id\<rparr>))))))))))"

fun as_protocol_error :: "agent_error \<Rightarrow> agent_error" where
  "as_protocol_error (AgentValueError m) = DataAgentProtocolError m"
| "as_protocol_error e = e"

definition request_from_dict :: "dict \<Rightarrow> agent_error + access_request" where
  "request_from_dict d =
     require (dget d ''api_version'' = JStr DATA_AGENT_API_VERSION) (DataAgentProtocolError ''Data Agent request has an unsupported api_version'') (
     bind_res (agent_object (dget d ''binding'') ''Data Agent request binding must be an object'') (\<lambda>binding.
     bind_res (case dget d ''plan_capability'' of
         JNull \<Rightarrow> Inr None
       | JObj c \<Rightarrow> Inr (Some c)
       | _ \<Rightarrow> Inl (DataAgentProtocolError ''Data Agent request plan_capability must be an object or null'')) (\<lambda>plan_capability.
     case find (\<lambda>name. name \<notin> keys d) REQUEST_FIELDS of
       Some name \<Rightarrow> Inl (DataAgentProtocolError (''Data Agent request is missing field: '' @ name))
     | None \<Rightarrow> map_sum as_protocol_error id (construct_request d binding plan_capability))))"

section \<open>The tables\<close>

record operation_row =
  op_access_id :: string
  op_request_sha256 :: string
  op_request_json :: string
  op_response_json :: string
  op_created_at :: rat

record download_row =
  dl_access_id :: string
  dl_range_start :: int
  dl_range_end :: int
  dl_bytes_sent :: int
  dl_duration_ms :: pyfloat
  dl_completed :: bool
  dl_full_artifact :: bool
  dl_started_at :: rat
  dl_completed_at :: rat

record agent_operation =
  ao_access_id :: string
  ao_request_sha256 :: string
  ao_request_json :: string
  ao_response :: dict

definition store_get :: "operation_row list \<Rightarrow> string \<Rightarrow> agent_server_error + agent_operation option" where
  "store_get rows access_id =
     (case find (\<lambda>r. op_access_id r = access_id) rows of
        None \<Rightarrow> Inr None
      | Some r \<Rightarrow>
          (case loads_with False (op_response_json r) of
             Inl _ \<Rightarrow> Inl ServerRaises
           | Inr (JObj d) \<Rightarrow>
               Inr (Some \<lparr>ao_access_id = op_access_id r, ao_request_sha256 = op_request_sha256 r, ao_request_json = op_request_json r, ao_response = d\<rparr>)
           | Inr _ \<Rightarrow> Inl (DataAgentServerError (''stored response is invalid for access '' @ access_id))))"

definition conflict :: agent_server_error where
  "conflict = DataAgentIdempotencyConflict ''access_id was already used for a different request''"

definition put_if_absent ::
  "agent_operation \<Rightarrow> rat \<Rightarrow> operation_row list \<Rightarrow> operation_row list \<times> (agent_server_error + agent_operation)" where
  "put_if_absent operation now rows =
     (if list_ex (\<lambda>r. op_access_id r = ao_access_id operation) rows
      then (rows, bind_res (store_get rows (ao_access_id operation)) (\<lambda>existing.
                  case existing of
                    None \<Rightarrow> Inl ServerRaises
                  | Some e \<Rightarrow> require (ao_request_sha256 e = ao_request_sha256 operation) conflict (Inr e)))
      else (rows @ [\<lparr>op_access_id = ao_access_id operation, op_request_sha256 = ao_request_sha256 operation,
                     op_request_json = ao_request_json operation, op_response_json = dumps (JObj (ao_response operation)), op_created_at = now\<rparr>],
            Inr operation))"

definition float_of_rat :: "rat \<Rightarrow> json" where
  "float_of_rat x = JFloat (PyFloat (x < 0) \<bar>x\<bar>)"

definition artifact_download_summary :: "(pyfloat list \<Rightarrow> pyfloat) \<Rightarrow> download_row list \<Rightarrow> string \<Rightarrow> dict" where
  "artifact_download_summary sum_reals rows access_id =
     (let found = filter (\<lambda>r. dl_access_id r = access_id) rows; completed = filter dl_completed found in
      [(''download_request_count'', JInt (int (length found))),
       (''completed_request_count'', JInt (int (length completed))),
       (''full_download_count'', JInt (int (length (filter dl_full_artifact completed)))),
       (''bytes_sent'', JInt (sum_list (map dl_bytes_sent found))),
       (''transfer_latency_ms'', if found = [] then float_zero else JFloat (sum_reals (map dl_duration_ms found))),
       (''latest_completed_at'', if completed = [] then JNull else float_of_rat (Max (set (map dl_completed_at completed))))])"

section \<open>The machine and the state\<close>

datatype file_failure = FileMissing string | FileFails string

record agent_machine =
  am_open :: "string \<Rightarrow> file_failure + bytes"
  am_stat :: "string \<Rightarrow> file_failure + int"
  am_time :: "nat \<Rightarrow> rat"
  am_perf :: "rat list \<Rightarrow> nat \<Rightarrow> rat"
  am_header_breaks :: bool
  am_chunk_breaks :: "nat \<Rightarrow> bool"
  am_flush_breaks :: bool
  am_commit_fails :: bool
  am_sum :: "pyfloat list \<Rightarrow> pyfloat"
  am_decode_error :: "bytes \<Rightarrow> string"

record agent_service =
  sv_manifest :: data_agent_manifest
  sv_settings :: agent_server_settings
  sv_public_base_url :: string

record agent_state =
  ag_operations :: "operation_row list"
  ag_downloads :: "download_row list"
  ag_in_flight :: "(string \<times> int) list"
  ag_generations :: "(string \<times> int) list"

definition file_result :: "file_failure + 'a \<Rightarrow> agent_server_error + 'a" where
  "file_result r = map_sum (\<lambda>e. case e of FileMissing m \<Rightarrow> FileIsMissing m | FileFails m \<Rightarrow> FileAccessFails m) id r"

definition DataAgentService :: "data_agent_manifest \<Rightarrow> agent_server_settings \<Rightarrow> string \<Rightarrow> agent_service" where
  "DataAgentService m st public_base_url =
     \<lparr>sv_manifest = m, sv_settings = st, sv_public_base_url = rstrip_char CHR ''/'' public_base_url\<rparr>"

text \<open>A service opened on a database: the counters are in memory and start empty.\<close>

definition open_agent :: "operation_row list \<Rightarrow> download_row list \<Rightarrow> agent_state" where
  "open_agent operations downloads =
     \<lparr>ag_operations = operations, ag_downloads = downloads, ag_in_flight = [], ag_generations = []\<rparr>"

definition server_base_url :: "agent_server_settings \<Rightarrow> string \<Rightarrow> int \<Rightarrow> string" where
  "server_base_url st actual_host actual_port =
     (case ss_public_base_url st of
        Some url \<Rightarrow> url
      | None \<Rightarrow> ''http://'' @ (if actual_host \<in> {''0.0.0.0'', ''::''} then ''127.0.0.1'' else actual_host) @ '':'' @ int_str actual_port)"

section \<open>Signed artifact URLs\<close>

definition truncated :: "rat \<Rightarrow> int" where
  "truncated x = (if x < 0 then - \<lfloor>- x\<rfloor> else \<lfloor>x\<rfloor>)"

definition artifact_signature :: "(bytes \<Rightarrow> bytes \<Rightarrow> string) \<Rightarrow> string \<Rightarrow> string \<Rightarrow> int \<Rightarrow> string \<Rightarrow> string" where
  "artifact_signature M secret access_id expires digest = M secret (access_id @ '':'' @ int_str expires @ '':'' @ digest)"

definition artifact_url :: "(bytes \<Rightarrow> bytes \<Rightarrow> string) \<Rightarrow> agent_service \<Rightarrow> rat \<Rightarrow> string \<Rightarrow> string \<Rightarrow> string" where
  "artifact_url M sv now access_id digest =
     (let base = sv_public_base_url sv @ ''/v1/artifacts/'' @ quote_strict access_id in
      case ss_artifact_secret (sv_settings sv) of
        None \<Rightarrow> base
      | Some secret \<Rightarrow>
          let expires = truncated now + ss_artifact_url_ttl_seconds (sv_settings sv)
          in base @ ''?'' @ urlencode [(''expires'', int_str expires), (''signature'', artifact_signature M secret access_id expires digest)])"

text \<open>The response is copied through JSON, which changes none of its values, and gets a fresh URL.\<close>

definition refresh_artifact_url :: "(bytes \<Rightarrow> bytes \<Rightarrow> string) \<Rightarrow> agent_service \<Rightarrow> rat \<Rightarrow> dict \<Rightarrow> dict" where
  "refresh_artifact_url M sv now response =
     (case dget response ''payload'' of
        JObj payload \<Rightarrow>
          if dget payload ''kind'' = JStr ''artifact_uri''
          then (case (dget payload ''sha256'', dget response ''access_id'') of
                  (JStr digest, JStr access_id) \<Rightarrow>
                    dict_set response ''payload'' (JObj (dict_set payload ''value'' (JStr (artifact_url M sv now access_id digest))))
                | _ \<Rightarrow> response)
          else response
      | _ \<Rightarrow> response)"

definition authorize_control :: "agent_service \<Rightarrow> string option \<Rightarrow> agent_server_error + unit" where
  "authorize_control sv authorization =
     (let denied = DataAgentAuthenticationError ''missing or invalid Data Agent bearer token'' in
      case ss_token (sv_settings sv) of
        None \<Rightarrow> Inr ()
      | Some token \<Rightarrow>
          (case authorization of
             None \<Rightarrow> Inl denied
           | Some supplied \<Rightarrow>
               (case compare_digest supplied (''Bearer '' @ token) of
                  None \<Rightarrow> Inl ServerRaises
                | Some same \<Rightarrow> require same denied (Inr ()))))"

record agent_artifact =
  ax_access_id :: string
  ax_path :: string
  ax_media_type :: string
  ax_sha256 :: string
  ax_size_bytes :: int

definition authorize_artifact ::
  "(bytes \<Rightarrow> bytes \<Rightarrow> string) \<Rightarrow> agent_service \<Rightarrow> rat \<Rightarrow> agent_artifact \<Rightarrow> (string \<times> string list) list \<Rightarrow> string option \<Rightarrow> agent_server_error + unit" where
  "authorize_artifact M sv now artifact query authorization =
     (case ss_artifact_secret (sv_settings sv) of
        None \<Rightarrow> authorize_control sv authorization
      | Some secret \<Rightarrow>
          (case (case map_option hd (map_of query ''expires'') of None \<Rightarrow> Some (- 1) | Some raw \<Rightarrow> int_parse raw) of
             None \<Rightarrow> Inl (DataAgentArtifactAuthorizationError ''invalid artifact URL expiry'')
           | Some expires \<Rightarrow>
               require (truncated now \<le> expires) (DataAgentArtifactAuthorizationError ''artifact URL has expired'') (
               case map_option hd (map_of query ''signature'') of
                 None \<Rightarrow> Inl (DataAgentArtifactAuthorizationError ''invalid artifact URL signature'')
               | Some signature \<Rightarrow>
                   (case compare_digest signature (artifact_signature M secret (ax_access_id artifact) expires (ax_sha256 artifact)) of
                      None \<Rightarrow> Inl ServerRaises
                    | Some same \<Rightarrow> require same (DataAgentArtifactAuthorizationError ''invalid artifact URL signature'') (Inr ())))))"

section \<open>Executing an access\<close>

definition resolve_access :: "agent_service \<Rightarrow> access_request \<Rightarrow> agent_server_error + resolved_access" where
  "resolve_access sv rq =
     (let bad = RequestProtocolError ''Data Agent request binding.location must be a non-empty string'' in
      case dget (rq_binding rq) ''location'' of
        JStr requested_location \<Rightarrow>
          require (requested_location \<noteq> []) bad (
          map_sum lookup_failure id
            (manifest_resolve (sv_manifest sv) (rq_plan_id rq) (rq_object_id rq) (rq_representation_id rq) requested_location))
      | _ \<Rightarrow> Inl bad)"

text \<open>A file is hashed in chunks of one mebibyte.\<close>

definition CHUNK_BYTES :: nat where
  "CHUNK_BYTES = 1024 * 1024"

function read_chunks :: "bytes \<Rightarrow> bytes list" where
  "read_chunks data = (if data = [] then [] else take CHUNK_BYTES data # read_chunks (drop CHUNK_BYTES data))"
  by pat_completeness auto
termination
  by (relation "measure length") (auto simp: CHUNK_BYTES_def)

declare read_chunks.simps [simp del]

definition hash_file :: "(bytes \<Rightarrow> string) \<Rightarrow> agent_machine \<Rightarrow> string \<Rightarrow> agent_server_error + string \<times> int" where
  "hash_file H mc path =
     bind_res (file_result (am_open mc path)) (\<lambda>data.
     let chunks = read_chunks data in Inr (H (concat chunks), sum_list (map (int \<circ> length) chunks)))"

definition read_inline :: "agent_service \<Rightarrow> agent_machine \<Rightarrow> string \<Rightarrow> agent_server_error + bytes" where
  "read_inline sv mc path =
     bind_res (file_result (am_open mc path)) (\<lambda>data.
     let limit = ss_max_inline_bytes (sv_settings sv); raw = take (nat (limit + 1)) data
     in require (int (length raw) \<le> limit)
          (DataAgentInlinePayloadTooLarge (''inline representation exceeds '' @ int_str limit @ '' bytes; use artifact_uri instead'')) (Inr raw))"

text \<open>The digest, the value and the size of what is served.\<close>

definition fetch_payload ::
  "(bytes \<Rightarrow> string) \<Rightarrow> (bytes \<Rightarrow> bytes \<Rightarrow> string) \<Rightarrow> agent_service \<Rightarrow> agent_machine \<Rightarrow> access_request \<Rightarrow> resolved_access
   \<Rightarrow> agent_server_error + string \<times> string \<times> int" where
  "fetch_payload H M sv mc rq rv =
     (if rv_kind rv = ''inline_text''
      then bind_res (read_inline sv mc (rv_path rv)) (\<lambda>raw.
           require (valid_utf8 raw) (InlineTextUndecodable (am_decode_error mc raw)) (Inr (H raw, raw, int (length raw))))
      else bind_res (hash_file H mc (rv_path rv)) (\<lambda>(digest, bytes_read).
           Inr (digest, artifact_url M sv (am_time mc 0) (rq_access_id rq) digest, bytes_read)))"

text \<open>The milliseconds between two readings of the clock, in doubles.\<close>

definition ms_between :: "rat \<Rightarrow> rat \<Rightarrow> pyfloat" where
  "ms_between t0 t1 = PyFloat (t1 < t0) (round_double (round_double \<bar>t1 - t0\<bar> * 1000))"

definition controlled_delay :: "rat \<Rightarrow> rat \<Rightarrow> rat" where
  "controlled_delay target elapsed = (if target \<le> elapsed then 0 else round_double (target - elapsed))"

definition object_catalog_version :: "agent_service \<Rightarrow> json" where
  "object_catalog_version sv = (case dm_object_catalog (sv_manifest sv) of None \<Rightarrow> JNull | Some c \<Rightarrow> JStr (oc_catalog_version c))"

definition nullable :: "('a \<Rightarrow> json) \<Rightarrow> 'a option \<Rightarrow> json" where
  "nullable f v = (case v of None \<Rightarrow> JNull | Some x \<Rightarrow> f x)"

definition execute_uncached ::
  "(bytes \<Rightarrow> string) \<Rightarrow> (bytes \<Rightarrow> bytes \<Rightarrow> string) \<Rightarrow> agent_service \<Rightarrow> agent_machine \<Rightarrow> access_request \<Rightarrow> resolved_access \<Rightarrow> agent_server_error + dict" where
  "execute_uncached H M sv mc rq rv =
     bind_res (fetch_payload H M sv mc rq rv) (\<lambda>(digest, value, bytes_read).
     bind_res (map_sum (\<lambda>_. ServerRaises) id (positive_multiplier (rq_latency_multiplier rq))) (\<lambda>multiplier.
     let perf = am_perf mc;
         target = round_double (magnitude (rv_minimum_latency_ms rv) * magnitude multiplier);
         delay = controlled_delay target (float_value (ms_between (perf [] 0) (perf [] 3)));
         sleeps = (if 0 < delay then [round_double (delay / 1000)] else [])
     in require (target < pow_rat 2 1024) ServerRaises (
        Inr [(''api_version'', JStr DATA_AGENT_API_VERSION), (''status'', JStr ''succeeded''), (''access_id'', JStr (rq_access_id rq)),
             (''object_id'', nullable JStr (rq_object_id rq)), (''object_catalog_version'', object_catalog_version sv),
             (''payload'', JObj [(''kind'', JStr (rv_kind rv)), (''media_type'', JStr (rv_media_type rv)), (''value'', JStr value), (''sha256'', JStr digest)]),
             (''telemetry'', JObj
                [(''service_latency_ms'', JFloat (ms_between (perf [] 0) (perf sleeps 4))), (''realized_cost'', JFloat (rv_realized_cost rv)),
                 (''bytes_read'', JInt bytes_read), (''location'', JStr (rv_location rv)), (''cache_hit'', nullable JBool (rv_cache_hit rv)),
                 (''timings_ms'', JObj [(''fetch'', JFloat (ms_between (perf [] 1) (perf [] 2))), (''controlled_delay'', float_of_rat delay)])])])))"

definition request_json :: "access_request \<Rightarrow> string" where
  "request_json rq = dumps (JObj (request_dict rq))"

definition agent_execute ::
  "(bytes \<Rightarrow> string) \<Rightarrow> (bytes \<Rightarrow> bytes \<Rightarrow> string) \<Rightarrow> agent_service \<Rightarrow> agent_machine \<Rightarrow> access_request \<Rightarrow> agent_state
   \<Rightarrow> agent_state \<times> (agent_server_error + dict)" where
  "agent_execute H M sv mc rq s =
     (let digest = H (request_json rq) in
      case store_get (ag_operations s) (rq_access_id rq) of
        Inl e \<Rightarrow> (s, Inl e)
      | Inr (Some cached) \<Rightarrow>
          (s, require (ao_request_sha256 cached = digest) conflict (Inr (refresh_artifact_url M sv (am_time mc 2) (ao_response cached))))
      | Inr None \<Rightarrow>
          (case bind_res (resolve_access sv rq) (execute_uncached H M sv mc rq) of
             Inl e \<Rightarrow> (s, Inl e)
           | Inr response \<Rightarrow>
               (case put_if_absent \<lparr>ao_access_id = rq_access_id rq, ao_request_sha256 = digest, ao_request_json = request_json rq, ao_response = response\<rparr>
                       (am_time mc 1) (ag_operations s) of
                  (rows, stored) \<Rightarrow>
                    (s\<lparr>ag_operations := rows\<rparr>,
                     bind_res stored (\<lambda>operation. Inr (refresh_artifact_url M sv (am_time mc 2) (ao_response operation)))))))"

text \<open>The request of a stored operation.\<close>

definition stored_request :: "agent_operation \<Rightarrow> agent_server_error + access_request" where
  "stored_request operation =
     (case loads_with False (ao_request_json operation) of
        Inr (JObj d) \<Rightarrow> map_sum request_failure id (request_from_dict d)
      | Inr _ \<Rightarrow> Inl (DataAgentServerError (''stored request is invalid for access '' @ ao_access_id operation))
      | Inl _ \<Rightarrow> Inl ServerRaises)"

definition resolve_artifact :: "agent_service \<Rightarrow> agent_machine \<Rightarrow> agent_state \<Rightarrow> string \<Rightarrow> agent_server_error + agent_artifact" where
  "resolve_artifact sv mc s access_id =
     bind_res (store_get (ag_operations s) access_id) (\<lambda>found.
     case found of
       None \<Rightarrow> Inl (ManifestLookupFails (''artifact access is unknown: '' @ access_id))
     | Some operation \<Rightarrow>
         bind_res (stored_request operation) (\<lambda>rq.
         bind_res (resolve_access sv rq) (\<lambda>rv.
         let no_artifact = ManifestLookupFails (''access does not refer to a downloadable artifact: '' @ access_id) in
         case dget (ao_response operation) ''payload'' of
           JObj payload \<Rightarrow>
             require (dget payload ''kind'' = JStr ''artifact_uri'') no_artifact (
             case dget payload ''sha256'' of
               JStr digest \<Rightarrow>
                 bind_res (file_result (am_stat mc (rv_path rv))) (\<lambda>size_bytes.
                 Inr \<lparr>ax_access_id = access_id, ax_path = rv_path rv, ax_media_type = rv_media_type rv, ax_sha256 = digest, ax_size_bytes = size_bytes\<rparr>)
             | _ \<Rightarrow> Inl (DataAgentServerError (''stored artifact digest is invalid for access '' @ access_id)))
         | _ \<Rightarrow> Inl no_artifact)))"

section \<open>Counting transfers\<close>

definition counted :: "(string \<times> int) list \<Rightarrow> string \<Rightarrow> int" where
  "counted d access_id = (case map_of d access_id of None \<Rightarrow> 0 | Some n \<Rightarrow> n)"

definition begin_artifact_download :: "string \<Rightarrow> agent_state \<Rightarrow> agent_state" where
  "begin_artifact_download access_id s =
     s\<lparr>ag_in_flight := dict_set (ag_in_flight s) access_id (counted (ag_in_flight s) access_id + 1),
       ag_generations := dict_set (ag_generations s) access_id (counted (ag_generations s) access_id + 1)\<rparr>"

definition commit_download :: "download_row \<Rightarrow> agent_state \<Rightarrow> agent_state" where
  "commit_download row s = s\<lparr>ag_downloads := ag_downloads s @ [row]\<rparr>"

definition release_download :: "string \<Rightarrow> agent_state \<Rightarrow> agent_state" where
  "release_download access_id s =
     (let remaining = counted (ag_in_flight s) access_id - 1
      in s\<lparr>ag_in_flight := (if 0 < remaining then dict_set (ag_in_flight s) access_id remaining else dict_del (ag_in_flight s) access_id)\<rparr>)"

text \<open>If the row cannot be committed the reservation is kept.\<close>

definition record_artifact_download :: "bool \<Rightarrow> download_row \<Rightarrow> agent_state \<Rightarrow> agent_state" where
  "record_artifact_download commit_fails row s =
     (if commit_fails then s else release_download (dl_access_id row) (commit_download row s))"

definition transfer_watermark :: "agent_state \<Rightarrow> string \<Rightarrow> int \<times> int" where
  "transfer_watermark s access_id = (counted (ag_in_flight s) access_id, counted (ag_generations s) access_id)"

definition stable_watermarks :: "int \<times> int \<Rightarrow> int \<times> int \<Rightarrow> bool" where
  "stable_watermarks before after \<longleftrightarrow> fst before = 0 \<and> fst after = 0 \<and> snd before = snd after"

definition telemetry_document ::
  "agent_service \<Rightarrow> access_request \<Rightarrow> string \<Rightarrow> int \<times> int \<Rightarrow> dict \<Rightarrow> int \<times> int \<Rightarrow> dict" where
  "telemetry_document sv rq access_id before summary after =
     [(''api_version'', JStr DATA_AGENT_API_VERSION), (''status'', JStr ''succeeded''), (''access_id'', JStr access_id),
      (''object_id'', nullable JStr (rq_object_id rq)), (''representation_id'', JStr (rq_representation_id rq)),
      (''object_catalog_version'', object_catalog_version sv),
      (''artifact_download'', JObj (dict_set (dict_set summary ''in_flight_request_count'' (JInt (fst after)))
          ''telemetry_complete'' (JBool (stable_watermarks before after))))]"

definition telemetry_request :: "agent_state \<Rightarrow> string \<Rightarrow> agent_server_error + access_request" where
  "telemetry_request s access_id =
     bind_res (store_get (ag_operations s) access_id) (\<lambda>found.
     case found of
       None \<Rightarrow> Inl (ManifestLookupFails (''access is unknown: '' @ access_id))
     | Some operation \<Rightarrow> stored_request operation)"

text \<open>The call when no other thread runs; \<open>Agent_Transfers\<close> lets the others run between its reads.\<close>

definition agent_access_telemetry :: "agent_service \<Rightarrow> agent_machine \<Rightarrow> agent_state \<Rightarrow> string \<Rightarrow> agent_server_error + dict" where
  "agent_access_telemetry sv mc s access_id =
     bind_res (telemetry_request s access_id) (\<lambda>rq.
     Inr (telemetry_document sv rq access_id (transfer_watermark s access_id)
           (artifact_download_summary (am_sum mc) (ag_downloads s) access_id) (transfer_watermark s access_id)))"

definition agent_health :: "agent_service \<Rightarrow> dict" where
  "agent_health sv =
     [(''status'', JStr ''ok''), (''api_version'', JStr DATA_AGENT_API_VERSION), (''node_id'', JStr (dm_node_id (sv_manifest sv))),
      (''representations'', JArr (map JStr (sort (map fst (dm_representations (sv_manifest sv)))))), (''credentials_recorded'', JBool False)]
     @ (case dm_object_catalog (sv_manifest sv) of
          None \<Rightarrow> []
        | Some c \<Rightarrow> [(''object_catalog_version'', JStr (oc_catalog_version c)), (''object_count'', JInt (int (length (oc_objects c))))])"

section \<open>Sending an artifact\<close>

definition agent_json_response :: "int \<Rightarrow> dict \<Rightarrow> http_response" where
  "agent_json_response status d =
     (let body = dumps (JObj d)
      in \<lparr>rs_status = status,
          rs_headers = [(''Content-Type'', ''application/json; charset=utf-8''), (''Content-Length'', int_str (int (length body))), (''Cache-Control'', ''no-store'')],
          rs_body = body\<rparr>)"

definition agent_error_response :: "int \<Rightarrow> string \<Rightarrow> string \<Rightarrow> http_response" where
  "agent_error_response status code message =
     agent_json_response status
       [(''api_version'', JStr DATA_AGENT_API_VERSION), (''status'', JStr ''error''), (''error'', JObj [(''code'', JStr code), (''message'', JStr message)])]"

text \<open>The interval of bytes that is asked for, and whether a \<open>Range\<close> header asks for it.\<close>

definition parse_range :: "headers \<Rightarrow> int \<Rightarrow> agent_server_error + int \<times> int \<times> bool" where
  "parse_range hs n =
     (let bad = Inl DataAgentRangeNotSatisfiable in
      if n = 0 then Inr (0, - 1, False)
      else case header_get hs ''Range'' of
        None \<Rightarrow> Inr (0, n - 1, False)
      | Some raw \<Rightarrow>
          if \<not> prefix ''bytes='' raw \<or> CHR '','' \<in> set raw then bad
          else (case partition_at CHR ''-'' (drop 6 raw) of
                  (start_text, None) \<Rightarrow> bad
                | (start_text, Some end_text) \<Rightarrow>
                    (case (if start_text \<noteq> []
                           then (case (int_parse start_text, if end_text \<noteq> [] then int_parse end_text else Some (n - 1)) of
                                   (Some a, Some b) \<Rightarrow> Some (a, b) | _ \<Rightarrow> None)
                           else (case int_parse end_text of
                                   Some k \<Rightarrow> if k \<le> 0 then None else Some (max 0 (n - k), n - 1) | None \<Rightarrow> None)) of
                       None \<Rightarrow> bad
                     | Some (a, b) \<Rightarrow> if a < 0 \<or> b < a \<or> n \<le> a then bad else Inr (a, min b (n - 1), True))))"

text \<open>The copy loop: the bytes that were written, and whether a write raised.\<close>

function send_chunks :: "(nat \<Rightarrow> bool) \<Rightarrow> nat \<Rightarrow> nat \<Rightarrow> bytes \<Rightarrow> bytes \<times> bool" where
  "send_chunks breaks k remaining data =
     (let chunk = take (min CHUNK_BYTES remaining) data in
      if remaining = 0 \<or> chunk = [] then ([], False)
      else if breaks k then ([], True)
      else case send_chunks breaks (Suc k) (remaining - length chunk) (drop (length chunk) data) of
             (sent, raised) \<Rightarrow> (chunk @ sent, raised))"
  by pat_completeness auto
termination
  by (relation "measure (\<lambda>(b, k, remaining, data). remaining)") (auto simp: CHUNK_BYTES_def)

declare send_chunks.simps [simp del]

record transfer =
  tr_responses :: "http_response list"
  tr_bytes_sent :: int
  tr_completed :: bool
  tr_failure :: "agent_server_error option"

definition artifact_headers :: "agent_artifact \<Rightarrow> int \<Rightarrow> int \<Rightarrow> bool \<Rightarrow> headers" where
  "artifact_headers artifact a b partial =
     [(''Content-Type'', ax_media_type artifact), (''Content-Length'', int_str (max 0 (b - a + 1))), (''Accept-Ranges'', ''bytes''),
      (''ETag'', [CHR 0x22] @ ax_sha256 artifact @ [CHR 0x22]), (''Cache-Control'', ''private, no-store'')]
     @ (if partial then [(''Content-Range'', ''bytes '' @ int_str a @ ''-'' @ int_str b @ ''/'' @ int_str (ax_size_bytes artifact))] else [])"

definition transfer_artifact :: "agent_machine \<Rightarrow> agent_artifact \<Rightarrow> int \<Rightarrow> int \<Rightarrow> bool \<Rightarrow> transfer" where
  "transfer_artifact mc artifact a b partial =
     (let n = nat (max 0 (b - a + 1));
          response = (\<lambda>body. \<lparr>rs_status = (if partial then 206 else 200), rs_headers = artifact_headers artifact a b partial, rs_body = body\<rparr>);
          broken = FileAccessFails ''connection broken''
      in if am_header_breaks mc
         then \<lparr>tr_responses = [], tr_bytes_sent = 0, tr_completed = False, tr_failure = Some broken\<rparr>
         else if n = 0 then \<lparr>tr_responses = [response []], tr_bytes_sent = 0, tr_completed = True, tr_failure = None\<rparr>
         else (case file_result (am_open mc (ax_path artifact)) of
                 Inl e \<Rightarrow> \<lparr>tr_responses = [response []], tr_bytes_sent = 0, tr_completed = False, tr_failure = Some e\<rparr>
               | Inr data \<Rightarrow>
                   (case send_chunks (am_chunk_breaks mc) 0 n (drop (nat a) data) of
                      (sent, raised) \<Rightarrow>
                        \<lparr>tr_responses = [response sent], tr_bytes_sent = int (length sent),
                         tr_completed = (\<not> raised \<and> \<not> am_flush_breaks mc \<and> length sent = n),
                         tr_failure = (if raised \<or> am_flush_breaks mc then Some broken else None)\<rparr>)))"

definition download_of :: "agent_machine \<Rightarrow> agent_artifact \<Rightarrow> int \<Rightarrow> int \<Rightarrow> transfer \<Rightarrow> download_row" where
  "download_of mc artifact a b t =
     \<lparr>dl_access_id = ax_access_id artifact, dl_range_start = a, dl_range_end = b, dl_bytes_sent = tr_bytes_sent t,
      dl_duration_ms = ms_between (am_perf mc [] 0) (am_perf mc [] 1), dl_completed = tr_completed t,
      dl_full_artifact = (ax_size_bytes artifact = 0 \<or> (a = 0 \<and> b = ax_size_bytes artifact - 1)),
      dl_started_at = am_time mc 0, dl_completed_at = am_time mc 1\<rparr>"

definition write_artifact ::
  "agent_machine \<Rightarrow> headers \<Rightarrow> agent_artifact \<Rightarrow> agent_state \<Rightarrow> agent_state \<times> http_response list \<times> agent_server_error option" where
  "write_artifact mc hs artifact s =
     (case parse_range hs (ax_size_bytes artifact) of
        Inl e \<Rightarrow> (s, [], Some e)
      | Inr (a, b, ranged) \<Rightarrow>
          let t = transfer_artifact mc artifact a b ranged
          in (record_artifact_download (am_commit_fails mc) (download_of mc artifact a b t) (begin_artifact_download (ax_access_id artifact) s),
              tr_responses t, tr_failure t))"

section \<open>The handler\<close>

datatype handled = Writes "http_response list" | Raised

fun post_failure :: "agent_server_error \<Rightarrow> http_response" where
  "post_failure (DataAgentAuthenticationError m) = agent_error_response 401 ''unauthorized'' m"
| "post_failure (RequestProtocolError m) = agent_error_response 400 ''invalid_request'' m"
| "post_failure (DataAgentIdempotencyConflict m) = agent_error_response 409 ''idempotency_conflict'' m"
| "post_failure (BindingMismatches m) = agent_error_response 409 ''binding_mismatch'' m"
| "post_failure (ManifestLookupFails m) = agent_error_response 404 ''not_found'' m"
| "post_failure (FileIsMissing m) = agent_error_response 404 ''artifact_not_found'' m"
| "post_failure (DataAgentInlinePayloadTooLarge m) = agent_error_response 413 ''inline_payload_too_large'' m"
| "post_failure (InlineTextUndecodable m) = agent_error_response 422 ''invalid_inline_text'' m"
| "post_failure (FileAccessFails m) = agent_error_response 500 ''io_error'' m"
| "post_failure _ = agent_error_response 500 ''internal_error'' ''Data Agent access failed''"

definition agent_content_length :: "headers \<Rightarrow> agent_server_error + int" where
  "agent_content_length hs =
     (case header_get hs ''Content-Length'' of
        None \<Rightarrow> Inl (RequestProtocolError ''Content-Length is required'')
      | Some raw \<Rightarrow>
          (case int_parse raw of
             None \<Rightarrow> Inl (RequestProtocolError ''invalid Content-Length'')
           | Some n \<Rightarrow> require (0 \<le> n) (RequestProtocolError ''Content-Length is required'') (Inr n)))"

definition check_protocol_version :: "headers \<Rightarrow> agent_server_error + unit" where
  "check_protocol_version hs =
     require (header_get hs ''X-Pathfinder-Protocol-Version'' = Some DATA_AGENT_API_VERSION)
       (RequestProtocolError ''missing or unsupported protocol version header'') (Inr ())"

definition posted_request :: "http_request \<Rightarrow> int \<Rightarrow> agent_server_error + access_request" where
  "posted_request rq content_length =
     (let raw = take (nat content_length) (rq_body rq) in
      require (int (length raw) = content_length) (RequestProtocolError ''request body is incomplete'') (
      case plain_loads_bytes raw of
        Inl _ \<Rightarrow> Inl (RequestProtocolError ''request body must be valid UTF-8 JSON'')
      | Inr (JObj d) \<Rightarrow>
          bind_res (map_sum request_failure id (request_from_dict d)) (\<lambda>request.
          require (header_get (rq_headers rq) ''Idempotency-Key'' = Some (rq_access_id request))
            (RequestProtocolError ''Idempotency-Key must equal request access_id'') (Inr request))
      | Inr _ \<Rightarrow> Inl (RequestProtocolError ''request body must be a JSON object'')))"

definition agent_do_POST ::
  "(bytes \<Rightarrow> string) \<Rightarrow> (bytes \<Rightarrow> bytes \<Rightarrow> string) \<Rightarrow> (string \<Rightarrow> string option) \<Rightarrow> agent_service \<Rightarrow> agent_machine \<Rightarrow> http_request \<Rightarrow> agent_state
   \<Rightarrow> agent_state \<times> handled" where
  "agent_do_POST H M netloc_error sv mc rq s =
     (case urlparse netloc_error (rq_path rq) of
        Inl _ \<Rightarrow> (s, Raised)
      | Inr parsed \<Rightarrow>
          if u_path parsed \<noteq> ''/v1/access'' then (s, Writes [agent_error_response 404 ''not_found'' ''unknown endpoint''])
          else (case bind_res (authorize_control sv (header_get (rq_headers rq) ''Authorization'')) (\<lambda>_.
                     bind_res (check_protocol_version (rq_headers rq)) (\<lambda>_. agent_content_length (rq_headers rq))) of
                  Inl e \<Rightarrow> (s, Writes [post_failure e])
                | Inr content_length \<Rightarrow>
                    if ss_max_request_bytes (sv_settings sv) < content_length
                    then (s, Writes [agent_error_response 413 ''request_too_large'' ''request body exceeds max_request_bytes''])
                    else (case posted_request rq content_length of
                            Inl e \<Rightarrow> (s, Writes [post_failure e])
                          | Inr request \<Rightarrow>
                              (case agent_execute H M sv mc request s of
                                 (s', Inl e) \<Rightarrow> (s', Writes [post_failure e])
                               | (s', Inr response) \<Rightarrow> (s', Writes [agent_json_response 200 response])))))"

text \<open>\<open>parse_qs(query)\<close>: fields without a value are left out.\<close>

fun lenient_fields :: "string list \<Rightarrow> (string \<times> string) list" where
  "lenient_fields [] = []"
| "lenient_fields (field # others) =
     (case partition_at CHR ''='' field of
        (name, None) \<Rightarrow> lenient_fields others
      | (name, Some v) \<Rightarrow> if v = [] then lenient_fields others else (unquote_plus name, unquote_plus v) # lenient_fields others)"

definition parse_qs_lenient :: "string \<Rightarrow> (string \<times> string list) list" where
  "parse_qs_lenient qs = group_fields [] (lenient_fields (split_on CHR ''&'' qs))"

definition valid_path_id :: "string \<Rightarrow> bool" where
  "valid_path_id access_id \<longleftrightarrow> access_id \<noteq> [] \<and> CHR ''/'' \<notin> set access_id \<and> CHR 0x5C \<notin> set access_id"

fun telemetry_failure :: "agent_server_error \<Rightarrow> handled" where
  "telemetry_failure (DataAgentAuthenticationError m) = Writes [agent_error_response 401 ''unauthorized'' m]"
| "telemetry_failure (RequestProtocolError m) = Writes [agent_error_response 400 ''invalid_request'' m]"
| "telemetry_failure (ManifestLookupFails m) = Writes [agent_error_response 404 ''not_found'' m]"
| "telemetry_failure _ = Raised"

definition get_telemetry :: "agent_service \<Rightarrow> agent_machine \<Rightarrow> http_request \<Rightarrow> agent_state \<Rightarrow> string \<Rightarrow> handled" where
  "get_telemetry sv mc rq s access_id =
     (if \<not> valid_path_id access_id then Writes [agent_error_response 400 ''invalid_access_id'' ''access ID is invalid'']
      else (case bind_res (authorize_control sv (header_get (rq_headers rq) ''Authorization'')) (\<lambda>_.
                 bind_res (check_protocol_version (rq_headers rq)) (\<lambda>_. agent_access_telemetry sv mc s access_id)) of
              Inl e \<Rightarrow> telemetry_failure e
            | Inr d \<Rightarrow> Writes [agent_json_response 200 d]))"

text \<open>What the \<open>except\<close> clauses write after the responses \<open>written\<close>.\<close>

fun download_failure :: "http_response list \<Rightarrow> int \<Rightarrow> agent_server_error \<Rightarrow> handled" where
  "download_failure written n (DataAgentAuthenticationError m) = Writes (written @ [agent_error_response 401 ''unauthorized'' m])"
| "download_failure written n (DataAgentArtifactAuthorizationError m) = Writes (written @ [agent_error_response 401 ''unauthorized'' m])"
| "download_failure written n (ManifestLookupFails m) = Writes (written @ [agent_error_response 404 ''not_found'' m])"
| "download_failure written n (FileIsMissing m) = Writes (written @ [agent_error_response 404 ''not_found'' m])"
| "download_failure written n DataAgentRangeNotSatisfiable =
     Writes (written @ [\<lparr>rs_status = 416, rs_headers = [(''Content-Range'', ''bytes */'' @ int_str n), (''Content-Length'', ''0'')], rs_body = []\<rparr>])"
| "download_failure written n (FileAccessFails m) = Writes (written @ [agent_error_response 500 ''io_error'' m])"
| "download_failure written n _ = Raised"

definition get_artifact ::
  "(bytes \<Rightarrow> bytes \<Rightarrow> string) \<Rightarrow> agent_service \<Rightarrow> agent_machine \<Rightarrow> http_request \<Rightarrow> string \<Rightarrow> string \<Rightarrow> agent_state \<Rightarrow> agent_state \<times> handled" where
  "get_artifact M sv mc rq query access_id s =
     (if \<not> valid_path_id access_id then (s, Writes [agent_error_response 400 ''invalid_artifact_id'' ''artifact access ID is invalid''])
      else (case resolve_artifact sv mc s access_id of
              Inl e \<Rightarrow> (s, download_failure [] 0 e)
            | Inr artifact \<Rightarrow>
                (case authorize_artifact M sv (am_time mc 2) artifact (parse_qs_lenient query) (header_get (rq_headers rq) ''Authorization'') of
                   Inl e \<Rightarrow> (s, download_failure [] (ax_size_bytes artifact) e)
                 | Inr _ \<Rightarrow>
                     (case write_artifact mc (rq_headers rq) artifact s of
                        (s', written, None) \<Rightarrow> (s', Writes written)
                      | (s', written, Some e) \<Rightarrow> (s', download_failure written (ax_size_bytes artifact) e)))))"

definition TELEMETRY_PREFIX :: string where
  "TELEMETRY_PREFIX = ''/v1/accesses/''"

definition TELEMETRY_SUFFIX :: string where
  "TELEMETRY_SUFFIX = ''/telemetry''"

definition ARTIFACT_PREFIX :: string where
  "ARTIFACT_PREFIX = ''/v1/artifacts/''"

definition agent_do_GET ::
  "(bytes \<Rightarrow> bytes \<Rightarrow> string) \<Rightarrow> (string \<Rightarrow> string option) \<Rightarrow> agent_service \<Rightarrow> agent_machine \<Rightarrow> http_request \<Rightarrow> agent_state \<Rightarrow> agent_state \<times> handled" where
  "agent_do_GET M netloc_error sv mc rq s =
     (case urlparse netloc_error (rq_path rq) of
        Inl _ \<Rightarrow> (s, Raised)
      | Inr parsed \<Rightarrow>
          let path = u_path parsed in
          if path = ''/healthz'' then (s, Writes [agent_json_response 200 (agent_health sv)])
          else if prefix TELEMETRY_PREFIX path \<and> suffix TELEMETRY_SUFFIX path
          then (s, get_telemetry sv mc rq s
                     (unquote (drop (length TELEMETRY_PREFIX) (take (length path - length TELEMETRY_SUFFIX) path))))
          else if \<not> prefix ARTIFACT_PREFIX path then (s, Writes [agent_error_response 404 ''not_found'' ''unknown endpoint''])
          else get_artifact M sv mc rq (u_query parsed) (unquote (drop (length ARTIFACT_PREFIX) path)) s)"

end
