(* ===== verification/Agent_Transfers.thy ===== *)
theory Agent_Transfers
  imports Agent_Server "HOL-Library.Multiset"
begin

text \<open>
  Transfers and telemetry of the Data Agent server with their threads interleaved (\<open>begin_artifact_download\<close>,
  \<open>record_artifact_download\<close>, \<open>transfer_watermark\<close> and \<open>access_telemetry\<close> in \<open>pathfinder/data_agent_server.py\<close>).

  A thread that sends an artifact reserves the transfer, sends, commits its row or fails to, and releases the reservation if it did
  not fail. A thread that answers a telemetry request samples the counters, reads the summary, and samples the counters
  again. Each of these is one step, for each is one critical section or one transaction; steps of different threads interleave
  freely. \<open>ts_begun\<close> counts the transfers that were reserved, and \<open>ts_history\<close> lists what each of them really sent when it
  ended, whether or not its row was committed: they are not part of the program. A run is that of one process, for the counters are in memory.
\<close>

section \<open>Steps\<close>

datatype agent_thread =
  Sending string
| Recorded string
| Lost string
| Sampled string "int \<times> int"
| Summarized string "int \<times> int" dict

record transfer_system =
  ts_state :: agent_state
  ts_threads :: "agent_thread multiset"
  ts_begun :: "string \<Rightarrow> nat"
  ts_history :: "download_row list"

definition open_transfers :: "operation_row list \<Rightarrow> download_row list \<Rightarrow> transfer_system" where
  "open_transfers operations downloads =
     \<lparr>ts_state = open_agent operations downloads, ts_threads = {#}, ts_begun = (\<lambda>_. 0), ts_history = []\<rparr>"

inductive transfer_step :: "(pyfloat list \<Rightarrow> pyfloat) \<Rightarrow> transfer_system \<Rightarrow> transfer_system \<Rightarrow> bool" for sum_reals where
  reserve: "transfer_step sum_reals \<lparr>ts_state = s, ts_threads = T, ts_begun = n, ts_history = h\<rparr>
     \<lparr>ts_state = begin_artifact_download a s, ts_threads = add_mset (Sending a) T, ts_begun = n(a := Suc (n a)), ts_history = h\<rparr>"
| commit: "dl_access_id row = a \<Longrightarrow>
   transfer_step sum_reals \<lparr>ts_state = s, ts_threads = add_mset (Sending a) T, ts_begun = n, ts_history = h\<rparr>
     \<lparr>ts_state = commit_download row s, ts_threads = add_mset (Recorded a) T, ts_begun = n, ts_history = h @ [row]\<rparr>"
| lose: "dl_access_id row = a \<Longrightarrow>
   transfer_step sum_reals \<lparr>ts_state = s, ts_threads = add_mset (Sending a) T, ts_begun = n, ts_history = h\<rparr>
     \<lparr>ts_state = s, ts_threads = add_mset (Lost a) T, ts_begun = n, ts_history = h @ [row]\<rparr>"
| release: "transfer_step sum_reals \<lparr>ts_state = s, ts_threads = add_mset (Recorded a) T, ts_begun = n, ts_history = h\<rparr>
     \<lparr>ts_state = release_download a s, ts_threads = T, ts_begun = n, ts_history = h\<rparr>"
| sample: "transfer_step sum_reals \<lparr>ts_state = s, ts_threads = T, ts_begun = n, ts_history = h\<rparr>
     \<lparr>ts_state = s, ts_threads = add_mset (Sampled a (transfer_watermark s a)) T, ts_begun = n, ts_history = h\<rparr>"
| summarize: "transfer_step sum_reals \<lparr>ts_state = s, ts_threads = add_mset (Sampled a w) T, ts_begun = n, ts_history = h\<rparr>
     \<lparr>ts_state = s, ts_threads = add_mset (Summarized a w (artifact_download_summary sum_reals (ag_downloads s) a)) T, ts_begun = n, ts_history = h\<rparr>"
| answer: "transfer_step sum_reals \<lparr>ts_state = s, ts_threads = add_mset (Summarized a w d) T, ts_begun = n, ts_history = h\<rparr>
     \<lparr>ts_state = s, ts_threads = T, ts_begun = n, ts_history = h\<rparr>"
| access: "transfer_step sum_reals \<lparr>ts_state = s, ts_threads = T, ts_begun = n, ts_history = h\<rparr>
     \<lparr>ts_state = s\<lparr>ag_operations := operations\<rparr>, ts_threads = T, ts_begun = n, ts_history = h\<rparr>"

inductive_cases transfer_stepE: "transfer_step sum_reals x y"

text \<open>What the handler does for one artifact is a run of these steps.\<close>

definition transfer_run :: "(pyfloat list \<Rightarrow> pyfloat) \<Rightarrow> transfer_system \<Rightarrow> transfer_system \<Rightarrow> bool" where
  "transfer_run sum_reals = (transfer_step sum_reals)\<^sup>*\<^sup>*"

lemma write_artifact_runs:
  assumes "write_artifact mc hs artifact (ts_state x) = (s', written, failure)"
  shows "\<exists>y. transfer_run sum_reals x y \<and> ts_state y = s' \<and> ts_threads x \<subseteq># ts_threads y"
proof -
  obtain s T n h where x: "x = \<lparr>ts_state = s, ts_threads = T, ts_begun = n, ts_history = h\<rparr>" by (cases x) auto
  show ?thesis
  proof (cases "parse_range hs (ax_size_bytes artifact)")
    case (Inl e)
    then show ?thesis using assms by (auto simp: write_artifact_def transfer_run_def)
  next
    case (Inr r)
    obtain a b ranged where r: "r = (a, b, ranged)" by (cases r) auto
    define i where "i = ax_access_id artifact"
    define row where "row = download_of mc artifact a b (transfer_artifact mc artifact a b ranged)"
    have id: "dl_access_id row = i" by (simp add: row_def i_def download_of_def)
    have s': "s' = record_artifact_download (am_commit_fails mc) row (begin_artifact_download i s)"
      using assms Inr by (simp add: write_artifact_def r x row_def i_def Let_def)
    let ?y = "\<lambda>s T h. \<lparr>ts_state = s, ts_threads = T, ts_begun = n(i := Suc (n i)), ts_history = h\<rparr>"
    note start = transfer_step.reserve [of sum_reals s T n h i]
    show ?thesis
    proof (cases "am_commit_fails mc")
      case True
      have "transfer_step sum_reals (?y (begin_artifact_download i s) (add_mset (Sending i) T) h)
          (?y (begin_artifact_download i s) (add_mset (Lost i) T) (h @ [row]))" by (rule transfer_step.lose [OF id])
      with start have "transfer_run sum_reals x (?y (begin_artifact_download i s) (add_mset (Lost i) T) (h @ [row]))"
        unfolding transfer_run_def x by (meson converse_rtranclp_into_rtranclp rtranclp.rtrancl_refl)
      then show ?thesis using True s' x by (intro exI conjI) (auto simp: record_artifact_download_def)
    next
      case False
      have "transfer_step sum_reals (?y (begin_artifact_download i s) (add_mset (Sending i) T) h)
          (?y (commit_download row (begin_artifact_download i s)) (add_mset (Recorded i) T) (h @ [row]))" by (rule transfer_step.commit [OF id])
      moreover have "transfer_step sum_reals (?y (commit_download row (begin_artifact_download i s)) (add_mset (Recorded i) T) (h @ [row]))
          (?y (release_download i (commit_download row (begin_artifact_download i s))) T (h @ [row]))" by (rule transfer_step.release)
      ultimately have "transfer_run sum_reals x (?y (release_download i (commit_download row (begin_artifact_download i s))) T (h @ [row]))"
        using start unfolding transfer_run_def x by (meson converse_rtranclp_into_rtranclp rtranclp.rtrancl_refl)
      then show ?thesis using False s' x id by (intro exI conjI) (auto simp: record_artifact_download_def)
    qed
  qed
qed

section \<open>The invariant\<close>

definition reserved :: "string \<Rightarrow> agent_thread \<Rightarrow> bool" where
  "reserved a t \<longleftrightarrow> t \<in> {Sending a, Recorded a, Lost a}"

definition reservations :: "string \<Rightarrow> agent_thread multiset \<Rightarrow> nat" where
  "reservations a T = size (filter_mset (reserved a) T)"

lemma reservations_simps [simp]:
  "reservations a {#} = 0" "reservations a (add_mset t T) = (if reserved a t then Suc (reservations a T) else reservations a T)"
  by (simp_all add: reservations_def)

lemma reserved_simps [simp]:
  "reserved a (Sending b) \<longleftrightarrow> a = b" "reserved a (Recorded b) \<longleftrightarrow> a = b" "reserved a (Lost b) \<longleftrightarrow> a = b"
  "\<not> reserved a (Sampled b w)" "\<not> reserved a (Summarized b w d)"
  by (auto simp: reserved_def)

lemma no_reservation: "reservations a T = 0 \<Longrightarrow> t \<in># T \<Longrightarrow> \<not> reserved a t"
  by (simp add: reservations_def)

definition of_access :: "string \<Rightarrow> download_row list \<Rightarrow> download_row list" where
  "of_access a rows = filter (\<lambda>r. dl_access_id r = a) rows"

lemma of_access_append [simp]: "of_access a (xs @ ys) = of_access a xs @ of_access a ys"
  by (simp add: of_access_def)

lemma of_access_one [simp]: "of_access a [row] = (if dl_access_id row = a then [row] else [])"
  by (simp add: of_access_def)

lemma summary_of_access: "artifact_download_summary f rows a = artifact_download_summary f (of_access a rows) a"
  by (simp add: artifact_download_summary_def of_access_def)

lemma counted_set [simp]: "counted (dict_set d a n) b = (if b = a then n else counted d b)"
  by (simp add: counted_def)

lemma counted_del [simp]: "counted (dict_del d a) b = (if b = a then 0 else counted d b)"
  by (simp add: counted_def)

definition sending :: "string \<Rightarrow> agent_thread multiset \<Rightarrow> nat" where
  "sending a T = size (filter_mset (\<lambda>t. t = Sending a) T)"

lemma sending_simps [simp]:
  "sending a {#} = 0" "sending a (add_mset t T) = (if t = Sending a then Suc (sending a T) else sending a T)"
  by (simp_all add: sending_def)

text \<open>
  The count in flight is that of the reservations; the generation is the number of transfers begun, and these are the ones that are being sent
  and the ones in the history; while an access has no lost transfer the table holds its rows in the history. A sample with no transfer in
  flight under the present generation tells that none is in flight, and a summary taken since is that of the present table.
\<close>

definition access_inv :: "download_row list \<Rightarrow> transfer_system \<Rightarrow> string \<Rightarrow> bool" where
  "access_inv rows x a \<longleftrightarrow>
     counted (ag_in_flight (ts_state x)) a = int (reservations a (ts_threads x))
     \<and> counted (ag_generations (ts_state x)) a = int (ts_begun x a)
     \<and> ts_begun x a = sending a (ts_threads x) + length (of_access a (ts_history x))
     \<and> (Lost a \<notin># ts_threads x \<longrightarrow> of_access a (ag_downloads (ts_state x)) = of_access a rows @ of_access a (ts_history x))"

text \<open>\<open>n\<close> are the transfers begun, \<open>r\<close> the reservations and \<open>rows\<close> the table at present.\<close>

definition current :: "(string \<Rightarrow> nat) \<Rightarrow> string \<Rightarrow> int \<times> int \<Rightarrow> bool" where
  "current n a w \<longleftrightarrow> fst w = 0 \<and> snd w = int (n a)"

fun reader_ok :: "(pyfloat list \<Rightarrow> pyfloat) \<Rightarrow> (string \<Rightarrow> nat) \<Rightarrow> (string \<Rightarrow> nat) \<Rightarrow> download_row list \<Rightarrow> agent_thread \<Rightarrow> bool" where
  "reader_ok f n r rows (Sampled a w) \<longleftrightarrow> snd w \<le> int (n a) \<and> (current n a w \<longrightarrow> r a = 0)"
| "reader_ok f n r rows (Summarized a w d) \<longleftrightarrow>
     snd w \<le> int (n a) \<and> (current n a w \<longrightarrow> r a = 0 \<and> d = artifact_download_summary f rows a)"
| "reader_ok f n r rows _ \<longleftrightarrow> True"

lemma reader_ok_mono:
  assumes "reader_ok f n r rows t" and "\<And>a. n a \<le> n' a"
    and "\<And>a. n' a = n a \<Longrightarrow> r a = 0 \<Longrightarrow> r' a = 0 \<and> of_access a rows' = of_access a rows"
  shows "reader_ok f n' r' rows' t"
proof (cases t)
  case (Sampled a w)
  then show ?thesis using assms(1) assms(2) [of a] assms(3) [of a] by (auto simp: current_def)
next
  case (Summarized a w d)
  then show ?thesis
    using assms(1) assms(2) [of a] assms(3) [of a] summary_of_access [of f rows a] summary_of_access [of f rows' a]
    by (auto simp: current_def)
qed simp_all

definition readers_ok :: "(pyfloat list \<Rightarrow> pyfloat) \<Rightarrow> transfer_system \<Rightarrow> bool" where
  "readers_ok f x \<longleftrightarrow>
     (\<forall>t \<in># ts_threads x. reader_ok f (ts_begun x) (\<lambda>a. reservations a (ts_threads x)) (ag_downloads (ts_state x)) t)"

definition transfer_inv :: "(pyfloat list \<Rightarrow> pyfloat) \<Rightarrow> download_row list \<Rightarrow> transfer_system \<Rightarrow> bool" where
  "transfer_inv f rows x \<longleftrightarrow> (\<forall>a. access_inv rows x a) \<and> readers_ok f x"

lemmas transfer_defs = begin_artifact_download_def commit_download_def release_download_def transfer_watermark_def Let_def

lemma transfer_step_access:
  assumes "transfer_step sum_reals x y" and "access_inv rows x b"
  shows "access_inv rows y b"
  using assms(1)
proof (cases rule: transfer_step.cases)
  case (release s a T n h)
  then show ?thesis using assms(2) by (auto simp: access_inv_def transfer_defs)
qed (use assms(2) in \<open>auto simp: access_inv_def transfer_defs\<close>)

lemma readers_step:
  assumes "readers_ok f \<lparr>ts_state = s, ts_threads = T + old, ts_begun = n, ts_history = h\<rparr>" and "\<And>a. n a \<le> n' a"
    and "\<And>a. n' a = n a \<Longrightarrow> reservations a (T + old) = 0 \<Longrightarrow>
      reservations a (T + new) = 0 \<and> of_access a (ag_downloads s') = of_access a (ag_downloads s)"
    and "\<And>t. t \<in># new \<Longrightarrow> reader_ok f n' (\<lambda>a. reservations a (T + new)) (ag_downloads s') t"
  shows "readers_ok f \<lparr>ts_state = s', ts_threads = T + new, ts_begun = n', ts_history = h'\<rparr>"
proof -
  have "reader_ok f n' (\<lambda>a. reservations a (T + new)) (ag_downloads s') t" if "t \<in># T" for t
  proof (rule reader_ok_mono)
    show "reader_ok f n (\<lambda>a. reservations a (T + old)) (ag_downloads s) t" using assms(1) that by (simp add: readers_ok_def)
  qed (use assms(2,3) in auto)
  then show ?thesis using assms(4) by (auto simp: readers_ok_def)
qed

lemma transfer_step_readers:
  assumes "transfer_step f x y" and "\<And>a. access_inv rows x a" and "readers_ok f x"
  shows "readers_ok f y"
  using assms(1)
proof (cases rule: transfer_step.cases)
  case (reserve s T n h a)
  have "readers_ok f \<lparr>ts_state = begin_artifact_download a s, ts_threads = T + {#Sending a#}, ts_begun = n(a := Suc (n a)), ts_history = h\<rparr>"
    by (rule readers_step [where s = s and old = "{#}" and n = n and h = h])
      (use reserve assms(3) in \<open>auto simp: transfer_defs split: if_splits\<close>)
  then show ?thesis using reserve by simp
next
  case (commit row a s T n h)
  have "readers_ok f \<lparr>ts_state = commit_download row s, ts_threads = T + {#Recorded a#}, ts_begun = n, ts_history = h @ [row]\<rparr>"
    by (rule readers_step [where s = s and old = "{#Sending a#}" and n = n and h = h])
      (use commit assms(3) in \<open>auto simp: transfer_defs split: if_splits\<close>)
  then show ?thesis using commit by simp
next
  case (lose row a s T n h)
  have "readers_ok f \<lparr>ts_state = s, ts_threads = T + {#Lost a#}, ts_begun = n, ts_history = h @ [row]\<rparr>"
    by (rule readers_step [where s = s and old = "{#Sending a#}" and n = n and h = h])
      (use lose assms(3) in \<open>auto simp: transfer_defs split: if_splits\<close>)
  then show ?thesis using lose by simp
next
  case (release s a T n h)
  have "readers_ok f \<lparr>ts_state = release_download a s, ts_threads = T + {#}, ts_begun = n, ts_history = h\<rparr>"
    by (rule readers_step [where s = s and old = "{#Recorded a#}" and n = n and h = h])
      (use release assms(3) in \<open>auto simp: transfer_defs split: if_splits\<close>)
  then show ?thesis using release by simp
next
  case (sample s T n h a)
  have "readers_ok f \<lparr>ts_state = s, ts_threads = T + {#Sampled a (transfer_watermark s a)#}, ts_begun = n, ts_history = h\<rparr>"
    by (rule readers_step [where s = s and old = "{#}" and n = n and h = h])
      (use sample assms(3) assms(2) [of a] in \<open>auto simp: transfer_defs access_inv_def current_def split: if_splits\<close>)
  then show ?thesis using sample by simp
next
  case (summarize s a w T n h)
  have "readers_ok f \<lparr>ts_state = s, ts_threads = T + {#Summarized a w (artifact_download_summary f (ag_downloads s) a)#}, ts_begun = n, ts_history = h\<rparr>"
    by (rule readers_step [where s = s and old = "{#Sampled a w#}" and n = n and h = h])
      (use summarize assms(3) in \<open>auto simp: readers_ok_def split: if_splits\<close>)
  then show ?thesis using summarize by simp
next
  case (answer s a w d T n h)
  have "readers_ok f \<lparr>ts_state = s, ts_threads = T + {#}, ts_begun = n, ts_history = h\<rparr>"
    by (rule readers_step [where s = s and old = "{#Summarized a w d#}" and n = n and h = h])
      (use answer assms(3) in \<open>auto simp: transfer_defs split: if_splits\<close>)
  then show ?thesis using answer by simp
next
  case (access s T n h operations)
  then show ?thesis using assms(3) by (simp add: readers_ok_def)
qed

lemma transfer_run_inv:
  assumes "transfer_run f (open_transfers operations rows) x"
  shows "transfer_inv f rows x"
  using assms unfolding transfer_run_def
proof (induction rule: rtranclp_induct)
  case base
  show ?case by (simp add: transfer_inv_def access_inv_def readers_ok_def open_transfers_def open_agent_def counted_def of_access_def)
next
  case (step y z)
  then show ?case unfolding transfer_inv_def using transfer_step_access transfer_step_readers by blast
qed

lemma lost_step: "transfer_step f x y \<Longrightarrow> Lost a \<in># ts_threads x \<Longrightarrow> Lost a \<in># ts_threads y"
  by (cases rule: transfer_step.cases) auto

section \<open>An example\<close>

text \<open>One transfer that is sent and recorded while a telemetry request waits to be answered.\<close>

definition demo_row :: download_row where
  "demo_row = \<lparr>dl_access_id = ''a'', dl_range_start = 0, dl_range_end = 9, dl_bytes_sent = 10, dl_duration_ms = PyFloat False 1, dl_completed = True,
     dl_full_artifact = True, dl_started_at = 5, dl_completed_at = 6\<rparr>"

definition demo_counters :: "download_row list \<Rightarrow> (string \<times> int) list \<Rightarrow> agent_state" where
  "demo_counters rows in_flight = \<lparr>ag_operations = [], ag_downloads = rows, ag_in_flight = in_flight, ag_generations = [(''a'', 1)]\<rparr>"

definition demo_system :: "agent_state \<Rightarrow> agent_thread multiset \<Rightarrow> download_row list \<Rightarrow> transfer_system" where
  "demo_system s T h = \<lparr>ts_state = s, ts_threads = T, ts_begun = (\<lambda>_. 0)(''a'' := 1), ts_history = h\<rparr>"

lemma transfer_run_step: "transfer_run f x y \<Longrightarrow> transfer_step f y z \<Longrightarrow> transfer_run f x z"
  by (simp add: transfer_run_def rtranclp.rtrancl_into_rtrancl)

lemma demo_sending: "transfer_run f (open_transfers [] []) (demo_system (demo_counters [] [(''a'', 1)]) {#Sending ''a''#} [])"
proof (rule transfer_run_step)
  show "transfer_run f (open_transfers [] []) (open_transfers [] [])" by (simp add: transfer_run_def)
  show "transfer_step f (open_transfers [] []) (demo_system (demo_counters [] [(''a'', 1)]) {#Sending ''a''#} [])"
    using transfer_step.reserve [of f "open_agent [] []" "{#}" "\<lambda>_. 0" "[]" "''a''"]
    by (simp add: open_transfers_def demo_system_def demo_counters_def begin_artifact_download_def open_agent_def counted_def)
qed

lemma demo_lost: "transfer_run f (open_transfers [] []) (demo_system (demo_counters [] [(''a'', 1)]) {#Lost ''a''#} [demo_row])"
  using transfer_run_step [OF demo_sending] transfer_step.lose [of demo_row "''a''" f "demo_counters [] [(''a'', 1)]" "{#}" "(\<lambda>_. 0)(''a'' := 1)" "[]"]
  by (simp add: demo_system_def demo_row_def)

lemma demo_summarized:
  "transfer_run f (open_transfers [] [])
     (demo_system (demo_counters [demo_row] []) {#Summarized ''a'' (0, 1) (artifact_download_summary f [demo_row] ''a'')#} [demo_row])"
proof -
  let ?sys = "\<lambda>s T h. \<lparr>ts_state = s, ts_threads = T, ts_begun = (\<lambda>_. 0)(''a'' := 1), ts_history = h\<rparr>"
  have "transfer_step f (?sys (demo_counters [] [(''a'', 1)]) {#Sending ''a''#} [])
      (?sys (demo_counters [demo_row] [(''a'', 1)]) {#Recorded ''a''#} [demo_row])"
    using transfer_step.commit [of demo_row "''a''" f "demo_counters [] [(''a'', 1)]" "{#}" "(\<lambda>_. 0)(''a'' := 1)" "[]"]
    by (simp add: demo_row_def commit_download_def demo_counters_def)
  moreover have "transfer_step f (?sys (demo_counters [demo_row] [(''a'', 1)]) {#Recorded ''a''#} [demo_row])
      (?sys (demo_counters [demo_row] []) {#} [demo_row])"
    using transfer_step.release [of f "demo_counters [demo_row] [(''a'', 1)]" "''a''" "{#}"]
    by (simp add: release_download_def demo_counters_def counted_def dict_del_def)
  moreover have "transfer_step f (?sys (demo_counters [demo_row] []) {#} [demo_row])
      (?sys (demo_counters [demo_row] []) {#Sampled ''a'' (0, 1)#} [demo_row])"
    using transfer_step.sample [of f "demo_counters [demo_row] []" "{#}" _ _ "''a''"] by (simp add: transfer_watermark_def demo_counters_def counted_def)
  moreover have "transfer_step f (?sys (demo_counters [demo_row] []) {#Sampled ''a'' (0, 1)#} [demo_row])
      (?sys (demo_counters [demo_row] []) {#Summarized ''a'' (0, 1) (artifact_download_summary f [demo_row] ''a'')#} [demo_row])"
    using transfer_step.summarize [of f "demo_counters [demo_row] []" "''a''" "(0, 1)" "{#}"] by (simp add: demo_counters_def)
  ultimately show ?thesis using demo_sending [of f] unfolding demo_system_def by (meson transfer_run_step)
qed

section \<open>The results\<close>

definition reported_downloads :: "dict \<Rightarrow> dict" where
  "reported_downloads document = (case dget document ''artifact_download'' of JObj d \<Rightarrow> d | _ \<Rightarrow> [])"

lemma reported_document:
  "reported_downloads (telemetry_document sv rq a before d after)
     = dict_set (dict_set d ''in_flight_request_count'' (JInt (fst after))) ''telemetry_complete'' (JBool (stable_watermarks before after))"
  by (simp add: reported_downloads_def telemetry_document_def dget_def)

text \<open>
  (C36) Telemetry that is reported complete misses nothing. In every interleaving of transfers and telemetry requests since the service
  was opened on a table \<open>rows\<close>, take the document that answers a request when its second sample of the counters is taken. If it says
  \<open>telemetry_complete\<close>, then every transfer that was begun for the access has ended, and each field of the summary is that of the
  rows found at the start and of what all those transfers really sent, whatever became of their rows.
\<close>

theorem complete_telemetry_counts_every_transfer:
  assumes "transfer_run f (open_transfers operations rows) x" and "Summarized a before d \<in># ts_threads x"
    and "document = telemetry_document sv rq a before d (transfer_watermark (ts_state x) a)"
    and "dget (reported_downloads document) ''telemetry_complete'' = JBool True"
  shows "length (of_access a (ts_history x)) = ts_begun x a
    \<and> (\<forall>name \<in> {''download_request_count'', ''completed_request_count'', ''full_download_count'', ''bytes_sent'', ''transfer_latency_ms'', ''latest_completed_at''}.
         dget (reported_downloads document) name = dget (artifact_download_summary f (rows @ ts_history x) a) name)"
proof -
  note inv = transfer_run_inv [OF assms(1), unfolded transfer_inv_def readers_ok_def]
  have acc: "access_inv rows x a" using inv by blast
  have stable: "stable_watermarks before (transfer_watermark (ts_state x) a)"
    using assms(3,4) by (simp add: reported_document)
  then have now: "current (ts_begun x) a before" and free: "reservations a (ts_threads x) = 0"
    using acc by (auto simp: stable_watermarks_def current_def transfer_watermark_def access_inv_def)
  have "reader_ok f (ts_begun x) (\<lambda>a. reservations a (ts_threads x)) (ag_downloads (ts_state x)) (Summarized a before d)" using inv assms(2) by blast
  then have d: "d = artifact_download_summary f (ag_downloads (ts_state x)) a" using now by simp
  have "\<not> reserved a (Lost a) \<or> Lost a \<notin># ts_threads x" using no_reservation [OF free] by blast
  then have rows: "of_access a (ag_downloads (ts_state x)) = of_access a (rows @ ts_history x)" using acc by (simp add: access_inv_def)
  have "d = artifact_download_summary f (rows @ ts_history x) a"
    unfolding d by (metis rows summary_of_access)
  moreover have "filter_mset (\<lambda>t. t = Sending a) (ts_threads x) = {#}" using no_reservation [OF free, of "Sending a"] by auto
  then have "sending a (ts_threads x) = 0" unfolding sending_def by simp
  ultimately show ?thesis using acc assms(3) by (auto simp: access_inv_def reported_document)
qed

theorem complete_telemetry_counts_every_transfer_witness:
  "\<exists>x before d. transfer_run hd (open_transfers [] []) x \<and> Summarized ''a'' before d \<in># ts_threads x
     \<and> ts_begun x ''a'' = 1 \<and> length (of_access ''a'' (ts_history x)) = 1"
proof -
  let ?d = "artifact_download_summary hd [demo_row] ''a''"
  let ?x = "demo_system (demo_counters [demo_row] []) {#Summarized ''a'' (0, 1) ?d#} [demo_row]"
  let ?document = "telemetry_document sv rq ''a'' (0, 1) ?d (transfer_watermark (ts_state ?x) ''a'')"
  have there: "Summarized ''a'' (0, 1) ?d \<in># ts_threads ?x" by (simp add: demo_system_def)
  moreover have "dget (reported_downloads ?document) ''telemetry_complete'' = JBool True"
    by (simp add: demo_system_def demo_counters_def reported_document stable_watermarks_def transfer_watermark_def counted_def)
  ultimately have "length (of_access ''a'' (ts_history ?x)) = ts_begun ?x ''a''"
    using complete_telemetry_counts_every_transfer [OF demo_summarized _ refl] by blast
  moreover have "ts_begun ?x ''a'' = 1" by (simp add: demo_system_def)
  ultimately show ?thesis using demo_summarized [of hd] there by metis
qed

text \<open>
  (C37) A transfer whose row could not be committed keeps its access incomplete: from then on, as long as the process runs and
  whatever other threads do, no telemetry document of the access says \<open>telemetry_complete\<close>.
\<close>

theorem lost_transfer_never_complete:
  assumes "transfer_run f (open_transfers operations rows) x" and "Lost a \<in># ts_threads x" and "transfer_run f x y"
  shows "dget (reported_downloads (telemetry_document sv rq a before d (transfer_watermark (ts_state y) a))) ''telemetry_complete'' = JBool False"
proof -
  have "transfer_run f (open_transfers operations rows) y" using assms(1,3) by (simp add: transfer_run_def)
  then have acc: "access_inv rows y a" using transfer_run_inv [unfolded transfer_inv_def] by blast
  have "Lost a \<in># ts_threads y"
    using assms(3,2) unfolding transfer_run_def by (induction rule: rtranclp_induct) (auto dest: lost_step)
  then have "reservations a (ts_threads y) \<noteq> 0" using no_reservation [of a "ts_threads y" "Lost a"] by auto
  then have "fst (transfer_watermark (ts_state y) a) \<noteq> 0" using acc by (simp add: access_inv_def transfer_watermark_def)
  then show ?thesis by (simp add: reported_document stable_watermarks_def)
qed

theorem lost_transfer_never_complete_witness:
  "\<forall>sv rq. dget (reported_downloads (telemetry_document sv rq ''a'' (0, 1) [] (1, 1))) ''telemetry_complete'' = JBool False"
  using lost_transfer_never_complete [OF demo_lost, of "''a''" _ "demo_system (demo_counters [] [(''a'', 1)]) {#Lost ''a''#} [demo_row]" _ _ "(0, 1)" "[]"]
  by (simp add: demo_system_def demo_counters_def transfer_watermark_def counted_def transfer_run_def)

text \<open>
  The counters do not survive the process: opened again on its table, the service finds the access quiescent although a transfer is missing.
\<close>

lemma lost_transfer_forgotten_on_restart:
  "\<exists>x s. transfer_run f (open_transfers [] []) x \<and> ts_history x = [demo_row] \<and> s = open_agent [] (ag_downloads (ts_state x))
     \<and> stable_watermarks (transfer_watermark s ''a'') (transfer_watermark s ''a'')
     \<and> dget (artifact_download_summary f (ag_downloads s) ''a'') ''download_request_count'' = JInt 0"
  by (intro exI [of _ "demo_system (demo_counters [] [(''a'', 1)]) {#Lost ''a''#} [demo_row]"] exI [of _ "open_agent [] []"] conjI demo_lost)
    (simp_all add: demo_system_def demo_counters_def open_agent_def transfer_watermark_def counted_def stable_watermarks_def
      artifact_download_summary_def dget_def Let_def)

end
