(* ===== verification/Agent_Requests.thy ===== *)
theory Agent_Requests
  imports Agent_Server
begin

text \<open>
  The documents of the Data Agent protocol between their writer and their reader: a request is the one that was sent, a stored response the
  one that was computed, up to the order of keys.
\<close>

section \<open>Texts with keys in insertion order\<close>

lemma dumps_plain_atom: "(\<And>xs. v \<noteq> JArr xs) \<Longrightarrow> (\<And>d. v \<noteq> JObj d) \<Longrightarrow> dumps_plain v = dumps v \<and> sort_keys v = v"
  by (cases v) auto

lemma dumps_plain_hd:
  assumes "wf_json v"
  shows "dumps_plain v \<noteq> [] \<and> hd (dumps_plain v) \<noteq> CHR '']'' \<and> \<not> is_ws (hd (dumps_plain v))"
  using compact.text_hd [OF assms, of 0] dumps_plain_atom [of v] unfolding dumps_render [of v 0, symmetric]
  by (cases v) (auto simp: is_ws_def)

lemma scan_dumps_plain:
  "wf_json v \<Longrightarrow> delimited r \<Longrightarrow> length (dumps_plain v) \<le> n \<Longrightarrow> scan_value st n (dumps_plain v @ r) = Inr (v, r)"
proof (induction v arbitrary: n r)
  case (JArr xs)
  then obtain k where n: "n = Suc k" by (cases n) (auto split: if_splits)
  show ?case
  proof (cases "xs = []")
    case False
    have hd: "dumps_plain x \<noteq> [] \<and> hd (dumps_plain x) \<noteq> CHR '']'' \<and> \<not> is_ws (hd (dumps_plain x))" if "x \<in> set xs" for x
      using dumps_plain_hd [of x] JArr.prems(1) that by (auto simp: list_all_iff)
    have "scan_items st k (join ('','' @ []) (map dumps_plain xs) @ [] @ CHR '']'' # r) = Inr (map id xs, r)"
      using JArr False n hd by (intro compact.scan_items_text) (auto simp: list_all_iff)
    moreover have "join '','' (map dumps_plain xs) \<noteq> [] \<and> hd (join '','' (map dumps_plain xs)) = hd (dumps_plain (hd xs))"
      using False hd [of "hd xs"] compact.join_hd [of "map dumps_plain xs" "'',''"] by (simp add: hd_map)
    then obtain c t where "join '','' (map dumps_plain xs) = c # t" "c \<noteq> CHR '']''" "\<not> is_ws c"
      using hd [of "hd xs"] False by (cases "join '','' (map dumps_plain xs)") auto
    ultimately show ?thesis unfolding n by simp
  qed (use n in \<open>simp add: is_ws_def\<close>)
next
  case (JObj d)
  then obtain k where n: "n = Suc k" by (cases n) (auto split: if_splits)
  show ?case
  proof (cases "d = []")
    case False
    let ?t = "\<lambda>x. dumps_str (fst x) @ '':'' @ dumps_plain (snd x)"
    have f: "map (\<lambda>(k, t). dumps_str k @ '':'' @ t) (map (map_prod id dumps_plain) d) = map ?t d" by (simp add: comp_def split_def)
    have wf: "wf_json (snd x)" if "x \<in> set d" for x using JObj.prems(1) that by (auto simp: list_all_iff)
    have elem: "scan_value st m (dumps_plain (snd x) @ q) = Inr (snd x, q)" if "x \<in> set d" "delimited q" "length (dumps_plain (snd x)) \<le> m" for x m q
      using JObj.IH [of x "snd x" q m] that wf [of x] by (cases x) auto
    have "length (join ('','' @ []) (map ?t d)) < k" using JObj.prems(3) n unfolding dumps_plain.simps f by simp
    then have "scan_pairs st k (join ('','' @ []) (map ?t d) @ [] @ CHR 0x7D # r) = Inr (map (\<lambda>x. (fst x, snd x)) d, r)"
      using False elem dumps_plain_hd wf by (intro compact.scan_pairs_text [where f = "dumps_plain \<circ> snd"]) auto
    then have scan: "scan_pairs st k (join '','' (map ?t d) @ CHR 0x7D # r) = Inr (d, r)" by simp
    have "join '','' (map ?t d) \<noteq> [] \<and> hd (join '','' (map ?t d)) = CHR 0x22"
      using False compact.join_hd [of "map ?t d" "'',''"] by (simp add: hd_map dumps_str_def)
    then obtain t where ct: "join '','' (map ?t d) = CHR 0x22 # t" by (cases "join '','' (map ?t d)") auto
    have "object_hook st d = Inr (JObj d)" using JObj.prems(1) by (simp add: object_hook_distinct)
    moreover have "\<not> is_ws (CHR 0x22)" by (simp add: is_ws_def)
    ultimately show ?thesis using scan unfolding dumps_plain.simps f n ct by simp
  qed (use n in \<open>simp add: is_ws_def\<close>)
qed (use compact.scan_value_text [of _ _ 0] dumps_plain_atom in \<open>auto simp: dumps_render [of _ 0, symmetric] simp del: dumps_plain.simps dumps.simps\<close>)

lemma loads_dumps_plain: "wf_json v \<Longrightarrow> loads_with st (dumps_plain v) = Inr v"
  using scan_dumps_plain [of v "[]" "Suc (2 * length (dumps_plain v))" st] skip_ws_id [of "dumps_plain v"] dumps_plain_hd [of v]
  by (simp add: loads_with_def delimited_def)

lemma valid_utf8_dumps_plain: "utf8_json v \<Longrightarrow> valid_utf8 (dumps_plain v)"
proof (induction v)
  case (JArr xs)
  then have "valid_utf8 (join '','' (map dumps_plain xs))" by (intro valid_utf8_join) (auto simp: list_all_iff ord_def)
  then show ?case by (simp add: ord_def valid_utf8_append)
next
  case (JObj d)
  have "valid_utf8 (dumps_str (fst x) @ '':'' @ dumps_plain (snd x))" if "x \<in> set d" for x
    using JObj.IH [of x "snd x"] JObj.prems that
    by (cases x) (auto simp: list_all_iff ord_def intro!: valid_utf8_append valid_utf8_dumps_str)
  then have "valid_utf8 (join '','' (map (\<lambda>(k, t). dumps_str k @ '':'' @ t) (map (map_prod id dumps_plain) d)))"
    by (intro valid_utf8_join) (auto simp: list_all_iff ord_def)
  then show ?case by (simp add: ord_def valid_utf8_append)
qed (auto simp: valid_utf8_int valid_utf8_dumps_str ord_def)

lemma plain_loads_dumps_plain: "wf_json v \<Longrightarrow> utf8_json v \<Longrightarrow> plain_loads_bytes (dumps_plain v) = Inr v"
  by (simp add: plain_loads_bytes_def loads_dumps_plain valid_utf8_dumps_plain)

lemma loads_with_dumps: "wf_json v \<Longrightarrow> loads_with st (dumps v) = Inr (sort_keys v)"
  using loads_text [OF compact.json_layout_axioms, of v "[]"] by (simp add: dumps_render [of v 0])

lemma plain_loads_dumps: "wf_json v \<Longrightarrow> utf8_json v \<Longrightarrow> plain_loads_bytes (dumps v) = Inr (sort_keys v)"
  using compact.valid_utf8_text [of v 0] by (simp add: plain_loads_bytes_def loads_with_dumps dumps_render [of v 0, symmetric])

text \<open>Dictionaries with the same values under the same keys have the same text.\<close>

lemma same_lookup_loads:
  assumes "distinct (map fst d)" "distinct (map fst e)" "\<And>k. map_of d k = map_of e k"
  shows "loads_dict d = loads_dict e"
proof -
  have k: "keys d = keys e" using assms(3) by (metis dom_map_of_conv_image_fst ext keys_def)
  have s: "sorted (map fst (loads_dict x))" for x :: dict by (simp add: loads_dict_def)
  have dis: "distinct (map fst x) \<Longrightarrow> distinct (map fst (loads_dict x))" for x :: dict
    by (simp add: loads_dict_def sort_key_map_prod comp_def distinct_map)
  have "dget (loads_dict d) k = dget (loads_dict e) k" for k using assms by (simp add: dget_loads) (simp add: dget_def)
  then show ?thesis using assms(1,2) s dis k by (intro sorted_dict_eq) (simp_all add: keys_loads)
qed

lemma same_lookup_dumps:
  assumes "distinct (map fst d)" "distinct (map fst e)" "\<And>k. map_of d k = map_of e k"
  shows "dumps (JObj d) = dumps (JObj e)"
  by (metis same_lookup_loads [OF assms] dumps_loads)

section \<open>Requests\<close>

lemma request_dict_distinct: "distinct (map fst (request_dict rq))"
  by (auto simp: request_dict_def split: option.splits)

lemma request_dict_keys: "set REQUEST_FIELDS \<subseteq> keys (request_dict rq)"
  by (auto simp: request_dict_def REQUEST_FIELDS_def)

lemma request_dict_get:
  "dget (request_dict rq) ''api_version'' = JStr DATA_AGENT_API_VERSION" "dget (request_dict rq) ''access_id'' = JStr (rq_access_id rq)"
  "dget (request_dict rq) ''session_id'' = JStr (rq_session_id rq)" "dget (request_dict rq) ''trial_id'' = JStr (rq_trial_id rq)"
  "dget (request_dict rq) ''plan_id'' = JStr (rq_plan_id rq)" "dget (request_dict rq) ''plan_epoch'' = JInt (rq_plan_epoch rq)"
  "dget (request_dict rq) ''task_class_id'' = JStr (rq_task_class_id rq)" "dget (request_dict rq) ''representation_id'' = JStr (rq_representation_id rq)"
  "dget (request_dict rq) ''event_index'' = JInt (rq_event_index rq)" "dget (request_dict rq) ''latency_multiplier'' = rq_latency_multiplier rq"
  "dget (request_dict rq) ''binding'' = JObj (rq_binding rq)" "dget (request_dict rq) ''plan_capability'' = nullable JObj (rq_plan_capability rq)"
  "dget (request_dict rq) ''object_id'' = nullable JStr (rq_object_id rq)"
  by (simp_all add: request_dict_def dget_def nullable_def split: option.splits)

text \<open>What a document with the values of a request is read as.\<close>

lemma request_read:
  assumes valid: "DataAgentAccessRequest rq = Inr rq'" and keys: "set REQUEST_FIELDS \<subseteq> keys d"
    and get: "\<And>k. dget d k = dget (request_dict rq) k"
  shows "request_from_dict d = Inr rq \<and> rq' = rq"
proof -
  let ?blank = "find (\<lambda>(name, value). strip value = [])
      [(''access_id'', rq_access_id rq), (''session_id'', rq_session_id rq), (''trial_id'', rq_trial_id rq), (''plan_id'', rq_plan_id rq),
       (''task_class_id'', rq_task_class_id rq), (''representation_id'', rq_representation_id rq)]"
  have none: "?blank = None"
    using valid unfolding DataAgentAccessRequest_def by (cases ?blank) (simp_all del: find.simps split: prod.splits)
  then have texts: "strip (rq_access_id rq) \<noteq> []" "strip (rq_session_id rq) \<noteq> []" "strip (rq_trial_id rq) \<noteq> []" "strip (rq_plan_id rq) \<noteq> []"
      "strip (rq_task_class_id rq) \<noteq> []" "strip (rq_representation_id rq) \<noteq> []"
    by (simp_all split: if_splits)
  have rest: "rq' = rq" "0 \<le> rq_plan_epoch rq" "0 \<le> rq_event_index rq" "isOK (positive_multiplier (rq_latency_multiplier rq))"
      "rq_object_id rq = None \<or> strip (text_or_empty (rq_object_id rq)) \<noteq> []"
    using valid unfolding DataAgentAccessRequest_def none by (simp_all add: result_simps isOK_iff del: find.simps) blast+
  have "find (\<lambda>name. name \<notin> keys d) REQUEST_FIELDS = None" using keys by (auto simp: find_None_iff)
  then show ?thesis
    using texts rest
    by (auto simp: request_from_dict_def construct_request_def request_string_def request_count_def agent_object_def get
        request_dict_get nullable_def result_simps text_or_empty_def isOK_iff Let_def split: if_splits option.splits)
qed

definition sorted_request :: "access_request \<Rightarrow> access_request" where
  "sorted_request rq = rq\<lparr>rq_binding := loads_dict (rq_binding rq), rq_plan_capability := map_option loads_dict (rq_plan_capability rq)\<rparr>"


lemma sorted_request_fields [simp]:
  "rq_access_id (sorted_request rq) = rq_access_id rq" "rq_plan_id (sorted_request rq) = rq_plan_id rq"
  "rq_object_id (sorted_request rq) = rq_object_id rq" "rq_representation_id (sorted_request rq) = rq_representation_id rq"
  "rq_latency_multiplier (sorted_request rq) = rq_latency_multiplier rq"
  by (simp_all add: sorted_request_def)

lemma multiplier_atom: "isOK (positive_multiplier v) \<Longrightarrow> sort_keys v = v"
  by (cases v) (simp_all add: positive_multiplier_def)

lemma DataAgentAccessRequest_Inr:
  "DataAgentAccessRequest rq = Inr rq' \<Longrightarrow> rq' = rq \<and> isOK (positive_multiplier (rq_latency_multiplier rq))"
  by (auto simp: DataAgentAccessRequest_def result_simps isOK_iff simp del: find.simps split: option.splits)

lemma sorted_request_valid: "DataAgentAccessRequest rq = Inr rq \<Longrightarrow> DataAgentAccessRequest (sorted_request rq) = Inr (sorted_request rq)"
  by (auto simp: DataAgentAccessRequest_def sorted_request_def result_simps simp del: find.simps split: option.splits)

lemma request_dict_sorted:
  assumes "DataAgentAccessRequest rq = Inr rq"
  shows "dget (loads_dict (request_dict rq)) k = dget (request_dict (sorted_request rq)) k"
proof -
  have "sort_keys (rq_latency_multiplier rq) = rq_latency_multiplier rq"
    using DataAgentAccessRequest_Inr [OF assms] by (simp add: multiplier_atom)
  then show ?thesis
    unfolding dget_loads [OF request_dict_distinct]
    by (simp add: request_dict_def sorted_request_def dget_def sort_keys_loads del: sort_keys.simps(7) split: option.splits)
qed

text \<open>A request is read as it was sent, and from the table with the keys of its dictionaries sorted.\<close>

lemma request_round_trip: "DataAgentAccessRequest rq = Inr rq \<Longrightarrow> request_from_dict (request_dict rq) = Inr rq"
  using request_read [of rq rq "request_dict rq"] request_dict_keys by blast

lemma stored_request_read:
  assumes "DataAgentAccessRequest rq = Inr rq" and "wf_json (JObj (request_dict rq))" and "ao_request_json operation = request_json rq"
  shows "stored_request operation = Inr (sorted_request rq)"
proof -
  have "loads_with False (ao_request_json operation) = Inr (JObj (loads_dict (request_dict rq)))"
    using loads_with_dumps [OF assms(2), of False] assms(3) by (simp add: request_json_def sort_keys_loads del: sort_keys.simps(7))
  moreover have "request_from_dict (loads_dict (request_dict rq)) = Inr (sorted_request rq)"
    using request_read [OF sorted_request_valid [OF assms(1)]] request_dict_keys request_dict_sorted [OF assms(1)] by (simp add: keys_loads)
  ultimately show ?thesis by (simp add: stored_request_def)
qed

lemma resolve_sorted: "distinct (map fst (rq_binding rq)) \<Longrightarrow> resolve_access sv (sorted_request rq) = resolve_access sv rq"
  by (auto simp: resolve_access_def sorted_request_def dget_loads Let_def split: json.splits)

end
