(* ===== verification/Agent_Urls.thy ===== *)
theory Agent_Urls
  imports Agent_Requests Agent_Props Sha256
begin

text \<open>
  The artifact URLs of the Data Agent server between the service that signs them and the handler that is asked for them, and the
  decimal numbers both read.
\<close>

section \<open>Decimal numbers\<close>

lemma digit_visible: "is_digit c \<Longrightarrow> visible c"
  by (auto simp: is_digit_def visible_def)

lemma digit_groups_digits: "ds \<noteq> [] \<Longrightarrow> list_all is_digit ds \<Longrightarrow> digit_groups ds"
  by (induction ds rule: digit_groups.induct) (auto simp: is_digit_def ord_def)

lemma int_parse_digits:
  assumes "ds \<noteq> []" and "list_all is_digit ds" and "length ds \<le> 4300"
  shows "int_parse ds = Some (int_of_decimal ds)"
proof -
  have "list_all visible ds" using assms(2) digit_visible by (auto simp: list_all_iff)
  then have "strip ds = ds" using assms(1) by (intro strip_all_visible)
  moreover obtain c r where c: "ds = c # r" using assms(1) by (cases ds) auto
  moreover have "c \<noteq> CHR ''-'' \<and> c \<noteq> CHR ''+''" using assms(2) c by (auto simp: is_digit_def ord_def)
  moreover have "filter (\<lambda>c. c \<noteq> CHR ''_'') ds = ds" using assms(2) by (auto simp: list_all_iff is_digit_def ord_def intro!: filter_True)
  ultimately show ?thesis using assms digit_groups_digits [of ds] by (simp add: int_parse_def Let_def)
qed

lemma int_parse_str:
  assumes "0 \<le> n" and "n < 2 ^ 63"
  shows "int_parse (int_str n) = Some n"
proof -
  have "n < 10 ^ Suc 19" using assms by simp
  then have "length (digits_str n) \<le> 4300" using digits_str_length [OF assms(1), of 19] by simp
  then show ?thesis
    using int_parse_digits [of "digits_str n"] digits_str_digits [of n] assms int_of_decimal_digits_str [of n] by (simp add: int_str_def)
qed

lemma int_str_digits: "0 \<le> n \<Longrightarrow> list_all is_digit (int_str n) \<and> int_str n \<noteq> []"
  using digits_str_digits [of n] by (simp add: int_str_def)

section \<open>The query of a signed URL\<close>

lemma lenient_fields_encoded:
  "list_all (\<lambda>(k, v). valid_utf8 k \<and> valid_utf8 v \<and> v \<noteq> []) q \<Longrightarrow>
   lenient_fields (map (\<lambda>(k, v). quote_plus k @ ''='' @ quote_plus v) q) = q"
proof (induction q)
  case (Cons p q)
  obtain k v where p: "p = (k, v)" by fastforce
  have "CHR ''='' \<notin> set (quote_plus k)" using quote_plus_query query_char_plain by blast
  moreover have "quote_plus v \<noteq> []" using Cons.prems p by (cases v) (auto simp: quote_plus_def quote_char_def)
  ultimately show ?case using Cons p by (simp add: partition_at_found unquote_plus_quote)
qed simp

lemma parse_qs_lenient_urlencode:
  assumes "q \<noteq> []" and "distinct (map fst q)" and "list_all (\<lambda>(k, v). valid_utf8 k \<and> valid_utf8 v \<and> v \<noteq> []) q"
  shows "parse_qs_lenient (urlencode q) = map (\<lambda>(k, v). (k, [v])) q"
proof -
  let ?ws = "map (\<lambda>(k, v). quote_plus k @ ''='' @ quote_plus v) q"
  have "CHR ''&'' \<notin> set (quote_plus k @ ''='' @ quote_plus v)" for k v
    using quote_plus_query query_char_plain by fastforce
  then have "split_on CHR ''&'' (urlencode q) = ?ws"
    unfolding urlencode_def using assms(1) by (intro split_on_join) (auto simp: list_all_iff)
  moreover have "distinct (map fst (map (\<lambda>(k, v). (k, [v])) q))" using assms(2) by (simp add: comp_def split_def)
  ultimately show ?thesis
    using lenient_fields_encoded [OF assms(3)] group_fields_distinct [of "[]" q] by (simp add: parse_qs_lenient_def)
qed

definition signed_query :: "int \<Rightarrow> string \<Rightarrow> string" where
  "signed_query expires signature = urlencode [(''expires'', int_str expires), (''signature'', signature)]"

lemma digits_utf8: "list_all is_digit ds \<Longrightarrow> valid_utf8 ds"
  by (rule valid_utf8_ascii) (auto simp: list_all_iff is_digit_def)

lemma signed_query_read:
  assumes "0 \<le> e" and "valid_utf8 g" and "g \<noteq> []"
  shows "parse_qs_lenient (signed_query e g) = [(''expires'', [int_str e]), (''signature'', [g])]"
proof -
  have "valid_utf8 ''expires''" "valid_utf8 ''signature''" by code_simp+
  then show ?thesis
    using parse_qs_lenient_urlencode [of "[(''expires'', int_str e), (''signature'', g)]"] assms int_str_digits [OF assms(1)] digits_utf8
    by (simp add: signed_query_def)
qed

lemma sha256_is_ascii: "match_sha256 d \<Longrightarrow> is_ascii d"
  by (auto simp: is_ascii_def match_sha256_def list_all_iff char_class_defs)

text \<open>A signed query admits a request if and only if it has not expired and carries the signature of the artifact.\<close>

lemma signed_query_admits:
  assumes "keyed_digest_function M" and secret: "ss_artifact_secret (sv_settings sv) = Some secret"
    and e: "0 \<le> e" "e < 2 ^ 63" and g: "valid_utf8 g" "g \<noteq> []"
  shows "authorize_artifact M sv now artifact (parse_qs_lenient (signed_query e g)) authorization = Inr ()
    \<longleftrightarrow> truncated now \<le> e \<and> g = artifact_signature M secret (ax_access_id artifact) e (ax_sha256 artifact)"
proof -
  let ?s = "artifact_signature M secret (ax_access_id artifact) e (ax_sha256 artifact)"
  have "is_ascii ?s"
    unfolding artifact_signature_def by (intro sha256_is_ascii keyed_digest_function.keyed_digest_form [OF assms(1)])
  then show ?thesis
    using secret int_parse_str [OF e]
    by (auto simp: authorize_artifact_def signed_query_read [OF e(1) g] compare_digest_def result_simps Let_def split: if_splits)
qed

section \<open>The path of an artifact\<close>

definition path_quoted :: "char \<Rightarrow> bool" where
  "path_quoted c \<longleftrightarrow> always_safe c \<or> c = CHR 0x25"

lemma quote_strict_chars: "list_all path_quoted (quote_strict s)"
  using hex_upper_safe ord_nibbles by (auto simp: quote_strict_def list_all_iff path_quoted_def split: if_splits)

lemma path_quoted_plain: "path_quoted c \<Longrightarrow> c \<noteq> CHR ''#'' \<and> c \<noteq> CHR ''?'' \<and> c \<noteq> CHR '';'' \<and> c \<noteq> CHR ''/'' \<and> 32 < ord c \<and> ord c < 128"
proof -
  have "\<not> always_safe (CHR '';'')" by code_simp
  then show "path_quoted c \<Longrightarrow> c \<noteq> CHR ''#'' \<and> c \<noteq> CHR ''?'' \<and> c \<noteq> CHR '';'' \<and> c \<noteq> CHR ''/'' \<and> 32 < ord c \<and> ord c < 128"
    using safe_plain [of c] by (auto simp: path_quoted_def ord_def)
qed

lemma unquote_bytes_char: "unquote_to_bytes ((if always_safe c then [c] else [CHR 0x25, hex_upper (ord c div 16), hex_upper (ord c mod 16)]) @ r) = c # unquote_to_bytes r"
proof -
  have d: "hex_value (hex_upper (ord c div 16)) = Some (ord c div 16)" "hex_value (hex_upper (ord c mod 16)) = Some (ord c mod 16)"
    using ord_nibbles [of c] by (simp_all add: hex_value_upper)
  have "16 * (ord c div 16) + ord c mod 16 = ord c" by simp
  then have "char_of (16 * (ord c div 16) + ord c mod 16) = c" by (simp add: ord_def)
  then show ?thesis using d safe_plain [of c] unquote_plain [of c r] by (auto simp del: unquote_to_bytes.simps(2-))
qed

lemma unquote_bytes_strict: "unquote_to_bytes (quote_strict s) = s"
proof (induction s)
  case (Cons c s)
  then show ?case using unquote_bytes_char [of c "quote_strict s"] by (simp add: quote_strict_def)
qed (simp add: quote_strict_def)

lemma unquote_ascii:
  assumes a: "list_all (\<lambda>c. ord c < 128) s"
  shows "unquote s = decode_replace (unquote_to_bytes s)"
proof (cases s)
  case (Cons c r)
  then have t: "takeWhile (\<lambda>c. ord c < 128) r = r" and d: "dropWhile (\<lambda>c. ord c < 128) r = []" using a by (auto simp: list_all_iff)
  have "ord c < 128" using a Cons by simp
  then show ?thesis unfolding Cons by (simp add: unquote.simps [of "c # r"] unquote.simps [of "[]"] t d)
qed (simp add: unquote.simps decode_replace.simps)

lemma unquote_quote_strict: "valid_utf8 s \<Longrightarrow> unquote (quote_strict s) = s"
  using quote_strict_chars [of s] path_quoted_plain
  by (subst unquote_ascii) (auto simp: list_all_iff unquote_bytes_strict decode_replace_valid)

lemma urlsplit_plain_target:
  assumes "\<And>c. c \<in> set path \<Longrightarrow> c \<noteq> CHR ''#'' \<and> c \<noteq> CHR ''?'' \<and> 32 < ord c" and "hd path = CHR ''/''" and "path \<noteq> []" and "take 2 path \<noteq> ''//''"
    and "netloc_error [] = None" and "q = [] \<or> (\<exists>fs. q = CHR ''?'' # urlencode fs)"
  shows "urlsplit netloc_error (path @ q) = Inr \<lparr>u_scheme = [], u_netloc = [], u_path = path, u_query = tl q, u_fragment = []\<rparr>"
proof -
  have plain: "x \<noteq> CHR ''#'' \<and> 32 < ord x" if "x \<in> set (path @ q)" for x
    using that assms(1,6) query_char_plain urlencode_chars by (fastforce simp: ord_def)
  have "dropWhile (\<lambda>c. ord c \<le> 32) (path @ q) = path @ q" using plain [of "hd path"] assms(3) by (cases path) auto
  moreover have "filter (\<lambda>c. c \<notin> {CHR 0x09, CHR 0x0A, CHR 0x0D}) (path @ q) = path @ q"
    using plain by (intro filter_True) (fastforce simp: ord_def)
  moreover have "split_scheme (path @ q) = ([], path @ q)"
  proof -
    have "hd (fst (partition_at CHR '':'' (path @ q))) = CHR ''/''" using assms(2,3) by (cases path) (auto simp: partition_at_def)
    then show ?thesis by (auto simp: split_scheme_def char_class_defs split: prod.splits option.splits)
  qed
  moreover have "take 2 (path @ q) \<noteq> ''//''"
    using assms(2-4,6) by (cases path; cases "tl path") auto
  moreover have "partition_at CHR ''#'' (path @ q) = (path @ q, None)" using plain by (intro partition_at_absent) blast
  moreover have "CHR ''?'' \<notin> set path" using assms(1) by blast
  then have "partition_at CHR ''?'' (path @ q) = (path, if q = [] then None else Some (tl q))"
    using assms(6) by (auto simp: partition_at_found partition_at_absent)
  ultimately show ?thesis
    using assms(5) by (simp add: urlsplit_def split_netloc_def text_or_empty_def Let_def)
qed

lemma rpartition_join: "snd (rpartition_at c s) = s \<and> fst (rpartition_at c s) = None \<or> (\<exists>b. fst (rpartition_at c s) = Some b \<and> s = b @ c # snd (rpartition_at c s))"
proof (cases "snd (partition_at c (rev s))")
  case None
  then have "c \<notin> set (rev s)" by (auto simp: partition_at_def dropWhile_eq_Nil_conv split: list.splits)
  then show ?thesis by (simp add: rpartition_at_def partition_at_absent)
next
  case (Some r)
  then have "rev s = fst (partition_at c (rev s)) @ c # r" by (intro partition_at_Some) (metis prod.collapse)
  then have "s = rev r @ c # rev (fst (partition_at c (rev s)))" by (metis append.assoc append_Cons append_Nil rev.simps(2) rev_append rev_rev_ident)
  then show ?thesis using Some by (simp add: rpartition_at_def split_def)
qed

lemma splitparams_plain: "CHR '';'' \<notin> set path \<Longrightarrow> fst (splitparams path) = path"
proof -
  assume no: "CHR '';'' \<notin> set path"
  obtain before after where r: "rpartition_at CHR ''/'' path = (before, after)" by fastforce
  have "CHR '';'' \<notin> set after" using rpartition_join [of "CHR ''/''" path] r no by auto
  then show ?thesis using rpartition_join [of "CHR ''/''" path] r by (auto simp: splitparams_def partition_at_absent split: option.splits)
qed

lemma urlparse_plain_target:
  assumes "\<And>c. c \<in> set path \<Longrightarrow> c \<noteq> CHR ''#'' \<and> c \<noteq> CHR ''?'' \<and> c \<noteq> CHR '';'' \<and> 32 < ord c" and "hd path = CHR ''/''" and "path \<noteq> []"
    and "take 2 path \<noteq> ''//''" and "netloc_error [] = None" and "q = [] \<or> (\<exists>fs. q = CHR ''?'' # urlencode fs)"
  shows "\<exists>u. urlparse netloc_error (path @ q) = Inr u \<and> u_path u = path \<and> u_query u = tl q"
proof -
  have "urlsplit netloc_error (path @ q) = Inr \<lparr>u_scheme = [], u_netloc = [], u_path = path, u_query = tl q, u_fragment = []\<rparr>"
    using assms by (intro urlsplit_plain_target) blast+
  moreover have "CHR '';'' \<notin> set path" using assms(1) by blast
  ultimately show ?thesis by (simp add: urlparse_def splitparams_plain uses_params_def)
qed

end
