(* ===== verification/Server_Props.thy ===== *)
theory Server_Props
  imports Agent_Urls
begin

text \<open>
  Properties of the Data Agent server: accesses are executed once, artifact URLs admit what they were signed for, byte ranges are exact, the
  manifest decides what is served, and requests without authorization change nothing.
\<close>

section \<open>Stored responses\<close>

lemma store_get_append: "store_get rows i = Inr (Some operation) \<Longrightarrow> store_get (rows @ added) i = Inr (Some operation)"
  by (cases "find (\<lambda>r. op_access_id r = i) rows") (auto simp: store_get_def find_append_Some)

lemma store_get_None: "store_get rows i = Inr None \<longleftrightarrow> find (\<lambda>r. op_access_id r = i) rows = None"
  by (auto simp: store_get_def split: option.splits sum.splits json.splits)

lemma loads_distinct: "distinct (map fst d) \<Longrightarrow> distinct (map fst (loads_dict d))"
  by (simp add: loads_dict_def sort_key_map_prod comp_def distinct_map)

lemma loads_cong:
  assumes "distinct (map fst d)" "distinct (map fst e)" "\<And>k. map_option sort_keys (map_of d k) = map_option sort_keys (map_of e k)"
  shows "loads_dict d = loads_dict e"
proof -
  have "loads_dict (loads_dict d) = loads_dict (loads_dict e)"
    using assms by (intro same_lookup_loads) (simp_all add: map_of_loads loads_distinct)
  then show ?thesis by (metis sort_keys_loads sort_keys_idem json.inject(6))
qed

lemma dict_set_twice [simp]: "dict_set (dict_set d k v) k w = dict_set d k w"
  by (induction d) auto

lemma read_chunks_concat: "concat (read_chunks data) = data"
  by (induction data rule: read_chunks.induct) (simp add: read_chunks.simps)

lemma read_chunks_length: "sum_list (map (int \<circ> length) (read_chunks data)) = int (length data)"
proof -
  have "sum_list (map (int \<circ> length) xs) = int (length (concat xs))" for xs :: "bytes list" by (induction xs) auto
  then show ?thesis by (simp add: read_chunks_concat)
qed

lemma hash_file_eq: "am_open mc path = Inr data \<Longrightarrow> hash_file H mc path = Inr (H data, int (length data))"
  by (simp add: hash_file_def file_result_def read_chunks_concat read_chunks_length Let_def)

text \<open>What \<open>execute_uncached\<close> makes.\<close>

lemma execute_uncached_form:
  assumes "execute_uncached H M sv mc rq rv = Inr d"
  shows "\<exists>value digest telemetry.
    d = [(''api_version'', JStr DATA_AGENT_API_VERSION), (''status'', JStr ''succeeded''), (''access_id'', JStr (rq_access_id rq)),
         (''object_id'', nullable JStr (rq_object_id rq)), (''object_catalog_version'', object_catalog_version sv),
         (''payload'', JObj [(''kind'', JStr (rv_kind rv)), (''media_type'', JStr (rv_media_type rv)), (''value'', JStr value), (''sha256'', JStr digest)]),
         (''telemetry'', JObj telemetry)]
    \<and> (\<exists>n. fetch_payload H M sv mc rq rv = Inr (digest, value, n))"
  using assms by (auto simp: execute_uncached_def result_simps Let_def split: prod.splits)

lemma executed_once:
  assumes "agent_execute H M sv mc rq s = (s', Inr response)" and "store_get (ag_operations s) (rq_access_id rq) = Inr None"
  shows "\<exists>rv d. resolve_access sv rq = Inr rv \<and> execute_uncached H M sv mc rq rv = Inr d
    \<and> response = refresh_artifact_url M sv (am_time mc 2) d
    \<and> s' = s\<lparr>ag_operations := ag_operations s @ [\<lparr>op_access_id = rq_access_id rq, op_request_sha256 = H (request_json rq),
         op_request_json = request_json rq, op_response_json = dumps (JObj d), op_created_at = am_time mc 1\<rparr>]\<rparr>"
  using assms by (auto simp: agent_execute_def put_if_absent_def store_get_None find_None_iff list_ex_iff result_simps Let_def split: sum.splits)

lemma refresh_value:
  assumes "d = [(''api_version'', a), (''status'', b), (''access_id'', JStr i), (''object_id'', c), (''object_catalog_version'', e),
     (''payload'', JObj [(''kind'', JStr kind), (''media_type'', m), (''value'', JStr v), (''sha256'', JStr digest)]), (''telemetry'', t)]"
  shows "refresh_artifact_url M sv now d = [(''api_version'', a), (''status'', b), (''access_id'', JStr i), (''object_id'', c), (''object_catalog_version'', e),
     (''payload'', JObj [(''kind'', JStr kind), (''media_type'', m),
        (''value'', JStr (if kind = ''artifact_uri'' then artifact_url M sv now i digest else v)), (''sha256'', JStr digest)]), (''telemetry'', t)]"
  using assms by (simp add: refresh_artifact_url_def dget_def)

text \<open>Refreshing what is read back from the table gives the text that refreshing the response itself gives.\<close>

lemma refresh_loaded:
  assumes "wf_json (JObj d)"
  shows "dumps (JObj (refresh_artifact_url M sv now (loads_dict d))) = dumps (JObj (refresh_artifact_url M sv now d))"
proof (cases "dget d ''payload''")
  case (JObj p)
  have dis: "distinct (map fst d)" using assms by simp
  have "distinct (map fst p)"
    using assms JObj by (auto simp: dget_def list_all_iff split: option.splits dest!: map_of_SomeD)
  note get = dget_loads [OF dis] dget_loads [OF this]
  have payload: "dget (loads_dict d) ''payload'' = JObj (loads_dict p)" using JObj by (simp add: get sort_keys_loads del: sort_keys.simps(7))
  have str: "sort_keys v = JStr t \<longleftrightarrow> v = JStr t" for v t by (cases v) auto
  have same: "loads_dict (dict_set (loads_dict x) k v) = loads_dict (dict_set x k w)" if "distinct (map fst x)" "sort_keys v = sort_keys w" for x k v w
    using that by (intro loads_cong) (auto intro!: distinct_dict_set loads_distinct simp: map_of_loads sort_keys_idem option.map_comp comp_def)
  have "loads_dict (dict_set (loads_dict d) ''payload'' (JObj (dict_set (loads_dict p) ''value'' v)))
      = loads_dict (dict_set d ''payload'' (JObj (dict_set p ''value'' v)))" for v
    using same [OF \<open>distinct (map fst p)\<close>] by (intro same [OF dis]) (simp only: sort_keys_loads refl)
  then have "dumps (JObj (dict_set (loads_dict d) ''payload'' (JObj (dict_set (loads_dict p) ''value'' v))))
      = dumps (JObj (dict_set d ''payload'' (JObj (dict_set p ''value'' v))))" for v by (metis dumps_loads)
  then show ?thesis
    using JObj payload str
    by (cases "dget p ''sha256''"; cases "dget d ''access_id''")
      (simp_all add: refresh_artifact_url_def get dumps_loads sort_keys_loads del: dumps.simps sort_keys.simps(7))
qed (use assms in \<open>auto simp: refresh_artifact_url_def dget_loads dumps_loads sort_keys_loads simp del: dumps.simps sort_keys.simps(7) split: json.splits\<close>)


lemma execute_refreshes:
  assumes "execute_uncached H M sv mc rq rv = Inr d"
  shows "wf_json (JObj (refresh_artifact_url M sv now d)) \<longleftrightarrow> wf_json (JObj d)"
    and "refresh_artifact_url M sv now' (refresh_artifact_url M sv now d) = refresh_artifact_url M sv now' d"
proof -
  obtain v g t where d: "d = [(''api_version'', JStr DATA_AGENT_API_VERSION), (''status'', JStr ''succeeded''), (''access_id'', JStr (rq_access_id rq)),
       (''object_id'', nullable JStr (rq_object_id rq)), (''object_catalog_version'', object_catalog_version sv),
       (''payload'', JObj [(''kind'', JStr (rv_kind rv)), (''media_type'', JStr (rv_media_type rv)), (''value'', JStr v), (''sha256'', JStr g)]),
       (''telemetry'', JObj t)]" using execute_uncached_form [OF assms] by blast
  show "wf_json (JObj (refresh_artifact_url M sv now d)) \<longleftrightarrow> wf_json (JObj d)" unfolding refresh_value [OF d] unfolding d by simp
  show "refresh_artifact_url M sv now' (refresh_artifact_url M sv now d) = refresh_artifact_url M sv now' d"
    unfolding refresh_value [OF d] refresh_value [OF refl] by simp
qed

section \<open>Accesses are executed once\<close>

text \<open>
  (C32) An access is executed once. When an access that is not in the table has been executed, then every later request under its identifier,
  whatever was executed in between and whatever has become of the files and of the clock, leaves the state as it is. If the request has the same
  digest, it is answered with the text of the first response, its artifact URL signed anew; if not, with the idempotency conflict.
\<close>

theorem access_is_executed_once:
  assumes "agent_execute H M sv mc rq s = (s1, Inr response)" and "store_get (ag_operations s) (rq_access_id rq) = Inr None"
    and "wf_json (JObj response)" and "ag_operations s2 = ag_operations s1 @ added" and "rq_access_id again = rq_access_id rq"
  shows "if H (request_json again) = H (request_json rq)
    then \<exists>r. agent_execute H M sv mc2 again s2 = (s2, Inr r) \<and> agent_json_response 200 r = agent_json_response 200 (refresh_artifact_url M sv (am_time mc2 2) response)
    else agent_execute H M sv mc2 again s2 = (s2, Inl conflict)"
proof -
  obtain rv d where d: "execute_uncached H M sv mc rq rv = Inr d" "response = refresh_artifact_url M sv (am_time mc 2) d"
    and s1: "s1 = s\<lparr>ag_operations := ag_operations s @ [\<lparr>op_access_id = rq_access_id rq, op_request_sha256 = H (request_json rq),
         op_request_json = request_json rq, op_response_json = dumps (JObj d), op_created_at = am_time mc 1\<rparr>]\<rparr>"
    using executed_once [OF assms(1,2)] by blast
  have wf: "wf_json (JObj d)" using assms(3) execute_refreshes(1) [OF d(1)] d(2) by simp
  have "store_get (ag_operations s1) (rq_access_id rq) = Inr (Some \<lparr>ao_access_id = rq_access_id rq, ao_request_sha256 = H (request_json rq),
      ao_request_json = request_json rq, ao_response = loads_dict d\<rparr>)"
    using assms(2) loads_with_dumps [OF wf, of False] unfolding store_get_None s1
    by (simp add: store_get_def find_append_None sort_keys_loads del: sort_keys.simps(7))
  from store_get_append [OF this, of added] assms(4,5)
  have get: "store_get (ag_operations s2) (rq_access_id again) = Inr (Some \<lparr>ao_access_id = rq_access_id rq, ao_request_sha256 = H (request_json rq),
      ao_request_json = request_json rq, ao_response = loads_dict d\<rparr>)" by simp
  have "dumps (JObj (refresh_artifact_url M sv (am_time mc2 2) (loads_dict d))) = dumps (JObj (refresh_artifact_url M sv (am_time mc2 2) response))"
    using refresh_loaded [OF wf] execute_refreshes(2) [OF d(1)] d(2) by simp
  then have "agent_json_response 200 (refresh_artifact_url M sv (am_time mc2 2) (loads_dict d))
      = agent_json_response 200 (refresh_artifact_url M sv (am_time mc2 2) response)" unfolding agent_json_response_def by simp
  then show ?thesis using get by (simp add: agent_execute_def)
qed

text \<open>The table only grows, so the hypothesis on later states is what every run satisfies.\<close>

lemma execute_grows: "agent_execute H M sv mc rq s = (s', r) \<Longrightarrow> \<exists>added. ag_operations s' = ag_operations s @ added"
  by (auto simp: agent_execute_def put_if_absent_def Let_def split: sum.splits option.splits if_splits)

section \<open>Signed URLs\<close>

text \<open>
  (C34) A signed query admits a download if and only if it has not expired and its signature is the keyed digest of the identifier of the access,
  the expiry and the digest of the artifact under the secret of the service; so the URL that is given out admits it until it
  expires, and changing any of the three invalidates it.
\<close>

theorem signed_query_admits_exactly:
  assumes "ss_artifact_secret (sv_settings sv) = Some secret" and "0 \<le> e" and "e < 2 ^ 63" and "valid_utf8 g" and "g \<noteq> []"
  shows "authorize_artifact hmac_hex sv now artifact (parse_qs_lenient (signed_query e g)) authorization = Inr ()
    \<longleftrightarrow> truncated now \<le> e \<and> g = artifact_signature hmac_hex secret (ax_access_id artifact) e (ax_sha256 artifact)"
  by (rule signed_query_admits [OF hmac.keyed_digest_function_axioms assms])


section \<open>An example machine\<close>

definition calm_machine :: "(string \<times> bytes) list \<Rightarrow> agent_machine" where
  "calm_machine files =
     \<lparr>am_open = (\<lambda>p. case map_of files p of None \<Rightarrow> Inl (FileMissing p) | Some b \<Rightarrow> Inr b),
      am_stat = (\<lambda>p. case map_of files p of None \<Rightarrow> Inl (FileMissing p) | Some b \<Rightarrow> Inr (int (length b))),
      am_time = (\<lambda>_. 1000), am_perf = (\<lambda>_ _. 5), am_header_breaks = False, am_chunk_breaks = (\<lambda>_. False), am_flush_breaks = False,
      am_commit_fails = False, am_sum = hd, am_decode_error = (\<lambda>_. [])\<rparr>"

text \<open>A service of one artifact, and an access to it.\<close>

definition served_manifest :: data_agent_manifest where
  "served_manifest =
     \<lparr>dm_source_path = ''/etc/manifest.json'', dm_node_id = ''n1'', dm_require_plan_binding = True,
      dm_representations =
        [(''clip'', \<lparr>rp_representation_id = ''clip'', rp_kind = ''artifact_uri'', rp_media_type = ''video/mp4'', rp_path = Some ''/data/clip'',
            rp_default_binding = \<lparr>bs_location = None, bs_minimum_latency_ms = PyFloat False 0, bs_realized_cost = PyFloat False 0, bs_cache_hit = None, bs_path = None\<rparr>,
            rp_plan_bindings =
              [(''p'', \<lparr>bs_location = Some ''edge'', bs_minimum_latency_ms = PyFloat False 0, bs_realized_cost = PyFloat False 1, bs_cache_hit = Some True,
                 bs_path = None\<rparr>)]\<rparr>)],
      dm_object_catalog = None\<rparr>"

definition served_service :: agent_service where
  "served_service = DataAgentService served_manifest
     \<lparr>ss_host = ''0.0.0.0'', ss_port = 8780, ss_public_base_url = None, ss_token = Some ''token'', ss_artifact_secret = Some ''secret'',
      ss_artifact_url_ttl_seconds = 300, ss_max_request_bytes = 1048576, ss_max_inline_bytes = 1048576\<rparr> ''https://agent/''"

definition served_request :: access_request where
  "served_request =
     \<lparr>rq_access_id = ''pathfinder:s:0'', rq_session_id = ''s'', rq_trial_id = ''t'', rq_plan_id = ''p'', rq_plan_epoch = 0, rq_task_class_id = ''c'',
      rq_representation_id = ''clip'', rq_event_index = 0, rq_latency_multiplier = JFloat (PyFloat False 1), rq_binding = [(''location'', JStr ''edge'')],
      rq_plan_capability = None, rq_object_id = None\<rparr>"

definition served_access :: resolved_access where
  "served_access =
     \<lparr>rv_object_id = None, rv_representation_id = ''clip'', rv_kind = ''artifact_uri'', rv_media_type = ''video/mp4'', rv_path = ''/data/clip'',
      rv_location = ''edge'', rv_minimum_latency_ms = PyFloat False 0, rv_realized_cost = PyFloat False 1, rv_cache_hit = Some True\<rparr>"

definition served_machine :: agent_machine where
  "served_machine = calm_machine [(''/data/clip'', ''0123456789'')]"

definition zeros :: "bytes \<Rightarrow> string" where
  "zeros x = replicate 64 (CHR ''0'')"

lemma served_resolved: "resolve_access served_service served_request = Inr served_access"
  by code_simp

lemma served_request_valid: "DataAgentAccessRequest served_request = Inr served_request" "wf_json (JObj (request_dict served_request))"
  by code_simp+

lemma served_executed:
  "\<exists>s1 response. agent_execute zeros hmac_hex served_service served_machine served_request (open_agent [] []) = (s1, Inr response) \<and> wf_json (JObj response)"
proof -
  have t: "ms_between 5 5 = PyFloat False 0" "controlled_delay (round_double (0 * 1)) (float_value (PyFloat False 0)) = 0"
    "round_double (0 * 1) < pow_rat 2 1024" "isOK (positive_multiplier (JFloat (PyFloat False 1)))" "readable_float (PyFloat False 0)" "readable_float (PyFloat False 1)"
    by code_simp+
  have open_file: "am_open served_machine (rv_path served_access) = Inr ''0123456789''"
    by (simp add: served_machine_def calm_machine_def served_access_def)
  have kind: "rv_kind served_access \<noteq> ''inline_text''" by (simp add: served_access_def)
  have "\<exists>d. execute_uncached zeros hmac_hex served_service served_machine served_request served_access = Inr d \<and> wf_json (JObj d)"
    using t hash_file_eq [OF open_file, of zeros] kind
    by (auto simp: execute_uncached_def fetch_payload_def isOK_iff Let_def served_machine_def calm_machine_def served_access_def served_request_def
        nullable_def object_catalog_version_def served_service_def DataAgentService_def served_manifest_def float_of_rat_def)
  then obtain d where d: "execute_uncached zeros hmac_hex served_service served_machine served_request served_access = Inr d" "wf_json (JObj d)" by blast
  then show ?thesis
    using served_resolved execute_refreshes(1) [OF d(1)]
    by (simp add: agent_execute_def open_agent_def store_get_def put_if_absent_def del: wf_json.simps)
qed

theorem access_is_executed_once_witness:
  "\<exists>s1 r. agent_execute zeros hmac_hex served_service (calm_machine []) served_request s1 = (s1, Inr r) \<and> length (ag_operations s1) = 1"
proof -
  obtain s1 response where e: "agent_execute zeros hmac_hex served_service served_machine served_request (open_agent [] []) = (s1, Inr response)"
    and wf: "wf_json (JObj response)" using served_executed by blast
  have none: "store_get (ag_operations (open_agent [] [])) (rq_access_id served_request) = Inr None" by (simp add: open_agent_def store_get_def)
  have "length (ag_operations s1) = 1" using executed_once [OF e none] by (auto simp: open_agent_def)
  then show ?thesis using access_is_executed_once [OF e none wf, of s1 "[]" served_request "calm_machine []"] by auto
qed

theorem signed_query_admits_exactly_witness:
  "authorize_artifact hmac_hex served_service 1000
     \<lparr>ax_access_id = ''a'', ax_path = ''/data/clip'', ax_media_type = ''video/mp4'', ax_sha256 = zeros [], ax_size_bytes = 10\<rparr>
     (parse_qs_lenient (signed_query 1300 (artifact_signature hmac_hex ''secret'' ''a'' 1300 (zeros [])))) None = Inr ()"
proof -
  have s: "ss_artifact_secret (sv_settings served_service) = Some ''secret''" by code_simp
  have "match_sha256 (artifact_signature hmac_hex ''secret'' ''a'' 1300 (zeros []))" unfolding artifact_signature_def by (rule hmac.keyed_digest_form)
  then have "valid_utf8 (artifact_signature hmac_hex ''secret'' ''a'' 1300 (zeros []))" "artifact_signature hmac_hex ''secret'' ''a'' 1300 (zeros []) \<noteq> []"
    using sha256_is_ascii match_sha256_nonempty by (auto simp: is_ascii_def intro: valid_utf8_ascii)
  then show ?thesis using signed_query_admits_exactly [OF s, of 1300] by (simp add: truncated_def)
qed

section \<open>Byte ranges\<close>

lemma send_chunks_all: "send_chunks (\<lambda>_. False) k n data = (take n data, False)"
proof (induction "\<lambda>_ :: nat. False" k n data rule: send_chunks.induct)
  case (1 k remaining data)
  have pos: "0 < CHUNK_BYTES" by (simp add: CHUNK_BYTES_def)
  let ?c = "take (min CHUNK_BYTES remaining) data"
  show ?case
  proof (cases "remaining = 0 \<or> ?c = []")
    case True
    then show ?thesis using pos by (auto simp: send_chunks.simps [of _ k])
  next
    case False
    have "take (remaining - length ?c) (drop (length ?c) data) = drop (length ?c) (take remaining data)" by (simp add: drop_take)
    moreover have "?c = take (length ?c) (take remaining data)" by (simp add: min_def)
    ultimately have "?c @ take (remaining - length ?c) (drop (length ?c) data) = take remaining data" by (metis append_take_drop_id)
    then show ?thesis using False 1 by (simp add: send_chunks.simps [of _ k] Let_def)
  qed
qed

text \<open>
  The range of a request is inside the artifact: a request that is not refused is for a nonempty interval of its bytes, or for all of an
  empty artifact; without a \<open>Range\<close> header it is for the whole artifact.
\<close>

theorem requested_ranges_are_in_bounds:
  assumes "parse_range hs n = Inr (a, b, ranged)" and "0 \<le> n"
  shows "(if n = 0 then a = 0 \<and> b = - 1 else 0 \<le> a \<and> a \<le> b \<and> b < n)
    \<and> (ranged \<longleftrightarrow> n \<noteq> 0 \<and> header_get hs ''Range'' \<noteq> None) \<and> (\<not> ranged \<longrightarrow> a = 0 \<and> b = n - 1)"
  using assms by (auto simp: parse_range_def Let_def split: if_splits option.splits prod.splits)

theorem requested_ranges_are_in_bounds_witness:
  "parse_range [(''Range'', ''bytes=-4'')] 10 = Inr (6, 9, True) \<and> (0 :: int) \<le> 6 \<and> (6 :: int) \<le> 9 \<and> (9 :: int) < 10"
proof -
  have p: "parse_range [(''Range'', ''bytes=-4'')] 10 = Inr (6, 9, True)" by code_simp
  from requested_ranges_are_in_bounds [OF this] p show ?thesis by simp
qed

definition undisturbed :: "agent_machine \<Rightarrow> bool" where
  "undisturbed mc \<longleftrightarrow> \<not> am_header_breaks mc \<and> am_chunk_breaks mc = (\<lambda>_. False) \<and> \<not> am_flush_breaks mc \<and> \<not> am_commit_fails mc"

lemma transfer_undisturbed:
  assumes "undisturbed mc" and "am_open mc (ax_path artifact) = Inr data" and "ax_size_bytes artifact = int (length data)"
    and "if data = [] then a = 0 \<and> b = - 1 else 0 \<le> a \<and> a \<le> b \<and> b < int (length data)"
  shows "transfer_artifact mc artifact a b partial =
    \<lparr>tr_responses = [\<lparr>rs_status = (if partial then 206 else 200), rs_headers = artifact_headers artifact a b partial,
        rs_body = take (nat (b - a + 1)) (drop (nat a) data)\<rparr>],
     tr_bytes_sent = b - a + 1, tr_completed = True, tr_failure = None\<rparr>"
proof -
  have "length (take (nat (b - a + 1)) (drop (nat a) data)) = nat (b - a + 1)" using assms(4) by (auto simp: min_def split: if_splits)
  then show ?thesis
    using assms by (auto simp: transfer_artifact_def undisturbed_def file_result_def send_chunks_all Let_def max_def split: if_splits)
qed

text \<open>What \<open>write_artifact\<close> leaves when nothing disturbs it: one complete response, and its row in the table.\<close>

lemma write_artifact_undisturbed:
  assumes "undisturbed mc" and "am_open mc (ax_path artifact) = Inr data" and "ax_size_bytes artifact = int (length data)"
    and "parse_range hs (int (length data)) = Inr (a, b, ranged)"
  shows "\<exists>s'. write_artifact mc hs artifact s =
      (s', [\<lparr>rs_status = (if ranged then 206 else 200), rs_headers = artifact_headers artifact a b ranged,
             rs_body = take (nat (b - a + 1)) (drop (nat a) data)\<rparr>], None)
    \<and> (\<exists>row. ag_downloads s' = ag_downloads s @ [row] \<and> dl_access_id row = ax_access_id artifact \<and> dl_range_start row = a \<and> dl_range_end row = b
         \<and> dl_bytes_sent row = b - a + 1 \<and> dl_completed row)"
proof -
  have "if data = [] then a = 0 \<and> b = - 1 else 0 \<le> a \<and> a \<le> b \<and> b < int (length data)"
    using assms(4) by (auto simp: parse_range_def Let_def split: if_splits option.splits prod.splits)
  from transfer_undisturbed [OF assms(1-3) this] show ?thesis
    using assms(1,3,4)
    by (simp add: write_artifact_def undisturbed_def record_artifact_download_def begin_artifact_download_def commit_download_def
        release_download_def download_of_def Let_def)
qed

lemma decimal_int_str: "0 \<le> n \<Longrightarrow> is_decimal (int_str n)"
  using int_str_digits [of n] by (simp add: is_decimal_def)

lemma digits_no_char: "0 \<le> n \<Longrightarrow> \<not> is_digit c \<Longrightarrow> c \<notin> set (int_str n)"
  using int_str_digits [of n] by (auto simp: list_all_iff)

lemma parse_exact_range:
  assumes "header_get hs ''Range'' = Some (''bytes='' @ int_str a @ ''-'' @ int_str b)" and "0 \<le> a" "a \<le> b" "b < n" "n < 2 ^ 63"
  shows "parse_range hs n = Inr (a, b, True)"
proof -
  have d: "\<not> is_digit (CHR '','')" "\<not> is_digit (CHR ''-'')" by code_simp+
  have "partition_at CHR ''-'' (int_str a @ ''-'' @ int_str b) = (int_str a, Some (int_str b))"
    using partition_at_found [of "CHR ''-''" "int_str a" "int_str b"] digits_no_char [OF assms(2) d(2)] by simp
  moreover have "CHR '','' \<notin> set (''bytes='' @ int_str a @ ''-'' @ int_str b)"
    using digits_no_char [OF _ d(1)] assms by simp
  ultimately show ?thesis
    using assms int_str_digits [of a] int_str_digits [of b] int_parse_str [of a] int_parse_str [of b] by (simp add: parse_range_def Let_def)
qed

lemma content_range_read:
  assumes "0 \<le> a" "0 \<le> b" "0 \<le> n"
  shows "content_range (''bytes '' @ int_str a @ ''-'' @ int_str b @ ''/'' @ int_str n) = Some (int_str a, int_str b, int_str n)"
proof -
  have d: "\<not> is_digit (CHR ''-'')" "\<not> is_digit (CHR ''/'')" by code_simp+
  show ?thesis
    using partition_at_found [OF digits_no_char [OF assms(1) d(1)], of "int_str b @ ''/'' @ int_str n"]
      partition_at_found [OF digits_no_char [OF assms(2) d(2)], of "int_str n"] decimal_int_str assms by (simp add: content_range_def)
qed

lemma quoted_digest_read: "match_sha256 g \<Longrightarrow> quoted_digest ([CHR 0x22] @ g @ [CHR 0x22]) = Some g"
  by (auto simp: quoted_digest_def match_sha256_def)

lemma artifact_header_get:
  "header_get (artifact_headers artifact a b p) ''Content-Type'' = Some (ax_media_type artifact)"
  "header_get (artifact_headers artifact a b p) ''Content-Length'' = Some (int_str (max 0 (b - a + 1)))"
  "header_get (artifact_headers artifact a b p) ''ETag'' = Some ([CHR 0x22] @ ax_sha256 artifact @ [CHR 0x22])"
  "header_get (artifact_headers artifact a b True) ''Content-Range''
     = Some (''bytes '' @ int_str a @ ''-'' @ int_str b @ ''/'' @ int_str (ax_size_bytes artifact))"
proof -
  have n: "ascii_lower ''ETag'' = ''etag''" "ascii_lower ''Accept-Ranges'' = ''accept-ranges''" "ascii_lower ''Content-Range'' = ''content-range''"
    by code_simp+
  show "header_get (artifact_headers artifact a b p) ''Content-Type'' = Some (ax_media_type artifact)"
    "header_get (artifact_headers artifact a b p) ''Content-Length'' = Some (int_str (max 0 (b - a + 1)))"
    "header_get (artifact_headers artifact a b p) ''ETag'' = Some ([CHR 0x22] @ ax_sha256 artifact @ [CHR 0x22])"
    "header_get (artifact_headers artifact a b True) ''Content-Range''
       = Some (''bytes '' @ int_str a @ ''-'' @ int_str b @ ''/'' @ int_str (ax_size_bytes artifact))"
    by (simp_all add: artifact_headers_def header_get_Cons header_names n)
qed

text \<open>
  (C39) The server answers the range a client asks for with exactly that range, in the form the client insists on, and counts it. When nothing
  breaks, the request \<open>bytes=a-b\<close> for an artifact of the digest \<open>g\<close> gets one response, which the check of the client accepts with the bytes
  from \<open>a\<close> to \<open>b\<close> of the file, its size and its digest; and one complete row of that many bytes is added to the table.
\<close>

theorem served_ranges_satisfy_the_client:
  assumes "undisturbed mc" and "am_open mc (ax_path artifact) = Inr data" and "ax_size_bytes artifact = int (length data)"
    and "match_sha256 (ax_sha256 artifact)" and "base_media_type (ax_media_type artifact) \<noteq> []"
    and "header_get hs ''Range'' = Some (''bytes='' @ int_str a @ ''-'' @ int_str b)"
    and "0 \<le> a" and "a \<le> b" and "b < int (length data)" and "int (length data) < 2 ^ 63"
  shows "\<exists>s' response row. write_artifact mc hs artifact s = (s', [response], None)
    \<and> range_response a b (rs_status response) (rs_headers response) (rs_body response)
        = Inr (take (nat (b - a + 1)) (drop (nat a) data), base_media_type (ax_media_type artifact), int (length data), ax_sha256 artifact)
    \<and> ag_downloads s' = ag_downloads s @ [row] \<and> dl_completed row \<and> dl_bytes_sent row = b - a + 1"
proof -
  have p: "parse_range hs (int (length data)) = Inr (a, b, True)" using assms(6-10) by (rule parse_exact_range)
  let ?body = "take (nat (b - a + 1)) (drop (nat a) data)"
  have "nat (b - a + 1) \<le> length data - nat a" using assms(7-9) by linarith
  then have len: "int (length ?body) = b - a + 1" using assms(8) by simp
  have "range_response a b 206 (artifact_headers artifact a b True) ?body
      = Inr (?body, base_media_type (ax_media_type artifact), int (length data), ax_sha256 artifact)"
    using assms(3-10) len decimal_count(2) [of a] decimal_count(2) [of b] decimal_count(2) [of "int (length data)"] int_parse_str [of "b - a + 1"]
      content_range_read [of a b "int (length data)"] quoted_digest_read [OF assms(4)]
    by (simp add: range_response_def artifact_header_get text_or_empty_def lift_url_def Let_def)
  then show ?thesis using write_artifact_undisturbed [OF assms(1-3) p, of s] by auto
qed


definition demo_artifact :: agent_artifact where
  "demo_artifact =
     \<lparr>ax_access_id = ''a'', ax_path = ''/data/clip'', ax_media_type = ''video/mp4'', ax_sha256 = replicate 64 (CHR ''0''), ax_size_bytes = 10\<rparr>"

theorem served_ranges_satisfy_the_client_witness:
  "\<exists>s' response row. write_artifact (calm_machine [(''/data/clip'', ''0123456789'')]) [(''Range'', ''bytes=2-5'')] demo_artifact (open_agent [] [])
      = (s', [response], None)
    \<and> range_response 2 5 (rs_status response) (rs_headers response) (rs_body response) = Inr (''2345'', ''video/mp4'', 10, replicate 64 (CHR ''0''))
    \<and> ag_downloads s' = [row] \<and> dl_completed row \<and> dl_bytes_sent row = 4"
proof -
  have m: "base_media_type ''video/mp4'' = ''video/mp4''" "match_sha256 (replicate 64 (CHR ''0''))" by code_simp+
  have r: "header_get [(''Range'', ''bytes=2-5'')] ''Range'' = Some (''bytes='' @ int_str 2 @ ''-'' @ int_str 5)" by code_simp
  show ?thesis
    using served_ranges_satisfy_the_client [of "calm_machine [(''/data/clip'', ''0123456789'')]" demo_artifact "''0123456789''", OF _ _ _ _ _ r,
        of "open_agent [] []"] m
    by (simp add: undisturbed_def calm_machine_def demo_artifact_def open_agent_def eval_nat_numeral)
qed

end
