(* ===== verification/Server_Artifacts.thy ===== *)
theory Server_Artifacts
  imports Server_Props
begin

text \<open>
  From an access to its bytes: the URL a service gives out is redeemed by its own handler.
\<close>

lemma stored_operation:
  assumes "agent_execute H M sv mc rq s = (s1, Inr response)" and "store_get (ag_operations s) (rq_access_id rq) = Inr None"
    and "wf_json (JObj response)" and "ag_operations s2 = ag_operations s1 @ added"
  shows "\<exists>rv d. resolve_access sv rq = Inr rv \<and> execute_uncached H M sv mc rq rv = Inr d \<and> response = refresh_artifact_url M sv (am_time mc 2) d
    \<and> wf_json (JObj d) \<and> store_get (ag_operations s2) (rq_access_id rq) = Inr (Some \<lparr>ao_access_id = rq_access_id rq,
        ao_request_sha256 = H (request_json rq), ao_request_json = request_json rq, ao_response = loads_dict d\<rparr>)"
proof -
  obtain rv d where rv: "resolve_access sv rq = Inr rv" and d: "execute_uncached H M sv mc rq rv = Inr d"
    and r: "response = refresh_artifact_url M sv (am_time mc 2) d"
    and s1: "s1 = s\<lparr>ag_operations := ag_operations s @ [\<lparr>op_access_id = rq_access_id rq, op_request_sha256 = H (request_json rq),
         op_request_json = request_json rq, op_response_json = dumps (JObj d), op_created_at = am_time mc 1\<rparr>]\<rparr>"
    using executed_once [OF assms(1,2)] by blast
  have wf: "wf_json (JObj d)" using assms(3) execute_refreshes(1) [OF d] r by simp
  have "store_get (ag_operations s1) (rq_access_id rq) = Inr (Some \<lparr>ao_access_id = rq_access_id rq, ao_request_sha256 = H (request_json rq),
      ao_request_json = request_json rq, ao_response = loads_dict d\<rparr>)"
    using assms(2) loads_with_dumps [OF wf, of False] unfolding store_get_None s1
    by (simp add: store_get_def find_append_None sort_keys_loads del: sort_keys.simps(7))
  from store_get_append [OF this, of added] assms(4) rv d r wf show ?thesis by auto
qed

text \<open>What the handler does with the path of an artifact.\<close>

lemma artifact_path_handled:
  assumes "netloc_error [] = None" and "valid_utf8 i" and "q = [] \<or> (\<exists>fs. q = CHR ''?'' # urlencode fs)"
    and "rq_path rq = ARTIFACT_PREFIX @ quote_strict i @ q"
  shows "agent_do_GET M netloc_error sv mc rq s = get_artifact M sv mc rq (tl q) i s"
proof -
  let ?path = "ARTIFACT_PREFIX @ quote_strict i"
  have pre: "c \<noteq> CHR ''#'' \<and> c \<noteq> CHR ''?'' \<and> c \<noteq> CHR '';'' \<and> 32 < ord c" if "c \<in> set ARTIFACT_PREFIX" for c
    using that by (auto simp: ARTIFACT_PREFIX_def ord_def)
  have "c \<noteq> CHR ''#'' \<and> c \<noteq> CHR ''?'' \<and> c \<noteq> CHR '';'' \<and> 32 < ord c" if "c \<in> set ?path" for c
    using that pre [of c] quote_strict_chars [of i] path_quoted_plain [of c] by (auto simp: list_all_iff)
  moreover have "hd ?path = CHR ''/''" "?path \<noteq> []" "take 2 ?path \<noteq> ''//''" by (simp_all add: ARTIFACT_PREFIX_def)
  ultimately obtain u where u: "urlparse netloc_error (?path @ q) = Inr u" "u_path u = ?path" "u_query u = tl q"
    using urlparse_plain_target [of ?path netloc_error q] assms(1,3) by blast
  have "?path \<noteq> ''/healthz''" "\<not> prefix TELEMETRY_PREFIX ?path" "prefix ARTIFACT_PREFIX ?path"
    by (simp_all add: ARTIFACT_PREFIX_def TELEMETRY_PREFIX_def)
  then show ?thesis using u assms(2,4) by (simp add: agent_do_GET_def unquote_quote_strict Let_def)
qed

lemma fetched_payload_artifact:
  assumes "fetch_payload H M sv mc rq rv = Inr (digest, value, n)" and "rv_kind rv \<noteq> ''inline_text''" and "am_open mc (rv_path rv) = Inr data"
  shows "digest = H data \<and> n = int (length data)"
  using assms hash_file_eq [OF assms(3)] by (auto simp: fetch_payload_def result_simps)

lemma stored_artifact:
  assumes get: "store_get (ag_operations s) (rq_access_id rq) = Inr (Some \<lparr>ao_access_id = rq_access_id rq, ao_request_sha256 = g,
      ao_request_json = request_json rq, ao_response = loads_dict d\<rparr>)"
    and valid: "DataAgentAccessRequest rq = Inr rq" "wf_json (JObj (request_dict rq))"
    and d: "resolve_access sv rq = Inr rv" "execute_uncached H M sv mc rq rv = Inr d" "wf_json (JObj d)"
    and kind: "rv_kind rv = ''artifact_uri''" and data: "am_open mc (rv_path rv) = Inr data"
    and size: "am_stat mc2 (rv_path rv) = Inr n"
  shows "resolve_artifact sv mc2 s (rq_access_id rq) = Inr \<lparr>ax_access_id = rq_access_id rq, ax_path = rv_path rv, ax_media_type = rv_media_type rv,
     ax_sha256 = H data, ax_size_bytes = n\<rparr>"
proof -
  obtain v digest t where form: "d = [(''api_version'', JStr DATA_AGENT_API_VERSION), (''status'', JStr ''succeeded''), (''access_id'', JStr (rq_access_id rq)),
       (''object_id'', nullable JStr (rq_object_id rq)), (''object_catalog_version'', object_catalog_version sv),
       (''payload'', JObj [(''kind'', JStr (rv_kind rv)), (''media_type'', JStr (rv_media_type rv)), (''value'', JStr v), (''sha256'', JStr digest)]),
       (''telemetry'', JObj t)]" and "\<exists>n. fetch_payload H M sv mc rq rv = Inr (digest, v, n)"
    using execute_uncached_form [OF d(2)] by blast
  then have digest: "digest = H data" using fetched_payload_artifact kind data by fastforce
  let ?p = "[(''kind'', JStr (rv_kind rv)), (''media_type'', JStr (rv_media_type rv)), (''value'', JStr v), (''sha256'', JStr digest)]"
  have "distinct (map fst d)" using d(3) by simp
  moreover have "dget d ''payload'' = JObj ?p" unfolding form by (simp add: dget_def)
  ultimately have payload: "dget (loads_dict d) ''payload'' = JObj (loads_dict ?p)"
    by (simp add: dget_loads sort_keys_loads del: sort_keys.simps(7))
  have "dget (loads_dict ?p) ''kind'' = JStr ''artifact_uri''" "dget (loads_dict ?p) ''sha256'' = JStr (H data)"
    using kind digest by (simp_all add: dget_loads) (simp_all add: dget_def)
  moreover have "distinct (map fst (rq_binding rq))" using valid(2) by (simp add: request_dict_def)
  then have "resolve_access sv (sorted_request rq) = Inr rv" using d(1) by (simp add: resolve_sorted)
  ultimately show ?thesis
    using get stored_request_read [OF valid] payload size by (simp add: resolve_artifact_def file_result_def)
qed

text \<open>
  (C33) A URL that was given out is honoured. Let a service with an artifact secret execute an access to an artifact whose file holds \<open>data\<close>. The
  response names the digest of \<open>data\<close> and a URL under the public base of the service. Until that URL expires, whatever was executed since, its
  request is answered with status 200 and the bytes of the file, and the digest the response promised is that of the bytes.
\<close>

theorem handed_out_url_serves_the_artifact:
  assumes "agent_execute H hmac_hex sv mc rq s = (s1, Inr response)" and "store_get (ag_operations s) (rq_access_id rq) = Inr None"
    and "wf_json (JObj response)" and "wf_json (JObj (request_dict rq))" and "DataAgentAccessRequest rq = Inr rq"
    and "ss_artifact_secret (sv_settings sv) = Some secret" and "valid_utf8 (rq_access_id rq)" and "valid_path_id (rq_access_id rq)"
    and "resolve_access sv rq = Inr rv" and "rv_kind rv = ''artifact_uri''" and "am_open mc (rv_path rv) = Inr data"
    and "e = truncated (am_time mc 2) + ss_artifact_url_ttl_seconds (sv_settings sv)" and "0 \<le> e" and "e < 2 ^ 63"
    and "ag_operations s2 = ag_operations s1 @ added" and "undisturbed mc2" and "am_open mc2 (rv_path rv) = Inr data"
    and "am_stat mc2 (rv_path rv) = Inr (int (length data))" and "truncated (am_time mc2 2) \<le> e" and "header_get hs ''Range'' = None"
    and "netloc_error [] = None"
  shows "\<exists>payload target s3 hs'. dget response ''payload'' = JObj payload \<and> dget payload ''value'' = JStr (sv_public_base_url sv @ target)
    \<and> dget payload ''sha256'' = JStr (H data)
    \<and> agent_do_GET hmac_hex netloc_error sv mc2 \<lparr>rq_path = target, rq_headers = hs, rq_body = []\<rparr> s2
        = (s3, Writes [\<lparr>rs_status = 200, rs_headers = hs', rs_body = data\<rparr>])"
proof -
  let ?i = "rq_access_id rq" and ?sig = "artifact_signature hmac_hex secret (rq_access_id rq) e (H data)"
  let ?target = "ARTIFACT_PREFIX @ quote_strict (rq_access_id rq) @ ''?'' @ signed_query e (artifact_signature hmac_hex secret (rq_access_id rq) e (H data))"
  obtain d where d: "execute_uncached H hmac_hex sv mc rq rv = Inr d" and r: "response = refresh_artifact_url hmac_hex sv (am_time mc 2) d"
    and wf: "wf_json (JObj d)" and get: "store_get (ag_operations s2) ?i = Inr (Some \<lparr>ao_access_id = ?i,
        ao_request_sha256 = H (request_json rq), ao_request_json = request_json rq, ao_response = loads_dict d\<rparr>)"
    using stored_operation [OF assms(1-3,15)] assms(9) by auto
  obtain v digest t where form: "d = [(''api_version'', JStr DATA_AGENT_API_VERSION), (''status'', JStr ''succeeded''), (''access_id'', JStr ?i),
       (''object_id'', nullable JStr (rq_object_id rq)), (''object_catalog_version'', object_catalog_version sv),
       (''payload'', JObj [(''kind'', JStr (rv_kind rv)), (''media_type'', JStr (rv_media_type rv)), (''value'', JStr v), (''sha256'', JStr digest)]),
       (''telemetry'', JObj t)]" and "\<exists>n. fetch_payload H hmac_hex sv mc rq rv = Inr (digest, v, n)"
    using execute_uncached_form [OF d] by blast
  then have digest: "digest = H data" using fetched_payload_artifact assms(10,11) by fastforce
  have url: "artifact_url hmac_hex sv (am_time mc 2) ?i (H data) = sv_public_base_url sv @ ?target"
    using assms(6,12) by (simp add: artifact_url_def signed_query_def ARTIFACT_PREFIX_def Let_def)
  have payload: "dget response ''payload'' = JObj [(''kind'', JStr (rv_kind rv)), (''media_type'', JStr (rv_media_type rv)),
      (''value'', JStr (sv_public_base_url sv @ ?target)), (''sha256'', JStr (H data))]"
    unfolding r refresh_value [OF form] using assms(10) digest url by (simp add: dget_def)
  let ?a = "\<lparr>ax_access_id = ?i, ax_path = rv_path rv, ax_media_type = rv_media_type rv, ax_sha256 = H data, ax_size_bytes = int (length data)\<rparr>"
  let ?rq = "\<lparr>rq_path = ?target, rq_headers = hs, rq_body = []\<rparr>"
  have artifact: "resolve_artifact sv mc2 s2 ?i = Inr ?a" by (rule stored_artifact [OF get assms(5,4,9) d wf assms(10,11,18)])
  have sig: "match_sha256 ?sig" unfolding artifact_signature_def by (rule hmac.keyed_digest_form)
  then have "valid_utf8 ?sig" "?sig \<noteq> []"
    using sha256_is_ascii match_sha256_nonempty by (auto simp: is_ascii_def intro: valid_utf8_ascii)
  then have "authorize_artifact hmac_hex sv (am_time mc2 2) ?a (parse_qs_lenient (signed_query e ?sig)) (header_get hs ''Authorization'') = Inr ()"
    using signed_query_admits [OF hmac.keyed_digest_function_axioms assms(6,13,14), of ?sig "am_time mc2 2" ?a] assms(19) by simp
  moreover obtain s3 where "write_artifact mc2 hs ?a s2 = (s3, [\<lparr>rs_status = 200, rs_headers = artifact_headers ?a 0 (int (length data) - 1) False, rs_body = data\<rparr>], None)"
  proof -
    have "parse_range hs (int (length data)) = Inr (0, int (length data) - 1, False)" using assms(20) by (simp add: parse_range_def Let_def)
    then show thesis using write_artifact_undisturbed [OF assms(16), of ?a data hs 0 "int (length data) - 1" False s2] assms(17) that by auto
  qed
  ultimately have "get_artifact hmac_hex sv mc2 ?rq (signed_query e ?sig) ?i s2
      = (s3, Writes [\<lparr>rs_status = 200, rs_headers = artifact_headers ?a 0 (int (length data) - 1) False, rs_body = data\<rparr>])"
    using artifact assms(8) by (simp add: get_artifact_def)
  moreover have "''?'' @ signed_query e ?sig = [] \<or> (\<exists>fs. ''?'' @ signed_query e ?sig = CHR ''?'' # urlencode fs)"
    unfolding signed_query_def by auto
  ultimately have "agent_do_GET hmac_hex netloc_error sv mc2 ?rq s2
      = (s3, Writes [\<lparr>rs_status = 200, rs_headers = artifact_headers ?a 0 (int (length data) - 1) False, rs_body = data\<rparr>])"
    using artifact_path_handled [of netloc_error ?i "''?'' @ signed_query e ?sig" ?rq, OF assms(21,7)] by simp
  then show ?thesis unfolding payload by (auto simp: dget_def)
qed

theorem handed_out_url_serves_the_artifact_witness:
  "\<exists>target s2 s3 hs'. agent_do_GET hmac_hex (\<lambda>_. None) served_service served_machine \<lparr>rq_path = target, rq_headers = [], rq_body = []\<rparr> s2
     = (s3, Writes [\<lparr>rs_status = 200, rs_headers = hs', rs_body = ''0123456789''\<rparr>])"
proof -
  obtain s1 response where e: "agent_execute zeros hmac_hex served_service served_machine served_request (open_agent [] []) = (s1, Inr response)"
    and wf: "wf_json (JObj response)" using served_executed by blast
  have none: "store_get (ag_operations (open_agent [] [])) (rq_access_id served_request) = Inr None" by (simp add: open_agent_def store_get_def)
  have f: "ss_artifact_secret (sv_settings served_service) = Some ''secret''" "valid_utf8 (rq_access_id served_request)"
    "valid_path_id (rq_access_id served_request)" "rv_kind served_access = ''artifact_uri''" "ss_artifact_url_ttl_seconds (sv_settings served_service) = 300"
    by code_simp+
  have m: "am_open served_machine (rv_path served_access) = Inr ''0123456789''" "am_stat served_machine (rv_path served_access) = Inr (int (length ''0123456789''))"
    "undisturbed served_machine" "truncated (am_time served_machine 2) = 1000"
    by (simp_all add: served_machine_def calm_machine_def served_access_def undisturbed_def truncated_def)
  show ?thesis
    using handed_out_url_serves_the_artifact [OF e none wf served_request_valid(2,1) f(1-3) served_resolved f(4) m(1) refl _ _ append_Nil2 [symmetric] m(3,1,2),
        where hs = "[]" and netloc_error = "\<lambda>_. None"] f(5) m(4)
    by (auto simp: header_get_Nil)
qed

end
