(* ===== verification/Manifest_Props.thy ===== *)
theory Manifest_Props
  imports Agent_Manifest
begin

text \<open>
  Properties of the manifest of a Data Agent: what a manifest that was loaded promises of every access it resolves, and that every object of
  its catalog can be resolved.
\<close>

definition binding_ok :: "binding_spec \<Rightarrow> bool" where
  "binding_ok b \<longleftrightarrow> 0 \<le> float_value (bs_minimum_latency_ms b) \<and> 0 \<le> float_value (bs_realized_cost b) \<and> bs_location b \<noteq> Some []"

definition representation_ok :: "representation_spec \<Rightarrow> bool" where
  "representation_ok r \<longleftrightarrow> rp_kind r \<in> {''inline_text'', ''artifact_uri''} \<and> strip (rp_media_type r) \<noteq> [] \<and> binding_ok (rp_default_binding r)
     \<and> (\<forall>(plan_id, b) \<in> set (rp_plan_bindings r). plan_id \<noteq> [] \<and> binding_ok b)"

definition manifest_ok :: "data_agent_manifest \<Rightarrow> bool" where
  "manifest_ok m \<longleftrightarrow> (\<forall>(i, r) \<in> set (dm_representations m). i \<noteq> [] \<and> rp_representation_id r = i \<and> representation_ok r)
     \<and> (\<forall>c. dm_object_catalog m = Some c \<longrightarrow>
          strip (oc_catalog_version c) \<noteq> []
          \<and> (\<forall>(oid, rs) \<in> set (oc_objects c). \<forall>(i, x) \<in> set rs. i \<in> fst ` set (dm_representations m)))"

lemma strip_Nil [simp]: "strip [] = []"
  by code_simp

lemma manifest_number_Inr: "manifest_number v name = Inr f \<Longrightarrow> 0 \<le> float_value f"
  by (auto simp: manifest_number_def result_simps Let_def split: json.splits)

lemma manifest_string_strip: "manifest_string v name = Inr s \<Longrightarrow> strip s \<noteq> []"
  by (auto simp: manifest_string_def result_simps Let_def split: json.splits)

lemma catalog_version_strip: "load_data_object_catalog mr path = Inr c \<Longrightarrow> strip (oc_catalog_version c) \<noteq> []"
  by (auto simp: load_data_object_catalog_def result_simps Let_def dest!: manifest_string_strip)

lemma parse_binding_ok: "parse_binding mr dir i j d = Inr b \<Longrightarrow> binding_ok b"
  by (auto simp: parse_binding_def binding_ok_def result_simps Let_def dest!: manifest_number_Inr split: json.splits)

lemma list_all2_in: "list_all2 P xs ys \<Longrightarrow> y \<in> set ys \<Longrightarrow> \<exists>x \<in> set xs. P x y"
  by (induction rule: list_all2_induct) auto

lemma parse_plan_binding_ok: "parse_plan_binding mr dir i p = Inr (plan_id, b) \<Longrightarrow> plan_id \<noteq> [] \<and> binding_ok b"
  by (auto simp: parse_plan_binding_def map_sum_Inr_iff result_simps intro: parse_binding_ok)

lemma parse_representation_ok:
  assumes "parse_representation mr dir i d q = Inr r"
  shows "rp_representation_id r = i \<and> representation_ok r"
proof -
  obtain raw raw_default where b: "list_all2 (\<lambda>x y. parse_plan_binding mr dir i x = Inr y) raw (rp_plan_bindings r)"
    and default: "parse_binding mr dir i ''default_binding'' raw_default = Inr (rp_default_binding r)"
    and rest: "rp_representation_id r = i" "rp_kind r \<in> {''inline_text'', ''artifact_uri''}" "strip (rp_media_type r) \<noteq> []"
    using assms by (auto simp: parse_representation_def manifest_string_def result_simps Let_def split: json.splits)
  have "plan_id \<noteq> [] \<and> binding_ok c" if "(plan_id, c) \<in> set (rp_plan_bindings r)" for plan_id c
    using list_all2_in [OF b that] parse_plan_binding_ok by blast
  then show ?thesis using rest parse_binding_ok [OF default] by (auto simp: representation_ok_def)
qed

lemma unknown_none: "unknown_representations c rs = [] \<Longrightarrow> \<forall>(oid, xs) \<in> set (oc_objects c). \<forall>(i, x) \<in> set xs. i \<in> fst ` set rs"
proof -
  assume "unknown_representations c rs = []"
  then have "r \<in> fst ` set rs" if "r \<in> set (concat (map (\<lambda>(_, rs). map fst rs) (oc_objects c)))" for r
    using that unfolding unknown_representations_def sort_key_eq_Nil remdups_eq_nil_iff filter_empty_conv by blast
  then have "i \<in> fst ` set rs" if "(oid, xs) \<in> set (oc_objects c)" "(i, x) \<in> set xs" for oid xs i x
    using that by force
  then show ?thesis by blast
qed

lemma loaded_manifest_ok:
  assumes "load_data_agent_manifest mr path = Inr m"
  shows "manifest_ok m"
proof -
  obtain dir q raw raw_path where reps: "list_all2 (\<lambda>x y. load_representation mr dir q x = Inr y) raw (dm_representations m)"
    and cat: "load_catalog_for mr dir raw_path (dm_representations m) = Inr (dm_object_catalog m)"
    using assms by (auto simp: load_data_agent_manifest_def result_simps Let_def)
  have "i \<noteq> [] \<and> rp_representation_id r = i \<and> representation_ok r" if "(i, r) \<in> set (dm_representations m)" for i r
    using list_all2_in [OF reps that] by (auto simp: load_representation_def map_sum_Inr_iff result_simps dest: parse_representation_ok)
  moreover have "unknown_representations c (dm_representations m) = [] \<and> strip (oc_catalog_version c) \<noteq> []" if "dm_object_catalog m = Some c" for c
    using cat that by (auto simp: load_catalog_for_def result_simps Let_def dest: catalog_version_strip split: option.splits json.splits)
  ultimately show ?thesis unfolding manifest_ok_def using unknown_none by blast
qed

text \<open>What a resolved access is under a manifest that satisfies the invariant.\<close>

lemma resolved_access_ok:
  assumes ok: "manifest_ok m" and "manifest_resolve m plan_id object_id representation_id location = Inr a"
  shows "\<exists>r b. map_of (dm_representations m) representation_id = Some r
    \<and> (map_of (rp_plan_bindings r) plan_id = Some b \<or> map_of (rp_plan_bindings r) plan_id = None \<and> \<not> dm_require_plan_binding m \<and> b = rp_default_binding r)
    \<and> rv_location a = location \<and> (bs_location b = None \<or> bs_location b = Some location)
    \<and> rv_kind a = rp_kind r \<and> rv_kind a \<in> {''inline_text'', ''artifact_uri''} \<and> rv_media_type a = rp_media_type r
    \<and> rv_realized_cost a = bs_realized_cost b \<and> 0 \<le> float_value (rv_realized_cost a) \<and> 0 \<le> float_value (rv_minimum_latency_ms a)
    \<and> (case dm_object_catalog m of
         None \<Rightarrow> Some (rv_path a) = (if bs_path b \<noteq> None then bs_path b else rp_path r)
       | Some c \<Rightarrow> \<exists>oid. object_id = Some oid \<and> catalog_resolve_path c oid representation_id plan_id = Inr (rv_path a))"
proof -
  obtain r b where r: "map_of (dm_representations m) representation_id = Some r" and b: "plan_binding m r plan_id representation_id = Inr b"
    and loc: "bs_location b = None \<or> bs_location b = Some location"
    and a: "rv_kind a = rp_kind r" "rv_media_type a = rp_media_type r" "rv_realized_cost a = bs_realized_cost b"
      "rv_minimum_latency_ms a = bs_minimum_latency_ms b" "rv_location a = (if text_or_empty (bs_location b) = [] then location else text_or_empty (bs_location b))"
    and p: "case dm_object_catalog m of
         None \<Rightarrow> Some (rv_path a) = (if bs_path b \<noteq> None then bs_path b else rp_path r)
       | Some c \<Rightarrow> \<exists>oid. object_id = Some oid \<and> catalog_resolve_path c oid representation_id plan_id = Inr (rv_path a)"
    using assms(2)
    by (cases "dm_object_catalog m"; cases object_id)
      (auto simp: manifest_resolve_def map_sum_Inr_iff result_simps split: option.splits)
  have rok: "representation_ok r" using ok map_of_SomeD [OF r] by (auto simp: manifest_ok_def)
  have choice: "map_of (rp_plan_bindings r) plan_id = Some b \<or> map_of (rp_plan_bindings r) plan_id = None \<and> \<not> dm_require_plan_binding m \<and> b = rp_default_binding r"
    using b by (auto simp: plan_binding_def split: option.splits if_splits)
  then have "binding_ok b" using rok by (auto simp: representation_ok_def dest!: map_of_SomeD)
  then show ?thesis using r choice a loc p rok by (intro exI conjI) (auto simp: binding_ok_def representation_ok_def text_or_empty_def)
qed

lemma resolved_media_type:
  assumes "manifest_ok m" and "manifest_resolve m plan_id object_id representation_id location = Inr a"
  shows "strip (rv_media_type a) \<noteq> []"
proof -
  obtain r where "map_of (dm_representations m) representation_id = Some r" "rv_media_type a = rp_media_type r"
    using resolved_access_ok [OF assms] by blast
  then show ?thesis using assms(1) by (auto simp: manifest_ok_def representation_ok_def dest!: map_of_SomeD)
qed

section \<open>An example\<close>

text \<open>A manifest with a catalog of one object, which has a file of its own under the plan \<open>p\<close>.\<close>

definition in_double :: "string \<Rightarrow> string" where
  "in_double s = [CHR 0x22] @ s @ [CHR 0x22]"

definition stored_manifest :: string where
  "stored_manifest = concat
     [''{'', in_double ''node_id'', '':'', in_double ''n1'', '','', in_double ''object_catalog_path'', '':'', in_double ''c'', '','', in_double ''representations'', '':{'', in_double ''r'', '':{'',
      in_double ''kind'', '':'', in_double ''inline_text'', '','', in_double ''media_type'', '':'', in_double ''text/plain'', '','', in_double ''plan_bindings'', '':{'', in_double ''p'', '':{'',
      in_double ''location'', '':'', in_double ''edge'', ''}}}},'', in_double ''schema_version'', '':'', in_double DATA_AGENT_MANIFEST_VERSION, ''}'']"

definition stored_catalog :: string where
  "stored_catalog = concat
     [''{'', in_double ''catalog_version'', '':'', in_double ''v1'', '','', in_double ''objects'', '':{'', in_double ''o'', '':{'', in_double ''representations'', '':{'', in_double ''r'', '':{'',
      in_double ''path'', '':'', in_double ''o.txt'', '','', in_double ''plan_paths'', '':{'', in_double ''p'', '':'', in_double ''p.txt'', ''}}}}},'', in_double ''schema_version'', '':'',
      in_double DATA_OBJECT_CATALOG_VERSION, ''}'']"

definition manifest_files :: manifest_reader where
  "manifest_files = \<lparr>mr_resolve = Some, mr_read = (\<lambda>p. if p = ''/d/m'' then Inr stored_manifest else if p = ''/d/c'' then Inr stored_catalog else Inl ''missing'')\<rparr>"

definition example_manifest :: data_agent_manifest where
  "example_manifest =
     \<lparr>dm_source_path = ''/d/m'', dm_node_id = ''n1'', dm_require_plan_binding = True,
      dm_representations =
        [(''r'', \<lparr>rp_representation_id = ''r'', rp_kind = ''inline_text'', rp_media_type = ''text/plain'', rp_path = None,
            rp_default_binding = \<lparr>bs_location = None, bs_minimum_latency_ms = PyFloat False 0, bs_realized_cost = PyFloat False 0, bs_cache_hit = None, bs_path = None\<rparr>,
            rp_plan_bindings =
              [(''p'', \<lparr>bs_location = Some ''edge'', bs_minimum_latency_ms = PyFloat False 0, bs_realized_cost = PyFloat False 0, bs_cache_hit = None, bs_path = None\<rparr>)]\<rparr>)],
      dm_object_catalog = Some \<lparr>oc_source_path = ''/d/c'', oc_catalog_version = ''v1'',
        oc_objects = [(''o'', [(''r'', \<lparr>or_path = ''/d/o.txt'', or_plan_paths = [(''p'', ''/d/p.txt'')]\<rparr>)])]\<rparr>\<rparr>"

lemma example_loaded: "load_data_agent_manifest manifest_files ''/d/m'' = Inr example_manifest"
  by code_simp

section \<open>The results\<close>

text \<open>
  (C40) The manifest decides what is served. Under a manifest that was loaded, an access that is resolved is served at the location it asked for,
  with one of the two kinds, at a cost and a latency that are not negative; it is the access of the binding of its plan, or of the
  default binding if the manifest does not insist on plans; and its file is the one the manifest or its catalog names.
\<close>

theorem manifest_decides_what_is_served:
  assumes "load_data_agent_manifest mr path = Inr m" and "manifest_resolve m plan_id object_id representation_id location = Inr a"
  shows "\<exists>r b. map_of (dm_representations m) representation_id = Some r
    \<and> (map_of (rp_plan_bindings r) plan_id = Some b \<or> map_of (rp_plan_bindings r) plan_id = None \<and> \<not> dm_require_plan_binding m \<and> b = rp_default_binding r)
    \<and> rv_location a = location \<and> (bs_location b = None \<or> bs_location b = Some location)
    \<and> rv_kind a = rp_kind r \<and> rv_kind a \<in> {''inline_text'', ''artifact_uri''} \<and> rv_media_type a = rp_media_type r
    \<and> rv_realized_cost a = bs_realized_cost b \<and> 0 \<le> float_value (rv_realized_cost a) \<and> 0 \<le> float_value (rv_minimum_latency_ms a)
    \<and> (case dm_object_catalog m of
         None \<Rightarrow> Some (rv_path a) = (if bs_path b \<noteq> None then bs_path b else rp_path r)
       | Some c \<Rightarrow> \<exists>oid. object_id = Some oid \<and> catalog_resolve_path c oid representation_id plan_id = Inr (rv_path a))"
  by (rule resolved_access_ok [OF loaded_manifest_ok [OF assms(1)] assms(2)])

theorem manifest_decides_what_is_served_witness:
  "\<exists>a. manifest_resolve example_manifest ''p'' (Some ''o'') ''r'' ''edge'' = Inr a \<and> rv_location a = ''edge'' \<and> rv_path a = ''/d/p.txt''"
proof -
  have r: "(case manifest_resolve example_manifest ''p'' (Some ''o'') ''r'' ''edge'' of Inr a \<Rightarrow> rv_path a = ''/d/p.txt'' | Inl _ \<Rightarrow> False)" by code_simp
  then obtain a where a: "manifest_resolve example_manifest ''p'' (Some ''o'') ''r'' ''edge'' = Inr a" by (auto split: sum.splits)
  from manifest_decides_what_is_served [OF example_loaded a] a r show ?thesis by auto
qed

text \<open>
  Every object of the catalog can be served: under a manifest that was loaded with a catalog, an access to a representation of an object of the
  catalog fails only for its plan or its location.
\<close>

theorem catalogued_objects_resolve:
  assumes "load_data_agent_manifest mr path = Inr m" and "dm_object_catalog m = Some c" and "map_of (oc_objects c) oid = Some xs"
    and "map_of xs i = Some x"
  shows "\<exists>r. map_of (dm_representations m) i = Some r
    \<and> (\<forall>plan_id location. isOK (manifest_resolve m plan_id (Some oid) i location)
         \<longleftrightarrow> (\<exists>b. plan_binding m r plan_id i = Inr b \<and> (bs_location b = None \<or> bs_location b = Some location)))"
proof -
  have "i \<in> fst ` set (dm_representations m)"
    using loaded_manifest_ok [OF assms(1)] assms(2) map_of_SomeD [OF assms(3)] map_of_SomeD [OF assms(4)] by (fastforce simp: manifest_ok_def)
  then obtain r where "map_of (dm_representations m) i = Some r" by (metis map_of_eq_None_iff not_None_eq)
  then show ?thesis
    using assms(2-4) by (auto simp: manifest_resolve_def isOK_iff result_simps catalog_resolve_path_def)
qed

theorem catalogued_objects_resolve_witness:
  "isOK (manifest_resolve example_manifest ''p'' (Some ''o'') ''r'' ''edge'')"
proof -
  have m: "dm_object_catalog example_manifest = Some \<lparr>oc_source_path = ''/d/c'', oc_catalog_version = ''v1'',
        oc_objects = [(''o'', [(''r'', \<lparr>or_path = ''/d/o.txt'', or_plan_paths = [(''p'', ''/d/p.txt'')]\<rparr>)])]\<rparr>" by (simp add: example_manifest_def)
  from catalogued_objects_resolve [OF example_loaded m, of "''o''" "[(''r'', \<lparr>or_path = ''/d/o.txt'', or_plan_paths = [(''p'', ''/d/p.txt'')]\<rparr>)]" "''r''"]
  show ?thesis by (auto simp: example_manifest_def plan_binding_def)
qed

end
