(* ===== verification/Server_Remote.thy ===== *)
theory Server_Remote
  imports Server_Artifacts Manifest_Props
begin

text \<open>
  The Data Agent server under its clients: which requests change its state, and that an access over HTTP is the access the service executes.
\<close>

section \<open>Authorization\<close>






section \<open>A client and the service\<close>














section \<open>An example\<close>















end
